(* ===== verification/Prelude.thy ===== *)
theory Prelude
  imports "HOL-Library.Word" "HOL-Library.Sublist" "HOL-Library.State_Monad" Complex_Main
begin

text \<open>
  Shared ground of the development: the machine types of the C++ sources, the byte codec of a
  32-bit scalar in a flat buffer, memory overlays (memcpy into a block), the state monad in which
  the stateful code is written, and the rules that carry a relation between the states before and
  after a piece of stateful code (\<open>state_io_rel\<close>) through its composition.
\<close>

named_theorems io_rel \<open>composition rules for relations preserved by stateful code\<close>
named_theorems run_simps \<open>evaluation of the primitive state accesses\<close>

section \<open>Machine types\<close>

type_synonym byte = "8 word"
type_synonym u32 = "32 word"
type_synonym u64 = "64 word"

text \<open>A std::string holds chars; its bytes are what is copied into a buffer.\<close>

definition bytes_of_string :: "string \<Rightarrow> byte list" where
  "bytes_of_string s = map (\<lambda>c. word_of_nat (of_char c)) s"

lemma length_bytes_of_string [simp]: "length (bytes_of_string s) = length s"
  by (simp add: bytes_of_string_def)

section \<open>Little-endian 32-bit scalars\<close>

definition le32_bytes :: "u32 \<Rightarrow> byte list" where
  "le32_bytes w = map (\<lambda>i. ucast (drop_bit (8 * i) w)) [0, 1, 2, 3]"

definition le32_read :: "byte list \<Rightarrow> u32" where
  "le32_read bs = word_of_nat
     (unat (bs ! 0) + 256 * unat (bs ! 1) + 65536 * unat (bs ! 2) + 16777216 * unat (bs ! 3))"

lemma length_le32_bytes [simp]: "length (le32_bytes w) = 4"
  by (simp add: le32_bytes_def)

lemma unat_u32_less: "unat (w::u32) < 4294967296"
  using unsigned_less [of w] by simp

lemma unat_ucast_byte: "unat (ucast (drop_bit k (w::u32)) :: byte) = (unat w div 2 ^ k) mod 256"
  by (simp only: unsigned_ucast_eq unsigned_drop_bit_eq) (simp add: drop_bit_eq_div take_bit_eq_mod unat_u32_less)

lemma le32_read_bytes [simp]: "le32_read (le32_bytes w @ xs) = w"
proof -
  have split4: "n = n mod 256 + 256 * (n div 256 mod 256) + 65536 * (n div 65536 mod 256)
      + 16777216 * (n div 16777216 mod 256)" if "n < 4294967296" for n :: nat
  proof -
    have "n div 65536 = n div 256 div 256" "n div 16777216 = n div 256 div 256 div 256"
      by (simp_all add: div_mult2_eq [symmetric])
    moreover have "n div 256 div 256 div 256 < 256"
      using that by (simp add: div_mult2_eq [symmetric] less_mult_imp_div_less)
    moreover have "n = n mod 256 + 256 * (n div 256)"
      "n div 256 = n div 256 mod 256 + 256 * (n div 256 div 256)"
      "n div 256 div 256 = n div 256 div 256 mod 256 + 256 * (n div 256 div 256 div 256)"
      by simp_all
    ultimately show ?thesis by (simp only: mod_less)
  qed
  have "unat w < 4294967296"
    by (rule unat_u32_less)
  note sum = split4 [OF this, symmetric]
  have bytes: "map unat (le32_bytes w) = [unat w mod 256, unat w div 256 mod 256,
      unat w div 65536 mod 256, unat w div 16777216 mod 256]"
    unfolding le32_bytes_def list.map unat_ucast_byte by simp
  have "unat ((le32_bytes w @ xs) ! i) = map unat (le32_bytes w) ! i" if "i < 4" for i
    using that by (simp add: nth_append)
  then have "le32_read (le32_bytes w @ xs) = word_of_nat (unat w)"
    unfolding le32_read_def bytes by (simp only: sum) (simp add: sum del: of_nat_add of_nat_mult)
  then show ?thesis by simp
qed

lemma le32_read_bytes_only [simp]: "le32_read (le32_bytes w) = w"
  using le32_read_bytes [of w "[]"] by simp

lemma le32_read_take: "4 \<le> k \<Longrightarrow> le32_read (take k xs) = le32_read xs"
  by (simp add: le32_read_def)

section \<open>Memory blocks\<close>

text \<open>\<open>overlay m off xs\<close> is the block \<open>m\<close> after copying \<open>xs\<close> to offset \<open>off\<close>.\<close>

definition overlay :: "byte list \<Rightarrow> nat \<Rightarrow> byte list \<Rightarrow> byte list" where
  "overlay m off xs = take off m @ xs @ drop (off + length xs) m"

lemma length_overlay [simp]:
  "off + length xs \<le> length m \<Longrightarrow> length (overlay m off xs) = length m"
  by (simp add: overlay_def)

lemma overlay_nil [simp]: "overlay m off [] = m"
  by (simp add: overlay_def)

lemma take_overlay: "off \<le> length m \<Longrightarrow> take (off + length xs) (overlay m off xs) = take off m @ xs"
  by (simp add: overlay_def)

lemma take_overlay_le: "k \<le> off \<Longrightarrow> off \<le> length m \<Longrightarrow> take k (overlay m off xs) = take k m"
  by (simp add: overlay_def min_def)

lemma take_overlay_zero [simp]: "k = length xs \<Longrightarrow> take k (overlay m 0 xs) = xs"
  by (simp add: overlay_def)

section \<open>The state monad\<close>

definition gets :: "('s \<Rightarrow> 'a) \<Rightarrow> ('s, 'a) state" where
  "gets f = State (\<lambda>s. (f s, s))"

definition modify :: "('s \<Rightarrow> 's) \<Rightarrow> ('s, unit) state" where
  "modify f = State (\<lambda>s. ((), f s))"

abbreviation ret :: "'a \<Rightarrow> ('s, 'a) state" where
  "ret \<equiv> State_Monad.return"

text \<open>An if statement without an else branch.\<close>

definition when_do :: "bool \<Rightarrow> ('s, unit) state \<Rightarrow> ('s, unit) state" where
  "when_do b m = (if b then m else ret ())"

lemma run_gets [simp, run_simps]: "run_state (gets f) s = (f s, s)"
  by (simp add: gets_def)

lemma run_modify [simp, run_simps]: "run_state (modify f) s = ((), f s)"
  by (simp add: modify_def)

lemma run_when_do [simp, run_simps]:
  "run_state (when_do b m) s = (if b then run_state m s else ((), s))"
  by (simp add: when_do_def)

lemma run_if: "run_state (if b then m else n) s = (if b then run_state m s else run_state n s)"
  by simp

section \<open>Relations kept by stateful code\<close>

definition rel_pre :: "('s \<Rightarrow> 's \<Rightarrow> bool) \<Rightarrow> bool" where
  "rel_pre R \<longleftrightarrow> (\<forall>s. R s s) \<and> (\<forall>a b c. R a b \<longrightarrow> R b c \<longrightarrow> R a c)"

lemma rel_pre_refl: "rel_pre R \<Longrightarrow> R s s"
  by (simp add: rel_pre_def)

lemma rel_pre_trans: "rel_pre R \<Longrightarrow> R a b \<Longrightarrow> R b c \<Longrightarrow> R a c"
  by (auto simp: rel_pre_def)

lemma io_relD: "state_io_rel R m \<Longrightarrow> R s (snd (run_state m s))"
  by (simp add: state_io_rel_def)

lemma io_rel_return [io_rel]: "rel_pre R \<Longrightarrow> state_io_rel R (ret x)"
  by (simp add: state_io_rel_def rel_pre_def)

lemma io_rel_gets [io_rel]: "rel_pre R \<Longrightarrow> state_io_rel R (gets f)"
  by (simp add: state_io_rel_def rel_pre_def)

lemma io_rel_modify: "(\<And>s. R s (f s)) \<Longrightarrow> state_io_rel R (modify f)"
  by (simp add: state_io_rel_def)

lemma io_rel_bind [io_rel]:
  assumes R: "rel_pre R" and m: "state_io_rel R m" and f: "\<And>x. state_io_rel R (f x)"
  shows "state_io_rel R (State_Monad.bind m f)"
  unfolding state_io_rel_def
proof
  fix s
  obtain a s' where run: "run_state m s = (a, s')" by (cases "run_state m s")
  have "R s s'" using m run by (auto simp: state_io_rel_def dest: spec [of _ s])
  moreover have "R s' (snd (run_state (f a) s'))" using f by (simp add: state_io_rel_def)
  ultimately show "R s (snd (run_state (State_Monad.bind m f) s))"
    using R run by (auto intro: rel_pre_trans)
qed

lemma io_rel_if [io_rel]:
  "(b \<Longrightarrow> state_io_rel R m) \<Longrightarrow> (\<not> b \<Longrightarrow> state_io_rel R n) \<Longrightarrow> state_io_rel R (if b then m else n)"
  by simp

lemma io_rel_when [io_rel]: "rel_pre R \<Longrightarrow> state_io_rel R m \<Longrightarrow> state_io_rel R (when_do b m)"
  by (simp add: when_do_def io_rel_return)

lemma io_rel_case_option [io_rel]:
  "state_io_rel R m \<Longrightarrow> (\<And>x. state_io_rel R (f x)) \<Longrightarrow> state_io_rel R (case_option m f v)"
  by (cases v) simp_all

lemma io_rel_case_prod [io_rel]:
  "(\<And>x y. state_io_rel R (f x y)) \<Longrightarrow> state_io_rel R (case_prod f p)"
  by (cases p) simp

lemma io_rel_let [io_rel]: "(\<And>x. state_io_rel R (f x)) \<Longrightarrow> state_io_rel R (Let v f)"
  by (simp add: Let_def)

lemma io_rel_case_list [io_rel]:
  "state_io_rel R m \<Longrightarrow> (\<And>x xs. state_io_rel R (f x xs)) \<Longrightarrow> state_io_rel R (case_list m f v)"
  by (cases v) simp_all

end
