(* ===== verification/FlagWord.thy ===== *)
theory FlagWord
  imports Prelude
begin

text \<open>
  A C++ int used as a set of flags: every class of the gateway (proto_base, session, the etcd
  cluster) tests a flag with \<open>0 != (flags & t)\<close> and sets it with \<open>flags |= t\<close> or
  \<open>flags &= ~t\<close>. The locale is the contract of such a word over an enum of masks: the masks are
  non-zero and pairwise disjoint, and then the word behaves like a set of flags.
\<close>

unbundle bit_operations_syntax

definition word_check :: "u32 \<Rightarrow> u32 \<Rightarrow> bool" where
  "word_check w m \<longleftrightarrow> w AND m \<noteq> 0"

definition word_set :: "u32 \<Rightarrow> u32 \<Rightarrow> bool \<Rightarrow> u32" where
  "word_set w m v = (if v then w OR m else w AND NOT m)"

lemma word_check_zero [simp]: "\<not> word_check 0 m"
  by (simp add: word_check_def)

text \<open>
  flag_guard_t of proto_base.cpp, on the word: the constructor sets the missing bits of \<open>v\<close> and
  remembers them (None stands for flags_ = NULL, nothing to undo); the destructor clears exactly
  those bits.
\<close>

definition flag_guard_enter :: "u32 \<Rightarrow> u32 \<Rightarrow> u32 \<times> u32 option" where
  "flag_guard_enter f v =
     (if f = (f OR v) then (f, None)
      else let v' = (f OR v) XOR f in (f OR v', Some v'))"

definition flag_guard_leave :: "u32 option \<Rightarrow> u32 \<Rightarrow> u32" where
  "flag_guard_leave g f = (case g of None \<Rightarrow> f | Some v \<Rightarrow> f AND NOT v)"

locale flag_word =
  fixes mask :: "'f \<Rightarrow> u32" and pos :: "'f \<Rightarrow> nat"
  assumes mask_pos: "mask t = 2 ^ pos t"
    and pos_less: "pos t < 32"
    and pos_inj: "pos t = pos t' \<Longrightarrow> t = t'"
begin

lemma bit_mask: "bit (mask t) n \<longleftrightarrow> n = pos t"
  using pos_less by (auto simp: mask_pos bit_exp_iff possible_bit_def)

lemma check_bit: "word_check w (mask t) \<longleftrightarrow> bit w (pos t)"
  unfolding word_check_def bit_eq_iff using pos_less [of t]
  by (auto simp: bit_and_iff bit_mask)

lemma bit_set: "n < 32 \<Longrightarrow> bit (word_set w (mask t) v) n = (if n = pos t then v else bit w n)"
  by (auto simp: word_set_def bit_or_iff bit_and_iff bit_not_iff bit_mask possible_bit_def)

lemma check_set: "word_check (word_set w (mask t) v) (mask t') = (if t = t' then v else word_check w (mask t'))"
  using pos_less [of t'] pos_inj by (auto simp: check_bit bit_set)

lemma guard_enter: "flag_guard_enter f (mask t) =
    (if word_check f (mask t) then (f, None) else (word_set f (mask t) True, Some (mask t)))"
proof (cases "word_check f (mask t)")
  case True
  then have "f = f OR mask t"
    by (auto intro!: bit_word_eqI simp: bit_or_iff bit_mask check_bit)
  with True show ?thesis by (simp add: flag_guard_enter_def)
next
  case False
  then have "bit (f OR mask t) (pos t) \<noteq> bit f (pos t)"
    by (simp add: bit_or_iff bit_mask check_bit)
  then have "f \<noteq> f OR mask t" by metis
  moreover have "(f OR mask t) XOR f = mask t"
    using False by (auto intro!: bit_word_eqI simp: bit_or_iff bit_xor_iff bit_mask check_bit)
  ultimately show ?thesis using False by (simp add: flag_guard_enter_def word_set_def Let_def)
qed

lemma guard_leave: "word_check (flag_guard_leave (snd (flag_guard_enter f (mask t))) f') (mask t') =
    (word_check f' (mask t') \<and> (t' = t \<longrightarrow> word_check f (mask t)))"
  using check_set [of f' t False t'] by (auto simp: guard_enter flag_guard_leave_def word_set_def)

end

end
