(* ===== verification/ProtoBase.thy ===== *)
theory ProtoBase
  imports FlagWord
begin

text \<open>
  atframe::gateway::proto_base (service/atgateway/protocols/proto_base.h and proto_base.cpp): the
  error codes, the close reasons, the flag word, the scope guard of the IN_CALLBACK flag, the table
  of callbacks of the engine and the default implementations every protocol inherits.

  The fields flags_ and write_header_offset_ are the record \<open>proto_base\<close>, which the records of the
  derived protocols extend as the C++ classes do. The table callbacks_ is a parameter (None is the
  NULL pointer, a None entry an empty std::function). Two fields are observers and not C++ state:
  \<open>trace\<close> records each frame given to dispatch_data, each call made to the engine and each end of a write, in order, and \<open>faults\<close> each operation that C++
  leaves undefined (a NULL dereference, a failed assert).
\<close>

section \<open>Error codes and close reasons\<close>

datatype error_code_t =
    EN_ECT_SUCCESS | EN_ECT_FIRST_IDEL | EN_ECT_HANDSHAKE | EN_ECT_BUSY | EN_ECT_SESSION_EXPIRED
  | EN_ECT_REFUSE_RECONNECT | EN_ECT_MISS_CALLBACKS | EN_ECT_INVALID_ROUTER | EN_ECT_INVALID_ADDRESS
  | EN_ECT_NETWORK | EN_ECT_BAD_PROTOCOL | EN_ECT_CLOSING | EN_ECT_LOST_MANAGER
  | EN_ECT_MSG_TOO_LARGE | EN_ECT_HANDLE_NOT_FOUND | EN_ECT_ALREADY_HAS_FD
  | EN_ECT_SESSION_NOT_FOUND | EN_ECT_SESSION_ALREADY_EXIST | EN_ECT_NOT_WRITING
  | EN_ECT_CRYPT_NOT_SUPPORTED | EN_ECT_PARAM | EN_ECT_BAD_DATA | EN_ECT_INVALID_SIZE
  | EN_ECT_NO_DATA | EN_ECT_MALLOC | EN_ECT_CRYPT_ALREADY_INITED | EN_ECT_CRYPT_VERIFY
  | EN_ECT_CRYPT_OPERATION | EN_ECT_CRYPT_READ_DHPARAM_FILE | EN_ECT_CRYPT_INIT_DHPARAM
  | EN_ECT_CRYPT_READ_RSA_PUBKEY | EN_ECT_CRYPT_READ_RSA_PRIKEY

primrec ec :: "error_code_t \<Rightarrow> int" where
  "ec EN_ECT_SUCCESS = 0"
| "ec EN_ECT_FIRST_IDEL = -1001"
| "ec EN_ECT_HANDSHAKE = -1002"
| "ec EN_ECT_BUSY = -1003"
| "ec EN_ECT_SESSION_EXPIRED = -1004"
| "ec EN_ECT_REFUSE_RECONNECT = -1005"
| "ec EN_ECT_MISS_CALLBACKS = -1006"
| "ec EN_ECT_INVALID_ROUTER = -1007"
| "ec EN_ECT_INVALID_ADDRESS = -1008"
| "ec EN_ECT_NETWORK = -1009"
| "ec EN_ECT_BAD_PROTOCOL = -1010"
| "ec EN_ECT_CLOSING = -1011"
| "ec EN_ECT_LOST_MANAGER = -1012"
| "ec EN_ECT_MSG_TOO_LARGE = -1013"
| "ec EN_ECT_HANDLE_NOT_FOUND = -1014"
| "ec EN_ECT_ALREADY_HAS_FD = -1015"
| "ec EN_ECT_SESSION_NOT_FOUND = -1016"
| "ec EN_ECT_SESSION_ALREADY_EXIST = -1017"
| "ec EN_ECT_NOT_WRITING = -1018"
| "ec EN_ECT_CRYPT_NOT_SUPPORTED = -1019"
| "ec EN_ECT_PARAM = -1020"
| "ec EN_ECT_BAD_DATA = -1021"
| "ec EN_ECT_INVALID_SIZE = -1022"
| "ec EN_ECT_NO_DATA = -1023"
| "ec EN_ECT_MALLOC = -1024"
| "ec EN_ECT_CRYPT_ALREADY_INITED = -1101"
| "ec EN_ECT_CRYPT_VERIFY = -1102"
| "ec EN_ECT_CRYPT_OPERATION = -1103"
| "ec EN_ECT_CRYPT_READ_DHPARAM_FILE = -1211"
| "ec EN_ECT_CRYPT_INIT_DHPARAM = -1212"
| "ec EN_ECT_CRYPT_READ_RSA_PUBKEY = -1221"
| "ec EN_ECT_CRYPT_READ_RSA_PRIKEY = -1222"

datatype close_reason_t =
    EN_CRT_UNKNOWN | EN_CRT_EAGAIN | EN_CRT_TRAFIC_EXTENDED | EN_CRT_INVALID_DATA | EN_CRT_RESET
  | EN_CRT_RECONNECT_INNER_BOUND | EN_CRT_RECONNECT_BOUND | EN_CRT_FIRST_IDLE
  | EN_CRT_SERVER_CLOSED | EN_CRT_SERVER_BUSY | EN_CRT_KICKOFF | EN_CRT_HANDSHAKE | EN_CRT_LOGOUT
  | EN_CRT_ADMINISTRATOR | EN_CRT_MAINTENANCE | EN_CRT_EOF | EN_CRT_NO_RECONNECT_INNER_BOUND

primrec cr :: "close_reason_t \<Rightarrow> int" where
  "cr EN_CRT_UNKNOWN = 0x0000"
| "cr EN_CRT_EAGAIN = 0x0001"
| "cr EN_CRT_TRAFIC_EXTENDED = 0x0002"
| "cr EN_CRT_INVALID_DATA = 0x0003"
| "cr EN_CRT_RESET = 0x0004"
| "cr EN_CRT_RECONNECT_INNER_BOUND = 0x0100"
| "cr EN_CRT_RECONNECT_BOUND = 0x10000"
| "cr EN_CRT_FIRST_IDLE = 0x10001"
| "cr EN_CRT_SERVER_CLOSED = 0x10002"
| "cr EN_CRT_SERVER_BUSY = 0x10003"
| "cr EN_CRT_KICKOFF = 0x10004"
| "cr EN_CRT_HANDSHAKE = 0x10005"
| "cr EN_CRT_LOGOUT = 0x10006"
| "cr EN_CRT_ADMINISTRATOR = 0x10007"
| "cr EN_CRT_MAINTENANCE = 0x10008"
| "cr EN_CRT_EOF = 0x10009"
| "cr EN_CRT_NO_RECONNECT_INNER_BOUND = 0x10100"

section \<open>The flag word\<close>

datatype flag_t =
    EN_PFT_WRITING | EN_PFT_CLOSING | EN_PFT_CLOSED | EN_PFT_IN_CALLBACK
  | EN_PFT_HANDSHAKE_DONE | EN_PFT_HANDSHAKE_UPDATE

primrec pft_mask :: "flag_t \<Rightarrow> u32" where
  "pft_mask EN_PFT_WRITING = 0x0001"
| "pft_mask EN_PFT_CLOSING = 0x0002"
| "pft_mask EN_PFT_CLOSED = 0x0004"
| "pft_mask EN_PFT_IN_CALLBACK = 0x0008"
| "pft_mask EN_PFT_HANDSHAKE_DONE = 0x0100"
| "pft_mask EN_PFT_HANDSHAKE_UPDATE = 0x0200"

primrec pft_pos :: "flag_t \<Rightarrow> nat" where
  "pft_pos EN_PFT_WRITING = 0"
| "pft_pos EN_PFT_CLOSING = 1"
| "pft_pos EN_PFT_CLOSED = 2"
| "pft_pos EN_PFT_IN_CALLBACK = 3"
| "pft_pos EN_PFT_HANDSHAKE_DONE = 8"
| "pft_pos EN_PFT_HANDSHAKE_UPDATE = 9"

interpretation pft: flag_word pft_mask pft_pos
proof unfold_locales
  fix t t' :: flag_t
  show "pft_mask t = 2 ^ pft_pos t" by (cases t) simp_all
  show "pft_pos t < 32" by (cases t) simp_all
  show "pft_pos t = pft_pos t' \<Longrightarrow> t = t'" by (cases t; cases t') simp_all
qed

section \<open>State, callbacks and events\<close>

datatype proto_event =
    EvFrame "byte list" int | EvWrite "byte list" | EvWritten int | EvMessage "byte list" u64 | EvNewSession | EvReconnect u64
  | EvClose int | EvHandshakeDone int | EvHandshakeUpdate int | EvError int

datatype proto_fault =
    NullDeref string | AssertFailed string | UninitRead string | OutOfFuel string

record proto_base =
  flags :: u32
  write_header_offset :: u64
  trace :: "proto_event list"
  faults :: "proto_fault list"

record 's proto_callbacks =
  write_fn :: "(byte list \<Rightarrow> ('s, int \<times> bool) state) option"
  message_fn :: "(byte list \<Rightarrow> u64 \<Rightarrow> ('s, int) state) option"
  new_session_fn :: "(u64 \<Rightarrow> ('s, int \<times> u64) state) option"
  reconnect_fn :: "(u64 \<Rightarrow> ('s, int) state) option"
  close_fn :: "(int \<Rightarrow> ('s, int) state) option"
  on_handshake_done_fn :: "(int \<Rightarrow> ('s, int) state) option"
  on_handshake_update_fn :: "(int \<Rightarrow> ('s, int) state) option"
  on_error_fn :: "(int \<Rightarrow> string \<Rightarrow> ('s, int) state) option"

definition check_flag :: "flag_t \<Rightarrow> 'z proto_base_scheme \<Rightarrow> bool" where
  "check_flag t s = word_check (flags s) (pft_mask t)"

definition set_flag :: "flag_t \<Rightarrow> bool \<Rightarrow> 'z proto_base_scheme \<Rightarrow> 'z proto_base_scheme" where
  "set_flag t v s = s\<lparr>flags := word_set (flags s) (pft_mask t) v\<rparr>"

definition log_event :: "proto_event \<Rightarrow> 'z proto_base_scheme \<Rightarrow> 'z proto_base_scheme" where
  "log_event e s = s\<lparr>trace := trace s @ [e]\<rparr>"

definition raise_fault :: "proto_fault \<Rightarrow> ('z proto_base_scheme, unit) state" where
  "raise_fault f = modify (\<lambda>s. s\<lparr>faults := faults s @ [f]\<rparr>)"

text \<open>The constructor: no flags, no header space, no callbacks yet.\<close>

definition proto_base_init :: proto_base where
  "proto_base_init = \<lparr>flags = 0, write_header_offset = 0, trace = [], faults = []\<rparr>"

lemma check_set_flag [simp]: "check_flag t (set_flag t' v s) = (if t' = t then v else check_flag t s)"
  by (simp add: check_flag_def set_flag_def pft.check_set)

lemma check_flag_log [simp]: "check_flag t (log_event e s) = check_flag t s"
  by (simp add: check_flag_def log_event_def)

lemma trace_set_flag [simp]: "trace (set_flag t v s) = trace s"
  by (simp add: set_flag_def)

lemma trace_log [simp]: "trace (log_event e s) = trace s @ [e]"
  by (simp add: log_event_def)

section \<open>The scope guard\<close>

text \<open>The guard around a piece of code: construction, the body, destruction.\<close>

definition flag_guard :: "flag_t \<Rightarrow> ('z proto_base_scheme, 'a) state \<Rightarrow> ('z proto_base_scheme, 'a) state" where
  "flag_guard t m = do {
     g \<leftarrow> gets (\<lambda>s. snd (flag_guard_enter (flags s) (pft_mask t)));
     modify (\<lambda>s. s\<lparr>flags := fst (flag_guard_enter (flags s) (pft_mask t))\<rparr>);
     r \<leftarrow> m;
     modify (\<lambda>s. s\<lparr>flags := flag_guard_leave g (flags s)\<rparr>);
     ret r
   }"

section \<open>Operations of the base class\<close>

text \<open>ATFRAME_GATEWAY_ON_ERROR: report an error code if the engine listens.\<close>

definition on_error ::
  "('z proto_base_scheme) proto_callbacks option \<Rightarrow> int \<Rightarrow> string \<Rightarrow> ('z proto_base_scheme, unit) state" where
  "on_error cb errcode errmsg =
     (case Option.bind cb on_error_fn of
        None \<Rightarrow> ret ()
      | Some f \<Rightarrow> do { modify (log_event (EvError errcode)); _ \<leftarrow> f errcode errmsg; ret () })"

definition call_close ::
  "('z proto_base_scheme) proto_callbacks option \<Rightarrow> int \<Rightarrow> ('z proto_base_scheme, int) state" where
  "call_close cb reason =
     (case Option.bind cb close_fn of
        None \<Rightarrow> ret 0
      | Some f \<Rightarrow> do { modify (log_event (EvClose reason)); f reason })"

definition base_write_done :: "int \<Rightarrow> ('z proto_base_scheme, int) state" where
  "base_write_done status = do {
     w \<leftarrow> gets (check_flag EN_PFT_WRITING);
     if \<not> w then ret 0
     else do { modify (set_flag EN_PFT_WRITING False); ret 0 }
   }"

definition base_close ::
  "('z proto_base_scheme) proto_callbacks option \<Rightarrow> int \<Rightarrow> ('z proto_base_scheme, int) state" where
  "base_close cb reason = do {
     c \<leftarrow> gets (check_flag EN_PFT_CLOSING);
     if c then ret 0
     else do {
       modify (set_flag EN_PFT_CLOSING True);
       modify (set_flag EN_PFT_CLOSED True);
       call_close cb reason
     }
   }"

text \<open>
  The callback a finished handshake runs: on_handshake_done_fn the first time, otherwise (or when it
  is not set) on_handshake_update_fn. The event is logged with the flags, before the call.
\<close>

definition shake_callback ::
  "('z proto_base_scheme) proto_callbacks option \<Rightarrow> bool \<Rightarrow> int \<Rightarrow>
   (proto_event \<times> ('z proto_base_scheme, int) state) option" where
  "shake_callback cb had_done status =
     (case (if had_done then None else Option.bind cb on_handshake_done_fn) of
        Some f \<Rightarrow> Some (EvHandshakeDone status, f status)
      | None \<Rightarrow>
          (case Option.bind cb on_handshake_update_fn of
             Some f \<Rightarrow> Some (EvHandshakeUpdate status, f status)
           | None \<Rightarrow> None))"

definition handshake_done ::
  "('z proto_base_scheme) proto_callbacks option \<Rightarrow> int \<Rightarrow> ('z proto_base_scheme, int) state" where
  "handshake_done cb status = do {
     has_handshake_done \<leftarrow> gets (check_flag EN_PFT_HANDSHAKE_DONE);
     updating \<leftarrow> gets (check_flag EN_PFT_HANDSHAKE_UPDATE);
     if has_handshake_done \<and> \<not> updating then ret (ec EN_ECT_HANDSHAKE)
     else (case shake_callback cb has_handshake_done status of
         None \<Rightarrow> do {
           modify (\<lambda>s. set_flag EN_PFT_HANDSHAKE_UPDATE False (set_flag EN_PFT_HANDSHAKE_DONE True s));
           ret 0
         }
       | Some (e, m) \<Rightarrow> do {
           modify (\<lambda>s. log_event e
             (set_flag EN_PFT_HANDSHAKE_UPDATE False (set_flag EN_PFT_HANDSHAKE_DONE True s)));
           _ \<leftarrow> m;
           ret 0
         })
   }"

definition base_handshake_update :: "('z proto_base_scheme, int) state" where
  "base_handshake_update = do {
     u \<leftarrow> gets (check_flag EN_PFT_HANDSHAKE_UPDATE);
     if u then ret (ec EN_ECT_HANDSHAKE)
     else do { modify (set_flag EN_PFT_HANDSHAKE_UPDATE True); ret 0 }
   }"

text \<open>The destructor reports a handshake that never finished.\<close>

definition proto_base_dtor ::
  "('z proto_base_scheme) proto_callbacks option \<Rightarrow> ('z proto_base_scheme, unit) state" where
  "proto_base_dtor cb = do {
     updating \<leftarrow> gets (check_flag EN_PFT_HANDSHAKE_UPDATE);
     done \<leftarrow> gets (check_flag EN_PFT_HANDSHAKE_DONE);
     when_do (updating \<or> \<not> done)
       (do { _ \<leftarrow> handshake_done cb (ec EN_ECT_HANDSHAKE); ret () })
   }"

definition base_check_reconnect :: "'p \<Rightarrow> bool" where
  "base_check_reconnect other = False"

text \<open>The header space is rounded up to a multiple of sizeof(size_t) = 8, on 64-bit words.\<close>

definition set_write_header_offset :: "u64 \<Rightarrow> 'z proto_base_scheme \<Rightarrow> 'z proto_base_scheme" where
  "set_write_header_offset sz s =
     s\<lparr>write_header_offset := (if sz = 0 then sz else (sz + 8 - 1) AND NOT (8 - 1))\<rparr>"

definition tls_length :: nat where
  "tls_length = 262144"

end
