(* ===== verification/ProtoSpec.thy ===== *)
theory ProtoSpec
  imports ProtoBase
begin

text \<open>
  What a protocol object promises its engine, as an abstract machine over four flags and the trace
  of the calls made to the engine. The contract is the one the comments of proto_base.h state: a
  close is reported once, the first finished handshake is reported once, one write at a time and
  none once closing, messages only between the handshake and the close. The detailed operations
  are shown to refine \<open>astep\<close> in the theories that follow.
\<close>

record proto_view =
  a_closing :: bool
  a_closed :: bool
  a_writing :: bool
  a_done :: bool
  a_trace :: "proto_event list"

definition view :: "'z proto_base_scheme \<Rightarrow> proto_view" where
  "view s = \<lparr>a_closing = check_flag EN_PFT_CLOSING s, a_closed = check_flag EN_PFT_CLOSED s,
     a_writing = check_flag EN_PFT_WRITING s, a_done = check_flag EN_PFT_HANDSHAKE_DONE s,
     a_trace = trace s\<rparr>"

primrec other_event :: "proto_event \<Rightarrow> bool" where
  "other_event (EvFrame bs e) = True"
| "other_event (EvWrite bs) = False"
| "other_event (EvWritten st) = False"
| "other_event (EvMessage bs n) = False"
| "other_event EvNewSession = True"
| "other_event (EvReconnect sid) = True"
| "other_event (EvClose r) = False"
| "other_event (EvHandshakeDone st) = False"
| "other_event (EvHandshakeUpdate st) = True"
| "other_event (EvError e) = True"

inductive astep :: "proto_view \<Rightarrow> proto_view \<Rightarrow> bool" where
  close_begin: "astep a (a\<lparr>a_closing := True\<rparr>)"
| close_silent: "a_closing a \<Longrightarrow> \<not> a_closed a \<Longrightarrow> \<not> a_writing a \<Longrightarrow> astep a (a\<lparr>a_closed := True\<rparr>)"
| close_report: "a_closing a \<Longrightarrow> \<not> a_closed a \<Longrightarrow> \<not> a_writing a \<Longrightarrow>
    astep a (a\<lparr>a_closed := True, a_trace := a_trace a @ [EvClose r]\<rparr>)"
| shake_silent: "astep a (a\<lparr>a_done := True\<rparr>)"
| shake_report: "\<not> a_done a \<Longrightarrow> astep a (a\<lparr>a_done := True, a_trace := a_trace a @ [EvHandshakeDone st]\<rparr>)"
| write_begin: "\<not> a_writing a \<Longrightarrow> \<not> a_closing a \<Longrightarrow>
    astep a (a\<lparr>a_writing := True, a_trace := a_trace a @ [EvWrite bs]\<rparr>)"
| write_mark: "\<not> a_writing a \<Longrightarrow> \<not> a_closing a \<Longrightarrow> astep a (a\<lparr>a_writing := True\<rparr>)"
| write_end: "astep a (a\<lparr>a_writing := False, a_trace := a_trace a @ [EvWritten st]\<rparr>)"
| message: "a_done a \<Longrightarrow> \<not> a_closing a \<Longrightarrow> astep a (a\<lparr>a_trace := a_trace a @ [EvMessage bs n]\<rparr>)"
| other: "other_event e \<Longrightarrow> astep a (a\<lparr>a_trace := a_trace a @ [e]\<rparr>)"

inductive_cases astepE: "astep a b"

definition closes :: "proto_event list \<Rightarrow> int list" where
  "closes t = List.map_filter (\<lambda>e. case e of EvClose r \<Rightarrow> Some r | _ \<Rightarrow> None) t"

definition shakes :: "proto_event list \<Rightarrow> int list" where
  "shakes t = List.map_filter (\<lambda>e. case e of EvHandshakeDone st \<Rightarrow> Some st | _ \<Rightarrow> None) t"

definition messages :: "proto_event list \<Rightarrow> (byte list \<times> u64) list" where
  "messages t = List.map_filter (\<lambda>e. case e of EvMessage bs n \<Rightarrow> Some (bs, n) | _ \<Rightarrow> None) t"

definition writes :: "proto_event list \<Rightarrow> byte list list" where
  "writes t = List.map_filter (\<lambda>e. case e of EvWrite bs \<Rightarrow> Some bs | _ \<Rightarrow> None) t"

definition frames_of :: "proto_event list \<Rightarrow> byte list list" where
  "frames_of t = List.map_filter (\<lambda>e. case e of EvFrame bs err \<Rightarrow> Some bs | _ \<Rightarrow> None) t"

lemma frames_of_simps [simp]: "frames_of [] = []" "frames_of (s @ t) = frames_of s @ frames_of t"
    "frames_of [EvFrame bs err] = [bs]" "\<not> (\<exists>bs err. e = EvFrame bs err) \<Longrightarrow> frames_of [e] = []"
  by (auto simp: frames_of_def map_filter_def split: proto_event.splits)

lemma closes_simps [simp]: "closes [] = []" "closes (s @ t) = closes s @ closes t"
    "closes [EvClose r] = [r]" "\<not> (\<exists>r. e = EvClose r) \<Longrightarrow> closes [e] = []"
  by (auto simp: closes_def map_filter_def split: proto_event.splits)

lemma shakes_simps [simp]: "shakes [] = []" "shakes (s @ t) = shakes s @ shakes t"
    "shakes [EvHandshakeDone st] = [st]" "\<not> (\<exists>st. e = EvHandshakeDone st) \<Longrightarrow> shakes [e] = []"
  by (auto simp: shakes_def map_filter_def split: proto_event.splits)

lemma messages_simps [simp]: "messages [] = []" "messages (s @ t) = messages s @ messages t"
    "messages [EvMessage bs n] = [(bs, n)]" "\<not> (\<exists>bs n. e = EvMessage bs n) \<Longrightarrow> messages [e] = []"
  by (auto simp: messages_def map_filter_def split: proto_event.splits)

lemma writes_simps [simp]: "writes [] = []" "writes (s @ t) = writes s @ writes t"
    "writes [EvWrite bs] = [bs]" "\<not> (\<exists>bs. e = EvWrite bs) \<Longrightarrow> writes [e] = []"
  by (auto simp: writes_def map_filter_def split: proto_event.splits)

lemma other_event_obs [simp]:
  "other_event e \<Longrightarrow> closes [e] = []" "other_event e \<Longrightarrow> shakes [e] = []"
  "other_event e \<Longrightarrow> messages [e] = []" "other_event e \<Longrightarrow> writes [e] = []"
  by (cases e; simp)+

text \<open>Whether a write is out after a trace, and whether no write began while one was out.\<close>

definition next_open :: "proto_event \<Rightarrow> bool \<Rightarrow> bool" where
  "next_open e b = (case e of EvWrite bs \<Rightarrow> True | EvWritten st \<Rightarrow> False | _ \<Rightarrow> b)"

primrec open_write :: "bool \<Rightarrow> proto_event list \<Rightarrow> bool" where
  "open_write b [] = b"
| "open_write b (e # t) = open_write (next_open e b) t"

primrec serial_writes :: "bool \<Rightarrow> proto_event list \<Rightarrow> bool" where
  "serial_writes b [] = True"
| "serial_writes b (e # t) = ((writes [e] \<noteq> [] \<longrightarrow> \<not> b) \<and> serial_writes (next_open e b) t)"

lemma open_write_snoc [simp]: "open_write b (t @ [e]) = next_open e (open_write b t)"
  by (induction t arbitrary: b) simp_all

lemma serial_writes_snoc [simp]:
  "serial_writes b (t @ [e]) = (serial_writes b t \<and> (writes [e] \<noteq> [] \<longrightarrow> \<not> open_write b t))"
  by (induction t arbitrary: b) auto

lemma next_open_simps [simp]:
  "next_open (EvWrite bs) b = True" "next_open (EvWritten st) b = False"
  "next_open (EvMessage bs n) b = b" "next_open (EvClose r) b = b" "next_open (EvHandshakeDone st) b = b"
  "other_event e \<Longrightarrow> next_open e b = b"
  by (auto simp: next_open_def split: proto_event.splits)

section \<open>The invariant of the abstract machine\<close>

definition view_ok :: "proto_view \<Rightarrow> bool" where
  "view_ok a \<longleftrightarrow>
     length (closes (a_trace a)) \<le> (if a_closed a then 1 else 0) \<and>
     (a_closed a \<longrightarrow> a_closing a) \<and>
     length (shakes (a_trace a)) \<le> (if a_done a then 1 else 0) \<and>
     (messages (a_trace a) \<noteq> [] \<longrightarrow> a_done a) \<and>
     serial_writes False (a_trace a) \<and> (open_write False (a_trace a) \<longrightarrow> a_writing a)"

definition view_step :: "proto_view \<Rightarrow> proto_view \<Rightarrow> bool" where
  "view_step a b \<longleftrightarrow>
     (a_closing a \<longrightarrow> a_closing b) \<and> (a_closed a \<longrightarrow> a_closed b) \<and> (a_done a \<longrightarrow> a_done b) \<and>
     (\<exists>es. a_trace b = a_trace a @ es \<and>
        (a_closing a \<longrightarrow> messages es = [] \<and> writes es = []) \<and> (a_closed a \<longrightarrow> closes es = []) \<and>
        (a_done a \<longrightarrow> shakes es = []))"

lemma astep_view_ok: "astep a b \<Longrightarrow> view_ok a \<Longrightarrow> view_ok b"
  by (erule astepE) (auto simp: view_ok_def split: if_splits)

lemma astep_view_step: "astep a b \<Longrightarrow> view_step a b"
  by (erule astepE) (auto simp: view_step_def)

lemma view_step_refl: "view_step a a"
  by (simp add: view_step_def)

lemma view_step_trans:
  assumes "view_step a b" and "view_step b c"
  shows "view_step a c"
proof -
  from assms(1) obtain es where es: "a_trace b = a_trace a @ es" "a_closing a \<Longrightarrow> messages es = []"
    "a_closing a \<Longrightarrow> writes es = []" "a_closed a \<Longrightarrow> closes es = []" "a_done a \<Longrightarrow> shakes es = []"
    by (auto simp: view_step_def)
  from assms(2) obtain es' where es': "a_trace c = a_trace b @ es'" "a_closing b \<Longrightarrow> messages es' = []"
    "a_closing b \<Longrightarrow> writes es' = []" "a_closed b \<Longrightarrow> closes es' = []" "a_done b \<Longrightarrow> shakes es' = []"
    by (auto simp: view_step_def)
  have flags: "a_closing a \<Longrightarrow> a_closing b" "a_closed a \<Longrightarrow> a_closed b" "a_done a \<Longrightarrow> a_done b"
    "a_closing b \<Longrightarrow> a_closing c" "a_closed b \<Longrightarrow> a_closed c" "a_done b \<Longrightarrow> a_done c"
    using assms by (auto simp: view_step_def)
  have "a_trace c = a_trace a @ (es @ es')" using es es' by simp
  with es es' flags show ?thesis unfolding view_step_def by (intro conjI exI [of _ "es @ es'"]) auto
qed

lemma asteps_view_ok: "astep\<^sup>*\<^sup>* a b \<Longrightarrow> view_ok a \<Longrightarrow> view_ok b"
  by (induction rule: rtranclp_induct) (auto intro: astep_view_ok)

lemma asteps_view_step: "astep\<^sup>*\<^sup>* a b \<Longrightarrow> view_step a b"
  by (induction rule: rtranclp_induct) (auto intro: view_step_refl view_step_trans astep_view_step)

section \<open>Refinement of the abstract machine\<close>

definition refines :: "'z proto_base_scheme \<Rightarrow> 'z proto_base_scheme \<Rightarrow> bool" where
  "refines s s' \<longleftrightarrow> astep\<^sup>*\<^sup>* (view s) (view s')"

lemma refines_pre: "rel_pre refines"
  by (auto simp: rel_pre_def refines_def)

lemma refines_same: "view s' = view s \<Longrightarrow> refines s s'"
  by (simp add: refines_def)

lemma refines_step: "astep (view s) (view s') \<Longrightarrow> refines s s'"
  by (auto simp: refines_def)

end
