(* ===== verification/Schema.thy ===== *)
theory Schema
  imports Prelude
begin

text \<open>
  The wire messages of the inner protocol, version 1 (libatgw_proto_inner.fbs and the accessors of
  libatgw_proto_inner_generated.h). A flat-buffer table is a record, an optional reference to a
  table, a string or a vector is an option (None is the NULL pointer the accessor returns), and the
  union is a datatype whose constructors are the tags of cs_msg_body. The enums travel as bytes:
  a peer can send any value, so the fields keep the byte and the enums give the named values.
\<close>

datatype handshake_step_t =
    EN_HST_START_REQ | EN_HST_START_RSP | EN_HST_RECONNECT_REQ | EN_HST_RECONNECT_RSP
  | EN_HST_DH_PUBKEY_REQ | EN_HST_DH_PUBKEY_RSP | EN_HST_ECDH_PUBKEY_REQ | EN_HST_ECDH_PUBKEY_RSP
  | EN_HST_VERIFY

primrec hst :: "handshake_step_t \<Rightarrow> byte" where
  "hst EN_HST_START_REQ = 0"
| "hst EN_HST_START_RSP = 1"
| "hst EN_HST_RECONNECT_REQ = 11"
| "hst EN_HST_RECONNECT_RSP = 12"
| "hst EN_HST_DH_PUBKEY_REQ = 21"
| "hst EN_HST_DH_PUBKEY_RSP = 22"
| "hst EN_HST_ECDH_PUBKEY_REQ = 31"
| "hst EN_HST_ECDH_PUBKEY_RSP = 32"
| "hst EN_HST_VERIFY = 101"

datatype switch_secret_t = EN_SST_DIRECT | EN_SST_DH | EN_SST_ECDH

primrec sst :: "switch_secret_t \<Rightarrow> int" where
  "sst EN_SST_DIRECT = 0"
| "sst EN_SST_DH = 1"
| "sst EN_SST_ECDH = 2"

datatype cs_msg_type_t =
    EN_MTT_UNKNOWN | EN_MTT_POST | EN_MTT_HANDSHAKE | EN_MTT_PING | EN_MTT_PONG | EN_MTT_KICKOFF
  | EN_MTT_POST_KEY_SYN | EN_MTT_POST_KEY_ACK

primrec mtt :: "cs_msg_type_t \<Rightarrow> byte" where
  "mtt EN_MTT_UNKNOWN = 0"
| "mtt EN_MTT_POST = 1"
| "mtt EN_MTT_HANDSHAKE = 2"
| "mtt EN_MTT_PING = 3"
| "mtt EN_MTT_PONG = 4"
| "mtt EN_MTT_KICKOFF = 5"
| "mtt EN_MTT_POST_KEY_SYN = 6"
| "mtt EN_MTT_POST_KEY_ACK = 7"

text \<open>EnumNameswitch_secret_t: the printed name of a switch type, empty out of range.\<close>

definition sst_name :: "int \<Rightarrow> string" where
  "sst_name e =
     (if e < sst EN_SST_DIRECT \<or> e > sst EN_SST_ECDH then ''''
      else [''EN_SST_DIRECT'', ''EN_SST_DH'', ''EN_SST_ECDH''] ! nat e)"

record cs_msg_head =
  head_type :: byte
  head_sequence :: u64

record cs_body_post =
  post_length :: u64
  post_data :: "byte list option"

record cs_body_kickoff =
  kickoff_reason :: int

record cs_body_handshake =
  hs_session_id :: u64
  hs_step :: byte
  hs_switch_type :: byte
  hs_crypt_type :: "string option"
  hs_crypt_param :: "byte list option"
  hs_switch_param :: "byte list option"

record cs_body_ping =
  ping_timepoint :: int

datatype cs_msg_body =
    Body_none
  | Body_post "cs_body_post option"
  | Body_kickoff "cs_body_kickoff option"
  | Body_ping "cs_body_ping option"
  | Body_handshake "cs_body_handshake option"

record cs_msg =
  msg_head :: "cs_msg_head option"
  msg_body :: cs_msg_body

primrec msg_body_type :: "cs_msg_body \<Rightarrow> byte" where
  "msg_body_type Body_none = 0"
| "msg_body_type (Body_post p) = 1"
| "msg_body_type (Body_kickoff k) = 2"
| "msg_body_type (Body_ping p) = 3"
| "msg_body_type (Body_handshake h) = 4"

text \<open>Createcs_msg_head, Createcs_body_*, Createcs_msg: the builders of the messages that are sent.\<close>

definition Createcs_msg_head :: "cs_msg_type_t \<Rightarrow> u64 \<Rightarrow> cs_msg_head" where
  "Createcs_msg_head ty sq = \<lparr>head_type = mtt ty, head_sequence = sq\<rparr>"

definition Createcs_body_post :: "u64 \<Rightarrow> byte list \<Rightarrow> cs_body_post" where
  "Createcs_body_post len bytes = \<lparr>post_length = len, post_data = Some bytes\<rparr>"

definition Createcs_body_handshake ::
  "u64 \<Rightarrow> handshake_step_t \<Rightarrow> int \<Rightarrow> string \<Rightarrow> byte list \<Rightarrow> cs_body_handshake" where
  "Createcs_body_handshake sid step switch_type crypt_type crypt_param =
     \<lparr>hs_session_id = sid, hs_step = hst step, hs_switch_type = word_of_int switch_type,
      hs_crypt_type = Some crypt_type, hs_crypt_param = Some crypt_param, hs_switch_param = None\<rparr>"

definition Createcs_msg :: "cs_msg_head \<Rightarrow> cs_msg_body \<Rightarrow> cs_msg" where
  "Createcs_msg head body = \<lparr>msg_head = Some head, msg_body = body\<rparr>"

text \<open>
  The encoding: \<open>fb_pack\<close> is FlatBufferBuilder::Finish with the identifier, \<open>fb_parse\<close> is Verifycs_msgBuffer
  followed by Getcs_msg, None when verification fails. FbCodec makes one of the generated functions.
\<close>

record fb_codec =
  fb_pack :: "cs_msg \<Rightarrow> byte list"
  fb_parse :: "byte list \<Rightarrow> cs_msg option"

lemma hst_inj: "hst a = hst b \<Longrightarrow> a = b"
  by (cases a; cases b) simp_all

lemma mtt_inj: "mtt a = mtt b \<Longrightarrow> a = b"
  by (cases a; cases b) simp_all

end
