(* ===== verification/CryptConf.thy ===== *)
theory CryptConf
  imports ProtoBase Schema
begin

text \<open>
  The encryption side of the inner protocol: detail::crypt_global_configure_t, the shared
  configuration that global_reload replaces, and libatgw_proto_inner_v1::crypt_session_t, one
  cipher with its secret. The ciphers, the Diffie-Hellman contexts and the random source are
  libraries the sources only call (util::crypto); they are the record \<open>crypto_lib\<close>, over abstract
  cipher objects 'c, key-exchange contexts 'd and shared contexts 'g. Each random draw takes a
  counter, so that two draws can differ.
\<close>

record ('c, 'd, 'g) crypto_lib =
  cipher_new :: 'c
  cipher_init :: "'c \<Rightarrow> string \<Rightarrow> int \<times> 'c"
  cipher_close :: "'c \<Rightarrow> 'c"
  cipher_key_bits :: "'c \<Rightarrow> u32"
  cipher_iv_size :: "'c \<Rightarrow> u32"
  cipher_set_key :: "'c \<Rightarrow> byte list \<Rightarrow> u32 \<Rightarrow> int \<times> 'c"
  cipher_set_iv :: "'c \<Rightarrow> byte list \<Rightarrow> int \<times> 'c"
  cipher_errno :: "'c \<Rightarrow> int"
  cipher_encrypt :: "'c \<Rightarrow> byte list \<Rightarrow> nat \<Rightarrow> int \<times> byte list \<times> 'c"
  cipher_decrypt :: "'c \<Rightarrow> byte list \<Rightarrow> nat \<Rightarrow> int \<times> byte list \<times> 'c"
  cipher_names :: "string list"
  cipher_tok :: "string \<Rightarrow> nat option \<times> nat option"
  dhs_create :: 'g
  dhs_init_method :: "'g \<Rightarrow> bool \<Rightarrow> 'g"
  dhs_init_file :: "'g \<Rightarrow> string \<Rightarrow> 'g"
  dhs_reset :: "'g \<Rightarrow> 'g"
  dhs_random :: "'g \<Rightarrow> nat \<Rightarrow> nat \<Rightarrow> int \<times> byte list"
  dh_new :: 'd
  dh_init :: "'d \<Rightarrow> 'g \<Rightarrow> 'd"
  dh_close :: "'d \<Rightarrow> 'd"
  dh_make_params :: "'d \<Rightarrow> int \<times> byte list \<times> 'd"
  dh_read_params :: "'d \<Rightarrow> byte list \<Rightarrow> int \<times> 'd"
  dh_make_public :: "'d \<Rightarrow> int \<times> byte list \<times> 'd"
  dh_read_public :: "'d \<Rightarrow> byte list \<Rightarrow> int \<times> 'd"
  dh_calc_secret :: "'d \<Rightarrow> int \<times> byte list \<times> 'd"

section \<open>Small helpers of the file\<close>

definition tolower_ch :: "char \<Rightarrow> char" where
  "tolower_ch c =
     (if (of_char CHR ''A'' :: nat) \<le> of_char c \<and> of_char c \<le> (of_char CHR ''Z'' :: nat)
      then char_of (of_char c - of_char CHR ''A'' + of_char CHR ''a'' :: nat) else c)"

text \<open>The sequence counter: incremented on 64 bits, and again should it have wrapped to 0.\<close>

definition alloc_seq :: "u64 \<Rightarrow> u64" where
  "alloc_seq seq = (let r = seq + 1 in if r = 0 then r + 1 else r)"

text \<open>std::vector<unsigned char>::resize(n, 0).\<close>

definition vec_resize :: "nat \<Rightarrow> byte list \<Rightarrow> byte list" where
  "vec_resize n xs = take n xs @ replicate (n - length xs) 0"

lemma length_vec_resize [simp]: "length (vec_resize n xs) = n"
  by (simp add: vec_resize_def)

lemma vec_resize_same [simp]: "vec_resize (length xs) xs = xs"
  by (simp add: vec_resize_def)

lemma take_vec_resize [simp]: "k \<le> length xs \<Longrightarrow> k \<le> n \<Longrightarrow> take k (vec_resize n xs) = take k xs"
  by (simp add: vec_resize_def min_def)

text \<open>
  The loop over util::crypto::cipher::ciphertok: the library returns the bounds of the next name of
  a list of cipher names (NULL bounds at the end), and the loop goes on from the end of the name.
\<close>

fun cipher_tokens :: "(string \<Rightarrow> nat option \<times> nat option) \<Rightarrow> nat \<Rightarrow> string \<Rightarrow> string list" where
  "cipher_tokens tok 0 s = []"
| "cipher_tokens tok (Suc n) s =
     (case tok s of
        (first, None) \<Rightarrow> []
      | (None, Some e) \<Rightarrow> cipher_tokens tok n (drop e s)
      | (Some b, Some e) \<Rightarrow> take (e - b) (drop b s) # cipher_tokens tok n (drop e s))"

section \<open>The global configuration\<close>

record crypt_conf =
  conf_default_key :: string
  conf_update_interval :: int
  conf_type :: string
  conf_switch_secret_type :: int
  conf_dh_param :: string
  conf_client_mode :: bool

record 'g global_conf =
  gc_conf :: crypt_conf
  gc_inited :: bool
  gc_available :: "string list"
  gc_dh :: 'g

definition global_conf_new :: "('c, 'd, 'g) crypto_lib \<Rightarrow> crypt_conf \<Rightarrow> 'g global_conf" where
  "global_conf_new L conf = \<lparr>gc_conf = conf, gc_inited = False, gc_available = [], gc_dh = dhs_create L\<rparr>"

definition global_conf_close :: "('c, 'd, 'g) crypto_lib \<Rightarrow> 'g global_conf \<Rightarrow> 'g global_conf" where
  "global_conf_close L g =
     (if \<not> gc_inited g then g
      else g\<lparr>gc_inited := False, gc_available := [], gc_dh := dhs_reset L (gc_dh g)\<rparr>)"

definition global_conf_init :: "('c, 'd, 'g) crypto_lib \<Rightarrow> 'g global_conf \<Rightarrow> int \<times> 'g global_conf" where
  "global_conf_init L g0 =
     (let g = global_conf_close L g0;
          conf = gc_conf g;
          sw = conf_switch_secret_type conf
      in if conf_type conf = [] then (0, g\<lparr>gc_inited := True\<rparr>)
         else if sw \<noteq> sst EN_SST_DH \<and> sw \<noteq> sst EN_SST_ECDH \<and> sw \<noteq> sst EN_SST_DIRECT
         then (ec EN_ECT_CRYPT_NOT_SUPPORTED, g)
         else
           let dh = (if sw = sst EN_SST_DIRECT then gc_dh g
                     else if conf_client_mode conf \<or> conf_dh_param conf = []
                     then dhs_init_method L (gc_dh g) (sw = sst EN_SST_DH)
                     else dhs_init_file L (gc_dh g) (conf_dh_param conf));
               toks = map (map tolower_ch)
                        (cipher_tokens (cipher_tok L) (Suc (length (conf_type conf))) (conf_type conf))
           in (0, g\<lparr>gc_dh := dh,
                    gc_available := fold List.insert
                      (filter (\<lambda>t. t \<in> set (cipher_names L)) toks) (gc_available g)\<rparr>))"

text \<open>check_type lowers its argument in place: the result is the answer and the new argument.\<close>

definition check_type :: "'g global_conf \<Rightarrow> string \<Rightarrow> bool \<times> string" where
  "check_type g t =
     (if t = [] then (True, t)
      else let t' = map tolower_ch t in (t' \<in> set (gc_available g), t'))"

definition default_crypt_configure :: crypt_conf where
  "default_crypt_configure = \<lparr>conf_default_key = ''atgw-key'', conf_update_interval = 1200,
     conf_type = [], conf_switch_secret_type = sst EN_SST_DIRECT, conf_dh_param = [],
     conf_client_mode = False\<rparr>"

text \<open>global_reload: build the new configuration, and make it current only if it initialises.\<close>

definition global_reload ::
  "('c, 'd, 'g) crypto_lib \<Rightarrow> crypt_conf \<Rightarrow> 'g global_conf option \<Rightarrow> int \<times> 'g global_conf option" where
  "global_reload L conf current =
     (let (ret, inst) = global_conf_init L (global_conf_new L conf)
      in (ret, if ret = 0 then Some inst else current))"

section \<open>A crypt session\<close>

record ('c, 'g) crypt_session =
  cs_shared_conf :: "'g global_conf option"
  cs_type :: string
  cs_secret :: "byte list"
  cs_param :: "byte list"
  cs_cipher :: 'c
  cs_inited :: bool

definition crypt_session_new :: "('c, 'd, 'g) crypto_lib \<Rightarrow> ('c, 'g) crypt_session" where
  "crypt_session_new L = \<lparr>cs_shared_conf = None, cs_type = [], cs_secret = [], cs_param = [],
     cs_cipher = cipher_new L, cs_inited = False\<rparr>"

definition cs_setup ::
  "('c, 'd, 'g) crypto_lib \<Rightarrow> string \<Rightarrow> ('c, 'g) crypt_session \<Rightarrow> int \<times> ('c, 'g) crypt_session" where
  "cs_setup L t cs =
     (if cs_inited cs then (ec EN_ECT_CRYPT_ALREADY_INITED, cs)
      else if t \<noteq> [] then
        (case cipher_init L (cs_cipher cs) t of (r, c) \<Rightarrow>
          if r < 0 then (ec EN_ECT_CRYPT_NOT_SUPPORTED, cs\<lparr>cs_cipher := c\<rparr>)
          else
            let kb = unat (cipher_key_bits L c);
                s1 = (if length (cs_secret cs) * 8 < kb then vec_resize (kb div 8) (cs_secret cs) else cs_secret cs);
                s2 = (if length s1 * 8 > kb then vec_resize (kb div 8) s1 else s1)
            in (0, cs\<lparr>cs_cipher := c, cs_secret := s2, cs_type := t, cs_inited := True\<rparr>))
      else (0, cs\<lparr>cs_secret := [], cs_cipher := cipher_close L (cs_cipher cs), cs_type := t, cs_inited := True\<rparr>))"

definition cs_close :: "('c, 'd, 'g) crypto_lib \<Rightarrow> ('c, 'g) crypt_session \<Rightarrow> ('c, 'g) crypt_session" where
  "cs_close L cs = cs\<lparr>cs_cipher := cipher_close L (cs_cipher cs), cs_type := [], cs_inited := False\<rparr>"

text \<open>
  swap_secret on the vector \<open>secret_in\<close>: the vector is cut (or zero-filled) to the sizes of the
  cipher, the initialisation vector is taken just after the key, and the key is installed. The
  result is the code, the resized vector, libres, and the cipher.
\<close>

definition swap_secret_core ::
  "('c, 'd, 'g) crypto_lib \<Rightarrow> 'c \<Rightarrow> byte list \<Rightarrow> int \<times> byte list \<times> int \<times> 'c" where
  "swap_secret_core L c secret_in =
     (let key_size = cipher_key_bits L c div 8;
          iv_size = cipher_iv_size L c;
          in1 = (if length secret_in < unat key_size then vec_resize (unat key_size) secret_in else secret_in);
          use_iv = (iv_size > 0 \<and> length in1 \<ge> unat (iv_size + key_size));
          in2 = (if use_iv then vec_resize (unat (iv_size + key_size)) in1 else vec_resize (unat key_size) in1);
          (r1, c1) = (if use_iv then cipher_set_iv L c (take (unat iv_size) (drop (unat key_size) in2)) else (0, c))
      in if r1 < 0 then (r1, in2, cipher_errno L c1, c1)
         else case cipher_set_key L c1 (take (unat key_size) in2) (key_size * 8) of (r2, c2) \<Rightarrow>
           if r2 < 0 then (r2, in2, cipher_errno L c2, c2) else (0, in2, 0, c2))"

text \<open>The two calls: on the session's own vector, and on another one, swapped in on success.\<close>

definition swap_secret_self ::
  "('c, 'd, 'g) crypto_lib \<Rightarrow> ('c, 'g) crypt_session \<Rightarrow> int \<times> int \<times> ('c, 'g) crypt_session" where
  "swap_secret_self L cs =
     (case swap_secret_core L (cs_cipher cs) (cs_secret cs) of (r, v, libres, c) \<Rightarrow>
        (r, libres, cs\<lparr>cs_cipher := c, cs_secret := v\<rparr>))"

definition swap_secret ::
  "('c, 'd, 'g) crypto_lib \<Rightarrow> byte list \<Rightarrow> ('c, 'g) crypt_session \<Rightarrow> int \<times> int \<times> ('c, 'g) crypt_session" where
  "swap_secret L secret_in cs =
     (case swap_secret_core L (cs_cipher cs) secret_in of (r, v, libres, c) \<Rightarrow>
        (r, libres, if r < 0 then cs\<lparr>cs_cipher := c\<rparr> else cs\<lparr>cs_cipher := c, cs_secret := v\<rparr>))"

definition generate_secret ::
  "('c, 'd, 'g) crypto_lib \<Rightarrow> nat \<Rightarrow> ('c, 'g) crypt_session \<Rightarrow> int \<times> int \<times> ('c, 'g) crypt_session" where
  "generate_secret L seed cs =
     (case cs_shared_conf cs of
        None \<Rightarrow> (ec EN_ECT_HANDSHAKE, 0, cs)
      | Some g \<Rightarrow>
          let secret_len = unat (cipher_key_bits L (cs_cipher cs) div 8 + cipher_iv_size L (cs_cipher cs))
          in case dhs_random L (gc_dh g) seed secret_len of (libres, bytes) \<Rightarrow>
            let cs1 = cs\<lparr>cs_secret := vec_resize secret_len bytes\<rparr> in
            if libres \<noteq> 0 then (ec EN_ECT_HANDSHAKE, libres, cs1)
            else swap_secret_self L
              (if cs_secret cs1 = [] then cs1\<lparr>cs_secret := bytes_of_string (conf_default_key (gc_conf g))\<rparr> else cs1))"

end
