(* ===== verification/ProtoState.thy ===== *)
theory ProtoState
  imports ProtoSpec CryptConf
begin

text \<open>
  The object libatgw_proto_inner_v1 (libatgw_proto_inner.h): its state, the libraries it is built
  on, and its private helpers that encrypt, decrypt and reach the crypt sessions.

  \<^item> \<open>proto\<close> extends the record of the base class with the members of the derived class. The three
    shared pointers crypt_read_, crypt_write_ and crypt_handshake_ may point to one session, so the
    sessions live in a heap (\<open>crypt_heap\<close>) and the pointers are indices: what is changed through one
    pointer is seen through the others.
  \<^item> \<open>proto_env\<close> extends it with what is global to the process: the current configuration, the
    sequence counter, the number of random draws, the clock, and the world of the engine.
  \<^item> \<open>bufops\<close> is the interface of ::atbus::detail::buffer_manager, a library the sources only call:
    a queue of memory blocks, each with a fill mark. \<open>bufmgr_ok\<close> states what the protocol relies on.
\<close>

section \<open>The buffer manager\<close>

record bblock =
  blk_addr :: nat
  blk_used :: nat
  blk_mem :: "byte list"

record 'b bufops =
  bm_blocks :: "'b \<Rightarrow> bblock list"
  bm_cost_number :: "'b \<Rightarrow> nat"
  bm_is_static :: "'b \<Rightarrow> bool"
  bm_push_back :: "'b \<Rightarrow> nat \<Rightarrow> int \<times> 'b"
  bm_push_front :: "'b \<Rightarrow> nat \<Rightarrow> int \<times> 'b"
  bm_pop_back :: "'b \<Rightarrow> nat \<Rightarrow> bool \<Rightarrow> 'b"
  bm_pop_front :: "'b \<Rightarrow> nat \<Rightarrow> bool \<Rightarrow> 'b"
  bm_poke_back :: "'b \<Rightarrow> nat \<Rightarrow> byte list \<Rightarrow> 'b"
  bm_poke_front :: "'b \<Rightarrow> nat \<Rightarrow> byte list \<Rightarrow> 'b"
  bm_set_mode :: "'b \<Rightarrow> u64 \<Rightarrow> u64 \<Rightarrow> 'b"

definition blk_size :: "bblock \<Rightarrow> nat" where
  "blk_size k = length (blk_mem k)"

definition blk_left :: "bblock \<Rightarrow> nat" where
  "blk_left k = blk_size k - blk_used k"

text \<open>
  The documented behaviour: push adds an empty block of the size asked for at an address not in
  use, or fails with a negative code and changes nothing; pop advances the fill mark, and with the
  flag releases a block that is full; the memory of a block is written at an offset. A block is
  never over-filled. The counter counts the blocks.
\<close>

definition bufmgr_ok :: "'b bufops \<Rightarrow> bool" where
  "bufmgr_ok B \<longleftrightarrow>
     (\<forall>b. bm_cost_number B b = length (bm_blocks B b)) \<and>
     (\<forall>b n r b'. bm_push_back B b n = (r, b') \<longrightarrow>
        (if r = 0 then \<exists>a m. a \<notin> blk_addr ` set (bm_blocks B b) \<and> length m = n \<and>
              bm_blocks B b' = bm_blocks B b @ [\<lparr>blk_addr = a, blk_used = 0, blk_mem = m\<rparr>]
         else r < 0 \<and> bm_blocks B b' = bm_blocks B b)) \<and>
     (\<forall>b n r b'. bm_push_front B b n = (r, b') \<longrightarrow>
        (if r = 0 then \<exists>a m. a \<notin> blk_addr ` set (bm_blocks B b) \<and> length m = n \<and>
              bm_blocks B b' = \<lparr>blk_addr = a, blk_used = 0, blk_mem = m\<rparr> # bm_blocks B b
         else r < 0 \<and> bm_blocks B b' = bm_blocks B b)) \<and>
     (\<forall>b ks k n. bm_blocks B b = ks @ [k] \<longrightarrow> blk_used k + n \<le> blk_size k \<longrightarrow>
        bm_blocks B (bm_pop_back B b n False) = ks @ [k\<lparr>blk_used := blk_used k + n\<rparr>]) \<and>
     (\<forall>b ks k n. bm_blocks B b = k # ks \<longrightarrow> blk_used k + n \<le> blk_size k \<longrightarrow>
        bm_blocks B (bm_pop_front B b n True) =
          (if blk_used k + n = blk_size k then ks else k\<lparr>blk_used := blk_used k + n\<rparr> # ks)) \<and>
     (\<forall>b ks k off xs. bm_blocks B b = ks @ [k] \<longrightarrow> off + length xs \<le> blk_size k \<longrightarrow>
        bm_blocks B (bm_poke_back B b off xs) = ks @ [k\<lparr>blk_mem := overlay (blk_mem k) off xs\<rparr>]) \<and>
     (\<forall>b ks k off xs. bm_blocks B b = k # ks \<longrightarrow> off + length xs \<le> blk_size k \<longrightarrow>
        bm_blocks B (bm_poke_front B b off xs) = k\<lparr>blk_mem := overlay (blk_mem k) off xs\<rparr> # ks)"

lemma bufmgr_cost:
  "bufmgr_ok B \<Longrightarrow> bm_cost_number B b = length (bm_blocks B b)"
  unfolding bufmgr_ok_def by meson

lemma bufmgr_push_back:
  "bufmgr_ok B \<Longrightarrow> bm_push_back B b n = (r, b') \<Longrightarrow>
        (if r = 0 then \<exists>a m. a \<notin> blk_addr ` set (bm_blocks B b) \<and> length m = n \<and>
              bm_blocks B b' = bm_blocks B b @ [\<lparr>blk_addr = a, blk_used = 0, blk_mem = m\<rparr>]
         else r < 0 \<and> bm_blocks B b' = bm_blocks B b)"
  unfolding bufmgr_ok_def by meson

lemma bufmgr_push_front:
  "bufmgr_ok B \<Longrightarrow> bm_push_front B b n = (r, b') \<Longrightarrow>
        (if r = 0 then \<exists>a m. a \<notin> blk_addr ` set (bm_blocks B b) \<and> length m = n \<and>
              bm_blocks B b' = \<lparr>blk_addr = a, blk_used = 0, blk_mem = m\<rparr> # bm_blocks B b
         else r < 0 \<and> bm_blocks B b' = bm_blocks B b)"
  unfolding bufmgr_ok_def by meson

lemma bufmgr_pop_back:
  "bufmgr_ok B \<Longrightarrow> bm_blocks B b = ks @ [k] \<Longrightarrow> blk_used k + n \<le> blk_size k \<Longrightarrow>
        bm_blocks B (bm_pop_back B b n False) = ks @ [k\<lparr>blk_used := blk_used k + n\<rparr>]"
  unfolding bufmgr_ok_def by meson

lemma bufmgr_pop_front:
  "bufmgr_ok B \<Longrightarrow> bm_blocks B b = k # ks \<Longrightarrow> blk_used k + n \<le> blk_size k \<Longrightarrow>
        bm_blocks B (bm_pop_front B b n True) =
          (if blk_used k + n = blk_size k then ks else k\<lparr>blk_used := blk_used k + n\<rparr> # ks)"
  unfolding bufmgr_ok_def by meson

lemma bufmgr_poke_back:
  "bufmgr_ok B \<Longrightarrow> bm_blocks B b = ks @ [k] \<Longrightarrow> off + length xs \<le> blk_size k \<Longrightarrow>
        bm_blocks B (bm_poke_back B b off xs) = ks @ [k\<lparr>blk_mem := overlay (blk_mem k) off xs\<rparr>]"
  unfolding bufmgr_ok_def by meson

lemma bufmgr_poke_front:
  "bufmgr_ok B \<Longrightarrow> bm_blocks B b = k # ks \<Longrightarrow> off + length xs \<le> blk_size k \<Longrightarrow>
        bm_blocks B (bm_poke_front B b off xs) = k\<lparr>blk_mem := overlay (blk_mem k) off xs\<rparr> # ks"
  unfolding bufmgr_ok_def by meson

section \<open>The state\<close>

definition SMALL_SIZE :: nat where
  "SMALL_SIZE = 3072"

record ('c, 'd, 'g, 'b) proto = proto_base +
  session_id :: u64
  read_buffers :: 'b
  read_head_buffer :: "byte list"
  read_head_len :: nat
  write_buffers :: 'b
  last_write_ptr :: "nat option"
  close_reason :: int
  crypt_heap :: "('c, 'g) crypt_session list"
  crypt_read :: "nat option"
  crypt_write :: "nat option"
  crypt_handshake :: nat
  last_ping :: int
  last_delta :: int
  shake_switch_secret_type :: int
  shake_has_data :: bool
  shake_ext_data :: "cs_body_handshake option"
  shake_dh_ctx :: 'd

record ('c, 'd, 'g, 'b, 'w) proto_env = "('c, 'd, 'g, 'b) proto" +
  g_current :: "'g global_conf option"
  g_seq :: u64
  g_draws :: nat
  g_now :: int
  g_world :: 'w

text \<open>
  What the code is linked with: the crypto library, the buffer manager, the flat-buffer codec, the
  hash murmur_hash3_x86_32 (with seed 0), the hexadecimal dump util::string::dumphex, and the
  engine's callback table; and the depth up to
  which the recursion between try_write and write_done is followed.
\<close>

record ('c, 'd, 'g, 'b, 's) linkage =
  lk_crypto :: "('c, 'd, 'g) crypto_lib"
  lk_buf :: "'b bufops"
  lk_fb :: fb_codec
  lk_hash :: "byte list \<Rightarrow> u32"
  lk_hex :: "byte list \<Rightarrow> byte list"
  lk_cb :: "'s proto_callbacks option"
  lk_fuel :: nat

type_synonym ('c, 'd, 'g, 'b, 'w) link =
  "('c, 'd, 'g, 'b, ('c, 'd, 'g, 'b, 'w) proto_env) linkage"

type_synonym ('c, 'd, 'g, 'b, 'w, 'a) pm = "(('c, 'd, 'g, 'b, 'w) proto_env, 'a) state"

text \<open>The constructor: one crypt session of its own for the handshake.\<close>

definition proto_init :: "('c, 'd, 'g) crypto_lib \<Rightarrow> 'b \<Rightarrow> ('c, 'd, 'g, 'b) proto" where
  "proto_init L b = \<lparr>flags = 0, write_header_offset = 0, trace = [], faults = [], session_id = 0,
     read_buffers = b, read_head_buffer = replicate SMALL_SIZE 0, read_head_len = 0,
     write_buffers = b, last_write_ptr = None, close_reason = 0,
     crypt_heap = [crypt_session_new L], crypt_read = None, crypt_write = None, crypt_handshake = 0,
     last_ping = 0, last_delta = 0, shake_switch_secret_type = 0, shake_has_data = False,
     shake_ext_data = None, shake_dh_ctx = dh_new L\<rparr>"

section \<open>Access to the crypt sessions\<close>

definition crypt_at :: "nat \<Rightarrow> ('c, 'd, 'g, 'b, 'z) proto_scheme \<Rightarrow> ('c, 'g) crypt_session" where
  "crypt_at i s = crypt_heap s ! i"

definition put_crypt ::
  "nat \<Rightarrow> ('c, 'g) crypt_session \<Rightarrow> ('c, 'd, 'g, 'b, 'z) proto_scheme \<Rightarrow> ('c, 'd, 'g, 'b, 'z) proto_scheme" where
  "put_crypt i cs s = s\<lparr>crypt_heap := (crypt_heap s)[i := cs]\<rparr>"

definition hs_crypt :: "('c, 'd, 'g, 'b, 'z) proto_scheme \<Rightarrow> ('c, 'g) crypt_session" where
  "hs_crypt s = crypt_at (crypt_handshake s) s"

definition upd_hs_crypt ::
  "(('c, 'g) crypt_session \<Rightarrow> ('c, 'g) crypt_session) \<Rightarrow>
   ('c, 'd, 'g, 'b, 'z) proto_scheme \<Rightarrow> ('c, 'd, 'g, 'b, 'z) proto_scheme" where
  "upd_hs_crypt f s = put_crypt (crypt_handshake s) (f (hs_crypt s)) s"

text \<open>std::make_shared<crypt_session_t>() assigned to crypt_handshake_.\<close>

definition new_hs_crypt ::
  "('c, 'd, 'g) crypto_lib \<Rightarrow> ('c, 'd, 'g, 'b, 'z) proto_scheme \<Rightarrow> ('c, 'd, 'g, 'b, 'z) proto_scheme" where
  "new_hs_crypt L s =
     s\<lparr>crypt_heap := crypt_heap s @ [crypt_session_new L], crypt_handshake := length (crypt_heap s)\<rparr>"

definition use_hs_read :: "('c, 'd, 'g, 'b, 'z) proto_scheme \<Rightarrow> ('c, 'd, 'g, 'b, 'z) proto_scheme" where
  "use_hs_read s = s\<lparr>crypt_read := Some (crypt_handshake s)\<rparr>"

definition use_hs_write :: "('c, 'd, 'g, 'b, 'z) proto_scheme \<Rightarrow> ('c, 'd, 'g, 'b, 'z) proto_scheme" where
  "use_hs_write s = s\<lparr>crypt_write := Some (crypt_handshake s)\<rparr>"

definition run_hs_crypt ::
  "(('c, 'g) crypt_session \<Rightarrow> 'a \<times> ('c, 'g) crypt_session) \<Rightarrow> ('c, 'd, 'g, 'b, 'w, 'a) pm" where
  "run_hs_crypt f = do {
     r \<leftarrow> gets (\<lambda>s. fst (f (hs_crypt s)));
     modify (upd_hs_crypt (\<lambda>cs. snd (f cs)));
     ret r
   }"

definition next_seq :: "('c, 'd, 'g, 'b, 'w, u64) pm" where
  "next_seq = do {
     modify (\<lambda>s. s\<lparr>g_seq := alloc_seq (g_seq s)\<rparr>);
     gets g_seq
   }"

definition random_bytes :: "('c, 'd, 'g, 'b, 'w) link \<Rightarrow> 'g \<Rightarrow> nat \<Rightarrow> ('c, 'd, 'g, 'b, 'w, int \<times> byte list) pm" where
  "random_bytes K g len = do {
     d \<leftarrow> gets g_draws;
     modify (\<lambda>s. s\<lparr>g_draws := Suc d\<rparr>);
     (case dhs_random (lk_crypto K) g d len of (res, bytes) \<Rightarrow> ret (res, vec_resize len bytes))
   }"

end
