(* ===== verification/ProtoCrypt.thy ===== *)
theory ProtoCrypt
  imports ProtoState
begin

text \<open>
  encrypt_data, decrypt_data, encode_post and decode_post of the inner protocol. A buffer is a byte
  list, None for NULL; the parameter \<open>out0\<close> is what the caller's output pointer holds before the
  call, which the early error returns leave alone. The outputs live in one thread-local buffer of
  \<open>tls_length\<close> bytes; every caller copies them before the next use, so they are passed by value.
\<close>

definition encrypt_data ::
  "('c, 'd, 'g, 'b, 'w) link \<Rightarrow> nat \<Rightarrow> byte list option \<Rightarrow> byte list option \<Rightarrow>
   ('c, 'd, 'g, 'b, 'w, int \<times> byte list option) pm" where
  "encrypt_data K i inp out0 = do {
     closing \<leftarrow> gets (check_flag EN_PFT_CLOSING);
     cs \<leftarrow> gets (crypt_at i);
     if closing then ret (ec EN_ECT_CLOSING, out0)
     else if \<not> cs_inited cs then ret (ec EN_ECT_CRYPT_NOT_SUPPORTED, out0)
     else if inp = None \<or> inp = Some [] then ret (ec EN_ECT_PARAM, inp)
     else if cs_type cs = [] then ret (ec EN_ECT_SUCCESS, inp)
     else (case cipher_encrypt (lk_crypto K) (cs_cipher cs) (the inp) tls_length of (res, bytes, c) \<Rightarrow> do {
       modify (put_crypt i (cs\<lparr>cs_cipher := c\<rparr>));
       if res < 0 then do {
         on_error (lk_cb K) res ''encrypt data failed'';
         ret (ec EN_ECT_CRYPT_OPERATION, None)
       } else ret (ec EN_ECT_SUCCESS, Some bytes)
     })
   }"

definition decrypt_data ::
  "('c, 'd, 'g, 'b, 'w) link \<Rightarrow> nat \<Rightarrow> byte list option \<Rightarrow> byte list option \<Rightarrow>
   ('c, 'd, 'g, 'b, 'w, int \<times> byte list option) pm" where
  "decrypt_data K i inp out0 = do {
     closing \<leftarrow> gets (check_flag EN_PFT_CLOSING);
     cs \<leftarrow> gets (crypt_at i);
     if closing then ret (ec EN_ECT_CLOSING, out0)
     else if \<not> cs_inited cs then ret (ec EN_ECT_CRYPT_NOT_SUPPORTED, out0)
     else if inp = None \<or> inp = Some [] then ret (ec EN_ECT_PARAM, inp)
     else if cs_type cs = [] then ret (ec EN_ECT_SUCCESS, inp)
     else (case cipher_decrypt (lk_crypto K) (cs_cipher cs) (the inp) tls_length of (res, bytes, c) \<Rightarrow> do {
       modify (put_crypt i (cs\<lparr>cs_cipher := c\<rparr>));
       if res < 0 then do {
         on_error (lk_cb K) res ''decrypt data failed'';
         ret (ec EN_ECT_CRYPT_OPERATION, None)
       } else ret (ec EN_ECT_SUCCESS, Some bytes)
     })
   }"

definition encode_post ::
  "('c, 'd, 'g, 'b, 'w) link \<Rightarrow> byte list option \<Rightarrow> ('c, 'd, 'g, 'b, 'w, int \<times> byte list option) pm" where
  "encode_post K inp = do {
     closing \<leftarrow> gets (check_flag EN_PFT_CLOSING);
     if closing then ret (ec EN_ECT_CLOSING, inp)
     else do {
       w \<leftarrow> gets crypt_write;
       (case w of
          None \<Rightarrow> ret (ec EN_ECT_HANDSHAKE, inp)
        | Some i \<Rightarrow> encrypt_data K i inp inp)
     }
   }"

definition decode_post ::
  "('c, 'd, 'g, 'b, 'w) link \<Rightarrow> byte list option \<Rightarrow> ('c, 'd, 'g, 'b, 'w, int \<times> byte list option) pm" where
  "decode_post K inp = do {
     closing \<leftarrow> gets (check_flag EN_PFT_CLOSING);
     if closing then ret (ec EN_ECT_CLOSING, inp)
     else do {
       r \<leftarrow> gets crypt_read;
       (case r of
          None \<Rightarrow> ret (ec EN_ECT_HANDSHAKE, inp)
        | Some i \<Rightarrow> do {
            (res, out) \<leftarrow> decrypt_data K i inp None;
            if res < 0 then ret (res, inp) else ret (res, out)
          })
     }
   }"

end
