(* ===== verification/ProtoWrite.thy ===== *)
theory ProtoWrite
  imports ProtoCrypt
begin

text \<open>
  The sending half of the inner protocol: write_msg frames a message into the write queue,
  try_write merges small blocks and hands one block to the engine, write_done releases it and goes
  on, close sends the kickoff message and reports the end. try_write and write_done call each other
  (the engine may finish a write at once), so both take the remaining depth; running out of it is
  recorded as a fault, never hidden.
\<close>

section \<open>The write queue\<close>

definition hdr_off :: "'z proto_base_scheme \<Rightarrow> nat" where
  "hdr_off s = unat (write_header_offset s)"

definition write_blocks ::
  "('c, 'd, 'g, 'b, 'w) link \<Rightarrow> ('c, 'd, 'g, 'b, 'w) proto_env \<Rightarrow> bblock list" where
  "write_blocks K s = bm_blocks (lk_buf K) (write_buffers s)"

text \<open>The frame of a message: 32-bit hash, 32-bit length, the bytes.\<close>

definition frame :: "(byte list \<Rightarrow> u32) \<Rightarrow> byte list \<Rightarrow> byte list" where
  "frame hash buf = le32_bytes (hash buf) @ le32_bytes (word_of_nat (length buf)) @ buf"

lemma length_frame [simp]: "length (frame h buf) = 8 + length buf"
  by (simp add: frame_def)

text \<open>
  The merge loop of try_write: pop whole blocks from the front while the merge buffer has room,
  and collect what follows their header space. The bound \<open>n\<close> is the number of blocks.
\<close>

fun merge_loop ::
  "'b bufops \<Rightarrow> nat \<Rightarrow> nat \<Rightarrow> nat \<Rightarrow> nat option \<Rightarrow> byte list \<Rightarrow> 'b \<Rightarrow> byte list \<times> 'b" where
  "merge_loop B off 0 avail preview acc b = (acc, b)"
| "merge_loop B off (Suc n) avail preview acc b =
     (case bm_blocks B b of
        [] \<Rightarrow> (acc, b)
      | bb # _ \<Rightarrow>
          if avail = 0 \<or> blk_size bb > avail then (acc, b)
          else if bm_is_static B b \<and> preview \<noteq> None \<and> the preview > blk_addr bb then (acc, b)
          else merge_loop B off n (avail - (blk_size bb - off)) (Some (blk_addr bb))
                 (acc @ drop off (blk_mem bb)) (bm_pop_front B b (blk_size bb) True))"

definition try_merge :: "('c, 'd, 'g, 'b, 'w) link \<Rightarrow> ('c, 'd, 'g, 'b, 'w, unit) pm" where
  "try_merge K = do {
     b \<leftarrow> gets write_buffers;
     off \<leftarrow> gets hdr_off;
     avail \<leftarrow> gets (\<lambda>s. unat (word_of_nat tls_length - write_header_offset s :: u64));
     let B = lk_buf K;
     when_do (bm_cost_number B b > 1 \<and> bm_blocks B b \<noteq> [] \<and> blk_size (hd (bm_blocks B b)) \<le> SMALL_SIZE)
       (case merge_loop B off (length (bm_blocks B b)) avail None [] b of (merged, b1) \<Rightarrow>
        (case bm_push_front B b1 (off + length merged) of (r, b2) \<Rightarrow> do {
           modify (\<lambda>s. s\<lparr>write_buffers := b2\<rparr>);
           if r \<noteq> 0 then raise_fault (AssertFailed ''data'')
           else do {
             when_do (merged = []) (raise_fault (AssertFailed ''free_buffer > buffer_start''));
             modify (\<lambda>s. s\<lparr>write_buffers := bm_poke_front B b2 off merged\<rparr>)
           }
         }))
   }"

text \<open>Closing: every queued block is dropped.\<close>

fun drain :: "'b bufops \<Rightarrow> nat \<Rightarrow> 'b \<Rightarrow> 'b" where
  "drain B 0 b = b"
| "drain B (Suc n) b =
     (case bm_blocks B b of
        [] \<Rightarrow> b
      | bb # _ \<Rightarrow> drain B n (bm_pop_front B b (blk_size bb) True))"

text \<open>
  The loop of write_done: pop blocks up to and including the one last handed to the engine. The
  flag tells whether the assertion that a popped block is unused failed.
\<close>

fun pop_written :: "'b bufops \<Rightarrow> nat option \<Rightarrow> nat \<Rightarrow> bool \<Rightarrow> 'b \<Rightarrow> bool \<times> 'b" where
  "pop_written B lastp 0 bad b = (bad, b)"
| "pop_written B lastp (Suc n) bad b =
     (case bm_blocks B b of
        [] \<Rightarrow> (bad, b)
      | bb # _ \<Rightarrow>
          let bad' = (bad \<or> blk_used bb \<noteq> 0) in
          if blk_left bb = 0 then (bad', bm_pop_front B b 0 True)
          else let b' = bm_pop_front B b (blk_left bb) True in
               if lastp = Some (blk_addr bb + blk_used bb) then (bad', b')
               else pop_written B lastp n bad' b')"

section \<open>try_write and write_done\<close>

text \<open>
  The end of write_done and of close: closing, nothing being written, not yet reported. The flag
  CLOSED is set and the engine told; \<open>dflt\<close> is returned when it has no close callback or when
  there is nothing to do. (In close the test of CLOSING always holds: it was just set.)
\<close>

definition report_closed :: "('c, 'd, 'g, 'b, 'w) link \<Rightarrow> int \<Rightarrow> ('c, 'd, 'g, 'b, 'w, int) pm" where
  "report_closed K dflt = do {
     closing \<leftarrow> gets (check_flag EN_PFT_CLOSING);
     closed \<leftarrow> gets (check_flag EN_PFT_CLOSED);
     writing \<leftarrow> gets (check_flag EN_PFT_WRITING);
     if closing \<and> \<not> closed \<and> \<not> writing then do {
       reason \<leftarrow> gets close_reason;
       (case Option.bind (lk_cb K) close_fn of
          None \<Rightarrow> do { modify (set_flag EN_PFT_CLOSED True); ret dflt }
        | Some f \<Rightarrow> do {
            modify (\<lambda>s. log_event (EvClose reason) (set_flag EN_PFT_CLOSED True s));
            f reason
          })
     }
     else ret dflt
   }"

fun try_write :: "('c, 'd, 'g, 'b, 'w) link \<Rightarrow> nat \<Rightarrow> ('c, 'd, 'g, 'b, 'w, int) pm"
and write_done :: "('c, 'd, 'g, 'b, 'w) link \<Rightarrow> nat \<Rightarrow> int \<Rightarrow> ('c, 'd, 'g, 'b, 'w, int) pm" where
  "try_write K 0 = do { raise_fault (OutOfFuel ''try_write''); ret 0 }"
| "try_write K (Suc n) =
     (case Option.bind (lk_cb K) write_fn of
        None \<Rightarrow> ret (ec EN_ECT_MISS_CALLBACKS)
      | Some wfn \<Rightarrow> do {
          writing \<leftarrow> gets (check_flag EN_PFT_WRITING);
          blocks \<leftarrow> gets (write_blocks K);
          closing \<leftarrow> gets (check_flag EN_PFT_CLOSING);
          if writing then ret 0
          else if blocks = [] then ret 0
          else if closing then do {
            modify (\<lambda>s. s\<lparr>write_buffers := drain (lk_buf K) (length blocks) (write_buffers s)\<rparr>);
            ret (ec EN_ECT_CLOSING)
          }
          else do {
            try_merge K;
            merged \<leftarrow> gets (write_blocks K);
            off \<leftarrow> gets hdr_off;
            (case merged of
               [] \<Rightarrow> do {
                 raise_fault (AssertFailed ''writing_block'');
                 modify (\<lambda>s. s\<lparr>write_buffers := bm_pop_front (lk_buf K) (write_buffers s) 0 True\<rparr>);
                 modify (set_flag EN_PFT_WRITING True);
                 write_done K n (ec EN_ECT_NO_DATA)
               }
             | bb # _ \<Rightarrow>
                 if blk_size bb \<le> off then do {
                   modify (\<lambda>s. s\<lparr>write_buffers := bm_pop_front (lk_buf K) (write_buffers s) (blk_size bb) True\<rparr>);
                   try_write K n
                 }
                 else do {
                   modify (\<lambda>s. (log_event (EvWrite (blk_mem bb)) (set_flag EN_PFT_WRITING True s))
                                 \<lparr>last_write_ptr := Some (blk_addr bb)\<rparr>);
                   (r, is_done) \<leftarrow> wfn (blk_mem bb);
                   if is_done then write_done K n r else ret r
                 })
          }
        })"
| "write_done K 0 status = do { raise_fault (OutOfFuel ''write_done''); ret 0 }"
| "write_done K (Suc n) status = do {
     writing \<leftarrow> gets (check_flag EN_PFT_WRITING);
     if \<not> writing then ret status
     else flag_guard EN_PFT_IN_CALLBACK (do {
       b \<leftarrow> gets write_buffers;
       lastp \<leftarrow> gets last_write_ptr;
       (case pop_written (lk_buf K) lastp (length (bm_blocks (lk_buf K) b)) False b of (bad, b') \<Rightarrow> do {
          when_do bad (raise_fault (AssertFailed ''0 == nread''));
          modify (\<lambda>s. s\<lparr>write_buffers := b', last_write_ptr := None\<rparr>)
        });
       modify (\<lambda>s. log_event (EvWritten status) (set_flag EN_PFT_WRITING False s));
       status' \<leftarrow> try_write K n;
       report_closed K status'
     })
   }"

definition write_msg :: "('c, 'd, 'g, 'b, 'w) link \<Rightarrow> cs_msg \<Rightarrow> ('c, 'd, 'g, 'b, 'w, int) pm" where
  "write_msg K msg = (
     let buf = fb_pack (lk_fb K) msg in
     if buf = [] then try_write K (lk_fuel K)
     else if length buf \<ge> 2 ^ 32 - 1 then ret (ec EN_ECT_INVALID_SIZE)
     else do {
       off \<leftarrow> gets hdr_off;
       b \<leftarrow> gets write_buffers;
       (case bm_push_back (lk_buf K) b (off + 8 + length buf) of (res, b') \<Rightarrow> do {
          modify (\<lambda>s. s\<lparr>write_buffers := b'\<rparr>);
          if res < 0 then ret res
          else do {
            modify (\<lambda>s. s\<lparr>write_buffers := bm_poke_back (lk_buf K) b' off (frame (lk_hash K) buf)\<rparr>);
            try_write K (lk_fuel K)
          }
        })
     })"

section \<open>The messages that are sent\<close>

text \<open>Build a message with the next sequence number, and queue it.\<close>

definition send_msg ::
  "('c, 'd, 'g, 'b, 'w) link \<Rightarrow> cs_msg_type_t \<Rightarrow> cs_msg_body \<Rightarrow> ('c, 'd, 'g, 'b, 'w, int) pm" where
  "send_msg K ty body = do {
     sq \<leftarrow> next_seq;
     write_msg K (Createcs_msg (Createcs_msg_head ty sq) body)
   }"

definition has_write_fn :: "('c, 'd, 'g, 'b, 'w) link \<Rightarrow> bool" where
  "has_write_fn K = (Option.bind (lk_cb K) write_fn \<noteq> None)"

definition send_post ::
  "('c, 'd, 'g, 'b, 'w) link \<Rightarrow> cs_msg_type_t \<Rightarrow> byte list option \<Rightarrow> ('c, 'd, 'g, 'b, 'w, int) pm" where
  "send_post K msg_type buffer = do {
     closing \<leftarrow> gets (check_flag EN_PFT_CLOSING);
     cw \<leftarrow> gets crypt_write;
     if closing then ret (ec EN_ECT_CLOSING)
     else if \<not> has_write_fn K \<or> cw = None then ret (ec EN_ECT_MISS_CALLBACKS)
     else do {
       (res, out) \<leftarrow> encode_post K buffer;
       if res \<noteq> 0 then ret res
       else send_msg K msg_type (Body_post (Some (Createcs_body_post
              (word_of_nat (length (the buffer))) (case out of None \<Rightarrow> [] | Some bs \<Rightarrow> bs))))
     }
   }"

definition proto_write :: "('c, 'd, 'g, 'b, 'w) link \<Rightarrow> byte list option \<Rightarrow> ('c, 'd, 'g, 'b, 'w, int) pm" where
  "proto_write K buffer = send_post K EN_MTT_POST buffer"

definition send_ping :: "('c, 'd, 'g, 'b, 'w) link \<Rightarrow> ('c, 'd, 'g, 'b, 'w, int) pm" where
  "send_ping K = do {
     closing \<leftarrow> gets (check_flag EN_PFT_CLOSING);
     if closing then ret (ec EN_ECT_CLOSING)
     else if \<not> has_write_fn K then ret (ec EN_ECT_MISS_CALLBACKS)
     else do {
       now \<leftarrow> gets g_now;
       modify (\<lambda>s. s\<lparr>last_ping := now\<rparr>);
       send_msg K EN_MTT_PING (Body_ping (Some \<lparr>ping_timepoint = now\<rparr>))
     }
   }"

definition send_pong :: "('c, 'd, 'g, 'b, 'w) link \<Rightarrow> int \<Rightarrow> ('c, 'd, 'g, 'b, 'w, int) pm" where
  "send_pong K tp = do {
     closing \<leftarrow> gets (check_flag EN_PFT_CLOSING);
     if closing then ret (ec EN_ECT_CLOSING)
     else if \<not> has_write_fn K then ret (ec EN_ECT_MISS_CALLBACKS)
     else send_msg K EN_MTT_PONG (Body_ping (Some \<lparr>ping_timepoint = tp\<rparr>))
   }"

definition send_kickoff :: "('c, 'd, 'g, 'b, 'w) link \<Rightarrow> int \<Rightarrow> ('c, 'd, 'g, 'b, 'w, int) pm" where
  "send_kickoff K reason = do {
     closing \<leftarrow> gets (check_flag EN_PFT_CLOSING);
     if closing then ret (ec EN_ECT_CLOSING)
     else if \<not> has_write_fn K then ret (ec EN_ECT_MISS_CALLBACKS)
     else send_msg K EN_MTT_KICKOFF (Body_kickoff (Some \<lparr>kickoff_reason = reason\<rparr>))
   }"

definition send_verify ::
  "('c, 'd, 'g, 'b, 'w) link \<Rightarrow> byte list option \<Rightarrow> ('c, 'd, 'g, 'b, 'w, int) pm" where
  "send_verify K buf = do {
     closing \<leftarrow> gets (check_flag EN_PFT_CLOSING);
     cw \<leftarrow> gets crypt_write;
     if closing then ret (ec EN_ECT_CLOSING)
     else if \<not> has_write_fn K \<or> cw = None then ret (ec EN_ECT_MISS_CALLBACKS)
     else do {
       sid0 \<leftarrow> gets session_id;
       (res, out) \<leftarrow> (if buf \<noteq> None \<and> buf \<noteq> Some [] then encrypt_data K (the cw) buf None else ret (0, None));
       let sid = (if res \<noteq> 0 then 0 else sid0);
       let outbuf = (if res \<noteq> 0 then None else out);
       sw \<leftarrow> gets shake_switch_secret_type;
       send_msg K EN_MTT_HANDSHAKE (Body_handshake (Some (Createcs_body_handshake sid EN_HST_VERIFY sw ''''
         (case outbuf of None \<Rightarrow> [] | Some bs \<Rightarrow> bs))))
     }
   }"

section \<open>close\<close>

definition close_with ::
  "('c, 'd, 'g, 'b, 'w) link \<Rightarrow> int \<Rightarrow> bool \<Rightarrow> ('c, 'd, 'g, 'b, 'w, int) pm" where
  "close_with K reason is_send_kickoff = do {
     closing \<leftarrow> gets (check_flag EN_PFT_CLOSING);
     if closing then ret 0
     else do {
       modify (\<lambda>s. s\<lparr>close_reason := reason\<rparr>);
       when_do is_send_kickoff (do { _ \<leftarrow> send_kickoff K reason; ret () });
       modify (set_flag EN_PFT_CLOSING True);
       report_closed K 0
     }
   }"

definition close :: "('c, 'd, 'g, 'b, 'w) link \<Rightarrow> int \<Rightarrow> ('c, 'd, 'g, 'b, 'w, int) pm" where
  "close K reason = close_with K reason True"

end
