(* ===== verification/ProtoHandshake.thy ===== *)
theory ProtoHandshake
  imports ProtoWrite
begin

text \<open>
  The handshake of the inner protocol: setup_handshake and close_handshake, the packers of the
  replies, one dispatcher per step, the reconnect check, and the client calls start_session and
  reconnect_session. Each definition is one member function of libatgw_proto_inner_v1.
\<close>

section \<open>Starting and finishing a handshake\<close>

definition setup_handshake ::
  "('c, 'd, 'g, 'b, 'w) link \<Rightarrow> 'g global_conf option \<Rightarrow> ('c, 'd, 'g, 'b, 'w, int) pm" where
  "setup_handshake K conf = do {
     has_data \<leftarrow> gets shake_has_data;
     if has_data then ret 0
     else do {
       modify (upd_hs_crypt (\<lambda>cs. cs\<lparr>cs_shared_conf := conf\<rparr>));
       (case conf of
          None \<Rightarrow> ret 0
        | Some g \<Rightarrow>
            if conf_type (gc_conf g) = [] then ret 0
            else do {
              let sw = conf_switch_secret_type (gc_conf g);
              modify (\<lambda>s. s\<lparr>shake_switch_secret_type := sw\<rparr>);
              when_do (sw = sst EN_SST_DH \<or> sw = sst EN_SST_ECDH)
                (modify (\<lambda>s. s\<lparr>shake_dh_ctx := dh_init (lk_crypto K) (shake_dh_ctx s) (gc_dh g)\<rparr>));
              let res = (if sw = sst EN_SST_DH \<or> sw = sst EN_SST_ECDH \<or> sw = sst EN_SST_DIRECT then 0
                         else ec EN_ECT_CRYPT_NOT_SUPPORTED);
              modify (\<lambda>s. s\<lparr>shake_has_data := (0 = res)\<rparr>);
              when_do (0 = res) (modify (set_flag EN_PFT_HANDSHAKE_UPDATE True));
              ret res
            })
     }
   }"

definition close_handshake :: "('c, 'd, 'g, 'b, 'w) link \<Rightarrow> int \<Rightarrow> ('c, 'd, 'g, 'b, 'w, unit) pm" where
  "close_handshake K status = do {
     modify (upd_hs_crypt (\<lambda>cs. cs\<lparr>cs_param := []\<rparr>));
     has_data \<leftarrow> gets shake_has_data;
     if \<not> has_data then do { _ \<leftarrow> handshake_done (lk_cb K) status; ret () }
     else do {
       modify (\<lambda>s. s\<lparr>shake_has_data := False\<rparr>);
       sw \<leftarrow> gets shake_switch_secret_type;
       when_do (sw = sst EN_SST_DH \<or> sw = sst EN_SST_ECDH)
         (modify (\<lambda>s. s\<lparr>shake_dh_ctx := dh_close (lk_crypto K) (shake_dh_ctx s)\<rparr>));
       _ \<leftarrow> handshake_done (lk_cb K)
         (if sw = sst EN_SST_DH \<or> sw = sst EN_SST_ECDH \<or> sw = sst EN_SST_DIRECT then status
          else ec EN_ECT_CRYPT_NOT_SUPPORTED);
       ret ()
     }
   }"

section \<open>Packing the replies\<close>

definition generate_hs_secret :: "('c, 'd, 'g, 'b, 'w) link \<Rightarrow> ('c, 'd, 'g, 'b, 'w, int \<times> int) pm" where
  "generate_hs_secret K = do {
     d \<leftarrow> gets g_draws;
     modify (\<lambda>s. s\<lparr>g_draws := Suc d\<rparr>);
     run_hs_crypt (\<lambda>cs. case generate_secret (lk_crypto K) d cs of (r, libres, cs') \<Rightarrow> ((r, libres), cs'))
   }"

definition swap_hs_secret_self :: "('c, 'd, 'g, 'b, 'w) link \<Rightarrow> ('c, 'd, 'g, 'b, 'w, int \<times> int) pm" where
  "swap_hs_secret_self K =
     run_hs_crypt (\<lambda>cs. case swap_secret_self (lk_crypto K) cs of (r, libres, cs') \<Rightarrow> ((r, libres), cs'))"

definition swap_hs_secret :: "('c, 'd, 'g, 'b, 'w) link \<Rightarrow> byte list \<Rightarrow> ('c, 'd, 'g, 'b, 'w, int \<times> int) pm" where
  "swap_hs_secret K v =
     run_hs_crypt (\<lambda>cs. case swap_secret (lk_crypto K) v cs of (r, libres, cs') \<Rightarrow> ((r, libres), cs'))"

definition pack_handshake_start_rsp ::
  "('c, 'd, 'g, 'b, 'w) link \<Rightarrow> u64 \<Rightarrow> string \<Rightarrow> ('c, 'd, 'g, 'b, 'w, int \<times> cs_body_handshake option) pm" where
  "pack_handshake_start_rsp K sess_id crypt_type = do {
     r \<leftarrow> run_hs_crypt (cs_setup (lk_crypto K) crypt_type);
     hs \<leftarrow> gets hs_crypt;
     if sess_id = 0 \<or> cs_shared_conf hs = None \<or> crypt_type = [] \<or> r < 0 then do {
       modify (\<lambda>s. use_hs_write (use_hs_read s));
       close_handshake K r;
       ret (r, Some (Createcs_body_handshake sess_id EN_HST_START_RSP (sst EN_SST_DIRECT) crypt_type []))
     }
     else do {
       modify (upd_hs_crypt (\<lambda>cs. cs\<lparr>cs_param := []\<rparr>));
       sw \<leftarrow> gets shake_switch_secret_type;
       if sw = sst EN_SST_DIRECT then do {
         (r1, libres) \<leftarrow> generate_hs_secret K;
         when_do (r1 < 0) (on_error (lk_cb K) libres ''generate secret failed'');
         modify use_hs_write;
         sw' \<leftarrow> gets shake_switch_secret_type;
         secret \<leftarrow> gets (\<lambda>s. cs_secret (hs_crypt s));
         ret (r, Some (Createcs_body_handshake sess_id EN_HST_START_RSP sw' crypt_type secret))
       }
       else if sw = sst EN_SST_DH \<or> sw = sst EN_SST_ECDH then do {
         has_data \<leftarrow> gets shake_has_data;
         r1 \<leftarrow> (if \<not> has_data then do {
             on_error (lk_cb K) (ec EN_ECT_HANDSHAKE) ''DH not loaded'';
             ret (ec EN_ECT_HANDSHAKE)
           } else do {
             d \<leftarrow> gets shake_dh_ctx;
             (case dh_make_params (lk_crypto K) d of (res, param, d') \<Rightarrow> do {
                modify (\<lambda>s. (upd_hs_crypt (\<lambda>cs. cs\<lparr>cs_param := param\<rparr>) s)\<lparr>shake_dh_ctx := d'\<rparr>);
                if res \<noteq> 0 then do {
                  on_error (lk_cb K) res ''DH generate check public key failed'';
                  ret (ec EN_ECT_CRYPT_OPERATION)
                } else ret r
              })
           });
         sw' \<leftarrow> gets shake_switch_secret_type;
         param \<leftarrow> gets (\<lambda>s. cs_param (hs_crypt s));
         ret (r1, Some (Createcs_body_handshake sess_id EN_HST_START_RSP sw' crypt_type param))
       }
       else do {
         on_error (lk_cb K) (ec EN_ECT_CRYPT_NOT_SUPPORTED) ''Unknown switch type'';
         ret (ec EN_ECT_CRYPT_NOT_SUPPORTED, None)
       }
     }
   }"

definition pack_handshake_dh_pubkey_req ::
  "('c, 'd, 'g, 'b, 'w) link \<Rightarrow> cs_body_handshake \<Rightarrow> handshake_step_t \<Rightarrow>
   ('c, 'd, 'g, 'b, 'w, int \<times> cs_body_handshake) pm" where
  "pack_handshake_dh_pubkey_req K peer next_step = do {
     hs \<leftarrow> gets hs_crypt;
     if hs_session_id peer = 0 \<or> hs_crypt_param peer = None \<or> cs_shared_conf hs = None then
       ret (ec EN_ECT_SESSION_NOT_FOUND,
            Createcs_body_handshake (hs_session_id peer) next_step (sst EN_SST_DIRECT) '''' [])
     else do {
       modify (\<lambda>s. upd_hs_crypt (\<lambda>cs. cs\<lparr>cs_param := []\<rparr>)
                     (s\<lparr>shake_switch_secret_type := uint (hs_switch_type peer)\<rparr>));
       has_data \<leftarrow> gets shake_has_data;
       r \<leftarrow> (if \<not> has_data then do {
           on_error (lk_cb K) (ec EN_ECT_CRYPT_NOT_SUPPORTED) ''DH not loaded'';
           ret (ec EN_ECT_CRYPT_NOT_SUPPORTED)
         } else do {
           d \<leftarrow> gets shake_dh_ctx;
           (case dh_read_params (lk_crypto K) d (the (hs_crypt_param peer)) of (res, d1) \<Rightarrow> do {
              modify (\<lambda>s. s\<lparr>shake_dh_ctx := d1\<rparr>);
              if res \<noteq> 0 then do {
                on_error (lk_cb K) res ''DH read param failed'';
                ret (ec EN_ECT_CRYPT_NOT_SUPPORTED)
              } else (case dh_make_public (lk_crypto K) d1 of (res2, param, d2) \<Rightarrow> do {
                modify (\<lambda>s. (upd_hs_crypt (\<lambda>cs. cs\<lparr>cs_param := param\<rparr>) s)\<lparr>shake_dh_ctx := d2\<rparr>);
                if res2 \<noteq> 0 then do {
                  on_error (lk_cb K) res2 ''DH make public key failed'';
                  ret (ec EN_ECT_CRYPT_NOT_SUPPORTED)
                } else (case dh_calc_secret (lk_crypto K) d2 of (res3, secret, d3) \<Rightarrow> do {
                  modify (\<lambda>s. (upd_hs_crypt (\<lambda>cs. cs\<lparr>cs_secret := secret\<rparr>) s)\<lparr>shake_dh_ctx := d3\<rparr>);
                  if res3 \<noteq> 0 then do {
                    on_error (lk_cb K) res3 ''DH compute key failed'';
                    ret (ec EN_ECT_CRYPT_NOT_SUPPORTED)
                  } else do {
                    (r4, libres) \<leftarrow> swap_hs_secret_self K;
                    if r4 < 0 then do { on_error (lk_cb K) libres ''DH set key failed''; ret 0 }
                    else do { modify use_hs_write; ret 0 }
                  }
                })
              })
            })
         });
       sw \<leftarrow> gets shake_switch_secret_type;
       param \<leftarrow> gets (\<lambda>s. cs_param (hs_crypt s));
       ret (r, Createcs_body_handshake (hs_session_id peer) next_step sw '''' param)
     }
   }"

section \<open>Key renewal\<close>

definition send_key_syn :: "('c, 'd, 'g, 'b, 'w) link \<Rightarrow> ('c, 'd, 'g, 'b, 'w, int) pm" where
  "send_key_syn K = do {
     closing \<leftarrow> gets (check_flag EN_PFT_CLOSING);
     crypt_type \<leftarrow> gets (\<lambda>s. cs_type (hs_crypt s));
     cw \<leftarrow> gets crypt_write;
     has_data \<leftarrow> gets shake_has_data;
     if closing then ret (ec EN_ECT_CLOSING)
     else if crypt_type = [] then ret 0
     else if \<not> has_write_fn K \<or> cw = None then ret (ec EN_ECT_MISS_CALLBACKS)
     else if has_data then ret 0
     else do {
       modify (new_hs_crypt (lk_crypto K));
       global_cfg \<leftarrow> gets g_current;
       r \<leftarrow> setup_handshake K global_cfg;
       if r < 0 then ret r
       else if global_cfg = None \<or> conf_client_mode (gc_conf (the global_cfg)) then ret r
       else do {
         sq \<leftarrow> next_seq;
         sid \<leftarrow> gets session_id;
         (r1, body) \<leftarrow> pack_handshake_start_rsp K sid crypt_type;
         if r1 < 0 then do { _ \<leftarrow> handshake_done (lk_cb K) r1; ret r1 }
         else do {
           r2 \<leftarrow> write_msg K (Createcs_msg (Createcs_msg_head EN_MTT_POST_KEY_SYN sq) (Body_handshake body));
           when_do (r2 < 0) (do { _ \<leftarrow> handshake_done (lk_cb K) r2; ret () });
           ret r2
         }
       }
     }
   }"

definition handshake_update :: "('c, 'd, 'g, 'b, 'w) link \<Rightarrow> ('c, 'd, 'g, 'b, 'w, int) pm" where
  "handshake_update K = send_key_syn K"

end
