(* ===== verification/ProtoDispatch.thy ===== *)
theory ProtoDispatch
  imports ProtoHandshake
begin

text \<open>
  The handlers of the handshake steps (dispatch_handshake and the functions it selects), the
  reconnect check, dispatch_data, and the calls by which a client opens or resumes a session.
\<close>

section \<open>Server side: start\<close>

text \<open>
  The loop that selects a cipher: the first name of the peer's list the configuration accepts, as
  check_type left it; the empty name when there is none. A NULL configuration is dereferenced as
  soon as the list has a name.
\<close>

definition peer_tokens :: "('c, 'd, 'g, 'b, 'w) link \<Rightarrow> string \<Rightarrow> string list" where
  "peer_tokens K s = cipher_tokens (cipher_tok (lk_crypto K)) (Suc (length s)) s"

definition select_crypt_type :: "'g global_conf \<Rightarrow> string list \<Rightarrow> string" where
  "select_crypt_type g toks =
     (case List.find (\<lambda>t. fst (check_type g t)) toks of None \<Rightarrow> [] | Some t \<Rightarrow> snd (check_type g t))"

definition dispatch_handshake_start_req ::
  "('c, 'd, 'g, 'b, 'w) link \<Rightarrow> cs_body_handshake \<Rightarrow> ('c, 'd, 'g, 'b, 'w, int) pm" where
  "dispatch_handshake_start_req K body = do {
     closing \<leftarrow> gets (check_flag EN_PFT_CLOSING);
     if closing then ret (ec EN_ECT_CLOSING)
     else (case Option.bind (lk_cb K) new_session_fn of
       None \<Rightarrow> ret (ec EN_ECT_MISS_CALLBACKS)
     | Some new_fn \<Rightarrow>
         if \<not> has_write_fn K then ret (ec EN_ECT_MISS_CALLBACKS)
         else do {
           global_cfg \<leftarrow> gets g_current;
           r \<leftarrow> setup_handshake K global_cfg;
           if r < 0 then ret r
           else do {
             let peer_type = (case hs_crypt_type body of None \<Rightarrow> [] | Some t \<Rightarrow> t);
             let toks = peer_tokens K peer_type;
             if peer_type \<noteq> [] \<and> toks \<noteq> [] \<and> global_cfg = None
             then do { raise_fault (NullDeref ''global_cfg''); ret 0 }
             else do {
               let crypt_type = (if peer_type = [] \<or> toks = [] then [] else select_crypt_type (the global_cfg) toks);
               sid0 \<leftarrow> gets session_id;
               modify (log_event EvNewSession);
               (_, sid) \<leftarrow> new_fn sid0;
               modify (\<lambda>s. s\<lparr>session_id := sid\<rparr>);
               sq \<leftarrow> next_seq;
               (r1, hbody) \<leftarrow> pack_handshake_start_rsp K sid crypt_type;
               if r1 < 0 then do { _ \<leftarrow> handshake_done (lk_cb K) r1; ret r1 }
               else do {
                 r2 \<leftarrow> write_msg K (Createcs_msg (Createcs_msg_head EN_MTT_HANDSHAKE sq) (Body_handshake hbody));
                 when_do (r2 < 0) (do { _ \<leftarrow> handshake_done (lk_cb K) r2; ret () });
                 ret r2
               }
             }
           }
         })
   }"

section \<open>Client side: the server's answer\<close>

text \<open>
  Follow the server's choice: when the current configuration does not know the cipher type or the
  switch type, a client configuration for them is made current. The result is the configuration to
  use, and the type as check_type left it.
\<close>

definition follow_global_conf ::
  "('c, 'd, 'g, 'b, 'w) link \<Rightarrow> string \<Rightarrow> int \<Rightarrow> ('c, 'd, 'g, 'b, 'w, 'g global_conf option \<times> string) pm" where
  "follow_global_conf K crypt_type switch_type = do {
     cur \<leftarrow> gets g_current;
     let checked = (case cur of None \<Rightarrow> (False, crypt_type) | Some g \<Rightarrow> check_type g crypt_type);
     let t = snd checked;
     if cur = None \<or> \<not> fst checked \<or> conf_switch_secret_type (gc_conf (the cur)) \<noteq> switch_type then do {
       let conf = default_crypt_configure\<lparr>conf_type := t, conf_switch_secret_type := switch_type,
                    conf_client_mode := True\<rparr>;
       modify (\<lambda>s. s\<lparr>g_current := snd (global_reload (lk_crypto K) conf (g_current s))\<rparr>);
       cur' \<leftarrow> gets g_current;
       ret (cur', t)
     }
     else ret (cur, t)
   }"

definition dispatch_handshake_start_rsp ::
  "('c, 'd, 'g, 'b, 'w) link \<Rightarrow> cs_body_handshake \<Rightarrow> ('c, 'd, 'g, 'b, 'w, int) pm" where
  "dispatch_handshake_start_rsp K body =
     (if hs_session_id body = 0 then do {
        on_error (lk_cb K) (ec EN_ECT_HANDSHAKE) ''start new session refused.'';
        ret (ec EN_ECT_HANDSHAKE)
      }
      else do {
        modify (\<lambda>s. s\<lparr>session_id := hs_session_id body\<rparr>);
        has_data \<leftarrow> gets shake_has_data;
        if has_data then ret (ec EN_ECT_HANDSHAKE)
        else do {
          let peer_type = (case hs_crypt_type body of None \<Rightarrow> [] | Some t \<Rightarrow> t);
          hs \<leftarrow> gets hs_crypt;
          when_do (cs_shared_conf hs \<noteq> None) (modify (new_hs_crypt (lk_crypto K)));
          (global_cfg, crypt_type) \<leftarrow> follow_global_conf K peer_type (uint (hs_switch_type body));
          r \<leftarrow> setup_handshake K global_cfg;
          if r < 0 then ret r
          else do {
            r1 \<leftarrow> run_hs_crypt (cs_setup (lk_crypto K) crypt_type);
            if crypt_type = [] \<or> r1 < 0 then do {
              modify (\<lambda>s. use_hs_write (use_hs_read s));
              close_handshake K r1;
              ret r1
            }
            else do {
              let sw = uint (hs_switch_type body);
              modify (\<lambda>s. s\<lparr>shake_switch_secret_type := sw\<rparr>);
              (case hs_crypt_param body of
                 None \<Rightarrow> do {
                   on_error (lk_cb K) (ec EN_ECT_HANDSHAKE) ''has no secret'';
                   ret (ec EN_ECT_HANDSHAKE)
                 }
               | Some param \<Rightarrow>
                   if sw = sst EN_SST_DIRECT then do {
                     modify (upd_hs_crypt (\<lambda>cs. cs\<lparr>cs_secret := param\<rparr>));
                     (r2, libres) \<leftarrow> swap_hs_secret_self K;
                     when_do (r2 < 0) (on_error (lk_cb K) libres ''set secret failed'');
                     modify (\<lambda>s. use_hs_write (use_hs_read s));
                     close_handshake K r2;
                     send_verify K None
                   }
                   else if sw = sst EN_SST_DH \<or> sw = sst EN_SST_ECDH then do {
                     sq \<leftarrow> next_seq;
                     (r2, hbody) \<leftarrow> pack_handshake_dh_pubkey_req K body
                        (if sw = sst EN_SST_DH then EN_HST_DH_PUBKEY_REQ else EN_HST_ECDH_PUBKEY_REQ);
                     if r2 < 0 then ret r2
                     else write_msg K (Createcs_msg (Createcs_msg_head EN_MTT_HANDSHAKE sq)
                            (Body_handshake (Some hbody)))
                   }
                   else do {
                     on_error (lk_cb K) sw ''unsupported switch type'';
                     ret (ec EN_ECT_HANDSHAKE)
                   })
            }
          }
        }
      })"

section \<open>Reconnecting\<close>

definition dispatch_handshake_reconn_req ::
  "('c, 'd, 'g, 'b, 'w) link \<Rightarrow> cs_body_handshake \<Rightarrow> ('c, 'd, 'g, 'b, 'w, int) pm" where
  "dispatch_handshake_reconn_req K body =
     (case Option.bind (lk_cb K) reconnect_fn of
        None \<Rightarrow> ret (ec EN_ECT_MISS_CALLBACKS)
      | Some rfn \<Rightarrow> do {
          modify (\<lambda>s. log_event (EvReconnect (hs_session_id body)) (s\<lparr>shake_ext_data := Some body\<rparr>));
          r \<leftarrow> rfn (hs_session_id body);
          sq \<leftarrow> next_seq;
          sid \<leftarrow> gets session_id;
          sw \<leftarrow> gets shake_switch_secret_type;
          ty \<leftarrow> gets (\<lambda>s. cs_type (hs_crypt s));
          let msg = Createcs_msg (Createcs_msg_head EN_MTT_HANDSHAKE sq) (Body_handshake (Some
                ((Createcs_body_handshake (if r = 0 then sid else 0) EN_HST_RECONNECT_RSP sw ty [])
                   \<lparr>hs_crypt_param := None\<rparr>)));
          if r \<noteq> 0 then do {
            _ \<leftarrow> write_msg K msg;
            close_handshake K r;
            _ \<leftarrow> close_with K r True;
            ret r
          }
          else do {
            r1 \<leftarrow> write_msg K msg;
            close_handshake K r1;
            r2 \<leftarrow> handshake_update K;
            when_do (r2 \<noteq> 0) (on_error (lk_cb K) r2 ''reconnect to old session refused.'');
            ret r2
          }
        })"

definition dispatch_handshake_reconn_rsp ::
  "('c, 'd, 'g, 'b, 'w) link \<Rightarrow> cs_body_handshake \<Rightarrow> ('c, 'd, 'g, 'b, 'w, int) pm" where
  "dispatch_handshake_reconn_rsp K body =
     (if hs_session_id body = 0 then do {
        on_error (lk_cb K) (ec EN_ECT_REFUSE_RECONNECT) ''update handshake failed.'';
        conf \<leftarrow> gets (\<lambda>s. cs_shared_conf (hs_crypt s));
        _ \<leftarrow> setup_handshake K conf;
        close_handshake K (ec EN_ECT_REFUSE_RECONNECT);
        ret (ec EN_ECT_HANDSHAKE)
      }
      else do {
        (global_cfg, _) \<leftarrow> follow_global_conf K (case hs_crypt_type body of None \<Rightarrow> [] | Some t \<Rightarrow> t)
                             (uint (hs_switch_type body));
        r \<leftarrow> setup_handshake K global_cfg;
        if r < 0 then ret r
        else do {
          modify (\<lambda>s. use_hs_write (use_hs_read (s\<lparr>session_id := hs_session_id body\<rparr>)));
          close_handshake K 0;
          ret 0
        }
      })"

text \<open>
  The do-while block of check_reconnect, for the request \<open>body\<close> that handshake_.ext_data points to:
  set up the old session's cipher with the old secret and see whether the request decrypts to it.
\<close>

definition reconnect_proof ::
  "('c, 'd, 'g, 'b, 'w) link \<Rightarrow> ('c, 'g) crypt_session \<Rightarrow> cs_body_handshake \<Rightarrow> ('c, 'd, 'g, 'b, 'w, bool) pm" where
  "reconnect_proof K old body = do {
     let peer_secret = (case hs_crypt_param body of None \<Rightarrow> [] | Some bs \<Rightarrow> bs);
     let crypt_type = (case hs_crypt_type body of None \<Rightarrow> [] | Some t \<Rightarrow> t);
     if crypt_type \<noteq> cs_type old then ret False
     else do {
       r \<leftarrow> run_hs_crypt (cs_setup (lk_crypto K) crypt_type);
       if r < 0 then do {
         on_error (lk_cb K) r ''reconnect to old session failed on setup type.'';
         ret False
       }
       else if crypt_type = [] then ret True
       else do {
         (r1, libres) \<leftarrow> swap_hs_secret K (cs_secret old);
         if r1 < 0 then do {
           on_error (lk_cb K) r1 ''reconnect to old session failed on setup secret.'';
           ret False
         }
         else do {
           h \<leftarrow> gets crypt_handshake;
           (r2, out) \<leftarrow> decrypt_data K h (Some peer_secret) None;
           secret \<leftarrow> gets (\<lambda>s. cs_secret (hs_crypt s));
           ret (r2 = 0 \<and> (case out of
                  None \<Rightarrow> False
                | Some bs \<Rightarrow> length secret \<le> length bs \<and> take (length secret) bs = secret))
         }
       }
     }
   }"

definition check_reconnect ::
  "('c, 'd, 'g, 'b, 'w) link \<Rightarrow> ('c, 'd, 'g, 'b) proto \<Rightarrow> ('c, 'd, 'g, 'b, 'w, bool) pm" where
  "check_reconnect K other = do {
     closing \<leftarrow> gets (check_flag EN_PFT_CLOSING);
     if closing then ret False
     else do {
       let old = crypt_at (case crypt_read other of Some i \<Rightarrow> i | None \<Rightarrow> crypt_handshake other) other;
       ext \<leftarrow> gets shake_ext_data;
       ok \<leftarrow> (case ext of None \<Rightarrow> ret False | Some body \<Rightarrow> reconnect_proof K old body);
       when_do ok (do {
         modify (\<lambda>s. s\<lparr>session_id := session_id other\<rparr>);
         _ \<leftarrow> setup_handshake K (cs_shared_conf old);
         modify (\<lambda>s. use_hs_write (use_hs_read s))
       });
       ret ok
     }
   }"

end
