(* ===== verification/ProtoDh.thy ===== *)
theory ProtoDh
  imports ProtoDispatch
begin

text \<open>
  The key exchange and the verification: dispatch_handshake_dh_pubkey_req,
  dispatch_handshake_dh_pubkey_rsp, dispatch_handshake_verify_ntf, and dispatch_handshake, which
  selects the handler of a step and closes the connection when it fails.
\<close>

text \<open>The do-while block of dh_pubkey_req: take the peer's public key, compute and install the secret.\<close>

definition dh_accept_pubkey ::
  "('c, 'd, 'g, 'b, 'w) link \<Rightarrow> byte list \<Rightarrow> ('c, 'd, 'g, 'b, 'w, int) pm" where
  "dh_accept_pubkey K pubkey = do {
     d \<leftarrow> gets shake_dh_ctx;
     (case dh_read_public (lk_crypto K) d pubkey of (res, d1) \<Rightarrow> do {
        modify (\<lambda>s. s\<lparr>shake_dh_ctx := d1\<rparr>);
        if res \<noteq> 0 then do {
          on_error (lk_cb K) res ''DH read param failed'';
          ret (ec EN_ECT_CRYPT_NOT_SUPPORTED)
        }
        else (case dh_calc_secret (lk_crypto K) d1 of (res2, secret, d2) \<Rightarrow> do {
          modify (\<lambda>s. (upd_hs_crypt (\<lambda>cs. cs\<lparr>cs_secret := secret\<rparr>) s)\<lparr>shake_dh_ctx := d2\<rparr>);
          if res2 \<noteq> 0 then do {
            on_error (lk_cb K) res2 ''DH compute key failed'';
            ret (ec EN_ECT_CRYPT_NOT_SUPPORTED)
          }
          else do {
            (r, libres) \<leftarrow> swap_hs_secret_self K;
            if r < 0 then do { on_error (lk_cb K) libres ''DH set key failed''; ret 0 }
            else do { modify (\<lambda>s. use_hs_write (use_hs_read s)); ret 0 }
          }
        })
      })
   }"

text \<open>The verify text: random bytes in hexadecimal, encrypted; the default key when that gives nothing.\<close>

definition dh_verify_text ::
  "('c, 'd, 'g, 'b, 'w) link \<Rightarrow> 'g global_conf \<Rightarrow> ('c, 'd, 'g, 'b, 'w, int \<times> byte list option) pm" where
  "dh_verify_text K g = do {
     secret_len \<leftarrow> gets (\<lambda>s. unat (cipher_key_bits (lk_crypto K) (cs_cipher (hs_crypt s)) div 8));
     (res, text) \<leftarrow> random_bytes K (gc_dh g) secret_len;
     let hex = vec_resize (2 * secret_len) (lk_hex K text);
     (r, out) \<leftarrow> (if res = 0 then do {
         h \<leftarrow> gets crypt_handshake;
         encrypt_data K h (Some hex) None
       } else do {
         on_error (lk_cb K) res ''generate verify text failed'';
         raise_fault (UninitRead ''verify_text'');
         ret (0, None)
       });
     modify (upd_hs_crypt (\<lambda>cs. cs\<lparr>cs_param := (if res = 0 then hex else replicate (2 * secret_len) 0)\<rparr>));
     if out = None \<or> out = Some [] then do {
       h \<leftarrow> gets crypt_handshake;
       encrypt_data K h (Some (bytes_of_string (conf_default_key (gc_conf g)))) out
     }
     else ret (r, out)
   }"

definition dispatch_handshake_dh_pubkey_req ::
  "('c, 'd, 'g, 'b, 'w) link \<Rightarrow> cs_body_handshake \<Rightarrow> handshake_step_t \<Rightarrow> ('c, 'd, 'g, 'b, 'w, int) pm" where
  "dispatch_handshake_dh_pubkey_req K peer next_step = do {
     sw \<leftarrow> gets shake_switch_secret_type;
     conf \<leftarrow> gets (\<lambda>s. cs_shared_conf (hs_crypt s));
     if sw \<noteq> uint (hs_switch_type peer) \<or> conf = None then do {
       on_error (lk_cb K) (ec EN_ECT_HANDSHAKE) ''crypt information between client and server not matched.'';
       _ \<leftarrow> close_with K (ec EN_ECT_HANDSHAKE) True;
       ret (ec EN_ECT_HANDSHAKE)
     }
     else do {
       sq \<leftarrow> next_seq;
       modify (upd_hs_crypt (\<lambda>cs. cs\<lparr>cs_param := []\<rparr>));
       has_data \<leftarrow> gets shake_has_data;
       if has_data \<and> hs_crypt_param peer = None
       then do { raise_fault (NullDeref ''peer_body.crypt_param()''); ret 0 }
       else do {
         r \<leftarrow> (if \<not> has_data then do {
             on_error (lk_cb K) (ec EN_ECT_CRYPT_NOT_SUPPORTED) ''DH not loaded'';
             ret (ec EN_ECT_CRYPT_NOT_SUPPORTED)
           } else dh_accept_pubkey K (the (hs_crypt_param peer)));
         (r1, out) \<leftarrow> (if r = 0 then dh_verify_text K (the conf) else ret (r, None));
         sid \<leftarrow> gets session_id;
         let body = (if r1 = 0
            then Createcs_body_handshake sid next_step (uint (hs_switch_type peer)) ''''
                   (case out of None \<Rightarrow> [] | Some bs \<Rightarrow> bs)
            else Createcs_body_handshake 0 next_step (uint (hs_switch_type peer)) '''' []);
         write_msg K (Createcs_msg (Createcs_msg_head EN_MTT_HANDSHAKE sq) (Body_handshake (Some body)))
       }
     }
   }"

text \<open>The verify reply of the client: random bytes with the peer's bytes copied at the odd positions.\<close>

definition mix_verify :: "byte list \<Rightarrow> byte list \<Rightarrow> byte list" where
  "mix_verify rnd out = map (\<lambda>i. if odd i then out ! i else rnd ! i) [0..<length out]"

definition dispatch_handshake_dh_pubkey_rsp ::
  "('c, 'd, 'g, 'b, 'w) link \<Rightarrow> cs_body_handshake \<Rightarrow> ('c, 'd, 'g, 'b, 'w, int) pm" where
  "dispatch_handshake_dh_pubkey_rsp K body =
     (if hs_session_id body = 0 \<or> hs_crypt_param body = None then do {
        on_error (lk_cb K) (ec EN_ECT_HANDSHAKE) ''DH switch key failed.'';
        ret (ec EN_ECT_HANDSHAKE)
      }
      else do {
        h \<leftarrow> gets crypt_handshake;
        (r, out) \<leftarrow> decrypt_data K h (hs_crypt_param body) None;
        if r \<noteq> 0 then ret r
        else do {
          modify use_hs_read;
          conf \<leftarrow> gets (\<lambda>s. cs_shared_conf (hs_crypt s));
          let outbuf = (case out of None \<Rightarrow> [] | Some bs \<Rightarrow> bs);
          rnd \<leftarrow> (case conf of
             None \<Rightarrow> ret (replicate (length outbuf) 0)
           | Some g \<Rightarrow> do { (_, bytes) \<leftarrow> random_bytes K (gc_dh g) (length outbuf); ret bytes });
          r1 \<leftarrow> send_verify K (Some (mix_verify rnd outbuf));
          close_handshake K r1;
          ret r1
        }
      })"

text \<open>
  The comparison loop of verify_ntf: it stops at a zero byte, and looks at the odd positions only.
  The result says whether a mismatch was found.
\<close>

fun verify_mismatch :: "nat \<Rightarrow> byte list \<Rightarrow> byte list \<Rightarrow> bool" where
  "verify_mismatch i (c # cs) (p # ps) =
     (if c = 0 then False
      else if odd i \<and> c \<noteq> p then True
      else verify_mismatch (Suc i) cs ps)"
| "verify_mismatch i cs ps = False"

definition dispatch_handshake_verify_ntf ::
  "('c, 'd, 'g, 'b, 'w) link \<Rightarrow> cs_body_handshake \<Rightarrow> ('c, 'd, 'g, 'b, 'w, int) pm" where
  "dispatch_handshake_verify_ntf K body = do {
     when_do (uint (hs_switch_type body) = sst EN_SST_DIRECT) (modify use_hs_read);
     sw \<leftarrow> gets shake_switch_secret_type;
     rd \<leftarrow> gets crypt_read;
     if sw \<noteq> uint (hs_switch_type body) \<or> rd = None then do {
       on_error (lk_cb K) (ec EN_ECT_HANDSHAKE) ''crypt information between client and server not matched.'';
       _ \<leftarrow> close_with K (ec EN_ECT_HANDSHAKE) True;
       ret (ec EN_ECT_HANDSHAKE)
     }
     else do {
       param \<leftarrow> gets (\<lambda>s. cs_param (crypt_at (the rd) s));
       r \<leftarrow> (case hs_crypt_param body of
          None \<Rightarrow> ret 0
        | Some bytes \<Rightarrow>
            if param \<noteq> [] \<and> length param \<le> length bytes then do {
              (r1, out) \<leftarrow> decrypt_data K (the rd) (Some bytes) None;
              if r1 \<noteq> 0 then do {
                on_error (lk_cb K) r1 ''verify crypt information but decode failed.'';
                ret r1
              }
              else if (case out of None \<Rightarrow> 0 | Some bs \<Rightarrow> length bs) < length param then do {
                on_error (lk_cb K) (ec EN_ECT_HANDSHAKE) ''verify data length error.'';
                ret (ec EN_ECT_HANDSHAKE)
              }
              else ret (if verify_mismatch 0 (case out of None \<Rightarrow> [] | Some bs \<Rightarrow> bs) param
                        then ec EN_ECT_CRYPT_VERIFY else 0)
            }
            else ret 0);
       if r = 0 then do { close_handshake K 0; ret r }
       else do {
         on_error (lk_cb K) (ec EN_ECT_CRYPT_VERIFY) ''verify failed.'';
         close_handshake K (ec EN_ECT_CRYPT_VERIFY);
         _ \<leftarrow> close_with K (cr EN_CRT_HANDSHAKE) True;
         ret r
       }
     }
   }"

section \<open>The step dispatcher\<close>

definition dispatch_step ::
  "('c, 'd, 'g, 'b, 'w) link \<Rightarrow> cs_body_handshake \<Rightarrow> ('c, 'd, 'g, 'b, 'w, int) pm" where
  "dispatch_step K body =
     (let st = hs_step body in
      if st = hst EN_HST_START_REQ then dispatch_handshake_start_req K body
      else if st = hst EN_HST_START_RSP then dispatch_handshake_start_rsp K body
      else if st = hst EN_HST_RECONNECT_REQ then dispatch_handshake_reconn_req K body
      else if st = hst EN_HST_RECONNECT_RSP then dispatch_handshake_reconn_rsp K body
      else if st = hst EN_HST_DH_PUBKEY_REQ then dispatch_handshake_dh_pubkey_req K body EN_HST_DH_PUBKEY_RSP
      else if st = hst EN_HST_DH_PUBKEY_RSP then dispatch_handshake_dh_pubkey_rsp K body
      else if st = hst EN_HST_ECDH_PUBKEY_REQ then dispatch_handshake_dh_pubkey_req K body EN_HST_ECDH_PUBKEY_RSP
      else if st = hst EN_HST_ECDH_PUBKEY_RSP then dispatch_handshake_dh_pubkey_rsp K body
      else if st = hst EN_HST_VERIFY then dispatch_handshake_verify_ntf K body
      else ret 0)"

definition dispatch_handshake ::
  "('c, 'd, 'g, 'b, 'w) link \<Rightarrow> cs_body_handshake \<Rightarrow> ('c, 'd, 'g, 'b, 'w, int) pm" where
  "dispatch_handshake K body = do {
     closing \<leftarrow> gets (check_flag EN_PFT_CLOSING);
     done \<leftarrow> gets (check_flag EN_PFT_HANDSHAKE_DONE);
     updating \<leftarrow> gets (check_flag EN_PFT_HANDSHAKE_UPDATE);
     if closing then ret (ec EN_ECT_CLOSING)
     else if done \<and> \<not> updating then ret (ec EN_ECT_HANDSHAKE)
     else do {
       r \<leftarrow> dispatch_step K body;
       when_do (r < 0) (do {
         close_handshake K r;
         _ \<leftarrow> close_with K (cr EN_CRT_HANDSHAKE) False;
         ret ()
       });
       ret r
     }
   }"

end
