(* ===== verification/ProtoRead.thy ===== *)
theory ProtoRead
  imports ProtoDh
begin

text \<open>
  The receiving half of the inner protocol: alloc_recv_buffer hands the engine a place for the next
  bytes, read consumes them (splitting the stream into frames), dispatch_data handles one frame;
  then the calls of a client and the destructor.
\<close>

section \<open>One message\<close>

text \<open>Integer division of the chrono casts: towards zero.\<close>

definition trunc_div :: "int \<Rightarrow> int \<Rightarrow> int" where
  "trunc_div a b = sgn a * (\<bar>a\<bar> div b)"

text \<open>A flat-buffer reference that the verifier lets be absent and the code follows anyway.\<close>

definition deref :: "string \<Rightarrow> 'a option \<Rightarrow> ('a \<Rightarrow> ('z proto_base_scheme, unit) state) \<Rightarrow> ('z proto_base_scheme, unit) state" where
  "deref what p f = (case p of None \<Rightarrow> raise_fault (NullDeref what) | Some x \<Rightarrow> f x)"

definition dispatch_post_body ::
  "('c, 'd, 'g, 'b, 'w) link \<Rightarrow> cs_body_post \<Rightarrow> ('c, 'd, 'g, 'b, 'w, unit) pm" where
  "dispatch_post_body K post = deref ''msg_body->data()'' (post_data post) (\<lambda>data. do {
     (res, out) \<leftarrow> decode_post K (Some data);
     if res = 0 then
       (case Option.bind (lk_cb K) message_fn of
          None \<Rightarrow> ret ()
        | Some f \<Rightarrow> do {
            modify (log_event (EvMessage (case out of None \<Rightarrow> [] | Some bs \<Rightarrow> bs) (post_length post)));
            _ \<leftarrow> f (case out of None \<Rightarrow> [] | Some bs \<Rightarrow> bs) (post_length post);
            ret ()
          })
     else do { _ \<leftarrow> close_with K (cr EN_CRT_INVALID_DATA) False; ret () }
   })"

definition dispatch_post ::
  "('c, 'd, 'g, 'b, 'w) link \<Rightarrow> cs_body_post option \<Rightarrow> ('c, 'd, 'g, 'b, 'w, unit) pm" where
  "dispatch_post K p = do {
     done \<leftarrow> gets (check_flag EN_PFT_HANDSHAKE_DONE);
     rd \<leftarrow> gets crypt_read;
     if \<not> done \<or> rd = None then do { _ \<leftarrow> close_with K (cr EN_CRT_HANDSHAKE) False; ret () }
     else deref ''msg->body()'' p (dispatch_post_body K)
   }"

text \<open>The answer to a ping: the round-trip time in milliseconds, if a ping was ever sent.\<close>

definition pong_update :: "('c, 'd, 'g, 'b, 'w) proto_env \<Rightarrow> ('c, 'd, 'g, 'b, 'w) proto_env" where
  "pong_update s =
     (if trunc_div (last_ping s) 1000000000 \<noteq> 0
      then s\<lparr>last_delta := trunc_div (g_now s - last_ping s) 1000000\<rparr> else s)"

definition dispatch_msg :: "('c, 'd, 'g, 'b, 'w) link \<Rightarrow> cs_msg \<Rightarrow> ('c, 'd, 'g, 'b, 'w, unit) pm" where
  "dispatch_msg K msg =
     (case msg_head msg of
        None \<Rightarrow> ret ()
      | Some head \<Rightarrow>
          let ty = head_type head;
              invalid = (\<lambda>kick. do { _ \<leftarrow> close_with K (cr EN_CRT_INVALID_DATA) kick; ret () })
          in
          if ty = mtt EN_MTT_POST then
            (case msg_body msg of
               Body_post p \<Rightarrow> dispatch_post K p
             | _ \<Rightarrow> invalid False)
          else if ty = mtt EN_MTT_POST_KEY_SYN \<or> ty = mtt EN_MTT_POST_KEY_ACK then
            (case msg_body msg of
               Body_handshake h \<Rightarrow> do {
                 updating \<leftarrow> gets (check_flag EN_PFT_HANDSHAKE_UPDATE);
                 when_do (\<not> updating) (modify (set_flag EN_PFT_HANDSHAKE_UPDATE True));
                 deref ''msg->body()'' h (\<lambda>body. do { _ \<leftarrow> dispatch_handshake K body; ret () })
               }
             | _ \<Rightarrow> invalid False)
          else if ty = mtt EN_MTT_HANDSHAKE then
            (case msg_body msg of
               Body_handshake h \<Rightarrow> deref ''msg->body()'' h (\<lambda>body. do { _ \<leftarrow> dispatch_handshake K body; ret () })
             | _ \<Rightarrow> invalid False)
          else if ty = mtt EN_MTT_PING then
            (case msg_body msg of
               Body_ping p \<Rightarrow> deref ''msg->body()'' p (\<lambda>ping. do { _ \<leftarrow> send_pong K (ping_timepoint ping); ret () })
             | _ \<Rightarrow> invalid True)
          else if ty = mtt EN_MTT_PONG then
            (case msg_body msg of
               Body_ping p \<Rightarrow> modify pong_update
             | _ \<Rightarrow> invalid True)
          else if ty = mtt EN_MTT_KICKOFF then
            (case msg_body msg of
               Body_kickoff k \<Rightarrow> deref ''msg->body()'' k (\<lambda>kick. do {
                 _ \<leftarrow> close_with K (kickoff_reason kick) False; ret () })
             | _ \<Rightarrow> invalid False)
          else ret ())"

definition dispatch_data ::
  "('c, 'd, 'g, 'b, 'w) link \<Rightarrow> byte list \<Rightarrow> int \<Rightarrow> ('c, 'd, 'g, 'b, 'w, unit) pm" where
  "dispatch_data K buffer errcode = do {
     modify (log_event (EvFrame buffer errcode));
     closing \<leftarrow> gets (check_flag EN_PFT_CLOSING);
     if closing then ret ()
     else if errcode < 0 then ret ()
     else (case fb_parse (lk_fb K) buffer of
       None \<Rightarrow> do { _ \<leftarrow> close K (cr EN_CRT_INVALID_DATA); ret () }
     | Some msg \<Rightarrow> dispatch_msg K msg)
   }"

section \<open>Receiving bytes\<close>

text \<open>
  Where the engine may put the next bytes: nowhere, into the head buffer at an offset, or into the
  last block of the big-message queue at an offset; with the room there is.
\<close>

datatype recv_place = No_place | In_head nat nat | In_block nat nat

definition read_back :: "('c, 'd, 'g, 'b, 'w) link \<Rightarrow> ('c, 'd, 'g, 'b, 'w) proto_env \<Rightarrow> bblock option" where
  "read_back K s =
     (let bs = bm_blocks (lk_buf K) (read_buffers s)
      in if bs = [] \<or> blk_left (List.last bs) = 0 then None else Some (List.last bs))"

definition alloc_recv_buffer :: "('c, 'd, 'g, 'b, 'w) link \<Rightarrow> ('c, 'd, 'g, 'b, 'w, recv_place) pm" where
  "alloc_recv_buffer K = flag_guard EN_PFT_IN_CALLBACK (do {
     closing \<leftarrow> gets (check_flag EN_PFT_CLOSING);
     if closing then ret No_place
     else do {
       big \<leftarrow> gets (read_back K);
       len \<leftarrow> gets read_head_len;
       (case big of
          None \<Rightarrow>
            if SMALL_SIZE - len = 0 then do { raise_fault (AssertFailed ''false''); ret No_place }
            else ret (In_head len (SMALL_SIZE - len))
        | Some bb \<Rightarrow> ret (In_block (blk_used bb) (blk_left bb)))
     }
   })"

text \<open>
  The loop of read over the head buffer: \<open>start\<close> is buff_start, \<open>left\<close> is buff_left_len. The result
  is the code, the final start and left, and whether a big message found no room.
\<close>

function read_loop ::
  "('c, 'd, 'g, 'b, 'w) link \<Rightarrow> nat \<Rightarrow> nat \<Rightarrow> int \<Rightarrow> ('c, 'd, 'g, 'b, 'w, int \<times> nat \<times> nat \<times> bool) pm" where
  "read_loop K start left errcode =
     (if left \<le> 8 then ret (errcode, start, left, False)
      else do {
        buff \<leftarrow> gets (\<lambda>s. drop start (read_head_buffer s));
        let msg_len = unat (le32_read (drop 4 buff));
        if left \<ge> 8 + msg_len then do {
          let payload = take msg_len (drop 8 buff);
          let errcode' = (if lk_hash K payload \<noteq> le32_read buff then ec EN_ECT_BAD_DATA else errcode);
          dispatch_data K payload errcode';
          read_loop K (start + (8 + msg_len)) (left - (8 + msg_len)) errcode'
        }
        else do {
          rb \<leftarrow> gets read_buffers;
          (case bm_push_back (lk_buf K) rb (8 + msg_len) of (r, rb') \<Rightarrow> do {
             modify (\<lambda>s. s\<lparr>read_buffers := rb'\<rparr>);
             if r = 0 then do {
               modify (\<lambda>s. s\<lparr>read_buffers := bm_pop_back (lk_buf K)
                  (bm_poke_back (lk_buf K) rb' 0 (take left buff)) left False\<rparr>);
               ret (errcode, start + left, 0, False)
             }
             else ret (errcode, start + 8, left - 8, True)
           })
        }
      })"
  by pat_completeness auto
termination
  by (relation "measure (\<lambda>(K, start, left, errcode). left)") auto

text \<open>A big message that is complete is checked, dispatched, and released.\<close>

definition read_front :: "('c, 'd, 'g, 'b, 'w) link \<Rightarrow> int \<Rightarrow> ('c, 'd, 'g, 'b, 'w, int) pm" where
  "read_front K errcode = do {
     bs \<leftarrow> gets (\<lambda>s. bm_blocks (lk_buf K) (read_buffers s));
     (case bs of
        [] \<Rightarrow> ret errcode
      | bb # _ \<Rightarrow>
          if blk_left bb \<noteq> 0 then ret errcode
          else do {
            let data = take (blk_used bb) (blk_mem bb);
            let errcode' = (if lk_hash K (drop 8 data) \<noteq> le32_read data then ec EN_ECT_BAD_DATA else errcode);
            dispatch_data K (drop 8 data) errcode';
            modify (\<lambda>s. s\<lparr>read_buffers := bm_pop_front (lk_buf K) (read_buffers s) 0 True\<rparr>);
            ret errcode'
          })
   }"

text \<open>After the loop the left bytes are moved to the front of the head buffer.\<close>

definition keep_left ::
  "nat \<Rightarrow> nat \<Rightarrow> ('c, 'd, 'g, 'b, 'w) proto_env \<Rightarrow> ('c, 'd, 'g, 'b, 'w) proto_env" where
  "keep_left start left s =
     (if start \<noteq> 0 \<and> left > 0
      then s\<lparr>read_head_buffer := overlay (read_head_buffer s) 0 (take left (drop start (read_head_buffer s)))\<rparr>
      else s)\<lparr>read_head_len := left\<rparr>"

definition read_head :: "('c, 'd, 'g, 'b, 'w) link \<Rightarrow> nat \<Rightarrow> ('c, 'd, 'g, 'b, 'w, int \<times> bool) pm" where
  "read_head K nread = do {
     len0 \<leftarrow> gets read_head_len;
     when_do (\<not> nread \<le> SMALL_SIZE - len0) (raise_fault (AssertFailed ''nread_s''));
     modify (\<lambda>s. s\<lparr>read_head_len := len0 + nread\<rparr>);
     (err, start, left, is_free) \<leftarrow> read_loop K 0 (len0 + nread) (ec EN_ECT_SUCCESS);
     modify (keep_left start left);
     ret (err, is_free)
   }"

text \<open>A big message that found no room: what is left is dispatched with the error, that is, dropped.\<close>

definition read_drop :: "('c, 'd, 'g, 'b, 'w) link \<Rightarrow> ('c, 'd, 'g, 'b, 'w, int) pm" where
  "read_drop K = do {
     len \<leftarrow> gets read_head_len;
     buff \<leftarrow> gets read_head_buffer;
     when_do (len > 0) (dispatch_data K (take len buff) (ec EN_ECT_INVALID_SIZE));
     ret (ec EN_ECT_INVALID_SIZE)
   }"

definition proto_read :: "('c, 'd, 'g, 'b, 'w) link \<Rightarrow> nat \<Rightarrow> ('c, 'd, 'g, 'b, 'w, int) pm" where
  "proto_read K nread = do {
     closing \<leftarrow> gets (check_flag EN_PFT_CLOSING);
     if closing then ret (ec EN_ECT_CLOSING)
     else flag_guard EN_PFT_IN_CALLBACK (do {
       big \<leftarrow> gets (read_back K);
       (errcode, is_free) \<leftarrow> (case big of
          None \<Rightarrow> read_head K nread
        | Some _ \<Rightarrow> do {
            modify (\<lambda>s. s\<lparr>read_buffers := bm_pop_back (lk_buf K) (read_buffers s) nread False\<rparr>);
            ret (ec EN_ECT_SUCCESS, False)
          });
       err \<leftarrow> read_front K errcode;
       if is_free then read_drop K else ret err
     })
   }"

text \<open>
  One delivery by the engine: ask for a place, copy the bytes there (at most its room), and call
  read. The result is the code of read and the bytes that did not fit.
\<close>

definition deliver :: "('c, 'd, 'g, 'b, 'w) link \<Rightarrow> byte list \<Rightarrow> ('c, 'd, 'g, 'b, 'w, int \<times> byte list) pm" where
  "deliver K bytes = do {
     place \<leftarrow> alloc_recv_buffer K;
     (case place of
        No_place \<Rightarrow> ret (ec EN_ECT_CLOSING, bytes)
      | In_head off room \<Rightarrow> do {
          modify (\<lambda>s. s\<lparr>read_head_buffer := overlay (read_head_buffer s) off (take room bytes)\<rparr>);
          err \<leftarrow> proto_read K (length (take room bytes));
          ret (err, drop room bytes)
        }
      | In_block off room \<Rightarrow> do {
          modify (\<lambda>s. s\<lparr>read_buffers := bm_poke_back (lk_buf K) (read_buffers s) off (take room bytes)\<rparr>);
          err \<leftarrow> proto_read K (length (take room bytes));
          ret (err, drop room bytes)
        })
   }"

section \<open>Client calls, limits, destructor\<close>

definition set_recv_buffer_limit :: "('c, 'd, 'g, 'b, 'w) link \<Rightarrow> u64 \<Rightarrow> u64 \<Rightarrow> ('c, 'd, 'g, 'b, 'w, unit) pm" where
  "set_recv_buffer_limit K max_size max_number =
     modify (\<lambda>s. s\<lparr>read_buffers := bm_set_mode (lk_buf K) (read_buffers s) max_size max_number\<rparr>)"

definition set_send_buffer_limit :: "('c, 'd, 'g, 'b, 'w) link \<Rightarrow> u64 \<Rightarrow> u64 \<Rightarrow> ('c, 'd, 'g, 'b, 'w, unit) pm" where
  "set_send_buffer_limit K max_size max_number =
     modify (\<lambda>s. s\<lparr>write_buffers := bm_set_mode (lk_buf K) (write_buffers s) max_size max_number\<rparr>)"

definition start_session :: "('c, 'd, 'g, 'b, 'w) link \<Rightarrow> string \<Rightarrow> ('c, 'd, 'g, 'b, 'w, int) pm" where
  "start_session K crypt_type = do {
     closing \<leftarrow> gets (check_flag EN_PFT_CLOSING);
     sid \<leftarrow> gets session_id;
     if closing then ret (ec EN_ECT_CLOSING)
     else if sid \<noteq> 0 then ret (ec EN_ECT_SESSION_ALREADY_EXIST)
     else if \<not> has_write_fn K then ret (ec EN_ECT_MISS_CALLBACKS)
     else send_msg K EN_MTT_HANDSHAKE (Body_handshake (Some
            (Createcs_body_handshake 0 EN_HST_START_REQ (sst EN_SST_DIRECT) crypt_type [])))
   }"

definition reconnect_session ::
  "('c, 'd, 'g, 'b, 'w) link \<Rightarrow> u64 \<Rightarrow> string \<Rightarrow> byte list \<Rightarrow> ('c, 'd, 'g, 'b, 'w, int) pm" where
  "reconnect_session K sess_id crypt_type secret = do {
     closing \<leftarrow> gets (check_flag EN_PFT_CLOSING);
     if closing then ret (ec EN_ECT_CLOSING)
     else if \<not> has_write_fn K then ret (ec EN_ECT_MISS_CALLBACKS)
     else do {
       r \<leftarrow> run_hs_crypt (cs_setup (lk_crypto K) crypt_type);
       if r < 0 then ret r
       else do {
         (r1, _) \<leftarrow> (if crypt_type \<noteq> [] then swap_hs_secret K secret else ret (0, 0));
         if r1 < 0 then ret r1
         else do {
           h \<leftarrow> gets crypt_handshake;
           (_, out) \<leftarrow> encrypt_data K h (Some secret) None;
           sw \<leftarrow> gets shake_switch_secret_type;
           send_msg K EN_MTT_HANDSHAKE (Body_handshake (Some
             (Createcs_body_handshake sess_id EN_HST_RECONNECT_REQ sw crypt_type
               (case out of None \<Rightarrow> [] | Some bs \<Rightarrow> bs))))
         }
       }
     }
   }"

definition proto_dtor :: "('c, 'd, 'g, 'b, 'w) link \<Rightarrow> ('c, 'd, 'g, 'b, 'w, unit) pm" where
  "proto_dtor K = do {
     _ \<leftarrow> close_with K (cr EN_CRT_UNKNOWN) False;
     close_handshake K (ec EN_ECT_SESSION_EXPIRED);
     proto_base_dtor (lk_cb K)
   }"

end
