(* ===== verification/ProtoCore.thy ===== *)
theory ProtoCore
  imports ProtoRead
begin

text \<open>
  What every operation of the protocol object keeps, whatever the engine's callbacks do as long as
  they keep it too. The relation \<open>core s s'\<close> says: the flags and the trace take steps of the
  abstract machine of ProtoSpec, the receive side (which only read touches) and the header space are
  unchanged, faults are never dropped, and the pointers to crypt sessions stay valid. One lemma per
  operation, collected in \<open>io_rel\<close>; the read side follows with the relation \<open>refines\<close> alone.
\<close>

section \<open>The relation\<close>

definition read_side :: "('c, 'd, 'g, 'b, 'w) proto_env \<Rightarrow> 'b \<times> byte list \<times> nat" where
  "read_side s = (read_buffers s, read_head_buffer s, read_head_len s)"

definition crypt_ok :: "('c, 'd, 'g, 'b, 'z) proto_scheme \<Rightarrow> bool" where
  "crypt_ok s \<longleftrightarrow> crypt_handshake s < length (crypt_heap s) \<and>
     (\<forall>i. crypt_read s = Some i \<longrightarrow> i < length (crypt_heap s)) \<and>
     (\<forall>i. crypt_write s = Some i \<longrightarrow> i < length (crypt_heap s))"

definition core :: "('c, 'd, 'g, 'b, 'w) proto_env \<Rightarrow> ('c, 'd, 'g, 'b, 'w) proto_env \<Rightarrow> bool" where
  "core s s' \<longleftrightarrow> refines s s' \<and> read_side s' = read_side s \<and>
     write_header_offset s' = write_header_offset s \<and> prefix (faults s) (faults s') \<and>
     frames_of (trace s') = frames_of (trace s) \<and> (crypt_ok s \<longrightarrow> crypt_ok s')"

definition cb_rel :: "('s \<Rightarrow> 's \<Rightarrow> bool) \<Rightarrow> 's proto_callbacks option \<Rightarrow> bool" where
  "cb_rel R cb \<longleftrightarrow> (\<forall>t. cb = Some t \<longrightarrow>
     (\<forall>f bs. write_fn t = Some f \<longrightarrow> state_io_rel R (f bs)) \<and>
     (\<forall>f bs n. message_fn t = Some f \<longrightarrow> state_io_rel R (f bs n)) \<and>
     (\<forall>f sid. new_session_fn t = Some f \<longrightarrow> state_io_rel R (f sid)) \<and>
     (\<forall>f sid. reconnect_fn t = Some f \<longrightarrow> state_io_rel R (f sid)) \<and>
     (\<forall>f r. close_fn t = Some f \<longrightarrow> state_io_rel R (f r)) \<and>
     (\<forall>f r. on_handshake_done_fn t = Some f \<longrightarrow> state_io_rel R (f r)) \<and>
     (\<forall>f r. on_handshake_update_fn t = Some f \<longrightarrow> state_io_rel R (f r)) \<and>
     (\<forall>f r m. on_error_fn t = Some f \<longrightarrow> state_io_rel R (f r m)))"

lemma cb_relD:
  assumes "cb_rel R cb"
  shows "Option.bind cb write_fn = Some f1 \<Longrightarrow> state_io_rel R (f1 bs)"
    and "Option.bind cb message_fn = Some f2 \<Longrightarrow> state_io_rel R (f2 bs n)"
    and "Option.bind cb new_session_fn = Some f3 \<Longrightarrow> state_io_rel R (f3 sid)"
    and "Option.bind cb reconnect_fn = Some f4 \<Longrightarrow> state_io_rel R (f4 sid')"
    and "Option.bind cb close_fn = Some f5 \<Longrightarrow> state_io_rel R (f5 r)"
    and "Option.bind cb on_handshake_done_fn = Some f6 \<Longrightarrow> state_io_rel R (f6 r)"
    and "Option.bind cb on_handshake_update_fn = Some f7 \<Longrightarrow> state_io_rel R (f7 r)"
    and "Option.bind cb on_error_fn = Some f8 \<Longrightarrow> state_io_rel R (f8 r m)"
  using assms by (cases cb; simp add: cb_rel_def)+

lemma core_pre: "rel_pre core"
  using refines_pre by (auto simp: rel_pre_def core_def intro: prefix_order.trans)

lemma core_trans: "core a b \<Longrightarrow> core b c \<Longrightarrow> core a c"
  using core_pre by (rule rel_pre_trans)

lemma core_refl [simp]: "core s s"
  using core_pre by (rule rel_pre_refl)

definition same_core :: "('c, 'd, 'g, 'b, 'w) proto_env \<Rightarrow> ('c, 'd, 'g, 'b, 'w) proto_env \<Rightarrow> bool" where
  "same_core s s' \<longleftrightarrow> view s' = view s \<and> read_side s' = read_side s \<and>
     write_header_offset s' = write_header_offset s \<and> prefix (faults s) (faults s') \<and>
     (crypt_ok s \<longrightarrow> crypt_ok s')"

lemma core_same: "same_core s s' \<Longrightarrow> core s s'"
  by (auto simp: same_core_def core_def refines_same view_def)

lemma same_core_pre: "rel_pre same_core"
  by (auto simp: rel_pre_def same_core_def intro: prefix_order.trans)

lemma same_core_flags:
  assumes "same_core s s'" and "t \<in> {EN_PFT_CLOSING, EN_PFT_CLOSED, EN_PFT_WRITING, EN_PFT_HANDSHAKE_DONE}"
  shows "check_flag t s' = check_flag t s"
  using assms by (auto simp: same_core_def view_def)

lemma core_step:
  assumes "astep (view s) (view s')" and "read_side s' = read_side s"
    and "write_header_offset s' = write_header_offset s" and "faults s' = faults s"
    and "frames_of (trace s') = frames_of (trace s)"
    and "crypt_ok s \<Longrightarrow> crypt_ok s'"
  shows "core s s'"
  using assms by (simp add: core_def refines_step)

section \<open>Frame facts\<close>

lemma check_flag_frame [simp]:
  fixes s :: "('c, 'd, 'g, 'b, 'w) proto_env"
  shows "check_flag t (s\<lparr>session_id := a1\<rparr>) = check_flag t s"
    "check_flag t (s\<lparr>read_buffers := a2\<rparr>) = check_flag t s"
    "check_flag t (s\<lparr>read_head_buffer := a3\<rparr>) = check_flag t s"
    "check_flag t (s\<lparr>read_head_len := a4\<rparr>) = check_flag t s"
    "check_flag t (s\<lparr>write_buffers := a5\<rparr>) = check_flag t s"
    "check_flag t (s\<lparr>last_write_ptr := a6\<rparr>) = check_flag t s"
    "check_flag t (s\<lparr>close_reason := a7\<rparr>) = check_flag t s"
    "check_flag t (s\<lparr>crypt_heap := a8\<rparr>) = check_flag t s"
    "check_flag t (s\<lparr>crypt_read := a9\<rparr>) = check_flag t s"
    "check_flag t (s\<lparr>crypt_write := a9\<rparr>) = check_flag t s"
    "check_flag t (s\<lparr>crypt_handshake := a10\<rparr>) = check_flag t s"
    "check_flag t (s\<lparr>last_ping := a11\<rparr>) = check_flag t s"
    "check_flag t (s\<lparr>last_delta := a11\<rparr>) = check_flag t s"
    "check_flag t (s\<lparr>shake_switch_secret_type := a11\<rparr>) = check_flag t s"
    "check_flag t (s\<lparr>shake_has_data := a12\<rparr>) = check_flag t s"
    "check_flag t (s\<lparr>shake_ext_data := a13\<rparr>) = check_flag t s"
    "check_flag t (s\<lparr>shake_dh_ctx := a14\<rparr>) = check_flag t s"
    "check_flag t (s\<lparr>g_current := a15\<rparr>) = check_flag t s"
    "check_flag t (s\<lparr>g_seq := a16\<rparr>) = check_flag t s"
    "check_flag t (s\<lparr>g_draws := a17\<rparr>) = check_flag t s"
    "check_flag t (s\<lparr>faults := a18\<rparr>) = check_flag t s"
    "check_flag t (s\<lparr>trace := a19\<rparr>) = check_flag t s"
  by (simp_all add: check_flag_def)

lemmas core_defs = same_core_def view_def read_side_def crypt_ok_def put_crypt_def upd_hs_crypt_def
  use_hs_read_def use_hs_write_def new_hs_crypt_def

lemma set_flag_frame [simp]:
  fixes s :: "('c, 'd, 'g, 'b, 'w) proto_env"
  shows "read_side (set_flag t v s) = read_side s"
    "write_header_offset (set_flag t v s) = write_header_offset s" "faults (set_flag t v s) = faults s"
    "crypt_ok (set_flag t v s) = crypt_ok s"
    "read_side (log_event e s) = read_side s"
    "write_header_offset (log_event e s) = write_header_offset s" "faults (log_event e s) = faults s"
    "crypt_ok (log_event e s) = crypt_ok s"
  by (simp_all add: set_flag_def log_event_def read_side_def crypt_ok_def)

section \<open>Composition rules\<close>

lemma run_bind: "run_state (State_Monad.bind m f) s =
    run_state (f (fst (run_state m s))) (snd (run_state m s))"
  by (simp add: case_prod_unfold)

lemma core_then: "core s s1 \<Longrightarrow> state_io_rel core m \<Longrightarrow> core s (snd (run_state m s1))"
  by (auto dest: io_relD intro: core_trans)

declare core_trans [trans]

lemma io_core_modify: "(\<And>s. same_core s (f s)) \<Longrightarrow> state_io_rel core (modify f)"
  by (simp add: io_rel_modify core_same)

lemma io_same_core: "state_io_rel same_core m \<Longrightarrow> state_io_rel core m"
  by (simp add: state_io_rel_def core_same)

lemma core_log_other: "other_event e \<Longrightarrow> frames_of [e] = [] \<Longrightarrow> core s (log_event e s)"
  using astep.other [of e "view s"] by (intro core_step) (auto simp: view_def)

lemma io_core_log: "other_event e \<Longrightarrow> frames_of [e] = [] \<Longrightarrow> state_io_rel core (modify (log_event e))"
  by (simp add: io_rel_modify core_log_other)

lemma io_core_fault: "state_io_rel core (raise_fault f)"
  unfolding raise_fault_def by (rule io_core_modify) (simp add: core_defs)

lemma io_core_on_error: "cb_rel core cb \<Longrightarrow> state_io_rel core (on_error cb e m)"
  unfolding on_error_def
  by (auto split: option.split intro!: io_rel_bind [OF core_pre] io_rel_return [OF core_pre]
      io_core_log cb_relD)

lemma io_core_guard:
  fixes m :: "('c, 'd, 'g, 'b, 'w, 'a) pm"
  assumes m: "state_io_rel core m"
  shows "state_io_rel core (flag_guard EN_PFT_IN_CALLBACK m)"
proof -
  let ?M = "pft_mask EN_PFT_IN_CALLBACK"
  have enter: "same_core s (s\<lparr>flags := fst (flag_guard_enter (flags s) ?M)\<rparr>)"
    for s :: "('c, 'd, 'g, 'b, 'w) proto_env"
    unfolding core_defs check_flag_def pft.guard_enter
    by (simp add: pft.check_set del: pft_mask.simps)
  have leave: "same_core s (s\<lparr>flags := flag_guard_leave (snd (flag_guard_enter f ?M)) (flags s)\<rparr>)"
    for f and s :: "('c, 'd, 'g, 'b, 'w) proto_env"
    unfolding core_defs check_flag_def
    by (simp add: pft.guard_leave del: pft_mask.simps)
  show ?thesis
    unfolding state_io_rel_def
  proof
    fix s :: "('c, 'd, 'g, 'b, 'w) proto_env"
    let ?s1 = "s\<lparr>flags := fst (flag_guard_enter (flags s) ?M)\<rparr>"
    obtain r s2 where run: "run_state m ?s1 = (r, s2)" by (cases "run_state m ?s1")
    have "core s ?s1" by (rule core_same [OF enter])
    also have "core ?s1 s2" using io_relD [OF m, of ?s1] run by simp
    also have "core s2 (s2\<lparr>flags := flag_guard_leave (snd (flag_guard_enter (flags s) ?M)) (flags s2)\<rparr>)"
      by (rule core_same [OF leave])
    finally show "core s (snd (run_state (flag_guard EN_PFT_IN_CALLBACK m) s))"
      using run by (simp add: flag_guard_def del: pft_mask.simps)
  qed
qed

lemmas core_rules = io_rel_bind [OF core_pre] io_rel_return [OF core_pre] io_rel_gets [OF core_pre]
  io_rel_when [OF core_pre] io_rel_if io_rel_case_option io_rel_case_prod io_rel_let io_rel_case_list
  io_core_fault io_core_guard io_core_on_error

section \<open>Operations\<close>

lemma next_seq_core [io_rel]: "state_io_rel core next_seq"
  unfolding next_seq_def by (intro core_rules io_core_modify) (simp add: core_defs)

lemma random_bytes_core [io_rel]: "state_io_rel core (random_bytes K g n)"
  unfolding random_bytes_def by (intro core_rules io_core_modify) (simp add: core_defs)

lemma run_hs_crypt_core [io_rel]: "state_io_rel core (run_hs_crypt f)"
  unfolding run_hs_crypt_def by (intro core_rules io_core_modify) (simp add: core_defs)

lemma encrypt_data_core [io_rel]: "cb_rel core (lk_cb K) \<Longrightarrow> state_io_rel core (encrypt_data K i inp out0)"
  unfolding encrypt_data_def by (intro core_rules io_core_modify; simp add: core_defs)

lemma decrypt_data_core [io_rel]: "cb_rel core (lk_cb K) \<Longrightarrow> state_io_rel core (decrypt_data K i inp out0)"
  unfolding decrypt_data_def by (intro core_rules io_core_modify; simp add: core_defs)

lemma encode_post_core [io_rel]: "cb_rel core (lk_cb K) \<Longrightarrow> state_io_rel core (encode_post K inp)"
  unfolding encode_post_def by (intro core_rules io_rel)

lemma decode_post_core [io_rel]: "cb_rel core (lk_cb K) \<Longrightarrow> state_io_rel core (decode_post K inp)"
  unfolding decode_post_def by (intro core_rules io_rel)

lemma report_closed_core [io_rel]:
  fixes K :: "('c, 'd, 'g, 'b, 'w) link"
  assumes "cb_rel core (lk_cb K)"
  shows "state_io_rel core (report_closed K d)"
  unfolding state_io_rel_def
proof
  fix s :: "('c, 'd, 'g, 'b, 'w) proto_env"
  let ?ok = "check_flag EN_PFT_CLOSING s \<and> \<not> check_flag EN_PFT_CLOSED s \<and> \<not> check_flag EN_PFT_WRITING s"
  have silent: "core s (set_flag EN_PFT_CLOSED True s)" if ?ok
    using astep.close_silent [of "view s"] that by (intro core_step) (auto simp: view_def)
  have report: "core s (log_event (EvClose r) (set_flag EN_PFT_CLOSED True s))" if ?ok for r
    using astep.close_report [of "view s" r] that by (intro core_step) (auto simp: view_def)
  show "core s (snd (run_state (report_closed K d) s))"
    unfolding report_closed_def using silent report
    by (auto simp: run_bind simp del: run_state_bind split: option.splits
        intro!: core_then cb_relD(5) [OF assms])
qed

lemma handshake_done_core [io_rel]:
  fixes cb :: "('c, 'd, 'g, 'b, 'w) proto_env proto_callbacks option"
  assumes cb: "cb_rel core cb"
  shows "state_io_rel core (handshake_done cb status)"
  unfolding state_io_rel_def
proof
  fix s :: "('c, 'd, 'g, 'b, 'w) proto_env"
  let ?s1 = "set_flag EN_PFT_HANDSHAKE_UPDATE False (set_flag EN_PFT_HANDSHAKE_DONE True s)"
  have silent: "core s ?s1"
    using astep.shake_silent [of "view s"] by (intro core_step) (auto simp: view_def)
  have first: "core s (log_event (EvHandshakeDone r) ?s1)" if "\<not> check_flag EN_PFT_HANDSHAKE_DONE s" for r
    using astep.shake_report [of "view s" r] that by (intro core_step) (auto simp: view_def)
  have again: "core s (log_event (EvHandshakeUpdate r) ?s1)" for r
    using core_log_other [of "EvHandshakeUpdate r" ?s1] silent by (auto intro: core_trans)
  show "core s (snd (run_state (handshake_done cb status) s))"
    unfolding handshake_done_def shake_callback_def using silent first again
    by (auto simp: run_bind simp del: run_state_bind split: option.splits
        intro!: core_then intro: cb_relD(6) [OF cb] cb_relD(7) [OF cb])
qed

lemmas same_rules = io_rel_bind [OF same_core_pre] io_rel_return [OF same_core_pre]
  io_rel_gets [OF same_core_pre] io_rel_when [OF same_core_pre] io_rel_if io_rel_case_option
  io_rel_case_prod io_rel_let io_rel_case_list

lemma raise_fault_same: "state_io_rel same_core (raise_fault f)"
  unfolding raise_fault_def by (rule io_rel_modify) (simp add: core_defs)

lemma try_merge_same: "state_io_rel same_core (try_merge K)"
  unfolding try_merge_def by (intro same_rules raise_fault_same io_rel_modify; simp add: core_defs)

lemma core_write_mark:
  assumes "\<not> check_flag EN_PFT_WRITING s" and "\<not> check_flag EN_PFT_CLOSING s"
  shows "core s (set_flag EN_PFT_WRITING True s)"
  using astep.write_mark [of "view s"] assms by (intro core_step) (auto simp: view_def)

lemma core_write_begin:
  fixes s :: "('c, 'd, 'g, 'b, 'w) proto_env"
  assumes "\<not> check_flag EN_PFT_WRITING s" and "\<not> check_flag EN_PFT_CLOSING s"
  shows "core s ((log_event (EvWrite bs) (set_flag EN_PFT_WRITING True s))\<lparr>last_write_ptr := p\<rparr>)"
proof -
  have "core s (log_event (EvWrite bs) (set_flag EN_PFT_WRITING True s))"
    using astep.write_begin [of "view s" bs] assms by (intro core_step) (auto simp: view_def)
  also have "core \<dots> ((log_event (EvWrite bs) (set_flag EN_PFT_WRITING True s))\<lparr>last_write_ptr := p\<rparr>)"
    by (rule core_same) (simp add: core_defs)
  finally show ?thesis .
qed

lemma core_write_end: "core s (log_event (EvWritten st) (set_flag EN_PFT_WRITING False s))"
  using astep.write_end [of "view s" st] by (intro core_step) (auto simp: view_def)

lemma try_write_both:
  fixes K :: "('c, 'd, 'g, 'b, 'w) link"
  assumes cb: "cb_rel core (lk_cb K)"
  shows "state_io_rel core (try_write K n) \<and> (\<forall>status. state_io_rel core (write_done K n status))"
proof (induction n)
  case 0
  show ?case by (auto intro!: core_rules)
next
  case (Suc n)
  have tw: "state_io_rel core (try_write K n)" and wd: "state_io_rel core (write_done K n st)" for st
    using Suc by auto
  have wdone: "state_io_rel core (write_done K (Suc n) status)" for status
    by (simp only: write_done.simps)
      (intro core_rules io_core_modify tw report_closed_core [OF cb] io_rel_modify core_write_end;
       simp add: core_defs)
  have "state_io_rel core (try_write K (Suc n))"
  proof (cases "Option.bind (lk_cb K) write_fn")
    case None
    then show ?thesis by (simp add: core_rules)
  next
    case (Some wfn)
    have wf: "state_io_rel core (wfn bs)" for bs using cb_relD(1) [OF cb Some] .
    show ?thesis
      unfolding state_io_rel_def
    proof
      fix s :: "('c, 'd, 'g, 'b, 'w) proto_env"
      let ?s1 = "snd (run_state (try_merge K) s)"
      have s1: "same_core s ?s1" using try_merge_same by (rule io_relD)
      note fl = same_core_flags [OF s1]
      have wb: "core t (t\<lparr>write_buffers := b\<rparr>)" for b and t :: "('c, 'd, 'g, 'b, 'w) proto_env"
        by (rule core_same) (simp add: core_defs)
      have popped: "core s (?s1\<lparr>write_buffers := b\<rparr>)" for b
        using core_same [OF s1] wb by (rule core_trans)
      have begun: "core s ((log_event (EvWrite bs) (set_flag EN_PFT_WRITING True ?s1))\<lparr>last_write_ptr := p\<rparr>)"
        if "\<not> check_flag EN_PFT_WRITING s" "\<not> check_flag EN_PFT_CLOSING s" for bs p
        by (rule core_trans [OF core_same [OF s1] core_write_begin]) (use that fl in simp_all)
      have marked: "core s (set_flag EN_PFT_WRITING True (?s1\<lparr>faults := faults ?s1 @ [f], write_buffers := b\<rparr>))"
        if "\<not> check_flag EN_PFT_WRITING s" "\<not> check_flag EN_PFT_CLOSING s" for f b
      proof -
        have "same_core ?s1 (?s1\<lparr>faults := faults ?s1 @ [f], write_buffers := b\<rparr>)"
          by (simp add: core_defs)
        then have "core s (?s1\<lparr>faults := faults ?s1 @ [f], write_buffers := b\<rparr>)"
          using core_same [OF s1] by (blast intro: core_same core_trans)
        also have "core \<dots> (set_flag EN_PFT_WRITING True \<dots>)"
          by (rule core_write_mark) (use that fl in simp_all)
        finally show ?thesis .
      qed
      show "core s (snd (run_state (try_write K (Suc n)) s))"
        using Some popped begun marked
        by (auto simp: run_bind raise_fault_def simp del: run_state_bind split: list.splits prod.splits
            intro!: core_then wb core_rules intro: wf wd tw)
    qed
  qed
  with wdone show ?case by blast
qed

lemmas try_write_core [io_rel] = try_write_both [THEN conjunct1]
lemmas write_done_core [io_rel] = try_write_both [THEN conjunct2, rule_format]

lemmas core_steps = core_rules io_core_modify io_core_log

lemma write_msg_core [io_rel]: "cb_rel core (lk_cb K) \<Longrightarrow> state_io_rel core (write_msg K msg)"
  unfolding write_msg_def by (intro core_steps io_rel; simp add: core_defs)

lemma send_msg_core [io_rel]: "cb_rel core (lk_cb K) \<Longrightarrow> state_io_rel core (send_msg K ty body)"
  unfolding send_msg_def by (intro core_steps io_rel)

lemma send_post_core [io_rel]: "cb_rel core (lk_cb K) \<Longrightarrow> state_io_rel core (send_post K ty b)"
  unfolding send_post_def by (intro core_steps io_rel)

lemma proto_write_core [io_rel]: "cb_rel core (lk_cb K) \<Longrightarrow> state_io_rel core (proto_write K b)"
  unfolding proto_write_def by (intro io_rel)

lemma send_ping_core [io_rel]: "cb_rel core (lk_cb K) \<Longrightarrow> state_io_rel core (send_ping K)"
  unfolding send_ping_def by (intro core_steps io_rel; simp add: core_defs)

lemma send_pong_core [io_rel]: "cb_rel core (lk_cb K) \<Longrightarrow> state_io_rel core (send_pong K tp)"
  unfolding send_pong_def by (intro core_steps io_rel)

lemma send_kickoff_core [io_rel]: "cb_rel core (lk_cb K) \<Longrightarrow> state_io_rel core (send_kickoff K r)"
  unfolding send_kickoff_def by (intro core_steps io_rel)

lemma send_verify_core [io_rel]: "cb_rel core (lk_cb K) \<Longrightarrow> state_io_rel core (send_verify K b)"
  unfolding send_verify_def by (intro core_steps io_rel)

lemma io_core_closing: "state_io_rel core (modify (set_flag EN_PFT_CLOSING True) :: ('c, 'd, 'g, 'b, 'w, unit) pm)"
proof (rule io_rel_modify)
  show "core s (set_flag EN_PFT_CLOSING True s)" for s :: "('c, 'd, 'g, 'b, 'w) proto_env"
    using astep.close_begin [of "view s"] by (intro core_step) (auto simp: view_def)
qed

lemma close_with_core [io_rel]: "cb_rel core (lk_cb K) \<Longrightarrow> state_io_rel core (close_with K r kick)"
  unfolding close_with_def by (intro core_rules io_rel io_core_closing io_core_modify; simp add: core_defs)

lemma close_core [io_rel]: "cb_rel core (lk_cb K) \<Longrightarrow> state_io_rel core (close K r)"
  unfolding close_def by (intro io_rel)

lemma same_core_update: "same_core s (set_flag EN_PFT_HANDSHAKE_UPDATE v s)"
  by (simp add: same_core_def view_def)

lemma setup_handshake_core [io_rel]: "state_io_rel core (setup_handshake K conf)"
  unfolding setup_handshake_def
  by (intro core_steps same_core_update; simp add: core_defs)

lemma close_handshake_core [io_rel]: "cb_rel core (lk_cb K) \<Longrightarrow> state_io_rel core (close_handshake K st)"
  unfolding close_handshake_def by (intro core_steps io_rel; simp add: core_defs)

lemma generate_hs_secret_core [io_rel]: "state_io_rel core (generate_hs_secret K)"
  unfolding generate_hs_secret_def by (intro core_steps io_rel; simp add: core_defs)

lemma swap_hs_secret_core [io_rel]:
  "state_io_rel core (swap_hs_secret_self K)" "state_io_rel core (swap_hs_secret K v)"
  by (simp_all add: swap_hs_secret_self_def swap_hs_secret_def run_hs_crypt_core)

lemma pack_handshake_start_rsp_core [io_rel]:
  "cb_rel core (lk_cb K) \<Longrightarrow> state_io_rel core (pack_handshake_start_rsp K sid ty)"
  unfolding pack_handshake_start_rsp_def by (intro core_steps io_rel; simp add: core_defs)

lemma pack_handshake_dh_pubkey_req_core [io_rel]:
  "cb_rel core (lk_cb K) \<Longrightarrow> state_io_rel core (pack_handshake_dh_pubkey_req K peer st)"
  unfolding pack_handshake_dh_pubkey_req_def by (intro core_steps io_rel; simp add: core_defs)

lemma send_key_syn_core [io_rel]: "cb_rel core (lk_cb K) \<Longrightarrow> state_io_rel core (send_key_syn K)"
  unfolding send_key_syn_def by (intro core_steps io_rel; auto simp add: core_defs)

lemma handshake_update_core [io_rel]: "cb_rel core (lk_cb K) \<Longrightarrow> state_io_rel core (handshake_update K)"
  unfolding handshake_update_def by (intro io_rel)

lemma io_core_log_ext:
  "state_io_rel core (modify (\<lambda>s. log_event (EvReconnect r) (s\<lparr>shake_ext_data := e\<rparr>)) :: ('c, 'd, 'g, 'b, 'w, unit) pm)"
proof (rule io_rel_modify)
  fix s :: "('c, 'd, 'g, 'b, 'w) proto_env"
  have "core s (s\<lparr>shake_ext_data := e\<rparr>)" by (rule core_same) (simp add: core_defs)
  then show "core s (log_event (EvReconnect r) (s\<lparr>shake_ext_data := e\<rparr>))"
    by (rule core_trans) (simp add: core_log_other)
qed

lemma dispatch_handshake_start_req_core [io_rel]:
  "cb_rel core (lk_cb K) \<Longrightarrow> state_io_rel core (dispatch_handshake_start_req K body)"
  unfolding dispatch_handshake_start_req_def
  by (cases "Option.bind (lk_cb K) new_session_fn"; simp only: option.case)
    (intro core_steps io_rel cb_relD(3); simp add: core_defs)+

lemma follow_global_conf_core [io_rel]: "state_io_rel core (follow_global_conf K ty sw)"
  unfolding follow_global_conf_def by (intro core_steps io_rel; simp add: core_defs)

lemma dispatch_handshake_start_rsp_core [io_rel]:
  "cb_rel core (lk_cb K) \<Longrightarrow> state_io_rel core (dispatch_handshake_start_rsp K body)"
  unfolding dispatch_handshake_start_rsp_def by (intro core_steps io_rel; auto simp add: core_defs)

lemma dispatch_handshake_reconn_req_core [io_rel]:
  "cb_rel core (lk_cb K) \<Longrightarrow> state_io_rel core (dispatch_handshake_reconn_req K body)"
  unfolding dispatch_handshake_reconn_req_def
  by (cases "Option.bind (lk_cb K) reconnect_fn"; simp only: option.case)
    (intro core_rules io_core_log_ext io_rel cb_relD(4); simp add: core_defs)+

lemma dispatch_handshake_reconn_rsp_core [io_rel]:
  "cb_rel core (lk_cb K) \<Longrightarrow> state_io_rel core (dispatch_handshake_reconn_rsp K body)"
  unfolding dispatch_handshake_reconn_rsp_def by (intro core_steps io_rel; simp add: core_defs)

lemma reconnect_proof_core [io_rel]:
  "cb_rel core (lk_cb K) \<Longrightarrow> state_io_rel core (reconnect_proof K old body)"
  unfolding reconnect_proof_def by (intro core_steps io_rel)

lemma check_reconnect_core [io_rel]:
  "cb_rel core (lk_cb K) \<Longrightarrow> state_io_rel core (check_reconnect K other)"
  unfolding check_reconnect_def by (intro core_steps io_rel; simp add: core_defs)

lemma dh_accept_pubkey_core [io_rel]:
  "cb_rel core (lk_cb K) \<Longrightarrow> state_io_rel core (dh_accept_pubkey K pk)"
  unfolding dh_accept_pubkey_def by (intro core_steps io_rel; simp add: core_defs)

lemma dh_verify_text_core [io_rel]:
  "cb_rel core (lk_cb K) \<Longrightarrow> state_io_rel core (dh_verify_text K g)"
  unfolding dh_verify_text_def by (intro core_steps io_rel; simp add: core_defs)

lemma dispatch_handshake_dh_pubkey_req_core [io_rel]:
  "cb_rel core (lk_cb K) \<Longrightarrow> state_io_rel core (dispatch_handshake_dh_pubkey_req K peer st)"
  unfolding dispatch_handshake_dh_pubkey_req_def by (intro core_steps io_rel; simp add: core_defs)

lemma dispatch_handshake_dh_pubkey_rsp_core [io_rel]:
  "cb_rel core (lk_cb K) \<Longrightarrow> state_io_rel core (dispatch_handshake_dh_pubkey_rsp K body)"
  unfolding dispatch_handshake_dh_pubkey_rsp_def by (intro core_steps io_rel; simp add: core_defs)

lemma dispatch_handshake_verify_ntf_core [io_rel]:
  "cb_rel core (lk_cb K) \<Longrightarrow> state_io_rel core (dispatch_handshake_verify_ntf K body)"
  unfolding dispatch_handshake_verify_ntf_def by (intro core_steps io_rel; simp add: core_defs)

lemma dispatch_step_core [io_rel]: "cb_rel core (lk_cb K) \<Longrightarrow> state_io_rel core (dispatch_step K body)"
  unfolding dispatch_step_def Let_def by (intro core_rules io_rel)

lemma dispatch_handshake_core [io_rel]:
  "cb_rel core (lk_cb K) \<Longrightarrow> state_io_rel core (dispatch_handshake K body)"
  unfolding dispatch_handshake_def by (intro core_rules io_rel)

section \<open>Messages\<close>

lemma decode_post_zero:
  assumes "run_state (decode_post K inp) s = ((0, out), s')"
  shows "same_core s s' \<and> \<not> check_flag EN_PFT_CLOSING s"
  using assms
  by (auto simp: decode_post_def decrypt_data_def core_defs split: if_splits option.splits prod.splits)

lemma core_message:
  assumes "check_flag EN_PFT_HANDSHAKE_DONE s" and "\<not> check_flag EN_PFT_CLOSING s"
  shows "core s (log_event (EvMessage bs n) s)"
  using astep.message [of "view s" bs n] assms by (intro core_step) (auto simp: view_def)

lemma dispatch_post_body_at:
  fixes K :: "('c, 'd, 'g, 'b, 'w) link"
  assumes cb: "cb_rel core (lk_cb K)" and shaken: "check_flag EN_PFT_HANDSHAKE_DONE s"
  shows "core s (snd (run_state (dispatch_post_body K post) s))"
proof (cases "post_data post")
  case None
  then show ?thesis
    using io_relD [OF io_core_fault] by (simp add: dispatch_post_body_def deref_def)
next
  case (Some data)
  obtain res out s1 where dec: "run_state (decode_post K (Some data)) s = ((res, out), s1)"
    by (metis prod.collapse)
  have s1: "core s s1" using io_relD [OF decode_post_core [OF cb], where s = s] dec by (metis snd_conv)
  show ?thesis
  proof (cases "res = 0")
    case True
    have same: "same_core s s1" and open_s: "\<not> check_flag EN_PFT_CLOSING s"
      using decode_post_zero dec True by blast+
    have msg: "core s (log_event (EvMessage bs n) s1)" for bs n
      using core_message [of s1] same_core_flags [OF same] shaken open_s s1 by (auto intro: core_trans)
    show ?thesis
      using Some dec True s1 msg
      by (auto simp: dispatch_post_body_def deref_def run_bind simp del: run_state_bind
          split: option.splits intro!: core_then core_rules intro: cb_relD(2) [OF cb])
  next
    case False
    then show ?thesis
      using Some dec s1
      by (auto simp: dispatch_post_body_def deref_def run_bind simp del: run_state_bind
          intro!: core_then close_with_core [OF cb])
  qed
qed

lemma deref_core: "(\<And>x. state_io_rel core (f x)) \<Longrightarrow> state_io_rel core (deref w p f)"
  unfolding deref_def by (intro core_rules)

lemma dispatch_post_core [io_rel]:
  fixes K :: "('c, 'd, 'g, 'b, 'w) link"
  assumes cb: "cb_rel core (lk_cb K)"
  shows "state_io_rel core (dispatch_post K p)"
  unfolding state_io_rel_def
proof
  fix s :: "('c, 'd, 'g, 'b, 'w) proto_env"
  have closed: "core s (snd (run_state (close_with K r k) s))" for r k
    by (rule io_relD) (intro io_rel cb)
  have "core s (snd (run_state (deref w p (dispatch_post_body K)) s))" if "check_flag EN_PFT_HANDSHAKE_DONE s" for w
    using dispatch_post_body_at [OF cb that]
    by (simp add: deref_def io_relD [OF io_core_fault] split: option.split)
  with closed show "core s (snd (run_state (dispatch_post K p) s))"
    by (simp add: dispatch_post_def run_bind del: run_state_bind)
qed

lemma pong_update_core: "state_io_rel core (modify pong_update)"
  by (rule io_core_modify) (simp add: core_defs pong_update_def)

lemma io_rel_case_body:
  "state_io_rel R a \<Longrightarrow> (\<And>x. state_io_rel R (b x)) \<Longrightarrow> (\<And>x. state_io_rel R (c x)) \<Longrightarrow>
   (\<And>x. state_io_rel R (d x)) \<Longrightarrow> (\<And>x. state_io_rel R (e x)) \<Longrightarrow>
   state_io_rel R (case_cs_msg_body a b c d e body)"
  by (cases body) simp_all

lemma dispatch_msg_core [io_rel]:
  "cb_rel core (lk_cb K) \<Longrightarrow> state_io_rel core (dispatch_msg K msg)"
  unfolding dispatch_msg_def Let_def
  by (intro io_rel_case_option io_rel_case_body core_rules pong_update_core deref_core io_rel
      io_core_modify same_core_update)

text \<open>dispatch_data itself is a step that records one frame, and otherwise keeps \<open>core\<close>.\<close>

lemma dispatch_data_frame:
  fixes K :: "('c, 'd, 'g, 'b, 'w) link"
  assumes cb: "cb_rel core (lk_cb K)"
  shows "core (log_event (EvFrame b e) s) (snd (run_state (dispatch_data K b e) s))"
proof -
  let ?inner = "do {
     closing \<leftarrow> gets (check_flag EN_PFT_CLOSING);
     if closing then ret ()
     else if e < 0 then ret ()
     else (case fb_parse (lk_fb K) b of
       None \<Rightarrow> do { _ \<leftarrow> close K (cr EN_CRT_INVALID_DATA); ret () }
     | Some msg \<Rightarrow> dispatch_msg K msg)
   }"
  have "run_state (dispatch_data K b e) s = run_state ?inner (log_event (EvFrame b e) s)"
    by (simp add: dispatch_data_def)
  moreover have "state_io_rel core ?inner"
    by (intro core_rules io_rel cb)
  ultimately show ?thesis by (simp only: io_relD)
qed

end
