(* ===== verification/ProtoFraming.thy ===== *)
theory ProtoFraming
  imports ProtoCore
begin

text \<open>
  The stream of bytes the engine delivers, against a reference splitter on the whole stream:
  however the stream is cut into chunks, and whether a message fits the head buffer or needs a
  block of its own, the frames given to dispatch_data are the frames of the stream, and what is
  kept in the head buffer or in the block is the unfinished rest. \<open>recv_ok\<close> is the invariant of the
  receive side: between two deliveries the head buffer holds at most a header, or one block holds
  the beginning of one message.
\<close>

section \<open>The reference splitter\<close>

function split_frames :: "byte list \<Rightarrow> byte list list \<times> byte list" where
  "split_frames bs =
     (if length bs \<le> 8 then ([], bs)
      else let n = unat (le32_read (drop 4 bs)) in
        if 8 + n \<le> length bs
        then case split_frames (drop (8 + n) bs) of (fs, r) \<Rightarrow> (take n (drop 8 bs) # fs, r)
        else ([], bs))"
  by pat_completeness auto
termination
  by (relation "measure length") auto

declare split_frames.simps [simp del]

lemma split_short: "length bs \<le> 8 \<Longrightarrow> split_frames bs = ([], bs)"
  by (simp add: split_frames.simps)

lemma split_partial:
  "8 < length bs \<Longrightarrow> length bs < 8 + unat (le32_read (drop 4 bs)) \<Longrightarrow> split_frames bs = ([], bs)"
  by (simp add: split_frames.simps)

lemma split_whole:
  "8 < length bs \<Longrightarrow> n = unat (le32_read (drop 4 bs)) \<Longrightarrow> 8 + n \<le> length bs \<Longrightarrow>
   split_frames bs = (take n (drop 8 bs) # fst (split_frames (drop (8 + n) bs)), snd (split_frames (drop (8 + n) bs)))"
  by (subst split_frames.simps) (simp add: case_prod_unfold Let_def)

lemma le32_read_drop_append: "8 \<le> length xs \<Longrightarrow> le32_read (drop 4 (xs @ ys)) = le32_read (drop 4 xs)"
  using le32_read_take [of 4 "drop 4 (xs @ ys)"] le32_read_take [of 4 "drop 4 xs"] by simp

lemma split_append:
  "split_frames (a @ b) =
    (fst (split_frames a) @ fst (split_frames (snd (split_frames a) @ b)),
     snd (split_frames (snd (split_frames a) @ b)))"
proof (induction a rule: split_frames.induct)
  case (1 a)
  let ?n = "unat (le32_read (drop 4 a))"
  consider "length a \<le> 8" | "8 < length a" "length a < 8 + ?n" | "8 < length a" "8 + ?n \<le> length a"
    by linarith
  then show ?case
  proof cases
    case 1
    then show ?thesis by (simp add: split_short)
  next
    case 2
    then show ?thesis by (simp add: split_partial)
  next
    case 3
    have hd: "le32_read (drop 4 (a @ b)) = le32_read (drop 4 a)"
      using 3 by (intro le32_read_drop_append) simp
    have "split_frames (a @ b) = (take ?n (drop 8 a) # fst (split_frames (drop (8 + ?n) a @ b)),
        snd (split_frames (drop (8 + ?n) a @ b)))"
      using 3 split_whole [of "a @ b" ?n] hd by simp
    with 3 1 show ?thesis
      by (simp add: split_whole)
  qed
qed

lemma split_rest_stable: "split_frames (snd (split_frames a)) = ([], snd (split_frames a))"
proof (induction a rule: split_frames.induct)
  case (1 a)
  let ?n = "unat (le32_read (drop 4 a))"
  consider "length a \<le> 8" | "8 < length a" "length a < 8 + ?n" | "8 < length a" "8 + ?n \<le> length a"
    by linarith
  then show ?case
    using 1 by cases (simp_all add: split_short split_partial split_whole)
qed

lemma split_rest_cases:
  "length (snd (split_frames a)) \<le> 8 \<or>
   length (snd (split_frames a)) < 8 + unat (le32_read (drop 4 (snd (split_frames a))))"
proof (rule ccontr)
  assume "\<not> ?thesis"
  then have "fst (split_frames (snd (split_frames a))) \<noteq> []"
    using split_whole [of "snd (split_frames a)"] by simp
  then show False by (simp add: split_rest_stable)
qed

lemma le32_read_frame: "length m < 2 ^ 32 \<Longrightarrow> unat (le32_read (drop 4 (frame h m @ xs))) = length m"
  by (simp add: frame_def unat_of_nat)

lemma take_drop_frame:
  "take (length m) (drop 8 (frame h m @ xs)) = m" "drop 8 (frame h m) = m"
    "drop (8 + length m) (frame h m @ xs) = xs"
  by (simp_all add: frame_def)

lemma split_frame_list:
  assumes "\<And>m. m \<in> set ms \<Longrightarrow> m \<noteq> [] \<and> length m < 2 ^ 32"
  shows "split_frames (concat (map (frame h) ms)) = (ms, [])"
  using assms
proof (induction ms)
  case Nil
  then show ?case by (simp add: split_short)
next
  case (Cons m ms)
  have m: "m \<noteq> []" "length m < 2 ^ 32" using Cons.prems by auto
  have "length m = unat (le32_read (drop 4 (frame h m @ concat (map (frame h) ms))))"
    using m by (simp only: le32_read_frame)
  from split_whole [OF _ this] show ?case
    using m Cons by (simp add: take_drop_frame)
qed

text \<open>Whether every whole frame of a stream carries the hash of its message.\<close>

function well_hashed :: "(byte list \<Rightarrow> u32) \<Rightarrow> byte list \<Rightarrow> bool" where
  "well_hashed h bs =
     (if length bs \<le> 8 then True
      else let n = unat (le32_read (drop 4 bs)) in
        if 8 + n \<le> length bs
        then le32_read bs = h (take n (drop 8 bs)) \<and> well_hashed h (drop (8 + n) bs)
        else True)"
  by pat_completeness auto
termination
  by (relation "measure (length \<circ> snd)") auto

declare well_hashed.simps [simp del]

lemma well_hashed_whole:
  "8 < length bs \<Longrightarrow> n = unat (le32_read (drop 4 bs)) \<Longrightarrow> 8 + n \<le> length bs \<Longrightarrow>
   well_hashed h bs \<longleftrightarrow> le32_read bs = h (take n (drop 8 bs)) \<and> well_hashed h (drop (8 + n) bs)"
  by (subst well_hashed.simps) (simp add: Let_def)

lemma well_hashed_rest: "fst (split_frames bs) = [] \<Longrightarrow> well_hashed h bs"
  by (subst well_hashed.simps) (subst (asm) split_frames.simps, auto simp: Let_def case_prod_unfold split: if_splits)

lemma le32_read_append: "4 \<le> length xs \<Longrightarrow> le32_read (xs @ ys) = le32_read xs"
  using le32_read_take [of 4 "xs @ ys"] le32_read_take [of 4 xs] by simp

lemma well_hashed_append:
  "well_hashed h (a @ b) \<longleftrightarrow> well_hashed h a \<and> well_hashed h (snd (split_frames a) @ b)"
proof (induction a rule: split_frames.induct)
  case (1 a)
  let ?n = "unat (le32_read (drop 4 a))"
  consider "length a \<le> 8" | "8 < length a" "length a < 8 + ?n" | "8 < length a" "8 + ?n \<le> length a"
    by linarith
  then show ?case
  proof cases
    case 1
    then show ?thesis by (simp add: split_short well_hashed_rest)
  next
    case 2
    then show ?thesis by (simp add: split_partial well_hashed_rest)
  next
    case 3
    have hd: "le32_read (drop 4 (a @ b)) = le32_read (drop 4 a)" "le32_read (a @ b) = le32_read a"
      using 3 by (simp_all only: le32_read_drop_append le32_read_append)
    show ?thesis
      using 3 1 hd well_hashed_whole [of "a @ b" ?n h] well_hashed_whole [of a ?n h]
      by (simp add: split_whole)
  qed
qed

lemma well_hashed_frames:
  assumes "\<And>m. m \<in> set ms \<Longrightarrow> m \<noteq> [] \<and> length m < 2 ^ 32"
  shows "well_hashed h (concat (map (frame h) ms))"
  using assms
proof (induction ms)
  case Nil
  then show ?case by (simp add: well_hashed.simps)
next
  case (Cons m ms)
  have m: "m \<noteq> []" "length m < 2 ^ 32" using Cons.prems by auto
  have n: "length m = unat (le32_read (drop 4 (frame h m @ concat (map (frame h) ms))))"
    using m by (simp only: le32_read_frame)
  have "le32_read (frame h m @ concat (map (frame h) ms)) = h m" by (simp add: frame_def)
  then show ?case using well_hashed_whole [OF _ n] m Cons by (simp add: take_drop_frame)
qed

section \<open>What was given to dispatch_data\<close>

text \<open>The frames with the code each was dispatched with.\<close>

definition frame_log :: "proto_event list \<Rightarrow> (byte list \<times> int) list" where
  "frame_log t = List.map_filter (\<lambda>e. case e of EvFrame bs err \<Rightarrow> Some (bs, err) | _ \<Rightarrow> None) t"

lemma frame_log_simps [simp]: "frame_log [] = []" "frame_log (s @ t) = frame_log s @ frame_log t"
    "frame_log [EvFrame bs err] = [(bs, err)]"
  by (simp_all add: frame_log_def map_filter_def)

lemma frames_of_log: "frames_of t = map fst (frame_log t)"
  by (induction t) (auto simp: frames_of_def frame_log_def map_filter_simps split: proto_event.split)

lemma core_frame_log:
  assumes "core s s'"
  shows "frame_log (trace s') = frame_log (trace s)"
proof -
  have "view_step (view s) (view s')" using assms asteps_view_step by (simp add: core_def refines_def)
  then obtain es where es: "trace s' = trace s @ es" by (auto simp: view_step_def view_def)
  moreover have "frames_of es = []" using assms es by (simp add: core_def)
  ultimately show ?thesis by (simp add: frames_of_log)
qed

section \<open>The receive side of the object\<close>

definition recv_rel :: "('c, 'd, 'g, 'b, 'w) proto_env \<Rightarrow> ('c, 'd, 'g, 'b, 'w) proto_env \<Rightarrow> bool" where
  "recv_rel s s' \<longleftrightarrow> refines s s' \<and> write_header_offset s' = write_header_offset s \<and>
     prefix (faults s) (faults s') \<and> (crypt_ok s \<longrightarrow> crypt_ok s')"

lemma recv_rel_pre: "rel_pre recv_rel"
  using refines_pre by (auto simp: rel_pre_def recv_rel_def intro: prefix_order.trans)

lemma recv_rel_trans [trans]: "recv_rel a b \<Longrightarrow> recv_rel b c \<Longrightarrow> recv_rel a c"
  using recv_rel_pre by (rule rel_pre_trans)

lemma recv_rel_refl [simp]: "recv_rel s s"
  using recv_rel_pre by (rule rel_pre_refl)

lemma core_recv: "core s s' \<Longrightarrow> recv_rel s s'"
  by (simp add: core_def recv_rel_def)

lemma recv_rel_same:
  "view s' = view s \<Longrightarrow> write_header_offset s' = write_header_offset s \<Longrightarrow>
   prefix (faults s) (faults s') \<Longrightarrow> crypt_ok s' = crypt_ok s \<Longrightarrow> recv_rel s s'"
  by (simp add: recv_rel_def refines_same)

lemma dispatch_data_recv:
  assumes cb: "cb_rel core (lk_cb K)" and run: "s' = snd (run_state (dispatch_data K b e) s)"
  shows "recv_rel s s' \<and> read_side s' = read_side s \<and>
    frames_of (trace s') = frames_of (trace s) @ [b] \<and> frame_log (trace s') = frame_log (trace s) @ [(b, e)]"
proof -
  have c: "core (log_event (EvFrame b e) s) s'"
    unfolding run by (rule dispatch_data_frame [OF cb])
  have "recv_rel s (log_event (EvFrame b e) s)"
    using astep.other [of "EvFrame b e" "view s"]
    by (auto simp: recv_rel_def view_def intro!: refines_step)
  then have "recv_rel s s'" using core_recv [OF c] by (rule recv_rel_trans)
  moreover have "frames_of (trace s') = frames_of (trace s) @ [b]" "read_side s' = read_side s"
    using c by (simp_all add: core_def)
  moreover have "frame_log (trace s') = frame_log (trace s) @ [(b, e)]"
    using core_frame_log [OF c] by (simp add: log_event_def)
  ultimately show ?thesis by simp
qed

text \<open>The frames of well-hashed data are dispatched without an error.\<close>

definition clean_frames :: "(byte list \<Rightarrow> u32) \<Rightarrow> byte list \<Rightarrow> proto_event list \<Rightarrow> proto_event list \<Rightarrow> bool" where
  "clean_frames h data t t' \<longleftrightarrow>
     (well_hashed h data \<longrightarrow> frame_log t' = frame_log t @ map (\<lambda>m. (m, 0)) (fst (split_frames data)))"

text \<open>A block of the big-message queue that holds the first bytes of one message.\<close>

definition partial_block :: "byte list \<Rightarrow> bblock \<Rightarrow> bool" where
  "partial_block rest k \<longleftrightarrow> blk_used k = length rest \<and> take (length rest) (blk_mem k) = rest \<and>
     8 < length rest \<and> length rest < blk_size k \<and> blk_size k = 8 + unat (le32_read (drop 4 rest))"

declare read_loop.simps [simp del]

lemma read_loop_spec:
  fixes K :: "('c, 'd, 'g, 'b, 'w) link"
  assumes cb: "cb_rel core (lk_cb K)" and bm: "bufmgr_ok (lk_buf K)"
  shows "run_state (read_loop K start left err) s = ((err', start', left', free), s') \<Longrightarrow>
    start + left \<le> length (read_head_buffer s) \<Longrightarrow>
    data = take left (drop start (read_head_buffer s)) \<Longrightarrow>
    recv_rel s s' \<and> read_head_buffer s' = read_head_buffer s \<and> read_head_len s' = read_head_len s \<and>
    start' + left' \<le> start + left \<and> (left' \<le> 8 \<or> left' + 8 \<le> left) \<and>
    (\<not> free \<longrightarrow> err = 0 \<longrightarrow> clean_frames (lk_hash K) data (trace s) (trace s')) \<and>
    (\<not> free \<longrightarrow> frames_of (trace s') = frames_of (trace s) @ fst (split_frames data) \<and>
      (read_buffers s' = read_buffers s \<and> take left' (drop start' (read_head_buffer s)) = snd (split_frames data)
         \<and> left' \<le> 8 \<or>
       left' = 0 \<and> (\<exists>k. bm_blocks (lk_buf K) (read_buffers s') = bm_blocks (lk_buf K) (read_buffers s) @ [k]
         \<and> partial_block (snd (split_frames data)) k))) \<and>
    (free \<longrightarrow> bm_blocks (lk_buf K) (read_buffers s') = bm_blocks (lk_buf K) (read_buffers s))"
proof (induction left arbitrary: start err s data rule: less_induct)
  case (less left)
  let ?buff = "drop start (read_head_buffer s)"
  let ?n = "unat (le32_read (drop 4 ?buff))"
  note run = less.prems(1)
  have data: "data = take left ?buff" and len: "length data = left" "left \<le> length ?buff"
    using less.prems(2,3) by auto
  consider (short) "left \<le> 8" | (whole) "8 < left" "8 + ?n \<le> left" | (big) "8 < left" "left < 8 + ?n"
    by linarith
  then show ?case
  proof cases
    case short
    with run len data show ?thesis
      by (simp add: read_loop.simps [of K start left] split_short clean_frames_def)
  next
    case whole
    have n: "?n = unat (le32_read (drop 4 data))"
      using whole data by (simp add: drop_take le32_read_take)
    have pay: "take ?n (drop 8 data) = take ?n (drop 8 ?buff)"
      using whole data by (simp add: drop_take)
    let ?e = "if lk_hash K (take ?n (drop 8 ?buff)) \<noteq> le32_read ?buff then ec EN_ECT_BAD_DATA else err"
    let ?s1 = "snd (run_state (dispatch_data K (take ?n (drop 8 ?buff)) ?e) s)"
    have d0: "recv_rel s ?s1 \<and> read_side ?s1 = read_side s \<and>
        frames_of (trace ?s1) = frames_of (trace s) @ [take ?n (drop 8 ?buff)] \<and>
        frame_log (trace ?s1) = frame_log (trace s) @ [(take ?n (drop 8 ?buff), ?e)]"
      by (rule dispatch_data_recv [OF cb refl])
    then have d: "recv_rel s ?s1 \<and> read_side ?s1 = read_side s \<and>
        frames_of (trace ?s1) = frames_of (trace s) @ [take ?n (drop 8 ?buff)]" by blast
    have dl: "frame_log (trace ?s1) = frame_log (trace s) @ [(take ?n (drop 8 ?buff), ?e)]" using d0 by blast
    from d have rs: "read_head_buffer ?s1 = read_head_buffer s" "read_head_len ?s1 = read_head_len s"
      "read_buffers ?s1 = read_buffers s" by (auto simp: read_side_def)
    have run1: "run_state (read_loop K (start + (8 + ?n)) (left - (8 + ?n)) ?e) ?s1 = ((err', start', left', free), s')"
      using run whole by (simp add: read_loop.simps [of K start left] Let_def case_prod_unfold)
    have data1: "drop (8 + ?n) data = take (left - (8 + ?n)) (drop (start + (8 + ?n)) (read_head_buffer ?s1))"
      using data rs by (simp add: drop_take add.commute)
    have split: "split_frames data = (take ?n (drop 8 ?buff) # fst (split_frames (drop (8 + ?n) data)),
        snd (split_frames (drop (8 + ?n) data)))"
      using split_whole [OF _ n] whole len pay n by simp
    have ih: "recv_rel ?s1 s' \<and> read_head_buffer s' = read_head_buffer ?s1 \<and> read_head_len s' = read_head_len ?s1 \<and>
      start' + left' \<le> start + (8 + ?n) + (left - (8 + ?n)) \<and> (left' \<le> 8 \<or> left' + 8 \<le> left - (8 + ?n)) \<and>
      (\<not> free \<longrightarrow> ?e = 0 \<longrightarrow> clean_frames (lk_hash K) (drop (8 + ?n) data) (trace ?s1) (trace s')) \<and>
      (\<not> free \<longrightarrow> frames_of (trace s') = frames_of (trace ?s1) @ fst (split_frames (drop (8 + ?n) data)) \<and>
      (read_buffers s' = read_buffers ?s1 \<and>
         take left' (drop start' (read_head_buffer ?s1)) = snd (split_frames (drop (8 + ?n) data)) \<and> left' \<le> 8 \<or>
       left' = 0 \<and> (\<exists>k. bm_blocks (lk_buf K) (read_buffers s') = bm_blocks (lk_buf K) (read_buffers ?s1) @ [k]
         \<and> partial_block (snd (split_frames (drop (8 + ?n) data))) k))) \<and>
      (free \<longrightarrow> bm_blocks (lk_buf K) (read_buffers s') = bm_blocks (lk_buf K) (read_buffers ?s1))"
      by (rule less.IH [OF _ run1 _ data1]) (use whole less.prems(2) rs in auto)
    then have "recv_rel s s'" using d by (blast intro: recv_rel_trans)
    moreover have "clean_frames (lk_hash K) data (trace s) (trace s')" if "\<not> free" "err = 0"
    proof -
      have "well_hashed (lk_hash K) data \<longleftrightarrow> le32_read data = lk_hash K (take ?n (drop 8 data)) \<and>
          well_hashed (lk_hash K) (drop (8 + ?n) data)"
        using well_hashed_whole [OF _ n] whole len by simp
      moreover have "le32_read data = le32_read ?buff" using whole data by (simp add: le32_read_take)
      ultimately show ?thesis using ih dl split pay that by (auto simp: clean_frames_def)
    qed
    ultimately show ?thesis using ih d rs split whole by auto
  next
    case big
    have n: "?n = unat (le32_read (drop 4 data))"
      using big data by (simp add: drop_take le32_read_take)
    have split: "split_frames data = ([], data)"
      by (rule split_partial) (use big len n in simp_all)
    let ?B = "lk_buf K"
    obtain r rb where push: "bm_push_back ?B (read_buffers s) (8 + ?n) = (r, rb)" by fastforce
    show ?thesis
    proof (cases "r = 0")
      case True
      obtain a m where m: "length m = 8 + ?n"
        "bm_blocks ?B rb = bm_blocks ?B (read_buffers s) @ [\<lparr>blk_addr = a, blk_used = 0, blk_mem = m\<rparr>]"
        using bufmgr_push_back [OF bm push] True by auto
      let ?rb1 = "bm_poke_back ?B rb 0 data"
      have poke: "bm_blocks ?B ?rb1 = bm_blocks ?B (read_buffers s) @ [\<lparr>blk_addr = a, blk_used = 0, blk_mem = overlay m 0 data\<rparr>]"
        using bufmgr_poke_back [OF bm m(2), of 0 data] m big len by (simp add: blk_size_def)
      let ?rb2 = "bm_pop_back ?B ?rb1 left False"
      have pop: "bm_blocks ?B ?rb2 = bm_blocks ?B (read_buffers s) @ [\<lparr>blk_addr = a, blk_used = left, blk_mem = overlay m 0 data\<rparr>]"
        using bufmgr_pop_back [OF bm poke, of left] m big len by (simp add: blk_size_def)
      have s': "s' = s\<lparr>read_buffers := ?rb2\<rparr>" "start' = start + left" "left' = 0" "free = False"
        using run big push True data by (auto simp: read_loop.simps [of K start left] Let_def)
      have "partial_block data \<lparr>blk_addr = a, blk_used = left, blk_mem = overlay m 0 data\<rparr>"
        using m big len n by (simp add: partial_block_def blk_size_def)
      moreover have "recv_rel s s'"
        unfolding s' by (rule recv_rel_same) (simp_all add: view_def crypt_ok_def)
      ultimately show ?thesis using s' pop split by (auto simp: clean_frames_def)
    next
      case False
      then have same: "bm_blocks ?B rb = bm_blocks ?B (read_buffers s)"
        using bufmgr_push_back [OF bm push] by auto
      have s': "s' = s\<lparr>read_buffers := rb\<rparr>" "start' = start + 8" "left' = left - 8" "free = True"
        using run big push False by (auto simp: read_loop.simps [of K start left] Let_def)
      have "recv_rel s s'"
        unfolding s' by (rule recv_rel_same) (simp_all add: view_def crypt_ok_def)
      with s' same big show ?thesis by auto
    qed
  qed
qed

section \<open>One delivery\<close>

definition guard_in :: "flag_t \<Rightarrow> ('c, 'd, 'g, 'b, 'w) proto_env \<Rightarrow> ('c, 'd, 'g, 'b, 'w) proto_env" where
  "guard_in t s = s\<lparr>flags := fst (flag_guard_enter (flags s) (pft_mask t))\<rparr>"

definition guard_out :: "flag_t \<Rightarrow> u32 \<Rightarrow> ('c, 'd, 'g, 'b, 'w) proto_env \<Rightarrow> ('c, 'd, 'g, 'b, 'w) proto_env" where
  "guard_out t f s = s\<lparr>flags := flag_guard_leave (snd (flag_guard_enter f (pft_mask t))) (flags s)\<rparr>"

lemma run_flag_guard:
  "run_state (flag_guard t m) s =
    (fst (run_state m (guard_in t s)), guard_out t (flags s) (snd (run_state m (guard_in t s))))"
  by (simp add: flag_guard_def guard_in_def guard_out_def case_prod_unfold)

lemma check_guard [simp]:
  "check_flag t' (guard_in t s) = (t' = t \<or> check_flag t' s)"
  "check_flag t' (guard_out t f s) = (check_flag t' s \<and> (t' = t \<longrightarrow> word_check f (pft_mask t)))"
  using pft.guard_leave [of f t "flags s" t']
  by (auto simp: check_flag_def guard_in_def guard_out_def pft.guard_enter pft.check_set
      simp del: pft_mask.simps)

lemma guard_frame [simp]:
  "read_buffers (guard_in t s) = read_buffers s" "read_head_buffer (guard_in t s) = read_head_buffer s"
  "read_head_len (guard_in t s) = read_head_len s" "trace (guard_in t s) = trace s"
  "faults (guard_in t s) = faults s" "write_header_offset (guard_in t s) = write_header_offset s"
  "crypt_ok (guard_in t s) = crypt_ok s"
  "read_buffers (guard_out t f s) = read_buffers s" "read_head_buffer (guard_out t f s) = read_head_buffer s"
  "read_head_len (guard_out t f s) = read_head_len s" "trace (guard_out t f s) = trace s"
  "faults (guard_out t f s) = faults s" "write_header_offset (guard_out t f s) = write_header_offset s"
  "crypt_ok (guard_out t f s) = crypt_ok s"
  by (simp_all add: guard_in_def guard_out_def crypt_ok_def)

lemma recv_guard [simp]:
  "recv_rel s (guard_in EN_PFT_IN_CALLBACK s)" "recv_rel s (guard_out EN_PFT_IN_CALLBACK f s)"
  by (rule recv_rel_same; simp add: view_def)+

lemma guard_out_in: "guard_out t (flags s) (guard_in t s) = s"
proof -
  have "flag_guard_leave (snd (flag_guard_enter (flags s) (pft_mask t))) (fst (flag_guard_enter (flags s) (pft_mask t))) = flags s"
    unfolding pft.guard_enter
    by (auto intro!: bit_word_eqI simp: flag_guard_leave_def word_set_def bit_and_iff bit_or_iff bit_not_iff
        pft.bit_mask pft.check_bit simp del: pft_mask.simps pft_pos.simps)
  then show ?thesis by (simp add: guard_in_def guard_out_def)
qed

definition read_blocks :: "('c, 'd, 'g, 'b, 'w) link \<Rightarrow> ('c, 'd, 'g, 'b, 'w) proto_env \<Rightarrow> bblock list" where
  "read_blocks K s = bm_blocks (lk_buf K) (read_buffers s)"

definition recv_ok :: "('c, 'd, 'g, 'b, 'w) link \<Rightarrow> ('c, 'd, 'g, 'b, 'w) proto_env \<Rightarrow> bool" where
  "recv_ok K s \<longleftrightarrow> length (read_head_buffer s) = SMALL_SIZE \<and>
     (read_blocks K s = [] \<and> read_head_len s \<le> 8 \<or>
      read_head_len s = 0 \<and> (\<exists>k rest. read_blocks K s = [k] \<and> partial_block rest k))"

text \<open>What remains of it after a message found no room: the rest of the head buffer is then kept as it is.\<close>

definition recv_room :: "('c, 'd, 'g, 'b, 'w) link \<Rightarrow> ('c, 'd, 'g, 'b, 'w) proto_env \<Rightarrow> bool" where
  "recv_room K s \<longleftrightarrow> length (read_head_buffer s) = SMALL_SIZE \<and>
     (read_blocks K s = [] \<and> read_head_len s < SMALL_SIZE \<or>
      read_head_len s = 0 \<and> (\<exists>k rest. read_blocks K s = [k] \<and> partial_block rest k))"

lemma recv_ok_room: "recv_ok K s \<Longrightarrow> recv_room K s"
  by (auto simp: recv_ok_def recv_room_def SMALL_SIZE_def)

lemma recv_room_side: "read_side s' = read_side s \<Longrightarrow> recv_room K s' = recv_room K s"
  by (simp add: read_side_def recv_room_def read_blocks_def)

definition pending :: "('c, 'd, 'g, 'b, 'w) link \<Rightarrow> ('c, 'd, 'g, 'b, 'w) proto_env \<Rightarrow> byte list" where
  "pending K s = (case read_blocks K s of
     [] \<Rightarrow> take (read_head_len s) (read_head_buffer s)
   | k # _ \<Rightarrow> take (blk_used k) (blk_mem k))"

lemma partial_block_pending: "partial_block rest k \<Longrightarrow> take (blk_used k) (blk_mem k) = rest"
  by (auto simp: partial_block_def)

lemma partial_block_left: "partial_block rest k \<Longrightarrow> blk_left k = blk_size k - length rest \<and> 0 < blk_left k"
  by (auto simp: partial_block_def blk_left_def)

lemma recv_ok_split:
  assumes "recv_ok K s"
  shows "split_frames (pending K s) = ([], pending K s)"
proof (cases "read_blocks K s")
  case Nil
  with assms show ?thesis by (auto simp: recv_ok_def pending_def intro!: split_short)
next
  case (Cons k ks)
  with assms obtain rest where "partial_block rest k" by (auto simp: recv_ok_def)
  with Cons show ?thesis
    using split_partial [of rest] by (simp add: pending_def partial_block_def)
qed

text \<open>The place alloc_recv_buffer hands out: none when closing, otherwise with room for one byte at least.\<close>

lemma alloc_spec:
  fixes K :: "('c, 'd, 'g, 'b, 'w) link"
  assumes "recv_room K s"
  shows "run_state (alloc_recv_buffer K) s =
    (if check_flag EN_PFT_CLOSING s then No_place
     else case read_blocks K s of
       [] \<Rightarrow> In_head (read_head_len s) (SMALL_SIZE - read_head_len s)
     | k # _ \<Rightarrow> In_block (blk_used k) (blk_left k), s)"
proof -
  have "SMALL_SIZE - read_head_len s \<noteq> 0" if "read_head_len s < SMALL_SIZE" using that by simp
  then show ?thesis
    using assms
    by (auto simp: alloc_recv_buffer_def run_flag_guard read_back_def recv_room_def read_blocks_def guard_out_in
        split: list.splits dest: partial_block_left)
qed

lemma read_front_idle:
  "(\<And>k ks. read_blocks K s = k # ks \<Longrightarrow> blk_left k \<noteq> 0) \<Longrightarrow> run_state (read_front K e) s = (e, s)"
  by (simp add: read_front_def read_blocks_def split: list.split)

lemma recv_rel_fields [simp]:
  fixes s :: "('c, 'd, 'g, 'b, 'w) proto_env"
  shows "recv_rel s (s\<lparr>read_buffers := b\<rparr>)" "recv_rel s (s\<lparr>read_head_buffer := hb\<rparr>)"
    "recv_rel s (s\<lparr>read_head_len := n\<rparr>)"
  by (rule recv_rel_same; simp add: view_def crypt_ok_def)+

lemma settle_frame [simp]:
  "read_buffers (keep_left start left s) = read_buffers s" "trace (keep_left start left s) = trace s"
  "read_head_len (keep_left start left s) = left"
  by (simp_all add: keep_left_def)

lemma settle_recv [simp]: "recv_rel s (keep_left start left s)"
  unfolding keep_left_def by (auto intro!: recv_rel_trans [OF recv_rel_fields(2) recv_rel_fields(3)])

lemma settle_head:
  assumes "start + left \<le> length (read_head_buffer s)"
  shows "take left (read_head_buffer (keep_left start left s)) = take left (drop start (read_head_buffer s))"
    and "length (read_head_buffer (keep_left start left s)) = length (read_head_buffer s)"
  using assms by (auto simp: keep_left_def)

lemma read_head_spec:
  fixes K :: "('c, 'd, 'g, 'b, 'w) link"
  assumes cb: "cb_rel core (lk_cb K)" and bm: "bufmgr_ok (lk_buf K)"
    and open_s: "\<not> check_flag EN_PFT_CLOSING s" and len: "length (read_head_buffer s) = SMALL_SIZE"
    and none: "read_blocks K s = []" and room: "read_head_len s + n \<le> SMALL_SIZE"
    and run: "run_state (proto_read K n) s = (err, s')"
    and data: "data = take (read_head_len s + n) (read_head_buffer s)"
  shows "recv_rel s s' \<and> (err \<noteq> ec EN_ECT_INVALID_SIZE \<longrightarrow> recv_ok K s' \<and>
    frames_of (trace s') = frames_of (trace s) @ fst (split_frames data) \<and>
    clean_frames (lk_hash K) data (trace s) (trace s') \<and>
    pending K s' = snd (split_frames data)) \<and> recv_room K s'"
proof -
  let ?s2 = "(guard_in EN_PFT_IN_CALLBACK s)\<lparr>read_head_len := read_head_len s + n\<rparr>"
  obtain e start left free s3 where
    loop: "run_state (read_loop K 0 (read_head_len s + n) (ec EN_ECT_SUCCESS)) ?s2 = ((e, start, left, free), s3)"
    by (metis prod.collapse)
  let ?s5 = "keep_left start left s3"
  note spec = read_loop_spec [OF cb bm loop, of data, simplified]
  have sp: "recv_rel ?s2 s3" "read_head_buffer s3 = read_head_buffer s" "start + left \<le> read_head_len s + n"
    "left \<le> 8 \<or> left + 8 \<le> read_head_len s + n"
    using spec room len data by auto
  have nf: "\<not> free \<Longrightarrow> frames_of (trace s3) = frames_of (trace s) @ fst (split_frames data) \<and>
      (read_buffers s3 = read_buffers s \<and> take left (drop start (read_head_buffer s)) = snd (split_frames data)
         \<and> left \<le> 8 \<or>
       left = 0 \<and> (\<exists>k. read_blocks K s3 = [k] \<and> partial_block (snd (split_frames data)) k))"
    and fr: "free \<Longrightarrow> read_blocks K s3 = []"
    using spec room len data none by (auto simp: read_blocks_def)
  have cl: "\<not> free \<Longrightarrow> clean_frames (lk_hash K) data (trace s) (trace s3)"
    using spec room len data by auto
  have s5: "recv_rel s ?s5"
    using recv_guard(1) recv_rel_fields(3) sp(1) settle_recv by (blast intro: recv_rel_trans)
  have idle: "run_state (read_front K e) ?s5 = (e, ?s5)"
    using nf fr none partial_block_left
    by (intro read_front_idle) (cases free; force simp: read_blocks_def)
  have head: "run_state (read_head K n) (guard_in EN_PFT_IN_CALLBACK s) = ((e, free), ?s5)"
  proof -
    have "n \<le> SMALL_SIZE - read_head_len s" using room by linarith
    with loop show ?thesis by (simp add: read_head_def)
  qed
  have drops: "run_state (read_drop K) ?s5 = (ec EN_ECT_INVALID_SIZE,
      if 0 < left then snd (run_state (dispatch_data K (take left (read_head_buffer ?s5)) (ec EN_ECT_INVALID_SIZE)) ?s5)
      else ?s5)"
    by (simp add: read_drop_def run_bind del: run_state_bind)
  have body: "run_state (proto_read K n) s =
     (if free then (ec EN_ECT_INVALID_SIZE, guard_out EN_PFT_IN_CALLBACK (flags s)
        (if 0 < left then snd (run_state (dispatch_data K (take left (read_head_buffer ?s5)) (ec EN_ECT_INVALID_SIZE)) ?s5)
         else ?s5))
      else (e, guard_out EN_PFT_IN_CALLBACK (flags s) ?s5))"
    using open_s none idle head drops
    by (simp add: proto_read_def run_flag_guard read_back_def read_blocks_def)
  show ?thesis
  proof (cases free)
    case True
    have "recv_rel s (snd (run_state (dispatch_data K b x) ?s5))" for b x
      using s5 dispatch_data_recv [OF cb refl] by (blast intro: recv_rel_trans)
    then have r6: "recv_rel s (if 0 < left
         then snd (run_state (dispatch_data K (take left (read_head_buffer ?s5)) (ec EN_ECT_INVALID_SIZE)) ?s5)
         else ?s5)" (is "recv_rel s ?s6")
      using s5 by (cases "0 < left") (simp_all only: if_True if_False)
    have s': "s' = guard_out EN_PFT_IN_CALLBACK (flags s) ?s6"
      using arg_cong [OF run, of snd] unfolding body if_P [OF True] snd_conv by (rule sym)
    have "recv_rel s s'" unfolding s' by (rule recv_rel_trans [OF r6 recv_guard(2)])
    moreover have "err = ec EN_ECT_INVALID_SIZE"
      using arg_cong [OF run, of fst] unfolding body if_P [OF True] fst_conv by (rule sym)
    moreover have "recv_room K s'"
    proof -
      have "read_side ?s6 = read_side ?s5"
        using dispatch_data_recv [OF cb refl, of ?s5 "take left (read_head_buffer ?s5)" "ec EN_ECT_INVALID_SIZE"]
        by (cases "0 < left") (simp_all only: if_True if_False)
      then have "read_side s' = read_side ?s5" unfolding s' by (simp add: read_side_def)
      moreover have "recv_room K ?s5"
        using settle_head [of start left s3] sp room len fr [OF True] by (auto simp: recv_room_def read_blocks_def SMALL_SIZE_def)
      ultimately show ?thesis using recv_room_side by blast
    qed
    ultimately show ?thesis by simp
  next
    case False
    then have s': "s' = guard_out EN_PFT_IN_CALLBACK (flags s) ?s5" using run body by simp
    have "recv_rel s s'" unfolding s' using s5 recv_guard(2) by (rule recv_rel_trans)
    moreover have hd: "take left (read_head_buffer s') = take left (drop start (read_head_buffer s))"
      "length (read_head_buffer s') = SMALL_SIZE" "read_head_len s' = left" "read_blocks K s' = read_blocks K s3"
      using settle_head [of start left s3] sp room len s' by (simp_all add: read_blocks_def)
    moreover have "frames_of (trace s') = frames_of (trace s) @ fst (split_frames data)"
      "clean_frames (lk_hash K) data (trace s) (trace s')"
      using nf cl False s' by simp_all
    moreover have "recv_ok K s' \<and> pending K s' = snd (split_frames data)"
      using nf [OF False]
    proof (elim conjE disjE)
      assume "read_buffers s3 = read_buffers s" "take left (drop start (read_head_buffer s)) = snd (split_frames data)"
        "left \<le> 8"
      then show ?thesis using hd none by (simp add: recv_ok_def pending_def read_blocks_def)
    next
      assume "left = 0" "\<exists>k. read_blocks K s3 = [k] \<and> partial_block (snd (split_frames data)) k"
      then show ?thesis using hd partial_block_pending by (auto simp: recv_ok_def pending_def)
    qed
    ultimately show ?thesis using recv_ok_room [of K s'] by simp
  qed
qed

lemma read_block_spec:
  fixes K :: "('c, 'd, 'g, 'b, 'w) link"
  assumes cb: "cb_rel core (lk_cb K)" and bm: "bufmgr_ok (lk_buf K)"
    and open_s: "\<not> check_flag EN_PFT_CLOSING s" and len: "length (read_head_buffer s) = SMALL_SIZE"
    and hl: "read_head_len s = 0" and one: "read_blocks K s = [k]" and left: "0 < blk_left k"
    and room: "blk_used k + n \<le> blk_size k" and data: "data = take (blk_used k + n) (blk_mem k)"
    and big: "8 < length data" "blk_size k = 8 + unat (le32_read (drop 4 data))"
    and run: "run_state (proto_read K n) s = (err, s')"
  shows "recv_rel s s' \<and> recv_ok K s' \<and>
    frames_of (trace s') = frames_of (trace s) @ fst (split_frames data) \<and>
    clean_frames (lk_hash K) data (trace s) (trace s') \<and>
    pending K s' = snd (split_frames data)"
proof -
  let ?B = "lk_buf K" and ?g = "guard_in EN_PFT_IN_CALLBACK s"
  let ?rb = "bm_pop_back ?B (read_buffers s) n False"
  let ?k = "k\<lparr>blk_used := blk_used k + n\<rparr>"
  let ?s2 = "?g\<lparr>read_buffers := ?rb\<rparr>"
  have ld: "length data = blk_used k + n" using room data by (simp add: blk_size_def)
  have pop: "bm_blocks ?B ?rb = [?k]"
    using bufmgr_pop_back [OF bm, of "read_buffers s" "[]" k n] one room by (simp add: read_blocks_def)
  have body: "run_state (proto_read K n) s =
      (fst (run_state (read_front K 0) ?s2), guard_out EN_PFT_IN_CALLBACK (flags s) (snd (run_state (read_front K 0) ?s2)))"
    using open_s one left
    by (simp add: proto_read_def run_flag_guard read_back_def read_blocks_def case_prod_unfold)
  have s2: "recv_rel s ?s2" by (rule recv_rel_trans [OF recv_guard(1) recv_rel_fields(1)])
  show ?thesis
  proof (cases "blk_used k + n = blk_size k")
    case True
    let ?e = "if lk_hash K (drop 8 data) \<noteq> le32_read data then ec EN_ECT_BAD_DATA else 0"
    let ?s3 = "snd (run_state (dispatch_data K (drop 8 data) ?e) ?s2)"
    have d: "recv_rel ?s2 ?s3 \<and> read_side ?s3 = read_side ?s2 \<and>
        frames_of (trace ?s3) = frames_of (trace ?s2) @ [drop 8 data] \<and>
        frame_log (trace ?s3) = frame_log (trace ?s2) @ [(drop 8 data, ?e)]"
      by (rule dispatch_data_recv [OF cb refl])
    let ?s4 = "?s3\<lparr>read_buffers := bm_pop_front ?B (read_buffers ?s3) 0 True\<rparr>"
    have front: "run_state (read_front K 0) ?s2 = (?e, ?s4)"
      using pop True data by (simp add: read_front_def blk_left_def blk_size_def Let_def run_bind del: run_state_bind)
    have s': "s' = guard_out EN_PFT_IN_CALLBACK (flags s) ?s4"
      using arg_cong [OF run, of snd] unfolding body front snd_conv by (rule sym)
    have rb: "read_buffers ?s3 = ?rb" "read_head_len ?s3 = 0" "length (read_head_buffer ?s3) = SMALL_SIZE"
      using d hl len by (auto simp: read_side_def)
    have "bm_blocks ?B (bm_pop_front ?B ?rb 0 True) = []"
      using bufmgr_pop_front [OF bm pop, of 0] True by (simp add: blk_size_def)
    then have blocks: "read_blocks K s' = []" using s' rb by (simp add: read_blocks_def)
    have n: "unat (le32_read (drop 4 data)) = length data - 8" using big ld True by linarith
    have split: "split_frames data = ([drop 8 data], [])"
      using split_whole [OF big(1) refl] big(1) unfolding n by (simp add: split_short)
    note s2
    also have "recv_rel ?s2 ?s3" using d by blast
    also have "recv_rel ?s3 ?s4" by (rule recv_rel_fields(1))
    also have "recv_rel ?s4 s'" unfolding s' by (rule recv_guard(2))
    finally have "recv_rel s s'" .
    moreover have "clean_frames (lk_hash K) data (trace s) (trace s')"
    proof -
      have "frame_log (trace s') = frame_log (trace s) @ [(drop 8 data, ?e)]" unfolding s' using d by simp
      moreover have "?e = 0" if "well_hashed (lk_hash K) data"
        using well_hashed_whole [OF big(1) refl, of "lk_hash K"] big(1) that unfolding n by simp
      ultimately show ?thesis using split by (simp only: clean_frames_def) simp
    qed
    ultimately show ?thesis using s' d split blocks rb by (simp add: recv_ok_def pending_def)
  next
    case False
    then have idle: "run_state (read_front K 0) ?s2 = (0, ?s2)"
      by (intro read_front_idle) (use pop False room in \<open>auto simp: read_blocks_def blk_left_def blk_size_def\<close>)
    have s': "s' = guard_out EN_PFT_IN_CALLBACK (flags s) ?s2"
      using arg_cong [OF run, of snd] unfolding body idle snd_conv by (rule sym)
    have blocks: "read_blocks K s' = [?k]" using pop s' by (simp add: read_blocks_def)
    have part: "partial_block data ?k"
    proof -
      have "take (length data) (blk_mem k) = data" unfolding ld by (rule data [symmetric])
      with False room big ld show ?thesis by (simp add: partial_block_def blk_size_def)
    qed
    have split: "split_frames data = ([], data)"
      by (rule split_partial) (use False room big ld in simp_all)
    have "recv_rel s s'" unfolding s' using s2 recv_guard(2) by (rule recv_rel_trans)
    then show ?thesis using s' split blocks part hl len partial_block_pending [OF part]
      by (auto simp: recv_ok_def pending_def clean_frames_def)
  qed
qed

lemma deliver_spec:
  fixes K :: "('c, 'd, 'g, 'b, 'w) link"
  assumes cb: "cb_rel core (lk_cb K)" and bm: "bufmgr_ok (lk_buf K)" and ok: "recv_ok K s"
    and run: "run_state (deliver K bytes) s = ((err, rest), s')"
  shows "recv_rel s s'"
    and "read_blocks K s \<noteq> [] \<Longrightarrow> recv_ok K s'"
    and "\<exists>taken. bytes = taken @ rest \<and> (check_flag EN_PFT_CLOSING s \<or> bytes = [] \<or> taken \<noteq> []) \<and>
      (err \<noteq> ec EN_ECT_INVALID_SIZE \<longrightarrow> recv_ok K s' \<and>
        frames_of (trace s') = frames_of (trace s) @ fst (split_frames (pending K s @ taken)) \<and>
        clean_frames (lk_hash K) (pending K s @ taken) (trace s) (trace s') \<and>
        pending K s' = snd (split_frames (pending K s @ taken)))"
proof -
  have goal: "recv_rel s s' \<and> (read_blocks K s \<noteq> [] \<longrightarrow> recv_ok K s') \<and> (\<exists>taken. bytes = taken @ rest \<and> (check_flag EN_PFT_CLOSING s \<or> bytes = [] \<or> taken \<noteq> []) \<and>
      (err \<noteq> ec EN_ECT_INVALID_SIZE \<longrightarrow> recv_ok K s' \<and>
        frames_of (trace s') = frames_of (trace s) @ fst (split_frames (pending K s @ taken)) \<and>
        clean_frames (lk_hash K) (pending K s @ taken) (trace s) (trace s') \<and>
        pending K s' = snd (split_frames (pending K s @ taken))))"
  proof (cases "check_flag EN_PFT_CLOSING s")
    case True
    with run alloc_spec [OF recv_ok_room [OF ok]] have "s' = s" "rest = bytes" by (auto simp: deliver_def)
    with True ok show ?thesis using recv_ok_split [OF ok] by (simp add: clean_frames_def)
  next
    case open_s: False
    have len: "length (read_head_buffer s) = SMALL_SIZE" using ok by (simp add: recv_ok_def)
    show ?thesis
    proof (cases "read_blocks K s")
      case Nil
      let ?hl = "read_head_len s"
      let ?xs = "take (SMALL_SIZE - ?hl) bytes"
      let ?s1 = "s\<lparr>read_head_buffer := overlay (read_head_buffer s) ?hl ?xs\<rparr>"
      have hl: "?hl \<le> 8" using ok Nil by (auto simp: recv_ok_def)
      have fit: "?hl + length ?xs \<le> SMALL_SIZE" using hl by (simp add: SMALL_SIZE_def)
      have read: "run_state (proto_read K (length ?xs)) ?s1 = (err, s')" and rest: "rest = drop (SMALL_SIZE - ?hl) bytes"
        using run alloc_spec [OF recv_ok_room [OF ok]] open_s Nil
        by (auto simp: deliver_def run_bind simp del: run_state_bind length_take intro: prod_eqI)
      have data: "pending K s @ ?xs = take (?hl + length ?xs) (read_head_buffer ?s1)"
        using take_overlay [of ?hl "read_head_buffer s" ?xs] len fit Nil by (simp add: pending_def)
      have "recv_rel ?s1 s' \<and> (err \<noteq> ec EN_ECT_INVALID_SIZE \<longrightarrow> recv_ok K s' \<and>
          frames_of (trace s') = frames_of (trace ?s1) @ fst (split_frames (pending K s @ ?xs)) \<and>
          clean_frames (lk_hash K) (pending K s @ ?xs) (trace ?s1) (trace s') \<and>
          pending K s' = snd (split_frames (pending K s @ ?xs))) \<and> recv_room K s'"
        by (rule read_head_spec [OF cb bm _ _ _ _ read])
          (use open_s len fit Nil data in \<open>simp_all add: read_blocks_def\<close>)
      moreover from this have "recv_rel s s'"
        by (intro recv_rel_trans [OF recv_rel_fields(2) [of s]]) blast
      moreover have "bytes = [] \<or> ?xs \<noteq> []" using hl by (auto simp: SMALL_SIZE_def)
      ultimately show ?thesis
        using rest Nil by (intro conjI exI [of _ ?xs]) auto
    next
      case (Cons k ks)
      then obtain part where part: "partial_block part k" "ks = []" "read_head_len s = 0"
        using ok by (auto simp: recv_ok_def)
      let ?xs = "take (blk_left k) bytes" and ?B = "lk_buf K"
      let ?rb = "bm_poke_back ?B (read_buffers s) (blk_used k) ?xs"
      let ?s1 = "s\<lparr>read_buffers := ?rb\<rparr>"
      let ?k = "k\<lparr>blk_mem := overlay (blk_mem k) (blk_used k) ?xs\<rparr>"
      have pl: "blk_used k = length part" "blk_size k = 8 + unat (le32_read (drop 4 part))" "8 < length part"
        "length part < blk_size k" "blk_left k = blk_size k - length part" "0 < blk_left k"
        using part(1) by (auto simp: partial_block_def blk_left_def)
      have fit: "blk_used k + length ?xs \<le> blk_size k" using pl by simp
      have poke: "read_blocks K ?s1 = [?k]"
        using bufmgr_poke_back [OF bm, of "read_buffers s" "[]" k "blk_used k" ?xs] Cons part(2) fit
        by (simp add: read_blocks_def)
      have k1: "blk_size ?k = blk_size k" "blk_left ?k = blk_left k" "blk_used ?k = blk_used k"
        using fit by (simp_all add: blk_size_def blk_left_def del: length_take)
      have read: "run_state (proto_read K (length ?xs)) ?s1 = (err, s')" and rest: "rest = drop (blk_left k) bytes"
        using run alloc_spec [OF recv_ok_room [OF ok]] open_s Cons
        by (auto simp: deliver_def run_bind simp del: run_state_bind length_take intro: prod_eqI)
      have pend: "pending K s = part" using Cons partial_block_pending [OF part(1)] by (simp add: pending_def)
      have data: "part @ ?xs = take (blk_used ?k + length ?xs) (blk_mem ?k)"
        using take_overlay [of "blk_used k" "blk_mem k" ?xs] fit part(1)
        by (simp add: partial_block_def blk_size_def)
      have big2: "blk_size ?k = 8 + unat (le32_read (drop 4 (part @ ?xs)))"
        using pl k1(1) le32_read_drop_append [of part ?xs] by (simp only: less_imp_le)
      have "recv_rel ?s1 s' \<and> recv_ok K s' \<and>
          frames_of (trace s') = frames_of (trace ?s1) @ fst (split_frames (part @ ?xs)) \<and>
          clean_frames (lk_hash K) (part @ ?xs) (trace ?s1) (trace s') \<and>
          pending K s' = snd (split_frames (part @ ?xs))"
        by (rule read_block_spec [OF cb bm _ _ _ poke _ _ data _ big2 read])
          (use open_s len part pl k1 fit in simp_all)
      moreover from this have "recv_rel s s'"
        by (intro recv_rel_trans [OF recv_rel_fields(1) [of s]]) blast
      ultimately show ?thesis
        using rest pl(6) pend by (intro conjI exI [of _ ?xs]) auto
    qed
  qed
  then show "recv_rel s s'"
    and "read_blocks K s \<noteq> [] \<Longrightarrow> recv_ok K s'"
    and "\<exists>taken. bytes = taken @ rest \<and> (check_flag EN_PFT_CLOSING s \<or> bytes = [] \<or> taken \<noteq> []) \<and>
      (err \<noteq> ec EN_ECT_INVALID_SIZE \<longrightarrow> recv_ok K s' \<and>
        frames_of (trace s') = frames_of (trace s) @ fst (split_frames (pending K s @ taken)) \<and>
        clean_frames (lk_hash K) (pending K s @ taken) (trace s) (trace s') \<and>
        pending K s' = snd (split_frames (pending K s @ taken)))"
    by blast+
qed

text \<open>Room is kept by every delivery, also by one that fails.\<close>

lemma deliver_room:
  fixes K :: "('c, 'd, 'g, 'b, 'w) link"
  assumes cb: "cb_rel core (lk_cb K)" and bm: "bufmgr_ok (lk_buf K)" and ok: "recv_room K s"
  shows "recv_room K (snd (run_state (deliver K bytes) s))"
proof (cases "check_flag EN_PFT_CLOSING s")
  case True
  then show ?thesis using ok alloc_spec [OF ok] by (simp add: deliver_def)
next
  case open_s: False
  have len: "length (read_head_buffer s) = SMALL_SIZE" using ok by (simp add: recv_room_def)
  show ?thesis
  proof (cases "read_blocks K s")
    case Nil
    let ?hl = "read_head_len s"
    let ?xs = "take (SMALL_SIZE - ?hl) bytes"
    let ?s1 = "s\<lparr>read_head_buffer := overlay (read_head_buffer s) ?hl ?xs\<rparr>"
    have hl: "?hl < SMALL_SIZE" using ok Nil by (auto simp: recv_room_def)
    then have fit: "?hl + length ?xs \<le> SMALL_SIZE" by simp
    obtain e s' where read: "run_state (proto_read K (length ?xs)) ?s1 = (e, s')" by fastforce
    have run: "snd (run_state (deliver K bytes) s) = s'"
      using read alloc_spec [OF ok] open_s Nil by (simp add: deliver_def run_bind del: run_state_bind length_take)
    have "recv_room K s'"
      using read_head_spec [OF cb bm _ _ _ _ read refl] open_s len fit Nil by (simp add: read_blocks_def)
    then show ?thesis by (simp only: run)
  next
    case (Cons k ks)
    then obtain part where part: "partial_block part k" "ks = []" "read_head_len s = 0"
      using ok by (auto simp: recv_room_def)
    then have "recv_ok K s" using ok Cons by (auto simp: recv_ok_def recv_room_def)
    moreover obtain e rest s' where run: "run_state (deliver K bytes) s = ((e, rest), s')" by (metis prod.collapse)
    ultimately show ?thesis using deliver_spec(2) [OF cb bm _ run] Cons recv_ok_room by simp
  qed
qed

section \<open>Many deliveries\<close>

primrec feed :: "('c, 'd, 'g, 'b, 'w) link \<Rightarrow> byte list list \<Rightarrow> ('c, 'd, 'g, 'b, 'w, (int \<times> byte list) list) pm" where
  "feed K [] = ret []"
| "feed K (c # cs) = do { r \<leftarrow> deliver K c; rs \<leftarrow> feed K cs; ret (r # rs) }"

text \<open>The bytes of a chunk that were accepted, given what was left over.\<close>

definition accepted :: "byte list \<Rightarrow> int \<times> byte list \<Rightarrow> byte list" where
  "accepted c r = take (length c - length (snd r)) c"

lemma feed_spec:
  fixes K :: "('c, 'd, 'g, 'b, 'w) link"
  assumes cb: "cb_rel core (lk_cb K)" and bm: "bufmgr_ok (lk_buf K)"
  shows "recv_ok K s \<Longrightarrow> run_state (feed K cs) s = (rs, s') \<Longrightarrow> ec EN_ECT_INVALID_SIZE \<notin> fst ` set rs \<Longrightarrow>
    length rs = length cs \<and> recv_rel s s' \<and> recv_ok K s' \<and>
    frames_of (trace s') = frames_of (trace s) @ fst (split_frames (pending K s @ concat (map2 accepted cs rs))) \<and>
    clean_frames (lk_hash K) (pending K s @ concat (map2 accepted cs rs)) (trace s) (trace s') \<and>
    pending K s' = snd (split_frames (pending K s @ concat (map2 accepted cs rs)))"
proof (induction cs arbitrary: s rs s')
  case Nil
  then show ?case by (simp add: recv_ok_split clean_frames_def)
next
  case (Cons c cs)
  obtain err rest s1 where d: "run_state (deliver K c) s = ((err, rest), s1)" by (metis prod.collapse)
  obtain rs1 s2 where f: "run_state (feed K cs) s1 = (rs1, s2)" by fastforce
  have rs: "rs = (err, rest) # rs1" "s' = s2" using Cons.prems(2) d f by auto
  obtain tk where tk: "c = tk @ rest" "recv_ok K s1"
    "frames_of (trace s1) = frames_of (trace s) @ fst (split_frames (pending K s @ tk))"
    "clean_frames (lk_hash K) (pending K s @ tk) (trace s) (trace s1)"
    "pending K s1 = snd (split_frames (pending K s @ tk))"
    using deliver_spec(3) [OF cb bm Cons.prems(1) d] Cons.prems(3) rs by auto
  have acc: "accepted c (err, rest) = tk" using tk by (simp add: accepted_def)
  let ?more = "concat (map2 accepted cs rs1)"
  have ih: "length rs1 = length cs \<and> recv_rel s1 s2 \<and> recv_ok K s2 \<and>
      frames_of (trace s2) = frames_of (trace s1) @ fst (split_frames (pending K s1 @ ?more)) \<and>
      clean_frames (lk_hash K) (pending K s1 @ ?more) (trace s1) (trace s2) \<and>
      pending K s2 = snd (split_frames (pending K s1 @ ?more))"
    using Cons.IH [OF tk(2) f] Cons.prems(3) rs by auto
  have "recv_rel s s1" by (rule deliver_spec(1) [OF cb bm Cons.prems(1) d])
  with ih have rr: "recv_rel s s2" by (blast intro: recv_rel_trans)
  have split: "split_frames (pending K s @ tk @ ?more) =
      (fst (split_frames (pending K s @ tk)) @ fst (split_frames (pending K s1 @ ?more)),
       snd (split_frames (pending K s1 @ ?more)))"
    using split_append [of "pending K s @ tk" ?more] tk by simp
  have "clean_frames (lk_hash K) (pending K s @ tk @ ?more) (trace s) (trace s2)"
    using ih tk(4,5) split well_hashed_append [of "lk_hash K" "pending K s @ tk" ?more] by (simp add: clean_frames_def)
  then show ?case
    using ih rr tk(3,5) rs by (simp add: acc split)
qed

section \<open>Unlimited queues\<close>

text \<open>With a queue that never refuses a block, read never reports EN_ECT_INVALID_SIZE.\<close>

definition roomy :: "'b bufops \<Rightarrow> bool" where
  "roomy B \<longleftrightarrow> (\<forall>b n. fst (bm_push_back B b n) = 0)"

definition plain_code :: "int \<Rightarrow> bool" where
  "plain_code e \<longleftrightarrow> e = 0 \<or> e = ec EN_ECT_BAD_DATA \<or> e = ec EN_ECT_CLOSING"

lemma read_loop_roomy:
  assumes "roomy (lk_buf K)"
  shows "run_state (read_loop K start left err) s = ((err', start', left', free), s') \<Longrightarrow> plain_code err \<Longrightarrow>
    \<not> free \<and> plain_code err'"
proof (induction left arbitrary: start err s rule: less_induct)
  case (less left)
  let ?buff = "drop start (read_head_buffer s)"
  let ?n = "unat (le32_read (drop 4 ?buff))"
  let ?e = "if lk_hash K (take ?n (drop 8 ?buff)) \<noteq> le32_read ?buff then ec EN_ECT_BAD_DATA else err"
  have e: "plain_code ?e" using less.prems(2) by (simp add: plain_code_def)
  consider "left \<le> 8" | "8 < left" "8 + ?n \<le> left" | "8 < left" "left < 8 + ?n" by linarith
  then show ?case
  proof cases
    case 1
    with less.prems show ?thesis by (simp add: read_loop.simps [of K start left])
  next
    case 2
    then have "run_state (read_loop K (start + (8 + ?n)) (left - (8 + ?n)) ?e)
        (snd (run_state (dispatch_data K (take ?n (drop 8 ?buff)) ?e) s)) = ((err', start', left', free), s')"
      using less.prems(1) by (simp add: read_loop.simps [of K start left] Let_def case_prod_unfold)
    with less.IH [OF _ this e] 2 show ?thesis by simp
  next
    case 3
    obtain rb where "bm_push_back (lk_buf K) (read_buffers s) (8 + ?n) = (0, rb)"
      using assms by (metis roomy_def prod.collapse)
    with 3 less.prems show ?thesis by (auto simp: read_loop.simps [of K start left] Let_def)
  qed
qed

lemma read_front_plain: "plain_code e \<Longrightarrow> plain_code (fst (run_state (read_front K e) s))"
  by (simp add: read_front_def plain_code_def Let_def run_bind del: run_state_bind split: list.split)

lemma proto_read_roomy:
  assumes "roomy (lk_buf K)"
  shows "plain_code (fst (run_state (proto_read K n) s))"
proof (cases "check_flag EN_PFT_CLOSING s")
  case True
  then show ?thesis by (simp add: proto_read_def plain_code_def)
next
  case open_s: False
  let ?g = "guard_in EN_PFT_IN_CALLBACK s"
  show ?thesis
  proof (cases "read_back K ?g")
    case None
    obtain e fr s1 where head: "run_state (read_head K n) ?g = ((e, fr), s1)" by (metis prod.collapse)
    have "\<not> fr \<and> plain_code e"
    proof -
      obtain e' st l fr' s3 where loop: "run_state (read_loop K 0 (read_head_len ?g + n) (ec EN_ECT_SUCCESS))
          (snd (run_state (when_do (\<not> n \<le> SMALL_SIZE - read_head_len ?g) (raise_fault (AssertFailed ''nread_s''))) ?g)
             \<lparr>read_head_len := read_head_len ?g + n\<rparr>) = ((e', st, l, fr'), s3)"
        by (metis prod.collapse)
      then show ?thesis
        using head read_loop_roomy [OF assms loop]
        by (auto simp: read_head_def run_bind plain_code_def simp del: run_state_bind run_when_do)
    qed
    then show ?thesis
      using open_s None head read_front_plain [of e K s1]
      by (simp add: proto_read_def run_flag_guard case_prod_unfold)
  next
    case (Some bb)
    then show ?thesis
      using open_s read_front_plain [of 0 K]
      by (simp add: proto_read_def run_flag_guard case_prod_unfold plain_code_def)
  qed
qed

lemma plain_not_invalid: "plain_code e \<Longrightarrow> e \<noteq> ec EN_ECT_INVALID_SIZE"
  by (auto simp: plain_code_def)

lemma deliver_roomy:
  assumes "roomy (lk_buf K)"
  shows "fst (fst (run_state (deliver K bytes) s)) \<noteq> ec EN_ECT_INVALID_SIZE"
  using proto_read_roomy [OF assms, THEN plain_not_invalid]
  by (simp add: deliver_def run_bind del: run_state_bind split: recv_place.split)

lemma deliver_rest:
  assumes "recv_ok K s" and "\<not> check_flag EN_PFT_CLOSING s" and "read_blocks K s = []"
  shows "snd (fst (run_state (deliver K bytes) s)) = drop (SMALL_SIZE - read_head_len s) bytes"
  using alloc_spec [OF recv_ok_room [OF assms(1)]] assms(2,3) by (simp add: deliver_def run_bind del: run_state_bind)
end
