(* ===== verification/ProtoSafety.thy ===== *)
theory ProtoSafety
  imports ProtoFraming
begin

text \<open>
  What the engine can rely on over the whole life of a protocol object: any sequence of its public
  calls, from the constructor on, refines the abstract machine of ProtoSpec, so the promises of
  that machine hold of the code's model.
\<close>

section \<open>The public calls\<close>

text \<open>
  All member functions that engines, clients and the C export call, and those that are public though only
  the object itself calls them. (get_info and the other const functions change nothing.)
\<close>

datatype ('c, 'd, 'g, 'b) proto_call =
    Call_deliver "byte list"
  | Call_write "byte list option"
  | Call_write_done int
  | Call_close int bool
  | Call_ping
  | Call_start_session string
  | Call_reconnect_session u64 string "byte list"
  | Call_handshake_update
  | Call_check_reconnect "('c, 'd, 'g, 'b) proto"
  | Call_recv_limit u64 u64
  | Call_send_limit u64 u64
  | Call_send_post cs_msg_type_t "byte list option"
  | Call_pong int
  | Call_kickoff int
  | Call_verify "byte list option"
  | Call_try_write
  | Call_write_msg cs_msg
  | Call_setup_handshake "'g global_conf option"
  | Call_close_handshake int
  | Call_dispatch_data "byte list" int
  | Call_dispatch_handshake cs_body_handshake

primrec run_call :: "('c, 'd, 'g, 'b, 'w) link \<Rightarrow> ('c, 'd, 'g, 'b) proto_call \<Rightarrow> ('c, 'd, 'g, 'b, 'w, unit) pm" where
  "run_call K (Call_deliver bytes) = do { _ \<leftarrow> deliver K bytes; ret () }"
| "run_call K (Call_write buf) = do { _ \<leftarrow> proto_write K buf; ret () }"
| "run_call K (Call_write_done status) = do { _ \<leftarrow> write_done K (lk_fuel K) status; ret () }"
| "run_call K (Call_close reason kick) = do { _ \<leftarrow> close_with K reason kick; ret () }"
| "run_call K Call_ping = do { _ \<leftarrow> send_ping K; ret () }"
| "run_call K (Call_start_session ty) = do { _ \<leftarrow> start_session K ty; ret () }"
| "run_call K (Call_reconnect_session sid ty secret) = do { _ \<leftarrow> reconnect_session K sid ty secret; ret () }"
| "run_call K Call_handshake_update = do { _ \<leftarrow> handshake_update K; ret () }"
| "run_call K (Call_check_reconnect other) = do { _ \<leftarrow> check_reconnect K other; ret () }"
| "run_call K (Call_recv_limit sz n) = set_recv_buffer_limit K sz n"
| "run_call K (Call_send_limit sz n) = set_send_buffer_limit K sz n"
| "run_call K (Call_send_post ty buf) = do { _ \<leftarrow> send_post K ty buf; ret () }"
| "run_call K (Call_pong tp) = do { _ \<leftarrow> send_pong K tp; ret () }"
| "run_call K (Call_kickoff reason) = do { _ \<leftarrow> send_kickoff K reason; ret () }"
| "run_call K (Call_verify buf) = do { _ \<leftarrow> send_verify K buf; ret () }"
| "run_call K Call_try_write = do { _ \<leftarrow> try_write K (lk_fuel K); ret () }"
| "run_call K (Call_write_msg msg) = do { _ \<leftarrow> write_msg K msg; ret () }"
| "run_call K (Call_setup_handshake conf) = do { _ \<leftarrow> setup_handshake K conf; ret () }"
| "run_call K (Call_close_handshake status) = close_handshake K status"
| "run_call K (Call_dispatch_data bytes errcode) = dispatch_data K bytes errcode"
| "run_call K (Call_dispatch_handshake body) = do { _ \<leftarrow> dispatch_handshake K body; ret () }"

primrec run_calls :: "('c, 'd, 'g, 'b, 'w) link \<Rightarrow> ('c, 'd, 'g, 'b) proto_call list \<Rightarrow> ('c, 'd, 'g, 'b, 'w, unit) pm" where
  "run_calls K [] = ret ()"
| "run_calls K (c # cs) = do { _ \<leftarrow> run_call K c; run_calls K cs }"

definition fresh :: "('c, 'd, 'g, 'b, 'w) proto_env \<Rightarrow> bool" where
  "fresh s \<longleftrightarrow> flags s = 0 \<and> trace s = [] \<and> faults s = [] \<and> crypt_ok s"

section \<open>Every call refines the abstract machine\<close>

lemmas recv_rules = io_rel_bind [OF recv_rel_pre] io_rel_return [OF recv_rel_pre] io_rel_gets [OF recv_rel_pre]
  io_rel_when [OF recv_rel_pre] io_rel_if io_rel_case_option io_rel_case_prod io_rel_let io_rel_case_list

lemma io_recv_core: "state_io_rel core m \<Longrightarrow> state_io_rel recv_rel m"
  by (simp add: state_io_rel_def core_recv)

lemma io_recv_dispatch: "cb_rel core (lk_cb K) \<Longrightarrow> state_io_rel recv_rel (dispatch_data K b e)"
  by (simp add: state_io_rel_def dispatch_data_recv)

lemma io_recv_guard: "state_io_rel recv_rel m \<Longrightarrow> state_io_rel recv_rel (flag_guard EN_PFT_IN_CALLBACK m)"
  unfolding state_io_rel_def run_flag_guard snd_conv
  by (blast intro: recv_rel_trans recv_guard)

lemma io_recv_fields:
  "state_io_rel recv_rel (modify (\<lambda>s :: ('c, 'd, 'g, 'b, 'w) proto_env. s\<lparr>read_buffers := f s\<rparr>))"
  "state_io_rel recv_rel (modify (\<lambda>s :: ('c, 'd, 'g, 'b, 'w) proto_env. s\<lparr>read_head_buffer := h s\<rparr>))"
  "state_io_rel recv_rel (modify (\<lambda>s :: ('c, 'd, 'g, 'b, 'w) proto_env. s\<lparr>read_head_len := n\<rparr>))"
  "state_io_rel recv_rel (modify (keep_left start left :: ('c, 'd, 'g, 'b, 'w) proto_env \<Rightarrow> _))"
  by (simp_all add: io_rel_modify)

lemma read_loop_recv: "cb_rel core (lk_cb K) \<Longrightarrow> state_io_rel recv_rel (read_loop K start left e)"
proof (induction left arbitrary: start e rule: less_induct)
  case (less left)
  show ?case
    by (subst read_loop.simps)
      (intro recv_rules io_recv_fields io_recv_dispatch less.prems less.IH; simp)
qed

lemma alloc_recv: "state_io_rel recv_rel (alloc_recv_buffer K)"
  unfolding alloc_recv_buffer_def by (intro io_recv_guard recv_rules io_recv_core io_core_fault)

lemma proto_read_recv: "cb_rel core (lk_cb K) \<Longrightarrow> state_io_rel recv_rel (proto_read K n)"
  unfolding proto_read_def read_head_def read_front_def read_drop_def
  by (intro io_recv_guard recv_rules io_recv_fields io_recv_dispatch read_loop_recv
      io_recv_core [OF io_core_fault])

lemma io_rel_case_place:
  "state_io_rel R a \<Longrightarrow> (\<And>x y. state_io_rel R (b x y)) \<Longrightarrow> (\<And>x y. state_io_rel R (c x y)) \<Longrightarrow>
   state_io_rel R (case_recv_place a b c p)"
  by (cases p) simp_all

lemma deliver_recv: "cb_rel core (lk_cb K) \<Longrightarrow> state_io_rel recv_rel (deliver K bytes)"
  unfolding deliver_def by (intro io_rel_case_place recv_rules alloc_recv proto_read_recv io_recv_fields)

lemma set_limit_recv:
  "state_io_rel recv_rel (set_recv_buffer_limit K m n)" "state_io_rel recv_rel (set_send_buffer_limit K m n)"
  unfolding set_recv_buffer_limit_def set_send_buffer_limit_def
  by (rule io_recv_fields)
    (auto intro!: io_rel_modify recv_rel_same simp: view_def check_flag_def crypt_ok_def)

lemma start_session_core [io_rel]: "cb_rel core (lk_cb K) \<Longrightarrow> state_io_rel core (start_session K ty)"
  unfolding start_session_def by (intro core_rules io_rel)

lemma reconnect_session_core [io_rel]:
  "cb_rel core (lk_cb K) \<Longrightarrow> state_io_rel core (reconnect_session K sid ty secret)"
  unfolding reconnect_session_def by (intro core_rules io_rel)

lemma run_call_recv: "cb_rel core (lk_cb K) \<Longrightarrow> state_io_rel recv_rel (run_call K c)"
  by (cases c; simp only: run_call.simps; (intro recv_rules deliver_recv set_limit_recv io_recv_dispatch)?)
    (assumption | intro io_recv_core io_rel)+

lemma run_calls_recv: "cb_rel core (lk_cb K) \<Longrightarrow> state_io_rel recv_rel (run_calls K cs)"
  by (induction cs) (auto simp del: run_call.simps intro!: recv_rules run_call_recv)

lemma run_calls_view:
  assumes "cb_rel core (lk_cb K)" and "s' = snd (run_state (run_calls K cs) s)"
  shows "astep\<^sup>*\<^sup>* (view s) (view s')"
proof -
  have "recv_rel s s'" unfolding assms(2) by (rule io_relD [OF run_calls_recv [OF assms(1)]])
  then show ?thesis by (simp add: recv_rel_def refines_def)
qed

lemma fresh_view_ok: "fresh s \<Longrightarrow> view_ok (view s)"
  by (simp add: fresh_def view_ok_def view_def check_flag_def)

lemma run_calls_ok:
  assumes "cb_rel core (lk_cb K)" and "fresh s" and "s' = snd (run_state (run_calls K cs) s)"
  shows "view_ok (view s')"
  using asteps_view_ok [OF run_calls_view [OF assms(1,3)] fresh_view_ok [OF assms(2)]] .

section \<open>Room for what is received\<close>

text \<open>Only read, dispatch_data and the limit of the receive buffers touch the receive side.\<close>

definition side_rel :: "('c, 'd, 'g, 'b, 'w) link \<Rightarrow> ('c, 'd, 'g, 'b, 'w) proto_env \<Rightarrow> ('c, 'd, 'g, 'b, 'w) proto_env \<Rightarrow> bool" where
  "side_rel K s s' \<longleftrightarrow> (recv_room K s \<longrightarrow> recv_room K s')"

lemma side_rel_pre: "rel_pre (side_rel K)"
  by (simp add: rel_pre_def side_rel_def)

lemmas side_rules = io_rel_bind [OF side_rel_pre] io_rel_return [OF side_rel_pre]

lemma core_side: "core s s' \<Longrightarrow> side_rel K s s'"
  using recv_room_side [of s' s] by (simp add: core_def side_rel_def)

lemma io_side_dispatch: "cb_rel core (lk_cb K) \<Longrightarrow> state_io_rel (side_rel K) (dispatch_data K b e)"
  using dispatch_data_recv [of K] recv_room_side by (metis state_io_rel_def side_rel_def)

lemma io_side_core: "state_io_rel core m \<Longrightarrow> state_io_rel (side_rel K) m"
  by (simp add: state_io_rel_def core_side)

lemma io_side_deliver:
  "cb_rel core (lk_cb K) \<Longrightarrow> bufmgr_ok (lk_buf K) \<Longrightarrow> state_io_rel (side_rel K) (deliver K bytes)"
  using deliver_room by (auto simp: state_io_rel_def side_rel_def)

lemma io_side_limit: "state_io_rel (side_rel K) (set_send_buffer_limit K sz n)"
proof -
  have "recv_room K (s\<lparr>write_buffers := b\<rparr>) = recv_room K s" for s b
    by (rule recv_room_side) (simp add: read_side_def)
  then show ?thesis by (simp add: set_send_buffer_limit_def io_rel_modify side_rel_def)
qed

lemma run_call_room:
  assumes cb: "cb_rel core (lk_cb K)" and bm: "bufmgr_ok (lk_buf K)" and c: "\<forall>sz n. c \<noteq> Call_recv_limit sz n"
  shows "state_io_rel (side_rel K) (run_call K c)"
proof (cases "\<exists>sz n. c = Call_recv_limit sz n")
  case False
  then show ?thesis
    by (cases c; simp only: run_call.simps; (intro side_rules io_side_deliver io_side_limit io_side_dispatch cb bm)?)
      (blast | intro io_side_core io_rel cb)+
qed (use c in blast)

lemma run_calls_room:
  assumes "cb_rel core (lk_cb K)" and "bufmgr_ok (lk_buf K)"
  shows "(\<And>sz n. Call_recv_limit sz n \<notin> set cs) \<Longrightarrow> state_io_rel (side_rel K) (run_calls K cs)"
proof (induction cs)
  case (Cons c cs)
  have "state_io_rel (side_rel K) (run_call K c)" by (rule run_call_room [OF assms]) (use Cons.prems in auto)
  then show ?case using Cons by (auto simp del: run_call.simps intro!: side_rules)
qed (simp add: side_rules)

end
