(* ===== verification/Examples.thy ===== *)
theory Examples
  imports ProtoSafety
begin

text \<open>
  One concrete instance of everything the protocol is linked with: a list of blocks as the buffer
  manager, a cipher that flips bits, a codec that reads every frame as a post message, and an
  engine that finishes each write at once. The witnesses of the properties evaluate on it; nothing
  else depends on it.
\<close>

section \<open>A buffer manager\<close>

definition ex_fresh :: "bblock list \<Rightarrow> nat" where
  "ex_fresh bs = Suc (sum_list (map blk_addr bs))"

definition ex_buf :: "bblock list bufops" where
  "ex_buf = \<lparr>bm_blocks = (\<lambda>bs. bs), bm_cost_number = length, bm_is_static = (\<lambda>_. False),
     bm_push_back = (\<lambda>bs n. (0, bs @ [\<lparr>blk_addr = ex_fresh bs, blk_used = 0, blk_mem = replicate n 0\<rparr>])),
     bm_push_front = (\<lambda>bs n. (0, \<lparr>blk_addr = ex_fresh bs, blk_used = 0, blk_mem = replicate n 0\<rparr> # bs)),
     bm_pop_back = (\<lambda>bs n fr. case rev bs of [] \<Rightarrow> [] | k # ks \<Rightarrow> rev ks @ [k\<lparr>blk_used := blk_used k + n\<rparr>]),
     bm_pop_front = (\<lambda>bs n fr. case bs of [] \<Rightarrow> [] | k # ks \<Rightarrow>
        if fr \<and> blk_used k + n = blk_size k then ks else k\<lparr>blk_used := blk_used k + n\<rparr> # ks),
     bm_poke_back = (\<lambda>bs off xs. case rev bs of [] \<Rightarrow> [] | k # ks \<Rightarrow>
        rev ks @ [k\<lparr>blk_mem := overlay (blk_mem k) off xs\<rparr>]),
     bm_poke_front = (\<lambda>bs off xs. case bs of [] \<Rightarrow> [] | k # ks \<Rightarrow>
        k\<lparr>blk_mem := overlay (blk_mem k) off xs\<rparr> # ks),
     bm_set_mode = (\<lambda>bs sz n. bs)\<rparr>"

lemma ex_fresh_less: "k \<in> set bs \<Longrightarrow> blk_addr k < ex_fresh bs"
  by (induction bs) (auto simp: ex_fresh_def)

lemma ex_buf_ok: "bufmgr_ok ex_buf"
proof -
  have "ex_fresh bs \<notin> blk_addr ` set bs" for bs
    using ex_fresh_less by fastforce
  then show ?thesis by (auto simp: bufmgr_ok_def ex_buf_def)
qed

section \<open>A crypto library, a codec, an engine\<close>

definition ex_crypto :: "(byte list, byte list, unit) crypto_lib" where
  "ex_crypto = \<lparr>cipher_new = [], cipher_init = (\<lambda>c t. (0, c)), cipher_close = (\<lambda>c. []),
     cipher_key_bits = (\<lambda>c. 16), cipher_iv_size = (\<lambda>c. 0),
     cipher_set_key = (\<lambda>c k n. (0, k)), cipher_set_iv = (\<lambda>c v. (0, c)), cipher_errno = (\<lambda>c. 0),
     cipher_encrypt = (\<lambda>c bs cap. (0, map (\<lambda>b. b XOR 85) bs, c)),
     cipher_decrypt = (\<lambda>c bs cap. (0, map (\<lambda>b. b XOR 85) bs, c)),
     cipher_names = [''xtea''],
     cipher_tok = (\<lambda>s. if s = [] then (None, None) else (Some 0, Some (length s))),
     dhs_create = (), dhs_init_method = (\<lambda>g m. g), dhs_init_file = (\<lambda>g f. g), dhs_reset = (\<lambda>g. g),
     dhs_random = (\<lambda>g d n. (0, replicate n (word_of_nat d))),
     dh_new = [], dh_init = (\<lambda>d g. d), dh_close = (\<lambda>d. d), dh_make_params = (\<lambda>d. (0, [1, 2], d)),
     dh_read_params = (\<lambda>d bs. (0, d)), dh_make_public = (\<lambda>d. (0, [3, 4], d)),
     dh_read_public = (\<lambda>d bs. (0, d)), dh_calc_secret = (\<lambda>d. (0, [5, 6], d))\<rparr>"

definition ex_fb :: fb_codec where
  "ex_fb = \<lparr>fb_pack = (\<lambda>m. case msg_body m of
        Body_post (Some p) \<Rightarrow> (case post_data p of None \<Rightarrow> [0] | Some bs \<Rightarrow> 1 # bs)
      | _ \<Rightarrow> [msg_body_type (msg_body m)]),
     fb_parse = (\<lambda>bs. if bs = [] then None else Some (Createcs_msg (Createcs_msg_head EN_MTT_POST 0)
        (Body_post (Some (Createcs_body_post (word_of_nat (length bs) - 1) (tl bs))))))\<rparr>"

type_synonym ex_env = "(byte list, byte list, unit, bblock list, unit) proto_env"

definition ex_callbacks :: "ex_env proto_callbacks" where
  "ex_callbacks = \<lparr>write_fn = Some (\<lambda>bs. ret (0, True)), message_fn = Some (\<lambda>bs n. ret 0),
     new_session_fn = Some (\<lambda>sid. ret (0, 7)), reconnect_fn = Some (\<lambda>sid. ret 0),
     close_fn = Some (\<lambda>r. ret 0), on_handshake_done_fn = Some (\<lambda>st. ret 0),
     on_handshake_update_fn = Some (\<lambda>st. ret 0), on_error_fn = Some (\<lambda>e m. ret 0)\<rparr>"

definition ex_link :: "(byte list, byte list, unit, bblock list, unit) link" where
  "ex_link = \<lparr>lk_crypto = ex_crypto, lk_buf = ex_buf, lk_fb = ex_fb,
     lk_hash = (\<lambda>bs. word_of_nat (length bs)), lk_hex = (\<lambda>bs. concat (map (\<lambda>b. [b, b]) bs)),
     lk_cb = Some ex_callbacks, lk_fuel = 4\<rparr>"

definition ex_state :: ex_env where
  "ex_state = proto.extend (proto_init ex_crypto [])
     \<lparr>g_current = None, g_seq = 0, g_draws = 0, g_now = 0, g_world = ()\<rparr>"

lemmas ex_defs = ex_link_def ex_callbacks_def ex_state_def proto_init_def proto.defs proto_env.defs
  ex_crypto_def ex_fb_def ex_buf_def

lemma ex_cb_core: "cb_rel core (lk_cb ex_link)"
  by (auto simp: cb_rel_def ex_link_def ex_callbacks_def intro!: io_rel_return [OF core_pre])

lemma ex_bufmgr: "bufmgr_ok (lk_buf ex_link)"
  by (simp add: ex_link_def ex_buf_ok)

lemma ex_fresh_state: "fresh ex_state"
  by (simp add: fresh_def ex_state_def proto_init_def proto.defs crypt_ok_def)

lemma ex_recv_ok: "recv_ok ex_link ex_state" and ex_pending: "pending ex_link ex_state = []"
  by (simp_all add: recv_ok_def pending_def read_blocks_def ex_link_def ex_buf_def ex_state_def
      proto_init_def proto.defs)

end
