(* ===== verification/ProtoProps.thy ===== *)
theory ProtoProps
  imports Examples
begin

text \<open>
  The properties of the inner protocol as a whole: the stream of frames, and the promises to the
  engine over any sequence of calls. Each is followed by a witness on the instance of Examples.
\<close>

text \<open>C1: Cutting the stream does not matter. For any sequence of chunks the engine delivers, as long
  as no delivery reports that a message found no room, the frames handed to dispatch_data are those
  of the reference splitter on the accepted bytes (after the bytes pending before), the pending
  bytes are its unfinished rest, and the invariant of the receive side holds again.\<close>

theorem stream_splits_into_frames:
  fixes K :: "('c, 'd, 'g, 'b, 'w) link"
  assumes "cb_rel core (lk_cb K)" and "bufmgr_ok (lk_buf K)" and "recv_ok K s"
    and "run_state (feed K cs) s = (rs, s')" and "ec EN_ECT_INVALID_SIZE \<notin> fst ` set rs"
  shows "recv_ok K s' \<and>
    frames_of (trace s') = frames_of (trace s) @ fst (split_frames (pending K s @ concat (map2 accepted cs rs))) \<and>
    pending K s' = snd (split_frames (pending K s @ concat (map2 accepted cs rs)))"
  using feed_spec [OF assms(1,2,3,4,5)] by blast

text \<open>C2: Framing round trip. The frames write_msg produces for a list of non-empty messages, delivered
  in any cutting with nothing left over, are dispatched as exactly those messages, in order, each with
  the code 0, that is, with its hash found right; and nothing stays pending.\<close>

theorem frames_round_trip:
  fixes K :: "('c, 'd, 'g, 'b, 'w) link"
  assumes "cb_rel core (lk_cb K)" and "bufmgr_ok (lk_buf K)" and "recv_ok K s" and "pending K s = []"
    and "run_state (feed K cs) s = (rs, s')" and "ec EN_ECT_INVALID_SIZE \<notin> fst ` set rs"
    and "concat (map2 accepted cs rs) = concat (map (frame (lk_hash K)) ms)"
    and "\<And>m. m \<in> set ms \<Longrightarrow> m \<noteq> [] \<and> length m < 2 ^ 32"
  shows "frame_log (trace s') = frame_log (trace s) @ map (\<lambda>m. (m, 0)) ms \<and> pending K s' = []"
proof -
  have "split_frames (concat (map (frame (lk_hash K)) ms)) = (ms, [])"
    using assms(8) by (rule split_frame_list)
  moreover have "well_hashed (lk_hash K) (concat (map (frame (lk_hash K)) ms))"
    using assms(8) by (rule well_hashed_frames)
  ultimately show ?thesis
    using feed_spec [OF assms(1,2,3,5,6)] assms(4,7) by (simp add: clean_frames_def)
qed

text \<open>C13: The engine always gets room. From an object with nothing received on, after any calls (but those that
  change the limit of the receive buffers), also when messages found no room or had a wrong hash,
  alloc_recv_buffer of an object that is not closing returns a place of at least one byte, inside the head
  buffer or inside the one block there is, and changes nothing: its assert(false) is never reached.\<close>

theorem alloc_gives_room:
  fixes K :: "('c, 'd, 'g, 'b, 'w) link"
  assumes "cb_rel core (lk_cb K)" and "bufmgr_ok (lk_buf K)"
    and "length (read_head_buffer s) = SMALL_SIZE" and "read_head_len s = 0" and "read_blocks K s = []"
    and "\<And>sz n. Call_recv_limit sz n \<notin> set cs" and "s' = snd (run_state (run_calls K cs) s)"
    and "\<not> check_flag EN_PFT_CLOSING s'"
  shows "snd (run_state (alloc_recv_buffer K) s') = s' \<and>
    (case fst (run_state (alloc_recv_buffer K) s') of
       No_place \<Rightarrow> False
     | In_head off room \<Rightarrow> 0 < room \<and> off + room = SMALL_SIZE \<and> off + room = length (read_head_buffer s')
     | In_block off room \<Rightarrow> 0 < room \<and> (\<exists>k. read_blocks K s' = [k] \<and> off + room = blk_size k))"
proof -
  have "recv_room K s" using assms(3-5) by (simp add: recv_room_def SMALL_SIZE_def)
  then have ok: "recv_room K s'"
    using io_relD [OF run_calls_room [OF assms(1,2,6)], of s] assms(7) by (simp add: side_rel_def)
  show ?thesis
    using alloc_spec [OF ok] assms(8) ok
    by (auto simp: recv_room_def partial_block_def blk_left_def split: list.splits)
qed

text \<open>C4: Refinement. Any sequence of calls of member functions moves the flags and the trace by steps of the
  abstract machine of ProtoSpec, which has what proto_base.h says of the order of writes, of closing, of the first
  handshake and of messages. It does not have what proto_base.h says of IN_CALLBACK, which the code
  does not keep (\<open>done_outside_callback\<close>).\<close>

theorem calls_refine_contract:
  fixes K :: "('c, 'd, 'g, 'b, 'w) link"
  assumes "cb_rel core (lk_cb K)"
  shows "astep\<^sup>*\<^sup>* (view s) (view (snd (run_state (run_calls K cs) s)))"
  using run_calls_view [OF assms refl] .

text \<open>Where the code departs from those comments: they say that IN_CALLBACK must be set when the handshake callback
  runs. The destructor of an object whose handshake was never done runs it outside of any callback, and so does
  close_handshake when it is not called from read.\<close>

theorem done_outside_callback:
  fixes K :: "('c, 'd, 'g, 'b, 'w) link"
  assumes "lk_cb K = Some t" and "on_handshake_done_fn t = Some f"
    and "\<not> check_flag EN_PFT_HANDSHAKE_DONE s" and "\<not> check_flag EN_PFT_IN_CALLBACK s"
  shows "\<exists>s1. \<not> check_flag EN_PFT_IN_CALLBACK s1 \<and>
      snd (run_state (proto_base_dtor (lk_cb K)) s) = snd (run_state (f (ec EN_ECT_HANDSHAKE)) s1)"
    and "\<exists>s1 st'. \<not> check_flag EN_PFT_IN_CALLBACK s1 \<and>
      snd (run_state (close_handshake K st) s) = snd (run_state (f st') s1)"
proof -
  have hd: "\<exists>s1. \<not> check_flag EN_PFT_IN_CALLBACK s1 \<and> snd (run_state (handshake_done (lk_cb K) x) z) = snd (run_state (f x) s1)"
    if "\<not> check_flag EN_PFT_HANDSHAKE_DONE z" "\<not> check_flag EN_PFT_IN_CALLBACK z" for x and z :: "('c, 'd, 'g, 'b, 'w) proto_env"
    using assms(1,2) that
    by (intro exI [of _ "log_event (EvHandshakeDone x) (set_flag EN_PFT_HANDSHAKE_UPDATE False (set_flag EN_PFT_HANDSHAKE_DONE True z))"])
      (simp add: handshake_done_def shake_callback_def case_prod_unfold)
  from hd show "\<exists>s1. \<not> check_flag EN_PFT_IN_CALLBACK s1 \<and>
      snd (run_state (proto_base_dtor (lk_cb K)) s) = snd (run_state (f (ec EN_ECT_HANDSHAKE)) s1)"
    using assms(3,4) by (simp add: proto_base_dtor_def case_prod_unfold)
  let ?u = "upd_hs_crypt (\<lambda>cs. cs\<lparr>cs_param := []\<rparr>) s"
  have flag: "check_flag x (?u\<lparr>shake_has_data := b, shake_dh_ctx := d\<rparr>) = check_flag x s" "check_flag x (?u\<lparr>shake_has_data := b\<rparr>) = check_flag x s"
    "check_flag x ?u = check_flag x s" for x b d
    by (simp_all add: upd_hs_crypt_def put_crypt_def check_flag_def)
  let ?sw = "shake_switch_secret_type ?u" and ?d = "dh_close (lk_crypto K) (shake_dh_ctx ?u)"
  consider "\<not> shake_has_data ?u" | "shake_has_data ?u" "?sw = sst EN_SST_DH \<or> ?sw = sst EN_SST_ECDH"
    | "shake_has_data ?u" "\<not> (?sw = sst EN_SST_DH \<or> ?sw = sst EN_SST_ECDH)" by blast
  then obtain z x where "snd (run_state (close_handshake K st) s) = snd (run_state (handshake_done (lk_cb K) x) z)"
    "check_flag EN_PFT_HANDSHAKE_DONE z = check_flag EN_PFT_HANDSHAKE_DONE s" "check_flag EN_PFT_IN_CALLBACK z = check_flag EN_PFT_IN_CALLBACK s"
  proof cases
    case 1
    then show ?thesis using that [of st ?u] flag by (simp add: close_handshake_def case_prod_unfold)
  next
    case 2
    then show ?thesis
      using that [of st "?u\<lparr>shake_has_data := False, shake_dh_ctx := ?d\<rparr>"] flag
      by (auto simp: close_handshake_def case_prod_unfold)
  next
    case 3
    then show ?thesis
      using that [of "if ?sw = sst EN_SST_DIRECT then st else ec EN_ECT_CRYPT_NOT_SUPPORTED" "?u\<lparr>shake_has_data := False\<rparr>"] flag
      by (auto simp: close_handshake_def case_prod_unfold)
  qed
  then show "\<exists>s1 st'. \<not> check_flag EN_PFT_IN_CALLBACK s1 \<and>
      snd (run_state (close_handshake K st) s) = snd (run_state (f st') s1)"
    using assms(3,4) hd [of z x] by metis
qed

text \<open>C9: The close callback runs at most once in the life of an object, and only when the object is
  CLOSED, which it is only when CLOSING.\<close>

theorem close_reported_once:
  fixes K :: "('c, 'd, 'g, 'b, 'w) link"
  assumes "cb_rel core (lk_cb K)" and "fresh s" and "s' = snd (run_state (run_calls K cs) s)"
  shows "length (closes (trace s')) \<le> 1 \<and> (closes (trace s') \<noteq> [] \<longrightarrow> check_flag EN_PFT_CLOSED s') \<and>
    (check_flag EN_PFT_CLOSED s' \<longrightarrow> check_flag EN_PFT_CLOSING s')"
  using run_calls_ok [OF assms] by (auto simp: view_ok_def view_def split: if_splits)

text \<open>C12: The callback of the first handshake runs at most once, and no message reaches the engine
  before a handshake is done.\<close>

theorem handshake_before_messages:
  fixes K :: "('c, 'd, 'g, 'b, 'w) link"
  assumes "cb_rel core (lk_cb K)" and "fresh s" and "s' = snd (run_state (run_calls K cs) s)"
  shows "length (shakes (trace s')) \<le> 1 \<and>
    (shakes (trace s') \<noteq> [] \<or> messages (trace s') \<noteq> [] \<longrightarrow> check_flag EN_PFT_HANDSHAKE_DONE s')"
  using run_calls_ok [OF assms] by (auto simp: view_ok_def view_def split: if_splits)

text \<open>C11: One write at a time. In the trace of a fresh object no write is handed to the engine before the
  one before it was reported finished, and the flag WRITING is set while one is out.\<close>

theorem writes_are_serial:
  fixes K :: "('c, 'd, 'g, 'b, 'w) link"
  assumes "cb_rel core (lk_cb K)" and "fresh s" and "s' = snd (run_state (run_calls K cs) s)"
  shows "serial_writes False (trace s') \<and>
    (open_write False (trace s') \<longrightarrow> check_flag EN_PFT_WRITING s')"
  using run_calls_ok [OF assms] by (auto simp: view_ok_def view_def)

text \<open>C10: Once closing, nothing more happens. From a state with CLOSING set, whatever is called, the flag
  stays, and neither a message nor a write is handed to the engine again; from a CLOSED one no close
  callback runs again.\<close>

theorem closing_is_final:
  fixes K :: "('c, 'd, 'g, 'b, 'w) link"
  assumes "cb_rel core (lk_cb K)" and "check_flag EN_PFT_CLOSING s"
    and "s' = snd (run_state (run_calls K cs) s)"
  shows "check_flag EN_PFT_CLOSING s' \<and> messages (trace s') = messages (trace s) \<and>
    writes (trace s') = writes (trace s) \<and>
    (check_flag EN_PFT_CLOSED s \<longrightarrow> check_flag EN_PFT_CLOSED s' \<and> closes (trace s') = closes (trace s))"
  using asteps_view_step [OF run_calls_view [OF assms(1,3)]] assms(2)
  by (auto simp: view_step_def view_def)

text \<open>The pointers to crypt sessions never dangle: a fresh object's calls keep the handshake, read and
  write pointers inside the heap of sessions.\<close>

theorem crypt_pointers_valid:
  fixes K :: "('c, 'd, 'g, 'b, 'w) link"
  assumes "cb_rel core (lk_cb K)" and "fresh s" and "s' = snd (run_state (run_calls K cs) s)"
  shows "crypt_ok s'"
proof -
  have "recv_rel s s'" unfolding assms(3) by (rule io_relD [OF run_calls_recv [OF assms(1)]])
  then show ?thesis using assms(2) by (simp add: recv_rel_def fresh_def)
qed

section \<open>Witnesses\<close>

definition ex_calls :: "(byte list, byte list, unit, bblock list) proto_call list" where
  "ex_calls = [Call_deliver (frame (\<lambda>bs. word_of_nat (length bs)) [9]), Call_close 5 True]"

lemma calls_refine_contract_witness:
  "astep\<^sup>*\<^sup>* (view ex_state) (view (snd (run_state (run_calls ex_link ex_calls) ex_state)))"
  by (rule calls_refine_contract [OF ex_cb_core])

lemma close_reported_once_witness:
  "length (closes (trace (snd (run_state (run_calls ex_link ex_calls) ex_state)))) \<le> 1"
  using close_reported_once [OF ex_cb_core ex_fresh_state refl] by blast

lemma handshake_before_messages_witness:
  "length (shakes (trace (snd (run_state (run_calls ex_link ex_calls) ex_state)))) \<le> 1"
  using handshake_before_messages [OF ex_cb_core ex_fresh_state refl] by blast

lemma writes_are_serial_witness:
  "serial_writes False (trace (snd (run_state (run_calls ex_link ex_calls) ex_state)))"
  using writes_are_serial [OF ex_cb_core ex_fresh_state refl] by blast

lemma crypt_pointers_valid_witness:
  "crypt_ok (snd (run_state (run_calls ex_link ex_calls) ex_state))"
  using crypt_pointers_valid [OF ex_cb_core ex_fresh_state refl] .

definition ex_closing :: ex_env where
  "ex_closing = set_flag EN_PFT_CLOSING True ex_state"

lemma closing_is_final_witness:
  "messages (trace (snd (run_state (run_calls ex_link ex_calls) ex_closing))) = messages (trace ex_closing)"
  using closing_is_final [OF ex_cb_core _ refl, of ex_closing ex_calls] by (simp add: ex_closing_def)

lemma alloc_gives_room_witness:
  "snd (run_state (alloc_recv_buffer ex_link) (snd (run_state (run_calls ex_link [Call_dispatch_data [] (-1)]) ex_state))) =
    snd (run_state (run_calls ex_link [Call_dispatch_data [] (-1)]) ex_state)"
proof -
  have "\<not> check_flag EN_PFT_CLOSING (snd (run_state (run_calls ex_link [Call_dispatch_data [] (-1)]) ex_state))"
    by (simp add: dispatch_data_def check_flag_def log_event_def ex_state_def proto_init_def proto.defs)
  moreover have "length (read_head_buffer ex_state) = SMALL_SIZE" "read_head_len ex_state = 0" "read_blocks ex_link ex_state = []"
    by (simp_all add: read_blocks_def ex_link_def ex_buf_def ex_state_def proto_init_def proto.defs)
  ultimately show ?thesis using alloc_gives_room [OF ex_cb_core ex_bufmgr _ _ _ _ refl, of ex_state "[Call_dispatch_data [] (-1)]"] by simp
qed

text \<open>The two stream properties on one chunk that holds one whole frame.\<close>

definition ex_msg :: "byte list" where
  "ex_msg = [9]"

definition ex_stream :: "byte list list" where
  "ex_stream = [frame (lk_hash ex_link) ex_msg]"

lemma ex_state_open: "\<not> check_flag EN_PFT_CLOSING ex_state"
  by (simp add: check_flag_def ex_state_def proto_init_def proto.defs)

lemma ex_roomy: "roomy (lk_buf ex_link)"
  by (simp add: roomy_def ex_link_def ex_buf_def)

lemma ex_feed: "\<exists>e s'. run_state (feed ex_link ex_stream) ex_state = ([(e, [])], s') \<and> e \<noteq> ec EN_ECT_INVALID_SIZE"
proof -
  let ?c = "frame (lk_hash ex_link) ex_msg"
  have blocks: "read_blocks ex_link ex_state = []" and hl: "read_head_len ex_state = 0"
    by (simp_all add: read_blocks_def ex_link_def ex_buf_def ex_state_def proto_init_def proto.defs)
  have "snd (fst (run_state (deliver ex_link ?c) ex_state)) = []"
    using deliver_rest [OF ex_recv_ok ex_state_open blocks, of ?c] hl by (simp add: SMALL_SIZE_def ex_msg_def)
  moreover have "fst (fst (run_state (deliver ex_link ?c) ex_state)) \<noteq> ec EN_ECT_INVALID_SIZE"
    by (rule deliver_roomy [OF ex_roomy])
  ultimately show ?thesis
    by (cases "run_state (deliver ex_link ?c) ex_state") (auto simp: ex_stream_def)
qed

lemma stream_splits_into_frames_witness:
  "\<exists>rs s'. run_state (feed ex_link ex_stream) ex_state = (rs, s') \<and> recv_ok ex_link s'"
proof -
  obtain e s' where run: "run_state (feed ex_link ex_stream) ex_state = ([(e, [])], s')"
    and e: "e \<noteq> ec EN_ECT_INVALID_SIZE" using ex_feed by blast
  then show ?thesis
    using stream_splits_into_frames [OF ex_cb_core ex_bufmgr ex_recv_ok run] by auto
qed

lemma frames_round_trip_witness:
  "\<exists>rs s'. run_state (feed ex_link ex_stream) ex_state = (rs, s') \<and> frame_log (trace s') = [(ex_msg, 0)]"
proof -
  obtain e s' where run: "run_state (feed ex_link ex_stream) ex_state = ([(e, [])], s')"
    and e: "e \<noteq> ec EN_ECT_INVALID_SIZE" using ex_feed by blast
  have "frame_log (trace s') = frame_log (trace ex_state) @ map (\<lambda>m. (m, 0)) [ex_msg] \<and> pending ex_link s' = []"
    by (rule frames_round_trip [OF ex_cb_core ex_bufmgr ex_recv_ok ex_pending run])
      (use e in \<open>simp_all add: ex_stream_def ex_msg_def accepted_def\<close>)
  with run show ?thesis by (simp add: ex_state_def proto_init_def proto.defs)
qed

end
