(* ===== verification/ProtoFunc.thy ===== *)
theory ProtoFunc
  imports ProtoProps
begin

text \<open>
  What single operations of the inner protocol compute: the scope guard and the header space, the
  sizes of secrets, the choice of a cipher, the reconnect check, and the branches where a message of
  the peer meets a missing check.
\<close>

section \<open>Words\<close>

lemma word_and_not_mask: "(x :: u64) AND NOT (mask n) = push_bit n (drop_bit n x)"
  by (rule bit_word_eqI) (auto simp: bit_simps)

text \<open>The scope guard. After a guarded piece of code the guarded flag is what it was before it
  started, unless the code itself cleared it, and every other flag is what the code left.\<close>

theorem flag_guard_restores:
  fixes s :: "('c, 'd, 'g, 'b, 'w) proto_env"
  shows "check_flag t' (snd (run_state (flag_guard t m) s)) =
    (if t' = t then check_flag t s \<and> check_flag t (snd (run_state m (guard_in t s)))
     else check_flag t' (snd (run_state m (guard_in t s)))) \<and> check_flag t (guard_in t s)"
  by (auto simp: run_flag_guard check_flag_def [of t s])

text \<open>The header space is the size asked for, rounded up to the next multiple of 8, as long as the
  64-bit sum does not wrap.\<close>

theorem header_offset_padded:
  assumes "unat sz + 7 < 2 ^ 64"
  shows "unat (write_header_offset (set_write_header_offset sz s)) = 8 * ((unat sz + 7) div 8)"
proof -
  have sum: "unat (sz + 7) = unat sz + 7"
    using assms by (simp add: unat_word_ariths)
  have "(sz + 8 - 1) AND NOT (8 - 1) = push_bit 3 (drop_bit 3 (sz + 7))"
  proof -
    have "(8 - 1 :: u64) = mask 3" by (simp add: mask_eq_exp_minus_1)
    moreover have "sz + 8 - 1 = sz + 7" by simp
    ultimately show ?thesis by (simp only: word_and_not_mask)
  qed
  then have "unat ((sz + 8 - 1) AND NOT (8 - 1)) = 8 * ((unat sz + 7) div 8)"
    using assms
    by (simp only: unsigned_push_bit_eq unsigned_drop_bit_eq sum)
      (simp add: push_bit_eq_mult drop_bit_eq_div take_bit_eq_mod)
  then show ?thesis unfolding set_write_header_offset_def by (cases "sz = 0") simp_all
qed

text \<open>A message sequence number is never 0, on 64 bits with wrap-around.\<close>

theorem alloc_seq_nonzero: "alloc_seq seq \<noteq> 0"
  by (simp add: alloc_seq_def Let_def)

section \<open>Secrets\<close>

text \<open>Installing a secret. Whatever vector comes in, swap_secret leaves a vector of exactly the key
  size, or of key and initialisation vector when the cipher has one and the vector was long enough
  for both; it keeps the bytes that came in and fills with zeros.\<close>

theorem swap_secret_sizes:
  assumes "unat (cipher_iv_size L c) + unat (cipher_key_bits L c div 8) < 2 ^ 32"
    and "swap_secret_core L c inp = (r, v, libres, c')"
  defines "ks \<equiv> unat (cipher_key_bits L c div 8)" and "iv \<equiv> unat (cipher_iv_size L c)"
  shows "length v = (if 0 < iv \<and> ks + iv \<le> max ks (length inp) then ks + iv else ks) \<and>
    v = vec_resize (length v) inp"
proof -
  have wrap: "unat (cipher_iv_size L c + cipher_key_bits L c div 8) = iv + ks"
    using assms(1) by (simp add: unat_word_ariths ks_def iv_def)
  have pos: "(0 < cipher_iv_size L c) = (0 < iv)"
    by (simp add: iv_def word_less_nat_alt)
  let ?in1 = "if length inp < ks then vec_resize ks inp else inp"
  have len1: "length ?in1 = max ks (length inp)" by simp
  have resize2: "vec_resize n (vec_resize m xs) = vec_resize n xs" if "length xs \<le> m" "m \<le> n \<or> n \<le> m" for n m xs
    using that by (auto simp: vec_resize_def min_def not_le replicate_add [symmetric])
  have v: "v = (if 0 < iv \<and> ks + iv \<le> max ks (length inp) then vec_resize (iv + ks) ?in1 else vec_resize ks ?in1)"
    using assms(2) wrap pos len1
    by (auto simp: swap_secret_core_def Let_def ks_def [symmetric] iv_def [symmetric] add.commute
        split: prod.splits if_splits)
  show ?thesis
    unfolding v using resize2 [of inp ks] by auto
qed

text \<open>Setting up a session for a cipher leaves a secret of exactly the cipher's key size in bytes.\<close>

theorem setup_secret_size:
  assumes "cs_setup L t cs = (0, cs')" and "t \<noteq> []"
  shows "length (cs_secret cs') = unat (cipher_key_bits L (cs_cipher cs')) div 8 \<and> cs_inited cs' \<and> cs_type cs' = t"
proof -
  obtain r c where init: "cipher_init L (cs_cipher cs) t = (r, c)" by fastforce
  have not: "\<not> cs_inited cs" "\<not> r < 0" using assms init by (auto simp: cs_setup_def split: if_splits)
  then have "cs' = (let kb = unat (cipher_key_bits L c);
       s1 = (if length (cs_secret cs) * 8 < kb then vec_resize (kb div 8) (cs_secret cs) else cs_secret cs);
       s2 = (if length s1 * 8 > kb then vec_resize (kb div 8) s1 else s1)
     in cs\<lparr>cs_cipher := c, cs_secret := s2, cs_type := t, cs_inited := True\<rparr>)"
    using assms init by (simp add: cs_setup_def Let_def)
  then show ?thesis by (auto simp: Let_def)
qed

text \<open>The cipher a server selects is one its configuration made available, or none.\<close>

theorem selected_type_available:
  assumes "global_conf_init L (global_conf_new L conf) = (0, g)"
  shows "select_crypt_type g toks = [] \<or>
    select_crypt_type g toks \<in> set (gc_available g) \<and> select_crypt_type g toks \<in> set (cipher_names L)"
proof -
  have fold: "set (fold List.insert xs ys) = set xs \<union> set ys" for xs ys :: "string list"
    by (induction xs arbitrary: ys) auto
  have avail: "set (gc_available g) \<subseteq> set (cipher_names L)"
    using assms
    by (auto simp: global_conf_init_def global_conf_new_def global_conf_close_def Let_def fold split: if_splits)
  show ?thesis
  proof (cases "List.find (\<lambda>t. fst (check_type g t)) toks")
    case None
    then show ?thesis by (simp add: select_crypt_type_def)
  next
    case (Some t)
    then have "fst (check_type g t)" by (simp add: find_Some_iff) blast
    with Some avail show ?thesis by (auto simp: select_crypt_type_def check_type_def Let_def split: if_splits)
  qed
qed

section \<open>Reconnecting\<close>

definition old_crypt :: "('c, 'd, 'g, 'b) proto \<Rightarrow> ('c, 'g) crypt_session" where
  "old_crypt other = crypt_at (case crypt_read other of Some i \<Rightarrow> i | None \<Rightarrow> crypt_handshake other) other"

lemma setup_handshake_frame:
  "session_id (snd (run_state (setup_handshake K conf) s)) = session_id s"
  "crypt_handshake (snd (run_state (setup_handshake K conf) s)) = crypt_handshake s"
  by (auto simp: setup_handshake_def upd_hs_crypt_def put_crypt_def set_flag_def Let_def split: option.splits)

lemma swap_secret_code: "swap_secret_core L c x = (r, v, l, c') \<Longrightarrow> r < 0 \<or> r = 0"
  by (auto simp: swap_secret_core_def Let_def split: if_splits prod.splits)

lemma hs_crypt_upd:
  "crypt_ok s \<Longrightarrow> hs_crypt (upd_hs_crypt f s) = f (hs_crypt s)"
  "crypt_ok s \<Longrightarrow> crypt_at (crypt_handshake s) (upd_hs_crypt f s) = f (hs_crypt s)"
  "crypt_ok (upd_hs_crypt f s) = crypt_ok s"
  "crypt_handshake (upd_hs_crypt f s) = crypt_handshake s"
  "hs_crypt s = crypt_at (crypt_handshake s) s"
  by (simp_all add: hs_crypt_def crypt_at_def upd_hs_crypt_def put_crypt_def crypt_ok_def)

lemma run_run_hs_crypt:
  "run_state (run_hs_crypt f) s = (fst (f (hs_crypt s)), upd_hs_crypt (\<lambda>cs. snd (f cs)) s)"
  by (simp add: run_hs_crypt_def)

lemma reconnect_proof_true:
  fixes K :: "('c, 'd, 'g, 'b, 'w) link"
  assumes run: "run_state (reconnect_proof K old body) s = (True, s')" and ok: "crypt_ok s"
  shows "(case hs_crypt_type body of None \<Rightarrow> [] | Some t \<Rightarrow> t) = cs_type old \<and>
    (cs_type old \<noteq> [] \<longrightarrow>
      (\<exists>c0 lr secret c c' res out peer. hs_crypt_param body = Some peer \<and>
        swap_secret_core (lk_crypto K) c0 (cs_secret old) = (0, secret, lr, c) \<and>
        cipher_decrypt (lk_crypto K) c peer tls_length = (res, out, c') \<and> 0 \<le> res \<and>
        length secret \<le> length out \<and> take (length secret) out = secret))"
proof -
  let ?t = "case hs_crypt_type body of None \<Rightarrow> [] | Some t \<Rightarrow> t"
  let ?peer = "case hs_crypt_param body of None \<Rightarrow> [] | Some bs \<Rightarrow> bs"
  let ?L = "lk_crypto K"
  have ty: "?t = cs_type old" using run by (auto simp: reconnect_proof_def Let_def split: if_splits)
  moreover have "\<exists>c0 lr secret c c' res out peer. hs_crypt_param body = Some peer \<and>
        swap_secret_core ?L c0 (cs_secret old) = (0, secret, lr, c) \<and>
        cipher_decrypt ?L c peer tls_length = (res, out, c') \<and> 0 \<le> res \<and>
        length secret \<le> length out \<and> take (length secret) out = secret" if ne: "cs_type old \<noteq> []"
  proof -
    obtain r cs1 where stp: "cs_setup ?L (cs_type old) (hs_crypt s) = (r, cs1)" by fastforce
    define s1 where "s1 = upd_hs_crypt (\<lambda>cs. snd (cs_setup ?L (cs_type old) cs)) s"
    have run1: "run_state (run_hs_crypt (cs_setup ?L (cs_type old))) s = (r, s1)"
      using stp by (simp add: run_run_hs_crypt s1_def)
    have h1: "hs_crypt s1 = cs1" "crypt_ok s1" "crypt_handshake s1 = crypt_handshake s"
      using ok stp by (simp_all add: s1_def hs_crypt_upd)
    have r: "\<not> r < 0" using run ty run1
      by (auto simp: reconnect_proof_def Let_def run_bind simp del: run_state_bind split: if_splits)
    have cs1: "cs_inited cs1" "cs_type cs1 = cs_type old" using stp r ne
      by (auto simp: cs_setup_def Let_def split: if_splits prod.splits)
    obtain r1 v lr c where core: "swap_secret_core ?L (cs_cipher cs1) (cs_secret old) = (r1, v, lr, c)"
      by (metis prod.collapse)
    define s2 where "s2 = snd (run_state (swap_hs_secret K (cs_secret old)) s1)"
    have run2: "run_state (swap_hs_secret K (cs_secret old)) s1 = ((r1, lr), s2)"
      using h1 core by (simp add: s2_def swap_hs_secret_def run_run_hs_crypt swap_secret_def)
    have r1: "\<not> r1 < 0" using run ty run1 run2 r ne
      by (auto simp: reconnect_proof_def Let_def run_bind simp del: run_state_bind split: if_splits)
    then have r10: "r1 = 0" using swap_secret_code [OF core] by simp
    have h2: "crypt_at (crypt_handshake s) s2 = cs1\<lparr>cs_cipher := c, cs_secret := v\<rparr>" "crypt_ok s2"
      "crypt_handshake s2 = crypt_handshake s"
      using h1 core r1 hs_crypt_upd(2) [OF h1(2)]
      by (simp_all add: s2_def swap_hs_secret_def run_run_hs_crypt hs_crypt_upd(3,4) swap_secret_def)
    obtain r2 out s3 where dec: "run_state (decrypt_data K (crypt_handshake s) (Some ?peer) None) s2 = ((r2, out), s3)"
      by (metis prod.collapse)
    have fin: "r2 = 0 \<and> (case out of None \<Rightarrow> False
        | Some bs \<Rightarrow> length (cs_secret (hs_crypt s3)) \<le> length bs \<and>
            take (length (cs_secret (hs_crypt s3))) bs = cs_secret (hs_crypt s3))"
      using run ty run1 run2 r r1 ne dec h2(3)
      by (cases out) (auto simp: reconnect_proof_def Let_def run_bind simp del: run_state_bind)
    obtain res bytes c' where ci: "cipher_decrypt ?L c ?peer tls_length = (res, bytes, c')"
      by (metis prod.collapse)
    have facts: "?peer \<noteq> [] \<and> \<not> res < 0 \<and> out = Some bytes \<and> cs_secret (hs_crypt s3) = v"
      using dec fin h2 cs1 ne ci
      by (auto simp: decrypt_data_def run_bind hs_crypt_def crypt_at_def put_crypt_def crypt_ok_def
          simp del: run_state_bind split: if_splits)
    then obtain peer where peer: "hs_crypt_param body = Some peer" by (auto split: option.splits)
    have "cipher_decrypt ?L c peer tls_length = (res, bytes, c')" using ci peer by simp
    moreover have "0 \<le> res" "length v \<le> length bytes" "take (length v) bytes = v" using facts fin by auto
    moreover have "swap_secret_core ?L (cs_cipher cs1) (cs_secret old) = (0, v, lr, c)" using core r10 by simp
    ultimately show ?thesis using peer by blast
  qed
  ultimately show ?thesis by blast
qed

lemma reconnect_proof_plain:
  assumes "cs_type old = []"
  shows "fst (run_state (reconnect_proof K old body) s) \<longleftrightarrow>
    (case hs_crypt_type body of None \<Rightarrow> [] | Some t \<Rightarrow> t) = [] \<and> \<not> cs_inited (hs_crypt s)"
  using assms by (auto simp: reconnect_proof_def Let_def run_run_hs_crypt cs_setup_def case_prod_unfold)

lemma run_check_reconnect:
  fixes K :: "('c, 'd, 'g, 'b, 'w) link"
  assumes "shake_ext_data s = Some body" and "\<not> check_flag EN_PFT_CLOSING s"
  shows "run_state (check_reconnect K other) s =
      (case run_state (reconnect_proof K (old_crypt other) body) s of (ok, s1) \<Rightarrow>
         (ok, if ok then use_hs_write (use_hs_read (snd (run_state (setup_handshake K (cs_shared_conf (old_crypt other)))
                (s1\<lparr>session_id := session_id other\<rparr>)))) else s1))"
  using assms by (simp add: check_reconnect_def old_crypt_def Let_def run_bind case_prod_unfold del: run_state_bind)

lemma check_reconnect_cases:
  assumes "fst (run_state (check_reconnect K other) s)"
  obtains body where "shake_ext_data s = Some body" and "\<not> check_flag EN_PFT_CLOSING s"
  using assms by (cases "shake_ext_data s") (auto simp: check_reconnect_def Let_def split: if_splits)

text \<open>C17: What a reconnect needs. When check_reconnect says yes, the object
  was answering a reconnect request whose cipher type is the old session's, and it takes over the old session id.
  If that type is not empty, the bytes of the request decrypt, under a cipher keyed with the old session's secret, to
  that secret (cut to the cipher's size). If it is empty, the old session was not encrypted and no secret is asked for:
  then every request without a cipher type is accepted, as long as the object is not closing and has no cipher yet, so
  that whoever knows the id takes the session over.\<close>

theorem reconnect_needs_secret:
  fixes K :: "('c, 'd, 'g, 'b, 'w) link"
  assumes "run_state (check_reconnect K other) s = (b, s')" and "crypt_ok s"
  shows "(b \<longrightarrow> (\<exists>body. shake_ext_data s = Some body \<and>
      (case hs_crypt_type body of None \<Rightarrow> [] | Some t \<Rightarrow> t) = cs_type (old_crypt other) \<and>
      session_id s' = session_id other \<and>
      (cs_type (old_crypt other) \<noteq> [] \<longrightarrow>
        (\<exists>c0 lr secret c c' res out peer. hs_crypt_param body = Some peer \<and>
          swap_secret_core (lk_crypto K) c0 (cs_secret (old_crypt other)) = (0, secret, lr, c) \<and>
          cipher_decrypt (lk_crypto K) c peer tls_length = (res, out, c') \<and> 0 \<le> res \<and>
          length secret \<le> length out \<and> take (length secret) out = secret)))) \<and>
    (cs_type (old_crypt other) = [] \<longrightarrow>
      (b \<longleftrightarrow> \<not> check_flag EN_PFT_CLOSING s \<and> \<not> cs_inited (hs_crypt s) \<and>
        (\<exists>body. shake_ext_data s = Some body \<and> (case hs_crypt_type body of None \<Rightarrow> [] | Some t \<Rightarrow> t) = [])))"
proof (intro conjI impI)
  let ?old = "old_crypt other"
  assume b: "b"
  then obtain body where body: "shake_ext_data s = Some body" "\<not> check_flag EN_PFT_CLOSING s"
    using check_reconnect_cases [of K other s] assms(1) by auto
  obtain s1 where proof1: "run_state (reconnect_proof K ?old body) s = (True, s1)"
    using assms(1) b run_check_reconnect [OF body, of K other] by (auto split: prod.splits)
  have "session_id s' = session_id other"
    using assms(1) run_check_reconnect [OF body, of K other] proof1
    by (auto simp: use_hs_read_def use_hs_write_def setup_handshake_frame)
  with body reconnect_proof_true [OF proof1 assms(2)]
  show "\<exists>body. shake_ext_data s = Some body \<and>
      (case hs_crypt_type body of None \<Rightarrow> [] | Some t \<Rightarrow> t) = cs_type ?old \<and> session_id s' = session_id other \<and>
      (cs_type ?old \<noteq> [] \<longrightarrow>
        (\<exists>c0 lr secret c c' res out peer. hs_crypt_param body = Some peer \<and>
          swap_secret_core (lk_crypto K) c0 (cs_secret ?old) = (0, secret, lr, c) \<and>
          cipher_decrypt (lk_crypto K) c peer tls_length = (res, out, c') \<and> 0 \<le> res \<and>
          length secret \<le> length out \<and> take (length secret) out = secret))"
    by blast
next
  assume plain: "cs_type (old_crypt other) = []"
  show "b \<longleftrightarrow> \<not> check_flag EN_PFT_CLOSING s \<and> \<not> cs_inited (hs_crypt s) \<and>
      (\<exists>body. shake_ext_data s = Some body \<and> (case hs_crypt_type body of None \<Rightarrow> [] | Some t \<Rightarrow> t) = [])"
  proof (cases "\<exists>body. shake_ext_data s = Some body \<and> \<not> check_flag EN_PFT_CLOSING s")
    case True
    then obtain body where body: "shake_ext_data s = Some body" "\<not> check_flag EN_PFT_CLOSING s" by blast
    have "b = fst (run_state (reconnect_proof K (old_crypt other) body) s)"
      using assms(1) run_check_reconnect [OF body, of K other] by (simp add: case_prod_unfold)
    then show ?thesis unfolding reconnect_proof_plain [OF plain] using body by (simp add: conj_commute)
  next
    case False
    have "\<not> b"
    proof
      assume "b"
      then have "fst (run_state (check_reconnect K other) s)" using assms(1) by simp
      from check_reconnect_cases [OF this] obtain body
        where "shake_ext_data s = Some body" "\<not> check_flag EN_PFT_CLOSING s" .
      then show False using False by blast
    qed
    then show ?thesis using False by blast
  qed
qed

section \<open>Branches where a check is missing\<close>

text \<open>The length a peer claims is not checked: when a post decodes, the engine's message callback is
  called with the decoded bytes and the peer's own length field, whatever its value.\<close>

theorem post_length_unchecked:
  fixes K :: "('c, 'd, 'g, 'b, 'w) link"
  assumes "lk_cb K = Some t" and "message_fn t = Some f"
    and "run_state (decode_post K (Some data)) s = ((0, Some out), s1)"
  shows "run_state (dispatch_post_body K \<lparr>post_length = n, post_data = Some data\<rparr>) s =
    ((), snd (run_state (f out n) (log_event (EvMessage out n) s1)))"
  using assms by (simp add: dispatch_post_body_def deref_def case_prod_unfold)

text \<open>A start request that names a cipher, met by a process without a crypt configuration, dereferences
  the NULL configuration.\<close>

theorem start_req_without_config:
  fixes K :: "('c, 'd, 'g, 'b, 'w) link"
  assumes "lk_cb K = Some t" and "write_fn t = Some wfn" and "new_session_fn t = Some nf"
    and "\<not> check_flag EN_PFT_CLOSING s" and "\<not> shake_has_data s" and "g_current s = None"
    and "hs_crypt_type body = Some ty" and "ty \<noteq> []" and "peer_tokens K ty \<noteq> []"
  shows "faults (snd (run_state (dispatch_handshake_start_req K body) s)) = faults s @ [NullDeref ''global_cfg'']"
  using assms
  by (simp add: dispatch_handshake_start_req_def has_write_fn_def setup_handshake_def raise_fault_def
      upd_hs_crypt_def put_crypt_def Let_def)

text \<open>A public-key request without a key parameter, during a running key exchange whose switch type it
  names, dereferences the absent vector.\<close>

theorem dh_request_without_key:
  fixes K :: "('c, 'd, 'g, 'b, 'w) link"
  assumes "shake_switch_secret_type s = uint (hs_switch_type peer)"
    and "cs_shared_conf (hs_crypt s) \<noteq> None" and "shake_has_data s" and "hs_crypt_param peer = None"
  shows "faults (snd (run_state (dispatch_handshake_dh_pubkey_req K peer st) s)) =
    faults s @ [NullDeref ''peer_body.crypt_param()'']"
  using assms
  by (auto simp: dispatch_handshake_dh_pubkey_req_def next_seq_def raise_fault_def hs_crypt_def crypt_at_def
      upd_hs_crypt_def put_crypt_def)

text \<open>A key that cannot be installed is not an error. When the peer's key is read and the secret is
  computed but swap_secret fails, the block that accepts the key answers 0, success, and leaves the
  read and write sessions as they were.\<close>

theorem dh_install_failure_ignored:
  fixes K :: "('c, 'd, 'g, 'b, 'w) link"
  assumes "crypt_ok s" and "on_error_fn (the (lk_cb K)) = None"
    and "dh_read_public (lk_crypto K) (shake_dh_ctx s) key = (0, d1)"
    and "dh_calc_secret (lk_crypto K) d1 = (0, secret, d2)"
    and "swap_secret_core (lk_crypto K) (cs_cipher (hs_crypt s)) secret = (r, v, lr, c)" and "r < 0"
  shows "fst (run_state (dh_accept_pubkey K key) s) = 0 \<and>
    crypt_read (snd (run_state (dh_accept_pubkey K key) s)) = crypt_read s \<and>
    crypt_write (snd (run_state (dh_accept_pubkey K key) s)) = crypt_write s"
proof -
  have oe: "run_state (on_error (lk_cb K) e m) x = ((), x)" for e m and x :: "('c, 'd, 'g, 'b, 'w) proto_env"
    using assms(2) by (cases "lk_cb K") (simp_all add: on_error_def)
  let ?s1 = "s\<lparr>shake_dh_ctx := d1\<rparr>"
  let ?s2 = "(upd_hs_crypt (\<lambda>cs. cs\<lparr>cs_secret := secret\<rparr>) ?s1)\<lparr>shake_dh_ctx := d2\<rparr>"
  have hs: "hs_crypt ?s2 = (hs_crypt s)\<lparr>cs_secret := secret\<rparr>"
    using assms(1) by (simp add: hs_crypt_def crypt_at_def upd_hs_crypt_def put_crypt_def crypt_ok_def)
  have swap: "run_state (swap_hs_secret_self K) ?s2 =
      ((r, lr), upd_hs_crypt (\<lambda>cs. snd (case swap_secret_self (lk_crypto K) cs of (r, l, cs') \<Rightarrow> ((r, l), cs'))) ?s2)"
    using assms(5) hs by (simp add: swap_hs_secret_self_def run_run_hs_crypt swap_secret_self_def)
  have "run_state (dh_accept_pubkey K key) s =
      (0, upd_hs_crypt (\<lambda>cs. snd (case swap_secret_self (lk_crypto K) cs of (r, l, cs') \<Rightarrow> ((r, l), cs'))) ?s2)"
    using assms(3,4,6) swap by (simp add: dh_accept_pubkey_def oe)
  then show ?thesis by (simp add: upd_hs_crypt_def put_crypt_def)
qed

section \<open>Witnesses\<close>

lemma header_offset_padded_witness:
  "unat (write_header_offset (set_write_header_offset 9 ex_state)) = 16"
  using header_offset_padded [of 9 ex_state] by simp

lemma swap_secret_sizes_witness:
  "length (fst (snd (swap_secret_core ex_crypto [] [1, 2, 3]))) = 2"
proof -
  obtain r v l c where run: "swap_secret_core ex_crypto [] [1, 2, 3] = (r, v, l, c)" by (metis prod.collapse)
  show ?thesis using swap_secret_sizes [OF _ run] run by (simp add: ex_crypto_def)
qed

lemma setup_secret_size_witness:
  "length (cs_secret (snd (cs_setup ex_crypto ''xtea'' (crypt_session_new ex_crypto)))) = 2"
proof -
  obtain cs' where run: "cs_setup ex_crypto ''xtea'' (crypt_session_new ex_crypto) = (0, cs')"
    by (simp add: cs_setup_def crypt_session_new_def ex_crypto_def Let_def)
  show ?thesis using setup_secret_size [OF run] run by (simp add: ex_crypto_def)
qed

definition ex_conf :: crypt_conf where
  "ex_conf = default_crypt_configure\<lparr>conf_type := ''xtea''\<rparr>"

lemma selected_type_available_witness:
  "select_crypt_type (snd (global_conf_init ex_crypto (global_conf_new ex_crypto ex_conf))) [''XTEA''] \<in> {[], ''xtea''}"
proof -
  obtain g where run: "global_conf_init ex_crypto (global_conf_new ex_crypto ex_conf) = (0, g)"
    by (simp add: global_conf_init_def global_conf_new_def global_conf_close_def ex_conf_def
        default_crypt_configure_def ex_crypto_def Let_def)
  show ?thesis using selected_type_available [OF run, of "[''XTEA'']"] run by (auto simp: ex_crypto_def)
qed

definition ex_old :: "(byte list, byte list, unit, bblock list) proto" where
  "ex_old = (proto_init ex_crypto [])\<lparr>session_id := 11,
     crypt_heap := [(crypt_session_new ex_crypto)\<lparr>cs_type := ''xtea'', cs_secret := [1, 2]\<rparr>]\<rparr>"

definition ex_reconn :: ex_env where
  "ex_reconn = ex_state\<lparr>shake_ext_data :=
     Some (Createcs_body_handshake 11 EN_HST_RECONNECT_REQ 0 ''xtea'' [84, 87])\<rparr>"

lemma ex_reconn_accepted: "fst (run_state (check_reconnect ex_link ex_old) ex_reconn)"
  by (simp add: check_reconnect_def reconnect_proof_def ex_reconn_def ex_old_def ex_defs Let_def
      check_flag_def Createcs_body_handshake_def run_hs_crypt_def hs_crypt_def crypt_at_def upd_hs_crypt_def
      put_crypt_def cs_setup_def crypt_session_new_def vec_resize_def swap_hs_secret_def swap_secret_def
      swap_secret_core_def decrypt_data_def split: prod.splits)

lemma reconnect_needs_secret_witness:
  "session_id (snd (run_state (check_reconnect ex_link ex_old) ex_reconn)) = 11"
proof -
  obtain s' where run: "run_state (check_reconnect ex_link ex_old) ex_reconn = (True, s')"
    using ex_reconn_accepted by (cases "run_state (check_reconnect ex_link ex_old) ex_reconn") auto
  show ?thesis using reconnect_needs_secret [OF run] run
    by (simp add: crypt_ok_def ex_reconn_def ex_old_def ex_defs)
qed

definition ex_open :: ex_env where
  "ex_open = ex_state\<lparr>crypt_read := Some 0,
     crypt_heap := [(crypt_session_new ex_crypto)\<lparr>cs_inited := True\<rparr>]\<rparr>"

lemma post_length_unchecked_witness:
  "trace (snd (run_state (dispatch_post_body ex_link \<lparr>post_length = 99, post_data = Some [7]\<rparr>) ex_open)) =
    [EvMessage [7] 99]"
  using post_length_unchecked [of ex_link ex_callbacks "\<lambda>bs n. ret 0" "[7]" ex_open "[7]" ex_open 99]
  by (simp add: ex_open_def decode_post_def decrypt_data_def ex_defs check_flag_def crypt_at_def
      crypt_session_new_def log_event_def)

lemma start_req_without_config_witness:
  "faults (snd (run_state (dispatch_handshake_start_req ex_link
      (Createcs_body_handshake 0 EN_HST_START_REQ 0 ''xtea'' [])) ex_state)) = [NullDeref ''global_cfg'']"
  using start_req_without_config [of ex_link ex_callbacks "\<lambda>bs. ret (0, True)" "\<lambda>sid. ret (0, 7)" ex_state
      "Createcs_body_handshake 0 EN_HST_START_REQ 0 ''xtea'' []" "''xtea''"]
  by (simp add: ex_defs check_flag_def Createcs_body_handshake_def peer_tokens_def)

definition ex_keyed :: ex_env where
  "ex_keyed = ex_state\<lparr>shake_has_data := True, crypt_heap := [(crypt_session_new ex_crypto)
     \<lparr>cs_shared_conf := Some (global_conf_new ex_crypto ex_conf)\<rparr>]\<rparr>"

lemma dh_request_without_key_witness:
  "faults (snd (run_state (dispatch_handshake_dh_pubkey_req ex_link
      ((Createcs_body_handshake 7 EN_HST_DH_PUBKEY_REQ 0 [] [])\<lparr>hs_crypt_param := None\<rparr>)
      EN_HST_DH_PUBKEY_RSP) ex_keyed)) = [NullDeref ''peer_body.crypt_param()'']"
  using dh_request_without_key [of ex_keyed
      "(Createcs_body_handshake 7 EN_HST_DH_PUBKEY_REQ 0 [] [])\<lparr>hs_crypt_param := None\<rparr>" ex_link]
  by (simp add: ex_keyed_def ex_defs Createcs_body_handshake_def hs_crypt_def crypt_at_def)

definition ex_bad_link :: "(byte list, byte list, unit, bblock list, unit) link" where
  "ex_bad_link = ex_link\<lparr>lk_crypto := ex_crypto\<lparr>cipher_set_key := \<lambda>c k n. (-1, c)\<rparr>,
     lk_cb := Some (ex_callbacks\<lparr>on_error_fn := None\<rparr>)\<rparr>"

lemma dh_install_failure_ignored_witness:
  "fst (run_state (dh_accept_pubkey ex_bad_link [8]) ex_state) = 0"
  using dh_install_failure_ignored [of ex_state ex_bad_link "[8]" "[]" "[5, 6]" "[]" "-1" "[5, 6]" 0 "[]"]
  by (simp add: ex_bad_link_def ex_defs crypt_ok_def swap_secret_core_def hs_crypt_def crypt_at_def
      crypt_session_new_def vec_resize_def)

end
