(* ===== verification/ProtoFlow.thy ===== *)
theory ProtoFlow
  imports ProtoFunc
begin

text \<open>
  What the sending half does with the write queue, and how a close that has to wait is finished:
  the frame an idle object hands to the engine, the merge of small blocks, the close reported by
  write_done; and the handshake that a lone verify message completes.
\<close>

section \<open>The merge\<close>

definition payloads :: "nat \<Rightarrow> bblock list \<Rightarrow> byte list" where
  "payloads off bs = concat (map (\<lambda>k. drop off (blk_mem k)) bs)"

definition unused :: "bblock list \<Rightarrow> bool" where
  "unused bs \<longleftrightarrow> (\<forall>k \<in> set bs. blk_used k = 0)"

lemma merge_loop_spec:
  assumes bm: "bufmgr_ok B"
  shows "merge_loop B off n avail p acc b = (acc', b') \<Longrightarrow> unused (bm_blocks B b) \<Longrightarrow>
    unused (bm_blocks B b') \<and> acc' @ payloads off (bm_blocks B b') = acc @ payloads off (bm_blocks B b) \<and>
    length acc' \<le> length acc + avail"
proof (induction n arbitrary: avail p acc b)
  case 0
  then show ?case by simp
next
  case (Suc n)
  show ?case
  proof (cases "bm_blocks B b")
    case Nil
    with Suc.prems show ?thesis by simp
  next
    case (Cons bb bs)
    have used: "blk_used bb = 0" "unused bs" using Suc.prems(2) Cons by (auto simp: unused_def)
    have pop: "bm_blocks B (bm_pop_front B b (blk_size bb) True) = bs"
      using bufmgr_pop_front [OF bm Cons, of "blk_size bb"] used by simp
    show ?thesis
    proof (cases "avail = 0 \<or> blk_size bb > avail \<or> (bm_is_static B b \<and> p \<noteq> None \<and> the p > blk_addr bb)")
      case True
      with Suc.prems Cons show ?thesis by (auto split: if_splits)
    next
      case False
      then have rec: "merge_loop B off n (avail - (blk_size bb - off)) (Some (blk_addr bb))
          (acc @ drop off (blk_mem bb)) (bm_pop_front B b (blk_size bb) True) = (acc', b')"
        using Suc.prems(1) Cons by (auto split: if_splits)
      from Suc.IH [OF rec] pop used False Cons show ?thesis
        by (auto simp: payloads_def blk_size_def)
    qed
  qed
qed

text \<open>Merging keeps the stream. If no assertion fails, try_merge leaves the queued payloads (what
  follows the header space of each block) the same byte sequence, and all blocks unused.\<close>

theorem merge_keeps_stream:
  fixes K :: "('c, 'd, 'g, 'b, 'w) link"
  assumes bm: "bufmgr_ok (lk_buf K)" and un: "unused (write_blocks K s)"
    and quiet: "faults (snd (run_state (try_merge K) s)) = faults s"
  shows "payloads (hdr_off s) (write_blocks K (snd (run_state (try_merge K) s))) =
      payloads (hdr_off s) (write_blocks K s) \<and>
    unused (write_blocks K (snd (run_state (try_merge K) s)))"
proof -
  let ?B = "lk_buf K" and ?b = "write_buffers s" and ?off = "hdr_off s"
  let ?go = "bm_cost_number ?B ?b > 1 \<and> bm_blocks ?B ?b \<noteq> [] \<and> blk_size (hd (bm_blocks ?B ?b)) \<le> SMALL_SIZE"
  show ?thesis
  proof (cases ?go)
    case False
    then have "snd (run_state (try_merge K) s) = s"
      by (simp add: try_merge_def Let_def) blast
    then show ?thesis using un by simp
  next
    case True
    obtain merged b1 where loop: "merge_loop ?B ?off (length (bm_blocks ?B ?b))
        (unat (word_of_nat tls_length - write_header_offset s :: u64)) None [] ?b = (merged, b1)" by fastforce
    obtain r b2 where push: "bm_push_front ?B b1 (?off + length merged) = (r, b2)" by fastforce
    have spec: "unused (bm_blocks ?B b1)" "merged @ payloads ?off (bm_blocks ?B b1) = payloads ?off (write_blocks K s)"
      using merge_loop_spec [OF bm loop] un by (auto simp: write_blocks_def)
    have r: "r = 0"
      using quiet True loop push
      by (auto simp: try_merge_def Let_def raise_fault_def run_bind simp del: run_state_bind split: if_splits)
    then obtain a m where m: "length m = ?off + length merged"
      "bm_blocks ?B b2 = \<lparr>blk_addr = a, blk_used = 0, blk_mem = m\<rparr> # bm_blocks ?B b1"
      using bufmgr_push_front [OF bm push] by auto
    have poke: "bm_blocks ?B (bm_poke_front ?B b2 ?off merged) =
        \<lparr>blk_addr = a, blk_used = 0, blk_mem = overlay m ?off merged\<rparr> # bm_blocks ?B b1"
      using bufmgr_poke_front [OF bm m(2), of ?off merged] m by (simp add: blk_size_def)
    have res: "write_blocks K (snd (run_state (try_merge K) s)) = bm_blocks ?B (bm_poke_front ?B b2 ?off merged)"
      using True loop push r
      by (simp add: try_merge_def Let_def run_bind write_blocks_def raise_fault_def del: run_state_bind)
    have "drop ?off (overlay m ?off merged) = merged" using m by (simp add: overlay_def)
    then show ?thesis using res poke spec by (simp add: payloads_def unused_def)
  qed
qed

section \<open>An idle object writes\<close>

text \<open>What the engine is given. When nothing is queued or being written, write_msg hands the engine one
  block: the header space, then exactly the frame of the encoded message; with the flag WRITING set.\<close>

theorem idle_write_hands_frame:
  fixes K :: "('c, 'd, 'g, 'b, 'w) link"
  assumes bm: "bufmgr_ok (lk_buf K)" and cb: "Option.bind (lk_cb K) write_fn = Some wfn" and fuel: "lk_fuel K = Suc n"
    and idle: "\<not> check_flag EN_PFT_WRITING s" "\<not> check_flag EN_PFT_CLOSING s" "write_blocks K s = []"
    and buf: "fb_pack (lk_fb K) msg = buf" "buf \<noteq> []" "length buf < 2 ^ 32 - 1"
    and room: "fst (bm_push_back (lk_buf K) (write_buffers s) (hdr_off s + 8 + length buf)) = 0"
  shows "\<exists>mem s1. length mem = hdr_off s + 8 + length buf \<and> drop (hdr_off s) mem = frame (lk_hash K) buf \<and>
    trace s1 = trace s @ [EvWrite mem] \<and> check_flag EN_PFT_WRITING s1 \<and>
    run_state (write_msg K msg) s =
      (case run_state (wfn mem) s1 of ((r, is_done), s2) \<Rightarrow>
         if is_done then run_state (write_done K n r) s2 else (r, s2))"
proof -
  let ?B = "lk_buf K" and ?b = "write_buffers s" and ?off = "hdr_off s"
  let ?fr = "frame (lk_hash K) buf"
  obtain b1 where push: "bm_push_back ?B ?b (?off + 8 + length buf) = (0, b1)"
    using room by (metis prod.collapse)
  obtain a m where m: "length m = ?off + 8 + length buf"
    "bm_blocks ?B b1 = [\<lparr>blk_addr = a, blk_used = 0, blk_mem = m\<rparr>]"
    using bufmgr_push_back [OF bm push] idle(3) by (auto simp: write_blocks_def)
  let ?b2 = "bm_poke_back ?B b1 ?off ?fr"
  let ?mem = "overlay m ?off ?fr"
  have blocks: "bm_blocks ?B ?b2 = [\<lparr>blk_addr = a, blk_used = 0, blk_mem = ?mem\<rparr>]"
    using bufmgr_poke_back [OF bm, of b1 "[]" _ ?off ?fr] m by (simp add: blk_size_def)
  have mem: "length ?mem = ?off + 8 + length buf" "drop ?off ?mem = ?fr"
    using m by (simp_all add: overlay_def)
  let ?s0 = "s\<lparr>write_buffers := ?b2\<rparr>"
  have merge: "run_state (try_merge K) ?s0 = ((), ?s0)"
    using bufmgr_cost [OF bm, of ?b2] blocks by (simp add: try_merge_def Let_def)
  let ?s1 = "(log_event (EvWrite ?mem) (set_flag EN_PFT_WRITING True ?s0))\<lparr>last_write_ptr := Some a\<rparr>"
  have "run_state (try_write K (Suc n)) ?s0 =
      (case run_state (wfn ?mem) ?s1 of ((r, is_done), s2) \<Rightarrow>
         if is_done then run_state (write_done K n r) s2 else (r, s2))"
    using cb idle blocks merge mem(1)
    by (simp add: write_blocks_def hdr_off_def blk_size_def case_prod_unfold)
  moreover have "run_state (write_msg K msg) s = run_state (try_write K (lk_fuel K)) ?s0"
    using buf push by (simp add: write_msg_def Let_def)
  moreover have "trace ?s1 = trace s @ [EvWrite ?mem]" "check_flag EN_PFT_WRITING ?s1" by simp_all
  ultimately have "length ?mem = hdr_off s + 8 + length buf \<and> drop (hdr_off s) ?mem = frame (lk_hash K) buf \<and>
    trace ?s1 = trace s @ [EvWrite ?mem] \<and> check_flag EN_PFT_WRITING ?s1 \<and>
    run_state (write_msg K msg) s =
      (case run_state (wfn ?mem) ?s1 of ((r, is_done), s2) \<Rightarrow>
         if is_done then run_state (write_done K n r) s2 else (r, s2))"
    using mem fuel by (simp only:)
  then show ?thesis by - (rule exI [where x = ?mem], rule exI [where x = ?s1], assumption)
qed

section \<open>A close that waits for a write\<close>

text \<open>A close during a write is reported by write_done. With a close pending, write_done ends the
  write, drops what is queued, sets CLOSED, and runs the close callback with the reason of the close.\<close>

theorem write_done_reports_close:
  fixes K :: "('c, 'd, 'g, 'b, 'w) link"
  assumes cb: "Option.bind (lk_cb K) write_fn = Some wfn" "Option.bind (lk_cb K) close_fn = Some f"
    and st: "check_flag EN_PFT_WRITING s" "check_flag EN_PFT_CLOSING s" "\<not> check_flag EN_PFT_CLOSED s"
  shows "\<exists>s1. trace s1 = trace s @ [EvWritten status, EvClose (close_reason s)] \<and> check_flag EN_PFT_CLOSED s1 \<and>
    run_state (write_done K (Suc (Suc n)) status) s =
      (fst (run_state (f (close_reason s)) s1),
       guard_out EN_PFT_IN_CALLBACK (flags s) (snd (run_state (f (close_reason s)) s1)))"
proof -
  let ?g = "guard_in EN_PFT_IN_CALLBACK s"
  obtain bad b' where pop: "pop_written (lk_buf K) (last_write_ptr ?g)
      (length (bm_blocks (lk_buf K) (write_buffers ?g))) False (write_buffers ?g) = (bad, b')" by fastforce
  define s1 where "s1 = log_event (EvWritten status) (set_flag EN_PFT_WRITING False
     ((snd (run_state (when_do bad (raise_fault (AssertFailed ''0 == nread''))) ?g))
        \<lparr>write_buffers := b', last_write_ptr := None\<rparr>))"
  have s1: "check_flag EN_PFT_CLOSING s1" "\<not> check_flag EN_PFT_CLOSED s1" "\<not> check_flag EN_PFT_WRITING s1"
    using st by (auto simp: s1_def raise_fault_def)
  have s1': "trace s1 = trace s @ [EvWritten status]" "close_reason s1 = close_reason s"
    by (auto simp: s1_def raise_fault_def guard_in_def set_flag_def log_event_def)
  define s2 where "s2 = (if write_blocks K s1 = [] then s1
     else s1\<lparr>write_buffers := drain (lk_buf K) (length (write_blocks K s1)) (write_buffers s1)\<rparr>)"
  define r where "r = (if write_blocks K s1 = [] then 0 else ec EN_ECT_CLOSING)"
  have tw: "run_state (try_write K (Suc n)) s1 = (r, s2)"
    using cb(1) s1 by (cases "write_blocks K s1 = []") (simp_all add: r_def s2_def)
  have s2: "trace s2 = trace s @ [EvWritten status]" "check_flag EN_PFT_CLOSING s2"
    "\<not> check_flag EN_PFT_CLOSED s2" "\<not> check_flag EN_PFT_WRITING s2" "close_reason s2 = close_reason s"
    using s1 s1' by (simp_all add: s2_def)
  let ?s3 = "log_event (EvClose (close_reason s)) (set_flag EN_PFT_CLOSED True s2)"
  have rep: "run_state (report_closed K r) s2 = run_state (f (close_reason s)) ?s3"
    using cb(2) s2 by (simp add: report_closed_def run_bind del: run_state_bind)
  have "run_state (write_done K (Suc (Suc n)) status) s =
      (fst (run_state (f (close_reason s)) ?s3), guard_out EN_PFT_IN_CALLBACK (flags s) (snd (run_state (f (close_reason s)) ?s3)))"
    using st(1) pop tw rep unfolding s1_def
    by (cases bad) (simp_all add: run_flag_guard run_bind del: run_state_bind try_write.simps)
  moreover have "trace ?s3 = trace s @ [EvWritten status, EvClose (close_reason s)]" "check_flag EN_PFT_CLOSED ?s3"
    using s2 by simp_all
  ultimately show ?thesis by (intro exI conjI)
qed

section \<open>The depth of the recursion\<close>

definition queue_ok :: "('c, 'd, 'g, 'b, 'w) link \<Rightarrow> ('c, 'd, 'g, 'b, 'w) proto_env \<Rightarrow> bool" where
  "queue_ok K s \<longleftrightarrow> (\<forall>k \<in> set (write_blocks K s). blk_used k = 0 \<and> hdr_off s < blk_size k)"

lemma pop_whole:
  assumes "bufmgr_ok B" and "bm_blocks B b = k # ks" and "blk_used k = 0"
  shows "bm_blocks B (bm_pop_front B b (blk_size k) True) = ks"
  using bufmgr_pop_front [OF assms(1,2), of "blk_size k"] assms(3) by simp

lemma merge_loop_shape:
  assumes bm: "bufmgr_ok B"
  shows "merge_loop B off n avail p acc b = (acc', b') \<Longrightarrow> unused (bm_blocks B b) \<Longrightarrow>
    \<exists>j. bm_blocks B b' = drop j (bm_blocks B b) \<and> acc' = acc @ payloads off (take j (bm_blocks B b))"
proof (induction n arbitrary: avail p acc b)
  case 0
  then show ?case by (auto simp: payloads_def intro: exI [of _ 0])
next
  case (Suc n)
  show ?case
  proof (cases "bm_blocks B b")
    case Nil
    with Suc.prems show ?thesis by (auto simp: payloads_def)
  next
    case (Cons bb bs)
    have used: "blk_used bb = 0" "unused bs" using Suc.prems(2) Cons by (auto simp: unused_def)
    have pop: "bm_blocks B (bm_pop_front B b (blk_size bb) True) = bs"
      using pop_whole [OF bm Cons used(1)] .
    show ?thesis
    proof (cases "avail = 0 \<or> blk_size bb > avail \<or> (bm_is_static B b \<and> p \<noteq> None \<and> the p > blk_addr bb)")
      case True
      with Suc.prems Cons show ?thesis
        by (auto split: if_splits simp: payloads_def intro: exI [of _ 0])
    next
      case False
      then have rec: "merge_loop B off n (avail - (blk_size bb - off)) (Some (blk_addr bb))
          (acc @ drop off (blk_mem bb)) (bm_pop_front B b (blk_size bb) True) = (acc', b')"
        using Suc.prems(1) Cons by (auto split: if_splits)
      obtain j where "bm_blocks B b' = drop j bs" "acc' = (acc @ drop off (blk_mem bb)) @ payloads off (take j bs)"
        using Suc.IH [OF rec] pop used by auto
      then show ?thesis using Cons by (intro exI [of _ "Suc j"]) (simp add: payloads_def)
    qed
  qed
qed

lemma merge_loop_first:
  assumes "bm_blocks B b = k # ks" and "0 < avail" and "blk_size k \<le> avail" and "bufmgr_ok B" and "unused (k # ks)"
    and "merge_loop B off (Suc n) avail None [] b = (acc', b')"
  shows "\<exists>j. bm_blocks B b' = drop (Suc j) (k # ks) \<and> acc' = payloads off (take (Suc j) (k # ks))"
proof -
  have pop: "bm_blocks B (bm_pop_front B b (blk_size k) True) = ks"
    using pop_whole [OF assms(4,1)] assms(5) by (simp add: unused_def)
  have rec: "merge_loop B off n (avail - (blk_size k - off)) (Some (blk_addr k))
      (drop off (blk_mem k)) (bm_pop_front B b (blk_size k) True) = (acc', b')"
    using assms(1,2,3,6) by (simp add: not_less)
  have "unused (bm_blocks B (bm_pop_front B b (blk_size k) True))" using assms(5) pop by (simp add: unused_def)
  from merge_loop_shape [OF assms(4) rec this] pop show ?thesis by (auto simp: payloads_def)
qed

lemma avail_space:
  "hdr_off s \<le> tls_length \<Longrightarrow>
    unat (word_of_nat tls_length - write_header_offset s :: u64) = tls_length - hdr_off s"
  by (subst unat_sub) (simp_all add: word_le_nat_alt hdr_off_def tls_length_def)

lemma try_merge_ok:
  fixes K :: "('c, 'd, 'g, 'b, 'w) link"
  assumes bm: "bufmgr_ok (lk_buf K)" and push_ok: "\<And>b n. fst (bm_push_front (lk_buf K) b n) = 0"
    and q: "queue_ok K s" and room: "hdr_off s + SMALL_SIZE \<le> tls_length"
  shows "\<exists>b2. run_state (try_merge K) s = ((), s\<lparr>write_buffers := b2\<rparr>) \<and>
    queue_ok K (s\<lparr>write_buffers := b2\<rparr>) \<and>
    length (bm_blocks (lk_buf K) b2) \<le> length (write_blocks K s) \<and>
    (write_blocks K s \<noteq> [] \<longrightarrow> bm_blocks (lk_buf K) b2 \<noteq> [])"
proof -
  let ?B = "lk_buf K" and ?b = "write_buffers s" and ?off = "hdr_off s"
  let ?go = "bm_cost_number ?B ?b > 1 \<and> bm_blocks ?B ?b \<noteq> [] \<and> blk_size (hd (bm_blocks ?B ?b)) \<le> SMALL_SIZE"
  show ?thesis
  proof (cases ?go)
    case False
    then have "run_state (try_merge K) s = ((), s)" by (simp add: try_merge_def Let_def) blast
    then show ?thesis using q by (intro exI [of _ ?b]) (simp add: write_blocks_def)
  next
    case True
    then obtain k ks where blocks: "bm_blocks ?B ?b = k # ks" by (cases "bm_blocks ?B ?b") auto
    have un: "unused (k # ks)" and sz: "?off < blk_size k"
      using q blocks by (auto simp: queue_ok_def write_blocks_def unused_def)
    let ?avail = "unat (word_of_nat tls_length - write_header_offset s :: u64)"
    have avail: "0 < ?avail" "blk_size k \<le> ?avail"
      using room True blocks avail_space [of s] by (auto simp: SMALL_SIZE_def)
    obtain merged b1 where loop: "merge_loop ?B ?off (Suc (length ks)) ?avail None [] ?b = (merged, b1)" by fastforce
    obtain j where j: "bm_blocks ?B b1 = drop (Suc j) (k # ks)" "merged = payloads ?off (take (Suc j) (k # ks))"
      using merge_loop_first [OF blocks avail bm un loop] by blast
    have ne: "merged \<noteq> []" using j(2) sz by (simp add: payloads_def blk_size_def)
    obtain b2 where push: "bm_push_front ?B b1 (?off + length merged) = (0, b2)"
      using push_ok [of b1 "?off + length merged"] by (metis prod.collapse)
    then obtain a m where m: "length m = ?off + length merged"
      "bm_blocks ?B b2 = \<lparr>blk_addr = a, blk_used = 0, blk_mem = m\<rparr> # bm_blocks ?B b1"
      using bufmgr_push_front [OF bm push] by auto
    let ?b3 = "bm_poke_front ?B b2 ?off merged"
    have poke: "bm_blocks ?B ?b3 = \<lparr>blk_addr = a, blk_used = 0, blk_mem = overlay m ?off merged\<rparr> # bm_blocks ?B b1"
      using bufmgr_poke_front [OF bm m(2), of ?off merged] m by (simp add: blk_size_def)
    have "run_state (try_merge K) s = ((), s\<lparr>write_buffers := ?b3\<rparr>)"
      using True loop push ne blocks by (simp add: try_merge_def Let_def)
    moreover have "queue_ok K (s\<lparr>write_buffers := ?b3\<rparr>)"
      using q poke j(1) m(1) ne blocks
      by (auto simp: queue_ok_def write_blocks_def hdr_off_def blk_size_def dest: in_set_dropD)
    ultimately show ?thesis using poke j(1) blocks by (intro exI [of _ ?b3]) (simp add: write_blocks_def)
  qed
qed

lemma pop_written_spec:
  assumes bm: "bufmgr_ok B"
  shows "unused (bm_blocks B b) \<Longrightarrow>
    \<exists>b' j. pop_written B p n bad b = (bad, b') \<and> bm_blocks B b' = drop j (bm_blocks B b) \<and>
      (0 < n \<longrightarrow> bm_blocks B b \<noteq> [] \<longrightarrow> 0 < j)"
proof (induction n arbitrary: b)
  case 0
  then show ?case by (auto intro: exI [of _ 0])
next
  case (Suc n)
  show ?case
  proof (cases "bm_blocks B b")
    case Nil
    then show ?thesis by simp
  next
    case (Cons k ks)
    have u: "blk_used k = 0" "unused ks" using Suc.prems Cons by (auto simp: unused_def)
    have pop: "bm_blocks B (bm_pop_front B b (blk_size k) True) = ks" using pop_whole [OF bm Cons u(1)] .
    obtain b' j where rec: "pop_written B p n bad (bm_pop_front B b (blk_size k) True) = (bad, b')"
      "bm_blocks B b' = drop j ks"
      using Suc.IH [of "bm_pop_front B b (blk_size k) True"] pop u by auto
    consider "blk_size k = 0" | "blk_size k \<noteq> 0" "p = Some (blk_addr k + blk_used k)"
      | "blk_size k \<noteq> 0" "p \<noteq> Some (blk_addr k + blk_used k)" by blast
    then show ?thesis
    proof cases
      case 3
      then show ?thesis using Cons u rec
        by (intro exI [of _ b'] exI [of _ "Suc j"]) (simp add: blk_left_def Let_def)
    qed (use Cons u pop in \<open>auto simp: blk_left_def Let_def intro!: exI [of _ "Suc 0"]\<close>)
  qed
qed

text \<open>When the block last handed out is the first one, exactly that block is released.\<close>

lemma pop_written_first:
  assumes bm: "bufmgr_ok B" and "bm_blocks B b = k # ks" and "blk_used k = 0" and "blk_size k \<noteq> 0"
  shows "\<exists>b'. pop_written B (Some (blk_addr k)) (Suc n) bad b = (bad, b') \<and> bm_blocks B b' = ks"
  using assms pop_whole [OF bm assms(2,3)] by (simp add: blk_left_def Let_def)

lemma payloads_Cons: "payloads off (k # ks) = drop off (blk_mem k) @ payloads off ks"
  by (simp add: payloads_def)

text \<open>An engine whose write callback finishes every write at once and leaves the object alone.\<close>

definition prompt_engine ::
  "(byte list \<Rightarrow> ('c, 'd, 'g, 'b, 'w, int \<times> bool) pm) \<Rightarrow> bool" where
  "prompt_engine wfn \<longleftrightarrow> (\<forall>bs s. \<exists>r w. run_state (wfn bs) s = ((r, True), s\<lparr>g_world := w\<rparr>))"

lemma queue_frame:
  assumes "write_blocks K s' = bs" "set bs \<subseteq> set (write_blocks K s)" "hdr_off s' = hdr_off s" "queue_ok K s"
  shows "queue_ok K s'"
  using assms by (auto simp: queue_ok_def)

lemma check_flag_world [simp]:
  fixes s :: "('c, 'd, 'g, 'b, 'w) proto_env"
  shows "check_flag t (s\<lparr>g_world := w\<rparr>) = check_flag t s"
  by (simp add: check_flag_def)

lemma guard_out_queue: "write_buffers (guard_out t f s) = write_buffers s"
  by (simp add: guard_out_def)

definition idle :: "('c, 'd, 'g, 'b, 'w) link \<Rightarrow> ('c, 'd, 'g, 'b, 'w) proto_env \<Rightarrow> bool" where
  "idle K s \<longleftrightarrow> queue_ok K s \<and> hdr_off s + SMALL_SIZE \<le> tls_length \<and>
     \<not> check_flag EN_PFT_WRITING s \<and> \<not> check_flag EN_PFT_CLOSING s"

lemma drain_all:
  fixes K :: "('c, 'd, 'g, 'b, 'w) link"
  assumes bm: "bufmgr_ok (lk_buf K)" and push_ok: "\<And>b n. fst (bm_push_front (lk_buf K) b n) = 0"
    and cb: "Option.bind (lk_cb K) write_fn = Some wfn" and eng: "prompt_engine wfn"
  shows "idle K s \<Longrightarrow> 2 * length (write_blocks K s) < n \<Longrightarrow> s' = snd (run_state (try_write K n) s) \<Longrightarrow>
    idle K s' \<and> write_blocks K s' = [] \<and> faults s' = faults s \<and>
    (\<exists>es. trace s' = trace s @ es \<and> concat (map (drop (hdr_off s)) (writes es)) = payloads (hdr_off s) (write_blocks K s))"
proof (induction n arbitrary: s s' rule: less_induct)
  case (less n)
  let ?B = "lk_buf K"
  have q: "queue_ok K s" "hdr_off s + SMALL_SIZE \<le> tls_length" "\<not> check_flag EN_PFT_WRITING s"
    "\<not> check_flag EN_PFT_CLOSING s" using less.prems(1) by (auto simp: idle_def)
  obtain m where n: "n = Suc m" using less.prems(2) by (cases n) auto
  show ?case
  proof (cases "write_blocks K s = []")
    case True
    then show ?thesis using less.prems n cb q by (simp add: payloads_def)
  next
    case False
    then obtain m' where m: "m = Suc m'" using less.prems(2) n by (cases m; cases "write_blocks K s") auto
    obtain b2 where mg: "run_state (try_merge K) s = ((), s\<lparr>write_buffers := b2\<rparr>)"
      "queue_ok K (s\<lparr>write_buffers := b2\<rparr>)"
      "length (bm_blocks ?B b2) \<le> length (write_blocks K s)" "bm_blocks ?B b2 \<noteq> []"
      using try_merge_ok [OF bm push_ok q(1,2)] False by blast
    let ?s0 = "s\<lparr>write_buffers := b2\<rparr>"
    obtain k ks where ks: "bm_blocks ?B b2 = k # ks" using mg(4) by (cases "bm_blocks ?B b2") auto
    have sz: "hdr_off s < blk_size k" and un: "unused (bm_blocks ?B b2)"
      using mg(2) ks by (auto simp: queue_ok_def write_blocks_def hdr_off_def unused_def)
    let ?s1 = "(log_event (EvWrite (blk_mem k)) (set_flag EN_PFT_WRITING True ?s0))\<lparr>last_write_ptr := Some (blk_addr k)\<rparr>"
    obtain r w where wf: "run_state (wfn (blk_mem k)) ?s1 = ((r, True), ?s1\<lparr>g_world := w\<rparr>)"
      using eng unfolding prompt_engine_def by meson
    let ?s2 = "?s1\<lparr>g_world := w\<rparr>"
    have step: "run_state (try_write K n) s = run_state (write_done K m r) ?s2"
      using n cb q(3,4) False mg(1) ks sz wf
      by (simp add: write_blocks_def hdr_off_def)
    obtain b3 where pop: "pop_written ?B (Some (blk_addr k)) (length (k # ks)) False b2 = (False, b3)"
      "bm_blocks ?B b3 = ks"
      using pop_written_first [OF bm ks, of "length ks" False] un ks sz by (auto simp: unused_def)
    have merged: "payloads (hdr_off s) (k # ks) = payloads (hdr_off s) (write_blocks K s)"
      using merge_keeps_stream [OF bm, of s] mg(1) q(1) ks
      by (simp add: queue_ok_def unused_def write_blocks_def)
    define s3 where "s3 = log_event (EvWritten r) (set_flag EN_PFT_WRITING False
      ((guard_in EN_PFT_IN_CALLBACK ?s2)\<lparr>write_buffers := b3, last_write_ptr := None\<rparr>))"
    have hdr: "hdr_off s3 = hdr_off s" "faults s3 = faults s" "write_blocks K s3 = ks"
      "trace s3 = trace s @ [EvWrite (blk_mem k), EvWritten r]"
      using pop(2) by (simp_all add: s3_def hdr_off_def write_blocks_def set_flag_def log_event_def guard_in_def)
    have "\<not> check_flag EN_PFT_WRITING s3" "\<not> check_flag EN_PFT_CLOSING s3"
      using q by (simp_all add: s3_def)
    moreover have "queue_ok K s3"
      by (rule queue_frame [OF hdr(3) _ _ mg(2)])
        (use ks hdr(1) in \<open>auto simp: write_blocks_def hdr_off_def\<close>)
    ultimately have idle3: "idle K s3" using hdr(1) q(2) by (simp add: idle_def)
    have len: "2 * length (write_blocks K s3) < m'"
      using hdr(3) mg(3) ks less.prems(2) n m by simp
    define s4 where "s4 = snd (run_state (try_write K m') s3)"
    obtain es where s4: "idle K s4" "write_blocks K s4 = []" "faults s4 = faults s3" "trace s4 = trace s3 @ es"
      "concat (map (drop (hdr_off s)) (writes es)) = payloads (hdr_off s) ks"
      using less.IH [OF _ idle3 len s4_def] n m hdr by auto
    have out: "concat (map (drop (hdr_off s)) (writes ([EvWrite (blk_mem k), EvWritten r] @ es))) =
        payloads (hdr_off s) (write_blocks K s)"
      using s4(5) merged writes_simps(3) [of "blk_mem k"] by (simp add: writes_def map_filter_simps payloads_Cons)
    have rep: "run_state (report_closed K x) s4 = (x, s4)" for x
      using s4(1) by (simp add: report_closed_def idle_def)
    have g: "last_write_ptr (guard_in EN_PFT_IN_CALLBACK ?s2) = Some (blk_addr k)"
      "write_buffers (guard_in EN_PFT_IN_CALLBACK ?s2) = b2"
      by (simp_all add: guard_in_def log_event_def set_flag_def)
    have "snd (run_state (write_done K m r) ?s2) = guard_out EN_PFT_IN_CALLBACK (flags ?s2) s4"
      using pop(1) m rep ks g
      by (simp add: run_flag_guard run_bind s3_def [symmetric] s4_def [symmetric]
          del: run_state_bind try_write.simps pop_written.simps)
    then have s': "s' = guard_out EN_PFT_IN_CALLBACK (flags ?s2) s4" using less.prems(3) step by simp
    show ?thesis
      unfolding s' using s4 hdr out
      by (simp add: idle_def queue_ok_def write_blocks_def hdr_off_def guard_out_queue)
  qed
qed

text \<open>C19: The queue drains. With an engine that finishes every write at once, an idle object's try_write
  hands over the whole queue: a depth of more than twice the number of queued blocks is enough for
  the recursion between try_write and write_done, no assertion fails, nothing stays queued, and what follows the
  header space of the blocks that were handed over is, in order, what followed it in the queue.\<close>

theorem queue_drains:
  fixes K :: "('c, 'd, 'g, 'b, 'w) link"
  assumes "bufmgr_ok (lk_buf K)" and "\<And>b n. fst (bm_push_front (lk_buf K) b n) = 0"
    and "Option.bind (lk_cb K) write_fn = Some wfn" and "prompt_engine wfn"
    and "idle K s" and "2 * length (write_blocks K s) < n" and "s' = snd (run_state (try_write K n) s)"
  shows "write_blocks K s' = [] \<and> faults s' = faults s \<and> \<not> check_flag EN_PFT_WRITING s' \<and>
    (\<exists>es. trace s' = trace s @ es \<and>
      concat (map (drop (hdr_off s)) (writes es)) = concat (map (\<lambda>k. drop (hdr_off s) (blk_mem k)) (write_blocks K s)))"
  using drain_all [OF assms] by (simp add: idle_def payloads_def)

section \<open>Witnesses\<close>

definition ex_block :: "nat \<Rightarrow> byte \<Rightarrow> bblock" where
  "ex_block a x = \<lparr>blk_addr = a, blk_used = 0, blk_mem = [x, x]\<rparr>"

definition ex_queued :: ex_env where
  "ex_queued = ex_state\<lparr>write_buffers := [ex_block 1 3, ex_block 2 4]\<rparr>"

lemma ex_queued_blocks: "write_blocks ex_link ex_queued = [ex_block 1 3, ex_block 2 4]"
  by (simp add: write_blocks_def ex_queued_def ex_link_def ex_buf_def)

lemma ex_queued_state: "hdr_off ex_queued = 0" "faults ex_queued = []"
  "\<not> check_flag EN_PFT_WRITING ex_queued" "\<not> check_flag EN_PFT_CLOSING ex_queued"
  by (simp_all add: ex_queued_def ex_state_def proto_init_def proto.defs hdr_off_def check_flag_def)

lemma ex_idle: "idle ex_link ex_queued"
  by (simp add: idle_def queue_ok_def ex_queued_blocks ex_queued_state ex_block_def blk_size_def
      tls_length_def SMALL_SIZE_def)

lemma ex_link_fields: "Option.bind (lk_cb ex_link) write_fn = Some (\<lambda>bs. ret (0, True))"
  "fst (bm_push_front (lk_buf ex_link) b n) = 0" "fst (bm_push_back (lk_buf ex_link) b n) = 0"
  "Option.bind (lk_cb ex_link) close_fn = Some (\<lambda>r. ret 0)" "lk_fuel ex_link = 4"
  by (simp_all add: ex_link_def ex_callbacks_def ex_buf_def)

lemma ex_prompt: "prompt_engine (\<lambda>bs. ret (0, True) :: (ex_env, int \<times> bool) state)"
proof -
  have "s = s\<lparr>g_world := g_world s\<rparr>" for s :: ex_env by simp
  then show ?thesis unfolding prompt_engine_def by (metis run_state_return)
qed

lemma queue_drains_witness:
  "write_blocks ex_link (snd (run_state (try_write ex_link 5) ex_queued)) = []"
  using queue_drains [OF ex_bufmgr ex_link_fields(2,1) ex_prompt ex_idle _ refl, of 5]
  by (simp add: ex_queued_blocks)

lemma merge_keeps_stream_witness:
  "payloads 0 (write_blocks ex_link (snd (run_state (try_merge ex_link) ex_queued))) = [3, 3, 4, 4]"
proof -
  obtain b2 where "run_state (try_merge ex_link) ex_queued = ((), ex_queued\<lparr>write_buffers := b2\<rparr>)"
    using try_merge_ok [OF ex_bufmgr ex_link_fields(2), of ex_queued] ex_idle by (auto simp: idle_def)
  then have "faults (snd (run_state (try_merge ex_link) ex_queued)) = faults ex_queued" by simp
  then show ?thesis
    using merge_keeps_stream [OF ex_bufmgr, of ex_queued]
    by (simp add: ex_queued_blocks ex_queued_state unused_def ex_block_def payloads_def)
qed

definition ex_ping :: cs_msg where
  "ex_ping = Createcs_msg (Createcs_msg_head EN_MTT_PING 1) (Body_ping (Some \<lparr>ping_timepoint = 0\<rparr>))"

lemma ex_ping_bytes: "fb_pack (lk_fb ex_link) ex_ping = [msg_body_type (msg_body ex_ping)]"
  by (simp add: ex_link_def ex_fb_def ex_ping_def Createcs_msg_def)

lemma idle_write_hands_frame_witness:
  "\<exists>s1. trace s1 = [EvWrite (frame (lk_hash ex_link) (fb_pack (lk_fb ex_link) ex_ping))] \<and>
     run_state (write_msg ex_link ex_ping) ex_state = run_state (write_done ex_link 3 0) s1"
proof -
  have e: "hdr_off ex_state = 0" "trace ex_state = []" "\<not> check_flag EN_PFT_WRITING ex_state"
    "\<not> check_flag EN_PFT_CLOSING ex_state" "write_blocks ex_link ex_state = []"
    by (simp_all add: ex_defs hdr_off_def check_flag_def write_blocks_def)
  have fuel: "lk_fuel ex_link = Suc 3" by (simp add: ex_link_fields)
  show ?thesis
    using idle_write_hands_frame [OF ex_bufmgr ex_link_fields(1) fuel e(3,4,5), of ex_ping]
    by (auto simp: ex_ping_bytes ex_link_fields e)
qed

definition ex_pending_close :: ex_env where
  "ex_pending_close = (set_flag EN_PFT_CLOSING True (set_flag EN_PFT_WRITING True ex_state))
     \<lparr>close_reason := 5\<rparr>"

lemma write_done_reports_close_witness:
  "fst (run_state (write_done ex_link 2 0) ex_pending_close) = 0"
proof -
  have "check_flag EN_PFT_WRITING ex_pending_close" "check_flag EN_PFT_CLOSING ex_pending_close"
    "\<not> check_flag EN_PFT_CLOSED ex_pending_close"
    by (simp_all add: ex_pending_close_def) (simp add: check_flag_def ex_defs)
  from write_done_reports_close [OF ex_link_fields(1,4) this, of 0 0] show ?thesis
    by (auto simp: numeral_2_eq_2)
qed

section \<open>A lone verify message\<close>

text \<open>C20: A peer can end the handshake with its first message. On an object that has not seen any
  handshake message, a verify message with the direct switch type passes every check: the handshake
  is done, and the engine's callback for a successful first handshake runs.\<close>

theorem verify_alone_completes:
  fixes K :: "('c, 'd, 'g, 'b, 'w) link"
  assumes "Option.bind (lk_cb K) on_handshake_done_fn = Some f" and "crypt_ok s"
    and "\<not> check_flag EN_PFT_CLOSING s" and "\<not> check_flag EN_PFT_HANDSHAKE_DONE s"
    and "shake_switch_secret_type s = sst EN_SST_DIRECT" and "cs_param (hs_crypt s) = []"
    and "hs_step body = hst EN_HST_VERIFY" and "uint (hs_switch_type body) = sst EN_SST_DIRECT"
  shows "\<exists>s1. trace s1 = trace s @ [EvHandshakeDone 0] \<and> check_flag EN_PFT_HANDSHAKE_DONE s1 \<and>
    run_state (dispatch_handshake K body) s = (0, snd (run_state (f 0) s1))"
proof -
  let ?s0 = "upd_hs_crypt (\<lambda>cs. cs\<lparr>cs_param := []\<rparr>) (use_hs_read s)"
  let ?s1 = "if shake_has_data s then ?s0\<lparr>shake_has_data := False\<rparr> else ?s0"
  let ?s2 = "log_event (EvHandshakeDone 0) (set_flag EN_PFT_HANDSHAKE_UPDATE False (set_flag EN_PFT_HANDSHAKE_DONE True ?s1))"
  have dn: "\<not> check_flag EN_PFT_HANDSHAKE_DONE ?s1" "trace ?s1 = trace s"
    using assms(4) by (simp_all add: upd_hs_crypt_def put_crypt_def use_hs_read_def)
  have shake: "run_state (handshake_done (lk_cb K) 0) ?s1 = (0, snd (run_state (f 0) ?s2))"
    using dn assms(1) by (simp add: handshake_done_def shake_callback_def case_prod_unfold)
  have cl: "run_state (close_handshake K 0) (use_hs_read s) = ((), snd (run_state (f 0) ?s2))"
    using shake assms(5)
    by (cases "shake_has_data s")
      (simp_all add: close_handshake_def upd_hs_crypt_def put_crypt_def use_hs_read_def run_bind del: run_state_bind)
  have par: "cs_param (crypt_at (crypt_handshake s) (use_hs_read s)) = []"
    using assms(6) by (simp add: hs_crypt_def crypt_at_def use_hs_read_def)
  have ver: "run_state (dispatch_handshake_verify_ntf K body) s = (0, snd (run_state (f 0) ?s2))"
    using assms(5,8) par cl
    by (cases "hs_crypt_param body")
      (simp_all add: dispatch_handshake_verify_ntf_def use_hs_read_def run_bind del: run_state_bind)
  have "run_state (dispatch_handshake K body) s = (0, snd (run_state (f 0) ?s2))"
    using assms(3,4,7) ver by (simp add: dispatch_handshake_def dispatch_step_def run_bind del: run_state_bind)
  moreover have "trace ?s2 = trace s @ [EvHandshakeDone 0]" "check_flag EN_PFT_HANDSHAKE_DONE ?s2"
    using dn by simp_all
  ultimately show ?thesis by (intro exI conjI)
qed

lemma verify_alone_completes_witness:
  "trace (snd (run_state (dispatch_handshake ex_link
     (Createcs_body_handshake 0 EN_HST_VERIFY (sst EN_SST_DIRECT) [] [])) ex_state)) = [EvHandshakeDone 0]"
proof -
  have "crypt_ok ex_state" "\<not> check_flag EN_PFT_CLOSING ex_state" "\<not> check_flag EN_PFT_HANDSHAKE_DONE ex_state"
    "shake_switch_secret_type ex_state = sst EN_SST_DIRECT" "cs_param (hs_crypt ex_state) = []"
    "trace ex_state = []"
    by (simp_all add: ex_defs crypt_ok_def check_flag_def hs_crypt_def crypt_at_def crypt_session_new_def)
  moreover have "Option.bind (lk_cb ex_link) on_handshake_done_fn = Some (\<lambda>st. ret 0)"
    by (simp add: ex_link_def ex_callbacks_def)
  ultimately show ?thesis
    using verify_alone_completes [of ex_link "\<lambda>st. ret 0" ex_state
        "Createcs_body_handshake 0 EN_HST_VERIFY (sst EN_SST_DIRECT) [] []"]
    by (auto simp: Createcs_body_handshake_def)
qed

end
