(* ===== verification/IdAlloc.thy ===== *)
theory IdAlloc
  imports ProtoFlow
begin

text \<open>
  timestamp_id_allocator<uint64_t> (service/component/core/timestamp_id_allocator.h), run by one
  thread: the upper 32 bits of an id are the second in which its block was opened, the lower 32 a
  counter. The state is seq_alloc. The code spins until the clock shows another second when a block
  is exhausted; if the clock does not move this never ends, which is the result None here.
\<close>

definition id_npos :: u64 where
  "id_npos = 0"

definition seq_alloc_init :: u64 where
  "seq_alloc_init = 255"

text \<open>One turn of the outer loop: the new value of seq_alloc, which is also the id returned unless it is npos.\<close>

definition id_step :: "u64 \<Rightarrow> u64 \<Rightarrow> u64 option" where
  "id_step now res =
     (let time_part = drop_bit 32 res; next_ret = res + 1
      in if time_part = 0 \<or> time_part \<noteq> drop_bit 32 next_ret then
           let now_time = now AND mask 32
           in if now_time = time_part then None else Some (push_bit 32 now_time)
         else Some next_ret)"

text \<open>
  allocate: repeat until the id is not npos. A turn gives npos only when it stores 0, and after that
  the next one either spins or does not give npos, so two turns are enough.
\<close>

definition id_allocate :: "u64 \<Rightarrow> u64 \<Rightarrow> u64 option" where
  "id_allocate now res =
     (case id_step now res of
        None \<Rightarrow> None
      | Some r \<Rightarrow> if r = id_npos then (case id_step now r of Some r2 \<Rightarrow> if r2 = id_npos then None else Some r2 | None \<Rightarrow> None)
                  else Some r)"

fun id_allocs :: "u64 list \<Rightarrow> u64 \<Rightarrow> u64 list option" where
  "id_allocs [] s = Some []"
| "id_allocs (now # ns) s =
     (case id_allocate now s of
        None \<Rightarrow> None
      | Some r \<Rightarrow> (case id_allocs ns r of None \<Rightarrow> None | Some rs \<Rightarrow> Some (r # rs)))"

section \<open>Facts\<close>

lemma id_step_zero: "id_step now 0 \<noteq> Some 0"
proof -
  have "push_bit 32 (now AND mask 32) \<noteq> 0" if "now AND mask 32 \<noteq> 0"
  proof -
    have "drop_bit 32 (push_bit 32 (now AND mask 32)) = now AND mask 32"
      by (rule bit_word_eqI) (auto simp: bit_simps)
    with that show ?thesis by (metis drop_bit_of_0)
  qed
  then show ?thesis by (auto simp: id_step_def Let_def)
qed

lemma id_allocate_second_turn:
  "id_step now r = Some 0 \<Longrightarrow> id_allocate now r = id_step now 0"
  using id_step_zero [of now] by (auto simp: id_allocate_def id_npos_def split: option.splits)

lemma id_allocate_nonzero: "id_allocate now s = Some r \<Longrightarrow> r \<noteq> id_npos"
  by (auto simp: id_allocate_def split: option.splits if_splits)

lemma drop_push_now: "unat (drop_bit 32 (push_bit 32 (x AND mask 32)) :: u64) = unat (x AND mask 32)"
proof -
  have "drop_bit 32 (push_bit 32 (x AND mask 32)) = x AND mask 32"
    by (rule bit_word_eqI) (auto simp: bit_simps)
  then show ?thesis by simp
qed

lemma unat_div_block: "unat (drop_bit 32 (s :: u64)) = unat s div 2 ^ 32"
  using unsigned_less [of s, where 'a = nat] by (simp only: unsigned_drop_bit_eq) (simp add: drop_bit_eq_div take_bit_eq_mod)

text \<open>With a clock that does not go back, ids only grow.\<close>

lemma id_step_grows:
  assumes "id_step now s = Some r" and "unat s div 2 ^ 32 \<le> unat now" and "unat now < 2 ^ 32"
  shows "unat s < unat r \<and> unat r div 2 ^ 32 \<le> unat now"
proof -
  have mask: "now AND mask 32 = now"
  proof -
    have "unat (take_bit 32 now) = unat now"
      using assms(3) by (simp only: unsigned_take_bit_eq) (simp add: take_bit_eq_mod)
    then show ?thesis unfolding take_bit_eq_mask [symmetric] by (rule unsigned_word_eqI)
  qed
  show ?thesis
  proof (cases "drop_bit 32 s = 0 \<or> drop_bit 32 s \<noteq> drop_bit 32 (s + 1)")
    case True
    then have r: "r = push_bit 32 now" "now \<noteq> drop_bit 32 s"
      using assms(1) mask by (auto simp: id_step_def Let_def split: if_splits)
    have "unat now \<noteq> unat s div 2 ^ 32" using r(2) unat_div_block [of s] by (metis unsigned_word_eqI)
    then have lt: "unat s div 2 ^ 32 < unat now" using assms(2) by simp
    have ur: "unat r = unat now * 2 ^ 32"
      using assms(3) unfolding r(1)
      by (simp only: unsigned_push_bit_eq) (simp add: push_bit_eq_mult take_bit_eq_mod)
    have "unat s < (unat s div 2 ^ 32 + 1) * 2 ^ 32" by simp
    also have "\<dots> \<le> unat now * 2 ^ 32" using lt by (intro mult_le_mono1) simp
    finally show ?thesis using ur by simp
  next
    case False
    then have r: "r = s + 1" "drop_bit 32 s = drop_bit 32 (s + 1)" "drop_bit 32 s \<noteq> 0"
      using assms(1) by (auto simp: id_step_def Let_def split: if_splits)
    have nz: "s + 1 \<noteq> 0" using r by auto
    have "unat (s + 1) = unat s + 1" using nz unatSuc [of s] by (simp add: add.commute)
    moreover have "unat (s + 1) div 2 ^ 32 = unat s div 2 ^ 32" using r(2) unat_div_block by metis
    ultimately show ?thesis using r(1) assms(2) by simp
  qed
qed

lemma id_allocate_grows:
  assumes "id_allocate now s = Some r" and "unat s div 2 ^ 32 \<le> unat now" and "unat now < 2 ^ 32"
  shows "unat s < unat r \<and> unat r div 2 ^ 32 \<le> unat now"
proof -
  obtain r1 where r1: "id_step now s = Some r1" using assms(1) by (auto simp: id_allocate_def split: option.splits)
  have "unat s < unat r1" using id_step_grows [OF r1 assms(2,3)] by simp
  then have "r1 \<noteq> id_npos" by (auto simp: id_npos_def)
  then have "r = r1" using assms(1) r1 by (simp add: id_allocate_def)
  then show ?thesis using id_step_grows [OF r1 assms(2,3)] by simp
qed

lemma id_allocs_grow:
  "id_allocs ns s = Some rs \<Longrightarrow> sorted ns \<Longrightarrow> \<forall>n \<in> set ns. unat s div 2 ^ 32 \<le> unat n \<and> unat n < 2 ^ 32 \<Longrightarrow>
    (\<forall>r \<in> set rs. unat s < unat r) \<and> sorted_wrt (<) rs"
proof (induction ns arbitrary: s rs)
  case Nil
  then show ?case by simp
next
  case (Cons n ns)
  obtain r rs' where r: "id_allocate n s = Some r" "id_allocs ns r = Some rs'" "rs = r # rs'"
    using Cons.prems(1) by (auto split: option.splits)
  have g: "unat s < unat r" "unat r div 2 ^ 32 \<le> unat n"
    using id_allocate_grows [OF r(1)] Cons.prems(3) by auto
  have "\<forall>m \<in> set ns. unat n \<le> unat m" using Cons.prems(2) by (auto simp: word_le_nat_alt)
  then have "\<forall>m \<in> set ns. unat r div 2 ^ 32 \<le> unat m \<and> unat m < 2 ^ 32"
    using g(2) Cons.prems(3) by (auto intro: order_trans)
  with Cons.IH [OF r(2)] Cons.prems(2) have tl: "\<forall>x \<in> set rs'. unat r < unat x" "sorted_wrt (<) rs'" by auto
  then have "sorted_wrt (<) (r # rs')" by (simp add: word_less_nat_alt [of r])
  with g(1) tl(1) show ?case unfolding r(3) by (auto intro: less_trans)
qed

text \<open>C22: Session ids are unique. With a clock below 2^32 seconds that does not go back, any sequence of
  allocations that returns gives non-zero, strictly increasing, hence different ids. (The header of the source
  promises less: ids that are not repeated for a short time.)\<close>

theorem ids_unique:
  assumes "id_allocs ns seq_alloc_init = Some rs" and "sorted ns" and "\<forall>n \<in> set ns. unat n < 2 ^ 32"
  shows "sorted_wrt (<) rs \<and> distinct rs \<and> id_npos \<notin> set rs"
proof -
  have grow: "(\<forall>r \<in> set rs. unat seq_alloc_init < unat r) \<and> sorted_wrt (<) rs"
    by (rule id_allocs_grow [OF assms(1,2)]) (use assms(3) in \<open>simp add: seq_alloc_init_def\<close>)
  then have "distinct rs" using strict_sorted_iff by blast
  with grow show ?thesis by (auto simp: id_npos_def)
qed

lemma ids_unique_witness:
  "\<exists>rs. id_allocs [7, 7, 8] seq_alloc_init = Some rs \<and> distinct rs \<and> length rs = 3"
proof -
  have "mask 32 = (0xFFFFFFFF :: u64)" by (simp add: mask_eq_exp_minus_1)
  then obtain rs where rs: "id_allocs [7, 7, 8] seq_alloc_init = Some rs" "length rs = 3"
    by (simp add: id_allocate_def id_step_def seq_alloc_init_def id_npos_def Let_def drop_bit_eq_div push_bit_eq_mult)
  with ids_unique [OF rs(1)] show ?thesis by auto
qed

end
