(* ===== verification/GwData.thy ===== *)
theory GwData
  imports IdAlloc "HOL-Library.AList" "HOL-Library.Signed_Division"
begin

text \<open>
  The data of the gateway (service/atgateway/session.h, session_manager.h): the counters and limits,
  the configuration, the messages for the servers behind it, a session, and the manager.

  \<^item> A session is a record in a heap, \<open>gw_sessions\<close>; a pointer to one is its index. Sessions are never
    removed from the heap: the lifetime that shared_ptr gives them is not modelled.
  \<^item> There is one manager in the process, so the pointer owner_ is a boolean: False is NULL.
  \<^item> The protocol object of a session is reached through the virtual functions of proto_base, the
    record \<open>proto_vt\<close>. They run on the whole state, because the callbacks of a protocol object lead
    back into its session and the manager.
  \<^item> libuv, the bus node and the protobuf serializer are libraries: their results are parameters, and
    the calls that matter are recorded in \<open>gw_trace\<close>. What C++ leaves undefined is in \<open>gw_faults\<close>.
\<close>

section \<open>Flags of a session\<close>

datatype sess_flag_t =
    EN_FT_INITED | EN_FT_HAS_FD | EN_FT_REGISTERED | EN_FT_RECONNECTED | EN_FT_WAIT_RECONNECT
  | EN_FT_CLOSING | EN_FT_CLOSING_FD | EN_FT_WRITING_FD

primrec ft_mask :: "sess_flag_t \<Rightarrow> u32" where
  "ft_mask EN_FT_INITED = 0x0001"
| "ft_mask EN_FT_HAS_FD = 0x0002"
| "ft_mask EN_FT_REGISTERED = 0x0004"
| "ft_mask EN_FT_RECONNECTED = 0x0008"
| "ft_mask EN_FT_WAIT_RECONNECT = 0x0010"
| "ft_mask EN_FT_CLOSING = 0x0020"
| "ft_mask EN_FT_CLOSING_FD = 0x0040"
| "ft_mask EN_FT_WRITING_FD = 0x0080"

primrec ft_pos :: "sess_flag_t \<Rightarrow> nat" where
  "ft_pos EN_FT_INITED = 0"
| "ft_pos EN_FT_HAS_FD = 1"
| "ft_pos EN_FT_REGISTERED = 2"
| "ft_pos EN_FT_RECONNECTED = 3"
| "ft_pos EN_FT_WAIT_RECONNECT = 4"
| "ft_pos EN_FT_CLOSING = 5"
| "ft_pos EN_FT_CLOSING_FD = 6"
| "ft_pos EN_FT_WRITING_FD = 7"

interpretation ft: flag_word ft_mask ft_pos
proof unfold_locales
  fix t t' :: sess_flag_t
  show "ft_mask t = 2 ^ ft_pos t" by (cases t) simp_all
  show "ft_pos t < 32" by (cases t) simp_all
  show "ft_pos t = ft_pos t' \<Longrightarrow> t = t'" by (cases t; cases t') simp_all
qed

section \<open>Counters, limits, configuration\<close>

record limit_t =
  total_recv_bytes :: u64
  total_send_bytes :: u64
  hour_recv_bytes :: u64
  hour_send_bytes :: u64
  minute_recv_bytes :: u64
  minute_send_bytes :: u64
  total_recv_times :: u64
  total_send_times :: u64
  hour_recv_times :: u64
  hour_send_times :: u64
  minute_recv_times :: u64
  minute_send_times :: u64
  hour_timepoint :: int
  minute_timepoint :: int
  update_handshake_timepoint :: int

definition limit_zero :: limit_t where
  "limit_zero = \<lparr>total_recv_bytes = 0, total_send_bytes = 0, hour_recv_bytes = 0, hour_send_bytes = 0,
     minute_recv_bytes = 0, minute_send_bytes = 0, total_recv_times = 0, total_send_times = 0,
     hour_recv_times = 0, hour_send_times = 0, minute_recv_times = 0, minute_send_times = 0,
     hour_timepoint = 0, minute_timepoint = 0, update_handshake_timepoint = 0\<rparr>"

text \<open>client_limit_t has the same twelve counters (as limits, 0 for none) and the number of clients.\<close>

record client_limit_t =
  max_total_recv_bytes :: u64
  max_total_send_bytes :: u64
  max_hour_recv_bytes :: u64
  max_hour_send_bytes :: u64
  max_minute_recv_bytes :: u64
  max_minute_send_bytes :: u64
  max_total_recv_times :: u64
  max_total_send_times :: u64
  max_hour_recv_times :: u64
  max_hour_send_times :: u64
  max_minute_recv_times :: u64
  max_minute_send_times :: u64
  max_client_number :: u64

text \<open>conf_t, with the fields of lister_conf_t in it.\<close>

record gw_conf_t =
  conf_version :: u64
  limits :: client_limit_t
  listen_address :: "string list"
  listen_type :: string
  listen_backlog :: int
  reconnect_timeout :: int
  first_idle_timeout :: int
  send_buffer_size :: u64
  default_router :: u64
  crypt :: crypt_conf

section \<open>Messages for the servers\<close>

text \<open>The protobuf messages of libatgw_server_protocol.proto, with the oneof as a datatype.\<close>

datatype ss_msg_body =
    No_cmd
  | Cmd_post "u64 list" "byte list"
  | Cmd_add_session string int
  | Cmd_remove_session string int
  | Cmd_kickoff_session
  | Cmd_set_router_req u64
  | Cmd_set_router_rsp u64

record ss_msg =
  ss_session_id :: u64
  ss_error_code :: int
  ss_body :: ss_msg_body

datatype service_type = EN_ATST_UNKNOWN | EN_ATST_ATPROXY | EN_ATST_GATEWAY | EN_ATST_INNER_BOUND | EN_ATST_CUSTOM_START

primrec atst :: "service_type \<Rightarrow> int" where
  "atst EN_ATST_UNKNOWN = 0"
| "atst EN_ATST_ATPROXY = 1"
| "atst EN_ATST_GATEWAY = 2"
| "atst EN_ATST_INNER_BOUND = 0x20"
| "atst EN_ATST_CUSTOM_START = 0x21"

section \<open>A session\<close>

record session =
  s_id :: u64
  s_router :: u64
  s_owner :: bool
  s_limit :: limit_t
  s_flags :: u32
  s_holder :: bool
  s_peer_ip :: string
  s_peer_port :: int
  s_has_proto :: bool
  s_private :: nat

text \<open>The constructor. \<open>s_holder\<close>: shutdown_req_.data keeps the session alive.\<close>

definition session_new :: session where
  "session_new = \<lparr>s_id = 0, s_router = 0, s_owner = False, s_limit = limit_zero, s_flags = 0,
     s_holder = False, s_peer_ip = [], s_peer_port = 0, s_has_proto = False, s_private = 0\<rparr>"

definition s_check :: "sess_flag_t \<Rightarrow> session \<Rightarrow> bool" where
  "s_check t ss = word_check (s_flags ss) (ft_mask t)"

definition s_set :: "sess_flag_t \<Rightarrow> bool \<Rightarrow> session \<Rightarrow> session" where
  "s_set t v ss = ss\<lparr>s_flags := word_set (s_flags ss) (ft_mask t) v\<rparr>"

lemma s_check_set [simp]: "s_check t (s_set t' v ss) = (if t' = t then v else s_check t ss)"
  by (simp add: s_check_def s_set_def ft.check_set)

lemma s_check_frame [simp]:
  "s_check t (ss\<lparr>s_id := a\<rparr>) = s_check t ss" "s_check t (ss\<lparr>s_router := a\<rparr>) = s_check t ss"
  "s_check t (ss\<lparr>s_owner := b\<rparr>) = s_check t ss" "s_check t (ss\<lparr>s_limit := l\<rparr>) = s_check t ss"
  "s_check t (ss\<lparr>s_holder := b\<rparr>) = s_check t ss" "s_check t (ss\<lparr>s_peer_ip := st\<rparr>) = s_check t ss"
  "s_check t (ss\<lparr>s_peer_port := i\<rparr>) = s_check t ss" "s_check t (ss\<lparr>s_has_proto := b\<rparr>) = s_check t ss"
  "s_check t (ss\<lparr>s_private := n\<rparr>) = s_check t ss"
  by (simp_all add: s_check_def)

lemma s_set_frame [simp]:
  "s_id (s_set t v ss) = s_id ss" "s_router (s_set t v ss) = s_router ss"
  "s_owner (s_set t v ss) = s_owner ss" "s_limit (s_set t v ss) = s_limit ss"
  "s_holder (s_set t v ss) = s_holder ss" "s_has_proto (s_set t v ss) = s_has_proto ss"
  "s_peer_ip (s_set t v ss) = s_peer_ip ss" "s_peer_port (s_set t v ss) = s_peer_port ss"
  by (simp_all add: s_set_def)

lemma s_check_new [simp]: "\<not> s_check t session_new"
  by (simp add: s_check_def session_new_def)

section \<open>The state of the gateway\<close>

datatype gw_event =
    EvPost u64 int "byte list"
  | EvToClient nat "byte list"
  | EvUvShutdown nat | EvUvClose nat
  | EvReadStart nat | EvUvWrite nat "byte list" | EvListenClose

record 'p gateway =
  gw_conf :: gw_conf_t
  gw_sessions :: "session list"
  actived_sessions :: "(u64 \<times> nat) list"
  first_idle :: "(int \<times> nat) list"
  reconnect_cache :: "(u64 \<times> nat) list"
  reconnect_timers :: "(int \<times> nat) list"
  last_tick_time :: int
  listen_handles :: nat
  app_node :: bool
  gw_now :: int
  gw_id_seq :: u64
  gw_trace :: "gw_event list"
  gw_faults :: "proto_fault list"
  gw_protos :: 'p

type_synonym ('p, 'a) gm = "('p gateway, 'a) state"

text \<open>
  The virtual functions of proto_base a session or the manager calls, on the object of a session.
  \<open>vt_alloc\<close> gives the length of the buffer, None for a NULL one; \<open>vt_closed\<close> is
  check_flag(EN_PFT_CLOSED).
\<close>

record 's proto_vt =
  vt_alloc :: "nat \<Rightarrow> u64 \<Rightarrow> ('s, u64 option) state"
  vt_read :: "nat \<Rightarrow> int \<Rightarrow> byte list \<Rightarrow> ('s, int) state"
  vt_write :: "nat \<Rightarrow> byte list \<Rightarrow> ('s, int) state"
  vt_write_done :: "nat \<Rightarrow> int \<Rightarrow> ('s, int) state"
  vt_close :: "nat \<Rightarrow> int \<Rightarrow> ('s, int) state"
  vt_check_reconnect :: "nat \<Rightarrow> nat \<Rightarrow> ('s, bool) state"
  vt_recv_limit :: "nat \<Rightarrow> u64 \<Rightarrow> u64 \<Rightarrow> ('s, unit) state"
  vt_send_limit :: "nat \<Rightarrow> u64 \<Rightarrow> u64 \<Rightarrow> ('s, unit) state"
  vt_handshake_update :: "nat \<Rightarrow> ('s, int) state"
  vt_closed :: "nat \<Rightarrow> 's \<Rightarrow> bool"

text \<open>
  What the gateway is linked with: the serializer of ss_msg (None when it fails), the answer of the
  bus node to the n-th post, the virtual functions, the function that makes a protocol object (the
  answer is whether there is one), the function the application runs on a new session, the answer of
  uv_write and the read codes that mean "try again", the length of a minute and of a day and the message limit of the libraries, and the depth of recursion.
\<close>

record 's gw_link =
  gl_serialize :: "ss_msg \<Rightarrow> byte list option"
  gl_send :: "nat \<Rightarrow> u64 \<Rightarrow> int \<Rightarrow> byte list \<Rightarrow> int"
  gl_vt :: "'s proto_vt"
  gl_create_proto :: "('s, bool) state option"
  gl_on_create :: "(nat \<Rightarrow> ('s, int) state) option"
  gl_uv_write :: "nat \<Rightarrow> byte list \<Rightarrow> int"
  gl_uv_again :: "int \<Rightarrow> bool"
  gl_minute :: int
  gl_day :: int
  gl_msg_limit :: u64
  gl_fuel :: nat

type_synonym 'p glink = "'p gateway gw_link"

section \<open>Access\<close>

text \<open>A pointer is always an index of the heap; outside it a fresh session is read, and nothing is written.\<close>

definition sess :: "nat \<Rightarrow> 'p gateway \<Rightarrow> session" where
  "sess i s = (if i < length (gw_sessions s) then gw_sessions s ! i else session_new)"

definition upd_sess :: "nat \<Rightarrow> (session \<Rightarrow> session) \<Rightarrow> 'p gateway \<Rightarrow> 'p gateway" where
  "upd_sess i f s = s\<lparr>gw_sessions := (gw_sessions s)[i := f (gw_sessions s ! i)]\<rparr>"

definition has_flag :: "sess_flag_t \<Rightarrow> nat \<Rightarrow> 'p gateway \<Rightarrow> bool" where
  "has_flag t i s = s_check t (sess i s)"

definition put_flag :: "nat \<Rightarrow> sess_flag_t \<Rightarrow> bool \<Rightarrow> ('p, unit) gm" where
  "put_flag i t v = modify (upd_sess i (s_set t v))"

definition gw_log :: "gw_event \<Rightarrow> ('p, unit) gm" where
  "gw_log e = modify (\<lambda>s. s\<lparr>gw_trace := gw_trace s @ [e]\<rparr>)"

definition gw_raise :: "proto_fault \<Rightarrow> ('p, unit) gm" where
  "gw_raise f = modify (\<lambda>s. s\<lparr>gw_faults := gw_faults s @ [f]\<rparr>)"

definition cl_limits :: "'p gateway \<Rightarrow> client_limit_t" where
  "cl_limits s = limits (gw_conf s)"

end
