(* ===== verification/Session.thy ===== *)
theory Session
  imports GwData
begin

text \<open>
  atframe::gateway::session (service/atgateway/session.cpp), one definition per member function.
  Sending to a server may close the session (a limit is exceeded) and closing may send to the server
  (the remove notification), so the functions on that cycle take the function that closes as an
  argument, and \<open>close_with_manager\<close>, which ties the knot, takes the remaining depth.
\<close>

section \<open>Creation\<close>

text \<open>
  session::create for a protocol object that exists (\<open>has_proto\<close>): the new session takes it over. The
  result is the index of the session, None for the empty pointer.
\<close>

definition session_create :: "bool \<Rightarrow> ('p, nat option) gm" where
  "session_create has_proto =
     (if \<not> has_proto then ret None
      else do {
        i \<leftarrow> gets (\<lambda>s. length (gw_sessions s));
        modify (\<lambda>s. s\<lparr>gw_sessions := gw_sessions s @ [session_new\<lparr>s_owner := True, s_has_proto := True\<rparr>]\<rparr>);
        ret (Some i)
      })"

text \<open>What libuv answers when a connection is accepted: the two codes, and the peer's name.\<close>

record uv_accept_t =
  uv_init_res :: int
  uv_accept_res :: int
  uv_peer_ip :: string
  uv_peer_port :: int

definition session_accept :: "(uv_accept_t \<Rightarrow> int) \<Rightarrow> nat \<Rightarrow> uv_accept_t \<Rightarrow> ('p, int) gm" where
  "session_accept port i a = do {
     closing \<leftarrow> gets (has_flag EN_FT_CLOSING i);
     has_fd \<leftarrow> gets (has_flag EN_FT_HAS_FD i);
     if closing then ret (ec EN_ECT_CLOSING)
     else if has_fd then ret (ec EN_ECT_ALREADY_HAS_FD)
     else if uv_init_res a \<noteq> 0 then ret (ec EN_ECT_NETWORK)
     else do {
       put_flag i EN_FT_HAS_FD True;
       if uv_accept_res a \<noteq> 0 then ret (ec EN_ECT_NETWORK)
       else do {
         modify (upd_sess i (\<lambda>ss. ss\<lparr>s_peer_ip := uv_peer_ip a, s_peer_port := port a\<rparr>));
         ret 0
       }
     }
   }"

definition accept_tcp :: "nat \<Rightarrow> uv_accept_t \<Rightarrow> ('p, int) gm" where
  "accept_tcp = session_accept uv_peer_port"

definition accept_pipe :: "nat \<Rightarrow> uv_accept_t \<Rightarrow> ('p, int) gm" where
  "accept_pipe = session_accept (\<lambda>a. 0)"

definition init_new_session :: "nat \<Rightarrow> u64 \<Rightarrow> ('p, int) gm" where
  "init_new_session i router = do {
     now \<leftarrow> gets gw_now;
     sq \<leftarrow> gets gw_id_seq;
     (case id_allocate (word_of_int now) sq of
        None \<Rightarrow> do { gw_raise (OutOfFuel ''allocate''); ret 0 }
      | Some r \<Rightarrow> do {
          modify (\<lambda>s. s\<lparr>gw_id_seq := r\<rparr>);
          owner \<leftarrow> gets (\<lambda>s. s_owner (sess i s));
          when_do (\<not> owner) (gw_raise (NullDeref ''owner_''));
          interval \<leftarrow> gets (\<lambda>s. conf_update_interval (crypt (gw_conf s)));
          modify (upd_sess i (\<lambda>ss. ss\<lparr>s_id := r, s_router := router,
             s_limit := (s_limit ss)\<lparr>update_handshake_timepoint := now + interval\<rparr>\<rparr>));
          put_flag i EN_FT_INITED True;
          ret 0
        })
   }"

definition init_reconnect :: "nat \<Rightarrow> nat \<Rightarrow> ('p, int) gm" where
  "init_reconnect i old = do {
     now \<leftarrow> gets gw_now;
     owner \<leftarrow> gets (\<lambda>s. s_owner (sess i s));
     when_do (\<not> owner) (gw_raise (NullDeref ''owner_''));
     interval \<leftarrow> gets (\<lambda>s. conf_update_interval (crypt (gw_conf s)));
     os \<leftarrow> gets (sess old);
     modify (upd_sess i (\<lambda>ss. ss\<lparr>s_id := s_id os, s_router := s_router os,
        s_limit := (s_limit os)\<lparr>update_handshake_timepoint := now + interval\<rparr>, s_private := s_private os\<rparr>));
     put_flag i EN_FT_INITED True;
     reg \<leftarrow> gets (has_flag EN_FT_REGISTERED old);
     put_flag i EN_FT_REGISTERED reg;
     put_flag old EN_FT_RECONNECTED True;
     put_flag old EN_FT_WAIT_RECONNECT False;
     ret 0
   }"

section \<open>Limits\<close>

text \<open>
  One test of a limit that does not return: when \<open>enabled\<close>, the manager is dereferenced for its
  configuration, and the session is closed if the limit \<open>positive\<close> is set and the counter is over
  the limit \<open>bnd\<close> (mostly the same one).
\<close>

definition limit_test ::
  "('p, unit) gm \<Rightarrow> nat \<Rightarrow> bool \<Rightarrow> (client_limit_t \<Rightarrow> u64) \<Rightarrow> (client_limit_t \<Rightarrow> u64) \<Rightarrow> (limit_t \<Rightarrow> u64) \<Rightarrow>
   ('p, unit) gm" where
  "limit_test cl i enabled positive bnd cnt =
     when_do enabled (do {
       owner \<leftarrow> gets (\<lambda>s. s_owner (sess i s));
       if \<not> owner then gw_raise (NullDeref ''owner_'')
       else do {
         hit \<leftarrow> gets (\<lambda>s. positive (cl_limits s) > 0 \<and> cnt (s_limit (sess i s)) > bnd (cl_limits s));
         when_do hit cl
       }
     })"

definition upd_limit :: "nat \<Rightarrow> (limit_t \<Rightarrow> limit_t) \<Rightarrow> ('p, unit) gm" where
  "upd_limit i f = modify (upd_sess i (\<lambda>ss. ss\<lparr>s_limit := f (s_limit ss)\<rparr>))"

definition check_hour_limit ::
  "'p glink \<Rightarrow> ('p, unit) gm \<Rightarrow> nat \<Rightarrow> bool \<Rightarrow> bool \<Rightarrow> ('p, unit) gm" where
  "check_hour_limit K cl i check_recv check_send = do {
     now_hr \<leftarrow> gets (\<lambda>s. gw_now s sdiv gl_day K);
     tp \<leftarrow> gets (\<lambda>s. hour_timepoint (s_limit (sess i s)));
     owner \<leftarrow> gets (\<lambda>s. s_owner (sess i s));
     closing \<leftarrow> gets (has_flag EN_FT_CLOSING i);
     if now_hr \<noteq> tp then
       upd_limit i (\<lambda>l. l\<lparr>hour_timepoint := now_hr, hour_recv_bytes := 0, hour_send_bytes := 0,
                          hour_recv_times := 0, hour_send_times := 0\<rparr>)
     else if \<not> owner \<or> closing then ret ()
     else do {
       limit_test cl i check_recv max_hour_recv_bytes max_hour_recv_bytes hour_recv_bytes;
       limit_test cl i check_recv max_hour_send_bytes max_hour_send_bytes hour_send_bytes;
       limit_test cl i check_send max_hour_recv_times max_hour_recv_times hour_recv_times;
       limit_test cl i check_send max_hour_send_times max_hour_send_times hour_send_times
     }
   }"

text \<open>The minute check returns after the first close, and renews the key of a session that is connected.\<close>

definition minute_exceeded :: "bool \<Rightarrow> bool \<Rightarrow> client_limit_t \<Rightarrow> limit_t \<Rightarrow> bool" where
  "minute_exceeded check_recv check_send m l \<longleftrightarrow>
     check_recv \<and> max_minute_recv_bytes m > 0 \<and> minute_recv_bytes l > max_minute_recv_bytes m \<or>
     check_recv \<and> max_minute_recv_times m > 0 \<and> minute_recv_times l > max_minute_recv_times m \<or>
     check_send \<and> max_minute_send_bytes m > 0 \<and> minute_send_bytes l > max_minute_send_bytes m \<or>
     check_send \<and> max_minute_send_times m > 0 \<and> minute_send_times l > max_minute_send_times m"

definition check_minute_limit ::
  "'p glink \<Rightarrow> ('p, unit) gm \<Rightarrow> nat \<Rightarrow> bool \<Rightarrow> bool \<Rightarrow> ('p, unit) gm" where
  "check_minute_limit K cl i check_recv check_send = do {
     now \<leftarrow> gets gw_now;
     let now_mi = now sdiv gl_minute K;
     ss \<leftarrow> gets (sess i);
     exceeded \<leftarrow> gets (\<lambda>s. minute_exceeded check_recv check_send (cl_limits s) (s_limit ss));
     interval \<leftarrow> gets (\<lambda>s. conf_update_interval (crypt (gw_conf s)));
     if now_mi \<noteq> minute_timepoint (s_limit ss) then
       upd_limit i (\<lambda>l. l\<lparr>minute_timepoint := now_mi, minute_recv_bytes := 0, minute_send_bytes := 0,
                          minute_recv_times := 0, minute_send_times := 0\<rparr>)
     else if \<not> s_owner ss \<or> s_check EN_FT_CLOSING ss then ret ()
     else if exceeded then cl
     else when_do (interval > 0 \<and> s_check EN_FT_HAS_FD ss \<and> update_handshake_timepoint (s_limit ss) < now) (do {
       upd_limit i (\<lambda>l. l\<lparr>update_handshake_timepoint := now + interval\<rparr>);
       when_do (s_has_proto ss) (do { _ \<leftarrow> vt_handshake_update (gl_vt K) i; ret () })
     })
   }"

definition check_total_limit ::
  "'p glink \<Rightarrow> ('p, unit) gm \<Rightarrow> nat \<Rightarrow> bool \<Rightarrow> bool \<Rightarrow> ('p, unit) gm" where
  "check_total_limit K cl i check_recv check_send = do {
     owner \<leftarrow> gets (\<lambda>s. s_owner (sess i s));
     closing \<leftarrow> gets (has_flag EN_FT_CLOSING i);
     if \<not> owner \<or> closing then ret ()
     else do {
       limit_test cl i check_recv max_total_recv_bytes max_total_send_bytes total_recv_bytes;
       limit_test cl i check_recv max_total_recv_times max_total_recv_times total_recv_times;
       limit_test cl i check_send max_total_send_bytes max_total_send_bytes total_send_bytes;
       limit_test cl i check_send max_total_send_times max_total_send_times total_send_times
     }
   }"

definition check_limits ::
  "'p glink \<Rightarrow> ('p, unit) gm \<Rightarrow> nat \<Rightarrow> bool \<Rightarrow> bool \<Rightarrow> ('p, unit) gm" where
  "check_limits K cl i check_recv check_send = do {
     check_hour_limit K cl i check_recv check_send;
     check_minute_limit K cl i check_recv check_send;
     check_total_limit K cl i check_recv check_send
   }"

section \<open>Sending to a server\<close>

text \<open>session_manager::post_data of raw bytes.\<close>

definition post_buffer :: "'p glink \<Rightarrow> u64 \<Rightarrow> int \<Rightarrow> byte list \<Rightarrow> ('p, int) gm" where
  "post_buffer K tid ty bytes = do {
     node \<leftarrow> gets app_node;
     if \<not> node then ret (ec EN_ECT_HANDLE_NOT_FOUND)
     else do {
       n \<leftarrow> gets (\<lambda>s. length (gw_trace s));
       gw_log (EvPost tid ty bytes);
       ret (gl_send K n tid ty bytes)
     }
   }"

definition count_recv :: "u64 \<Rightarrow> limit_t \<Rightarrow> limit_t" where
  "count_recv n l = l\<lparr>hour_recv_bytes := hour_recv_bytes l + n, minute_recv_bytes := minute_recv_bytes l + n,
     total_recv_bytes := total_recv_bytes l + n, minute_recv_times := minute_recv_times l + 1,
     hour_recv_times := hour_recv_times l + 1, total_recv_times := total_recv_times l + 1\<rparr>"

definition count_send :: "u64 \<Rightarrow> limit_t \<Rightarrow> limit_t" where
  "count_send n l = l\<lparr>hour_send_bytes := hour_send_bytes l + n, minute_send_bytes := minute_send_bytes l + n,
     total_send_bytes := total_send_bytes l + n, total_send_times := total_send_times l + 1,
     hour_send_times := hour_send_times l + 1, minute_send_times := minute_send_times l + 1\<rparr>"

definition send_to_server_with ::
  "'p glink \<Rightarrow> ('p, unit) gm \<Rightarrow> nat \<Rightarrow> ss_msg \<Rightarrow> bool \<Rightarrow> ('p, int) gm" where
  "send_to_server_with K cl i msg mgr = do {
     ss \<leftarrow> gets (sess i);
     if s_router ss = 0 then ret (ec EN_ECT_INVALID_ROUTER)
     else if \<not> mgr \<and> \<not> s_owner ss then ret (ec EN_ECT_LOST_MANAGER)
     else (case gl_serialize K msg of
        None \<Rightarrow> ret (ec EN_ECT_BAD_DATA)
      | Some bytes \<Rightarrow> do {
          upd_limit i (count_recv (word_of_nat (length bytes)));
          r \<leftarrow> post_buffer K (s_router ss) (atst EN_ATST_GATEWAY) bytes;
          check_limits K cl i True False;
          ret r
        })
   }"

definition send_new_session_with :: "'p glink \<Rightarrow> ('p, unit) gm \<Rightarrow> nat \<Rightarrow> ('p, int) gm" where
  "send_new_session_with K cl i = do {
     ss \<leftarrow> gets (sess i);
     if s_check EN_FT_REGISTERED ss then ret 0
     else do {
       r \<leftarrow> send_to_server_with K cl i
              \<lparr>ss_session_id = s_id ss, ss_error_code = 0, ss_body = Cmd_add_session (s_peer_ip ss) (s_peer_port ss)\<rparr>
              (s_owner ss);
       when_do (r = 0) (put_flag i EN_FT_REGISTERED True);
       ret r
     }
   }"

definition send_remove_session_with :: "'p glink \<Rightarrow> ('p, unit) gm \<Rightarrow> nat \<Rightarrow> bool \<Rightarrow> ('p, int) gm" where
  "send_remove_session_with K cl i mgr = do {
     ss \<leftarrow> gets (sess i);
     if \<not> s_check EN_FT_REGISTERED ss then ret 0
     else do {
       r \<leftarrow> send_to_server_with K cl i
              \<lparr>ss_session_id = s_id ss, ss_error_code = 0, ss_body = Cmd_remove_session (s_peer_ip ss) (s_peer_port ss)\<rparr>
              mgr;
       when_do (r = 0) (put_flag i EN_FT_REGISTERED False);
       ret r
     }
   }"

section \<open>Closing\<close>

definition close_fd :: "'p glink \<Rightarrow> nat \<Rightarrow> int \<Rightarrow> ('p, int) gm" where
  "close_fd K i reason = do {
     closing_fd \<leftarrow> gets (has_flag EN_FT_CLOSING_FD i);
     has_fd \<leftarrow> gets (has_flag EN_FT_HAS_FD i);
     if closing_fd then ret 0
     else if has_fd then do {
       put_flag i EN_FT_HAS_FD False;
       has_proto \<leftarrow> gets (\<lambda>s. s_has_proto (sess i s));
       when_do has_proto (do { _ \<leftarrow> vt_close (gl_vt K) i reason; ret () });
       modify (upd_sess i (\<lambda>ss. ss\<lparr>s_owner := False, s_holder := True\<rparr>));
       put_flag i EN_FT_CLOSING_FD True;
       closed \<leftarrow> gets (vt_closed (gl_vt K) i);
       when_do (\<not> has_proto \<or> closed) (gw_log (EvUvShutdown i));
       ret 0
     }
     else ret 0
   }"

fun close_with_manager :: "'p glink \<Rightarrow> nat \<Rightarrow> nat \<Rightarrow> int \<Rightarrow> bool \<Rightarrow> ('p, int) gm" where
  "close_with_manager K 0 i reason mgr = do { gw_raise (OutOfFuel ''close_with_manager''); ret 0 }"
| "close_with_manager K (Suc n) i reason mgr = do {
     ss \<leftarrow> gets (sess i);
     when_do (s_check EN_FT_REGISTERED ss \<and> \<not> s_check EN_FT_RECONNECTED ss \<and> \<not> s_check EN_FT_WAIT_RECONNECT ss)
       (do {
          _ \<leftarrow> send_remove_session_with K
                 (do {
                    owner \<leftarrow> gets (\<lambda>s. s_owner (sess i s));
                    _ \<leftarrow> close_with_manager K n i (cr EN_CRT_TRAFIC_EXTENDED) owner;
                    ret ()
                  }) i mgr;
          ret ()
        });
     closing \<leftarrow> gets (has_flag EN_FT_CLOSING i);
     if closing then ret 0
     else do {
       put_flag i EN_FT_CLOSING True;
       close_fd K i reason
     }
   }"

definition session_close :: "'p glink \<Rightarrow> nat \<Rightarrow> int \<Rightarrow> ('p, int) gm" where
  "session_close K i reason = do {
     owner \<leftarrow> gets (\<lambda>s. s_owner (sess i s));
     close_with_manager K (gl_fuel K) i reason owner
   }"

text \<open>The close a limit causes, and the two calls of other classes that may cause it.\<close>

definition close_exceeded :: "'p glink \<Rightarrow> nat \<Rightarrow> ('p, unit) gm" where
  "close_exceeded K i = do { _ \<leftarrow> session_close K i (cr EN_CRT_TRAFIC_EXTENDED); ret () }"

definition send_new_session :: "'p glink \<Rightarrow> nat \<Rightarrow> ('p, int) gm" where
  "send_new_session K i = send_new_session_with K (close_exceeded K i) i"

definition send_to_client :: "'p glink \<Rightarrow> nat \<Rightarrow> byte list \<Rightarrow> ('p, int) gm" where
  "send_to_client K i bytes = do {
     ss \<leftarrow> gets (sess i);
     if s_check EN_FT_CLOSING ss then ret (ec EN_ECT_CLOSING)
     else if \<not> s_check EN_FT_HAS_FD ss then ret (ec EN_ECT_CLOSING)
     else if \<not> s_has_proto ss then ret (ec EN_ECT_BAD_PROTOCOL)
     else do {
       upd_limit i (count_send (word_of_nat (length bytes)));
       gw_log (EvToClient i bytes);
       r \<leftarrow> vt_write (gl_vt K) i bytes;
       check_limits K (close_exceeded K i) i False True;
       ret r
     }
   }"

section \<open>Events of the connection\<close>

definition on_alloc_read :: "'p glink \<Rightarrow> nat \<Rightarrow> u64 \<Rightarrow> ('p, u64 option) gm" where
  "on_alloc_read K i suggested = do {
     has_proto \<leftarrow> gets (\<lambda>s. s_has_proto (sess i s));
     if \<not> has_proto then ret None
     else do {
       buf \<leftarrow> vt_alloc (gl_vt K) i suggested;
       when_do (buf = None) (do { _ \<leftarrow> close_fd K i (cr EN_CRT_INVALID_DATA); ret () });
       ret buf
     }
   }"

definition on_read :: "'p glink \<Rightarrow> nat \<Rightarrow> int \<Rightarrow> byte list \<Rightarrow> ('p, unit) gm" where
  "on_read K i ssz bytes = do {
     has_proto \<leftarrow> gets (\<lambda>s. s_has_proto (sess i s));
     when_do has_proto (do {
       errcode \<leftarrow> vt_read (gl_vt K) i ssz bytes;
       when_do (errcode < 0) (do { _ \<leftarrow> session_close K i (cr EN_CRT_INVALID_DATA); ret () })
     })
   }"

definition on_write_done :: "'p glink \<Rightarrow> nat \<Rightarrow> int \<Rightarrow> ('p, int) gm" where
  "on_write_done K i status = do {
     has_proto \<leftarrow> gets (\<lambda>s. s_has_proto (sess i s));
     if \<not> has_proto then ret 0
     else do {
       r \<leftarrow> vt_write_done (gl_vt K) i status;
       closing_fd \<leftarrow> gets (has_flag EN_FT_CLOSING_FD i);
       closed \<leftarrow> gets (vt_closed (gl_vt K) i);
       when_do (closing_fd \<and> closed) (gw_log (EvUvShutdown i));
       ret r
     }
   }"

definition on_evt_shutdown :: "nat \<Rightarrow> ('p, unit) gm" where
  "on_evt_shutdown i = gw_log (EvUvClose i)"

definition on_evt_closed :: "nat \<Rightarrow> ('p, unit) gm" where
  "on_evt_closed i = do {
     put_flag i EN_FT_CLOSING_FD False;
     holder \<leftarrow> gets (\<lambda>s. s_holder (sess i s));
     when_do (\<not> holder) (gw_raise (AssertFailed ''holder''));
     modify (upd_sess i (\<lambda>ss. ss\<lparr>s_holder := False\<rparr>))
   }"

end
