(* ===== verification/SessionManager.thy ===== *)
theory SessionManager
  imports Session
begin

text \<open>
  atframe::gateway::session_manager (service/atgateway/session_manager.cpp), one definition per member
  function. The maps from ids to sessions are association lists with one entry per id; the order
  of an unordered_map is unspecified, the order of the list is the one a broadcast takes. Erasing
  through an iterator whose entry a nested call has erased is undefined, and recorded as a fault.
\<close>

section \<open>Starting and stopping\<close>

definition manager_init :: "'p glink \<Rightarrow> ('p, int) gm" where
  "manager_init K = do {
     modify (\<lambda>s. s\<lparr>app_node := True\<rparr>);
     ret (if gl_create_proto K = None then -1 else 0)
   }"

text \<open>
  What the libraries answer for an address to listen to: the scheme make_address finds, and the codes
  of uv_*_init, uv_*_bind and uv_listen.
\<close>

record listen_answer =
  la_scheme :: string
  la_init :: int
  la_bind :: int
  la_listen :: int

definition scheme_is :: "string \<Rightarrow> string \<Rightarrow> bool" where
  "scheme_is name sch \<longleftrightarrow> map tolower_ch (take 4 sch) = name"

definition manager_listen :: "(string \<Rightarrow> listen_answer) \<Rightarrow> string \<Rightarrow> ('p, int) gm" where
  "manager_listen ans address =
     (let a = ans address in
      if scheme_is ''ipv4'' (la_scheme a) \<or> scheme_is ''ipv6'' (la_scheme a) \<or> scheme_is ''unix'' (la_scheme a) then
        (if la_init a = 0 \<and> la_bind a = 0 \<and> la_listen a = 0 then do {
           modify (\<lambda>s. s\<lparr>listen_handles := Suc (listen_handles s)\<rparr>);
           ret 0
         }
         else do { gw_log EvListenClose; ret (ec EN_ECT_NETWORK) })
      else ret (ec EN_ECT_INVALID_ADDRESS))"

fun listen_loop :: "(string \<Rightarrow> listen_answer) \<Rightarrow> string list \<Rightarrow> nat \<Rightarrow> ('p, nat) gm" where
  "listen_loop ans [] n = ret n"
| "listen_loop ans (a # as) n = do {
     r \<leftarrow> manager_listen ans a;
     listen_loop ans as (if r \<noteq> 0 then n else Suc n)
   }"

definition listen_all :: "(string \<Rightarrow> listen_answer) \<Rightarrow> ('p, nat) gm" where
  "listen_all ans = do {
     addrs \<leftarrow> gets (\<lambda>s. listen_address (gw_conf s));
     listen_loop ans addrs 0
   }"

text \<open>As for broadcast_loop, the sessions are those of the map when the loop starts.\<close>

fun close_all :: "'p glink \<Rightarrow> int \<Rightarrow> nat list \<Rightarrow> ('p, unit) gm" where
  "close_all K reason [] = ret ()"
| "close_all K reason (i # is) = do { _ \<leftarrow> session_close K i reason; close_all K reason is }"

definition manager_reset :: "'p glink \<Rightarrow> ('p, int) gm" where
  "manager_reset K = do {
     a \<leftarrow> gets actived_sessions;
     close_all K (cr EN_CRT_SERVER_CLOSED) (map snd a);
     modify (\<lambda>s. s\<lparr>actived_sessions := []\<rparr>);
     f \<leftarrow> gets first_idle;
     close_all K (cr EN_CRT_SERVER_CLOSED) (map snd f);
     modify (\<lambda>s. s\<lparr>first_idle := []\<rparr>);
     c \<leftarrow> gets reconnect_cache;
     close_all K (cr EN_CRT_SERVER_CLOSED) (map snd c);
     modify (\<lambda>s. s\<lparr>reconnect_cache := []\<rparr>);
     t \<leftarrow> gets reconnect_timers;
     close_all K (cr EN_CRT_SERVER_CLOSED) (map snd t);
     modify (\<lambda>s. s\<lparr>reconnect_timers := []\<rparr>);
     n \<leftarrow> gets listen_handles;
     modify (\<lambda>s. s\<lparr>gw_trace := gw_trace s @ replicate n EvListenClose, listen_handles := 0\<rparr>);
     ret 0
   }"

section \<open>The timers\<close>

fun reconnect_loop :: "'p glink \<Rightarrow> nat \<Rightarrow> int \<Rightarrow> ('p, unit) gm" where
  "reconnect_loop K 0 now = gw_raise (OutOfFuel ''tick'')"
| "reconnect_loop K (Suc n) now = do {
     timers \<leftarrow> gets reconnect_timers;
     (case timers of
        [] \<Rightarrow> ret ()
      | (t, i) # _ \<Rightarrow>
          if t > now then ret ()
          else do {
            modify (\<lambda>s. s\<lparr>reconnect_cache := AList.delete (s_id (sess i s)) (reconnect_cache s)\<rparr>);
            put_flag i EN_FT_WAIT_RECONNECT False;
            _ \<leftarrow> close_with_manager K (gl_fuel K) i (cr EN_CRT_LOGOUT) True;
            modify (\<lambda>s. s\<lparr>reconnect_timers := tl (reconnect_timers s)\<rparr>);
            reconnect_loop K n now
          })
   }"

fun idle_loop :: "'p glink \<Rightarrow> nat \<Rightarrow> int \<Rightarrow> ('p, unit) gm" where
  "idle_loop K 0 now = gw_raise (OutOfFuel ''tick'')"
| "idle_loop K (Suc n) now = do {
     timers \<leftarrow> gets first_idle;
     (case timers of
        [] \<Rightarrow> ret ()
      | (t, i) # _ \<Rightarrow>
          if t > now then ret ()
          else do {
            ss \<leftarrow> gets (sess i);
            when_do (\<not> s_check EN_FT_REGISTERED ss \<and> \<not> s_check EN_FT_CLOSING ss)
              (do { _ \<leftarrow> session_close K i (cr EN_CRT_FIRST_IDLE); ret () });
            modify (\<lambda>s. s\<lparr>first_idle := tl (first_idle s)\<rparr>);
            idle_loop K n now
          })
   }"

definition manager_tick :: "'p glink \<Rightarrow> ('p, int) gm" where
  "manager_tick K = do {
     now \<leftarrow> gets gw_now;
     lt \<leftarrow> gets last_tick_time;
     if lt = now then ret 0
     else do {
       modify (\<lambda>s. s\<lparr>last_tick_time := now\<rparr>);
       n \<leftarrow> gets (\<lambda>s. length (reconnect_timers s));
       reconnect_loop K (Suc n + gl_fuel K) now;
       m \<leftarrow> gets (\<lambda>s. length (first_idle s));
       idle_loop K (Suc m + gl_fuel K) now;
       ret 0
     }
   }"

section \<open>Closing a session\<close>

definition erase_active :: "u64 \<Rightarrow> nat \<Rightarrow> ('p, unit) gm" where
  "erase_active k i = do {
     there \<leftarrow> gets (\<lambda>s. map_of (actived_sessions s) k = Some i);
     if there then modify (\<lambda>s. s\<lparr>actived_sessions := AList.delete k (actived_sessions s)\<rparr>)
     else gw_raise (AssertFailed ''valid iterator'')
   }"

definition erase_cache :: "u64 \<Rightarrow> nat \<Rightarrow> ('p, unit) gm" where
  "erase_cache k i = do {
     there \<leftarrow> gets (\<lambda>s. map_of (reconnect_cache s) k = Some i);
     if there then modify (\<lambda>s. s\<lparr>reconnect_cache := AList.delete k (reconnect_cache s)\<rparr>)
     else gw_raise (AssertFailed ''valid iterator'')
   }"

definition manager_close :: "'p glink \<Rightarrow> u64 \<Rightarrow> int \<Rightarrow> bool \<Rightarrow> ('p, int) gm" where
  "manager_close K sess_id reason allow_reconnect = do {
     it \<leftarrow> gets (\<lambda>s. map_of (actived_sessions s) sess_id);
     (case it of
        None \<Rightarrow>
          if allow_reconnect then ret (ec EN_ECT_SESSION_NOT_FOUND)
          else do {
            c \<leftarrow> gets (\<lambda>s. map_of (reconnect_cache s) sess_id);
            (case c of
               None \<Rightarrow> ret (ec EN_ECT_SESSION_NOT_FOUND)
             | Some i \<Rightarrow> do {
                 _ \<leftarrow> session_close K i reason;
                 put_flag i EN_FT_WAIT_RECONNECT False;
                 erase_cache sess_id i;
                 ret 0
               })
          }
      | Some i \<Rightarrow> do {
          timeout \<leftarrow> gets (\<lambda>s. reconnect_timeout (gw_conf s));
          (if timeout > 0 \<and> allow_reconnect then do {
             modify (\<lambda>s. s\<lparr>reconnect_timers := reconnect_timers s @ [(gw_now s + timeout, i)],
                          reconnect_cache := AList.update (s_id (sess i s)) i (reconnect_cache s)\<rparr>);
             put_flag i EN_FT_WAIT_RECONNECT True;
             _ \<leftarrow> close_fd K i reason;
             ret ()
           }
           else do { _ \<leftarrow> session_close K i reason; ret () });
          erase_active sess_id i;
          ret 0
        })
   }"

section \<open>Data\<close>

definition post_msg :: "'p glink \<Rightarrow> u64 \<Rightarrow> ss_msg \<Rightarrow> ('p, int) gm" where
  "post_msg K tid msg =
     (case gl_serialize K msg of
        None \<Rightarrow> ret (ec EN_ECT_BAD_DATA)
      | Some bytes \<Rightarrow> post_buffer K tid (atst EN_ATST_GATEWAY) bytes)"

definition push_data :: "'p glink \<Rightarrow> u64 \<Rightarrow> byte list \<Rightarrow> ('p, int) gm" where
  "push_data K sess_id bytes = do {
     it \<leftarrow> gets (\<lambda>s. map_of (actived_sessions s) sess_id);
     (case it of
        None \<Rightarrow> ret (ec EN_ECT_SESSION_NOT_FOUND)
      | Some i \<Rightarrow> send_to_client K i bytes)
   }"

text \<open>The loop of broadcast_data over the map of sessions, here over the sessions that are in the map when it starts. The
  source goes through the map itself; when a session it sends to is closed on the way, and taken out of the map, the
  source goes on from an iterator that is gone, which the model does not record here.\<close>

fun broadcast_loop :: "'p glink \<Rightarrow> byte list \<Rightarrow> nat list \<Rightarrow> int \<Rightarrow> ('p, int) gm" where
  "broadcast_loop K bytes [] r = ret r"
| "broadcast_loop K bytes (i # is) r = do {
     reg \<leftarrow> gets (has_flag EN_FT_REGISTERED i);
     if reg then do {
       res \<leftarrow> send_to_client K i bytes;
       broadcast_loop K bytes is (if r \<noteq> 0 then res else r)
     }
     else broadcast_loop K bytes is r
   }"

definition broadcast_data :: "'p glink \<Rightarrow> byte list \<Rightarrow> ('p, int) gm" where
  "broadcast_data K bytes = do {
     a \<leftarrow> gets actived_sessions;
     broadcast_loop K bytes (map snd a) (ec EN_ECT_SESSION_NOT_FOUND)
   }"

definition set_session_router :: "u64 \<Rightarrow> u64 \<Rightarrow> ('p, int) gm" where
  "set_session_router sess_id router = do {
     it \<leftarrow> gets (\<lambda>s. map_of (actived_sessions s) sess_id);
     (case it of
        None \<Rightarrow> ret (ec EN_ECT_SESSION_NOT_FOUND)
      | Some i \<Rightarrow> do { modify (upd_sess i (\<lambda>ss. ss\<lparr>s_router := router\<rparr>)); ret 0 })
   }"

section \<open>Reconnecting and activating\<close>

definition reconnect_takeover :: "'p glink \<Rightarrow> nat \<Rightarrow> u64 \<Rightarrow> ('p, bool) gm" where
  "reconnect_takeover K new old_id = do {
     cached \<leftarrow> gets (\<lambda>s. map_of (reconnect_cache s) old_id);
     act \<leftarrow> gets (\<lambda>s. map_of (actived_sessions s) old_id);
     new_proto \<leftarrow> gets (\<lambda>s. s_has_proto (sess new s));
     old_proto \<leftarrow> gets (\<lambda>s. case act of None \<Rightarrow> False | Some i \<Rightarrow> s_has_proto (sess i s));
     if cached = None \<and> act \<noteq> None \<and> new_proto \<and> old_proto then do {
       ok \<leftarrow> vt_check_reconnect (gl_vt K) new (the act);
       when_do ok (do { _ \<leftarrow> manager_close K old_id (cr EN_CRT_LOGOUT) True; ret () });
       ret True
     }
     else ret False
   }"

definition manager_reconnect :: "'p glink \<Rightarrow> nat \<Rightarrow> u64 \<Rightarrow> ('p, int) gm" where
  "manager_reconnect K new old_id = do {
     has_reconnect_checked \<leftarrow> reconnect_takeover K new old_id;
     it \<leftarrow> gets (\<lambda>s. map_of (reconnect_cache s) old_id);
     (case it of
        None \<Rightarrow> ret (ec EN_ECT_SESSION_NOT_FOUND)
      | Some i \<Rightarrow> do {
          os \<leftarrow> gets (sess i);
          ns \<leftarrow> gets (sess new);
          if s_check EN_FT_HAS_FD os then ret (ec EN_ECT_ALREADY_HAS_FD)
          else if s_check EN_FT_RECONNECTED os then ret (ec EN_ECT_SESSION_NOT_FOUND)
          else if \<not> s_has_proto ns \<or> \<not> s_has_proto os then ret (ec EN_ECT_BAD_PROTOCOL)
          else do {
            ok \<leftarrow> (if has_reconnect_checked then ret True else vt_check_reconnect (gl_vt K) new i);
            if \<not> ok then ret (ec EN_ECT_REFUSE_RECONNECT)
            else do {
              _ \<leftarrow> init_reconnect new i;
              _ \<leftarrow> session_close K i (cr EN_CRT_LOGOUT);
              erase_cache old_id i;
              ret 0
            }
          }
        })
   }"

definition active_session :: "'p glink \<Rightarrow> nat \<Rightarrow> ('p, int) gm" where
  "active_session K i = do {
     k \<leftarrow> gets (\<lambda>s. s_id (sess i s));
     known \<leftarrow> gets (\<lambda>s. map_of (actived_sessions s) k \<noteq> None);
     when_do known (do { _ \<leftarrow> manager_close K k (cr EN_CRT_KICKOFF) False; ret () });
     r \<leftarrow> send_new_session K i;
     if r < 0 then ret r
     else do {
       modify (\<lambda>s. s\<lparr>actived_sessions := AList.update (s_id (sess i s)) i (actived_sessions s)\<rparr>);
       ret 0
     }
   }"

section \<open>Accepting a connection\<close>

definition session_count :: "'p gateway \<Rightarrow> u64" where
  "session_count s = word_of_nat (length (reconnect_cache s)) + word_of_nat (length (actived_sessions s))"

text \<open>From the default router on, both handlers do the same with their accept function.\<close>

definition accept_session :: "'p glink \<Rightarrow> ('p, int) gm \<Rightarrow> nat \<Rightarrow> ('p, unit) gm" where
  "accept_session K accept i = do {
     modify (\<lambda>s. upd_sess i (\<lambda>ss. ss\<lparr>s_router := default_router (gw_conf s)\<rparr>) s);
     res \<leftarrow> accept;
     if res \<noteq> 0 then do { _ \<leftarrow> session_close K i (cr EN_CRT_SERVER_BUSY); ret () }
     else do {
       full \<leftarrow> gets (\<lambda>s. max_client_number (cl_limits s) > 0 \<and> session_count s \<ge> max_client_number (cl_limits s));
       if full then do { _ \<leftarrow> session_close K i (cr EN_CRT_SERVER_BUSY); ret () }
       else do {
         (case gl_on_create K of None \<Rightarrow> ret () | Some f \<Rightarrow> do { _ \<leftarrow> f i; ret () });
         modify (\<lambda>s. s\<lparr>first_idle := first_idle s @
            [(gw_now s + (if first_idle_timeout (gw_conf s) > 0 then first_idle_timeout (gw_conf s) else 1), i)]\<rparr>)
       }
     }
   }"

definition set_buffer_limits :: "'p glink \<Rightarrow> nat \<Rightarrow> ('p, unit) gm" where
  "set_buffer_limits K i = do {
     vt_recv_limit (gl_vt K) i (gl_msg_limit K) 2;
     sz \<leftarrow> gets (\<lambda>s. send_buffer_size (gw_conf s));
     vt_send_limit (gl_vt K) i sz 0
   }"

definition make_session :: "'p glink \<Rightarrow> ('p, nat option) gm" where
  "make_session K = do {
     has_proto \<leftarrow> (case gl_create_proto K of None \<Rightarrow> ret False | Some f \<Rightarrow> f);
     session_create has_proto
   }"

definition on_evt_accept_tcp :: "'p glink \<Rightarrow> int \<Rightarrow> uv_accept_t \<Rightarrow> ('p, unit) gm" where
  "on_evt_accept_tcp K status a =
     (if status \<noteq> 0 then ret ()
      else do {
        so \<leftarrow> make_session K;
        (case so of
           None \<Rightarrow> gw_log EvListenClose
         | Some i \<Rightarrow> do {
             set_buffer_limits K i;
             accept_session K (accept_tcp i a) i
           })
      })"

text \<open>
  The pipe handler sets the limits through the pointer it has just given away: session::create swaps
  it with the empty one of the new session.
\<close>

definition on_evt_accept_pipe :: "'p glink \<Rightarrow> int \<Rightarrow> uv_accept_t \<Rightarrow> ('p, unit) gm" where
  "on_evt_accept_pipe K status a =
     (if status \<noteq> 0 then ret ()
      else do {
        so \<leftarrow> make_session K;
        (case so of
           None \<Rightarrow> gw_log EvListenClose
         | Some i \<Rightarrow> do {
             gw_raise (NullDeref ''proto'');
             accept_session K (accept_pipe i a) i
           })
      })"

end
