(* ===== verification/Gateway.thy ===== *)
theory Gateway
  imports SessionManager
begin

text \<open>
  The gateway application (service/atgateway/atgateway.cpp): the functions libuv calls on a connection,
  the callbacks the protocol objects call, the commands of the operator, and the handler of messages
  from the servers. The private data of a protocol object is its session (session::create sets it),
  so the callbacks take the session.
\<close>

section \<open>Configuration\<close>

text \<open>
  reload reads the configuration file through the loader of the framework; its answer for a key is a
  parameter (None when the key is absent, which leaves the default).
\<close>

record conf_source =
  cf_num :: "string \<Rightarrow> int option"
  cf_str :: "string \<Rightarrow> string option"
  cf_strs :: "string \<Rightarrow> string list option"

definition cf_u64 :: "conf_source \<Rightarrow> string \<Rightarrow> u64 \<Rightarrow> u64" where
  "cf_u64 cf key dflt = (case cf_num cf key of None \<Rightarrow> dflt | Some v \<Rightarrow> word_of_int v)"

definition cf_int :: "conf_source \<Rightarrow> string \<Rightarrow> int \<Rightarrow> int" where
  "cf_int cf key dflt = (case cf_num cf key of None \<Rightarrow> dflt | Some v \<Rightarrow> v)"

definition cf_string :: "conf_source \<Rightarrow> string \<Rightarrow> string \<Rightarrow> string" where
  "cf_string cf key dflt = (case cf_str cf key of None \<Rightarrow> dflt | Some v \<Rightarrow> v)"

definition reload_limits :: "conf_source \<Rightarrow> client_limit_t" where
  "reload_limits cf = \<lparr>
     max_total_recv_bytes = cf_u64 cf ''atgateway.client.limit.total_recv_bytes'' 0,
     max_total_send_bytes = cf_u64 cf ''atgateway.client.limit.total_send_bytes'' 0,
     max_hour_recv_bytes = cf_u64 cf ''atgateway.client.limit.hour_recv_bytes'' 0,
     max_hour_send_bytes = cf_u64 cf ''atgateway.client.limit.hour_send_bytes'' 0,
     max_minute_recv_bytes = cf_u64 cf ''atgateway.client.limit.minute_recv_bytes'' 0,
     max_minute_send_bytes = cf_u64 cf ''atgateway.client.limit.minute_send_bytes'' 0,
     max_total_recv_times = cf_u64 cf ''atgateway.client.limit.total_recv_times'' 0,
     max_total_send_times = cf_u64 cf ''atgateway.client.limit.total_send_times'' 0,
     max_hour_recv_times = cf_u64 cf ''atgateway.client.limit.hour_recv_times'' 0,
     max_hour_send_times = cf_u64 cf ''atgateway.client.limit.hour_send_times'' 0,
     max_minute_recv_times = cf_u64 cf ''atgateway.client.limit.minute_recv_times'' 0,
     max_minute_send_times = cf_u64 cf ''atgateway.client.limit.minute_send_times'' 0,
     max_client_number = cf_u64 cf ''atgateway.listen.max_client'' 65536\<rparr>"

definition reload_crypt :: "conf_source \<Rightarrow> crypt_conf" where
  "reload_crypt cf =
     (let dh = cf_string cf ''atgateway.client.crypt.dhparam'' []
      in \<lparr>conf_default_key = cf_string cf ''atgateway.client.crypt.key'' [],
          conf_update_interval = cf_int cf ''atgateway.client.crypt.update_interval'' 300,
          conf_type = cf_string cf ''atgateway.client.crypt.type'' [],
          conf_switch_secret_type =
            (if dh = [] then sst EN_SST_DIRECT
             else if map tolower_ch (take 5 dh) = ''ecdh:'' then sst EN_SST_ECDH else sst EN_SST_DH),
          conf_dh_param = dh,
          conf_client_mode = False\<rparr>)"

definition reload_conf :: "conf_source \<Rightarrow> u64 \<Rightarrow> gw_conf_t" where
  "reload_conf cf version = \<lparr>
     conf_version = version + 1,
     limits = reload_limits cf,
     listen_address = (case cf_strs cf ''atgateway.listen.address'' of None \<Rightarrow> [] | Some l \<Rightarrow> l),
     listen_type = cf_string cf ''atgateway.listen.type'' [],
     listen_backlog = cf_int cf ''atgateway.listen.backlog'' 1024,
     reconnect_timeout = cf_int cf ''atgateway.client.reconnect_timeout'' 180,
     first_idle_timeout = cf_int cf ''atgateway.client.first_idle_timeout'' 10,
     send_buffer_size = cf_u64 cf ''atgateway.client.send_buffer_size'' 1048576,
     default_router = cf_u64 cf ''atgateway.client.router.default'' 0,
     crypt = reload_crypt cf\<rparr>"

text \<open>The result is the code and the global configuration of the protocol (\<open>current\<close> before the call).\<close>

definition gateway_reload ::
  "('c, 'd, 'g) crypto_lib \<Rightarrow> conf_source \<Rightarrow> 'g global_conf option \<Rightarrow> ('p, int \<times> 'g global_conf option) gm" where
  "gateway_reload L cf current = do {
     modify (\<lambda>s. s\<lparr>gw_conf := reload_conf cf (conf_version (gw_conf s))\<rparr>);
     conf \<leftarrow> gets gw_conf;
     ret (if listen_type conf = ''inner'' then
            (case global_reload L (crypt conf) current of (r, cur) \<Rightarrow> (if r < 0 then r else 0, cur))
          else (0, current))
   }"

text \<open>init, with the bus node of the application there: \<open>ans\<close> is what the libraries answer for an address.\<close>

definition gateway_init :: "'p glink \<Rightarrow> (string \<Rightarrow> listen_answer) \<Rightarrow> ('p, int) gm" where
  "gateway_init K ans = do {
     modify (\<lambda>s. s\<lparr>gw_conf := (gw_conf s)\<lparr>conf_version := 1\<rparr>\<rparr>);
     inner \<leftarrow> gets (\<lambda>s. listen_type (gw_conf s) = ''inner'');
     if \<not> inner then ret (-1)
     else do {
       _ \<leftarrow> manager_init K;
       n \<leftarrow> listen_all ans;
       ret (if n = 0 then -1 else 0)
     }
   }"

definition gateway_stop :: "'p glink \<Rightarrow> ('p, int) gm" where
  "gateway_stop K = do { _ \<leftarrow> manager_reset K; ret 0 }"

section \<open>Functions of libuv\<close>

text \<open>The alloc callback of libuv: the session is the data of the handle; the result is the buffer that is set.\<close>

definition proto_inner_callback_on_read_alloc :: "'p glink \<Rightarrow> nat option \<Rightarrow> u64 \<Rightarrow> ('p, u64 option) gm" where
  "proto_inner_callback_on_read_alloc K data suggested =
     (case data of
        None \<Rightarrow> do { gw_raise (AssertFailed ''sess''); ret None }
      | Some i \<Rightarrow> on_alloc_read K i suggested)"

lemma on_read_alloc_some: "proto_inner_callback_on_read_alloc K (Some i) n = on_alloc_read K i n"
  by (simp add: proto_inner_callback_on_read_alloc_def)

definition on_read_data :: "'p glink \<Rightarrow> nat \<Rightarrow> int \<Rightarrow> byte list option \<Rightarrow> ('p, unit) gm" where
  "on_read_data K i nread buf = do {
     ss \<leftarrow> gets (sess i);
     if s_check EN_FT_CLOSING ss then ret ()
     else if \<not> s_owner ss then ret ()
     else if nread = 0 \<or> gl_uv_again K nread then ret ()
     else if nread < 0 then do { _ \<leftarrow> manager_close K (s_id ss) (cr EN_CRT_RESET) True; ret () }
     else (case buf of None \<Rightarrow> ret () | Some bytes \<Rightarrow> on_read K i nread bytes)
   }"

definition on_create_session :: "nat \<Rightarrow> ('p, int) gm" where
  "on_create_session i = do { gw_log (EvReadStart i); ret 0 }"

definition on_written :: "'p glink \<Rightarrow> nat \<Rightarrow> int \<Rightarrow> ('p, unit) gm" where
  "on_written K i status = do {
     put_flag i EN_FT_WRITING_FD False;
     _ \<leftarrow> on_write_done K i status;
     ret ()
   }"

section \<open>Callbacks of a protocol object\<close>

text \<open>The write callback: \<open>hdr\<close> is the header space of the object. The result is the code and is_done.\<close>

definition cb_write :: "'p glink \<Rightarrow> nat \<Rightarrow> nat \<Rightarrow> byte list \<Rightarrow> ('p, int \<times> bool) gm" where
  "cb_write K hdr i buffer = do {
     when_do (length buffer < hdr) (gw_raise (AssertFailed ''sz >= write_header_offset''));
     put_flag i EN_FT_WRITING_FD True;
     gw_log (EvUvWrite i (drop hdr buffer));
     let r = gl_uv_write K i (drop hdr buffer);
     when_do (r \<noteq> 0) (put_flag i EN_FT_WRITING_FD False);
     writing \<leftarrow> gets (has_flag EN_FT_WRITING_FD i);
     ret (r, \<not> writing)
   }"

definition cb_message :: "'p glink \<Rightarrow> nat \<Rightarrow> byte list \<Rightarrow> ('p, int) gm" where
  "cb_message K i bytes = do {
     ss \<leftarrow> gets (sess i);
     post_msg K (s_router ss) \<lparr>ss_session_id = s_id ss, ss_error_code = 0, ss_body = Cmd_post [s_id ss] bytes\<rparr>
   }"

definition cb_new_session :: "nat \<Rightarrow> ('p, int \<times> u64) gm" where
  "cb_new_session i = do {
     router \<leftarrow> gets (\<lambda>s. default_router (gw_conf s));
     r \<leftarrow> init_new_session i router;
     k \<leftarrow> gets (\<lambda>s. s_id (sess i s));
     ret (r, k)
   }"

definition cb_reconnect :: "'p glink \<Rightarrow> nat \<Rightarrow> u64 \<Rightarrow> ('p, int) gm" where
  "cb_reconnect K i old_id = do {
     inited \<leftarrow> gets (has_flag EN_FT_INITED i);
     if inited then ret (-1) else manager_reconnect K i old_id
   }"

definition cb_close :: "'p glink \<Rightarrow> nat \<Rightarrow> int \<Rightarrow> ('p, int) gm" where
  "cb_close K i reason = do {
     ss \<leftarrow> gets (sess i);
     if s_check EN_FT_CLOSING ss then ret 0
     else do {
       let enable_reconnect = (reason \<le> cr EN_CRT_RECONNECT_BOUND);
       (if s_owner ss then do {
          r \<leftarrow> manager_close K (s_id ss) reason enable_reconnect;
          when_do (r < 0) (do { _ \<leftarrow> session_close K i reason; ret () })
        }
        else do { _ \<leftarrow> session_close K i reason; ret () });
       ret 0
     }
   }"

definition cb_handshake_done :: "'p glink \<Rightarrow> nat \<Rightarrow> int \<Rightarrow> ('p, int) gm" where
  "cb_handshake_done K i status =
     (if status \<noteq> 0 then ret 0
      else do {
        r \<leftarrow> active_session K i;
        ret (if r \<noteq> 0 then -1 else 0)
      })"

section \<open>Commands of the operator\<close>

text \<open>The parameters are the decoded session id and reason, None where one is missing.\<close>

definition cmd_kickoff :: "'p glink \<Rightarrow> u64 option \<Rightarrow> int option \<Rightarrow> ('p, int) gm" where
  "cmd_kickoff K sess_id reason =
     (case sess_id of
        None \<Rightarrow> ret 0
      | Some k \<Rightarrow> do {
          _ \<leftarrow> manager_close K k (case reason of None \<Rightarrow> cr EN_CRT_KICKOFF | Some r \<Rightarrow> r) False;
          ret 0
        })"

definition cmd_disconnect :: "'p glink \<Rightarrow> u64 option \<Rightarrow> int option \<Rightarrow> ('p, int) gm" where
  "cmd_disconnect K sess_id reason =
     (case sess_id of
        None \<Rightarrow> ret 0
      | Some k \<Rightarrow> do {
          _ \<leftarrow> manager_close K k (case reason of None \<Rightarrow> cr EN_CRT_RESET | Some r \<Rightarrow> r) True;
          ret 0
        })"

section \<open>Messages from the servers\<close>

fun multicast :: "'p glink \<Rightarrow> byte list \<Rightarrow> u64 list \<Rightarrow> ('p, unit) gm" where
  "multicast K bytes [] = ret ()"
| "multicast K bytes (k # ks) = do { _ \<leftarrow> push_data K k bytes; multicast K bytes ks }"

text \<open>A parsed message \<open>msg\<close> of the server \<open>src\<close>.\<close>

definition on_server_msg :: "'p glink \<Rightarrow> u64 \<Rightarrow> ss_msg \<Rightarrow> ('p, int) gm" where
  "on_server_msg K src msg =
     (let k = ss_session_id msg in
      case ss_body msg of
        Cmd_post ids content \<Rightarrow>
          if k \<noteq> 0 \<and> ids = [] then do {
            r \<leftarrow> push_data K k content;
            when_do (r = ec EN_ECT_SESSION_NOT_FOUND) (do {
              _ \<leftarrow> post_msg K src \<lparr>ss_session_id = k, ss_error_code = 0, ss_body = Cmd_remove_session [] 0\<rparr>;
              ret ()
            });
            ret 0
          }
          else if ids = [] then do { _ \<leftarrow> broadcast_data K content; ret 0 }
          else do { multicast K content ids; ret 0 }
      | Cmd_kickoff_session \<Rightarrow> do {
          _ \<leftarrow> (if ss_error_code msg = 0 then manager_close K k (cr EN_CRT_KICKOFF) False
               else manager_close K k (ss_error_code msg)
                      (ss_error_code msg > 0 \<and> ss_error_code msg < cr EN_CRT_RECONNECT_BOUND));
          ret 0
        }
      | Cmd_set_router_req router \<Rightarrow> do {
          r \<leftarrow> set_session_router k router;
          _ \<leftarrow> post_msg K src \<lparr>ss_session_id = k, ss_error_code = r, ss_body = Cmd_set_router_rsp router\<rparr>;
          ret 0
        }
      | _ \<Rightarrow> ret 0)"

text \<open>The handler itself: the bytes are parsed by the protobuf library, None when it fails.\<close>

definition app_handle_on_recv ::
  "'p glink \<Rightarrow> (byte list \<Rightarrow> ss_msg option) \<Rightarrow> u64 option \<Rightarrow> byte list \<Rightarrow> ('p, int) gm" where
  "app_handle_on_recv K parse src bytes =
     (case src of
        None \<Rightarrow> ret 0
      | Some tid \<Rightarrow>
          if bytes = [] then ret 0
          else (case parse bytes of None \<Rightarrow> ret 0 | Some msg \<Rightarrow> on_server_msg K tid msg))"

text \<open>
  The answer of the bus to a message that could not be forwarded: nothing is done but logging where it stopped, the
  last router, or the sender of the answer when there is none.
\<close>

record forward_response =
  fr_ret :: int
  fr_transform_rsp :: bool
  fr_src_bus_id :: u64
  fr_router :: "u64 list"

definition app_handle_on_forward_response :: "forward_response \<Rightarrow> u64 option \<times> int" where
  "app_handle_on_forward_response m =
     (if fr_ret m \<ge> 0 \<or> \<not> fr_transform_rsp m then (None, 0)
      else (Some (if fr_router m \<noteq> [] then last (fr_router m) else fr_src_bus_id m), 0))"

end
