(* ===== verification/GwCore.thy ===== *)
theory GwCore
  imports Gateway
begin

text \<open>
  What every operation of the gateway keeps, whatever the protocol objects do as long as they keep it
  too: \<open>gw_rel s s'\<close> relates the states before and after. One lemma per operation, in \<open>gw_io\<close>.
\<close>

named_theorems gw_io \<open>operations of the gateway keep its relation\<close>

section \<open>The relation\<close>

definition session_ok :: "session \<Rightarrow> bool" where
  "session_ok a \<longleftrightarrow>
     (s_check EN_FT_HAS_FD a \<longrightarrow> s_owner a \<and> \<not> s_check EN_FT_CLOSING a \<and> \<not> s_check EN_FT_CLOSING_FD a) \<and>
     (s_check EN_FT_CLOSING_FD a \<longrightarrow> s_holder a)"

definition gw_ok :: "'p gateway \<Rightarrow> bool" where
  "gw_ok s \<longleftrightarrow> (\<forall>i < length (gw_sessions s). session_ok (sess i s))"

definition keeps :: "session \<Rightarrow> session \<Rightarrow> bool" where
  "keeps a b \<longleftrightarrow>
     (s_check EN_FT_CLOSING a \<longrightarrow> s_check EN_FT_CLOSING b) \<and>
     (s_check EN_FT_RECONNECTED a \<longrightarrow> s_check EN_FT_RECONNECTED b) \<and>
     (s_owner b \<longrightarrow> s_owner a) \<and> (s_check EN_FT_HAS_FD b \<longrightarrow> s_check EN_FT_HAS_FD a) \<and>
     (s_check EN_FT_HAS_FD a \<and> \<not> s_check EN_FT_HAS_FD b \<longrightarrow> \<not> s_owner b) \<and>
     s_has_proto b = s_has_proto a"

definition client_data :: "nat \<Rightarrow> gw_event list \<Rightarrow> byte list list" where
  "client_data i tr = concat (map (\<lambda>e. case e of EvToClient j bs \<Rightarrow> if j = i then [bs] else [] | _ \<Rightarrow> []) tr)"

definition gw_rel :: "'p gateway \<Rightarrow> 'p gateway \<Rightarrow> bool" where
  "gw_rel s s' \<longleftrightarrow> prefix (gw_faults s) (gw_faults s') \<and>
     length (gw_sessions s) \<le> length (gw_sessions s') \<and>
     (\<forall>i < length (gw_sessions s). keeps (sess i s) (sess i s') \<and>
        (s_check EN_FT_CLOSING (sess i s) \<longrightarrow> client_data i (gw_trace s') = client_data i (gw_trace s))) \<and>
     (gw_ok s \<longrightarrow> gw_ok s')"

lemma keeps_refl [simp]: "keeps a a"
  by (simp add: keeps_def)

lemma keeps_trans: "keeps a b \<Longrightarrow> keeps b c \<Longrightarrow> keeps a c"
  by (auto simp: keeps_def)

lemma gw_rel_pre: "rel_pre gw_rel"
  unfolding rel_pre_def
proof (intro conjI allI impI)
  fix a b c :: "'p gateway"
  assume ab: "gw_rel a b" and bc: "gw_rel b c"
  show "gw_rel a c"
    unfolding gw_rel_def
  proof (intro conjI allI impI)
    show "prefix (gw_faults a) (gw_faults c)" using ab bc by (auto simp: gw_rel_def intro: prefix_order.trans)
    show "length (gw_sessions a) \<le> length (gw_sessions c)" using ab bc by (simp add: gw_rel_def)
    show "gw_ok a \<Longrightarrow> gw_ok c" using ab bc by (simp add: gw_rel_def)
    fix i assume i: "i < length (gw_sessions a)"
    then have j: "i < length (gw_sessions b)" using ab by (auto simp: gw_rel_def)
    have k: "keeps (sess i a) (sess i b)" "keeps (sess i b) (sess i c)"
      using ab bc i j by (auto simp: gw_rel_def)
    then show "keeps (sess i a) (sess i c)" by (rule keeps_trans)
    assume "s_check EN_FT_CLOSING (sess i a)"
    moreover then have "s_check EN_FT_CLOSING (sess i b)" using k by (simp add: keeps_def)
    ultimately show "client_data i (gw_trace c) = client_data i (gw_trace a)"
      using ab bc i j by (auto simp: gw_rel_def)
  qed
qed (simp add: gw_rel_def)

lemma gw_rel_refl [simp]: "gw_rel s s"
  using gw_rel_pre by (rule rel_pre_refl)

lemma gw_rel_trans: "gw_rel a b \<Longrightarrow> gw_rel b c \<Longrightarrow> gw_rel a c"
  using gw_rel_pre by (rule rel_pre_trans)

lemmas gw_rules = io_rel_bind [OF gw_rel_pre] io_rel_return [OF gw_rel_pre] io_rel_gets [OF gw_rel_pre]
  io_rel_when [OF gw_rel_pre] io_rel_if io_rel_case_option io_rel_case_prod io_rel_let io_rel_case_list

section \<open>Updates\<close>

lemma sess_upd [simp]:
  "i < length (gw_sessions s) \<Longrightarrow> sess i (upd_sess i f s) = f (sess i s)"
  "j \<noteq> i \<Longrightarrow> sess j (upd_sess i f s) = sess j s"
  "length (gw_sessions (upd_sess i f s)) = length (gw_sessions s)"
  by (simp_all add: sess_def upd_sess_def)

lemma upd_sess_frame [simp]:
  "gw_faults (upd_sess i f s) = gw_faults s" "gw_trace (upd_sess i f s) = gw_trace s"
  "gw_conf (upd_sess i f s) = gw_conf s" "gw_now (upd_sess i f s) = gw_now s"
  "actived_sessions (upd_sess i f s) = actived_sessions s" "first_idle (upd_sess i f s) = first_idle s"
  "reconnect_cache (upd_sess i f s) = reconnect_cache s" "reconnect_timers (upd_sess i f s) = reconnect_timers s"
  "app_node (upd_sess i f s) = app_node s" "last_tick_time (upd_sess i f s) = last_tick_time s"
  "gw_protos (upd_sess i f s) = gw_protos s" "listen_handles (upd_sess i f s) = listen_handles s"
  by (simp_all add: upd_sess_def)

text \<open>An update of session \<open>i\<close> keeps the relation if it does so on that session.\<close>

lemma gw_rel_upd:
  assumes "\<And>a. keeps a (f a)" and "\<And>a. session_ok a \<Longrightarrow> session_ok (f a)"
  shows "gw_rel s (upd_sess i f s)"
proof -
  have "keeps (sess j s) (sess j (upd_sess i f s))" "session_ok (sess j s) \<Longrightarrow> session_ok (sess j (upd_sess i f s))"
    if "j < length (gw_sessions s)" for j
    using assms that by (cases "j = i"; simp)+
  then show ?thesis by (auto simp: gw_rel_def gw_ok_def)
qed

lemma upd_rel: "(\<And>a. keeps a (f a)) \<Longrightarrow> (\<And>a. session_ok a \<Longrightarrow> session_ok (f a)) \<Longrightarrow>
    state_io_rel gw_rel (modify (upd_sess i f))"
  by (rule io_rel_modify, rule gw_rel_upd)

text \<open>An update outside the sessions.\<close>

lemma gw_rel_other:
  assumes "gw_sessions s' = gw_sessions s" and "prefix (gw_faults s) (gw_faults s')"
    and "\<And>i. client_data i (gw_trace s') = client_data i (gw_trace s)"
  shows "gw_rel s s'"
  using assms by (simp add: gw_rel_def gw_ok_def sess_def)

lemma put_flag_rel [gw_io]:
  "t \<in> {EN_FT_INITED, EN_FT_REGISTERED, EN_FT_WAIT_RECONNECT, EN_FT_WRITING_FD} \<or> t = EN_FT_RECONNECTED \<and> v \<or>
   t = EN_FT_CLOSING_FD \<and> \<not> v \<Longrightarrow> state_io_rel gw_rel (put_flag i t v)"
  unfolding put_flag_def by (rule upd_rel) (auto simp: keeps_def session_ok_def)

lemma upd_limit_rel [gw_io]: "state_io_rel gw_rel (upd_limit i f)"
  unfolding upd_limit_def by (rule upd_rel) (auto simp: keeps_def session_ok_def)

lemma gw_raise_rel [gw_io]: "state_io_rel gw_rel (gw_raise f)"
  unfolding gw_raise_def by (rule io_rel_modify, rule gw_rel_other) auto

lemma client_data_snoc: "client_data i (tr @ [e]) = client_data i tr @
    (case e of EvToClient j bs \<Rightarrow> if j = i then [bs] else [] | _ \<Rightarrow> [])"
  by (simp add: client_data_def)

lemma gw_log_rel [gw_io]: "(\<And>j bs. e \<noteq> EvToClient j bs) \<Longrightarrow> state_io_rel gw_rel (gw_log e)"
  unfolding gw_log_def
  by (rule io_rel_modify, rule gw_rel_other) (auto simp: client_data_snoc split: gw_event.split)

section \<open>Protocol objects\<close>

text \<open>
  What is asked of the virtual functions: they keep the relation; the two functions that set the
  limits of the buffers, and the one that makes a protocol object, leave the sessions alone.
\<close>

definition same_sessions :: "'p gateway \<Rightarrow> 'p gateway \<Rightarrow> bool" where
  "same_sessions s s' \<longleftrightarrow> gw_rel s s' \<and> gw_sessions s' = gw_sessions s"

definition vt_ok :: "'p gateway proto_vt \<Rightarrow> bool" where
  "vt_ok V \<longleftrightarrow>
     (\<forall>i n. state_io_rel gw_rel (vt_alloc V i n)) \<and>
     (\<forall>i n bs. state_io_rel gw_rel (vt_read V i n bs)) \<and>
     (\<forall>i bs. state_io_rel gw_rel (vt_write V i bs)) \<and>
     (\<forall>i n. state_io_rel gw_rel (vt_write_done V i n)) \<and>
     (\<forall>i r. state_io_rel gw_rel (vt_close V i r)) \<and>
     (\<forall>i j. state_io_rel gw_rel (vt_check_reconnect V i j)) \<and>
     (\<forall>i a b. state_io_rel same_sessions (vt_recv_limit V i a b)) \<and>
     (\<forall>i a b. state_io_rel same_sessions (vt_send_limit V i a b)) \<and>
     (\<forall>i. state_io_rel gw_rel (vt_handshake_update V i))"

definition link_ok :: "'p glink \<Rightarrow> bool" where
  "link_ok K \<longleftrightarrow> vt_ok (gl_vt K) \<and>
     (\<forall>m. gl_create_proto K = Some m \<longrightarrow> state_io_rel same_sessions m) \<and>
     (\<forall>f i. gl_on_create K = Some f \<longrightarrow> state_io_rel gw_rel (f i))"

lemma same_sessions_pre: "rel_pre same_sessions"
  using gw_rel_pre by (auto simp: rel_pre_def same_sessions_def)

lemma vt_rules:
  assumes "link_ok K"
  shows "state_io_rel gw_rel (vt_alloc (gl_vt K) i n)" "state_io_rel gw_rel (vt_read (gl_vt K) i z bs)"
    "state_io_rel gw_rel (vt_write (gl_vt K) i bs)" "state_io_rel gw_rel (vt_write_done (gl_vt K) i z)"
    "state_io_rel gw_rel (vt_close (gl_vt K) i z)" "state_io_rel gw_rel (vt_check_reconnect (gl_vt K) i j)"
    "state_io_rel gw_rel (vt_handshake_update (gl_vt K) i)"
    "state_io_rel same_sessions (vt_recv_limit (gl_vt K) i a b)" "state_io_rel same_sessions (vt_send_limit (gl_vt K) i a b)"
    "gl_create_proto K = Some m \<Longrightarrow> state_io_rel same_sessions m"
    "gl_on_create K = Some f \<Longrightarrow> state_io_rel gw_rel (f i)"
  using assms by (auto simp: link_ok_def vt_ok_def)

section \<open>Session\<close>

lemma limit_test_rel [gw_io]:
  "state_io_rel gw_rel cl \<Longrightarrow> state_io_rel gw_rel (limit_test cl i e p b c)"
  unfolding limit_test_def by (intro gw_rules gw_io)

lemma check_limits_rel [gw_io]:
  assumes "link_ok K" and "state_io_rel gw_rel cl"
  shows "state_io_rel gw_rel (check_limits K cl i a b)"
    and "state_io_rel gw_rel (check_total_limit K cl i a b)"
    and "state_io_rel gw_rel (check_minute_limit K cl i a b)"
    and "state_io_rel gw_rel (check_hour_limit K cl i a b)"
  unfolding check_limits_def check_hour_limit_def check_minute_limit_def check_total_limit_def
  by (intro gw_rules gw_io assms(2) vt_rules [OF assms(1)])+

lemma post_buffer_rel [gw_io]: "state_io_rel gw_rel (post_buffer K tid ty bs)"
  unfolding post_buffer_def by (intro gw_rules gw_io; simp)

lemma send_to_server_rel [gw_io]:
  assumes "link_ok K" and "state_io_rel gw_rel cl"
  shows "state_io_rel gw_rel (send_to_server_with K cl i msg mgr)"
  unfolding send_to_server_with_def by (intro gw_rules gw_io assms)

lemma send_notify_rel [gw_io]:
  assumes "link_ok K" and "state_io_rel gw_rel cl"
  shows "state_io_rel gw_rel (send_new_session_with K cl i)"
    and "state_io_rel gw_rel (send_remove_session_with K cl i mgr)"
  unfolding send_new_session_with_def send_remove_session_with_def
  by (intro gw_rules gw_io assms; simp)+

lemma gw_ioD: "state_io_rel gw_rel m \<Longrightarrow> run_state m s = (r, s') \<Longrightarrow> gw_rel s s'"
  using io_relD [of gw_rel m s] by simp

lemma has_flag_range: "has_flag t i s \<Longrightarrow> i < length (gw_sessions s)"
  by (auto simp: has_flag_def sess_def split: if_splits)

lemma run_close_fd:
  "run_state (close_fd K i reason) s =
    (if has_flag EN_FT_CLOSING_FD i s \<or> \<not> has_flag EN_FT_HAS_FD i s then (0, s)
     else let s1 = upd_sess i (s_set EN_FT_HAS_FD False) s;
              s2 = (if s_has_proto (sess i s1) then snd (run_state (vt_close (gl_vt K) i reason) s1) else s1);
              s3 = upd_sess i (\<lambda>ss. s_set EN_FT_CLOSING_FD True ss) (upd_sess i (\<lambda>ss. ss\<lparr>s_owner := False, s_holder := True\<rparr>) s2)
          in (0, if \<not> s_has_proto (sess i s1) \<or> vt_closed (gl_vt K) i s3
                 then s3\<lparr>gw_trace := gw_trace s3 @ [EvUvShutdown i]\<rparr> else s3))"
  by (simp add: close_fd_def put_flag_def gw_log_def Let_def case_prod_unfold)

lemma gw_rel_detach:
  assumes i: "i < length (gw_sessions s)" and fd: "s_check EN_FT_HAS_FD (sess i s)"
    and f: "f = s_set EN_FT_HAS_FD False \<or> f = (\<lambda>a. s_set EN_FT_HAS_FD False (s_set EN_FT_CLOSING True a))"
    and mid: "gw_rel (upd_sess i f s) s2"
    and s3: "s3 = upd_sess i (\<lambda>ss. s_set EN_FT_CLOSING_FD True ss) (upd_sess i (\<lambda>ss. ss\<lparr>s_owner := False, s_holder := True\<rparr>) s2)"
  shows "gw_rel s s3"
proof -
  let ?s1 = "upd_sess i f s"
  have j: "i < length (gw_sessions s2)" using mid i by (simp add: gw_rel_def)
  have ok1: "gw_ok ?s1" if "gw_ok s"
    unfolding gw_ok_def
  proof (intro allI impI)
    fix k assume "k < length (gw_sessions ?s1)"
    with that i f show "session_ok (sess k ?s1)"
      by (cases "k = i") (auto simp: gw_ok_def session_ok_def)
  qed
  have ok3: "gw_ok s3" if "gw_ok s2" and "\<not> s_check EN_FT_HAS_FD (sess i s2)"
    unfolding gw_ok_def
  proof (intro allI impI)
    fix k assume "k < length (gw_sessions s3)"
    with that j show "session_ok (sess k s3)"
      by (cases "k = i") (auto simp: gw_ok_def session_ok_def s3)
  qed
  have nofd: "\<not> s_check EN_FT_HAS_FD (sess i s2)"
    using mid i f by (auto simp: gw_rel_def keeps_def)
  have k: "keeps (sess k s) (sess k s3) \<and>
      (s_check EN_FT_CLOSING (sess k s) \<longrightarrow> client_data k (gw_trace s3) = client_data k (gw_trace s))"
    if "k < length (gw_sessions s)" for k
    using mid that i j nofd f by (cases "k = i") (auto simp: gw_rel_def keeps_def s3)
  show ?thesis
    using mid k ok1 ok3 nofd by (auto simp: gw_rel_def s3)
qed

lemma run_close_fd_rel:
  fixes K :: "'p glink"
  assumes K: "link_ok K" and fd: "\<not> has_flag EN_FT_CLOSING_FD i s0" "has_flag EN_FT_HAS_FD i s0"
    and s0: "i < length (gw_sessions s)" "s_check EN_FT_HAS_FD (sess i s)"
    and f: "f = s_set EN_FT_HAS_FD False \<or> f = (\<lambda>a. s_set EN_FT_HAS_FD False (s_set EN_FT_CLOSING True a))"
    and eq: "upd_sess i (s_set EN_FT_HAS_FD False) s0 = upd_sess i f s"
  shows "gw_rel s (snd (run_state (close_fd K i reason) s0))"
proof -
  let ?s1 = "upd_sess i f s"
  define s2 where "s2 = (if s_has_proto (sess i ?s1) then snd (run_state (vt_close (gl_vt K) i reason) ?s1) else ?s1)"
  have mid: "gw_rel ?s1 s2"
    using io_relD [OF vt_rules(5) [OF K]] by (simp add: s2_def)
  define s3 where "s3 = upd_sess i (\<lambda>ss. s_set EN_FT_CLOSING_FD True ss)
      (upd_sess i (\<lambda>ss. ss\<lparr>s_owner := False, s_holder := True\<rparr>) s2)"
  have r3: "gw_rel s s3" by (rule gw_rel_detach [OF s0 f mid s3_def])
  have r4: "gw_rel s3 (s3\<lparr>gw_trace := gw_trace s3 @ [EvUvShutdown i]\<rparr>)"
    by (rule gw_rel_other) (simp_all add: client_data_snoc)
  have "snd (run_state (close_fd K i reason) s0) =
      (if \<not> s_has_proto (sess i ?s1) \<or> vt_closed (gl_vt K) i s3
       then s3\<lparr>gw_trace := gw_trace s3 @ [EvUvShutdown i]\<rparr> else s3)"
    using fd by (simp add: run_close_fd eq Let_def s2_def s3_def)
  then show ?thesis using r3 gw_rel_trans [OF r3 r4] by simp
qed

lemma close_fd_rel [gw_io]:
  fixes K :: "'p glink"
  assumes "link_ok K"
  shows "state_io_rel gw_rel (close_fd K i reason)"
  unfolding state_io_rel_def
proof
  fix s :: "'p gateway"
  show "gw_rel s (snd (run_state (close_fd K i reason) s))"
  proof (cases "has_flag EN_FT_CLOSING_FD i s \<or> \<not> has_flag EN_FT_HAS_FD i s")
    case True
    then show ?thesis by (simp add: run_close_fd)
  next
    case False
    then have "i < length (gw_sessions s)" "s_check EN_FT_HAS_FD (sess i s)"
      using has_flag_range by (auto simp: has_flag_def)
    with False show ?thesis using run_close_fd_rel [OF assms _ _ _ _ _ refl] by simp
  qed
qed

text \<open>Setting CLOSING and giving up the descriptor go together: between them the invariant does not hold.\<close>

lemma upd_sess_twice: "upd_sess i f (upd_sess i g s) = upd_sess i (\<lambda>a. f (g a)) s"
  by (cases "i < length (gw_sessions s)") (simp_all add: upd_sess_def list_update_beyond)

lemma upd_sess_faults: "upd_sess i f (s\<lparr>gw_faults := x\<rparr>) = (upd_sess i f s)\<lparr>gw_faults := x\<rparr>"
  by (simp add: upd_sess_def)

lemma upd_sess_id: "upd_sess i id s = s"
  by (simp add: upd_sess_def)

lemma mark_and_close_rel [gw_io]:
  fixes K :: "'p glink"
  assumes "link_ok K"
  shows "state_io_rel gw_rel (do { put_flag i EN_FT_CLOSING True; close_fd K i reason })"
  unfolding state_io_rel_def
proof
  fix s :: "'p gateway"
  let ?s0 = "upd_sess i (s_set EN_FT_CLOSING True) s"
  have run: "snd (run_state (do { put_flag i EN_FT_CLOSING True; close_fd K i reason }) s) =
      snd (run_state (close_fd K i reason) ?s0)" by (simp add: put_flag_def)
  have same: "has_flag t i ?s0 = has_flag t i s" if "t \<noteq> EN_FT_CLOSING" for t
    using that by (cases "i < length (gw_sessions s)") (simp_all add: has_flag_def, simp add: sess_def)
  show "gw_rel s (snd (run_state (do { put_flag i EN_FT_CLOSING True; close_fd K i reason }) s))"
  proof (cases "has_flag EN_FT_CLOSING_FD i s \<or> \<not> has_flag EN_FT_HAS_FD i s")
    case True
    have "keeps (sess k s) (sess k ?s0)" if "k < length (gw_sessions s)" for k
      using that by (cases "k = i") (auto simp: keeps_def)
    moreover have "gw_ok ?s0" if ok: "gw_ok s"
      unfolding gw_ok_def
    proof (intro allI impI)
      fix k assume "k < length (gw_sessions ?s0)"
      with ok True show "session_ok (sess k ?s0)"
        by (cases "k = i") (auto simp: gw_ok_def session_ok_def has_flag_def)
    qed
    ultimately have "gw_rel s ?s0" by (simp add: gw_rel_def)
    moreover have "snd (run_state (close_fd K i reason) ?s0) = ?s0" using True same by (simp add: run_close_fd)
    ultimately show ?thesis by (simp only: run)
  next
    case False
    then have i: "i < length (gw_sessions s)" "s_check EN_FT_HAS_FD (sess i s)"
      using has_flag_range by (auto simp: has_flag_def)
    show ?thesis
      unfolding run
      by (rule run_close_fd_rel [OF assms _ _ i _ upd_sess_twice]) (use False same in simp_all)
  qed
qed

lemma close_with_manager_rel [gw_io]:
  fixes K :: "'p glink"
  assumes K: "link_ok K"
  shows "state_io_rel gw_rel (close_with_manager K n i reason mgr)"
proof (induction n arbitrary: reason mgr)
  case 0
  then show ?case by (simp only: close_with_manager.simps) (intro gw_rules gw_io)
next
  case (Suc n)
  show ?case
    unfolding close_with_manager.simps
    by (intro gw_rules gw_io Suc K mark_and_close_rel)
qed

lemma session_close_rel [gw_io]:
  "link_ok K \<Longrightarrow> state_io_rel gw_rel (session_close K i reason)"
  "link_ok K \<Longrightarrow> state_io_rel gw_rel (close_exceeded K i)"
  unfolding close_exceeded_def session_close_def by (intro gw_rules gw_io; assumption)+

lemma send_new_session_rel [gw_io]: "link_ok K \<Longrightarrow> state_io_rel gw_rel (send_new_session K i)"
  unfolding send_new_session_def by (intro gw_rules gw_io)

lemma init_reconnect_rel [gw_io]: "state_io_rel gw_rel (init_reconnect i old)"
  unfolding init_reconnect_def by (intro gw_rules gw_io upd_rel) (auto simp: keeps_def session_ok_def)

lemma init_new_session_rel [gw_io]: "state_io_rel gw_rel (init_new_session i router)"
  unfolding init_new_session_def
  by (intro gw_rules gw_io upd_rel io_rel_modify; (rule gw_rel_other)?) (auto simp: keeps_def session_ok_def)

text \<open>Data is logged for a client only while its session is not closing.\<close>

lemma gw_rel_to_client:
  assumes "\<not> s_check EN_FT_CLOSING (sess i s)" and "i < length (gw_sessions s)"
  shows "gw_rel s ((upd_sess i (\<lambda>ss. ss\<lparr>s_limit := f (s_limit ss)\<rparr>) s)\<lparr>gw_trace := gw_trace s @ [EvToClient i bs]\<rparr>)"
    (is "gw_rel s ?s'")
proof -
  have "keeps (sess k s) (sess k ?s') \<and> (session_ok (sess k s) \<longrightarrow> session_ok (sess k ?s')) \<and>
      (s_check EN_FT_CLOSING (sess k s) \<longrightarrow> client_data k (gw_trace ?s') = client_data k (gw_trace s))"
    if "k < length (gw_sessions s)" for k
  proof -
    have "sess k ?s' = sess k (upd_sess i (\<lambda>ss. ss\<lparr>s_limit := f (s_limit ss)\<rparr>) s)" by (simp add: sess_def)
    with assms that show ?thesis
      by (cases "k = i") (auto simp: keeps_def session_ok_def client_data_snoc)
  qed
  then show ?thesis by (auto simp: gw_rel_def gw_ok_def)
qed

lemma send_to_client_rel [gw_io]:
  fixes K :: "'p glink"
  assumes "link_ok K"
  shows "state_io_rel gw_rel (send_to_client K i bytes)"
  unfolding state_io_rel_def
proof
  fix s :: "'p gateway"
  let ?m = "do { r \<leftarrow> vt_write (gl_vt K) i bytes; check_limits K (close_exceeded K i) i False True; ret r }"
  have m: "state_io_rel gw_rel ?m"
    by (intro gw_rules gw_io vt_rules [OF assms] assms)
  let ?s' = "(upd_sess i (\<lambda>ss. ss\<lparr>s_limit := count_send (word_of_nat (length bytes)) (s_limit ss)\<rparr>) s)
      \<lparr>gw_trace := gw_trace s @ [EvToClient i bytes]\<rparr>"
  show "gw_rel s (snd (run_state (send_to_client K i bytes) s))"
  proof (cases "s_check EN_FT_CLOSING (sess i s) \<or> \<not> s_check EN_FT_HAS_FD (sess i s) \<or> \<not> s_has_proto (sess i s)")
    case True
    then show ?thesis by (auto simp: send_to_client_def)
  next
    case False
    then have i: "i < length (gw_sessions s)" using has_flag_range [of EN_FT_HAS_FD i s] by (simp add: has_flag_def)
    have base: "gw_rel s ?s'" by (rule gw_rel_to_client) (use False i in auto)
    have eq: "snd (run_state (send_to_client K i bytes) s) = snd (run_state ?m ?s')"
      using False by (simp add: send_to_client_def upd_limit_def gw_log_def)
    show ?thesis unfolding eq by (rule gw_rel_trans [OF base io_relD [OF m]])
  qed
qed

lemma event_rel [gw_io]:
  assumes "link_ok K"
  shows "state_io_rel gw_rel (on_alloc_read K i n)" "state_io_rel gw_rel (on_read K i z bs)"
    "state_io_rel gw_rel (on_write_done K i z)"
  unfolding on_alloc_read_def on_read_def on_write_done_def
  by (intro gw_rules gw_io vt_rules [OF assms] assms; simp)+

section \<open>The manager\<close>

lemma modify_other [gw_io]:
  "(\<And>s. gw_sessions (f s) = gw_sessions s \<and> gw_faults (f s) = gw_faults s \<and>
      (\<forall>i. client_data i (gw_trace (f s)) = client_data i (gw_trace s))) \<Longrightarrow> state_io_rel gw_rel (modify f)"
  by (rule io_rel_modify, rule gw_rel_other) auto

lemma client_data_listen: "client_data i (tr @ replicate n EvListenClose) = client_data i tr"
  by (simp add: client_data_def)

lemma manager_listen_rel [gw_io]: "state_io_rel gw_rel (manager_listen ans a)"
  unfolding manager_listen_def by (intro gw_rules gw_io; simp)

lemma listen_loop_rel [gw_io]: "state_io_rel gw_rel (listen_loop ans as n)"
  by (induction as arbitrary: n) (auto intro!: gw_rules gw_io)

lemma listen_all_rel [gw_io]: "state_io_rel gw_rel (listen_all ans)"
  unfolding listen_all_def by (intro gw_rules gw_io)

lemma close_all_rel [gw_io]: "link_ok K \<Longrightarrow> state_io_rel gw_rel (close_all K r is)"
  by (induction "is") (auto intro!: gw_rules gw_io)

lemma manager_init_rel [gw_io]: "state_io_rel gw_rel (manager_init K)"
  unfolding manager_init_def by (intro gw_rules gw_io; simp)

lemma gateway_init_rel [gw_io]: "state_io_rel gw_rel (gateway_init K ans)"
  unfolding gateway_init_def by (intro gw_rules gw_io; simp)

lemma manager_reset_rel [gw_io]: "link_ok K \<Longrightarrow> state_io_rel gw_rel (manager_reset K)"
  unfolding manager_reset_def by (intro gw_rules gw_io; simp add: client_data_listen)

lemma gateway_stop_rel [gw_io]: "link_ok K \<Longrightarrow> state_io_rel gw_rel (gateway_stop K)"
  unfolding gateway_stop_def by (intro gw_rules gw_io)

lemma timer_loop_rel [gw_io]:
  "link_ok K \<Longrightarrow> state_io_rel gw_rel (reconnect_loop K n now)"
  "link_ok K \<Longrightarrow> state_io_rel gw_rel (idle_loop K n now)"
  by (induction n) (auto intro!: gw_rules gw_io)

lemma manager_tick_rel [gw_io]: "link_ok K \<Longrightarrow> state_io_rel gw_rel (manager_tick K)"
  unfolding manager_tick_def by (intro gw_rules gw_io; simp)

lemma erase_rel [gw_io]: "state_io_rel gw_rel (erase_active k i)" "state_io_rel gw_rel (erase_cache k i)"
  unfolding erase_active_def erase_cache_def by (intro gw_rules gw_io; simp)+

lemma manager_close_rel [gw_io]: "link_ok K \<Longrightarrow> state_io_rel gw_rel (manager_close K k r al)"
  unfolding manager_close_def by (intro gw_rules gw_io; simp)

lemma post_msg_rel [gw_io]: "state_io_rel gw_rel (post_msg K tid msg)"
  unfolding post_msg_def by (intro gw_rules gw_io)

lemma push_data_rel [gw_io]: "link_ok K \<Longrightarrow> state_io_rel gw_rel (push_data K k bs)"
  unfolding push_data_def by (intro gw_rules gw_io)

lemma broadcast_rel [gw_io]:
  "link_ok K \<Longrightarrow> state_io_rel gw_rel (broadcast_loop K bs is r)"
  "link_ok K \<Longrightarrow> state_io_rel gw_rel (broadcast_data K bs)"
proof -
  assume K: "link_ok K"
  show loop: "state_io_rel gw_rel (broadcast_loop K bs is r)" for "is" r
    using K by (induction "is" arbitrary: r) (auto intro!: gw_rules gw_io)
  show "state_io_rel gw_rel (broadcast_data K bs)"
    unfolding broadcast_data_def by (intro gw_rules loop)
qed

lemma set_session_router_rel [gw_io]: "state_io_rel gw_rel (set_session_router k router)"
  unfolding set_session_router_def by (intro gw_rules gw_io upd_rel) (auto simp: keeps_def session_ok_def)

lemma manager_reconnect_rel [gw_io]:
  assumes "link_ok K"
  shows "state_io_rel gw_rel (reconnect_takeover K new old)" "state_io_rel gw_rel (manager_reconnect K new old)"
  unfolding manager_reconnect_def reconnect_takeover_def
  by (intro gw_rules gw_io vt_rules [OF assms] assms)+

lemma active_session_rel [gw_io]: "link_ok K \<Longrightarrow> state_io_rel gw_rel (active_session K i)"
  unfolding active_session_def by (intro gw_rules gw_io; simp)

section \<open>Accepting\<close>

text \<open>What happens between the creation of a session and the accept call leaves the heap alone but for it.\<close>

lemma same_sessionsD: "state_io_rel same_sessions m \<Longrightarrow> run_state m s = (r, s') \<Longrightarrow> same_sessions s s'"
  using io_relD [of same_sessions m s] by simp

lemma set_buffer_limits_same: "link_ok K \<Longrightarrow> state_io_rel same_sessions (set_buffer_limits K i)"
  unfolding set_buffer_limits_def
  by (intro io_rel_bind [OF same_sessions_pre] io_rel_gets [OF same_sessions_pre] vt_rules)

lemma make_session_spec:
  assumes K: "link_ok K" and run: "run_state (make_session K) s = (so, s')"
  shows "gw_rel s s' \<and> (case so of None \<Rightarrow> gw_sessions s' = gw_sessions s
    | Some i \<Rightarrow> i = length (gw_sessions s) \<and>
        gw_sessions s' = gw_sessions s @ [session_new\<lparr>s_owner := True, s_has_proto := True\<rparr>])"
proof -
  obtain b s1 where mk: "run_state (case gl_create_proto K of None \<Rightarrow> ret False | Some f \<Rightarrow> f) s = (b, s1)" by fastforce
  have s1: "same_sessions s s1"
    using mk vt_rules(10) [OF K] same_sessionsD rel_pre_refl [OF same_sessions_pre]
    by (cases "gl_create_proto K") auto
  let ?new = "session_new\<lparr>s_owner := True, s_has_proto := True\<rparr>"
  let ?s2 = "s1\<lparr>gw_sessions := gw_sessions s1 @ [?new]\<rparr>"
  have "session_ok ?new" by (simp add: session_ok_def)
  then have "gw_rel s1 ?s2" by (auto simp: gw_rel_def gw_ok_def sess_def nth_append less_Suc_eq)
  moreover have "gw_rel s s1" "gw_sessions s1 = gw_sessions s" using s1 by (simp_all add: same_sessions_def)
  moreover have "(so, s') = (if b then (Some (length (gw_sessions s1)), ?s2) else (None, s1))"
    using run mk by (cases b) (auto simp: make_session_def session_create_def)
  ultimately show ?thesis by (auto split: if_splits intro: gw_rel_trans)
qed

text \<open>A fresh session: it has its owner, and no flag yet.\<close>

definition fresh_session :: "nat \<Rightarrow> 'p gateway \<Rightarrow> bool" where
  "fresh_session i s \<longleftrightarrow> i < length (gw_sessions s) \<and> s_owner (sess i s) \<and> s_has_proto (sess i s) \<and>
     (\<forall>t. \<not> s_check t (sess i s))"

lemma session_accept_ok:
  assumes "fresh_session i s" and "run_state (session_accept port i a) s = (r, s')"
  shows "gw_faults s' = gw_faults s \<and> gw_trace s' = gw_trace s \<and> length (gw_sessions s') = length (gw_sessions s) \<and>
    (\<forall>k. k \<noteq> i \<longrightarrow> sess k s' = sess k s) \<and> (gw_ok s \<longrightarrow> gw_ok s') \<and>
    (r = 0 \<longrightarrow> has_flag EN_FT_HAS_FD i s' \<and> s_peer_ip (sess i s') = uv_peer_ip a)"
proof -
  define f where "f = (if uv_init_res a \<noteq> 0 then id else if uv_accept_res a \<noteq> 0 then s_set EN_FT_HAS_FD True
    else (\<lambda>ss. (s_set EN_FT_HAS_FD True ss)\<lparr>s_peer_ip := uv_peer_ip a, s_peer_port := port a\<rparr>))"
  have i: "i < length (gw_sessions s)" "\<not> s_check t (sess i s)" "s_owner (sess i s)" for t
    using assms(1) by (auto simp: fresh_session_def)
  have s': "s' = upd_sess i f s" and r: "r = 0 \<longrightarrow> uv_init_res a = 0 \<and> uv_accept_res a = 0"
    using assms(2) i(2)
    by (auto simp: session_accept_def has_flag_def put_flag_def f_def upd_sess_twice upd_sess_id split: if_splits)
  have "gw_ok s'" if "gw_ok s"
    unfolding gw_ok_def
  proof (intro allI impI)
    fix k assume "k < length (gw_sessions s')"
    with that i s' show "session_ok (sess k s')"
      by (cases "k = i") (auto simp: gw_ok_def session_ok_def f_def)
  qed
  then show ?thesis using s' r i by (auto simp: f_def has_flag_def)
qed

lemma fresh_same: "fresh_session i s \<Longrightarrow> gw_sessions s' = gw_sessions s \<Longrightarrow> fresh_session i s'"
  by (auto simp: fresh_session_def sess_def)

lemma fresh_router: "fresh_session i s \<Longrightarrow> fresh_session i (upd_sess i (\<lambda>ss. ss\<lparr>s_router := f s\<rparr>) s)"
  by (simp add: fresh_session_def)

text \<open>The part of accept_session after the accept call.\<close>

definition accepted_session :: "'p glink \<Rightarrow> nat \<Rightarrow> int \<Rightarrow> ('p, unit) gm" where
  "accepted_session K i res =
     (if res \<noteq> 0 then do { _ \<leftarrow> session_close K i (cr EN_CRT_SERVER_BUSY); ret () }
     else do {
       full \<leftarrow> gets (\<lambda>s. max_client_number (cl_limits s) > 0 \<and> session_count s \<ge> max_client_number (cl_limits s));
       if full then do { _ \<leftarrow> session_close K i (cr EN_CRT_SERVER_BUSY); ret () }
       else do {
         (case gl_on_create K of None \<Rightarrow> ret () | Some f \<Rightarrow> do { _ \<leftarrow> f i; ret () });
         modify (\<lambda>s. s\<lparr>first_idle := first_idle s @
            [(gw_now s + (if first_idle_timeout (gw_conf s) > 0 then first_idle_timeout (gw_conf s) else 1), i)]\<rparr>)
       }
     })"

lemma accept_session_split:
  "accept_session K accept i = do {
     modify (\<lambda>s. upd_sess i (\<lambda>ss. ss\<lparr>s_router := default_router (gw_conf s)\<rparr>) s);
     res \<leftarrow> accept;
     accepted_session K i res
   }"
  by (simp add: accept_session_def accepted_session_def)

lemma accepted_session_rel:
  assumes "link_ok K"
  shows "state_io_rel gw_rel (accepted_session K i res)"
  unfolding accepted_session_def
  by (cases "gl_on_create K"; simp only: option.case; intro gw_rules gw_io vt_rules [OF assms] assms; simp)

lemma accept_session_rel:
  fixes K :: "'p glink"
  assumes K: "link_ok K" and s0: "gw_rel s0 s" "length (gw_sessions s0) \<le> i" and fresh: "fresh_session i s"
  shows "gw_rel s0 (snd (run_state (accept_session K (session_accept port i a) i) s))"
proof -
  let ?s1 = "upd_sess i (\<lambda>ss. ss\<lparr>s_router := default_router (gw_conf s)\<rparr>) s"
  have r1: "gw_rel s0 ?s1"
    by (rule gw_rel_trans [OF s0(1)], rule gw_rel_upd) (auto simp: keeps_def session_ok_def)
  have f1: "fresh_session i ?s1" using fresh by (rule fresh_router)
  obtain r s2 where acc: "run_state (session_accept port i a) ?s1 = (r, s2)" by fastforce
  note ok = session_accept_ok [OF f1 acc]
  have "sess k s2 = sess k ?s1" if "k < length (gw_sessions s0)" for k using ok s0(2) that by auto
  then have r2: "gw_rel s0 s2" using r1 ok by (auto simp: gw_rel_def)
  have eq: "snd (run_state (accept_session K (session_accept port i a) i) s) = snd (run_state (accepted_session K i r) s2)"
    using acc by (simp add: accept_session_split)
  show ?thesis unfolding eq by (rule gw_rel_trans [OF r2 io_relD [OF accepted_session_rel [OF K]]])
qed

lemma make_session_fresh:
  assumes "link_ok K" and "run_state (make_session K) s = (Some i, s')"
  shows "gw_rel s s'" "length (gw_sessions s) \<le> i" "fresh_session i s'" "i = length (gw_sessions s)"
  using make_session_spec [OF assms] by (auto simp: fresh_session_def sess_def)

lemma on_evt_accept_tcp_rel [gw_io]:
  fixes K :: "'p glink"
  assumes K: "link_ok K"
  shows "state_io_rel gw_rel (on_evt_accept_tcp K status a)"
  unfolding state_io_rel_def
proof
  fix s :: "'p gateway"
  obtain so s1 where mk: "run_state (make_session K) s = (so, s1)" by fastforce
  show "gw_rel s (snd (run_state (on_evt_accept_tcp K status a) s))"
  proof (cases "status = 0")
    case False
    then show ?thesis by (simp add: on_evt_accept_tcp_def)
  next
    case True
    show ?thesis
    proof (cases so)
      case None
      have "gw_rel s s1" using make_session_spec [OF K mk] by simp
      moreover have "gw_rel s1 (s1\<lparr>gw_trace := gw_trace s1 @ [EvListenClose]\<rparr>)"
        by (rule gw_rel_other) (simp_all add: client_data_snoc)
      ultimately show ?thesis using True None mk
        by (simp add: on_evt_accept_tcp_def gw_log_def) (rule gw_rel_trans)
    next
      case (Some i)
      note fr = make_session_fresh [OF K mk [unfolded Some]]
      define s2 where "s2 = snd (run_state (set_buffer_limits K i) s1)"
      have lim: "run_state (set_buffer_limits K i) s1 = ((), s2)" by (simp add: s2_def prod_eq_iff)
      then have s2: "gw_rel s s2" "fresh_session i s2"
        using same_sessionsD [OF set_buffer_limits_same [OF K] lim] fr fresh_same
        by (auto simp: same_sessions_def intro: gw_rel_trans)
      have "snd (run_state (on_evt_accept_tcp K status a) s) =
          snd (run_state (accept_session K (session_accept uv_peer_port i a) i) s2)"
        using True Some mk lim by (simp add: on_evt_accept_tcp_def accept_tcp_def)
      then show ?thesis using accept_session_rel [OF K s2(1) fr(2) s2(2)] by simp
    qed
  qed
qed

lemma on_evt_accept_pipe_rel [gw_io]:
  fixes K :: "'p glink"
  assumes K: "link_ok K"
  shows "state_io_rel gw_rel (on_evt_accept_pipe K status a)"
  unfolding state_io_rel_def
proof
  fix s :: "'p gateway"
  obtain so s1 where mk: "run_state (make_session K) s = (so, s1)" by fastforce
  show "gw_rel s (snd (run_state (on_evt_accept_pipe K status a) s))"
  proof (cases "status = 0")
    case False
    then show ?thesis by (simp add: on_evt_accept_pipe_def)
  next
    case True
    show ?thesis
    proof (cases so)
      case None
      have "gw_rel s s1" using make_session_spec [OF K mk] by simp
      moreover have "gw_rel s1 (s1\<lparr>gw_trace := gw_trace s1 @ [EvListenClose]\<rparr>)"
        by (rule gw_rel_other) (simp_all add: client_data_snoc)
      ultimately show ?thesis using True None mk
        by (simp add: on_evt_accept_pipe_def gw_log_def) (rule gw_rel_trans)
    next
      case (Some i)
      note fr = make_session_fresh [OF K mk [unfolded Some]]
      let ?s2 = "s1\<lparr>gw_faults := gw_faults s1 @ [NullDeref ''proto'']\<rparr>"
      have "gw_rel s1 ?s2" by (rule gw_rel_other) simp_all
      then have s2: "gw_rel s ?s2" "fresh_session i ?s2"
        using fr fresh_same [of i s1 ?s2] by (auto intro: gw_rel_trans)
      have "snd (run_state (on_evt_accept_pipe K status a) s) =
          snd (run_state (accept_session K (session_accept (\<lambda>a. 0) i a) i) ?s2)"
        using True Some mk by (simp add: on_evt_accept_pipe_def accept_pipe_def gw_raise_def)
      then show ?thesis using accept_session_rel [OF K s2(1) fr(2) s2(2)] by simp
    qed
  qed
qed

section \<open>The application\<close>

lemma on_evt_closed_rel [gw_io]: "state_io_rel gw_rel (on_evt_closed i)"
  unfolding state_io_rel_def
proof
  fix s :: "'p gateway"
  let ?f = "\<lambda>ss. (s_set EN_FT_CLOSING_FD False ss)\<lparr>s_holder := False\<rparr>"
  let ?s1 = "upd_sess i ?f s"
  have "gw_rel s ?s1" by (rule gw_rel_upd) (auto simp: keeps_def session_ok_def)
  moreover have "gw_rel ?s1 (?s1\<lparr>gw_faults := gw_faults s @ fs\<rparr>)" for fs by (rule gw_rel_other) simp_all
  moreover have "\<exists>fs. snd (run_state (on_evt_closed i) s) = ?s1\<lparr>gw_faults := gw_faults s @ fs\<rparr>"
  proof -
    have "snd (run_state (on_evt_closed i) s) =
        ?s1\<lparr>gw_faults := gw_faults s @ (if s_holder (sess i (upd_sess i (s_set EN_FT_CLOSING_FD False) s)) then []
           else [AssertFailed ''holder''])\<rparr>"
      by (simp add: on_evt_closed_def put_flag_def gw_raise_def upd_sess_twice upd_sess_faults)
    then show ?thesis by blast
  qed
  ultimately show "gw_rel s (snd (run_state (on_evt_closed i) s))" by (metis gw_rel_trans)
qed

lemma on_evt_shutdown_rel [gw_io]: "state_io_rel gw_rel (on_evt_shutdown i)"
  unfolding on_evt_shutdown_def by (intro gw_io) simp

lemma application_rel [gw_io]:
  assumes "link_ok K"
  shows "state_io_rel gw_rel (on_read_data K i n buf)" "state_io_rel gw_rel (on_written K i z)"
    "state_io_rel gw_rel (cb_write K h i bs)" "state_io_rel gw_rel (cb_message K i bs)"
    "state_io_rel gw_rel (cb_new_session i)" "state_io_rel gw_rel (cb_reconnect K i k)"
    "state_io_rel gw_rel (cb_close K i z)" "state_io_rel gw_rel (cb_handshake_done K i z)"
    "state_io_rel gw_rel (on_create_session i)" "state_io_rel gw_rel (cmd_kickoff K ko zo)"
    "state_io_rel gw_rel (cmd_disconnect K ko zo)"
  unfolding on_read_data_def on_written_def cb_write_def cb_message_def cb_new_session_def cb_reconnect_def
    cb_close_def cb_handshake_done_def on_create_session_def cmd_kickoff_def cmd_disconnect_def
  by (intro gw_rules gw_io assms; simp)+

lemma multicast_rel [gw_io]: "link_ok K \<Longrightarrow> state_io_rel gw_rel (multicast K bs ks)"
  by (induction ks) (auto intro!: gw_rules gw_io)

lemma on_server_msg_rel [gw_io]:
  assumes "link_ok K"
  shows "state_io_rel gw_rel (on_server_msg K src msg)"
  unfolding on_server_msg_def Let_def
  by (cases "ss_body msg") (auto intro!: gw_rules gw_io assms)

lemma app_handle_on_recv_rel [gw_io]:
  "link_ok K \<Longrightarrow> state_io_rel gw_rel (app_handle_on_recv K parse src bs)"
  unfolding app_handle_on_recv_def by (intro gw_rules gw_io)

end
