(* ===== verification/GwSafety.thy ===== *)
theory GwSafety
  imports GwCore
begin

text \<open>
  The gateway over any sequence of events: connections, reads, finished writes, ticks, messages of
  the servers, commands, and calls of the protocol objects. The invariant of its sessions, and what
  stays true of a session once it is closing.
\<close>

section \<open>Sequences of events\<close>

datatype gw_input =
    Gw_clock int
  | Gw_accept_tcp int uv_accept_t | Gw_accept_pipe int uv_accept_t
  | Gw_alloc nat u64 | Gw_read nat int "byte list option" | Gw_written nat int
  | Gw_shutdown nat | Gw_closed nat
  | Gw_tick | Gw_reset | Gw_init "string \<Rightarrow> listen_answer" | Gw_reload conf_source
  | Gw_server u64 ss_msg | Gw_kickoff "u64 option" "int option" | Gw_disconnect "u64 option" "int option"
  | Gw_cb_write nat nat "byte list" | Gw_cb_message nat "byte list" | Gw_cb_new nat
  | Gw_cb_reconnect nat u64 | Gw_cb_close nat int | Gw_cb_done nat int

fun gw_call :: "'p glink \<Rightarrow> gw_input \<Rightarrow> ('p, unit) gm" where
  "gw_call K (Gw_clock t) = modify (\<lambda>s. s\<lparr>gw_now := t\<rparr>)"
| "gw_call K (Gw_accept_tcp st a) = on_evt_accept_tcp K st a"
| "gw_call K (Gw_accept_pipe st a) = on_evt_accept_pipe K st a"
| "gw_call K (Gw_alloc i n) = do { _ \<leftarrow> proto_inner_callback_on_read_alloc K (Some i) n; ret () }"
| "gw_call K (Gw_read i n buf) = on_read_data K i n buf"
| "gw_call K (Gw_written i st) = on_written K i st"
| "gw_call K (Gw_shutdown i) = on_evt_shutdown i"
| "gw_call K (Gw_closed i) = on_evt_closed i"
| "gw_call K Gw_tick = do { _ \<leftarrow> manager_tick K; ret () }"
| "gw_call K Gw_reset = do { _ \<leftarrow> gateway_stop K; ret () }"
| "gw_call K (Gw_init ans) = do { _ \<leftarrow> gateway_init K ans; ret () }"
| "gw_call K (Gw_reload cf) = modify (\<lambda>s. s\<lparr>gw_conf := reload_conf cf (conf_version (gw_conf s))\<rparr>)"
| "gw_call K (Gw_server src msg) = do { _ \<leftarrow> on_server_msg K src msg; ret () }"
| "gw_call K (Gw_kickoff k r) = do { _ \<leftarrow> cmd_kickoff K k r; ret () }"
| "gw_call K (Gw_disconnect k r) = do { _ \<leftarrow> cmd_disconnect K k r; ret () }"
| "gw_call K (Gw_cb_write h i bs) = do { _ \<leftarrow> cb_write K h i bs; ret () }"
| "gw_call K (Gw_cb_message i bs) = do { _ \<leftarrow> cb_message K i bs; ret () }"
| "gw_call K (Gw_cb_new i) = do { _ \<leftarrow> cb_new_session i; ret () }"
| "gw_call K (Gw_cb_reconnect i k) = do { _ \<leftarrow> cb_reconnect K i k; ret () }"
| "gw_call K (Gw_cb_close i r) = do { _ \<leftarrow> cb_close K i r; ret () }"
| "gw_call K (Gw_cb_done i st) = do { _ \<leftarrow> cb_handshake_done K i st; ret () }"

fun gw_run :: "'p glink \<Rightarrow> gw_input list \<Rightarrow> ('p, unit) gm" where
  "gw_run K [] = ret ()"
| "gw_run K (c # cs) = do { gw_call K c; gw_run K cs }"

lemma gw_call_rel: "link_ok K \<Longrightarrow> state_io_rel gw_rel (gw_call K c)"
  by (cases c; simp only: gw_call.simps on_read_alloc_some; intro gw_rules gw_io; simp)

lemma gw_run_rel: "link_ok K \<Longrightarrow> state_io_rel gw_rel (gw_run K cs)"
  by (induction cs) (auto intro!: gw_rules gw_call_rel)

section \<open>Properties\<close>

text \<open>C23: The sessions stay well-formed. Whatever happens, a session that has its descriptor is neither
  closing nor giving it up, and still has its manager; and one that is giving it up holds the
  reference that keeps it alive until libuv has closed it.\<close>

theorem gateway_sessions_ok:
  assumes "link_ok K" and "gw_ok s" and "s' = snd (run_state (gw_run K cs) s)"
    and "i < length (gw_sessions s')"
  shows "(has_flag EN_FT_HAS_FD i s' \<longrightarrow> s_owner (sess i s') \<and>
      \<not> has_flag EN_FT_CLOSING i s' \<and> \<not> has_flag EN_FT_CLOSING_FD i s') \<and>
    (has_flag EN_FT_CLOSING_FD i s' \<longrightarrow> s_holder (sess i s'))"
proof -
  have "gw_rel s s'" unfolding assms(3) by (rule io_relD [OF gw_run_rel [OF assms(1)]])
  then have "session_ok (sess i s')" using assms(2,4) by (auto simp: gw_rel_def gw_ok_def)
  then show ?thesis by (simp add: session_ok_def has_flag_def)
qed

text \<open>C24: Closing a session is final. Once a session is closing it stays so, it is never given a descriptor
  again, and no more data is handed to its protocol object for the client.\<close>

theorem closing_session_final:
  assumes "link_ok K" and "gw_ok s" and "has_flag EN_FT_CLOSING i s"
    and "s' = snd (run_state (gw_run K cs) s)"
  shows "has_flag EN_FT_CLOSING i s' \<and> \<not> has_flag EN_FT_HAS_FD i s' \<and>
    client_data i (gw_trace s') = client_data i (gw_trace s)"
proof -
  have r: "gw_rel s s'" unfolding assms(4) by (rule io_relD [OF gw_run_rel [OF assms(1)]])
  have i: "i < length (gw_sessions s)" by (rule has_flag_range [OF assms(3)])
  then have "has_flag EN_FT_CLOSING i s'" "client_data i (gw_trace s') = client_data i (gw_trace s)"
    using r assms(3) by (auto simp: gw_rel_def keeps_def has_flag_def)
  moreover have "session_ok (sess i s')" using r i assms(2) by (auto simp: gw_rel_def gw_ok_def)
  ultimately show ?thesis by (auto simp: session_ok_def has_flag_def)
qed

section \<open>An instance\<close>

text \<open>Protocol objects that note when they are closed; a bus node and a socket that always succeed.\<close>

definition ex_vt :: "nat list gateway proto_vt" where
  "ex_vt = \<lparr>vt_alloc = (\<lambda>i n. ret (Some 1024)), vt_read = (\<lambda>i n bs. ret 0), vt_write = (\<lambda>i bs. ret 0),
     vt_write_done = (\<lambda>i n. ret 0),
     vt_close = (\<lambda>i r. do { modify (\<lambda>s. s\<lparr>gw_protos := i # gw_protos s\<rparr>); ret 0 }),
     vt_check_reconnect = (\<lambda>i j. ret True), vt_recv_limit = (\<lambda>i a b. ret ()), vt_send_limit = (\<lambda>i a b. ret ()),
     vt_handshake_update = (\<lambda>i. ret 0), vt_closed = (\<lambda>i s. i \<in> set (gw_protos s))\<rparr>"

definition ex_glink :: "nat list glink" where
  "ex_glink = \<lparr>gl_serialize = (\<lambda>m. Some [word_of_nat (unat (ss_session_id m))]), gl_send = (\<lambda>n tid ty bs. 0),
     gl_vt = ex_vt, gl_create_proto = Some (ret True), gl_on_create = Some on_create_session,
     gl_uv_write = (\<lambda>i bs. 0), gl_uv_again = (\<lambda>n. n = -11), gl_minute = 60, gl_day = 86400,
     gl_msg_limit = 65536, gl_fuel = 3\<rparr>"

definition ex_limits :: client_limit_t where
  "ex_limits = \<lparr>max_total_recv_bytes = 0, max_total_send_bytes = 0, max_hour_recv_bytes = 0, max_hour_send_bytes = 0,
     max_minute_recv_bytes = 0, max_minute_send_bytes = 0, max_total_recv_times = 0, max_total_send_times = 0,
     max_hour_recv_times = 0, max_hour_send_times = 0, max_minute_recv_times = 0, max_minute_send_times = 0,
     max_client_number = 2\<rparr>"

definition ex_gw_conf :: gw_conf_t where
  "ex_gw_conf = \<lparr>conf_version = 1, limits = ex_limits, listen_address = [], listen_type = ''inner'', listen_backlog = 16, reconnect_timeout = 180,
     first_idle_timeout = 10, send_buffer_size = 4096, default_router = 77, crypt = default_crypt_configure\<rparr>"

definition ex_gw :: "nat list gateway" where
  "ex_gw = \<lparr>gw_conf = ex_gw_conf, gw_sessions = [], actived_sessions = [], first_idle = [], reconnect_cache = [],
     reconnect_timers = [], last_tick_time = 0, listen_handles = 0, app_node = True, gw_now = 1000,
     gw_id_seq = seq_alloc_init, gw_trace = [], gw_faults = [], gw_protos = []\<rparr>"

lemma ex_link_ok: "link_ok ex_glink"
proof -
  have "state_io_rel gw_rel (do { modify (\<lambda>s :: nat list gateway. s\<lparr>gw_protos := i # gw_protos s\<rparr>); ret (0 :: int) })" for i
    by (intro gw_rules gw_io) simp
  then show ?thesis
    by (auto simp: link_ok_def vt_ok_def ex_glink_def ex_vt_def on_create_session_def intro!: gw_rules gw_io io_rel_return [OF same_sessions_pre])
qed

lemma ex_gw_ok: "gw_ok ex_gw"
  by (simp add: gw_ok_def ex_gw_def)

definition ex_sess :: session where
  "ex_sess = s_set EN_FT_HAS_FD True (s_set EN_FT_INITED True
     (session_new\<lparr>s_id := 5, s_router := 77, s_owner := True, s_has_proto := True\<rparr>))"

definition ex_gw1 :: "session \<Rightarrow> nat list gateway" where
  "ex_gw1 ss = ex_gw\<lparr>gw_sessions := [ss]\<rparr>"

lemma ex_gw1_simps [simp]:
  "sess 0 (ex_gw1 ss) = ss" "gw_sessions (ex_gw1 ss) = [ss]" "gw_ok (ex_gw1 ss) = session_ok ss"
  by (simp_all add: ex_gw1_def sess_def gw_ok_def)

definition ex_closing_sess :: session where
  "ex_closing_sess = s_set EN_FT_CLOSING True session_new"

lemma gateway_sessions_ok_witness:
  "s_owner (sess 0 (snd (run_state (gw_run ex_glink [Gw_clock 2000, Gw_read 0 (-11) None]) (ex_gw1 ex_sess)))) \<and>
   \<not> has_flag EN_FT_CLOSING 0 (snd (run_state (gw_run ex_glink [Gw_clock 2000, Gw_read 0 (-11) None]) (ex_gw1 ex_sess)))"
proof -
  have run: "snd (run_state (gw_run ex_glink [Gw_clock 2000, Gw_read 0 (-11) None]) (ex_gw1 ex_sess)) =
      (ex_gw1 ex_sess)\<lparr>gw_now := 2000\<rparr>"
    by (simp add: on_read_data_def ex_gw1_def sess_def ex_sess_def ex_glink_def)
  have "gw_ok (ex_gw1 ex_sess)" by (simp add: ex_sess_def session_ok_def)
  moreover have "0 < length (gw_sessions (snd (run_state (gw_run ex_glink [Gw_clock 2000, Gw_read 0 (-11) None]) (ex_gw1 ex_sess))))"
    unfolding run by simp
  moreover have "has_flag EN_FT_HAS_FD 0 (snd (run_state (gw_run ex_glink [Gw_clock 2000, Gw_read 0 (-11) None]) (ex_gw1 ex_sess)))"
    unfolding run by (simp add: has_flag_def sess_def ex_gw1_def ex_sess_def)
  ultimately show ?thesis using gateway_sessions_ok [OF ex_link_ok _ refl] by blast
qed

lemma closing_session_final_witness:
  "has_flag EN_FT_CLOSING 0 (snd (run_state (gw_run ex_glink [Gw_tick, Gw_read 0 5 None]) (ex_gw1 ex_closing_sess)))"
proof -
  have "has_flag EN_FT_CLOSING 0 (ex_gw1 ex_closing_sess)" "gw_ok (ex_gw1 ex_closing_sess)"
    by (simp_all add: has_flag_def ex_closing_sess_def session_ok_def)
  then show ?thesis using closing_session_final [OF ex_link_ok _ _ refl] by blast
qed

end
