(* ===== verification/GwProps.thy ===== *)
theory GwProps
  imports GwSafety
begin

text \<open>
  What single operations of the sessions and the manager do: closing, the traffic limits, timers,
  accepting, broadcasting and reconnecting. Where a limit is checked wrongly, the theorem states what
  the code does.
\<close>

section \<open>Frame facts\<close>

lemma sess_frame [simp]:
  "sess i (s\<lparr>gw_trace := a1\<rparr>) = sess i s" "sess i (s\<lparr>gw_faults := a2\<rparr>) = sess i s"
  "sess i (s\<lparr>actived_sessions := a3\<rparr>) = sess i s" "sess i (s\<lparr>reconnect_cache := a3\<rparr>) = sess i s"
  "sess i (s\<lparr>first_idle := a4\<rparr>) = sess i s" "sess i (s\<lparr>reconnect_timers := a4\<rparr>) = sess i s"
  "sess i (s\<lparr>last_tick_time := a5\<rparr>) = sess i s" "sess i (s\<lparr>gw_protos := a6\<rparr>) = sess i s"
  by (simp_all add: sess_def)

section \<open>Closing\<close>

definition raised :: "proto_fault \<Rightarrow> ('p, 'a) gm \<Rightarrow> 'p gateway \<Rightarrow> bool" where
  "raised f m s \<longleftrightarrow> f \<in> set (gw_faults (snd (run_state m s)))"

lemma raised_bind:
  assumes "raised f m s" and "\<And>x. state_io_rel gw_rel (g x)"
  shows "raised f (State_Monad.bind m g) s"
proof -
  have "gw_rel (snd (run_state m s)) (snd (run_state (g (fst (run_state m s))) (snd (run_state m s))))"
    by (rule io_relD [OF assms(2)])
  then show ?thesis
    using assms(1) by (auto simp: raised_def run_bind gw_rel_def prefix_def simp del: run_state_bind)
qed

lemma raised_skip:
  "run_state m s = (x, s1) \<Longrightarrow> raised f (g x) s1 \<Longrightarrow> raised f (State_Monad.bind m g) s"
  by (simp add: raised_def)

lemma raised_before:
  "state_io_rel gw_rel m \<Longrightarrow> f \<in> set (gw_faults s) \<Longrightarrow> raised f m s"
  using io_relD [of gw_rel m s] by (auto simp: raised_def gw_rel_def prefix_def)

lemma owner_range: "s_owner (sess i s) \<Longrightarrow> i < length (gw_sessions s)"
  by (auto simp: sess_def session_new_def split: if_splits)

lemma close_closes:
  fixes K :: "'p glink"
  assumes K: "link_ok K" and i: "i < length (gw_sessions s)"
  shows "has_flag EN_FT_CLOSING i (snd (run_state (close_with_manager K (Suc n) i r m) s))"
proof -
  let ?front = "do {
     ss \<leftarrow> gets (sess i);
     when_do (s_check EN_FT_REGISTERED ss \<and> \<not> s_check EN_FT_RECONNECTED ss \<and> \<not> s_check EN_FT_WAIT_RECONNECT ss)
       (do {
          _ \<leftarrow> send_remove_session_with K
                 (do {
                    owner \<leftarrow> gets (\<lambda>s. s_owner (sess i s));
                    _ \<leftarrow> close_with_manager K n i (cr EN_CRT_TRAFIC_EXTENDED) owner;
                    ret ()
                  }) i m;
          ret ()
        })
   }"
  define s1 where "s1 = snd (run_state ?front s)"
  have "state_io_rel gw_rel ?front" by (intro gw_rules gw_io K)
  then have "gw_rel s s1" unfolding s1_def by (rule io_relD)
  then have i1: "i < length (gw_sessions s1)" using i by (simp add: gw_rel_def)
  let ?s2 = "upd_sess i (s_set EN_FT_CLOSING True) s1"
  have run: "snd (run_state (close_with_manager K (Suc n) i r m) s) =
      (if has_flag EN_FT_CLOSING i s1 then s1 else snd (run_state (close_fd K i r) ?s2))"
    by (cases "has_flag EN_FT_CLOSING i s1")
      (simp_all add: s1_def put_flag_def run_bind if_distrib [of "\<lambda>m. run_state m _"] del: run_state_bind)
  have "gw_rel ?s2 (snd (run_state (close_fd K i r) ?s2))" by (rule io_relD [OF close_fd_rel [OF K]])
  then have "has_flag EN_FT_CLOSING i (snd (run_state (close_fd K i r) ?s2))"
    using i1 by (auto simp: gw_rel_def keeps_def has_flag_def)
  then show ?thesis unfolding run by simp
qed

lemma session_close_effect:
  fixes K :: "'p glink"
  assumes K: "link_ok K" and fuel: "gl_fuel K = Suc n" and ok: "gw_ok s" and fd: "has_flag EN_FT_HAS_FD i s"
    and s': "s' = snd (run_state (session_close K i r) s)"
  shows "has_flag EN_FT_CLOSING i s' \<and> \<not> has_flag EN_FT_HAS_FD i s' \<and> \<not> s_owner (sess i s') \<and> gw_rel s s'"
proof -
  have i: "i < length (gw_sessions s)" by (rule has_flag_range [OF fd])
  have cl: "has_flag EN_FT_CLOSING i s'" using close_closes [OF K i] by (simp add: s' session_close_def fuel del: close_with_manager.simps)
  have r: "gw_rel s s'" unfolding s' by (rule io_relD [OF session_close_rel(1) [OF K]])
  then have "session_ok (sess i s')" "keeps (sess i s) (sess i s')"
    using ok i by (auto simp: gw_rel_def gw_ok_def)
  with cl fd r show ?thesis by (auto simp: session_ok_def keeps_def has_flag_def)
qed

section \<open>Limits\<close>

lemma close_exceeded_run: "snd (run_state (close_exceeded K i) s) = snd (run_state (session_close K i (cr EN_CRT_TRAFIC_EXTENDED)) s)"
  by (simp add: close_exceeded_def case_prod_unfold)

text \<open>C25: Going over the total of bytes sent to a client closes its session, and then the manager, which
  closing has just taken from the session, is dereferenced for the next limit.\<close>

theorem total_send_limit_derefs_manager:
  fixes K :: "'p glink"
  assumes "link_ok K" and "gl_fuel K = Suc n" and "gw_ok s" and "has_flag EN_FT_HAS_FD i s"
    and "max_total_send_bytes (cl_limits s) > 0"
    and "total_send_bytes (s_limit (sess i s)) > max_total_send_bytes (cl_limits s)"
  shows "NullDeref ''owner_'' \<in> set (gw_faults (snd (run_state (check_total_limit K (close_exceeded K i) i False True) s)))"
proof -
  have i: "i < length (gw_sessions s)" by (rule has_flag_range [OF assms(4)])
  have st: "s_owner (sess i s)" "\<not> has_flag EN_FT_CLOSING i s"
    using assms(3,4) i by (auto simp: gw_ok_def session_ok_def has_flag_def)
  let ?s1 = "snd (run_state (session_close K i (cr EN_CRT_TRAFIC_EXTENDED)) s)"
  have "\<not> s_owner (sess i ?s1)" using session_close_effect [OF assms(1,2,3,4) refl] by blast
  then show ?thesis
    using st assms(5,6)
    by (simp add: check_total_limit_def limit_test_def gw_raise_def run_bind close_exceeded_run del: run_state_bind)
qed

text \<open>The total of bytes received is held against the limit for bytes sent: when only the limit for
  bytes received is set, the first byte counted closes the session.\<close>

theorem total_recv_limit_uses_send_limit:
  fixes K :: "'p glink"
  assumes "link_ok K" and "gl_fuel K = Suc n" and "s_owner (sess i s)"
    and "max_total_recv_bytes (cl_limits s) > 0" and "max_total_send_bytes (cl_limits s) = 0"
    and "total_recv_bytes (s_limit (sess i s)) > 0"
  shows "has_flag EN_FT_CLOSING i (snd (run_state (check_total_limit K (close_exceeded K i) i True False) s))"
proof (cases "has_flag EN_FT_CLOSING i s")
  case True
  then show ?thesis by (simp add: check_total_limit_def)
next
  case False
  let ?s1 = "snd (run_state (session_close K i (cr EN_CRT_TRAFIC_EXTENDED)) s)"
  have i: "i < length (gw_sessions s)" by (rule owner_range [OF assms(3)])
  have c1: "has_flag EN_FT_CLOSING i ?s1"
    using close_closes [OF assms(1) i] by (simp add: session_close_def assms(2) del: close_with_manager.simps)
  have r1: "gw_rel s ?s1" by (rule io_relD [OF session_close_rel(1) [OF assms(1)]])
  let ?rest = "do {
       limit_test (close_exceeded K i) i True max_total_recv_times max_total_recv_times total_recv_times;
       limit_test (close_exceeded K i) i False max_total_send_bytes max_total_send_bytes total_send_bytes;
       limit_test (close_exceeded K i) i False max_total_send_times max_total_send_times total_send_times
     }"
  have "state_io_rel gw_rel ?rest" by (intro gw_rules gw_io assms(1))
  then have "gw_rel ?s1 (snd (run_state ?rest ?s1))" by (rule io_relD)
  then have "has_flag EN_FT_CLOSING i (snd (run_state ?rest ?s1))"
    using c1 r1 i by (auto simp: gw_rel_def keeps_def has_flag_def)
  moreover have "snd (run_state (check_total_limit K (close_exceeded K i) i True False) s) = snd (run_state ?rest ?s1)"
    using False assms(3-6)
    by (simp add: check_total_limit_def limit_test_def [of _ _ _ _ max_total_send_bytes total_recv_bytes] run_bind
        close_exceeded_run del: run_state_bind)
  ultimately show ?thesis by (simp only:)
qed

text \<open>The hourly limit of bytes sent is not enforced when data is sent: with no limit on the number of
  messages, the check after a send does nothing within the period, however much was sent.\<close>

theorem hour_send_limit_not_enforced:
  fixes K :: "'p glink"
  assumes "gw_now s sdiv gl_day K = hour_timepoint (s_limit (sess i s))"
    and "max_hour_recv_times (cl_limits s) = 0" and "max_hour_send_times (cl_limits s) = 0"
  shows "run_state (check_hour_limit K (close_exceeded K i) i False True) s = ((), s)"
  using assms by (cases "s_owner (sess i s)") (simp_all add: check_hour_limit_def limit_test_def)

text \<open>
  The state in which closing never ends: the session is registered and would notify its server, and
  it was sent more bytes in this period than the limit that only a message to the server checks.
\<close>

definition hour_flooded :: "'p glink \<Rightarrow> nat \<Rightarrow> 'p gateway \<Rightarrow> bool" where
  "hour_flooded K i s \<longleftrightarrow>
     s_check EN_FT_REGISTERED (sess i s) \<and> \<not> s_check EN_FT_RECONNECTED (sess i s) \<and>
     \<not> s_check EN_FT_WAIT_RECONNECT (sess i s) \<and> \<not> s_check EN_FT_CLOSING (sess i s) \<and>
     s_owner (sess i s) \<and> s_router (sess i s) \<noteq> 0 \<and>
     gw_now s sdiv gl_day K = hour_timepoint (s_limit (sess i s)) \<and>
     max_hour_send_bytes (cl_limits s) > 0 \<and>
     hour_send_bytes (s_limit (sess i s)) > max_hour_send_bytes (cl_limits s)"

lemma post_buffer_flooded:
  "hour_flooded K i s \<Longrightarrow> hour_flooded K i (snd (run_state (post_buffer K tid ty bs) s))"
  by (cases "app_node s") (simp_all add: post_buffer_def gw_log_def hour_flooded_def cl_limits_def)

lemma count_recv_flooded:
  "hour_flooded K i s \<Longrightarrow> hour_flooded K i (snd (run_state (upd_limit i (count_recv n)) s))"
  using owner_range [of i s] by (auto simp: upd_limit_def hour_flooded_def count_recv_def cl_limits_def)

lemma flooded_hour_check:
  fixes K :: "'p glink"
  assumes K: "link_ok K" and fl: "hour_flooded K i s" and cl: "raised f cl s" and cl_rel: "state_io_rel gw_rel cl"
  shows "raised f (check_hour_limit K cl i True False) s"
proof -
  let ?t1 = "limit_test cl i True max_hour_recv_bytes max_hour_recv_bytes hour_recv_bytes"
  let ?t2 = "limit_test cl i True max_hour_send_bytes max_hour_send_bytes hour_send_bytes"
  let ?rest = "do {
     limit_test cl i False max_hour_recv_times max_hour_recv_times hour_recv_times;
     limit_test cl i False max_hour_send_times max_hour_send_times hour_send_times
   }"
  have t2: "raised f ?t2 s" using fl cl by (simp add: limit_test_def hour_flooded_def raised_def)
  have tests: "raised f (do { ?t1; ?t2; ?rest }) s"
  proof (cases "max_hour_recv_bytes (cl_limits s) > 0 \<and> hour_recv_bytes (s_limit (sess i s)) > max_hour_recv_bytes (cl_limits s)")
    case True
    then have "raised f ?t1 s" using fl cl by (simp add: limit_test_def hour_flooded_def raised_def)
    then show ?thesis by (rule raised_bind) (intro gw_rules gw_io cl_rel)
  next
    case False
    then have "run_state ?t1 s = ((), s)" using fl by (simp add: limit_test_def hour_flooded_def) blast
    then show ?thesis by (rule raised_skip) (rule raised_bind [OF t2], intro gw_rules gw_io cl_rel)
  qed
  have "snd (run_state (check_hour_limit K cl i True False) s) = snd (run_state (do { ?t1; ?t2; ?rest }) s)"
    using fl by (simp add: check_hour_limit_def hour_flooded_def has_flag_def)
  with tests show ?thesis by (simp only: raised_def)
qed

text \<open>C26: Closing such a session never returns: the remove notification checks the limit, the limit closes
  the session, and closing sends the notification, because the session is marked as closing only
  after it was sent. Whatever the depth of recursion allowed, it is exhausted.\<close>

theorem flooded_close_never_returns:
  fixes K :: "'p glink"
  assumes "link_ok K" and "\<And>m. gl_serialize K m \<noteq> None" and "hour_flooded K i s"
  shows "OutOfFuel ''close_with_manager'' \<in>
    set (gw_faults (snd (run_state (close_with_manager K n i reason True) s)))"
proof -
  let ?f = "OutOfFuel ''close_with_manager''"
  have "raised ?f (close_with_manager K n i reason mgr) s" if "hour_flooded K i s" "mgr \<or> s_owner (sess i s)" for mgr reason s
    using that
  proof (induction n arbitrary: s reason mgr)
    case 0
    then show ?case by (simp add: raised_def gw_raise_def)
  next
    case (Suc n)
    let ?cl = "do {
       owner \<leftarrow> gets (\<lambda>s. s_owner (sess i s));
       _ \<leftarrow> close_with_manager K n i (cr EN_CRT_TRAFIC_EXTENDED) owner;
       ret ()
     }"
    have cl_rel: "state_io_rel gw_rel ?cl" by (intro gw_rules gw_io assms(1))
    have cl: "raised ?f ?cl s'" if "hour_flooded K i s'" for s'
    proof -
      have "s_owner (sess i s')" using that by (simp add: hour_flooded_def)
      then have "raised ?f (close_with_manager K n i (cr EN_CRT_TRAFIC_EXTENDED) True) s'" using Suc.IH [OF that] by simp
      then have "raised ?f (do { _ \<leftarrow> close_with_manager K n i (cr EN_CRT_TRAFIC_EXTENDED) True; ret () }) s'"
        by (rule raised_bind) (intro gw_rules)
      then show ?thesis using \<open>s_owner (sess i s')\<close> by (simp add: raised_def)
    qed
    define msg where "msg = \<lparr>ss_session_id = s_id (sess i s), ss_error_code = 0,
        ss_body = Cmd_remove_session (s_peer_ip (sess i s)) (s_peer_port (sess i s))\<rparr>"
    obtain bytes where bytes: "gl_serialize K msg = Some bytes" using assms(2) by blast
    define s1 where "s1 = snd (run_state (upd_limit i (count_recv (word_of_nat (length bytes)))) s)"
    define s2 where "s2 = snd (run_state (post_buffer K (s_router (sess i s)) (atst EN_ATST_GATEWAY) bytes) s1)"
    have fl2: "hour_flooded K i s2"
      unfolding s2_def by (rule post_buffer_flooded) (simp add: s1_def count_recv_flooded Suc.prems)
    have "raised ?f (check_limits K ?cl i True False) s2"
      unfolding check_limits_def
      by (rule raised_bind [OF flooded_hour_check [OF assms(1) fl2 cl [OF fl2] cl_rel]])
        (intro gw_rules gw_io assms(1) cl_rel)
    then have lim: "raised ?f (do { check_limits K ?cl i True False; ret r }) s2" for r :: int
      by (rule raised_bind) (intro gw_rules)
    have send: "raised ?f (send_to_server_with K ?cl i msg mgr) s"
      using lim Suc.prems bytes
      by (simp add: raised_def send_to_server_with_def hour_flooded_def run_bind s1_def s2_def del: run_state_bind)
    have "raised ?f (send_remove_session_with K ?cl i mgr) s"
    proof -
      have "raised ?f (do {
           r \<leftarrow> send_to_server_with K ?cl i msg mgr;
           when_do (r = 0) (put_flag i EN_FT_REGISTERED False);
           ret r
         }) s" by (rule raised_bind [OF send]) (intro gw_rules gw_io; simp)
      then show ?thesis using Suc.prems(1)
        by (simp add: send_remove_session_with_def raised_def hour_flooded_def msg_def)
    qed
    then have "raised ?f (do { _ \<leftarrow> send_remove_session_with K ?cl i mgr; ret () }) s"
      by (rule raised_bind) (intro gw_rules)
    then have notify: "raised ?f (do {
         when_do True (do { _ \<leftarrow> send_remove_session_with K ?cl i mgr; ret () });
         closing \<leftarrow> gets (has_flag EN_FT_CLOSING i);
         if closing then ret 0 else do { put_flag i EN_FT_CLOSING True; close_fd K i reason }
       }) s" unfolding when_do_def if_True
      by (rule raised_bind) (intro gw_rules gw_io mark_and_close_rel assms(1))
    have "s_check EN_FT_REGISTERED (sess i s) \<and> \<not> s_check EN_FT_RECONNECTED (sess i s) \<and>
        \<not> s_check EN_FT_WAIT_RECONNECT (sess i s)" using Suc.prems(1) by (simp add: hour_flooded_def)
    with notify show ?case
      unfolding close_with_manager.simps raised_def by (simp add: run_bind del: run_state_bind)
  qed
  then show ?thesis using assms(3) by (simp add: raised_def)
qed

end
