(* ===== verification/GwManage.thy ===== *)
theory GwManage
  imports GwProps
begin

text \<open>
  What the operations of the manager do: broadcasting against a reference that collects the results,
  accepting a connection, reconnecting, and the timers of sessions that wait for a reconnect.
\<close>

section \<open>Broadcast\<close>

text \<open>The reference: send to every registered session of the list and collect the codes.\<close>

fun collect_sends :: "'p glink \<Rightarrow> byte list \<Rightarrow> nat list \<Rightarrow> ('p, int list) gm" where
  "collect_sends K bytes [] = ret []"
| "collect_sends K bytes (i # is) = do {
     reg \<leftarrow> gets (has_flag EN_FT_REGISTERED i);
     if reg then do {
       r \<leftarrow> send_to_client K i bytes;
       rs \<leftarrow> collect_sends K bytes is;
       ret (r # rs)
     }
     else collect_sends K bytes is
   }"

lemma broadcast_loop_collect:
  "run_state (broadcast_loop K bytes is r) s =
    (let (rs, s') = run_state (collect_sends K bytes is) s
     in (if r = 0 \<or> 0 \<in> set rs then 0 else last (r # rs), s'))"
proof (induction "is" arbitrary: r s)
  case Nil
  then show ?case by simp
next
  case (Cons i "is")
  show ?case
    by (cases "has_flag EN_FT_REGISTERED i s")
      (auto simp: Cons.IH Let_def case_prod_unfold)
qed

text \<open>C27: A broadcast sends to every active registered session, whatever the sends before it returned. It
  answers 0 when one of them succeeded, the code of the last when all failed, and session not found
  when there was none.\<close>

theorem broadcast_collects:
  "run_state (broadcast_data K bytes) s =
    (let (rs, s') = run_state (collect_sends K bytes (map snd (actived_sessions s))) s
     in (if 0 \<in> set rs then 0 else last (ec EN_ECT_SESSION_NOT_FOUND # rs), s'))"
  by (simp add: broadcast_data_def broadcast_loop_collect case_prod_unfold Let_def)

section \<open>Accepting\<close>

lemma accept_success:
  assumes "fresh_session i s" and "uv_init_res a = 0" and "uv_accept_res a = 0"
  shows "run_state (session_accept port i a) s =
    (0, upd_sess i (\<lambda>ss. (s_set EN_FT_HAS_FD True ss)\<lparr>s_peer_ip := uv_peer_ip a, s_peer_port := port a\<rparr>) s)"
  using assms by (simp add: session_accept_def has_flag_def fresh_session_def put_flag_def upd_sess_twice)

definition opened :: "'p gateway \<Rightarrow> uv_accept_t \<Rightarrow> int \<Rightarrow> nat \<Rightarrow> 'p gateway" where
  "opened s a port i = upd_sess i (\<lambda>ss. (s_set EN_FT_HAS_FD True (ss\<lparr>s_router := default_router (gw_conf s)\<rparr>))
     \<lparr>s_peer_ip := uv_peer_ip a, s_peer_port := port\<rparr>) s"

lemma opened_frame [simp]:
  "gw_conf (opened s a p i) = gw_conf s" "gw_now (opened s a p i) = gw_now s"
  "gw_trace (opened s a p i) = gw_trace s" "first_idle (opened s a p i) = first_idle s"
  by (simp_all add: opened_def)

lemma run_accept_session:
  assumes "fresh_session i s" and "uv_init_res a = 0" and "uv_accept_res a = 0"
  shows "run_state (accept_session K (session_accept port i a) i) s =
    run_state (accepted_session K i 0) (opened s a (port a) i)"
  using accept_success [OF fresh_router [OF assms(1), of "\<lambda>s. default_router (gw_conf s)"] assms(2,3), of port]
  by (simp add: accept_session_split opened_def upd_sess_twice)

text \<open>The number of clients is limited. When active and waiting sessions together have reached the limit,
  a connection just accepted is closed: all that happens after the accept is that close, and the
  session is closing, without a descriptor and without its manager.\<close>

theorem accept_over_limit_closes:
  fixes K :: "'p glink"
  assumes "link_ok K" and "gl_fuel K = Suc n" and "gw_ok s" and "fresh_session i s"
    and "uv_init_res a = 0" and "uv_accept_res a = 0"
    and "max_client_number (cl_limits s) > 0" and "session_count s \<ge> max_client_number (cl_limits s)"
    and "s' = snd (run_state (accept_session K (accept_tcp i a) i) s)"
  shows "s' = snd (run_state (session_close K i (cr EN_CRT_SERVER_BUSY)) (opened s a (uv_peer_port a) i)) \<and>
    has_flag EN_FT_CLOSING i s' \<and> \<not> has_flag EN_FT_HAS_FD i s' \<and> \<not> s_owner (sess i s')"
proof -
  let ?s1 = "opened s a (uv_peer_port a) i"
  have i: "i < length (gw_sessions s)" "\<not> s_check t (sess i s)" "s_owner (sess i s)" for t
    using assms(4) by (auto simp: fresh_session_def)
  have full: "max_client_number (cl_limits ?s1) > 0 \<and> session_count ?s1 \<ge> max_client_number (cl_limits ?s1)"
    using assms(7,8) by (simp add: opened_def cl_limits_def session_count_def)
  have eq: "s' = snd (run_state (session_close K i (cr EN_CRT_SERVER_BUSY)) ?s1)"
    unfolding assms(9) accept_tcp_def run_accept_session [OF assms(4-6)]
    using full by (simp add: accepted_session_def case_prod_unfold)
  have "session_ok (sess k ?s1)" if "k < length (gw_sessions s)" for k
    using assms(3) i that by (cases "k = i") (auto simp: gw_ok_def session_ok_def opened_def)
  then have ok: "gw_ok ?s1" by (simp add: gw_ok_def opened_def)
  have fd: "has_flag EN_FT_HAS_FD i ?s1" using i by (simp add: has_flag_def opened_def)
  show ?thesis using eq session_close_effect [OF assms(1,2) ok fd eq] by blast
qed

text \<open>Below the limit a new connection starts reading and gets a first idle timer: its session has the
  descriptor, the manager and the default router, and is not yet initialised or registered.\<close>

theorem accept_opens_session:
  assumes "gl_on_create K = Some on_create_session" and "fresh_session i s"
    and "uv_init_res a = 0" and "uv_accept_res a = 0"
    and "max_client_number (cl_limits s) = 0 \<or> session_count s < max_client_number (cl_limits s)"
    and "s' = snd (run_state (accept_session K (accept_tcp i a) i) s)"
  shows "has_flag EN_FT_HAS_FD i s' \<and> s_owner (sess i s') \<and>
    s_router (sess i s') = default_router (gw_conf s) \<and> \<not> has_flag EN_FT_INITED i s' \<and>
    \<not> has_flag EN_FT_REGISTERED i s' \<and> gw_trace s' = gw_trace s @ [EvReadStart i] \<and>
    (\<exists>t. first_idle s' = first_idle s @ [(t, i)] \<and> t > gw_now s)"
proof -
  let ?s1 = "opened s a (uv_peer_port a) i"
  have i: "i < length (gw_sessions s)" "\<not> s_check t (sess i s)" "s_owner (sess i s)" for t
    using assms(2) by (auto simp: fresh_session_def)
  have room: "\<not> (max_client_number (cl_limits ?s1) > 0 \<and> session_count ?s1 \<ge> max_client_number (cl_limits ?s1))"
    using assms(5) by (auto simp: opened_def cl_limits_def session_count_def)
  let ?t = "gw_now s + (if first_idle_timeout (gw_conf s) > 0 then first_idle_timeout (gw_conf s) else 1)"
  have eq: "s' = ?s1\<lparr>gw_trace := gw_trace s @ [EvReadStart i], first_idle := first_idle s @ [(?t, i)]\<rparr>"
    unfolding assms(6) accept_tcp_def run_accept_session [OF assms(2-4)]
    using room assms(1)
    by (auto simp: accepted_session_def on_create_session_def gw_log_def)
  show ?thesis using i by (simp add: eq has_flag_def opened_def)
qed

section \<open>Stale timers\<close>

text \<open>C28: A timer that outlived its purpose ends another session's chance to reconnect. The timer of a session
  that was already taken over still erases its id from the cache of waiting sessions, where by then
  the session that took over may be waiting with a later timer of its own; after the tick a
  reconnect to that id is refused.\<close>

theorem stale_timer_drops_waiting_session:
  assumes "gl_fuel K = Suc n" and "last_tick_time s \<noteq> gw_now s"
    and "reconnect_timers s = (t, i) # rest" and "t \<le> gw_now s" and "\<forall>(t', j) \<in> set rest. t' > gw_now s"
    and "first_idle s = []" and "map_of (reconnect_cache s) (s_id (sess i s)) = Some j" and "j \<noteq> i"
    and "has_flag EN_FT_RECONNECTED i s" and "has_flag EN_FT_CLOSING i s"
  shows "reconnect_timers (snd (run_state (manager_tick K) s)) = rest \<and>
    map_of (reconnect_cache (snd (run_state (manager_tick K) s))) (s_id (sess i s)) = None"
proof -
  let ?now = "gw_now s" and ?k = "s_id (sess i s)"
  let ?s1 = "s\<lparr>last_tick_time := ?now\<rparr>"
  let ?s2 = "upd_sess i (s_set EN_FT_WAIT_RECONNECT False)
      (?s1\<lparr>reconnect_cache := AList.delete ?k (reconnect_cache s)\<rparr>)"
  let ?s3 = "?s2\<lparr>reconnect_timers := rest\<rparr>"
  have i: "i < length (gw_sessions s)" by (rule has_flag_range [OF assms(9)])
  have cl: "run_state (close_with_manager K (Suc n) i r True) ?s2 = (0, ?s2)" for r
    using assms(9,10) i by (simp add: has_flag_def)
  have loop3: "run_state (reconnect_loop K (Suc m) ?now) ?s3 = ((), ?s3)" for m
    using assms(5) by (cases rest) auto
  have loop: "run_state (reconnect_loop K (Suc (Suc m)) ?now) ?s1 = ((), ?s3)" for m
    using assms(1,3,4) cl loop3 [of m]
    by (simp add: put_flag_def del: close_with_manager.simps)
  have idle: "run_state (idle_loop K (Suc m) ?now) ?s3 = ((), ?s3)" for m
    using assms(6) by simp
  have "run_state (manager_tick K) s = (0, ?s3)"
    using assms(1,2,3,6) loop idle by (simp add: manager_tick_def del: reconnect_loop.simps idle_loop.simps)
  then show ?thesis by (simp add: delete_conv)
qed

section \<open>Reconnecting\<close>

text \<open>A check that touches neither the sessions nor the cache nor the trace, as check_reconnect does.\<close>

definition quiet_check :: "'p glink \<Rightarrow> bool" where
  "quiet_check K \<longleftrightarrow> (\<forall>i j s. gw_sessions (snd (run_state (vt_check_reconnect (gl_vt K) i j) s)) = gw_sessions s \<and>
     reconnect_cache (snd (run_state (vt_check_reconnect (gl_vt K) i j) s)) = reconnect_cache s \<and>
     gw_trace (snd (run_state (vt_check_reconnect (gl_vt K) i j) s)) = gw_trace s)"

definition checked :: "'p glink \<Rightarrow> nat \<Rightarrow> bool" where
  "checked K new \<longleftrightarrow> (\<exists>j sa. fst (run_state (vt_check_reconnect (gl_vt K) new j) sa))"

lemma takeover_checked:
  assumes "quiet_check K" and "run_state (reconnect_takeover K new k) s = (True, s1)"
    and "map_of (reconnect_cache s1) k \<noteq> None"
  shows "checked K new"
proof -
  obtain act where act: "map_of (actived_sessions s) k = Some act" "map_of (reconnect_cache s) k = None"
    and c: "s_has_proto (sess new s) \<and> s_has_proto (sess act s)"
    using assms(2) by (auto simp: reconnect_takeover_def split: if_splits option.splits)
  obtain ok s2 where v: "run_state (vt_check_reconnect (gl_vt K) new act) s = (ok, s2)" by fastforce
  have "reconnect_cache s2 = reconnect_cache s" using assms(1) v by (metis quiet_check_def snd_conv)
  then have "ok" using assms(2,3) act c v
    by (cases ok) (auto simp: reconnect_takeover_def)
  with v have "fst (run_state (vt_check_reconnect (gl_vt K) new act) s)" by simp
  then show ?thesis unfolding checked_def by blast
qed

text \<open>The effect of a takeover, once every check has passed: the old session gives up, silently.\<close>

lemma run_takeover:
  assumes fuel: "gl_fuel K = Suc n" and old: "i < length (gw_sessions s)" "\<not> has_flag EN_FT_HAS_FD i s" "i \<noteq> new"
    and new: "new < length (gw_sessions s)"
    and cache: "map_of (reconnect_cache s) k = Some i"
    and run: "run_state (do { _ \<leftarrow> init_reconnect new i; _ \<leftarrow> session_close K i (cr EN_CRT_LOGOUT); erase_cache k i; ret (0 :: int) }) s = (r, s')"
  shows "s_id (sess new s') = s_id (sess i s) \<and> s_router (sess new s') = s_router (sess i s) \<and>
    has_flag EN_FT_INITED new s' \<and> has_flag EN_FT_REGISTERED new s' = has_flag EN_FT_REGISTERED i s \<and>
    has_flag EN_FT_RECONNECTED i s' \<and> has_flag EN_FT_CLOSING i s' \<and>
    map_of (reconnect_cache s') k = None \<and> gw_trace s' = gw_trace s"
proof -
  define f where "f = (\<lambda>ss. s_set EN_FT_REGISTERED (has_flag EN_FT_REGISTERED i s) (s_set EN_FT_INITED True (ss\<lparr>
      s_id := s_id (sess i s), s_router := s_router (sess i s),
      s_limit := (s_limit (sess i s))\<lparr>update_handshake_timepoint := gw_now s + conf_update_interval (crypt (gw_conf s))\<rparr>,
      s_private := s_private (sess i s)\<rparr>)))"
  define g where "g = (\<lambda>ss. s_set EN_FT_WAIT_RECONNECT False (s_set EN_FT_RECONNECTED True ss))"
  define s1 where "s1 = upd_sess i g (upd_sess new f (s\<lparr>gw_faults := gw_faults s @
      (if s_owner (sess new s) then [] else [NullDeref ''owner_''])\<rparr>))"
  have reg: "has_flag EN_FT_REGISTERED i (upd_sess new h s) = has_flag EN_FT_REGISTERED i s" for h
    using old(3) by (simp add: has_flag_def)
  have reg': "has_flag EN_FT_REGISTERED i (upd_sess new h (s\<lparr>gw_faults := fs\<rparr>)) = has_flag EN_FT_REGISTERED i s" for h fs
    using old(3) by (simp add: has_flag_def)
  have init: "run_state (init_reconnect new i) s = (0, s1)"
    by (cases "s_owner (sess new s)")
      (simp_all add: init_reconnect_def put_flag_def gw_raise_def upd_sess_twice reg reg' s1_def f_def g_def)
  have flags1: "s_check EN_FT_RECONNECTED (sess i s1)" "\<not> s_check EN_FT_HAS_FD (sess i s1)"
    using old by (simp_all add: s1_def g_def has_flag_def)
  define s2 where "s2 = (if has_flag EN_FT_CLOSING i s1 then s1 else upd_sess i (s_set EN_FT_CLOSING True) s1)"
  have i1: "i < length (gw_sessions s1)" using old(1) by (simp add: s1_def)
  have close: "run_state (session_close K i (cr EN_CRT_LOGOUT)) s1 = (0, s2)"
    using flags1 i1 by (simp add: session_close_def fuel s2_def put_flag_def run_close_fd has_flag_def)
  have c2: "reconnect_cache s2 = reconnect_cache s" by (simp add: s2_def s1_def)
  have s': "s' = s2\<lparr>reconnect_cache := AList.delete k (reconnect_cache s)\<rparr>"
    using run init close cache c2 by (simp add: erase_cache_def)
  show ?thesis
    using old new flags1 i1 by (auto simp: s' s2_def s1_def f_def g_def has_flag_def delete_conv)
qed

text \<open>C29: A reconnect to a waiting session moves everything to the new one. When it succeeds, the protocol
  object of the new session confirmed the old one's; the new session has the id, the router and the
  registration of the old one, which is marked reconnected, closing and out of the cache; and its
  server gets no remove notification.\<close>

theorem reconnect_moves_session:
  fixes K :: "'p glink"
  assumes "quiet_check K" and "gl_fuel K = Suc n" and "has_flag EN_FT_HAS_FD new s"
    and "map_of (reconnect_cache s) k = Some old" and "run_state (manager_reconnect K new k) s = (0, s')"
  shows "fst (run_state (vt_check_reconnect (gl_vt K) new old) s) \<and>
    s_id (sess new s') = s_id (sess old s) \<and> s_router (sess new s') = s_router (sess old s) \<and>
    has_flag EN_FT_INITED new s' \<and> has_flag EN_FT_REGISTERED new s' = has_flag EN_FT_REGISTERED old s \<and>
    has_flag EN_FT_RECONNECTED old s' \<and> has_flag EN_FT_CLOSING old s' \<and>
    map_of (reconnect_cache s') k = None \<and> gw_trace s' = gw_trace s"
proof -
  have take_over: "run_state (reconnect_takeover K new k) s = (False, s)"
    using assms(4) by (simp add: reconnect_takeover_def)
  obtain ok s1 where v: "run_state (vt_check_reconnect (gl_vt K) new old) s = (ok, s1)" by fastforce
  have q: "gw_sessions s1 = gw_sessions s" "reconnect_cache s1 = reconnect_cache s" "gw_trace s1 = gw_trace s"
    using assms(1) v by (metis quiet_check_def snd_conv)+
  have same: "sess i s1 = sess i s" "has_flag t i s1 = has_flag t i s" for i t
    by (simp_all add: q(1) sess_def has_flag_def)
  have body: "\<not> has_flag EN_FT_HAS_FD old s" "s_has_proto (sess old s)" "ok"
    "run_state (do { _ \<leftarrow> init_reconnect new old; _ \<leftarrow> session_close K old (cr EN_CRT_LOGOUT); erase_cache k old; ret (0 :: int) }) s1 = (0, s')"
    using assms(4,5) take_over v
    by (auto simp: manager_reconnect_def has_flag_def split: if_splits)
  have "old < length (gw_sessions s)" using body(2) by (auto simp: sess_def session_new_def split: if_splits)
  moreover have "new < length (gw_sessions s)" by (rule has_flag_range [OF assms(3)])
  moreover have "old \<noteq> new" using assms(3) body(1) by auto
  ultimately show ?thesis
    using run_takeover [OF assms(2) _ _ _ _ _ body(4)] body(1,3) assms(4) v q same by auto
qed

text \<open>No reconnect without a check. Whether the old session is waiting or still active, a reconnect
  succeeds only if a protocol object's check_reconnect has said yes for the new session.\<close>

theorem reconnect_is_checked:
  fixes K :: "'p glink"
  assumes "quiet_check K" and "run_state (manager_reconnect K new k) s = (0, s')"
  shows "\<exists>old sa. fst (run_state (vt_check_reconnect (gl_vt K) new old) sa)"
proof -
  obtain b s1 where t: "run_state (reconnect_takeover K new k) s = (b, s1)" by fastforce
  obtain old where c: "map_of (reconnect_cache s1) k = Some old"
    using assms(2) t by (cases "map_of (reconnect_cache s1) k") (auto simp: manager_reconnect_def)
  have "checked K new"
  proof (cases b)
    case True
    then show ?thesis using takeover_checked [OF assms(1)] t c by simp
  next
    case False
    obtain ok s2 where v: "run_state (vt_check_reconnect (gl_vt K) new old) s1 = (ok, s2)" by fastforce
    have "ok" using assms(2) t c v False by (auto simp: manager_reconnect_def split: if_splits)
    with v show ?thesis unfolding checked_def by (metis fst_conv)
  qed
  then show ?thesis by (simp add: checked_def)
qed

section \<open>A close that is reported at once\<close>

lemma has_flag_frame [simp]:
  "has_flag t i (s\<lparr>gw_trace := a1\<rparr>) = has_flag t i s" "has_flag t i (s\<lparr>actived_sessions := a3\<rparr>) = has_flag t i s"
  "has_flag t i (s\<lparr>reconnect_cache := a3\<rparr>) = has_flag t i s" "has_flag t i (s\<lparr>reconnect_timers := a4\<rparr>) = has_flag t i s"
  by (simp_all add: has_flag_def)

lemma has_flag_upd:
  "i < length (gw_sessions s) \<Longrightarrow> has_flag t i (upd_sess i f s) = s_check t (f (sess i s))"
  by (simp add: has_flag_def)

definition queue_wait :: "u64 \<Rightarrow> nat \<Rightarrow> 'p gateway \<Rightarrow> 'p gateway" where
  "queue_wait k i s = upd_sess i (s_set EN_FT_WAIT_RECONNECT True)
     (s\<lparr>reconnect_timers := reconnect_timers s @ [(gw_now s + reconnect_timeout (gw_conf s), i)],
        reconnect_cache := AList.update k i (reconnect_cache s)\<rparr>)"

lemma queue_wait_simps [simp]:
  "actived_sessions (queue_wait k i s) = actived_sessions s" "gw_now (queue_wait k i s) = gw_now s"
  "gw_conf (queue_wait k i s) = gw_conf s" "length (gw_sessions (queue_wait k i s)) = length (gw_sessions s)"
  "reconnect_timers (queue_wait k i s) = reconnect_timers s @ [(gw_now s + reconnect_timeout (gw_conf s), i)]"
  "i < length (gw_sessions s) \<Longrightarrow> sess i (queue_wait k i s) = s_set EN_FT_WAIT_RECONNECT True (sess i s)"
  by (simp_all add: queue_wait_def)

lemma run_close_no_fd:
  assumes "map_of (actived_sessions s) k = Some i" and "s_id (sess i s) = k" and "i < length (gw_sessions s)"
    and "\<not> has_flag EN_FT_HAS_FD i s" and "reconnect_timeout (gw_conf s) > 0"
  shows "run_state (manager_close K k r True) s =
    (0, (queue_wait k i s)\<lparr>actived_sessions := AList.delete k (actived_sessions s)\<rparr>)"
  using assms
  by (simp add: manager_close_def put_flag_def queue_wait_def [symmetric] run_close_fd erase_active_def)
    (simp add: has_flag_def)

text \<open>When the protocol object reports its close from within close_fd, the close callback runs the manager's
  close for the same session again, because neither CLOSING nor the loss of the manager is recorded yet.
  The hypothesis is what that call leaves behind; GwClose shows it of the inner protocol.\<close>

lemma reported_close_twice:
  fixes K :: "'p glink"
  assumes "map_of (actived_sessions s) k = Some i" and "s_id (sess i s) = k"
    and "reconnect_timeout (gw_conf s) > 0"
    and "has_flag EN_FT_HAS_FD i s" and "session_ok (sess i s)" and "s_has_proto (sess i s)"
    and reports: "\<And>x. gw_protos x = gw_protos s \<Longrightarrow> \<not> has_flag EN_FT_HAS_FD i x \<Longrightarrow>
      map_of (actived_sessions x) k = Some i \<Longrightarrow> s_id (sess i x) = k \<Longrightarrow>
      i < length (gw_sessions x) \<Longrightarrow> s_owner (sess i x) \<Longrightarrow> \<not> s_check EN_FT_CLOSING (sess i x) \<Longrightarrow>
      gw_conf x = gw_conf s \<Longrightarrow>
      map_of (actived_sessions (snd (run_state (vt_close (gl_vt K) i reason) x))) k = None \<and>
      reconnect_timers (snd (run_state (vt_close (gl_vt K) i reason) x)) =
        reconnect_timers x @ [(gw_now x + reconnect_timeout (gw_conf x), i)]"
    and "s' = snd (run_state (manager_close K k reason True) s)"
  shows "AssertFailed ''valid iterator'' \<in> set (gw_faults s') \<and>
    reconnect_timers s' = reconnect_timers s @ replicate 2 (gw_now s + reconnect_timeout (gw_conf s), i)"
proof -
  have i: "i < length (gw_sessions s)" by (rule has_flag_range [OF assms(4)])
  have st: "\<not> s_check EN_FT_CLOSING (sess i s)" "\<not> s_check EN_FT_CLOSING_FD (sess i s)" "s_owner (sess i s)"
    "s_check EN_FT_HAS_FD (sess i s)" using assms(4,5) by (simp_all add: session_ok_def has_flag_def)
  let ?s1 = "queue_wait k i s"
  let ?s2 = "upd_sess i (s_set EN_FT_HAS_FD False) ?s1"
  have s2: "sess i ?s2 = s_set EN_FT_HAS_FD False (s_set EN_FT_WAIT_RECONNECT True (sess i s))" using i by simp
  define s3 where "s3 = snd (run_state (vt_close (gl_vt K) i reason) ?s2)"
  have "\<not> has_flag EN_FT_HAS_FD i ?s2" by (simp add: has_flag_def s2)
  moreover have "gw_protos ?s2 = gw_protos s" by (simp add: queue_wait_def)
  ultimately have vt: "map_of (actived_sessions s3) k = None"
    "reconnect_timers s3 = reconnect_timers s @ replicate 2 (gw_now s + reconnect_timeout (gw_conf s), i)"
    using reports [of ?s2] assms(1,2) i st s2 by (simp_all add: s3_def numeral_2_eq_2)
  let ?s4 = "upd_sess i (s_set EN_FT_CLOSING_FD True) (upd_sess i (\<lambda>ss. ss\<lparr>s_owner := False, s_holder := True\<rparr>) s3)"
  have flags: "\<not> has_flag EN_FT_CLOSING_FD i ?s1" "has_flag EN_FT_HAS_FD i ?s1" "s_has_proto (sess i ?s2)"
    using st i assms(6) s2 by (simp_all add: has_flag_def)
  have close: "snd (run_state (close_fd K i reason) ?s1) =
      (if vt_closed (gl_vt K) i ?s4 then ?s4\<lparr>gw_trace := gw_trace ?s4 @ [EvUvShutdown i]\<rparr> else ?s4)"
    using flags by (simp add: run_close_fd s3_def [symmetric] Let_def)
  have "s' = snd (run_state (erase_active k i) (snd (run_state (close_fd K i reason) ?s1)))"
    unfolding assms(8) using assms(1-3)
    by (simp add: manager_close_def put_flag_def queue_wait_def run_bind del: run_state_bind)
  then have "s' = (snd (run_state (close_fd K i reason) ?s1))\<lparr>gw_faults := gw_faults (snd (run_state (close_fd K i reason) ?s1)) @ [AssertFailed ''valid iterator'']\<rparr>"
    using vt(1) by (simp add: close erase_active_def gw_raise_def)
  then show ?thesis using vt(2) by (simp add: close)
qed

end
