(* ===== verification/GwWitness.thy ===== *)
theory GwWitness
  imports GwManage
begin

text \<open>One concrete state for each property of the gateway, on the instance of GwSafety.\<close>

definition ex_over :: "(client_limit_t \<Rightarrow> client_limit_t) \<Rightarrow> (limit_t \<Rightarrow> limit_t) \<Rightarrow> nat list gateway" where
  "ex_over f g = (ex_gw1 (ex_sess\<lparr>s_limit := g limit_zero\<rparr>))\<lparr>gw_conf := ex_gw_conf\<lparr>limits := f ex_limits\<rparr>\<rparr>"

lemma ex_over_simps [simp]:
  "sess 0 (ex_over f g) = ex_sess\<lparr>s_limit := g limit_zero\<rparr>" "cl_limits (ex_over f g) = f ex_limits"
  "gw_sessions (ex_over f g) = [ex_sess\<lparr>s_limit := g limit_zero\<rparr>]" "gw_now (ex_over f g) = 1000"
  by (simp_all add: ex_over_def ex_gw1_def sess_def cl_limits_def ex_gw_conf_def ex_gw_def)

lemma ex_over_fd: "has_flag EN_FT_HAS_FD 0 (ex_over f g)" "gw_ok (ex_over f g)" "s_owner ex_sess"
  by (simp_all add: has_flag_def ex_sess_def gw_ok_def session_ok_def)

lemma ex_fuel: "gl_fuel ex_glink = Suc 2"
  by (simp add: ex_glink_def)

lemma total_send_limit_derefs_manager_witness:
  "NullDeref ''owner_'' \<in> set (gw_faults (snd (run_state (check_total_limit ex_glink (close_exceeded ex_glink 0) 0 False True)
     (ex_over (max_total_send_bytes_update (\<lambda>_. 5)) (total_send_bytes_update (\<lambda>_. 9))))))"
  by (rule total_send_limit_derefs_manager [OF ex_link_ok ex_fuel ex_over_fd(2,1)]) simp_all

lemma total_recv_limit_uses_send_limit_witness:
  "has_flag EN_FT_CLOSING 0 (snd (run_state (check_total_limit ex_glink (close_exceeded ex_glink 0) 0 True False)
     (ex_over (max_total_recv_bytes_update (\<lambda>_. 1000)) (total_recv_bytes_update (\<lambda>_. 1)))))"
  by (rule total_recv_limit_uses_send_limit [OF ex_link_ok ex_fuel]) (simp_all add: ex_over_fd ex_limits_def)

lemma hour_send_limit_not_enforced_witness:
  "has_flag EN_FT_HAS_FD 0 (snd (run_state (check_hour_limit ex_glink (close_exceeded ex_glink 0) 0 False True)
     (ex_over (max_hour_send_bytes_update (\<lambda>_. 5)) (hour_send_bytes_update (\<lambda>_. 900)))))"
proof -
  have "run_state (check_hour_limit ex_glink (close_exceeded ex_glink 0) 0 False True)
     (ex_over (max_hour_send_bytes_update (\<lambda>_. 5)) (hour_send_bytes_update (\<lambda>_. 900))) =
     ((), ex_over (max_hour_send_bytes_update (\<lambda>_. 5)) (hour_send_bytes_update (\<lambda>_. 900)))"
    by (rule hour_send_limit_not_enforced) (simp_all add: ex_limits_def limit_zero_def ex_glink_def)
  then show ?thesis by (simp add: ex_over_fd)
qed

definition ex_flooded :: "nat list gateway" where
  "ex_flooded = (ex_gw1 (s_set EN_FT_REGISTERED True (ex_sess\<lparr>s_limit := limit_zero\<lparr>hour_send_bytes := 9\<rparr>\<rparr>)))
     \<lparr>gw_conf := ex_gw_conf\<lparr>limits := ex_limits\<lparr>max_hour_send_bytes := 5\<rparr>\<rparr>\<rparr>"

lemma flooded_close_never_returns_witness:
  "OutOfFuel ''close_with_manager'' \<in>
    set (gw_faults (snd (run_state (close_with_manager ex_glink 1000 0 (cr EN_CRT_KICKOFF) True) ex_flooded)))"
proof (rule flooded_close_never_returns [OF ex_link_ok])
  show "gl_serialize ex_glink m \<noteq> None" for m by (simp add: ex_glink_def)
  have "sess 0 ex_flooded = s_set EN_FT_REGISTERED True (ex_sess\<lparr>s_limit := limit_zero\<lparr>hour_send_bytes := 9\<rparr>\<rparr>)"
    by (simp add: ex_flooded_def ex_gw1_def sess_def)
  then show "hour_flooded ex_glink 0 ex_flooded"
    by (simp add: hour_flooded_def ex_sess_def)
      (simp add: ex_flooded_def ex_gw1_def ex_gw_def cl_limits_def ex_gw_conf_def ex_glink_def limit_zero_def)
qed

definition ex_acc :: uv_accept_t where
  "ex_acc = \<lparr>uv_init_res = 0, uv_accept_res = 0, uv_peer_ip = ''::1'', uv_peer_port = 80\<rparr>"

definition ex_new :: "(u64 \<times> nat) list \<Rightarrow> nat list gateway" where
  "ex_new act = (ex_gw1 (session_new\<lparr>s_owner := True, s_has_proto := True\<rparr>))\<lparr>actived_sessions := act\<rparr>"

lemma ex_new_facts: "fresh_session 0 (ex_new act)" "gw_ok (ex_new act)" "cl_limits (ex_new act) = ex_limits"
  "session_count (ex_new act) = word_of_nat (length act)" "gw_conf (ex_new act) = ex_gw_conf" "uv_init_res ex_acc = 0" "uv_accept_res ex_acc = 0"
  by (simp_all add: fresh_session_def ex_new_def ex_gw1_def gw_ok_def sess_def session_ok_def cl_limits_def ex_gw_def
      ex_gw_conf_def session_count_def ex_acc_def)

lemma accept_over_limit_closes_witness:
  "has_flag EN_FT_CLOSING 0 (snd (run_state (accept_session ex_glink (accept_tcp 0 ex_acc) 0) (ex_new [(1, 1), (2, 2)])))"
proof -
  have "max_client_number (cl_limits (ex_new [(1, 1), (2, 2)])) > 0"
    "session_count (ex_new [(1, 1), (2, 2)]) \<ge> max_client_number (cl_limits (ex_new [(1, 1), (2, 2)]))"
    by (simp_all add: ex_new_facts ex_limits_def)
  then show ?thesis
    using accept_over_limit_closes [OF ex_link_ok ex_fuel ex_new_facts(2,1,6,7) _ _ refl] by blast
qed

lemma accept_opens_session_witness:
  "has_flag EN_FT_HAS_FD 0 (snd (run_state (accept_session ex_glink (accept_tcp 0 ex_acc) 0) (ex_new [(1, 1)])))"
proof -
  have "session_count (ex_new [(1, 1)]) < max_client_number (cl_limits (ex_new [(1, 1)]))"
    by (simp add: ex_new_facts ex_limits_def)
  moreover have "gl_on_create ex_glink = Some on_create_session" by (simp add: ex_glink_def)
  ultimately show ?thesis using accept_opens_session [OF _ ex_new_facts(1,6,7) _ refl] by blast
qed

text \<open>Session 0 was taken over by session 1, which waits in turn: its timer is the later one.\<close>

definition ex_stale :: "nat list gateway" where
  "ex_stale = ex_gw\<lparr>gw_sessions :=
     [s_set EN_FT_CLOSING True (s_set EN_FT_RECONNECTED True (session_new\<lparr>s_id := 5, s_has_proto := True\<rparr>)),
      s_set EN_FT_WAIT_RECONNECT True (session_new\<lparr>s_id := 5, s_has_proto := True\<rparr>)],
     reconnect_timers := [(900, 0), (1100, 1)], reconnect_cache := [(5, 1)]\<rparr>"

lemma stale_timer_drops_waiting_session_witness:
  "map_of (reconnect_cache (snd (run_state (manager_tick ex_glink) ex_stale))) 5 = None"
proof -
  have s: "sess 0 ex_stale = s_set EN_FT_CLOSING True (s_set EN_FT_RECONNECTED True (session_new\<lparr>s_id := 5, s_has_proto := True\<rparr>))"
    by (simp add: ex_stale_def sess_def)
  have "map_of (reconnect_cache (snd (run_state (manager_tick ex_glink) ex_stale))) (s_id (sess 0 ex_stale)) = None"
    by (rule conjunct2 [OF stale_timer_drops_waiting_session [OF ex_fuel, of ex_stale 900 0 "[(1100, 1)]" 1]])
      (simp_all add: s has_flag_def, simp_all add: ex_stale_def ex_gw_def)
  then show ?thesis by (simp add: s)
qed

definition ex_rejoin :: "nat list gateway" where
  "ex_rejoin = ex_gw\<lparr>gw_sessions :=
     [s_set EN_FT_REGISTERED True (s_set EN_FT_WAIT_RECONNECT True (session_new\<lparr>s_id := 5, s_router := 77, s_has_proto := True\<rparr>)),
      s_set EN_FT_HAS_FD True (session_new\<lparr>s_owner := True, s_has_proto := True\<rparr>)],
     reconnect_cache := [(5, 0)]\<rparr>"

lemma ex_quiet: "quiet_check ex_glink"
  by (simp add: quiet_check_def ex_glink_def ex_vt_def)

lemma ex_rejoin_sess:
  "sess 0 ex_rejoin = s_set EN_FT_REGISTERED True (s_set EN_FT_WAIT_RECONNECT True (session_new\<lparr>s_id := 5, s_router := 77, s_has_proto := True\<rparr>))"
  "sess (Suc 0) ex_rejoin = s_set EN_FT_HAS_FD True (session_new\<lparr>s_owner := True, s_has_proto := True\<rparr>)"
  "map_of (reconnect_cache ex_rejoin) 5 = Some 0"
  by (simp_all add: ex_rejoin_def sess_def)

lemma ex_rejoin_ok: "fst (run_state (manager_reconnect ex_glink 1 5) ex_rejoin) = 0"
proof -
  have "run_state (reconnect_takeover ex_glink 1 5) ex_rejoin = (False, ex_rejoin)"
    by (simp add: reconnect_takeover_def ex_rejoin_sess)
  moreover have "run_state (vt_check_reconnect (gl_vt ex_glink) 1 0) s = (True, s)" for s
    by (simp add: ex_glink_def ex_vt_def)
  ultimately show ?thesis
    by (simp add: manager_reconnect_def ex_rejoin_sess case_prod_unfold)
qed

lemma reconnect_moves_session_witness:
  "s_id (sess 1 (snd (run_state (manager_reconnect ex_glink 1 5) ex_rejoin))) = 5"
proof -
  obtain s' where run: "run_state (manager_reconnect ex_glink 1 5) ex_rejoin = (0, s')"
    using ex_rejoin_ok by (metis prod.collapse)
  have "has_flag EN_FT_HAS_FD 1 ex_rejoin" by (simp add: has_flag_def ex_rejoin_sess)
  then show ?thesis
    using reconnect_moves_session [OF ex_quiet ex_fuel _ ex_rejoin_sess(3) run] run by (simp add: ex_rejoin_sess)
qed

lemma reconnect_is_checked_witness:
  "\<exists>old sa. fst (run_state (vt_check_reconnect (gl_vt ex_glink) 1 old) sa)"
proof -
  obtain s' where run: "run_state (manager_reconnect ex_glink 1 5) ex_rejoin = (0, s')"
    using ex_rejoin_ok by (metis prod.collapse)
  show ?thesis using reconnect_is_checked [OF ex_quiet run] .
qed

end
