(* ===== verification/GwObjects.thy ===== *)
theory GwObjects
  imports GwSafety
begin

text \<open>
  The gateway acts on the protocol objects only through their virtual functions, and writes to a connection
  only in the write callback. So a relation that ignores the rest of the gateway and that the
  virtual functions keep is kept by every operation. The locale \<open>objects\<close> is about the operations
  a callback of an object can reach, which never read from a connection or make an object; \<open>all_objects\<close> adds
  those that do.
\<close>

named_theorems objs_io \<open>operations of the gateway keep the relation\<close>

definition uv_writes :: "gw_event list \<Rightarrow> (nat \<times> byte list) list" where
  "uv_writes tr = List.map_filter (\<lambda>e. case e of EvUvWrite i bs \<Rightarrow> Some (i, bs) | _ \<Rightarrow> None) tr"

lemma uv_writes_simps [simp]:
  "uv_writes [] = []" "uv_writes (s @ t) = uv_writes s @ uv_writes t" "uv_writes [EvUvWrite i bs] = [(i, bs)]"
  "\<not> (\<exists>i bs. e = EvUvWrite i bs) \<Longrightarrow> uv_writes [e] = []" "uv_writes (replicate n EvListenClose) = []"
  by (auto simp: uv_writes_def map_filter_def split: gw_event.splits)

locale objects =
  fixes K :: "'p glink" and R :: "'p gateway \<Rightarrow> 'p gateway \<Rightarrow> bool"
  assumes pre: "rel_pre R"
    and quiet: "gw_protos s' = gw_protos s \<Longrightarrow> uv_writes (gw_trace s') = uv_writes (gw_trace s) \<Longrightarrow>
      length (gw_sessions s) \<le> length (gw_sessions s') \<Longrightarrow> R s s'"
    and vt_alloc: "state_io_rel R (vt_alloc (gl_vt K) i n)"
    and vt_write: "state_io_rel R (vt_write (gl_vt K) i bs)"
    and vt_write_done: "state_io_rel R (vt_write_done (gl_vt K) i z)"
    and vt_close: "state_io_rel R (vt_close (gl_vt K) i z)"
    and vt_check_reconnect: "state_io_rel R (vt_check_reconnect (gl_vt K) i j)"
    and vt_handshake_update: "state_io_rel R (vt_handshake_update (gl_vt K) i)"
begin

lemma quiet_gw:
  "(\<And>s. gw_protos (f s) = gw_protos s) \<Longrightarrow> (\<And>s. uv_writes (gw_trace (f s)) = uv_writes (gw_trace s)) \<Longrightarrow>
   (\<And>s. length (gw_sessions s) \<le> length (gw_sessions (f s))) \<Longrightarrow> state_io_rel R (modify f)"
  by (rule io_rel_modify) (rule quiet)

lemmas objs_rules = io_rel_bind [OF pre] io_rel_return [OF pre] io_rel_gets [OF pre] io_rel_when [OF pre]
  io_rel_if io_rel_case_option io_rel_case_prod io_rel_let io_rel_case_list quiet_gw

lemmas vt_objs [objs_io] = vt_alloc vt_write vt_write_done vt_close vt_check_reconnect vt_handshake_update

lemma base_objs [objs_io]:
  "state_io_rel R (put_flag i t v)" "state_io_rel R (upd_limit i l)"
  "state_io_rel R (gw_raise f)" "state_io_rel R (modify (upd_sess i g))"
  unfolding put_flag_def upd_limit_def gw_raise_def by (intro objs_rules; simp)+

lemma log_objs [objs_io]: "\<not> (\<exists>i bs. e = EvUvWrite i bs) \<Longrightarrow> state_io_rel R (gw_log e)"
  unfolding gw_log_def by (intro objs_rules) simp_all

lemma limits_objs [objs_io]:
  assumes "state_io_rel R cl"
  shows "state_io_rel R (limit_test cl i e p b c)"
    and "state_io_rel R (check_hour_limit K cl i a d)"
    and "state_io_rel R (check_minute_limit K cl i a d)"
    and "state_io_rel R (check_total_limit K cl i a d)"
    and "state_io_rel R (check_limits K cl i a d)"
  unfolding check_limits_def check_hour_limit_def check_minute_limit_def check_total_limit_def limit_test_def
  by (intro objs_rules objs_io assms; simp)+

lemma post_buffer_objs [objs_io]: "state_io_rel R (post_buffer K tid ty bs)"
  unfolding post_buffer_def by (intro objs_rules objs_io; simp)

lemma notify_objs [objs_io]:
  assumes "state_io_rel R cl"
  shows "state_io_rel R (send_to_server_with K cl i msg mgr)"
    and "state_io_rel R (send_new_session_with K cl i)"
    and "state_io_rel R (send_remove_session_with K cl i mgr)"
  unfolding send_new_session_with_def send_remove_session_with_def send_to_server_with_def
  by (intro objs_rules objs_io assms; simp)+

lemma close_fd_objs [objs_io]: "state_io_rel R (close_fd K i r)"
  unfolding close_fd_def by (intro objs_rules objs_io; simp)

lemma close_with_manager_objs [objs_io]: "state_io_rel R (close_with_manager K n i r mgr)"
proof (induction n arbitrary: r mgr)
  case 0
  show ?case by (simp only: close_with_manager.simps) (intro objs_rules objs_io)
next
  case (Suc n)
  show ?case by (simp only: close_with_manager.simps) (intro objs_rules objs_io Suc.IH)
qed

lemma session_objs [objs_io]:
  "state_io_rel R (session_close K i r)" "state_io_rel R (close_exceeded K i)"
  "state_io_rel R (send_new_session K i)" "state_io_rel R (send_to_client K i bs)"
  "state_io_rel R (init_new_session i router)" "state_io_rel R (init_reconnect i old)"
  unfolding session_close_def close_exceeded_def send_new_session_def send_to_client_def init_new_session_def
    init_reconnect_def
  by (intro objs_rules objs_io; simp)+

lemma connection_objs [objs_io]:
  "state_io_rel R (on_alloc_read K i n)" "state_io_rel R (on_write_done K i st)"
  "state_io_rel R (on_evt_shutdown i)" "state_io_rel R (on_evt_closed i)"
  unfolding on_alloc_read_def on_write_done_def on_evt_shutdown_def on_evt_closed_def
  by (intro objs_rules objs_io; simp)+

lemma manager_close_objs [objs_io]:
  "state_io_rel R (erase_active k i)" "state_io_rel R (erase_cache k i)"
  "state_io_rel R (manager_close K k r al)"
  unfolding manager_close_def erase_active_def erase_cache_def
  by (intro objs_rules objs_io; simp)+

lemma manager_data_objs [objs_io]:
  "state_io_rel R (post_msg K tid msg)"
  "state_io_rel R (push_data K k bs)" "state_io_rel R (set_session_router k router)"
  unfolding push_data_def post_msg_def set_session_router_def
  by (intro objs_rules objs_io; simp)+

lemma manager_takeover_objs [objs_io]: "state_io_rel R (reconnect_takeover K new old)"
  unfolding reconnect_takeover_def by (intro objs_rules objs_io; simp)

lemma manager_objs [objs_io]:
  "state_io_rel R (manager_reconnect K new old)" "state_io_rel R (active_session K i)"
  unfolding manager_reconnect_def active_session_def
  by (intro objs_rules objs_io; simp)+

lemma callbacks_objs [objs_io]:
  "state_io_rel R (cb_message K i bs)"
  "state_io_rel R (cb_new_session i)" "state_io_rel R (cb_reconnect K i k)"
  "state_io_rel R (cb_close K i z)" "state_io_rel R (cb_handshake_done K i z)"
  unfolding cb_message_def cb_new_session_def cb_reconnect_def cb_close_def cb_handshake_done_def
  by (intro objs_rules objs_io; simp)+

end

text \<open>What comes from outside: not the callbacks of the objects.\<close>

fun from_outside :: "gw_input \<Rightarrow> bool" where
  "from_outside (Gw_cb_write h i bs) = False"
| "from_outside (Gw_cb_message i bs) = False"
| "from_outside (Gw_cb_new i) = False"
| "from_outside (Gw_cb_reconnect i k) = False"
| "from_outside (Gw_cb_close i r) = False"
| "from_outside (Gw_cb_done i st) = False"
| "from_outside (Gw_reload cf) = False"
| "from_outside c = True"

text \<open>Reading, the limits of the buffers, and making an object.\<close>

locale all_objects = objects +
  assumes vt_read: "state_io_rel R (vt_read (gl_vt K) i z bs)"
    and vt_recv_limit: "state_io_rel R (vt_recv_limit (gl_vt K) i a b)"
    and vt_send_limit: "state_io_rel R (vt_send_limit (gl_vt K) i a b)"
    and create_proto: "gl_create_proto K = Some m \<Longrightarrow> state_io_rel R m"
    and on_create: "gl_on_create K = Some f \<Longrightarrow> state_io_rel R (f i)"
begin

lemma accept_objs [objs_io]:
  "state_io_rel R (set_buffer_limits K i)" "state_io_rel R (session_accept port i a)"
  "state_io_rel R (session_create b)"
  unfolding session_create_def set_buffer_limits_def session_accept_def
  by (intro objs_rules objs_io vt_recv_limit vt_send_limit; simp)+

lemma make_session_objs [objs_io]: "state_io_rel R (make_session K)"
  unfolding make_session_def
  by (cases "gl_create_proto K"; simp only: option.case; intro objs_rules objs_io create_proto)

lemma accept_session_objs [objs_io]:
  "state_io_rel R m \<Longrightarrow> state_io_rel R (accept_session K m i)"
  unfolding accept_session_def
  by (cases "gl_on_create K"; simp only: option.case)
    (intro objs_rules objs_io; simp add: on_create)+

lemma on_evt_accept_objs [objs_io]:
  "state_io_rel R (on_evt_accept_tcp K st a)" "state_io_rel R (on_evt_accept_pipe K st a)"
  unfolding on_evt_accept_tcp_def on_evt_accept_pipe_def accept_tcp_def accept_pipe_def
  by (intro objs_rules objs_io; simp)+

lemma broadcast_objs [objs_io]: "state_io_rel R (broadcast_data K bs)"
proof -
  have "state_io_rel R (broadcast_loop K bs is r)" for "is" r
    by (induction "is" arbitrary: r) (auto intro!: objs_rules objs_io)
  then show ?thesis unfolding broadcast_data_def by (intro objs_rules; simp)
qed

lemma timer_objs [objs_io]:
  "state_io_rel R (reconnect_loop K n now)" "state_io_rel R (idle_loop K n now)"
  by (induction n) (auto intro!: objs_rules objs_io)

lemma close_all_objs [objs_io]: "state_io_rel R (close_all K r is)"
  by (induction "is") (auto intro!: objs_rules objs_io)

lemma manager_tick_objs [objs_io]:
  "state_io_rel R (manager_tick K)" "state_io_rel R (manager_reset K)"
  unfolding manager_tick_def manager_reset_def by (intro objs_rules objs_io; simp)+

lemma listen_objs [objs_io]: "state_io_rel R (listen_all ans)"
proof -
  have "state_io_rel R (manager_listen ans a)" for a
    unfolding manager_listen_def by (intro objs_rules objs_io; simp)
  then have "state_io_rel R (listen_loop ans as n)" for as n
    by (induction as arbitrary: n) (auto intro!: objs_rules)
  then show ?thesis unfolding listen_all_def by (intro objs_rules; simp)
qed

lemma application_objs [objs_io]:
  "state_io_rel R (on_read_data K i n buf)" "state_io_rel R (on_written K i z)"
  "state_io_rel R (gateway_init K ans)" "state_io_rel R (gateway_stop K)"
  "state_io_rel R (cmd_kickoff K ko zo)" "state_io_rel R (cmd_disconnect K ko zo)"
  unfolding on_read_data_def on_read_def on_written_def gateway_init_def gateway_stop_def manager_init_def
    cmd_kickoff_def cmd_disconnect_def
  by (intro objs_rules objs_io vt_read; simp)+

lemma on_server_msg_objs [objs_io]: "state_io_rel R (on_server_msg K src msg)"
proof -
  have "state_io_rel R (multicast K bs ks)" for bs ks
    by (induction ks) (auto intro!: objs_rules objs_io)
  then show ?thesis unfolding on_server_msg_def Let_def
    by (cases "ss_body msg") (auto intro!: objs_rules objs_io)
qed

lemma gw_call_objs: "from_outside c \<Longrightarrow> state_io_rel R (gw_call K c)"
  by (cases c; simp only: gw_call.simps on_read_alloc_some; intro objs_rules objs_io; simp)

end

end
