(* ===== verification/ProtoWorld.thy ===== *)
theory ProtoWorld
  imports ProtoSafety
begin

text \<open>
  A protocol object acts on its engine only by its callbacks, and writes only by the write callback, right
  after it has noted the write. So a relation that ignores the rest of the object, that the other callbacks
  keep, and that each noted write followed by its callback keeps, is kept by every operation. The locale
  states this once; the engine of the gateway has two instances of it.
\<close>

named_theorems world_io \<open>operations of the protocol object keep the relation\<close>

locale engine =
  fixes K :: "('c, 'd, 'g, 'b, 'w) link"
    and R :: "('c, 'd, 'g, 'b, 'w) proto_env \<Rightarrow> ('c, 'd, 'g, 'b, 'w) proto_env \<Rightarrow> bool"
  assumes pre: "rel_pre R"
    and quiet: "g_world s' = g_world s \<Longrightarrow> writes (trace s') = writes (trace s) \<Longrightarrow>
      write_header_offset s' = write_header_offset s \<Longrightarrow> R s s'"
    and others: "cb_rel R (map_option (\<lambda>t. t\<lparr>write_fn := None\<rparr>) (lk_cb K))"
    and writing: "Option.bind (lk_cb K) write_fn = Some wfn \<Longrightarrow> g_world s1 = g_world s \<Longrightarrow>
      writes (trace s1) = writes (trace s) @ [bs] \<Longrightarrow> write_header_offset s1 = write_header_offset s \<Longrightarrow>
      R s (snd (run_state (wfn bs) s1))"
begin

lemmas world_defs = log_event_def set_flag_def put_crypt_def upd_hs_crypt_def use_hs_read_def use_hs_write_def
  new_hs_crypt_def pong_update_def keep_left_def

lemma quiet_world:
  "(\<And>s. g_world (f s) = g_world s) \<Longrightarrow> (\<And>s. writes (trace (f s)) = writes (trace s)) \<Longrightarrow>
   (\<And>s. write_header_offset (f s) = write_header_offset s) \<Longrightarrow> state_io_rel R (modify f)"
  by (rule io_rel_modify) (rule quiet)

lemmas world_rules = io_rel_bind [OF pre] io_rel_return [OF pre] io_rel_gets [OF pre] io_rel_when [OF pre]
  io_rel_if io_rel_case_option io_rel_case_prod io_rel_let io_rel_case_list quiet_world

text \<open>A call of a callback, if there is one.\<close>

lemma callback_world:
  "state_io_rel R m \<Longrightarrow> (\<And>f. \<forall>bs n. state_io_rel R (f bs n) \<Longrightarrow> state_io_rel R (g2 f)) \<Longrightarrow>
   state_io_rel R (case Option.bind (lk_cb K) message_fn of None \<Rightarrow> m | Some f \<Rightarrow> g2 f)"
  "state_io_rel R m \<Longrightarrow> (\<And>f. \<forall>k. state_io_rel R (f k) \<Longrightarrow> state_io_rel R (g3 f)) \<Longrightarrow>
   state_io_rel R (case Option.bind (lk_cb K) new_session_fn of None \<Rightarrow> m | Some f \<Rightarrow> g3 f)"
  "state_io_rel R m \<Longrightarrow> (\<And>f. \<forall>k. state_io_rel R (f k) \<Longrightarrow> state_io_rel R (g4 f)) \<Longrightarrow>
   state_io_rel R (case Option.bind (lk_cb K) reconnect_fn of None \<Rightarrow> m | Some f \<Rightarrow> g4 f)"
  "state_io_rel R m \<Longrightarrow> (\<And>f. \<forall>r. state_io_rel R (f r) \<Longrightarrow> state_io_rel R (g5 f)) \<Longrightarrow>
   state_io_rel R (case Option.bind (lk_cb K) close_fn of None \<Rightarrow> m | Some f \<Rightarrow> g5 f)"
  "state_io_rel R m \<Longrightarrow> (\<And>f. \<forall>r x. state_io_rel R (f r x) \<Longrightarrow> state_io_rel R (g6 f)) \<Longrightarrow>
   state_io_rel R (case Option.bind (lk_cb K) on_error_fn of None \<Rightarrow> m | Some f \<Rightarrow> g6 f)"
  using others by (cases "lk_cb K"; simp add: cb_rel_def split: option.split)+

lemma base_world [world_io]:
  "state_io_rel R (raise_fault f)"
  "state_io_rel R (on_error (lk_cb K) e m)"
  "state_io_rel R (call_close (lk_cb K) r)"
  unfolding raise_fault_def on_error_def call_close_def
  by (intro callback_world world_rules; simp add: world_defs)+

lemma guard_world [world_io]:
  "state_io_rel R m \<Longrightarrow> state_io_rel R (flag_guard t m)"
  unfolding flag_guard_def by (intro world_rules) auto

lemma handshake_done_world [world_io]: "state_io_rel R (handshake_done (lk_cb K) st)"
proof -
  have shake: "state_io_rel R (case shake_callback (lk_cb K) d st of None \<Rightarrow> n | Some (e, m) \<Rightarrow> g e m)"
    if "state_io_rel R n" and "\<And>e m. state_io_rel R m \<Longrightarrow> writes [e] = [] \<Longrightarrow> state_io_rel R (g e m)"
    for n d and g :: "proto_event \<Rightarrow> ('c, 'd, 'g, 'b, 'w, int) pm \<Rightarrow> ('c, 'd, 'g, 'b, 'w, int) pm"
    using that others
    by (cases "lk_cb K") (auto simp: shake_callback_def cb_rel_def split: if_splits option.splits)
  show ?thesis unfolding handshake_done_def
    by (intro shake world_rules; simp add: world_defs)
qed

lemma report_closed_world [world_io]: "state_io_rel R (report_closed K d)"
  unfolding report_closed_def by (intro world_rules callback_world; simp add: world_defs)

lemma small_world [world_io]:
  "state_io_rel R next_seq" "state_io_rel R (random_bytes K g n)"
  "state_io_rel R (run_hs_crypt f)" "state_io_rel R (try_merge K)"
  unfolding next_seq_def random_bytes_def run_hs_crypt_def try_merge_def
  by (intro world_rules world_io; simp add: world_defs)+

lemma crypt_world [world_io]:
  "state_io_rel R (encrypt_data K i inp out0)" "state_io_rel R (decrypt_data K i inp out0)"
  unfolding encrypt_data_def decrypt_data_def by (intro world_rules world_io; simp add: world_defs)+

lemma post_world [world_io]:
  "state_io_rel R (encode_post K x)" "state_io_rel R (decode_post K y)"
  unfolding encode_post_def decode_post_def by (intro world_rules world_io)+

text \<open>The one place where a write is noted and handed over.\<close>

lemma hand_over:
  assumes fn: "Option.bind (lk_cb K) write_fn = Some wfn" and rest: "\<And>r d. state_io_rel R (k r d)"
  shows "state_io_rel R (do {
    modify (\<lambda>s. (log_event (EvWrite bs) (set_flag EN_PFT_WRITING True s))\<lparr>last_write_ptr := p\<rparr>);
    (r, d) \<leftarrow> wfn bs;
    k r d
  })"
  unfolding state_io_rel_def
proof
  fix s :: "('c, 'd, 'g, 'b, 'w) proto_env"
  let ?s1 = "(log_event (EvWrite bs) (set_flag EN_PFT_WRITING True s))\<lparr>last_write_ptr := p\<rparr>"
  obtain r d s2 where run: "run_state (wfn bs) ?s1 = ((r, d), s2)" by (metis prod.exhaust)
  have "R s s2" using writing [OF fn, of ?s1 s bs] run by (simp add: world_defs)
  moreover have "R s2 (snd (run_state (k r d) s2))" by (rule io_relD [OF rest])
  ultimately have "R s (snd (run_state (k r d) s2))" using rel_pre_trans [OF pre] by blast
  then show "R s (snd (run_state (do {
    modify (\<lambda>s. (log_event (EvWrite bs) (set_flag EN_PFT_WRITING True s))\<lparr>last_write_ptr := p\<rparr>);
    (r, d) \<leftarrow> wfn bs;
    k r d
  }) s))" using run by simp
qed

lemma try_write_both_world:
  "state_io_rel R (try_write K n) \<and> (\<forall>st. state_io_rel R (write_done K n st))"
proof (induction n)
  case 0
  show ?case by (auto intro!: world_rules world_io)
next
  case (Suc n)
  then have tw: "state_io_rel R (try_write K n)" and wd: "state_io_rel R (write_done K n st)" for st
    by auto
  have "state_io_rel R (write_done K (Suc n) st)" for st
    by (simp only: write_done.simps) (intro world_rules tw world_io; simp add: world_defs)
  moreover have "state_io_rel R (try_write K (Suc n))"
    by (cases "Option.bind (lk_cb K) write_fn"; simp only: try_write.simps option.case)
      (intro hand_over world_rules tw wd world_io; simp add: world_defs)+
  ultimately show ?case by blast
qed

lemmas write_world [world_io] = try_write_both_world [THEN conjunct1]
  try_write_both_world [THEN conjunct2, rule_format]

lemma send_world [world_io]:
  "state_io_rel R (write_msg K msg)"
  unfolding write_msg_def Let_def by (intro world_rules world_io; simp add: world_defs)

lemma send_msg_world [world_io]: "state_io_rel R (send_msg K ty body)"
  unfolding send_msg_def by (intro world_rules world_io)

lemma client_world [world_io]:
  "state_io_rel R (send_post K ty b)" "state_io_rel R (send_ping K)"
  "state_io_rel R (send_pong K tp)" "state_io_rel R (send_kickoff K r)"
  "state_io_rel R (send_verify K b)"
  unfolding send_post_def send_ping_def send_pong_def send_kickoff_def send_verify_def
  by (intro world_rules world_io; simp add: world_defs)+

lemma close_world [world_io]:
  "state_io_rel R (proto_write K b)" "state_io_rel R (close_with K r kick)"
  unfolding proto_write_def close_with_def by (intro world_rules world_io; simp add: world_defs)+

lemma setup_world [world_io]:
  "state_io_rel R (setup_handshake K conf)" "state_io_rel R (close_handshake K st)"
  "state_io_rel R (generate_hs_secret K)" "state_io_rel R (swap_hs_secret_self K)"
  "state_io_rel R (swap_hs_secret K v)"
  unfolding setup_handshake_def close_handshake_def generate_hs_secret_def swap_hs_secret_self_def swap_hs_secret_def
  by (intro world_rules world_io; simp add: world_defs)+

lemma pack_world [world_io]:
  "state_io_rel R (pack_handshake_start_rsp K sid ty)"
  "state_io_rel R (pack_handshake_dh_pubkey_req K peer step)"
  "state_io_rel R (handshake_update K)"
  unfolding pack_handshake_start_rsp_def pack_handshake_dh_pubkey_req_def handshake_update_def send_key_syn_def
  by (intro world_rules world_io; simp add: world_defs)+

lemma dispatch_start_world [world_io]:
  "state_io_rel R (dispatch_handshake_start_req K body)"
  "state_io_rel R (dispatch_handshake_reconn_req K body)"
  unfolding dispatch_handshake_start_req_def dispatch_handshake_reconn_req_def
  by (intro callback_world world_rules world_io; simp add: world_defs)+

lemma follow_world [world_io]: "state_io_rel R (follow_global_conf K ty sw)"
  unfolding follow_global_conf_def by (intro world_rules world_io; simp add: world_defs)

lemma dispatch_rsp_world [world_io]:
  "state_io_rel R (dispatch_handshake_start_rsp K body)"
  "state_io_rel R (dispatch_handshake_reconn_rsp K body)"
  unfolding dispatch_handshake_start_rsp_def dispatch_handshake_reconn_rsp_def
  by (intro world_rules world_io; simp add: world_defs)+

lemma reconnect_world [world_io]:
  "state_io_rel R (reconnect_proof K old body)" "state_io_rel R (check_reconnect K other)"
  unfolding check_reconnect_def reconnect_proof_def by (intro world_rules world_io; simp add: world_defs)+

lemma dh_world [world_io]:
  "state_io_rel R (dh_accept_pubkey K pk)" "state_io_rel R (dh_verify_text K g)"
  "state_io_rel R (dispatch_handshake_dh_pubkey_req K peer step)"
  "state_io_rel R (dispatch_handshake_dh_pubkey_rsp K body)"
  "state_io_rel R (dispatch_handshake_verify_ntf K body)"
  unfolding dh_accept_pubkey_def dh_verify_text_def dispatch_handshake_dh_pubkey_req_def
    dispatch_handshake_dh_pubkey_rsp_def dispatch_handshake_verify_ntf_def
  by (intro world_rules world_io; simp add: world_defs)+

lemma dispatch_world [world_io]:
  "state_io_rel R (dispatch_step K body)" "state_io_rel R (dispatch_handshake K body)"
  unfolding dispatch_handshake_def dispatch_step_def Let_def by (intro world_rules world_io)+

lemma deref_world [world_io]:
  "(\<And>x. state_io_rel R (f x)) \<Longrightarrow> state_io_rel R (deref what p f)"
  unfolding deref_def by (intro world_rules world_io)

lemma dispatch_post_world [world_io]:
  "state_io_rel R (dispatch_post_body K post)" "state_io_rel R (dispatch_post K p)"
  unfolding dispatch_post_def dispatch_post_body_def by (intro callback_world world_rules world_io; simp add: world_defs)+

lemma dispatch_data_world [world_io]:
  "state_io_rel R (dispatch_msg K msg)" "state_io_rel R (dispatch_data K b e)"
  unfolding dispatch_data_def dispatch_msg_def close_def Let_def
  by (intro io_rel_case_body world_rules world_io; simp add: world_defs)+

lemma read_loop_world [world_io]: "state_io_rel R (read_loop K start left e)"
proof (induction left arbitrary: start e rule: less_induct)
  case (less left)
  show ?case
    by (subst read_loop.simps) (intro world_rules world_io less.IH; simp add: world_defs)
qed

lemma read_world [world_io]:
  "state_io_rel R (alloc_recv_buffer K)" "state_io_rel R (proto_read K n)"
  unfolding alloc_recv_buffer_def proto_read_def read_head_def read_front_def read_drop_def
  by (intro world_rules world_io; simp add: world_defs)+

lemma deliver_world [world_io]: "state_io_rel R (deliver K bytes)"
  unfolding deliver_def by (intro io_rel_case_place world_rules world_io; simp add: world_defs)

lemma limits_world [world_io]:
  "state_io_rel R (set_recv_buffer_limit K m n)" "state_io_rel R (set_send_buffer_limit K m n)"
  unfolding set_recv_buffer_limit_def set_send_buffer_limit_def by (intro world_rules; simp add: world_defs)+

lemma call_world [world_io]:
  "state_io_rel R (start_session K ty)" "state_io_rel R (reconnect_session K sid ty secret)"
  unfolding start_session_def reconnect_session_def
  by (intro world_rules world_io; simp add: world_defs)+

lemma run_calls_world: "state_io_rel R (run_calls K cs)"
proof -
  have "state_io_rel R (run_call K c)" for c
    by (cases c; simp only: run_call.simps; intro world_rules world_io)
  then show ?thesis by (induction cs) (auto intro!: world_rules)
qed

end

text \<open>A relation of the world alone that all callbacks keep.\<close>

definition world_rel :: "('w \<Rightarrow> 'w \<Rightarrow> bool) \<Rightarrow> ('c, 'd, 'g, 'b, 'w) proto_env \<Rightarrow> ('c, 'd, 'g, 'b, 'w) proto_env \<Rightarrow> bool" where
  "world_rel W s s' = W (g_world s) (g_world s')"

lemma world_rel_pre: "rel_pre W \<Longrightarrow> rel_pre (world_rel W)"
  unfolding rel_pre_def world_rel_def by blast

lemma world_engine:
  assumes "rel_pre W" and cb: "cb_rel (world_rel W) (lk_cb K)"
  shows "engine K (world_rel W)"
proof
  show "rel_pre (world_rel W)" using assms(1) by (rule world_rel_pre)
  show "world_rel W s s'" if "g_world s' = g_world s" for s s'
    using that rel_pre_refl [OF assms(1)] by (simp add: world_rel_def)
  show "cb_rel (world_rel W) (map_option (\<lambda>t. t\<lparr>write_fn := None\<rparr>) (lk_cb K))"
    using cb by (cases "lk_cb K") (simp_all add: cb_rel_def)
  show "world_rel W s (snd (run_state (wfn bs) s1))"
    if "Option.bind (lk_cb K) write_fn = Some wfn" and "g_world s1 = g_world s" for wfn s s1 bs
    using io_relD [OF cb_relD(1) [OF cb that(1)], of s1 bs] that(2) by (simp add: world_rel_def)
qed

end
