(* ===== verification/GwInner.thy ===== *)
theory GwInner
  imports GwObjects ProtoWorld
begin

text \<open>
  The gateway with the inner protocol in it. The protocol object of a session is found under the index of the
  session (session::create makes the session its private data). A call of a virtual function runs the code of the
  object on an environment whose world is the whole gateway; a callback puts the object back, runs the
  function of the module, and takes the object out again, so that what the module did to it meanwhile is
  seen. The two sides call each other, through a depth \<open>n\<close>: at depth 0 a virtual function is a fault.
\<close>

section \<open>The state\<close>

record ('c, 'd, 'g, 'b) inner_world =
  iw_protos :: "nat \<Rightarrow> ('c, 'd, 'g, 'b) proto"
  iw_current :: "'g global_conf option"
  iw_seq :: u64
  iw_draws :: nat
  iw_clock :: int

type_synonym ('c, 'd, 'g, 'b) host_state = "('c, 'd, 'g, 'b) inner_world gateway"
type_synonym ('c, 'd, 'g, 'b) host_env = "('c, 'd, 'g, 'b, ('c, 'd, 'g, 'b) host_state) proto_env"
type_synonym ('c, 'd, 'g, 'b) host_link = "('c, 'd, 'g, 'b, ('c, 'd, 'g, 'b) host_state) link"

text \<open>What both are linked with, the size of uv_write_t, and a buffer manager as it is constructed.\<close>

record ('c, 'd, 'g, 'b) host =
  h_link :: "('c, 'd, 'g, 'b) host_link"
  h_gateway :: "('c, 'd, 'g, 'b) inner_world glink"
  h_write_req :: u64
  h_buffers :: 'b

definition obj :: "nat \<Rightarrow> ('c, 'd, 'g, 'b) host_state \<Rightarrow> ('c, 'd, 'g, 'b) proto" where
  "obj i gw = iw_protos (gw_protos gw) i"

definition load_obj :: "nat \<Rightarrow> ('c, 'd, 'g, 'b) host_state \<Rightarrow> ('c, 'd, 'g, 'b) host_env" where
  "load_obj i gw = proto.extend (obj i gw)
     \<lparr>g_current = iw_current (gw_protos gw), g_seq = iw_seq (gw_protos gw), g_draws = iw_draws (gw_protos gw),
      g_now = iw_clock (gw_protos gw), g_world = gw\<rparr>"

definition store_obj :: "nat \<Rightarrow> ('c, 'd, 'g, 'b) host_env \<Rightarrow> ('c, 'd, 'g, 'b) host_state" where
  "store_obj i env = (g_world env)\<lparr>gw_protos := (gw_protos (g_world env))
     \<lparr>iw_protos := (iw_protos (gw_protos (g_world env)))(i := proto.truncate env),
      iw_current := g_current env, iw_seq := g_seq env, iw_draws := g_draws env\<rparr>\<rparr>"

definition on_obj :: "nat \<Rightarrow> (('c, 'd, 'g, 'b) host_env, 'a) state \<Rightarrow> (('c, 'd, 'g, 'b) host_state, 'a) state" where
  "on_obj i m = State (\<lambda>gw. case run_state m (load_obj i gw) of (r, env) \<Rightarrow> (r, store_obj i env))"

definition call_gw :: "nat \<Rightarrow> (('c, 'd, 'g, 'b) host_state, 'a) state \<Rightarrow> (('c, 'd, 'g, 'b) host_env, 'a) state" where
  "call_gw i f = State (\<lambda>env. case run_state f (store_obj i env) of (r, gw) \<Rightarrow> (r, load_obj i gw))"

section \<open>The callbacks of the module\<close>

text \<open>The message callback copies as many bytes as it is told: more than there are is a read past the buffer.\<close>

definition host_message :: "'p glink \<Rightarrow> nat \<Rightarrow> byte list \<Rightarrow> u64 \<Rightarrow> ('p, int) gm" where
  "host_message G i bytes sz = do {
     when_do (length bytes < unat sz) (gw_raise (UninitRead ''buffer''));
     cb_message G i (take (unat sz) bytes)
   }"

text \<open>The last two callbacks only log, and answer 0.\<close>

definition cb_update_done :: "int \<Rightarrow> ('s, int) state" where
  "cb_update_done status = ret 0"

definition cb_error :: "int \<Rightarrow> string \<Rightarrow> ('s, int) state" where
  "cb_error errcode errmsg = ret 0"

definition host_callbacks ::
  "('c, 'd, 'g, 'b) inner_world glink \<Rightarrow> nat \<Rightarrow> ('c, 'd, 'g, 'b) host_env proto_callbacks" where
  "host_callbacks G i = \<lparr>
     write_fn = Some (\<lambda>buffer. do { h \<leftarrow> gets hdr_off; call_gw i (cb_write G h i buffer) }),
     message_fn = Some (\<lambda>buffer sz. call_gw i (host_message G i buffer sz)),
     new_session_fn = Some (\<lambda>sess_id. call_gw i (cb_new_session i)),
     reconnect_fn = Some (\<lambda>sess_id. call_gw i (cb_reconnect G i sess_id)),
     close_fn = Some (\<lambda>reason. call_gw i (cb_close G i reason)),
     on_handshake_done_fn = Some (\<lambda>status. call_gw i (cb_handshake_done G i status)),
     on_handshake_update_fn = Some cb_update_done, on_error_fn = Some cb_error\<rparr>"

section \<open>The virtual functions\<close>

definition place_len :: "recv_place \<Rightarrow> u64 option" where
  "place_len p = (case p of No_place \<Rightarrow> None | In_head off room \<Rightarrow> Some (of_nat room) | In_block off room \<Rightarrow> Some (of_nat room))"

definition inner_vt ::
  "(nat \<Rightarrow> ('c, 'd, 'g, 'b) host_link) \<Rightarrow> ('c, 'd, 'g, 'b) host_state proto_vt" where
  "inner_vt L = \<lparr>
     vt_alloc = (\<lambda>i suggested. on_obj i (do { p \<leftarrow> alloc_recv_buffer (L i); ret (place_len p) })),
     vt_read = (\<lambda>i ssz bytes. on_obj i (do { (errcode, _) \<leftarrow> deliver (L i) bytes; ret errcode })),
     vt_write = (\<lambda>i bytes. on_obj i (proto_write (L i) (Some bytes))),
     vt_write_done = (\<lambda>i status. on_obj i (write_done (L i) (lk_fuel (L i)) status)),
     vt_close = (\<lambda>i reason. on_obj i (close (L i) reason)),
     vt_check_reconnect = (\<lambda>i j. do { other \<leftarrow> gets (obj j); on_obj i (check_reconnect (L i) other) }),
     vt_recv_limit = (\<lambda>i sz n. on_obj i (set_recv_buffer_limit (L i) sz n)),
     vt_send_limit = (\<lambda>i sz n. on_obj i (set_send_buffer_limit (L i) sz n)),
     vt_handshake_update = (\<lambda>i. on_obj i (handshake_update (L i))),
     vt_closed = (\<lambda>i gw. check_flag EN_PFT_CLOSED (obj i gw))\<rparr>"

definition too_deep :: "'a \<Rightarrow> ('p, 'a) gm" where
  "too_deep r = do { gw_raise (OutOfFuel ''virtual function''); ret r }"

definition dead_vt :: "('c, 'd, 'g, 'b) host_state proto_vt" where
  "dead_vt = \<lparr>vt_alloc = (\<lambda>i n. too_deep None), vt_read = (\<lambda>i z bs. too_deep 0), vt_write = (\<lambda>i bs. too_deep 0),
     vt_write_done = (\<lambda>i z. too_deep 0), vt_close = (\<lambda>i z. too_deep 0), vt_check_reconnect = (\<lambda>i j. too_deep False),
     vt_recv_limit = (\<lambda>i a b. too_deep ()), vt_send_limit = (\<lambda>i a b. too_deep ()),
     vt_handshake_update = (\<lambda>i. too_deep 0), vt_closed = (\<lambda>i gw. check_flag EN_PFT_CLOSED (obj i gw))\<rparr>"

text \<open>create_proto_inner: the object of the next session; the callbacks are those of the link.\<close>

definition create_proto_inner :: "('c, 'd, 'g, 'b) host \<Rightarrow> (('c, 'd, 'g, 'b) host_state, bool) state" where
  "create_proto_inner H = do {
     modify (\<lambda>gw. gw\<lparr>gw_protos := (gw_protos gw)\<lparr>iw_protos := (iw_protos (gw_protos gw))
       (length (gw_sessions gw) := set_write_header_offset (h_write_req H)
          (proto_init (lk_crypto (h_link H)) (h_buffers H)))\<rparr>\<rparr>);
     ret True
   }"

definition host_gateway ::
  "('c, 'd, 'g, 'b) host \<Rightarrow> ('c, 'd, 'g, 'b) host_state proto_vt \<Rightarrow> ('c, 'd, 'g, 'b) inner_world glink" where
  "host_gateway H V = (h_gateway H)\<lparr>gl_vt := V, gl_create_proto := Some (create_proto_inner H),
     gl_on_create := Some on_create_session\<rparr>"

primrec host_vt :: "('c, 'd, 'g, 'b) host \<Rightarrow> nat \<Rightarrow> ('c, 'd, 'g, 'b) host_state proto_vt" where
  "host_vt H 0 = dead_vt"
| "host_vt H (Suc n) =
     inner_vt (\<lambda>i. (h_link H)\<lparr>lk_cb := Some (host_callbacks (host_gateway H (host_vt H n)) i)\<rparr>)"

text \<open>The gateway, and the link of the object of session \<open>i\<close>, at a depth.\<close>

definition host_glink :: "('c, 'd, 'g, 'b) host \<Rightarrow> nat \<Rightarrow> ('c, 'd, 'g, 'b) inner_world glink" where
  "host_glink H n = host_gateway H (host_vt H n)"

definition obj_link :: "('c, 'd, 'g, 'b) host \<Rightarrow> nat \<Rightarrow> nat \<Rightarrow> ('c, 'd, 'g, 'b) host_link" where
  "obj_link H n i = (h_link H)\<lparr>lk_cb := Some (host_callbacks (host_glink H n) i)\<rparr>"

lemma host_vt_Suc: "host_vt H (Suc n) = inner_vt (obj_link H n)"
  by (simp add: obj_link_def [abs_def] host_glink_def)

section \<open>Events of the whole\<close>

text \<open>
  What reaches the gateway from outside: libuv, the bus, the operator, the clocks (of the gateway, and the
  finer one of the pings) and a new configuration, which the module hands to the protocol.
\<close>

datatype host_input = Host_gateway gw_input | Host_clock int | Host_reload conf_source

definition host_reload :: "('c, 'd, 'g, 'b) host \<Rightarrow> conf_source \<Rightarrow> (('c, 'd, 'g, 'b) host_state, int) state" where
  "host_reload H cf = do {
     cur \<leftarrow> gets (\<lambda>gw. iw_current (gw_protos gw));
     (r, cur') \<leftarrow> gateway_reload (lk_crypto (h_link H)) cf cur;
     modify (\<lambda>gw. gw\<lparr>gw_protos := (gw_protos gw)\<lparr>iw_current := cur'\<rparr>\<rparr>);
     ret r
   }"

fun host_call :: "('c, 'd, 'g, 'b) host \<Rightarrow> nat \<Rightarrow> host_input \<Rightarrow> (('c, 'd, 'g, 'b) host_state, unit) state" where
  "host_call H n (Host_gateway c) = when_do (from_outside c) (gw_call (host_glink H n) c)"
| "host_call H n (Host_clock t) = modify (\<lambda>gw. gw\<lparr>gw_protos := (gw_protos gw)\<lparr>iw_clock := t\<rparr>\<rparr>)"
| "host_call H n (Host_reload cf) = do { _ \<leftarrow> host_reload H cf; ret () }"

fun host_run :: "('c, 'd, 'g, 'b) host \<Rightarrow> nat \<Rightarrow> host_input list \<Rightarrow> (('c, 'd, 'g, 'b) host_state, unit) state" where
  "host_run H n [] = ret ()"
| "host_run H n (c # cs) = do { host_call H n c; host_run H n cs }"

end
