(* ===== verification/GwWhole.thy ===== *)
theory GwWhole
  imports GwInner
begin

text \<open>
  The whole gateway: what was proved of the protocol object for every engine, and of the gateway for every
  protocol object, holds of the two together. By induction on the depth: the callbacks of the module
  keep the contract of the object they are called from, and the virtual functions keep the relation of the gateway.
\<close>

section \<open>Relations of objects and of the gateway\<close>

definition env_of :: "('c, 'd, 'g, 'b) proto \<Rightarrow> ('c, 'd, 'g, 'b, unit) proto_env" where
  "env_of p = proto.extend p \<lparr>g_current = None, g_seq = 0, g_draws = 0, g_now = 0, g_world = ()\<rparr>"

definition objs_core :: "('c, 'd, 'g, 'b) host_state \<Rightarrow> ('c, 'd, 'g, 'b) host_state \<Rightarrow> bool" where
  "objs_core s s' \<longleftrightarrow> (\<forall>i. core (env_of (obj i s)) (env_of (obj i s')))"

text \<open>A call into object \<open>i\<close> or out of it, seen from the gateway without that object.\<close>

definition beside :: "nat \<Rightarrow> ('c, 'd, 'g, 'b) host_state \<Rightarrow> ('c, 'd, 'g, 'b) host_state \<Rightarrow> bool" where
  "beside i s s' \<longleftrightarrow> gw_rel s s' \<and> (\<forall>j. j \<noteq> i \<longrightarrow> core (env_of (obj j s)) (env_of (obj j s')))"

lemma core_env_of:
  fixes s s' :: "('c, 'd, 'g, 'b, 'w) proto_env"
  shows "core s s' \<longleftrightarrow> core (env_of (proto.truncate s)) (env_of (proto.truncate s'))"
  by (simp add: core_def refines_def view_def check_flag_def read_side_def crypt_ok_def env_of_def proto.defs)

lemma objs_core_pre: "rel_pre objs_core"
  using core_pre unfolding rel_pre_def objs_core_def by blast

lemma beside_pre: "rel_pre (beside i :: ('c, 'd, 'g, 'b) host_state \<Rightarrow> _)"
  unfolding rel_pre_def
proof (intro conjI allI impI)
  fix a b c :: "('c, 'd, 'g, 'b) host_state"
  assume "beside i a b" and "beside i b c"
  then show "beside i a c" unfolding beside_def by (blast intro: gw_rel_trans core_trans)
qed (simp add: beside_def)

lemma truncate_load [simp]: "proto.truncate (load_obj i gw) = obj i gw"
  by (simp add: load_obj_def proto.defs)

lemma world_load [simp]: "g_world (load_obj i gw) = gw"
  by (simp add: load_obj_def proto.defs)

lemma obj_store [simp]: "obj j (store_obj i env) = (if j = i then proto.truncate env else obj j (g_world env))"
  by (simp add: store_obj_def obj_def)

lemma gw_rel_store: "gw_rel (g_world env) (store_obj i env)"
  by (rule gw_rel_other) (simp_all add: store_obj_def)

lemma beside_store: "beside i (g_world env) (store_obj i env)"
  by (simp add: beside_def gw_rel_store)

section \<open>Into an object and out of it\<close>

lemma on_obj_gw:
  assumes "state_io_rel (world_rel (beside i)) m"
  shows "state_io_rel gw_rel (on_obj i m)"
  unfolding state_io_rel_def
proof
  fix gw
  obtain r env where run: "run_state m (load_obj i gw) = (r, env)" by fastforce
  have "gw_rel gw (g_world env)"
    using io_relD [OF assms, of "load_obj i gw"] run by (simp add: world_rel_def beside_def)
  then show "gw_rel gw (snd (run_state (on_obj i m) gw))"
    using gw_rel_trans [OF _ gw_rel_store] run by (simp add: on_obj_def)
qed

lemma on_obj_core:
  assumes "state_io_rel (world_rel (beside i)) m" and "state_io_rel core m"
  shows "state_io_rel objs_core (on_obj i m)"
  unfolding state_io_rel_def
proof
  fix gw
  obtain r env where run: "run_state m (load_obj i gw) = (r, env)" by fastforce
  have "core (load_obj i gw) env" using io_relD [OF assms(2), of "load_obj i gw"] run by simp
  then have "core (env_of (obj i gw)) (env_of (proto.truncate env))"
    using core_env_of [of "load_obj i gw" env] by simp
  moreover have "beside i gw (g_world env)"
    using io_relD [OF assms(1), of "load_obj i gw"] run by (simp add: world_rel_def)
  ultimately have "core (env_of (obj j gw)) (env_of (obj j (store_obj i env)))" for j
    by (cases "j = i") (simp_all add: beside_def)
  moreover have "snd (run_state (on_obj i m) gw) = store_obj i env" using run by (simp add: on_obj_def)
  ultimately show "objs_core gw (snd (run_state (on_obj i m) gw))"
    unfolding objs_core_def by simp
qed

lemma call_gw_rel:
  assumes "state_io_rel gw_rel f" and "state_io_rel objs_core f"
  shows "state_io_rel core (call_gw i f)" and "state_io_rel (world_rel (beside i)) (call_gw i f)"
proof -
  have both: "core env (snd (run_state (call_gw i f) env)) \<and>
      beside i (g_world env) (g_world (snd (run_state (call_gw i f) env)))" for env
  proof -
    obtain r gw where run: "run_state f (store_obj i env) = (r, gw)" by fastforce
    have all: "core (env_of (obj j (store_obj i env))) (env_of (obj j gw))" for j
      using io_relD [OF assms(2), of "store_obj i env"] run by (simp add: objs_core_def)
    have "core env (load_obj i gw)"
      using all [of i] core_env_of [of env "load_obj i gw"] by simp
    moreover have "beside i (g_world env) gw"
    proof -
      have "gw_rel (store_obj i env) gw" using io_relD [OF assms(1), of "store_obj i env"] run by simp
      then have "beside i (store_obj i env) gw" using all by (simp only: beside_def) blast
      then show ?thesis using rel_pre_trans [OF beside_pre beside_store] by blast
    qed
    ultimately show ?thesis using run by (simp add: call_gw_def)
  qed
  show "state_io_rel core (call_gw i f)" "state_io_rel (world_rel (beside i)) (call_gw i f)"
    using both by (simp_all add: state_io_rel_def world_rel_def)
qed

section \<open>Both sides, at every depth\<close>

lemma host_message_rel:
  assumes "link_ok G" and "objects G R"
  shows "state_io_rel gw_rel (host_message G i bytes sz)" and "state_io_rel R (host_message G i bytes sz)"
  unfolding host_message_def
  by (intro gw_rules gw_io assms)
    (intro objects.objs_rules [OF assms(2)] objects.base_objs [OF assms(2)] objects.callbacks_objs [OF assms(2)])

lemma objs_core_quiet: "gw_protos s' = gw_protos s \<Longrightarrow> objs_core s s'"
  by (simp add: objs_core_def obj_def)

lemma cb_write_spec:
  assumes "gw' = snd (run_state (cb_write G h i bs) gw)"
  shows "gw_protos gw' = gw_protos gw" and "uv_writes (gw_trace gw') = uv_writes (gw_trace gw) @ [(i, drop h bs)]"
    and "length (gw_sessions gw') = length (gw_sessions gw)"
  unfolding assms by (simp_all add: cb_write_def put_flag_def gw_log_def gw_raise_def Let_def)

lemma cb_write_core: "state_io_rel objs_core (cb_write G h i bs)"
  unfolding state_io_rel_def by (intro allI objs_core_quiet cb_write_spec(1)) (rule refl)

lemma host_callbacks_rel:
  fixes G :: "('c, 'd, 'g, 'b) inner_world glink"
  assumes "link_ok G" and "objects G objs_core"
  shows "cb_rel core (Some (host_callbacks G i))" and "cb_rel (world_rel (beside i)) (Some (host_callbacks G i))"
proof -
  note calls = call_gw_rel [OF application_rel(3) [OF assms(1)] cb_write_core]
    call_gw_rel [OF host_message_rel [OF assms]]
    call_gw_rel [OF application_rel(5) [OF assms(1)] objects.callbacks_objs(2) [OF assms(2)]]
    call_gw_rel [OF application_rel(6) [OF assms(1)] objects.callbacks_objs(3) [OF assms(2)]]
    call_gw_rel [OF application_rel(7) [OF assms(1)] objects.callbacks_objs(4) [OF assms(2)]]
    call_gw_rel [OF application_rel(8) [OF assms(1)] objects.callbacks_objs(5) [OF assms(2)]]
  show "cb_rel core (Some (host_callbacks G i))"
    by (auto simp: cb_rel_def host_callbacks_def cb_update_done_def cb_error_def intro!: calls io_rel_bind [OF core_pre] io_rel_gets [OF core_pre]
        io_rel_return [OF core_pre])
  show "cb_rel (world_rel (beside i)) (Some (host_callbacks G i))"
    by (auto simp: cb_rel_def host_callbacks_def cb_update_done_def cb_error_def intro!: calls io_rel_bind [OF world_rel_pre [OF beside_pre]]
        io_rel_gets [OF world_rel_pre [OF beside_pre]] io_rel_return [OF world_rel_pre [OF beside_pre]])
qed

lemma limits_same:
  "state_io_rel same_sessions (on_obj i (set_recv_buffer_limit L a b))"
  "state_io_rel same_sessions (on_obj i (set_send_buffer_limit L a b))"
proof -
  have same: "same_sessions gw (snd (run_state (on_obj i (modify f)) gw))" if "\<And>env. g_world (f env) = g_world env" for f gw
    using that gw_rel_store [of "f (load_obj i gw)" i]
    by (simp add: on_obj_def same_sessions_def) (simp add: store_obj_def)
  show "state_io_rel same_sessions (on_obj i (set_recv_buffer_limit L a b))"
    "state_io_rel same_sessions (on_obj i (set_send_buffer_limit L a b))"
    unfolding state_io_rel_def set_recv_buffer_limit_def set_send_buffer_limit_def
    by (intro allI same; simp)+
qed

lemma inner_vt_ok:
  assumes "\<And>i. cb_rel (world_rel (beside i)) (lk_cb (L i))"
  shows "vt_ok (inner_vt L)"
proof -
  have e: "engine (L i) (world_rel (beside i))" for i by (rule world_engine [OF beside_pre assms])
  note rules = engine.world_rules [OF e]
  show ?thesis
    unfolding vt_ok_def inner_vt_def proto_vt.simps close_def
    by (intro conjI allI limits_same on_obj_gw gw_rules rules engine.read_world [OF e] engine.deliver_world [OF e]
        engine.close_world [OF e] engine.write_world [OF e] engine.reconnect_world [OF e] engine.pack_world [OF e])
qed

lemma inner_vt_objects:
  assumes "\<And>i. cb_rel (world_rel (beside i)) (lk_cb (L i))" and "\<And>i. cb_rel core (lk_cb (L i))"
    and "gl_vt G = inner_vt L"
  shows "objects G objs_core"
proof -
  have e: "engine (L i) (world_rel (beside i))" for i by (rule world_engine [OF beside_pre assms(1)])
  have alloc: "state_io_rel core (alloc_recv_buffer (L i))" for i
    unfolding alloc_recv_buffer_def by (intro core_rules)
  note world = engine.world_rules [OF e] engine.read_world [OF e] engine.close_world [OF e] engine.write_world [OF e]
    engine.reconnect_world [OF e] engine.pack_world [OF e]
  note op = on_obj_core [OF engine.close_world(1) [OF e] proto_write_core [OF assms(2)]]
    on_obj_core [OF engine.close_world(2) [OF e] close_with_core [OF assms(2)]]
    on_obj_core [OF engine.write_world(2) [OF e] write_done_core [OF assms(2)]]
    on_obj_core [OF engine.reconnect_world(2) [OF e] check_reconnect_core [OF assms(2)]]
    on_obj_core [OF engine.pack_world(3) [OF e] handshake_update_core [OF assms(2)]]
  have place: "state_io_rel objs_core (on_obj i (do { p \<leftarrow> alloc_recv_buffer (L i); ret (place_len p) }))" for i
    by (rule on_obj_core) (intro world, intro core_rules alloc)
  show ?thesis
    by unfold_locales
      (simp_all only: assms(3) inner_vt_def proto_vt.simps close_def op place objs_core_pre objs_core_quiet
        io_rel_bind [OF objs_core_pre] io_rel_gets [OF objs_core_pre])
qed

lemma create_same:
  fixes H :: "('c, 'd, 'g, 'b) host"
  shows "state_io_rel same_sessions (create_proto_inner H)"
proof -
  have rel: "gw_rel gw (gw\<lparr>gw_protos := w\<rparr>)" for gw :: "('c, 'd, 'g, 'b) host_state" and w
    by (rule gw_rel_other) simp_all
  show ?thesis unfolding state_io_rel_def create_proto_inner_def by (auto simp: same_sessions_def intro: rel)
qed

lemma on_create_rel: "state_io_rel gw_rel (on_create_session i)"
  unfolding on_create_session_def by (intro gw_rules gw_io) simp

lemma too_deep_rel:
  "state_io_rel gw_rel (too_deep r)" "state_io_rel same_sessions (too_deep r)"
  "state_io_rel objs_core (too_deep r)"
proof -
  show gw: "state_io_rel gw_rel (too_deep r)" unfolding too_deep_def by (intro gw_rules gw_io)
  show "state_io_rel same_sessions (too_deep r)"
    using gw by (simp add: state_io_rel_def same_sessions_def too_deep_def gw_raise_def)
  show "state_io_rel objs_core (too_deep r)"
    by (simp add: state_io_rel_def objs_core_quiet too_deep_def gw_raise_def)
qed

text \<open>The induction: at every depth the gateway may rely on the objects and the objects on the gateway.\<close>

lemma host_ok: "link_ok (host_glink H n) \<and> objects (host_glink H n) objs_core"
proof (induction n)
  case 0
  have "vt_ok dead_vt"
    by (simp add: vt_ok_def dead_vt_def too_deep_rel)
  moreover have "objects (host_glink H 0) objs_core"
    by unfold_locales (simp_all add: host_glink_def host_gateway_def dead_vt_def too_deep_rel objs_core_pre objs_core_quiet)
  ultimately show ?case
    by (auto simp: link_ok_def host_glink_def host_gateway_def create_same on_create_rel)
next
  case (Suc n)
  have cb: "cb_rel core (lk_cb (obj_link H n i))" "cb_rel (world_rel (beside i)) (lk_cb (obj_link H n i))" for i
    using host_callbacks_rel [of "host_glink H n" i] Suc by (simp_all add: obj_link_def)
  have vt: "gl_vt (host_glink H (Suc n)) = inner_vt (obj_link H n)"
    by (simp add: host_glink_def host_gateway_def host_vt_Suc del: host_vt.simps)
  show ?case
  proof
    show "objects (host_glink H (Suc n)) objs_core" by (rule inner_vt_objects [OF cb(2,1) vt])
    show "link_ok (host_glink H (Suc n))"
      unfolding link_ok_def vt using inner_vt_ok [OF cb(2)]
      by (auto simp: host_glink_def host_gateway_def create_same on_create_rel)
  qed
qed

end
