(* ===== verification/GwHost.thy ===== *)
theory GwHost
  imports GwWhole
begin

text \<open>
  What is handed to libuv for a connection, and the contract of the protocol objects, over any sequence of events
  of the whole gateway.
\<close>

section \<open>Writes\<close>

definition sent :: "nat \<Rightarrow> 'p gateway \<Rightarrow> byte list list" where
  "sent i gw = map snd (filter (\<lambda>(j, bs). j = i) (uv_writes (gw_trace gw)))"

text \<open>Each object writes more, and what it writes is what is handed over for it, without the header space.\<close>

definition hands_over :: "('c, 'd, 'g, 'b) host_state \<Rightarrow> ('c, 'd, 'g, 'b) host_state \<Rightarrow> bool" where
  "hands_over s s' \<longleftrightarrow> length (gw_sessions s) \<le> length (gw_sessions s') \<and>
     (\<forall>i < length (gw_sessions s). write_header_offset (obj i s') = write_header_offset (obj i s) \<and>
        (\<exists>bss. writes (trace (obj i s')) = writes (trace (obj i s)) @ bss \<and>
               sent i s' = sent i s @ map (drop (hdr_off (obj i s))) bss))"

lemma hands_over_refl: "hands_over s s"
  by (simp add: hands_over_def)

lemma hands_over_trans:
  assumes ab: "hands_over a b" and bc: "hands_over b c"
  shows "hands_over a c"
  unfolding hands_over_def
proof (intro conjI allI impI)
  show "length (gw_sessions a) \<le> length (gw_sessions c)" using ab bc by (simp add: hands_over_def)
  fix i assume i: "i < length (gw_sessions a)"
  then have j: "i < length (gw_sessions b)" using ab by (simp add: hands_over_def)
  show "write_header_offset (obj i c) = write_header_offset (obj i a)" using ab bc i j by (simp add: hands_over_def)
  obtain xs where xs: "writes (trace (obj i b)) = writes (trace (obj i a)) @ xs"
    "sent i b = sent i a @ map (drop (hdr_off (obj i a))) xs" "hdr_off (obj i b) = hdr_off (obj i a)"
    using ab i by (auto simp: hands_over_def hdr_off_def)
  moreover obtain ys where "writes (trace (obj i c)) = writes (trace (obj i b)) @ ys"
    "sent i c = sent i b @ map (drop (hdr_off (obj i b))) ys"
    using bc j by (auto simp: hands_over_def)
  ultimately show "\<exists>bss. writes (trace (obj i c)) = writes (trace (obj i a)) @ bss \<and>
      sent i c = sent i a @ map (drop (hdr_off (obj i a))) bss"
    by (intro exI [of _ "xs @ ys"]) simp
qed

lemma hands_over_pre: "rel_pre hands_over"
  using hands_over_refl hands_over_trans unfolding rel_pre_def by blast

text \<open>It depends on the objects, the writes and the number of sessions only.\<close>

definition same_view :: "('c, 'd, 'g, 'b) host_state \<Rightarrow> ('c, 'd, 'g, 'b) host_state \<Rightarrow> bool" where
  "same_view s s' \<longleftrightarrow> (\<forall>i. obj i s' = obj i s) \<and> uv_writes (gw_trace s') = uv_writes (gw_trace s) \<and>
     length (gw_sessions s) \<le> length (gw_sessions s')"

lemma hands_over_same: "same_view s s' \<Longrightarrow> hands_over s s'"
  by (simp add: hands_over_def same_view_def sent_def)

lemma store_load_view: "same_view gw (store_obj i (load_obj i gw))" "same_view (store_obj i (load_obj i gw)) gw"
proof -
  have "obj j (store_obj i (load_obj i gw)) = obj j gw" for j by simp
  moreover have "gw_trace (store_obj i (load_obj i gw)) = gw_trace gw"
    "gw_sessions (store_obj i (load_obj i gw)) = gw_sessions gw"
    by (simp_all add: store_obj_def)
  ultimately show "same_view gw (store_obj i (load_obj i gw))" "same_view (store_obj i (load_obj i gw)) gw"
    unfolding same_view_def by simp_all
qed

definition hand_env :: "nat \<Rightarrow> ('c, 'd, 'g, 'b) host_env \<Rightarrow> ('c, 'd, 'g, 'b) host_env \<Rightarrow> bool" where
  "hand_env i s s' = hands_over (store_obj i s) (store_obj i s')"

lemma hand_env_pre: "rel_pre (hand_env i)"
  unfolding rel_pre_def hand_env_def
  using hands_over_refl hands_over_trans by blast

lemma on_obj_hands:
  assumes "state_io_rel (hand_env i) m"
  shows "state_io_rel hands_over (on_obj i m)"
  unfolding state_io_rel_def
proof
  fix gw
  obtain r env where run: "run_state m (load_obj i gw) = (r, env)" by fastforce
  have "hands_over (store_obj i (load_obj i gw)) (store_obj i env)"
    using io_relD [OF assms, of "load_obj i gw"] run by (simp add: hand_env_def)
  then show "hands_over gw (snd (run_state (on_obj i m) gw))"
    using hands_over_trans [OF hands_over_same [OF store_load_view(1)]] run by (simp add: on_obj_def)
qed

lemma call_gw_hands:
  assumes "state_io_rel hands_over f"
  shows "state_io_rel (hand_env i) (call_gw i f)"
  unfolding state_io_rel_def
proof
  fix env
  obtain r gw where run: "run_state f (store_obj i env) = (r, gw)" by fastforce
  have "hands_over (store_obj i env) gw" using io_relD [OF assms, of "store_obj i env"] run by simp
  then show "hand_env i env (snd (run_state (call_gw i f) env))"
    using hands_over_trans [OF _ hands_over_same [OF store_load_view(1)]] run by (simp add: call_gw_def hand_env_def)
qed

section \<open>The object and the gateway keep it\<close>

lemma hand_env_intro:
  assumes "length (gw_sessions (g_world s)) \<le> length (gw_sessions (g_world s'))"
    and "write_header_offset s' = write_header_offset s" and "writes (trace s') = writes (trace s) @ bss"
    and "\<And>j. j \<noteq> i \<Longrightarrow> obj j (g_world s') = obj j (g_world s)"
    and "uv_writes (gw_trace (g_world s')) = uv_writes (gw_trace (g_world s)) @ map (\<lambda>bs. (i, drop (hdr_off s) bs)) bss"
  shows "hand_env i s s'"
proof -
  have st: "gw_trace (store_obj i e) = gw_trace (g_world e)" "gw_sessions (store_obj i e) = gw_sessions (g_world e)" for e
    by (simp_all add: store_obj_def)
  have tr: "trace (proto.truncate e) = trace e" "write_header_offset (proto.truncate e) = write_header_offset e"
    "hdr_off (proto.truncate e) = hdr_off e" for e :: "('a, 'b, 'c, 'd) host_env"
    by (simp_all add: proto.defs hdr_off_def)
  have other: "filter (\<lambda>(k, bs). k = j) (map (\<lambda>bs. (i, drop h bs)) bss) = []" if "j \<noteq> i" for j h
    using that by (induction bss) auto
  have own: "map snd (filter (\<lambda>(k, bs). k = i) (map (\<lambda>bs. (i, drop h bs)) bss)) = map (drop h) bss" for h
    by (induction bss) auto
  show ?thesis
    unfolding hand_env_def hands_over_def
  proof (intro conjI allI impI)
    show "length (gw_sessions (store_obj i s)) \<le> length (gw_sessions (store_obj i s'))" using assms(1) by (simp add: st)
    fix j
    show "write_header_offset (obj j (store_obj i s')) = write_header_offset (obj j (store_obj i s))"
      using assms(2,4) by (simp add: tr)
    show "\<exists>bss. writes (trace (obj j (store_obj i s'))) = writes (trace (obj j (store_obj i s))) @ bss \<and>
        sent j (store_obj i s') = sent j (store_obj i s) @ map (drop (hdr_off (obj j (store_obj i s)))) bss"
      using assms(3,4,5) other own
      by (cases "j = i") (auto simp: tr sent_def st)
  qed
qed

lemma write_callback_hands:
  assumes "g_world s1 = g_world s" and "writes (trace s1) = writes (trace s) @ [bs]"
    and "write_header_offset s1 = write_header_offset s"
  shows "hand_env i s (snd (run_state (do { h \<leftarrow> gets hdr_off; call_gw i (cb_write G h i bs) }) s1))"
proof -
  define gw where "gw = snd (run_state (cb_write G (hdr_off s1) i bs) (store_obj i s1))"
  note spec = cb_write_spec [OF gw_def]
  have o: "obj j gw = obj j (store_obj i s1)" for j using spec(1) by (simp add: obj_def)
  have st: "gw_trace (store_obj i s1) = gw_trace (g_world s)" "gw_sessions (store_obj i s1) = gw_sessions (g_world s)"
    using assms(1) by (simp_all add: store_obj_def)
  have tr: "trace (load_obj i gw) = trace s1" "write_header_offset (load_obj i gw) = write_header_offset s1"
    using o [of i] by (simp_all add: load_obj_def proto.defs)
  have h: "hdr_off s1 = hdr_off s" using assms(3) by (simp add: hdr_off_def)
  have "snd (run_state (do { h \<leftarrow> gets hdr_off; call_gw i (cb_write G h i bs) }) s1) = load_obj i gw"
    by (simp add: call_gw_def gw_def split: prod.split)
  moreover have "hand_env i s (load_obj i gw)"
    by (rule hand_env_intro [where bss = "[bs]"])
      (use spec o assms st h in \<open>simp_all add: tr\<close>)
  ultimately show ?thesis by simp
qed

lemma host_engine_hands:
  assumes "objects G hands_over" and "lk_cb L = Some (host_callbacks G i)"
  shows "engine L (hand_env i)"
proof
  show "rel_pre (hand_env i)" by (rule hand_env_pre)
  show "hand_env i s s'" if "g_world s' = g_world s" "writes (trace s') = writes (trace s)"
    "write_header_offset s' = write_header_offset s" for s s'
    by (rule hand_env_intro [where bss = "[]"]) (simp_all add: that)
  note calls = call_gw_hands [OF objects.callbacks_objs(1) [OF assms(1)]]
    call_gw_hands [OF objects.callbacks_objs(2) [OF assms(1)]] call_gw_hands [OF objects.callbacks_objs(3) [OF assms(1)]]
    call_gw_hands [OF objects.callbacks_objs(4) [OF assms(1)]] call_gw_hands [OF objects.callbacks_objs(5) [OF assms(1)]]
  have "state_io_rel hands_over (host_message G i bs n)" for bs n
    unfolding host_message_def
    by (intro objects.objs_rules [OF assms(1)] objects.base_objs [OF assms(1)] objects.callbacks_objs [OF assms(1)])
  note message = call_gw_hands [OF this]
  show "cb_rel (hand_env i) (map_option (\<lambda>t. t\<lparr>write_fn := None\<rparr>) (lk_cb L))"
    by (auto simp: assms(2) cb_rel_def host_callbacks_def cb_update_done_def cb_error_def intro!: calls message io_rel_return [OF hand_env_pre])
  show "hand_env i s (snd (run_state (wfn bs) s1))"
    if "Option.bind (lk_cb L) write_fn = Some wfn" and "g_world s1 = g_world s"
      and "writes (trace s1) = writes (trace s) @ [bs]" and "write_header_offset s1 = write_header_offset s"
    for wfn s s1 bs
    using that(1) write_callback_hands [OF that(2-4)] by (auto simp: assms(2) host_callbacks_def)
qed

lemma too_deep_hands: "state_io_rel hands_over (too_deep r)"
  by (simp add: state_io_rel_def too_deep_def gw_raise_def hands_over_same same_view_def obj_def)

lemma hands_over_quiet: "gw_protos s' = gw_protos s \<Longrightarrow> uv_writes (gw_trace s') = uv_writes (gw_trace s) \<Longrightarrow>
    length (gw_sessions s) \<le> length (gw_sessions s') \<Longrightarrow> hands_over s s'"
  by (rule hands_over_same) (simp add: same_view_def obj_def)

lemma inner_vt_hands:
  fixes L :: "nat \<Rightarrow> ('c, 'd, 'g, 'b) host_link"
  assumes e: "\<And>i. engine (L i) (hand_env i)"
  shows "state_io_rel hands_over (vt_alloc (inner_vt L) i n)" "state_io_rel hands_over (vt_read (inner_vt L) i z bs)"
    "state_io_rel hands_over (vt_write (inner_vt L) i bs)" "state_io_rel hands_over (vt_write_done (inner_vt L) i z)"
    "state_io_rel hands_over (vt_close (inner_vt L) i z)" "state_io_rel hands_over (vt_check_reconnect (inner_vt L) i j)"
    "state_io_rel hands_over (vt_handshake_update (inner_vt L) i)" "state_io_rel hands_over (vt_recv_limit (inner_vt L) i a b)"
    "state_io_rel hands_over (vt_send_limit (inner_vt L) i a b)"
  unfolding inner_vt_def proto_vt.simps close_def
  by (intro on_obj_hands io_rel_bind [OF hands_over_pre] io_rel_gets [OF hands_over_pre] engine.world_rules [OF e]
      engine.read_world [OF e] engine.deliver_world [OF e] engine.close_world [OF e] engine.write_world [OF e]
      engine.reconnect_world [OF e] engine.pack_world [OF e] engine.limits_world [OF e])+

lemma create_hands:
  fixes H :: "('c, 'd, 'g, 'b) host"
  shows "state_io_rel hands_over (create_proto_inner H)"
  by (auto simp: state_io_rel_def create_proto_inner_def hands_over_def obj_def sent_def)

lemma host_create_result: "gl_create_proto (host_glink H n) = Some m \<Longrightarrow> m = create_proto_inner H"
  "gl_on_create (host_glink H n) = Some f \<Longrightarrow> f = on_create_session"
  by (simp_all add: host_glink_def host_gateway_def)

lemma host_glink_vt: "gl_vt (host_glink H 0) = dead_vt" "gl_vt (host_glink H (Suc n)) = inner_vt (obj_link H n)"
  by (simp_all add: host_glink_def host_gateway_def host_vt_Suc del: host_vt.simps(2))

lemma on_create_hands: "state_io_rel hands_over (on_create_session i)"
  unfolding on_create_session_def gw_log_def
  by (intro io_rel_bind [OF hands_over_pre] io_rel_modify io_rel_return [OF hands_over_pre])
    (simp add: hands_over_quiet)

lemma host_hands: "all_objects (host_glink H n) hands_over"
proof (induction n)
  case 0
  show ?case
    by unfold_locales
      (auto simp: host_glink_vt dead_vt_def too_deep_hands hands_over_pre on_create_hands
        dest!: host_create_result intro: hands_over_quiet create_hands)
next
  case (Suc n)
  have e: "engine (obj_link H n i) (hand_env i)" for i
    by (rule host_engine_hands [OF all_objects.axioms(1) [OF Suc]]) (simp add: obj_link_def)
  show ?case
    by unfold_locales
      (auto simp: host_glink_vt inner_vt_hands [OF e] hands_over_pre on_create_hands
        dest!: host_create_result intro: hands_over_quiet create_hands)
qed

end
