(* ===== verification/GwContract.thy ===== *)
theory GwContract
  imports GwHost
begin

text \<open>
  The contract of the protocol objects that live in a gateway, the interpretations of the interfaces on the
  whole gateway, and what follows for any sequence of events from outside.
\<close>

section \<open>The contract of every object\<close>

definition obj_ok :: "('c, 'd, 'g, 'b) proto \<Rightarrow> bool" where
  "obj_ok p \<longleftrightarrow> view_ok (view p) \<and> crypt_ok p"

definition objs_ok :: "('c, 'd, 'g, 'b) host_state \<Rightarrow> ('c, 'd, 'g, 'b) host_state \<Rightarrow> bool" where
  "objs_ok s s' \<longleftrightarrow> (\<forall>i. obj_ok (obj i s) \<longrightarrow> obj_ok (obj i s'))"

lemma objs_ok_pre: "rel_pre objs_ok"
  by (simp add: rel_pre_def objs_ok_def)

lemma recv_obj_ok:
  fixes s s' :: "('c, 'd, 'g, 'b, 'w) proto_env"
  assumes "recv_rel s s'" and "obj_ok (proto.truncate s)"
  shows "obj_ok (proto.truncate s')"
proof -
  have t: "view (proto.truncate e) = view e" "crypt_ok (proto.truncate e) = crypt_ok e" for e :: "('c, 'd, 'g, 'b, 'w) proto_env"
    by (simp_all add: view_def check_flag_def crypt_ok_def proto.defs)
  show ?thesis
    using assms asteps_view_ok by (auto simp: obj_ok_def t recv_rel_def refines_def)
qed

lemma truncate_env_of [simp]: "proto.truncate (env_of p) = p"
  by (cases p) (simp add: env_of_def proto.defs)

lemma core_obj_ok: "core (env_of p) (env_of p') \<Longrightarrow> obj_ok p \<Longrightarrow> obj_ok p'"
  using recv_obj_ok [OF core_recv, of "env_of p" "env_of p'"] by simp

lemma objs_core_ok: "objs_core s s' \<Longrightarrow> objs_ok s s'"
  unfolding objs_core_def objs_ok_def using core_obj_ok by blast

lemma io_objs_core: "state_io_rel objs_core m \<Longrightarrow> state_io_rel objs_ok m"
  by (simp add: state_io_rel_def objs_core_ok)

lemma on_obj_ok:
  fixes m :: "(('c, 'd, 'g, 'b) host_env, 'a) state"
  assumes "state_io_rel (world_rel (beside i)) m" and "state_io_rel recv_rel m"
  shows "state_io_rel objs_ok (on_obj i m)"
  unfolding state_io_rel_def objs_ok_def
proof (intro allI impI)
  fix gw :: "('c, 'd, 'g, 'b) host_state" and j assume ok: "obj_ok (obj j gw)"
  obtain r env where run: "run_state m (load_obj i gw) = (r, env)" by fastforce
  have "obj_ok (obj i gw) \<Longrightarrow> obj_ok (proto.truncate env)"
    using recv_obj_ok [of "load_obj i gw" env] io_relD [OF assms(2), of "load_obj i gw"] run by simp
  moreover have "beside i gw (g_world env)"
    using io_relD [OF assms(1), of "load_obj i gw"] run by (simp add: world_rel_def)
  ultimately have "obj_ok (obj j (store_obj i env))"
    using ok core_obj_ok by (cases "j = i") (auto simp: beside_def)
  then show "obj_ok (obj j (snd (run_state (on_obj i m) gw)))" using run by (simp add: on_obj_def)
qed

section \<open>At every depth\<close>

lemma create_ok:
  fixes H :: "('c, 'd, 'g, 'b) host"
  shows "state_io_rel objs_ok (create_proto_inner H)"
  by (auto simp: state_io_rel_def create_proto_inner_def objs_ok_def obj_def obj_ok_def view_ok_def view_def
      check_flag_def crypt_ok_def set_write_header_offset_def proto_init_def)

lemma host_objs_ok: "all_objects (host_glink H n) objs_ok"
proof -
  have o: "objects (host_glink H n) objs_core" using host_ok by blast
  have base: "objects (host_glink H n) objs_ok"
    by unfold_locales
      (use objects.quiet [OF o] objects.vt_alloc [OF o] objects.vt_write [OF o] objects.vt_write_done [OF o]
        objects.vt_close [OF o] objects.vt_check_reconnect [OF o] objects.vt_handshake_update [OF o]
        in \<open>auto intro: io_objs_core objs_ok_pre objs_core_ok objs_core_quiet\<close>)
  have on_create: "state_io_rel objs_ok (on_create_session i)" for i
    unfolding on_create_session_def gw_log_def
    by (intro io_rel_bind [OF objs_ok_pre] io_rel_modify io_rel_return [OF objs_ok_pre]) (simp add: objs_ok_def obj_def)
  have vt: "state_io_rel objs_ok (vt_read (gl_vt (host_glink H n)) i z bs) \<and>
    state_io_rel objs_ok (vt_recv_limit (gl_vt (host_glink H n)) i a b) \<and>
    state_io_rel objs_ok (vt_send_limit (gl_vt (host_glink H n)) i a b)" for i z bs a b
  proof (cases n)
    case 0
    then show ?thesis by (simp add: host_glink_vt dead_vt_def too_deep_rel io_objs_core)
  next
    case (Suc m)
    have cb: "cb_rel core (lk_cb (obj_link H m j))" "cb_rel (world_rel (beside j)) (lk_cb (obj_link H m j))" for j
      using host_callbacks_rel [of "host_glink H m" j] host_ok [of H m] by (simp_all add: obj_link_def)
    have e: "engine (obj_link H m j) (world_rel (beside j))" for j by (rule world_engine [OF beside_pre cb(2)])
    have "state_io_rel (world_rel (beside i)) (do { (errcode, rest) \<leftarrow> deliver (obj_link H m i) bs; ret errcode })"
      by (intro engine.world_rules [OF e] engine.deliver_world [OF e])
    moreover have "state_io_rel recv_rel (do { (errcode, rest) \<leftarrow> deliver (obj_link H m i) bs; ret errcode })"
      by (intro recv_rules deliver_recv cb)
    ultimately show ?thesis
      using on_obj_ok [OF engine.limits_world(1) [OF e] set_limit_recv(1)]
        on_obj_ok [OF engine.limits_world(2) [OF e] set_limit_recv(2)]
      by (simp add: Suc host_glink_vt inner_vt_def on_obj_ok)
  qed
  show ?thesis
    by (intro all_objects.intro all_objects_axioms.intro base)
      (use vt in \<open>auto dest!: host_create_result intro: create_ok on_create\<close>)
qed

section \<open>The interfaces, on the whole gateway\<close>

interpretation host_core: objects "host_glink H n" objs_core for H n
  using host_ok by blast

interpretation host_writes: all_objects "host_glink H n" hands_over for H n
  by (rule host_hands)

interpretation host_contract: all_objects "host_glink H n" objs_ok for H n
  by (rule host_objs_ok)

interpretation host_world: engine "obj_link H n i" "world_rel (beside i)" for H n i
  using host_callbacks_rel(2) [of "host_glink H n" i] host_ok [of H n]
  by (intro world_engine [OF beside_pre]) (simp add: obj_link_def)

interpretation host_sender: engine "obj_link H n i" "hand_env i" for H n i
  by (rule host_engine_hands [OF host_writes.objects_axioms]) (simp add: obj_link_def)

section \<open>Sequences of events\<close>

lemma only_protos_gw: "state_io_rel gw_rel (modify (\<lambda>gw. gw\<lparr>gw_protos := f gw\<rparr>))"
  by (intro io_rel_modify gw_rel_other) simp_all

lemma host_call_rel: "state_io_rel gw_rel (host_call H n c)"
proof (cases c)
  case (Host_gateway g)
  then show ?thesis using host_ok [of H n] by (auto intro!: gw_rules gw_call_rel)
qed (auto simp: host_reload_def gateway_reload_def split_def intro!: gw_rules gw_io only_protos_gw)

lemma host_call_objs:
  assumes o: "all_objects (host_glink H n) R" and same: "\<And>s s'. same_view s s' \<Longrightarrow> R s s'"
  shows "state_io_rel R (host_call H n c)"
proof -
  note pre = objects.pre [OF all_objects.axioms(1) [OF o]]
  have quiet: "state_io_rel R (modify f)" if "\<And>gw i. obj i (f gw) = obj i gw" "\<And>gw. gw_trace (f gw) = gw_trace gw"
    "\<And>gw. gw_sessions (f gw) = gw_sessions gw" for f
    by (intro io_rel_modify same) (simp add: same_view_def that)
  show ?thesis
  proof (cases c)
    case (Host_gateway g)
    then show ?thesis
      using all_objects.gw_call_objs [OF o, of g] by (simp add: when_do_def io_rel_return [OF pre])
  qed (auto simp: host_reload_def gateway_reload_def split_def obj_def
      intro!: quiet io_rel_bind [OF pre] io_rel_gets [OF pre] io_rel_return [OF pre])
qed

lemma host_run_induct:
  assumes "rel_pre R" and "\<And>c. state_io_rel R (host_call H n c)"
  shows "state_io_rel R (host_run H n cs)"
  by (induction cs) (auto simp del: host_call.simps intro!: io_rel_bind [OF assms(1)] io_rel_return [OF assms(1)] assms(2))

lemma host_run_rel: "state_io_rel gw_rel (host_run H n cs)"
  by (intro host_run_induct gw_rel_pre host_call_rel)

lemma host_run_hands: "state_io_rel hands_over (host_run H n cs)"
  by (intro host_run_induct hands_over_pre host_call_objs host_writes.all_objects_axioms hands_over_same)

lemma host_run_ok: "state_io_rel objs_ok (host_run H n cs)"
  by (intro host_run_induct objs_ok_pre host_call_objs host_contract.all_objects_axioms)
    (simp add: objs_ok_def same_view_def)

end
