(* ===== verification/GwHostProps.thy ===== *)
theory GwHostProps
  imports GwContract ProtoFunc
begin

text \<open>
  The properties of the gateway with its protocol objects in it, with an instance: the gateway of GwSafety
  hosting the inner protocol of Examples.
\<close>

section \<open>From a client to the servers\<close>

lemma decode_post_world:
  assumes "run_state (decode_post K inp) s = ((0, out), s1)"
  shows "g_world s1 = g_world s"
  using assms
  by (auto simp: decode_post_def decrypt_data_def put_crypt_def split: if_splits option.splits prod.splits)

lemma host_post:
  fixes H :: "('c, 'd, 'g, 'b) host"
  assumes "run_state (decode_post (obj_link H d i) (Some data)) s = ((0, Some out), s1)"
    and "s' = snd (run_state (dispatch_post_body (obj_link H d i) \<lparr>post_length = n, post_data = Some data\<rparr>) s)"
  shows "\<exists>w. g_world s' = snd (run_state (host_message (host_glink H d) i out n) ((g_world s)\<lparr>gw_protos := w\<rparr>))"
proof -
  let ?G = "host_glink H d"
  have cb: "lk_cb (obj_link H d i) = Some (host_callbacks ?G i)"
    "message_fn (host_callbacks ?G i) = Some (\<lambda>bs sz. call_gw i (host_message ?G i bs sz))"
    by (simp_all add: obj_link_def host_callbacks_def)
  have "s' = snd (run_state (call_gw i (host_message ?G i out n)) (log_event (EvMessage out n) s1))"
    using assms(2) post_length_unchecked [OF cb assms(1), of n] by simp
  then have "g_world s' = snd (run_state (host_message ?G i out n) (store_obj i (log_event (EvMessage out n) s1)))"
    by (simp add: call_gw_def split: prod.split)
  moreover have "\<exists>w. store_obj i (log_event (EvMessage out n) s1) = (g_world s)\<lparr>gw_protos := w\<rparr>"
    using decode_post_world [OF assms(1)] by (auto simp: store_obj_def log_event_def)
  ultimately show ?thesis by metis
qed

lemma host_post_within:
  fixes H :: "('c, 'd, 'g, 'b) host"
  assumes "run_state (decode_post (obj_link H d i) (Some data)) s = ((0, Some out), s1)"
    and "s' = snd (run_state (dispatch_post_body (obj_link H d i) \<lparr>post_length = n, post_data = Some data\<rparr>) s)"
    and "unat n \<le> length out" and "app_node (g_world s)" and "ss = sess i (g_world s)"
    and "gl_serialize (h_gateway H) \<lparr>ss_session_id = s_id ss, ss_error_code = 0,
      ss_body = Cmd_post [s_id ss] (take (unat n) out)\<rparr> = Some bytes"
  shows "\<exists>w. g_world s' = (g_world s)\<lparr>gw_protos := w,
    gw_trace := gw_trace (g_world s) @ [EvPost (s_router ss) (atst EN_ATST_GATEWAY) bytes]\<rparr>"
  using host_post [OF assms(1,2)] assms(3-6)
  by (auto simp: host_message_def cb_message_def post_msg_def post_buffer_def sess_def gw_log_def host_glink_def
      host_gateway_def)

text \<open>C18: A client's data reaches the server. When a post decodes, with a length not over what was decoded,
  the gateway sends the bytes to the router of the session, as a post for that session, and nothing else.\<close>

theorem client_data_reaches_server:
  fixes H :: "('c, 'd, 'g, 'b) host"
  assumes "run_state (decode_post (obj_link H d i) (Some data)) s = ((0, Some out), s1)"
    and "s' = snd (run_state (dispatch_post_body (obj_link H d i) \<lparr>post_length = n, post_data = Some data\<rparr>) s)"
    and "unat n \<le> length out" and "app_node (g_world s)" and "ss = sess i (g_world s)"
    and "gl_serialize (h_gateway H) \<lparr>ss_session_id = s_id ss, ss_error_code = 0,
      ss_body = Cmd_post [s_id ss] (take (unat n) out)\<rparr> = Some bytes"
  shows "gw_trace (g_world s') = gw_trace (g_world s) @ [EvPost (s_router ss) (atst EN_ATST_GATEWAY) bytes] \<and>
    gw_faults (g_world s') = gw_faults (g_world s) \<and> gw_sessions (g_world s') = gw_sessions (g_world s)"
  using host_post_within [OF assms] by auto

text \<open>C21: The length a peer claims is not checked: with a length over what was decoded, the callback of the
  gateway copies past the end of the buffer.\<close>

theorem post_reads_past_buffer:
  fixes H :: "('c, 'd, 'g, 'b) host"
  assumes "run_state (decode_post (obj_link H d i) (Some data)) s = ((0, Some out), s1)"
    and "s' = snd (run_state (dispatch_post_body (obj_link H d i) \<lparr>post_length = n, post_data = Some data\<rparr>) s)"
    and "length out < unat n"
  shows "gw_faults (g_world s') = gw_faults (g_world s) @ [UninitRead ''buffer'']"
  using host_post [OF assms(1,2)] assms(3)
  by (auto simp: host_message_def cb_message_def post_msg_def post_buffer_def gw_log_def gw_raise_def split: option.splits)

section \<open>Any sequence of events\<close>

text \<open>C5: The contract of the objects holds in the gateway. Whatever comes from outside, and however deep
  the gateway and its protocol objects call each other: every object reports its close and its first handshake
  at most once, delivers messages only after the handshake, writes one at a time, and has valid pointers to its
  crypt sessions; and the sessions stay well-formed.\<close>

theorem whole_gateway_contract:
  fixes H :: "('c, 'd, 'g, 'b) host"
  assumes "gw_ok s" and "\<And>i. obj_ok (obj i s)" and "s' = snd (run_state (host_run H n cs) s)"
  shows "length (closes (trace (obj i s'))) \<le> 1 \<and> length (shakes (trace (obj i s'))) \<le> 1 \<and>
    (messages (trace (obj i s')) \<noteq> [] \<longrightarrow> check_flag EN_PFT_HANDSHAKE_DONE (obj i s')) \<and>
    serial_writes False (trace (obj i s')) \<and> crypt_ok (obj i s') \<and>
    (has_flag EN_FT_HAS_FD i s' \<longrightarrow> s_owner (sess i s') \<and> \<not> has_flag EN_FT_CLOSING i s' \<and> \<not> has_flag EN_FT_CLOSING_FD i s') \<and>
    (has_flag EN_FT_CLOSING_FD i s' \<longrightarrow> s_holder (sess i s'))"
proof -
  have "obj_ok (obj i s')"
    using io_relD [OF host_run_ok, of s H n cs] assms(2,3) by (simp add: objs_ok_def)
  moreover have "session_ok (sess i s')" if "i < length (gw_sessions s')"
    using io_relD [OF host_run_rel, of s H n cs] assms(1,3) that by (auto simp: gw_rel_def gw_ok_def)
  then have "session_ok (sess i s')" if "has_flag f i s'" for f
    using has_flag_range [OF that] by blast
  ultimately show ?thesis
    by (auto simp: obj_ok_def view_ok_def view_def session_ok_def has_flag_def split: if_splits)
qed

text \<open>C6: A connection gets what its object writes. For a session that is there from the start, the buffers
  handed to libuv over any sequence of events are those its protocol object writes, in order, each without the
  space for the header of the write request.\<close>

theorem connection_gets_writes:
  fixes H :: "('c, 'd, 'g, 'b) host"
  assumes "i < length (gw_sessions s)" and "s' = snd (run_state (host_run H n cs) s)"
  shows "\<exists>bss. writes (trace (obj i s')) = writes (trace (obj i s)) @ bss \<and>
    sent i s' = sent i s @ map (drop (hdr_off (obj i s))) bss"
  using io_relD [OF host_run_hands, of s H n cs] assms by (simp add: hands_over_def)

section \<open>An instance\<close>

type_synonym ex_objects = "(byte list, byte list, unit, bblock list) inner_world"

definition ex_host :: "(byte list, byte list, unit, bblock list) host" where
  "ex_host = \<lparr>h_link = \<lparr>lk_crypto = ex_crypto, lk_buf = ex_buf, lk_fb = ex_fb,
       lk_hash = (\<lambda>bs. word_of_nat (length bs)), lk_hex = (\<lambda>bs. concat (map (\<lambda>b. [b, b]) bs)),
       lk_cb = None, lk_fuel = 4\<rparr>,
     h_gateway = \<lparr>gl_serialize = (\<lambda>m. case ss_body m of Cmd_post ks bs \<Rightarrow> Some bs | _ \<Rightarrow> Some []),
       gl_send = (\<lambda>n tid ty bs. 0), gl_vt = dead_vt, gl_create_proto = None, gl_on_create = None,
       gl_uv_write = (\<lambda>i bs. 0), gl_uv_again = (\<lambda>n. n = -11), gl_minute = 60, gl_day = 86400,
       gl_msg_limit = 65536, gl_fuel = 3\<rparr>,
     h_write_req = 192, h_buffers = []\<rparr>"

definition ex_hosted :: "session list \<Rightarrow> (byte list, byte list, unit, bblock list) proto \<Rightarrow> ex_objects gateway" where
  "ex_hosted ss p = \<lparr>gw_conf = ex_gw_conf, gw_sessions = ss, actived_sessions = [], first_idle = [],
     reconnect_cache = [], reconnect_timers = [], last_tick_time = 0, listen_handles = 0, app_node = True,
     gw_now = 1000, gw_id_seq = seq_alloc_init, gw_trace = [], gw_faults = [],
     gw_protos = \<lparr>iw_protos = (\<lambda>_. p), iw_current = None, iw_seq = 0, iw_draws = 0, iw_clock = 0\<rparr>\<rparr>"

definition ex_object :: "(byte list, byte list, unit, bblock list) proto" where
  "ex_object = proto_init ex_crypto []"

definition ex_open_object :: "(byte list, byte list, unit, bblock list) proto" where
  "ex_open_object = ex_object\<lparr>crypt_read := Some 0,
     crypt_heap := [(crypt_session_new ex_crypto)\<lparr>cs_inited := True\<rparr>]\<rparr>"

lemma ex_object_ok: "obj_ok (obj i (ex_hosted ss ex_object))"
  by (simp add: obj_ok_def view_ok_def view_def check_flag_def crypt_ok_def obj_def ex_hosted_def ex_object_def proto_init_def)

definition ex_events :: "host_input list" where
  "ex_events = [Host_clock 5, Host_gateway (Gw_read 0 3 (Some [1, 2, 3])), Host_gateway (Gw_shutdown 0), Host_gateway Gw_tick]"

lemma whole_gateway_contract_witness:
  "length (closes (trace (obj 0 (snd (run_state (host_run ex_host 3 ex_events) (ex_hosted [ex_sess] ex_object)))))) \<le> 1"
proof -
  have "session_ok ex_sess" by (simp add: ex_sess_def session_ok_def)
  then have "gw_ok (ex_hosted [ex_sess] ex_object)" by (simp add: gw_ok_def ex_hosted_def sess_def)
  then show ?thesis using whole_gateway_contract [OF _ ex_object_ok refl] by blast
qed

lemma connection_gets_writes_witness:
  "\<exists>bss. sent 0 (snd (run_state (host_run ex_host 3 ex_events) (ex_hosted [ex_sess] ex_object))) = map (drop 0) bss"
  using connection_gets_writes [of 0 "ex_hosted [ex_sess] ex_object", OF _ refl]
  by (auto simp: ex_hosted_def sent_def obj_def hdr_off_def ex_object_def proto_init_def)

lemma ex_decoded:
  "run_state (decode_post (obj_link ex_host d i) (Some [7])) (load_obj 0 (ex_hosted [ex_sess] ex_open_object)) =
   ((0, Some [7]), load_obj 0 (ex_hosted [ex_sess] ex_open_object))"
  by (simp add: decode_post_def decrypt_data_def load_obj_def obj_def ex_hosted_def ex_open_object_def ex_object_def
      proto_init_def check_flag_def crypt_at_def crypt_session_new_def proto.defs)

lemma client_data_reaches_server_witness:
  "gw_trace (g_world (snd (run_state (dispatch_post_body (obj_link ex_host 2 0) \<lparr>post_length = 1, post_data = Some [7]\<rparr>)
     (load_obj 0 (ex_hosted [ex_sess] ex_open_object))))) = [EvPost 77 (atst EN_ATST_GATEWAY) [7]]"
  using client_data_reaches_server [OF ex_decoded refl, of 1]
  by (simp add: ex_host_def ex_hosted_def sess_def ex_sess_def)

lemma post_reads_past_buffer_witness:
  "gw_faults (g_world (snd (run_state (dispatch_post_body (obj_link ex_host 2 0) \<lparr>post_length = 99, post_data = Some [7]\<rparr>)
     (load_obj 0 (ex_hosted [ex_sess] ex_open_object))))) = [UninitRead ''buffer'']"
  using post_reads_past_buffer [OF ex_decoded refl, of 99] by (simp add: ex_hosted_def)

end
