(* ===== verification/ProtoCalm.thy ===== *)
theory ProtoCalm
  imports ProtoFlow ProtoFunc
begin

text \<open>
  An object whose engine is calm: it finishes every write at once, and its callbacks change nothing but its
  own world. There an operation that sends a message leaves the object as it was but for the trace and the
  released blocks, so that a whole exchange of messages can be followed.
\<close>

section \<open>Calm engines\<close>

definition world_only :: "('c, 'd, 'g, 'b, 'w, 'a) pm \<Rightarrow> bool" where
  "world_only m \<longleftrightarrow> (\<forall>s. \<exists>r w. run_state m s = (r, s\<lparr>g_world := w\<rparr>))"

definition calm :: "('c, 'd, 'g, 'b, 'w) link \<Rightarrow> bool" where
  "calm K \<longleftrightarrow> bufmgr_ok (lk_buf K) \<and> (\<forall>b n. fst (bm_push_back (lk_buf K) b n) = 0) \<and> 3 \<le> lk_fuel K \<and>
     (\<exists>t wfn. lk_cb K = Some t \<and> write_fn t = Some wfn \<and> prompt_engine wfn \<and>
       (\<forall>f st. on_handshake_done_fn t = Some f \<longrightarrow> world_only (f st)) \<and>
       (\<forall>f st. on_handshake_update_fn t = Some f \<longrightarrow> world_only (f st)))"

text \<open>Nothing is queued or being written, and the object is open.\<close>

definition resting :: "('c, 'd, 'g, 'b, 'w) link \<Rightarrow> ('c, 'd, 'g, 'b, 'w) proto_env \<Rightarrow> bool" where
  "resting K s \<longleftrightarrow> write_blocks K s = [] \<and> \<not> check_flag EN_PFT_WRITING s \<and> \<not> check_flag EN_PFT_CLOSING s"

section \<open>Sending\<close>

text \<open>The state after a message was sent: the engine got one block, the header space and the frame.\<close>

definition sent_msg ::
  "('c, 'd, 'g, 'b, 'w) link \<Rightarrow> cs_msg \<Rightarrow> ('c, 'd, 'g, 'b, 'w) proto_env \<Rightarrow> ('c, 'd, 'g, 'b, 'w) proto_env \<Rightarrow> bool" where
  "sent_msg K msg s s' \<longleftrightarrow> (\<exists>b w mem r.
     s' = s\<lparr>write_buffers := b, last_write_ptr := None, trace := trace s @ [EvWrite mem, EvWritten r], g_world := w\<rparr> \<and>
     bm_blocks (lk_buf K) b = [] \<and> drop (hdr_off s) mem = frame (lk_hash K) (fb_pack (lk_fb K) msg))"

lemma flags_after_write:
  assumes "\<not> word_check f (pft_mask EN_PFT_WRITING)"
  shows "flag_guard_leave (snd (flag_guard_enter (word_set f (pft_mask EN_PFT_WRITING) True) (pft_mask EN_PFT_IN_CALLBACK)))
    (word_set (fst (flag_guard_enter (word_set f (pft_mask EN_PFT_WRITING) True) (pft_mask EN_PFT_IN_CALLBACK)))
      (pft_mask EN_PFT_WRITING) False) = f"
proof -
  let ?W = "pft_mask EN_PFT_WRITING" and ?C = "pft_mask EN_PFT_IN_CALLBACK"
  have ne: "pft_pos EN_PFT_WRITING \<noteq> pft_pos EN_PFT_IN_CALLBACK" by simp
  have off: "\<not> bit f (pft_pos EN_PFT_WRITING)" using assms pft.check_bit by blast
  show ?thesis
    unfolding pft.guard_enter pft.check_set
    using off ne
    by (auto intro!: bit_word_eqI simp: flag_guard_leave_def pft.bit_set bit_and_iff bit_not_iff pft.bit_mask
        pft.check_bit possible_bit_def simp del: pft_mask.simps pft_pos.simps split: if_splits)
qed

text \<open>One write is enough when the engine finishes this one; \<open>P\<close> is what the engine's world is afterwards.\<close>

lemma write_msg_writes:
  fixes K :: "('c, 'd, 'g, 'b, 'w) link"
  assumes bm: "bufmgr_ok (lk_buf K)" and depth: "3 \<le> lk_fuel K"
    and cb: "lk_cb K = Some t" "write_fn t = Some wfn"
    and push: "bm_push_back (lk_buf K) (write_buffers s) (hdr_off s + 8 + length (fb_pack (lk_fb K) msg)) = (0, b1)"
    and eng: "\<And>mem s1. hdr_off s \<le> length mem \<Longrightarrow> hdr_off s1 = hdr_off s \<Longrightarrow> g_world s1 = g_world s \<Longrightarrow> g_now s1 = g_now s \<Longrightarrow>
      \<exists>r w. P w \<and> run_state (wfn mem) s1 = ((r, True), s1\<lparr>g_world := w\<rparr>)"
    and rest: "resting K s"
    and buf: "fb_pack (lk_fb K) msg \<noteq> []" "length (fb_pack (lk_fb K) msg) < 2 ^ 32 - 1"
  shows "\<exists>s'. run_state (write_msg K msg) s = (0, s') \<and> sent_msg K msg s s' \<and> P (g_world s')"
proof -
  let ?B = "lk_buf K" and ?b = "write_buffers s" and ?off = "hdr_off s" and ?buf = "fb_pack (lk_fb K) msg"
  let ?fr = "frame (lk_hash K) ?buf"
  obtain n where fuel: "lk_fuel K = Suc (Suc (Suc n))"
  proof -
    have "lk_fuel K = Suc (Suc (Suc (lk_fuel K - 3)))" using depth by arith
    then show ?thesis using that by blast
  qed
  have open_s: "write_blocks K s = []" "\<not> check_flag EN_PFT_WRITING s" "\<not> check_flag EN_PFT_CLOSING s"
    using rest by (simp_all add: resting_def)
  obtain a m where m: "length m = ?off + 8 + length ?buf"
    "bm_blocks ?B b1 = [\<lparr>blk_addr = a, blk_used = 0, blk_mem = m\<rparr>]"
    using bufmgr_push_back [OF bm push] open_s(1) by (auto simp: write_blocks_def)
  let ?b2 = "bm_poke_back ?B b1 ?off ?fr"
  let ?mem = "overlay m ?off ?fr"
  have blocks: "bm_blocks ?B ?b2 = [\<lparr>blk_addr = a, blk_used = 0, blk_mem = ?mem\<rparr>]"
    using bufmgr_poke_back [OF bm, of b1 "[]" _ ?off ?fr] m by (simp add: blk_size_def)
  have mem: "length ?mem = ?off + 8 + length ?buf" "drop ?off ?mem = ?fr"
    using m by (simp_all add: overlay_def)
  let ?s0 = "s\<lparr>write_buffers := ?b2\<rparr>"
  have merge: "run_state (try_merge K) ?s0 = ((), ?s0)"
    using bufmgr_cost [OF bm, of ?b2] blocks by (simp add: try_merge_def Let_def)
  let ?s1 = "(log_event (EvWrite ?mem) (set_flag EN_PFT_WRITING True ?s0))\<lparr>last_write_ptr := Some a\<rparr>"
  obtain r w where wf: "P w" "run_state (wfn ?mem) ?s1 = ((r, True), ?s1\<lparr>g_world := w\<rparr>)"
  proof -
    have "hdr_off s \<le> length ?mem" "hdr_off ?s1 = hdr_off s" "g_world ?s1 = g_world s" "g_now ?s1 = g_now s"
      using mem(1) by (simp_all add: log_event_def set_flag_def hdr_off_def del: pft_mask.simps)
    then show ?thesis using eng that by blast
  qed
  let ?s2 = "?s1\<lparr>g_world := w\<rparr>"
  have tw: "run_state (try_write K (Suc (Suc (Suc n)))) ?s0 = run_state (write_done K (Suc (Suc n)) r) ?s2"
    using cb open_s blocks merge mem(1) wf(2) by (simp add: write_blocks_def hdr_off_def blk_size_def)
  let ?b3 = "bm_pop_front ?B ?b2 (length ?mem) True"
  have pop: "pop_written ?B (Some a) 1 False ?b2 = (False, ?b3)"
    using blocks mem(1) by (simp add: blk_left_def blk_size_def Let_def)
  have empty: "bm_blocks ?B ?b3 = []"
    using bufmgr_pop_front [OF bm blocks, of "length ?mem"] by (simp add: blk_size_def)
  let ?s3 = "log_event (EvWritten r) (set_flag EN_PFT_WRITING False
      ((guard_in EN_PFT_IN_CALLBACK ?s2)\<lparr>write_buffers := ?b3, last_write_ptr := None\<rparr>))"
  have g: "last_write_ptr (guard_in EN_PFT_IN_CALLBACK ?s2) = Some a"
    "write_buffers (guard_in EN_PFT_IN_CALLBACK ?s2) = ?b2"
    by (simp_all add: guard_in_def log_event_def set_flag_def)
  have "write_blocks K ?s3 = []" using empty by (simp add: write_blocks_def log_event_def set_flag_def)
  then have "run_state (try_write K (Suc n)) ?s3 = (0, ?s3)" using cb by simp
  moreover have "run_state (report_closed K 0) ?s3 = (0, ?s3)"
    using open_s by (simp add: report_closed_def)
  ultimately have "run_state (write_done K (Suc (Suc n)) r) ?s2 = (0, guard_out EN_PFT_IN_CALLBACK (flags ?s2) ?s3)"
    using pop g blocks
    by (simp add: run_flag_guard run_bind del: run_state_bind try_write.simps pop_written.simps)
  moreover have "guard_out EN_PFT_IN_CALLBACK (flags ?s2) ?s3 =
      s\<lparr>write_buffers := ?b3, last_write_ptr := None, trace := trace s @ [EvWrite ?mem, EvWritten r], g_world := w\<rparr>"
    using flags_after_write [of "flags s"] open_s(2)
    by (simp add: guard_out_def guard_in_def log_event_def set_flag_def check_flag_def del: pft_mask.simps)
  moreover have "run_state (write_msg K msg) s = run_state (try_write K (Suc (Suc (Suc n)))) ?s0"
    using buf push fuel by (simp add: write_msg_def Let_def del: try_write.simps)
  ultimately show ?thesis
    using tw empty mem(2) wf(1) unfolding sent_msg_def by (auto simp del: try_write.simps)
qed

lemma write_msg_sends:
  fixes K :: "('c, 'd, 'g, 'b, 'w) link"
  assumes K: "calm K" and rest: "resting K s"
    and buf: "fb_pack (lk_fb K) msg \<noteq> []" "length (fb_pack (lk_fb K) msg) < 2 ^ 32 - 1"
  shows "\<exists>s'. run_state (write_msg K msg) s = (0, s') \<and> sent_msg K msg s s'"
proof -
  obtain t wfn where cb: "lk_cb K = Some t" "write_fn t = Some wfn" "prompt_engine wfn"
    using K by (auto simp: calm_def)
  obtain b1 where push: "bm_push_back (lk_buf K) (write_buffers s) (hdr_off s + 8 + length (fb_pack (lk_fb K) msg)) = (0, b1)"
    using K unfolding calm_def by (metis prod.collapse)
  have "\<exists>r w. True \<and> run_state (wfn mem) s1 = ((r, True), s1\<lparr>g_world := w\<rparr>)" for mem s1
    using cb(3) unfolding prompt_engine_def by simp
  then show ?thesis
    using write_msg_writes [where P = "\<lambda>_. True", OF _ _ cb(1,2) push _ rest buf] K by (auto simp: calm_def)
qed

section \<open>Finishing a handshake\<close>

definition ended_shake :: "('c, 'd, 'g, 'b, 'w) proto_env \<Rightarrow> ('c, 'd, 'g, 'b, 'w) proto_env \<Rightarrow> bool" where
  "ended_shake s s' \<longleftrightarrow> (\<exists>f tr w d.
     s' = (upd_hs_crypt (\<lambda>cs. cs\<lparr>cs_param := []\<rparr>) s)\<lparr>shake_has_data := False, shake_dh_ctx := d,
       flags := f, trace := tr, g_world := w\<rparr> \<and>
     writes tr = writes (trace s) \<and>
     (\<forall>t. word_check f (pft_mask t) =
       (if t = EN_PFT_HANDSHAKE_DONE then True else if t = EN_PFT_HANDSHAKE_UPDATE then False else check_flag t s)))"

lemma handshake_done_calm:
  fixes K :: "('c, 'd, 'g, 'b, 'w) link"
  assumes K: "calm K" and st: "check_flag EN_PFT_HANDSHAKE_DONE s \<Longrightarrow> check_flag EN_PFT_HANDSHAKE_UPDATE s"
  shows "\<exists>f tr w. run_state (handshake_done (lk_cb K) x) s = (0, s\<lparr>flags := f, trace := tr, g_world := w\<rparr>) \<and>
    writes tr = writes (trace s) \<and>
    (\<forall>t. word_check f (pft_mask t) =
      (if t = EN_PFT_HANDSHAKE_DONE then True else if t = EN_PFT_HANDSHAKE_UPDATE then False else check_flag t s))"
proof -
  obtain cb where cb: "lk_cb K = Some cb"
    and calls: "\<forall>f st. on_handshake_done_fn cb = Some f \<longrightarrow> world_only (f st)"
      "\<forall>f st. on_handshake_update_fn cb = Some f \<longrightarrow> world_only (f st)"
    using K unfolding calm_def by blast
  let ?s1 = "set_flag EN_PFT_HANDSHAKE_UPDATE False (set_flag EN_PFT_HANDSHAKE_DONE True s)"
  have flag: "word_check (flags ?s1) (pft_mask t) =
      (if t = EN_PFT_HANDSHAKE_DONE then True else if t = EN_PFT_HANDSHAKE_UPDATE then False else check_flag t s)" for t
    unfolding check_flag_def [symmetric] by simp
  have s1: "?s1 = s\<lparr>flags := flags ?s1\<rparr>" "?s1 = s\<lparr>flags := flags ?s1, trace := trace s, g_world := g_world s\<rparr>"
    by (cases s; simp add: set_flag_def)+
  show ?thesis
  proof (cases "shake_callback (lk_cb K) (check_flag EN_PFT_HANDSHAKE_DONE s) x")
    case None
    then have "run_state (handshake_done (lk_cb K) x) s = (0, ?s1)" using st by (simp add: handshake_done_def)
    then have "run_state (handshake_done (lk_cb K) x) s = (0, s\<lparr>flags := flags ?s1, trace := trace s, g_world := g_world s\<rparr>)"
      using s1(2) by metis
    then show ?thesis using flag by blast
  next
    case (Some p)
    obtain e m where p: "p = (e, m)" by fastforce
    have e: "writes [e] = []" "world_only m"
      using Some p calls by (auto simp: shake_callback_def cb split: option.splits if_splits)
    obtain r w where m: "run_state m (log_event e ?s1) = (r, (log_event e ?s1)\<lparr>g_world := w\<rparr>)"
      using e(2) unfolding world_only_def by blast
    have "run_state (handshake_done (lk_cb K) x) s = (0, (log_event e ?s1)\<lparr>g_world := w\<rparr>)"
      using Some p st m by (simp add: handshake_done_def)
    moreover have "(log_event e ?s1)\<lparr>g_world := w\<rparr> = s\<lparr>flags := flags ?s1, trace := trace s @ [e], g_world := w\<rparr>"
      using s1(1) by (simp add: log_event_def)
    moreover have "writes (trace s @ [e]) = writes (trace s)" using e(1) by simp
    ultimately show ?thesis using flag by metis
  qed
qed

lemma close_handshake_calm:
  fixes K :: "('c, 'd, 'g, 'b, 'w) link"
  assumes K: "calm K" and st: "check_flag EN_PFT_HANDSHAKE_DONE s \<Longrightarrow> check_flag EN_PFT_HANDSHAKE_UPDATE s"
  shows "\<exists>s'. run_state (close_handshake K x) s = ((), s') \<and> ended_shake s s'"
proof -
  let ?s0 = "upd_hs_crypt (\<lambda>cs. cs\<lparr>cs_param := []\<rparr>) s"
  have fields: "flags ?s0 = flags s" "trace ?s0 = trace s" "shake_has_data ?s0 = shake_has_data s"
    "shake_switch_secret_type ?s0 = shake_switch_secret_type s" "shake_dh_ctx ?s0 = shake_dh_ctx s"
    by (simp_all add: upd_hs_crypt_def put_crypt_def)
  have fl: "check_flag t (?s0\<lparr>shake_has_data := b, shake_dh_ctx := d\<rparr>) = check_flag t s" for t b d
    using fields(1) by (simp add: check_flag_def)
  have fin: "\<exists>f tr w. run_state (handshake_done (lk_cb K) y) (?s0\<lparr>shake_has_data := b, shake_dh_ctx := d\<rparr>) =
      (0, ?s0\<lparr>shake_has_data := b, shake_dh_ctx := d, flags := f, trace := tr, g_world := w\<rparr>) \<and>
    writes tr = writes (trace s) \<and>
    (\<forall>t. word_check f (pft_mask t) =
      (if t = EN_PFT_HANDSHAKE_DONE then True else if t = EN_PFT_HANDSHAKE_UPDATE then False else check_flag t s))" for y b d
  proof -
    define s1 where "s1 = ?s0\<lparr>shake_has_data := b, shake_dh_ctx := d\<rparr>"
    have same: "check_flag t s1 = check_flag t s" "trace s1 = trace s" for t
      using fl fields(2) by (simp_all add: s1_def)
    have st1: "check_flag EN_PFT_HANDSHAKE_UPDATE s1" if "check_flag EN_PFT_HANDSHAKE_DONE s1" using st that same by simp
    have "\<exists>f tr w. run_state (handshake_done (lk_cb K) y) s1 = (0, s1\<lparr>flags := f, trace := tr, g_world := w\<rparr>) \<and>
        writes tr = writes (trace s) \<and>
        (\<forall>t. word_check f (pft_mask t) =
          (if t = EN_PFT_HANDSHAKE_DONE then True else if t = EN_PFT_HANDSHAKE_UPDATE then False else check_flag t s))"
      using handshake_done_calm [OF K st1, of y] unfolding same .
    then show ?thesis unfolding s1_def .
  qed
  show ?thesis
  proof (cases "shake_has_data s")
    case False
    then have same: "?s0\<lparr>shake_has_data := False, shake_dh_ctx := shake_dh_ctx s\<rparr> = ?s0" using fields by simp
    obtain f tr w where run: "run_state (handshake_done (lk_cb K) x) ?s0 =
        (0, ?s0\<lparr>shake_has_data := False, shake_dh_ctx := shake_dh_ctx s, flags := f, trace := tr, g_world := w\<rparr>)"
      "writes tr = writes (trace s)"
      "\<forall>t. word_check f (pft_mask t) =
        (if t = EN_PFT_HANDSHAKE_DONE then True else if t = EN_PFT_HANDSHAKE_UPDATE then False else check_flag t s)"
      using fin [where y = x and b = False and d = "shake_dh_ctx s"] unfolding same by blast
    have "run_state (close_handshake K x) s = ((), snd (run_state (handshake_done (lk_cb K) x) ?s0))"
      using False fields by (simp add: close_handshake_def run_bind del: run_state_bind)
    then show ?thesis unfolding ended_shake_def run(1) snd_conv
      by (intro exI conjI) (assumption | rule refl run)+
  next
    case True
    let ?sw = "shake_switch_secret_type s"
    let ?d = "if ?sw = sst EN_SST_DH \<or> ?sw = sst EN_SST_ECDH then dh_close (lk_crypto K) (shake_dh_ctx s) else shake_dh_ctx s"
    let ?y = "if ?sw = sst EN_SST_DH \<or> ?sw = sst EN_SST_ECDH \<or> ?sw = sst EN_SST_DIRECT then x else ec EN_ECT_CRYPT_NOT_SUPPORTED"
    obtain f tr w where run: "run_state (handshake_done (lk_cb K) ?y) (?s0\<lparr>shake_has_data := False, shake_dh_ctx := ?d\<rparr>) =
        (0, ?s0\<lparr>shake_has_data := False, shake_dh_ctx := ?d, flags := f, trace := tr, g_world := w\<rparr>)"
      "writes tr = writes (trace s)"
      "\<forall>t. word_check f (pft_mask t) =
        (if t = EN_PFT_HANDSHAKE_DONE then True else if t = EN_PFT_HANDSHAKE_UPDATE then False else check_flag t s)"
      using fin [where y = ?y and b = False and d = ?d] by blast
    define sT where "sT = ?s0\<lparr>shake_has_data := False, shake_dh_ctx := ?d\<rparr>"
    have sT: "sT = (if ?sw = sst EN_SST_DH \<or> ?sw = sst EN_SST_ECDH
        then ?s0\<lparr>shake_has_data := False, shake_dh_ctx := dh_close (lk_crypto K) (shake_dh_ctx s)\<rparr>
        else ?s0\<lparr>shake_has_data := False\<rparr>)"
      by (cases s) (simp add: sT_def upd_hs_crypt_def put_crypt_def)
    have "run_state (close_handshake K x) s = ((), snd (run_state (handshake_done (lk_cb K) ?y) sT))"
      using True fields by (simp add: sT close_handshake_def run_bind del: run_state_bind)
    note this [unfolded sT_def]
    then show ?thesis unfolding ended_shake_def run(1) snd_conv
      by (intro exI conjI) (assumption | rule refl run)+
  qed
qed

end
