(* ===== verification/GwClose.thy ===== *)
theory GwClose
  imports GwHostProps GwManage ProtoCalm
begin

text \<open>
  A close that the inner protocol reports at once, followed through the whole gateway. libuv refuses the write of
  the kickoff message, so nothing is left to be written, and the object reports its close before close returns,
  while the session manager is still closing the session.
\<close>

section \<open>What the manager knows of a session\<close>

definition same_books :: "nat \<Rightarrow> 'p gateway \<Rightarrow> 'p gateway \<Rightarrow> bool" where
  "same_books i s s' \<longleftrightarrow> actived_sessions s' = actived_sessions s \<and> reconnect_timers s' = reconnect_timers s \<and>
     gw_conf s' = gw_conf s \<and> gw_now s' = gw_now s \<and> length (gw_sessions s') = length (gw_sessions s) \<and>
     s_id (sess i s') = s_id (sess i s) \<and> s_owner (sess i s') = s_owner (sess i s) \<and>
     (\<forall>f. f \<noteq> EN_FT_WRITING_FD \<longrightarrow> s_check f (sess i s') = s_check f (sess i s))"

lemma same_books_refl [simp]: "same_books i s s"
  by (simp add: same_books_def)

lemma same_books_trans: "same_books i a b \<Longrightarrow> same_books i b c \<Longrightarrow> same_books i a c"
  by (simp add: same_books_def)

lemma same_books_store: "same_books i (g_world env) (store_obj i env)"
  by (simp add: same_books_def store_obj_def sess_def)

lemma refused_write:
  assumes "i < length (gw_sessions s)" and "gl_uv_write G i (drop h bs) \<noteq> 0" and "h \<le> length bs"
  shows "\<exists>r w. run_state (cb_write G h i bs) s = ((r, True), w) \<and> same_books i s w \<and> gw_protos w = gw_protos s"
  using assms by (simp add: cb_write_def put_flag_def gw_log_def same_books_def has_flag_def)

section \<open>Calls between the object and the gateway\<close>

definition in_step :: "nat \<Rightarrow> ('c, 'd, 'g, 'b) host_env \<Rightarrow> bool" where
  "in_step i env \<longleftrightarrow> g_now env = iw_clock (gw_protos (g_world env))"

text \<open>A call of the gateway that leaves the objects alone changes nothing of the object but its world.\<close>

lemma call_gw_world:
  assumes "in_step i env" and "run_state f (store_obj i env) = (r, w)" and "gw_protos w = gw_protos (store_obj i env)"
  shows "run_state (call_gw i f) env = (r, env\<lparr>g_world := w\<rparr>)"
  using assms
  by (cases env) (simp add: call_gw_def load_obj_def obj_def store_obj_def in_step_def proto.defs)

text \<open>The object is open, and nothing is queued or being written.\<close>

definition quiet_obj :: "('c, 'd, 'g, 'b) host \<Rightarrow> ('c, 'd, 'g, 'b) proto \<Rightarrow> bool" where
  "quiet_obj H p \<longleftrightarrow> bm_blocks (lk_buf (h_link H)) (write_buffers p) = [] \<and> \<not> check_flag EN_PFT_WRITING p \<and>
     \<not> check_flag EN_PFT_CLOSING p \<and> \<not> check_flag EN_PFT_CLOSED p"

lemma kickoff_refused:
  fixes H :: "('c, 'd, 'g, 'b) host"
  assumes bm: "bufmgr_ok (lk_buf (h_link H))" and depth: "3 \<le> lk_fuel (h_link H)"
    and refuse: "\<And>bs. gl_uv_write (h_gateway H) i bs \<noteq> 0"
    and i: "i < length (gw_sessions (g_world s))" and sync: "in_step i s"
    and quiet: "resting (obj_link H n i) s"
  shows "\<exists>r s'. run_state (send_kickoff (obj_link H n i) reason) s = (r, s') \<and> flags s' = flags s \<and>
    close_reason s' = close_reason s \<and> same_books i (g_world s) (g_world s')"
proof -
  let ?L = "obj_link H n i" and ?G = "host_glink H n"
  let ?wfn = "\<lambda>buffer. do { h \<leftarrow> gets hdr_off; call_gw i (cb_write ?G h i buffer) }"
  have L: "lk_buf ?L = lk_buf (h_link H)" "lk_fuel ?L = lk_fuel (h_link H)" "lk_cb ?L = Some (host_callbacks ?G i)"
    "write_fn (host_callbacks ?G i) = Some ?wfn" "has_write_fn ?L" "gl_uv_write ?G = gl_uv_write (h_gateway H)"
    by (simp_all add: obj_link_def host_callbacks_def has_write_fn_def host_glink_def host_gateway_def)
  define s1 where "s1 = s\<lparr>g_seq := alloc_seq (g_seq s)\<rparr>"
  define msg where "msg = Createcs_msg (Createcs_msg_head EN_MTT_KICKOFF (alloc_seq (g_seq s)))
    (Body_kickoff (Some \<lparr>kickoff_reason = reason\<rparr>))"
  have s1: "resting ?L s1" "g_world s1 = g_world s" "g_now s1 = g_now s" "flags s1 = flags s" "close_reason s1 = close_reason s"
    "write_blocks ?L s1 = []"
    using quiet by (simp_all add: s1_def resting_def write_blocks_def check_flag_def)
  let ?fb = "fb_pack (lk_fb ?L) msg"
  have "\<exists>r s'. run_state (write_msg ?L msg) s1 = (r, s') \<and> flags s' = flags s1 \<and>
      close_reason s' = close_reason s1 \<and> same_books i (g_world s) (g_world s')"
  proof (cases "?fb = [] \<or> 2 ^ 32 - 1 \<le> length ?fb")
    case True
    have "lk_fuel ?L = Suc (lk_fuel ?L - 1)" using depth L(2) by simp
    then obtain m where "lk_fuel ?L = Suc m" by blast
    then have "\<exists>r. run_state (write_msg ?L msg) s1 = (r, s1)"
      using True s1(1,6) L(3,4) by (auto simp: write_msg_def resting_def Let_def)
    then show ?thesis using s1(2) by auto
  next
    case False
    then have buf: "?fb \<noteq> []" "length ?fb < 2 ^ 32 - 1" by simp_all
    obtain e b where push: "bm_push_back (lk_buf ?L) (write_buffers s1) (hdr_off s1 + 8 + length ?fb) = (e, b)" by fastforce
    show ?thesis
    proof (cases "e = 0")
      case True
      have wf: "\<exists>r w. same_books i (g_world s) w \<and> run_state (?wfn mem) x = ((r, True), x\<lparr>g_world := w\<rparr>)"
        if "hdr_off s1 \<le> length mem" "hdr_off x = hdr_off s1" "g_world x = g_world s1" "g_now x = g_now s1" for mem x
      proof -
        have st: "i < length (gw_sessions (store_obj i x))" "in_step i x" "hdr_off x \<le> length mem"
          using that i sync s1(2,3) by (simp_all add: store_obj_def in_step_def)
        obtain r w where w: "run_state (cb_write ?G (hdr_off x) i mem) (store_obj i x) = ((r, True), w)"
          "same_books i (store_obj i x) w" "gw_protos w = gw_protos (store_obj i x)"
          using refused_write [OF st(1) _ st(3), of ?G] refuse L(6) by metis
        have "same_books i (g_world s) w"
          using same_books_trans [OF same_books_store w(2)] that(3) s1(2) by simp
        then show ?thesis using call_gw_world [OF st(2) w(1,3)] by auto
      qed
      have K: "bufmgr_ok (lk_buf ?L)" "3 \<le> lk_fuel ?L" using bm depth L(1,2) by simp_all
      have zero: "bm_push_back (lk_buf ?L) (write_buffers s1) (hdr_off s1 + 8 + length ?fb) = (0, b)" using push True by simp
      have "\<exists>s'. run_state (write_msg ?L msg) s1 = (0, s') \<and> sent_msg ?L msg s1 s' \<and> same_books i (g_world s) (g_world s')"
        by (rule write_msg_writes [OF K L(3,4) zero wf s1(1) buf])
      then show ?thesis by (auto simp: sent_msg_def)
    next
      case False
      then have "e < 0" using bufmgr_push_back [OF bm] push L(1) by (metis (full_types))
      then have "run_state (write_msg ?L msg) s1 = (e, s1\<lparr>write_buffers := b\<rparr>)"
        using buf push by (simp add: write_msg_def Let_def)
      then show ?thesis using s1(2) by simp
    qed
  qed
  moreover have "run_state (send_kickoff ?L reason) s = run_state (write_msg ?L msg) s1"
    using quiet L(5) by (simp add: send_kickoff_def send_msg_def next_seq_def resting_def s1_def msg_def)
  ultimately show ?thesis using s1 by simp
qed

text \<open>So the object closes, and reports it to the manager before it returns.\<close>

lemma refused_close:
  fixes H :: "('c, 'd, 'g, 'b) host"
  assumes bm: "bufmgr_ok (lk_buf (h_link H))" and depth: "3 \<le> lk_fuel (h_link H)"
    and refuse: "\<And>bs. gl_uv_write (h_gateway H) i bs \<noteq> 0"
    and quiet: "quiet_obj H (obj i x)" and x: "map_of (actived_sessions x) k = Some i" "s_id (sess i x) = k"
      "i < length (gw_sessions x)" "s_owner (sess i x)" "\<not> s_check EN_FT_CLOSING (sess i x)" "\<not> has_flag EN_FT_HAS_FD i x"
    and t: "reconnect_timeout (gw_conf x) > 0" and reason: "reason \<le> cr EN_CRT_RECONNECT_BOUND"
    and x': "x' = snd (run_state (vt_close (gl_vt (host_glink H (Suc n))) i reason) x)"
  shows "map_of (actived_sessions x') k = None \<and>
    reconnect_timers x' = reconnect_timers x @ [(gw_now x + reconnect_timeout (gw_conf x), i)]"
proof -
  let ?L = "obj_link H n i" and ?G = "host_glink H n"
  define s where "s = (load_obj i x)\<lparr>close_reason := reason\<rparr>"
  have s: "resting ?L s" "g_world s = x" "in_step i s" "\<not> check_flag EN_PFT_CLOSED s"
    using quiet
    by (simp_all add: s_def load_obj_def quiet_obj_def resting_def write_blocks_def obj_link_def check_flag_def in_step_def
        proto.defs)
  have i: "i < length (gw_sessions (g_world s))" using x(3) s(2) by simp
  obtain r s1 where s1: "run_state (send_kickoff ?L reason) s = (r, s1)" "flags s1 = flags s" "close_reason s1 = reason"
    "same_books i x (g_world s1)"
    using kickoff_refused [OF bm depth refuse i s(3,1), of reason] unfolding s(2) by (auto simp: s_def)
  define s2 where "s2 = log_event (EvClose reason) (set_flag EN_PFT_CLOSED True (set_flag EN_PFT_CLOSING True s1))"
  have st: "\<not> check_flag EN_PFT_WRITING s1" "\<not> check_flag EN_PFT_CLOSED s1"
    using s(1,4) s1(2) by (simp_all add: resting_def check_flag_def)
  have cb: "Option.bind (lk_cb ?L) close_fn = Some (\<lambda>reason. call_gw i (cb_close ?G i reason))"
    by (simp add: obj_link_def host_callbacks_def)
  have cr: "close_reason (set_flag EN_PFT_CLOSING True s1) = reason" using s1(3) by (simp add: set_flag_def)
  have open_x: "\<not> check_flag EN_PFT_CLOSING (load_obj i x)"
    using s(1) by (simp add: resting_def s_def check_flag_def)
  have "run_state (close ?L reason) (load_obj i x) = run_state (call_gw i (cb_close ?G i reason)) s2"
    using st s1(1) cr cb open_x
    by (simp add: close_def close_with_def report_closed_def s_def [symmetric] s2_def)
  moreover define y where "y = store_obj i s2"
  have books: "same_books i x y"
    using same_books_trans [OF s1(4)] same_books_store [of i s2] by (simp add: y_def s2_def log_event_def set_flag_def)
  then have y: "map_of (actived_sessions y) k = Some i" "s_id (sess i y) = k" "i < length (gw_sessions y)"
    "\<not> has_flag EN_FT_HAS_FD i y" "reconnect_timeout (gw_conf y) > 0" "s_owner (sess i y)" "\<not> s_check EN_FT_CLOSING (sess i y)"
    "reconnect_timers y = reconnect_timers x" "gw_now y = gw_now x" "gw_conf y = gw_conf x"
    using x t by (simp_all add: same_books_def has_flag_def)
  have "run_state (cb_close ?G i reason) y = (0, (queue_wait k i y)\<lparr>actived_sessions := AList.delete k (actived_sessions y)\<rparr>)"
    using run_close_no_fd [OF y(1-5)] y(2,6,7) reason by (simp add: cb_close_def)
  ultimately have "snd (run_state (vt_close (gl_vt (host_glink H (Suc n))) i reason) x) =
      store_obj i (load_obj i ((queue_wait k i y)\<lparr>actived_sessions := AList.delete k (actived_sessions y)\<rparr>))"
    by (simp add: host_glink_vt inner_vt_def on_obj_def call_gw_def y_def)
  then show ?thesis unfolding x' using y(8-10) by (simp add: store_obj_def delete_conv)
qed

section \<open>The property\<close>

text \<open>C30: A close that is reported at once erases twice. An active session with a connection, whose
  protocol object is open and has nothing queued, is closed by the manager with a reason that allows a reconnect,
  and libuv refuses the write of the kickoff message. Then the object reports its close from within close_fd, and
  the callback of the module runs the manager's close for the same session again: it is queued with two timers,
  and the outer call erases through an iterator that the inner one has already erased.\<close>

theorem reported_close_erases_twice:
  fixes H :: "('c, 'd, 'g, 'b) host"
  assumes "bufmgr_ok (lk_buf (h_link H))" and "3 \<le> lk_fuel (h_link H)"
    and "map_of (actived_sessions s) k = Some i" and "s_id (sess i s) = k"
    and "reconnect_timeout (gw_conf s) > 0" and "reason \<le> cr EN_CRT_RECONNECT_BOUND"
    and "has_flag EN_FT_HAS_FD i s" and "session_ok (sess i s)" and "s_has_proto (sess i s)"
    and "quiet_obj H (obj i s)" and "\<And>bs. gl_uv_write (h_gateway H) i bs \<noteq> 0"
    and "s' = snd (run_state (manager_close (host_glink H (Suc n)) k reason True) s)"
  shows "AssertFailed ''valid iterator'' \<in> set (gw_faults s') \<and>
    reconnect_timers s' = reconnect_timers s @ replicate 2 (gw_now s + reconnect_timeout (gw_conf s), i)"
proof (rule reported_close_twice [OF assms(3-5,7-9) _ assms(12)])
  fix x
  assume x: "gw_protos x = gw_protos s" "\<not> has_flag EN_FT_HAS_FD i x" "map_of (actived_sessions x) k = Some i"
    "s_id (sess i x) = k" "i < length (gw_sessions x)" "s_owner (sess i x)" "\<not> s_check EN_FT_CLOSING (sess i x)"
    "gw_conf x = gw_conf s"
  have "quiet_obj H (obj i x)" "reconnect_timeout (gw_conf x) > 0" using assms(5,10) x(1,8) by (simp_all add: obj_def)
  from refused_close [OF assms(1,2,11) this(1) x(3-7,2) this(2) assms(6) refl]
  show "map_of (actived_sessions (snd (run_state (vt_close (gl_vt (host_glink H (Suc n))) i reason) x))) k = None \<and>
    reconnect_timers (snd (run_state (vt_close (gl_vt (host_glink H (Suc n))) i reason) x)) =
      reconnect_timers x @ [(gw_now x + reconnect_timeout (gw_conf x), i)]" .
qed

section \<open>An instance\<close>

definition ex_refusing :: "(byte list, byte list, unit, bblock list) host" where
  "ex_refusing = ex_host\<lparr>h_gateway := (h_gateway ex_host)\<lparr>gl_uv_write := \<lambda>i bs. -32\<rparr>\<rparr>"

definition ex_joined :: "ex_objects gateway" where
  "ex_joined = (ex_hosted [ex_sess] ex_object)\<lparr>actived_sessions := [(5, 0)]\<rparr>"

lemma reported_close_erases_twice_witness:
  "AssertFailed ''valid iterator'' \<in>
    set (gw_faults (snd (run_state (manager_close (host_glink ex_refusing 2) 5 (cr EN_CRT_RESET) True) ex_joined)))"
proof -
  let ?s = "snd (run_state (manager_close (host_glink ex_refusing (Suc 1)) 5 (cr EN_CRT_RESET) True) ex_joined)"
  have s: "sess 0 ex_joined = ex_sess" "gw_conf ex_joined = ex_gw_conf" "obj 0 ex_joined = ex_object"
    by (simp_all add: ex_joined_def ex_hosted_def sess_def obj_def)
  have H: "lk_buf (h_link ex_refusing) = ex_buf" "lk_fuel (h_link ex_refusing) = 4"
    "gl_uv_write (h_gateway ex_refusing) i bs = -32" for i bs
    by (simp_all add: ex_refusing_def ex_host_def)
  have "quiet_obj ex_refusing ex_object"
    by (simp add: quiet_obj_def H ex_object_def proto_init_def check_flag_def ex_buf_def)
  then have "AssertFailed ''valid iterator'' \<in> set (gw_faults ?s) \<and>
      reconnect_timers ?s = reconnect_timers ex_joined @ replicate 2 (gw_now ex_joined + reconnect_timeout (gw_conf ex_joined), 0)"
    by (intro reported_close_erases_twice [OF _ _ _ _ _ _ _ _ _ _ _ refl])
      (simp_all add: s H ex_buf_ok has_flag_def session_ok_def ex_gw_conf_def, simp_all add: ex_sess_def ex_joined_def)
  then show ?thesis by (simp add: numeral_2_eq_2)
qed

end
