(* ===== verification/EchoServer.thy ===== *)
theory EchoServer
  imports GwHostProps
begin

text \<open>
  A server behind the gateway: the echo server (src/src/echosvr/app/echosvr_main.cpp). It keeps which gateway
  every session is at, sends the posts of the clients back, and can kick a client off. The bus node and
  the protobuf serializer are libraries, as for the gateway.
\<close>

section \<open>State\<close>

record echo =
  es_gw :: "u64 \<Rightarrow> u64 option"
  es_sent :: "(u64 \<times> int \<times> byte list) list"

text \<open>The header of a message of the bus, and what the libraries answer.\<close>

record bus_msg =
  bm_is_request :: bool
  bm_source :: u64
  bm_type :: int
  bm_from :: u64

record echo_link =
  el_serialize :: "ss_msg \<Rightarrow> byte list option"
  el_parse :: "byte list \<Rightarrow> ss_msg option"
  el_send :: "nat \<Rightarrow> u64 \<Rightarrow> int \<Rightarrow> byte list \<Rightarrow> int"

definition echo_send :: "echo_link \<Rightarrow> u64 \<Rightarrow> int \<Rightarrow> byte list \<Rightarrow> (echo, int) state" where
  "echo_send L dst ty bytes = do {
     n \<leftarrow> gets (\<lambda>s. length (es_sent s));
     modify (\<lambda>s. s\<lparr>es_sent := es_sent s @ [(dst, ty, bytes)]\<rparr>);
     ret (el_send L n dst ty bytes)
   }"

section \<open>Operations\<close>

text \<open>The parameter is the decoded session id, None when it is missing.\<close>

definition app_command_handler_kickoff :: "echo_link \<Rightarrow> u64 option \<Rightarrow> (echo, int) state" where
  "app_command_handler_kickoff L param =
     (case param of
        None \<Rightarrow> ret 0
      | Some sess_id \<Rightarrow> do {
          iter \<leftarrow> gets (\<lambda>s. es_gw s sess_id);
          (case iter of
             None \<Rightarrow> ret 0
           | Some gw \<Rightarrow>
               (case el_serialize L \<lparr>ss_session_id = sess_id, ss_error_code = 0, ss_body = Cmd_kickoff_session\<rparr> of
                  None \<Rightarrow> ret 0
                | Some packed \<Rightarrow> echo_send L gw 0 packed))
        })"

definition app_handle_on_msg :: "echo_link \<Rightarrow> bus_msg \<Rightarrow> byte list \<Rightarrow> (echo, int) state" where
  "app_handle_on_msg L m bytes =
     (if \<not> bm_is_request m then ret 0
      else if bm_source m = 0 then echo_send L (bm_source m) (bm_type m) bytes
      else if bm_type m = atst EN_ATST_GATEWAY then
        (case el_parse L bytes of
           None \<Rightarrow> ret 0
         | Some req \<Rightarrow>
             (case ss_body req of
                Cmd_post ids content \<Rightarrow> do { _ \<leftarrow> echo_send L (bm_from m) 0 bytes; ret 0 }
              | Cmd_add_session ip port \<Rightarrow> do {
                  when_do (ss_session_id req \<noteq> 0)
                    (modify (\<lambda>s. s\<lparr>es_gw := (es_gw s)(ss_session_id req \<mapsto> bm_from m)\<rparr>));
                  ret 0
                }
              | Cmd_remove_session ip port \<Rightarrow> do {
                  modify (\<lambda>s. s\<lparr>es_gw := (es_gw s)(ss_session_id req := None)\<rparr>);
                  ret 0
                }
              | _ \<Rightarrow> ret 0))
      else ret 0)"

fun echo_run :: "echo_link \<Rightarrow> (bus_msg \<times> byte list) list \<Rightarrow> (echo, unit) state" where
  "echo_run L [] = ret ()"
| "echo_run L ((m, bytes) # ms) = do { _ \<leftarrow> app_handle_on_msg L m bytes; echo_run L ms }"

section \<open>What the map says\<close>

text \<open>The reference: the last notice about a session among the messages of gateways.\<close>

definition notice :: "echo_link \<Rightarrow> u64 \<Rightarrow> bus_msg \<times> byte list \<Rightarrow> u64 option option" where
  "notice L k x = (case x of (m, bytes) \<Rightarrow>
     if bm_is_request m \<and> bm_source m \<noteq> 0 \<and> bm_type m = atst EN_ATST_GATEWAY then
       (case el_parse L bytes of
          None \<Rightarrow> None
        | Some req \<Rightarrow>
            (case ss_body req of
               Cmd_add_session ip port \<Rightarrow> if ss_session_id req = k \<and> k \<noteq> 0 then Some (Some (bm_from m)) else None
             | Cmd_remove_session ip port \<Rightarrow> if ss_session_id req = k then Some None else None
             | _ \<Rightarrow> None))
     else None)"

definition last_notice :: "echo_link \<Rightarrow> u64 \<Rightarrow> (bus_msg \<times> byte list) list \<Rightarrow> u64 option option" where
  "last_notice L k ms = (case List.map_filter (notice L k) ms of [] \<Rightarrow> None | ns \<Rightarrow> Some (last ns))"

lemma handle_notice:
  "es_gw (snd (run_state (app_handle_on_msg L m bytes) s)) k =
     (case notice L k (m, bytes) of None \<Rightarrow> es_gw s k | Some g \<Rightarrow> g)"
  by (auto simp: app_handle_on_msg_def echo_send_def notice_def split: option.splits ss_msg_body.splits)

lemma last_notice_Cons:
  "last_notice L k (x # ms) =
     (case last_notice L k ms of None \<Rightarrow> notice L k x | Some g \<Rightarrow> Some g)"
  by (auto simp: last_notice_def map_filter_simps split: option.splits list.splits)

text \<open>C32: The echo server knows where every session is: after any messages, its map holds for a session the
  gateway that added it last, unless it was removed after that.\<close>

theorem session_map_follows_notices:
  "es_gw (snd (run_state (echo_run L ms) s)) k =
     (case last_notice L k ms of None \<Rightarrow> es_gw s k | Some g \<Rightarrow> g)"
proof (induction ms arbitrary: s)
  case Nil
  show ?case by (simp add: last_notice_def map_filter_simps)
next
  case (Cons x ms)
  obtain m bytes where x: "x = (m, bytes)" by fastforce
  obtain r s1 where run: "run_state (app_handle_on_msg L m bytes) s = (r, s1)" by fastforce
  have "es_gw s1 k = (case notice L k x of None \<Rightarrow> es_gw s k | Some g \<Rightarrow> g)"
    using handle_notice [of L m bytes s k] run by (simp add: x)
  then show ?case
    using Cons.IH [of s1] run by (simp add: x last_notice_Cons split: option.split)
qed

section \<open>Through the gateway and back\<close>

text \<open>
  The two processes and the bus between them. The bus gives the server at \<open>dst\<close> what the gateway posts to it, as
  messages from the gateway \<open>gid\<close>, in order; and it gives that gateway what the server sends to it.
\<close>

fun posts_to :: "u64 \<Rightarrow> gw_event list \<Rightarrow> (int \<times> byte list) list" where
  "posts_to dst [] = []"
| "posts_to dst (EvPost d ty bytes # es) = (if d = dst then (ty, bytes) # posts_to dst es else posts_to dst es)"
| "posts_to dst (e # es) = posts_to dst es"

definition as_request :: "u64 \<Rightarrow> int \<times> byte list \<Rightarrow> bus_msg \<times> byte list" where
  "as_request gid x = (\<lparr>bm_is_request = True, bm_source = gid, bm_type = fst x, bm_from = gid\<rparr>, snd x)"

definition answers_to :: "u64 \<Rightarrow> (u64 \<times> int \<times> byte list) list \<Rightarrow> byte list list" where
  "answers_to gid sends = map (\<lambda>(dst, ty, bytes). bytes) (filter (\<lambda>(dst, ty, bytes). dst = gid) sends)"

fun gateway_hears :: "'p glink \<Rightarrow> (byte list \<Rightarrow> ss_msg option) \<Rightarrow> u64 \<Rightarrow> byte list list \<Rightarrow> ('p, unit) gm" where
  "gateway_hears G parse src [] = ret ()"
| "gateway_hears G parse src (bytes # rest) = do {
     _ \<leftarrow> app_handle_on_recv G parse (Some src) bytes;
     gateway_hears G parse src rest
   }"

text \<open>A post of the client of session \<open>i\<close> reaches the gateway; what the gateway posts because of it reaches the
  server; what the server sends because of that reaches the gateway.\<close>

definition echo_trip ::
  "('c, 'd, 'g, 'b) host \<Rightarrow> nat \<Rightarrow> echo_link \<Rightarrow> u64 \<Rightarrow> u64 \<Rightarrow> nat \<Rightarrow> cs_body_post \<Rightarrow> ('c, 'd, 'g, 'b) host_env \<Rightarrow> echo \<Rightarrow>
   ('c, 'd, 'g, 'b) host_state \<times> echo" where
  "echo_trip H d L server gid i body s e =
     (let gw = store_obj i (snd (run_state (dispatch_post_body (obj_link H d i) body) s));
          posted = posts_to server (drop (length (gw_trace (g_world s))) (gw_trace gw));
          e' = snd (run_state (echo_run L (map (as_request gid) posted)) e);
          answers = answers_to gid (drop (length (es_sent e)) (es_sent e'))
      in (snd (run_state (gateway_hears (host_glink H d) (el_parse L) server answers) gw), e'))"

lemma echo_answers:
  assumes "el_parse L bytes = Some \<lparr>ss_session_id = k, ss_error_code = c, ss_body = Cmd_post ks data\<rparr>" and "gid \<noteq> 0"
  shows "snd (run_state (echo_run L [as_request gid (atst EN_ATST_GATEWAY, bytes)]) e) =
    e\<lparr>es_sent := es_sent e @ [(gid, 0, bytes)]\<rparr>"
  using assms by (simp add: as_request_def app_handle_on_msg_def echo_send_def)

lemma gateway_hears_post:
  assumes "bytes \<noteq> []" and "parse bytes = Some \<lparr>ss_session_id = k, ss_error_code = 0, ss_body = Cmd_post [k] data\<rparr>"
    and "map_of (actived_sessions gw) k = Some i"
  shows "snd (run_state (gateway_hears G parse src [bytes]) gw) = snd (run_state (send_to_client G i data) gw)"
  using assms
  by (simp add: app_handle_on_recv_def on_server_msg_def Let_def push_data_def split: prod.split)

text \<open>C31: Echo. The data of a client comes back to that client. A post that decodes is sent to the server that the
  session is routed to; given to the echo server as it is, it is sent back, once, to the gateway it is from; and
  that gateway, given the answer in the state the post left it in, hands the data to the session the post came
  from, and to no other, as long as the session is registered. Nothing else is sent to the gateway.\<close>

theorem echo_returns_to_client:
  fixes H :: "('c, 'd, 'g, 'b) host"
  assumes "run_state (decode_post (obj_link H d i) (Some data)) s = ((0, Some out), s1)"
    and "unat n \<le> length out" and "app_node (g_world s)" and "ss = sess i (g_world s)"
    and "msg = \<lparr>ss_session_id = s_id ss, ss_error_code = 0, ss_body = Cmd_post [s_id ss] (take (unat n) out)\<rparr>"
    and "gl_serialize (h_gateway H) msg = Some bytes" and "bytes \<noteq> []" and "el_parse L bytes = Some msg"
    and "gid \<noteq> 0" and "map_of (actived_sessions (g_world s)) (s_id ss) = Some i"
    and "gw = store_obj i (snd (run_state (dispatch_post_body (obj_link H d i) \<lparr>post_length = n, post_data = Some data\<rparr>) s))"
    and "echo_trip H d L (s_router ss) gid i \<lparr>post_length = n, post_data = Some data\<rparr> s e = (gw', e')"
  shows "es_sent e' = es_sent e @ [(gid, 0, bytes)] \<and>
    gw' = snd (run_state (send_to_client (host_glink H d) i (take (unat n) out)) gw)"
proof -
  have gw: "gw_trace gw = gw_trace (g_world s) @ [EvPost (s_router ss) (atst EN_ATST_GATEWAY) bytes]"
    "actived_sessions gw = actived_sessions (g_world s)"
    using host_post_within [OF assms(1) refl assms(2-4)] assms(5,6) by (auto simp: assms(11) store_obj_def)
  have parse: "el_parse L bytes = Some \<lparr>ss_session_id = s_id ss, ss_error_code = 0, ss_body = Cmd_post [s_id ss] (take (unat n) out)\<rparr>"
    using assms(5,8) by simp
  have "map_of (actived_sessions gw) (s_id ss) = Some i" using assms(10) gw(2) by simp
  note hears = gateway_hears_post [where parse = "el_parse L", OF assms(7) parse this]
  have "echo_trip H d L (s_router ss) gid i \<lparr>post_length = n, post_data = Some data\<rparr> s e =
      (snd (run_state (send_to_client (host_glink H d) i (take (unat n) out)) gw), e\<lparr>es_sent := es_sent e @ [(gid, 0, bytes)]\<rparr>)"
    using echo_answers [OF parse assms(9), of e] hears
    by (simp add: echo_trip_def Let_def assms(11) [symmetric] gw(1) answers_to_def del: echo_run.simps gateway_hears.simps)
  then show ?thesis using assms(12) by simp
qed

definition ex_echo :: echo_link where
  "ex_echo = \<lparr>el_serialize = (\<lambda>m. Some [1]),
     el_parse = (\<lambda>bs. Some \<lparr>ss_session_id = 5, ss_error_code = 0, ss_body = Cmd_post [5] bs\<rparr>),
     el_send = (\<lambda>n dst ty bs. 0)\<rparr>"

definition ex_echo_env :: "(byte list, byte list, unit, bblock list) host_env" where
  "ex_echo_env = load_obj 0 ((ex_hosted [ex_sess] ex_open_object)\<lparr>actived_sessions := [(5, 0)]\<rparr>)"

lemma ex_echo_decoded:
  "run_state (decode_post (obj_link ex_host d i) (Some [7])) ex_echo_env = ((0, Some [7]), ex_echo_env)"
  by (simp add: decode_post_def decrypt_data_def ex_echo_env_def load_obj_def obj_def ex_hosted_def ex_open_object_def
      ex_object_def proto_init_def check_flag_def crypt_at_def crypt_session_new_def proto.defs)

lemma echo_returns_to_client_witness:
  "es_sent (snd (echo_trip ex_host 0 ex_echo 77 3 0 \<lparr>post_length = 1, post_data = Some [7]\<rparr> ex_echo_env
     \<lparr>es_gw = (\<lambda>_. None), es_sent = []\<rparr>)) = [(3, 0, [7])]"
proof -
  let ?body = "\<lparr>post_length = 1 :: u64, post_data = Some [7 :: byte]\<rparr>"
  obtain gw' e' where trip: "echo_trip ex_host 0 ex_echo (s_router ex_sess) 3 0 ?body ex_echo_env
      \<lparr>es_gw = (\<lambda>_. None), es_sent = []\<rparr> = (gw', e')" by fastforce
  have w: "app_node (g_world ex_echo_env)" "sess 0 (g_world ex_echo_env) = ex_sess"
    "actived_sessions (g_world ex_echo_env) = [(5, 0)]" "s_id ex_sess = 5" "s_router ex_sess = 77"
    by (simp_all add: ex_echo_env_def ex_hosted_def sess_def ex_sess_def)
  have lib: "gl_serialize (h_gateway ex_host) \<lparr>ss_session_id = 5, ss_error_code = 0, ss_body = Cmd_post [5] [7]\<rparr> = Some [7]"
    "el_parse ex_echo [7] = Some \<lparr>ss_session_id = 5, ss_error_code = 0, ss_body = Cmd_post [5] [7]\<rparr>"
    by (simp_all add: ex_host_def ex_echo_def)
  have "es_sent e' = es_sent \<lparr>es_gw = (\<lambda>_. None), es_sent = []\<rparr> @ [(3, 0, [7])]"
    by (rule conjunct1, rule echo_returns_to_client [OF ex_echo_decoded _ w(1) _ refl _ _ _ _ _ refl trip])
      (use w lib in simp_all)
  then show ?thesis using trip w(5) by simp
qed

end
