(* ===== verification/ProtoAgree.thy ===== *)
theory ProtoAgree
  imports ProtoCalm
begin

text \<open>
  Two objects shake hands: a client that starts a session and a server that answers, with the secret sent
  directly. Each message is followed from the one side to the other; at the end both have the same keys.
\<close>

section \<open>The key both end with\<close>

definition fit_key :: "u32 \<Rightarrow> byte list \<Rightarrow> byte list" where
  "fit_key key x = (if length x < unat key then vec_resize (unat key) x else x)"

definition with_iv :: "u32 \<Rightarrow> u32 \<Rightarrow> byte list \<Rightarrow> bool" where
  "with_iv key iv x \<longleftrightarrow> iv > 0 \<and> unat (iv + key) \<le> length (fit_key key x)"

definition cut_secret :: "u32 \<Rightarrow> u32 \<Rightarrow> byte list \<Rightarrow> byte list" where
  "cut_secret key iv x =
     (if with_iv key iv x then vec_resize (unat (iv + key)) (fit_key key x) else vec_resize (unat key) (fit_key key x))"

lemma swap_secret_parts:
  "swap_secret_core L c x =
     (let key = cipher_key_bits L c div 8; iv = cipher_iv_size L c; w = cut_secret key iv x;
          (r1, c1) = (if with_iv key iv x then cipher_set_iv L c (take (unat iv) (drop (unat key) w)) else (0, c))
      in if r1 < 0 then (r1, w, cipher_errno L c1, c1)
         else case cipher_set_key L c1 (take (unat key) w) (key * 8) of (r2, c2) \<Rightarrow>
           if r2 < 0 then (r2, w, cipher_errno L c2, c2) else (0, w, 0, c2))"
  by (simp only: swap_secret_core_def cut_secret_def with_iv_def fit_key_def Let_def)

lemma cut_secret_again:
  "with_iv key iv (cut_secret key iv x) = with_iv key iv x" "cut_secret key iv (cut_secret key iv x) = cut_secret key iv x"
proof -
  show w: "with_iv key iv (cut_secret key iv x) = with_iv key iv x"
    by (auto simp: with_iv_def cut_secret_def fit_key_def)
  have cut: "vec_resize n (vec_resize m ys) = ys" if "length ys = n" "n < m" for n m and ys :: "byte list"
    using that by (simp add: vec_resize_def)
  have same: "vec_resize n ys = ys" if "length ys = n" for n and ys :: "byte list"
    using that by (simp add: vec_resize_def)
  have len: "length (cut_secret key iv x) = (if with_iv key iv x then unat (iv + key) else unat key)"
    by (simp add: cut_secret_def)
  show "cut_secret key iv (cut_secret key iv x) = cut_secret key iv x"
    unfolding cut_secret_def [of key iv "cut_secret key iv x"] w fit_key_def [of key "cut_secret key iv x"]
    using len by (simp add: cut same)
qed

text \<open>What swap_secret makes of a secret is a secret it leaves as it is.\<close>

lemma swap_secret_again:
  assumes "swap_secret_core L c x = (0, v, lr, c')"
  shows "swap_secret_core L c v = (0, v, 0, c')"
proof -
  have "v = cut_secret (cipher_key_bits L c div 8) (cipher_iv_size L c) x"
    using assms by (auto simp: swap_secret_parts Let_def split: if_splits prod.splits)
  then show ?thesis
    using assms by (auto simp: swap_secret_parts Let_def cut_secret_again split: if_splits prod.splits)
qed

text \<open>The outcome of choosing the cipher \<open>t\<close> with the \<open>d\<close>-th random draw: the secret, the keyed cipher.\<close>

definition direct_key :: "('c, 'd, 'g) crypto_lib \<Rightarrow> 'g global_conf \<Rightarrow> nat \<Rightarrow> string \<Rightarrow> byte list \<Rightarrow> 'c \<Rightarrow> bool" where
  "direct_key L g d t v c \<longleftrightarrow> t \<noteq> [] \<and> (\<exists>r c0 bytes lr n. cipher_init L (cipher_new L) t = (r, c0) \<and> 0 \<le> r \<and>
     n = unat (cipher_key_bits L c0 div 8 + cipher_iv_size L c0) \<and> n \<noteq> 0 \<and>
     dhs_random L (gc_dh g) d n = (0, bytes) \<and> swap_secret_core L c0 (vec_resize n bytes) = (0, v, lr, c))"

lemma direct_key_client:
  assumes "direct_key L g d t v c"
  shows "\<exists>r c0. cipher_init L (cipher_new L) t = (r, c0) \<and> 0 \<le> r \<and> swap_secret_core L c0 v = (0, v, 0, c)"
  using assms by (auto simp: direct_key_def intro: swap_secret_again)

definition keyed :: "'g global_conf option \<Rightarrow> string \<Rightarrow> byte list \<Rightarrow> 'c \<Rightarrow> ('c, 'g) crypt_session" where
  "keyed conf t v c = \<lparr>cs_shared_conf = conf, cs_type = t, cs_secret = v, cs_param = [], cs_cipher = c, cs_inited = True\<rparr>"

section \<open>The server answers\<close>

definition hs_msg :: "u64 \<Rightarrow> cs_body_handshake \<Rightarrow> cs_msg" where
  "hs_msg sq body = Createcs_msg (Createcs_msg_head EN_MTT_HANDSHAKE sq) (Body_handshake (Some body))"

definition direct_conf :: "'g global_conf \<Rightarrow> bool" where
  "direct_conf g \<longleftrightarrow> conf_type (gc_conf g) \<noteq> [] \<and> conf_switch_secret_type (gc_conf g) = sst EN_SST_DIRECT"

lemma setup_direct:
  assumes "\<not> shake_has_data s" and "direct_conf g"
  shows "run_state (setup_handshake K (Some g)) s = (0,
    s\<lparr>crypt_heap := (crypt_heap s)[crypt_handshake s := (hs_crypt s)\<lparr>cs_shared_conf := Some g\<rparr>],
      shake_switch_secret_type := 0, shake_has_data := True,
      flags := word_set (flags s) (pft_mask EN_PFT_HANDSHAKE_UPDATE) True\<rparr>)"
  using assms
  by (simp add: setup_handshake_def upd_hs_crypt_def put_crypt_def set_flag_def direct_conf_def Let_def)

lemma pack_direct:
  assumes "direct_key (lk_crypto K) g (g_draws s) t v c" and "crypt_ok s"
    and "hs_crypt s = (crypt_session_new (lk_crypto K))\<lparr>cs_shared_conf := Some g\<rparr>"
    and "shake_switch_secret_type s = 0" and "sid \<noteq> 0"
  shows "run_state (pack_handshake_start_rsp K sid t) s =
    ((0, Some (Createcs_body_handshake sid EN_HST_START_RSP (sst EN_SST_DIRECT) t v)),
     s\<lparr>crypt_heap := (crypt_heap s)[crypt_handshake s := keyed (Some g) t v c],
       crypt_write := Some (crypt_handshake s), g_draws := Suc (g_draws s)\<rparr>)"
proof -
  let ?L = "lk_crypto K"
  obtain r c0 bytes lr n where k: "cipher_init ?L (cipher_new ?L) t = (r, c0)" "0 \<le> r" "t \<noteq> []"
    "n = unat (cipher_key_bits ?L c0 div 8 + cipher_iv_size ?L c0)" "n \<noteq> 0"
    "dhs_random ?L (gc_dh g) (g_draws s) n = (0, bytes)" "swap_secret_core ?L c0 (vec_resize n bytes) = (0, v, lr, c)"
    using assms(1) unfolding direct_key_def by blast
  have h: "crypt_handshake s < length (crypt_heap s)" using assms(2) by (simp add: crypt_ok_def)
  have ne: "vec_resize n bytes \<noteq> []" using k(5) length_vec_resize [of n bytes] by fastforce
  show ?thesis
    using assms(3-5) k h ne
    by (simp add: pack_handshake_start_rsp_def run_hs_crypt_def generate_hs_secret_def cs_setup_def
        crypt_session_new_def upd_hs_crypt_def put_crypt_def hs_crypt_def crypt_at_def generate_secret_def
        swap_secret_self_def use_hs_write_def Let_def keyed_def)
qed

text \<open>What a side says: one frame that carries a handshake message with this body.\<close>

definition says ::
  "('c, 'd, 'g, 'b, 'w) link \<Rightarrow> cs_body_handshake \<Rightarrow> ('c, 'd, 'g, 'b, 'w) proto_env \<Rightarrow> ('c, 'd, 'g, 'b, 'w) proto_env \<Rightarrow> bool" where
  "says K body s s' \<longleftrightarrow> (\<exists>sq mem. writes (trace s') = writes (trace s) @ [mem] \<and>
     drop (hdr_off s) mem = frame (lk_hash K) (fb_pack (lk_fb K) (hs_msg sq body)))"

definition sendable :: "('c, 'd, 'g, 'b, 'w) link \<Rightarrow> cs_body_handshake \<Rightarrow> bool" where
  "sendable K body \<longleftrightarrow> (\<forall>sq. fb_pack (lk_fb K) (hs_msg sq body) \<noteq> [] \<and>
     length (fb_pack (lk_fb K) (hs_msg sq body)) < 2 ^ 32 - 1 \<and>
     fb_parse (lk_fb K) (fb_pack (lk_fb K) (hs_msg sq body)) = Some (hs_msg sq body))"

text \<open>What sending leaves alone.\<close>

definition same_shake :: "('c, 'd, 'g, 'b, 'w) proto_env \<Rightarrow> ('c, 'd, 'g, 'b, 'w) proto_env \<Rightarrow> bool" where
  "same_shake s s' \<longleftrightarrow> crypt_heap s' = crypt_heap s \<and> crypt_handshake s' = crypt_handshake s \<and>
     crypt_read s' = crypt_read s \<and> crypt_write s' = crypt_write s \<and> session_id s' = session_id s \<and>
     shake_switch_secret_type s' = shake_switch_secret_type s \<and> shake_has_data s' = shake_has_data s \<and>
     shake_dh_ctx s' = shake_dh_ctx s \<and> g_current s' = g_current s \<and> flags s' = flags s \<and>
     write_header_offset s' = write_header_offset s"

lemma write_hs_msg:
  assumes K: "calm K" "resting K s" "sendable K body"
  shows "\<exists>s'. run_state (write_msg K (hs_msg sq body)) s = (0, s') \<and> says K body s s' \<and> same_shake s s' \<and> resting K s'"
proof -
  obtain s' where s': "run_state (write_msg K (hs_msg sq body)) s = (0, s')" "sent_msg K (hs_msg sq body) s s'"
    using write_msg_sends [OF K(1,2)] K(3) unfolding sendable_def by blast
  then obtain b w mem r where f: "s' = s\<lparr>write_buffers := b, last_write_ptr := None,
      trace := trace s @ [EvWrite mem, EvWritten r], g_world := w\<rparr>" "bm_blocks (lk_buf K) b = []"
    "drop (hdr_off s) mem = frame (lk_hash K) (fb_pack (lk_fb K) (hs_msg sq body))"
    unfolding sent_msg_def by blast
  have "writes (trace s') = writes (trace s) @ [mem]"
    using writes_simps(2) [of "[EvWrite mem]" "[EvWritten r]"] by (simp add: f(1))
  then have "says K body s s'" using f(3) unfolding says_def by blast
  moreover have "same_shake s s'" by (simp add: same_shake_def f(1))
  moreover have "resting K s'" using K(2) f(1,2) by (simp add: resting_def write_blocks_def check_flag_def)
  ultimately show ?thesis using s'(1) by blast
qed

definition grants :: "('c, 'd, 'g, 'b, 'w) link \<Rightarrow> u64 \<Rightarrow> bool" where
  "grants K sid \<longleftrightarrow> sid \<noteq> 0 \<and> (\<exists>t nf. lk_cb K = Some t \<and> new_session_fn t = Some nf \<and>
     (\<forall>x s. \<exists>r w. run_state (nf x) s = ((r, sid), s\<lparr>g_world := w\<rparr>)))"

lemma calm_write_fn: "calm K \<Longrightarrow> has_write_fn K"
  by (auto simp: calm_def has_write_fn_def)

lemma server_answers:
  fixes K :: "('c, 'd, 'g, 'b, 'w) link"
  assumes K: "calm K" "grants K sid" and rest: "resting K s"
    and fresh: "crypt_ok s" "hs_crypt s = crypt_session_new (lk_crypto K)" "\<not> shake_has_data s"
    and conf: "g_current s = Some g" "direct_conf g"
    and body: "hs_crypt_type body = Some ty" "ty \<noteq> []" "peer_tokens K ty \<noteq> []" "select_crypt_type g (peer_tokens K ty) = t"
    and key: "direct_key (lk_crypto K) g (g_draws s) t v c"
    and size: "sendable K (Createcs_body_handshake sid EN_HST_START_RSP (sst EN_SST_DIRECT) t v)"
  shows "\<exists>s'. run_state (dispatch_handshake_start_req K body) s = (0, s') \<and>
    says K (Createcs_body_handshake sid EN_HST_START_RSP (sst EN_SST_DIRECT) t v) s s' \<and> resting K s' \<and> crypt_ok s' \<and>
    hs_crypt s' = keyed (Some g) t v c \<and> crypt_write s' = Some (crypt_handshake s') \<and>
    session_id s' = sid \<and> shake_switch_secret_type s' = 0 \<and> hdr_off s' = hdr_off s \<and>
    check_flag EN_PFT_HANDSHAKE_UPDATE s' \<and>
    check_flag EN_PFT_HANDSHAKE_DONE s' = check_flag EN_PFT_HANDSHAKE_DONE s"
proof -
  let ?L = "lk_crypto K" and ?h = "crypt_handshake s"
  obtain cb nf where cb: "lk_cb K = Some cb" "new_session_fn cb = Some nf"
    and nf: "\<And>x s. \<exists>r w. run_state (nf x) s = ((r, sid), s\<lparr>g_world := w\<rparr>)" and sid: "sid \<noteq> 0"
    using K(2) unfolding grants_def by blast
  define s1 where "s1 = s\<lparr>crypt_heap := (crypt_heap s)[?h := (hs_crypt s)\<lparr>cs_shared_conf := Some g\<rparr>],
      shake_switch_secret_type := 0, shake_has_data := True,
      flags := word_set (flags s) (pft_mask EN_PFT_HANDSHAKE_UPDATE) True\<rparr>"
  have begun: "run_state (setup_handshake K (Some g)) s = (0, s1)"
    unfolding s1_def by (rule setup_direct [OF fresh(3) conf(2)])
  obtain r w where nf1: "run_state (nf (session_id s)) (log_event EvNewSession s1) =
      ((r, sid), (log_event EvNewSession s1)\<lparr>g_world := w\<rparr>)" using nf by blast
  define s2 where "s2 = (log_event EvNewSession s1)\<lparr>g_world := w, session_id := sid, g_seq := alloc_seq (g_seq s)\<rparr>"
  have fields: "crypt_heap s2 = (crypt_heap s)[?h := (hs_crypt s)\<lparr>cs_shared_conf := Some g\<rparr>]"
    "crypt_handshake s2 = ?h" "shake_switch_secret_type s2 = 0" "g_draws s2 = g_draws s" "g_seq s1 = g_seq s"
    "trace s2 = trace s @ [EvNewSession]" "write_buffers s2 = write_buffers s" "session_id s1 = session_id s"
    "flags s2 = word_set (flags s) (pft_mask EN_PFT_HANDSHAKE_UPDATE) True" "write_header_offset s2 = write_header_offset s"
    "session_id s2 = sid" "g_seq s2 = alloc_seq (g_seq s)"
    by (simp_all add: s2_def s1_def log_event_def)
  have h: "?h < length (crypt_heap s)" using fresh(1) by (simp add: crypt_ok_def)
  have ok2: "crypt_ok s2" using fresh(1) by (simp add: crypt_ok_def s2_def s1_def log_event_def)
  have hs2: "hs_crypt s2 = (crypt_session_new ?L)\<lparr>cs_shared_conf := Some g\<rparr>"
    using h fresh(2) fields(1,2) by (simp add: hs_crypt_def crypt_at_def)
  have pack: "run_state (pack_handshake_start_rsp K sid t) s2 =
    ((0, Some (Createcs_body_handshake sid EN_HST_START_RSP (sst EN_SST_DIRECT) t v)),
     s2\<lparr>crypt_heap := (crypt_heap s2)[?h := keyed (Some g) t v c], crypt_write := Some ?h, g_draws := Suc (g_draws s)\<rparr>)"
    using pack_direct [of K g s2 t v c sid] key ok2 hs2 sid fields by simp
  define s3 where "s3 = s2\<lparr>crypt_heap := (crypt_heap s2)[?h := keyed (Some g) t v c], crypt_write := Some ?h,
    g_draws := Suc (g_draws s)\<rparr>"
  have flag: "check_flag f s3 = (if f = EN_PFT_HANDSHAKE_UPDATE then True else check_flag f s)" for f
    using fields(9) pft.check_set [of "flags s" EN_PFT_HANDSHAKE_UPDATE True f] by (auto simp: s3_def check_flag_def)
  have rest3: "resting K s3" using rest fields(7) by (simp add: resting_def flag) (simp add: s3_def write_blocks_def)
  obtain s' where out: "run_state (write_msg K (hs_msg (alloc_seq (g_seq s))
        (Createcs_body_handshake sid EN_HST_START_RSP (sst EN_SST_DIRECT) t v))) s3 = (0, s')"
      "says K (Createcs_body_handshake sid EN_HST_START_RSP (sst EN_SST_DIRECT) t v) s3 s'" "same_shake s3 s'" "resting K s'"
    using write_hs_msg [OF K(1) rest3 size] by blast
  have open_s: "\<not> check_flag EN_PFT_CLOSING s" using rest by (simp add: resting_def)
  have s2_eq: "(log_event EvNewSession s1)\<lparr>g_world := w, session_id := sid, g_seq := alloc_seq (g_seq (log_event EvNewSession s1))\<rparr> = s2"
    using fields(5) by (simp add: s2_def log_event_def)
  have "run_state (dispatch_handshake_start_req K body) s = (0, s')"
    using cb open_s conf body begun nf1 pack out(1) calm_write_fn [OF K(1)] fields
    by (simp add: dispatch_handshake_start_req_def next_seq_def s3_def hs_msg_def s2_eq)
  moreover have "says K (Createcs_body_handshake sid EN_HST_START_RSP (sst EN_SST_DIRECT) t v) s s'"
    using out(2) fields(6,10) by (simp add: says_def s3_def hdr_off_def)
  moreover have "crypt_ok s' \<and> hs_crypt s' = keyed (Some g) t v c \<and> crypt_write s' = Some (crypt_handshake s') \<and>
      session_id s' = sid \<and> shake_switch_secret_type s' = 0 \<and> hdr_off s' = hdr_off s"
    using out(3) ok2 h fields by (auto simp: same_shake_def s3_def crypt_ok_def hs_crypt_def crypt_at_def hdr_off_def)
  moreover have "check_flag f s' = check_flag f s3" for f using out(3) by (simp add: same_shake_def check_flag_def)
  ultimately show ?thesis using out(4) flag by auto
qed

end
