(* ===== verification/ProtoMeet.thy ===== *)
theory ProtoMeet
  imports ProtoAgree
begin

text \<open>
  The client's side of the handshake with a direct secret, the end of it at the server, and what both hold then.
\<close>

section \<open>The client follows the server's choice\<close>

lemma tolower_again [simp]: "tolower_ch (tolower_ch c) = tolower_ch c"
  by (auto simp: tolower_ch_def)

lemma select_lower:
  assumes "select_crypt_type g ts = t" shows "map tolower_ch t = t"
  using assms by (auto simp: select_crypt_type_def check_type_def Let_def split: option.splits if_splits)

lemma follow_direct:
  assumes "t \<noteq> []" and "map tolower_ch t = t" and "\<And>g. g_current s = Some g \<Longrightarrow> conf_type (gc_conf g) \<noteq> []"
  shows "\<exists>g. run_state (follow_global_conf K t 0) s = ((Some g, t), s\<lparr>g_current := Some g\<rparr>) \<and> direct_conf g"
proof -
  let ?L = "lk_crypto K"
  let ?c = "default_crypt_configure\<lparr>conf_type := t, conf_switch_secret_type := 0, conf_client_mode := True\<rparr>"
  obtain g where g: "global_conf_init ?L (global_conf_new ?L ?c) = (0, g)" "gc_conf g = ?c"
    using assms(1) by (simp add: global_conf_init_def global_conf_new_def global_conf_close_def Let_def)
  have dg: "direct_conf g" using g(2) assms(1) by (simp add: direct_conf_def)
  have re: "snd (global_reload ?L ?c cur) = Some g" for cur using g(1) by (simp add: global_reload_def)
  show ?thesis
  proof (cases "g_current s")
    case None
    then have "run_state (follow_global_conf K t 0) s = ((Some g, t), s\<lparr>g_current := Some g\<rparr>)"
      using re by (simp add: follow_global_conf_def)
    then show ?thesis using dg by blast
  next
    case (Some g0)
    have ty: "snd (check_type g0 t) = t" using assms(1,2) by (simp add: check_type_def Let_def)
    show ?thesis
    proof (cases "fst (check_type g0 t) \<and> conf_switch_secret_type (gc_conf g0) = 0")
      case True
      then have "run_state (follow_global_conf K t 0) s = ((Some g0, t), s\<lparr>g_current := Some g0\<rparr>)"
        using Some ty by (cases s) (auto simp: follow_global_conf_def Let_def)
      moreover have "direct_conf g0" using True assms(3) [OF Some] by (simp add: direct_conf_def)
      ultimately show ?thesis by blast
    next
      case False
      then have "run_state (follow_global_conf K t 0) s = ((Some g, t), s\<lparr>g_current := Some g\<rparr>)"
        using Some ty re by (auto simp: follow_global_conf_def Let_def)
      then show ?thesis using dg by blast
    qed
  qed
qed

text \<open>The cipher set up with the name and given the secret: what the client has of the server's message.\<close>

lemma client_key:
  assumes "direct_key L g d t v c" and "conf = Some (g' :: 'g global_conf)"
  shows "\<exists>cs. cs_setup L t ((crypt_session_new L)\<lparr>cs_shared_conf := conf\<rparr>) = (0, cs) \<and>
    swap_secret_self L (cs\<lparr>cs_secret := v\<rparr>) = (0, 0, keyed conf t v c)"
proof -
  obtain r c0 where k: "cipher_init L (cipher_new L) t = (r, c0)" "0 \<le> r" "swap_secret_core L c0 v = (0, v, 0, c)"
    using direct_key_client [OF assms(1)] by blast
  moreover have "t \<noteq> []" using assms(1) by (simp add: direct_key_def)
  ultimately show ?thesis
    by (simp add: cs_setup_def crypt_session_new_def swap_secret_self_def keyed_def Let_def)
qed

text \<open>A side that has the key \<open>t, v, c\<close> for both directions, as the session \<open>sid\<close>.\<close>

definition keyed_side :: "('c, 'd, 'g, 'b, 'w) proto_env \<Rightarrow> u64 \<Rightarrow> string \<Rightarrow> byte list \<Rightarrow> 'c \<Rightarrow> bool" where
  "keyed_side s sid t v c \<longleftrightarrow> session_id s = sid \<and> crypt_ok s \<and> check_flag EN_PFT_HANDSHAKE_DONE s \<and>
     \<not> check_flag EN_PFT_HANDSHAKE_UPDATE s \<and> crypt_read s = Some (crypt_handshake s) \<and>
     crypt_write s = Some (crypt_handshake s) \<and> (\<exists>conf. hs_crypt s = keyed conf t v c)"

lemma client_takes:
  fixes K :: "('c, 'd, 'g, 'b, 'w) link"
  assumes K: "calm K" "resting K s"
    and fresh: "crypt_ok s" "hs_crypt s = crypt_session_new (lk_crypto K)" "\<not> shake_has_data s"
      "\<not> check_flag EN_PFT_HANDSHAKE_DONE s"
    and conf: "\<And>g. g_current s = Some g \<Longrightarrow> conf_type (gc_conf g) \<noteq> []"
    and key: "direct_key (lk_crypto K) g d t v c" "map tolower_ch t = t" "sid \<noteq> 0"
    and size: "sendable K (Createcs_body_handshake sid EN_HST_VERIFY (sst EN_SST_DIRECT) '''' [])"
  shows "\<exists>s'. run_state (dispatch_handshake_start_rsp K (Createcs_body_handshake sid EN_HST_START_RSP (sst EN_SST_DIRECT) t v)) s =
      (0, s') \<and>
    says K (Createcs_body_handshake sid EN_HST_VERIFY (sst EN_SST_DIRECT) '''' []) s s' \<and> resting K s' \<and>
    keyed_side s' sid t v c \<and> hdr_off s' = hdr_off s"
proof -
  let ?L = "lk_crypto K" and ?h = "crypt_handshake s"
  have t: "t \<noteq> []" using key(1) by (simp add: direct_key_def)
  obtain g' where g': "run_state (follow_global_conf K t 0) (s\<lparr>session_id := sid\<rparr>) =
      ((Some g', t), s\<lparr>session_id := sid, g_current := Some g'\<rparr>)" "direct_conf g'"
    using follow_direct [where s = "s\<lparr>session_id := sid\<rparr>" and K = K, OF t key(2)] conf by auto
  define s1 where "s1 = s\<lparr>session_id := sid, g_current := Some g'\<rparr>"
  have h: "?h < length (crypt_heap s)" using fresh(1) by (simp add: crypt_ok_def)
  have s1: "\<not> shake_has_data s1" "crypt_handshake s1 = ?h" "crypt_heap s1 = crypt_heap s" "flags s1 = flags s"
    "hs_crypt s1 = crypt_session_new ?L" "trace s1 = trace s" "write_buffers s1 = write_buffers s"
    using fresh by (simp_all add: s1_def hs_crypt_def crypt_at_def)
  define s2 where "s2 = s1\<lparr>crypt_heap := (crypt_heap s)[?h := (crypt_session_new ?L)\<lparr>cs_shared_conf := Some g'\<rparr>],
      shake_switch_secret_type := 0, shake_has_data := True,
      flags := word_set (flags s) (pft_mask EN_PFT_HANDSHAKE_UPDATE) True\<rparr>"
  have begun: "run_state (setup_handshake K (Some g')) s1 = (0, s2)"
    using setup_direct [OF s1(1) g'(2), of K] s1 by (simp add: s2_def)
  obtain cs where cs: "cs_setup ?L t ((crypt_session_new ?L)\<lparr>cs_shared_conf := Some g'\<rparr>) = (0, cs)"
    "swap_secret_self ?L (cs\<lparr>cs_secret := v\<rparr>) = (0, 0, keyed (Some g') t v c)"
    using client_key [OF key(1) refl, of g'] by blast
  define s3 where "s3 = s2\<lparr>crypt_heap := (crypt_heap s)[?h := keyed (Some g') t v c], crypt_read := Some ?h,
    crypt_write := Some ?h\<rparr>"
  have flag: "check_flag f s3 = (if f = EN_PFT_HANDSHAKE_UPDATE then True else check_flag f s)" for f
    using pft.check_set [of "flags s" EN_PFT_HANDSHAKE_UPDATE True f] by (auto simp: s3_def s2_def check_flag_def)
  obtain s4 where s4: "run_state (close_handshake K 0) s3 = ((), s4)" "ended_shake s3 s4"
    using close_handshake_calm [OF K(1), of s3 0] flag fresh(4) by auto
  then obtain f tr w d where e: "s4 = (upd_hs_crypt (\<lambda>cs. cs\<lparr>cs_param := []\<rparr>) s3)\<lparr>shake_has_data := False, shake_dh_ctx := d,
       flags := f, trace := tr, g_world := w\<rparr>" "writes tr = writes (trace s3)"
     "\<And>t. word_check f (pft_mask t) =
       (if t = EN_PFT_HANDSHAKE_DONE then True else if t = EN_PFT_HANDSHAKE_UPDATE then False else check_flag t s3)"
    unfolding ended_shake_def by blast
  have flag4: "check_flag t s4 =
      (if t = EN_PFT_HANDSHAKE_DONE then True else if t = EN_PFT_HANDSHAKE_UPDATE then False else check_flag t s)" for t
    using e(3) flag by (simp add: e(1) check_flag_def)
  have f4: "crypt_write s4 = Some ?h" "crypt_read s4 = Some ?h" "crypt_handshake s4 = ?h" "session_id s4 = sid"
    "shake_switch_secret_type s4 = 0" "hs_crypt s4 = keyed (Some g') t v c" "crypt_ok s4" "writes (trace s4) = writes (trace s)"
    "write_buffers s4 = write_buffers s" "hdr_off s4 = hdr_off s"
    using h s1 e(2) fresh(1)
    by (simp_all add: e(1) upd_hs_crypt_def put_crypt_def s3_def s2_def hs_crypt_def crypt_at_def keyed_def crypt_ok_def
        hdr_off_def s1_def)
  have rest4: "resting K s4" using K(2) f4(9) by (simp add: resting_def flag4 write_blocks_def)
  let ?s4 = "s4\<lparr>g_seq := alloc_seq (g_seq s4)\<rparr>"
  have "resting K ?s4" using rest4 by (simp add: resting_def write_blocks_def check_flag_def)
  then obtain s5 where out: "run_state (write_msg K (hs_msg (alloc_seq (g_seq s4))
        (Createcs_body_handshake sid EN_HST_VERIFY (sst EN_SST_DIRECT) '''' []))) ?s4 = (0, s5)"
      "says K (Createcs_body_handshake sid EN_HST_VERIFY (sst EN_SST_DIRECT) '''' []) ?s4 s5" "same_shake ?s4 s5" "resting K s5"
    using write_hs_msg [OF K(1) _ size] by blast
  have ver: "run_state (send_verify K None) s4 = (0, s5)"
    using rest4 out(1) f4 calm_write_fn [OF K(1)]
    by (simp add: send_verify_def send_msg_def next_seq_def resting_def hs_msg_def)
  have swap: "run_state (swap_hs_secret_self K) (upd_hs_crypt (\<lambda>cs. cs\<lparr>cs_secret := v\<rparr>)
      (s2\<lparr>crypt_heap := (crypt_heap s)[?h := cs]\<rparr>)) = ((0, 0), s2\<lparr>crypt_heap := (crypt_heap s)[?h := keyed (Some g') t v c]\<rparr>)"
    using cs(2) h s1(2)
    by (simp add: swap_hs_secret_self_def run_hs_crypt_def upd_hs_crypt_def put_crypt_def hs_crypt_def crypt_at_def s2_def)
  have set: "run_state (run_hs_crypt (cs_setup ?L t)) s2 = (0, s2\<lparr>crypt_heap := (crypt_heap s)[?h := cs]\<rparr>)"
    using cs(1) h s1(2) by (simp add: run_hs_crypt_def upd_hs_crypt_def put_crypt_def hs_crypt_def crypt_at_def s2_def)
  have hs: "cs_shared_conf (hs_crypt (s\<lparr>session_id := sid\<rparr>)) = None"
    using fresh(2) by (simp add: hs_crypt_def crypt_at_def crypt_session_new_def)
  have sw: "s2\<lparr>crypt_heap := x, shake_switch_secret_type := 0\<rparr> = s2\<lparr>crypt_heap := x\<rparr>" for x by (simp add: s2_def)
  have use: "use_hs_write (use_hs_read (s2\<lparr>crypt_heap := (crypt_heap s)[?h := keyed (Some g') t v c]\<rparr>)) = s3"
    using s1(2) by (simp add: use_hs_write_def use_hs_read_def s3_def s2_def)
  have "run_state (dispatch_handshake_start_rsp K (Createcs_body_handshake sid EN_HST_START_RSP (sst EN_SST_DIRECT) t v)) s =
      (0, s5)"
    using key(3) fresh(3) t g'(1) begun set swap s4(1) ver hs sw use
    by (simp add: dispatch_handshake_start_rsp_def Createcs_body_handshake_def s1_def [symmetric])
  moreover have "says K (Createcs_body_handshake sid EN_HST_VERIFY (sst EN_SST_DIRECT) '''' []) s s5"
    using out(2) f4 by (simp add: says_def hdr_off_def)
  moreover have "check_flag f s5 = check_flag f s4" for f using out(3) by (simp add: same_shake_def check_flag_def)
  then have "keyed_side s5 sid t v c"
    using out(3) f4 flag4 by (auto simp: same_shake_def keyed_side_def crypt_ok_def hs_crypt_def crypt_at_def)
  moreover have "hdr_off s5 = hdr_off s" using out(3) f4(10) by (simp add: same_shake_def hdr_off_def)
  ultimately show ?thesis using out(4) by blast
qed

section \<open>The server is told\<close>

lemma server_told:
  fixes K :: "('c, 'd, 'g, 'b, 'w) link"
  assumes K: "calm K" and open_s: "\<not> check_flag EN_PFT_CLOSING s"
    and hs: "crypt_ok s" "hs_crypt s = keyed conf t v c" "crypt_write s = Some (crypt_handshake s)" "session_id s = sid"
    and st: "shake_switch_secret_type s = 0" "\<not> check_flag EN_PFT_HANDSHAKE_DONE s"
  shows "\<exists>s'. run_state (dispatch_handshake_verify_ntf K
      (Createcs_body_handshake sid EN_HST_VERIFY (sst EN_SST_DIRECT) [] [])) s = (0, s') \<and>
    keyed_side s' sid t v c \<and> \<not> check_flag EN_PFT_CLOSING s'"
proof -
  let ?s1 = "use_hs_read s"
  have param: "cs_param (crypt_at (crypt_handshake s) ?s1) = []"
    using hs(2) by (simp add: use_hs_read_def crypt_at_def hs_crypt_def keyed_def)
  obtain s2 where s2: "run_state (close_handshake K 0) ?s1 = ((), s2)" "ended_shake ?s1 s2"
    using close_handshake_calm [OF K, of ?s1 0] st(2) by (auto simp: use_hs_read_def check_flag_def)
  have "run_state (dispatch_handshake_verify_ntf K
      (Createcs_body_handshake sid EN_HST_VERIFY (sst EN_SST_DIRECT) [] [])) s = (0, s2)"
    using st(1) s2(1) param
    by (simp add: dispatch_handshake_verify_ntf_def Createcs_body_handshake_def use_hs_read_def)
  moreover obtain f tr w d where e: "s2 = (upd_hs_crypt (\<lambda>cs. cs\<lparr>cs_param := []\<rparr>) ?s1)\<lparr>shake_has_data := False,
       shake_dh_ctx := d, flags := f, trace := tr, g_world := w\<rparr>"
     "\<And>t. word_check f (pft_mask t) =
       (if t = EN_PFT_HANDSHAKE_DONE then True else if t = EN_PFT_HANDSHAKE_UPDATE then False else check_flag t ?s1)"
    using s2(2) unfolding ended_shake_def by blast
  moreover have flag: "check_flag t s2 =
      (if t = EN_PFT_HANDSHAKE_DONE then True else if t = EN_PFT_HANDSHAKE_UPDATE then False else check_flag t s)" for t
    using e(2) by (simp add: e(1) check_flag_def use_hs_read_def)
  moreover have "keyed_side s2 sid t v c"
    using hs flag unfolding keyed_side_def
    by (simp add: e(1) upd_hs_crypt_def put_crypt_def use_hs_read_def crypt_ok_def hs_crypt_def crypt_at_def keyed_def)
  ultimately show ?thesis using open_s by auto
qed

section \<open>The client asks\<close>

lemma client_asks:
  fixes K :: "('c, 'd, 'g, 'b, 'w) link"
  assumes K: "calm K" "resting K s" and sid: "session_id s = 0"
    and size: "sendable K (Createcs_body_handshake 0 EN_HST_START_REQ (sst EN_SST_DIRECT) ty [])"
  shows "\<exists>s'. run_state (start_session K ty) s = (0, s') \<and>
    says K (Createcs_body_handshake 0 EN_HST_START_REQ (sst EN_SST_DIRECT) ty []) s s' \<and>
    same_shake s s' \<and> resting K s'"
proof -
  let ?s1 = "s\<lparr>g_seq := alloc_seq (g_seq s)\<rparr>"
  have "resting K ?s1" using K(2) by (simp add: resting_def write_blocks_def check_flag_def)
  then obtain s' where out: "run_state (write_msg K (hs_msg (alloc_seq (g_seq s))
      (Createcs_body_handshake 0 EN_HST_START_REQ (sst EN_SST_DIRECT) ty []))) ?s1 = (0, s')"
    "says K (Createcs_body_handshake 0 EN_HST_START_REQ (sst EN_SST_DIRECT) ty []) ?s1 s'" "same_shake ?s1 s'" "resting K s'"
    using write_hs_msg [OF K(1) _ size] by blast
  have "run_state (start_session K ty) s = (0, s')"
    using K sid out(1) calm_write_fn [OF K(1)]
    by (simp add: start_session_def send_msg_def next_seq_def resting_def hs_msg_def)
  moreover have "says K (Createcs_body_handshake 0 EN_HST_START_REQ (sst EN_SST_DIRECT) ty []) s s'"
    using out(2) by (simp add: says_def hdr_off_def)
  moreover have "same_shake s s'" using out(3) by (simp add: same_shake_def)
  ultimately show ?thesis using out(4) by blast
qed

section \<open>What is said is heard\<close>

text \<open>The frame a side sent last, without its header space, its hash and its length.\<close>

definition last_payload :: "('c, 'd, 'g, 'b, 'w) proto_env \<Rightarrow> byte list" where
  "last_payload s = drop (hdr_off s + 8) (List.last (writes (trace s)))"

lemma says_payload:
  assumes "says K body s s'" and "hdr_off s' = hdr_off s"
  shows "\<exists>sq. last_payload s' = fb_pack (lk_fb K) (hs_msg sq body)"
proof -
  obtain sq mem where m: "writes (trace s') = writes (trace s) @ [mem]"
    "drop (hdr_off s) mem = frame (lk_hash K) (fb_pack (lk_fb K) (hs_msg sq body))"
    using assms(1) unfolding says_def by blast
  have "last_payload s' = drop 8 (drop (hdr_off s) mem)"
    using m(1) assms(2) by (simp add: last_payload_def add.commute)
  then show ?thesis using m(2) by (auto simp: frame_def)
qed

lemma heard:
  fixes K :: "('c, 'd, 'g, 'b, 'w) link"
  assumes "fb_parse (lk_fb K) bytes = Some (hs_msg sq body)" and "\<not> check_flag EN_PFT_CLOSING s"
    and "\<not> check_flag EN_PFT_HANDSHAKE_DONE s \<or> check_flag EN_PFT_HANDSHAKE_UPDATE s"
    and "run_state (dispatch_step K body) (log_event (EvFrame bytes 0) s) = (0, s')"
  shows "run_state (dispatch_data K bytes 0) s = ((), s')"
  using assms
  by (auto simp: dispatch_data_def dispatch_msg_def hs_msg_def Createcs_msg_def Createcs_msg_head_def deref_def
      dispatch_handshake_def)

end
