(* ===== verification/DhKeys.thy ===== *)
theory DhKeys
  imports ProtoMeet
begin

text \<open>
  The handshake with a key exchange (Diffie-Hellman, or the one over elliptic curves), the first two messages: the
  server sends its parameters, the client answers with its public key and has the key.
\<close>

section \<open>What the library makes\<close>

definition dh_switch :: "int \<Rightarrow> bool" where
  "dh_switch sw \<longleftrightarrow> sw = sst EN_SST_DH \<or> sw = sst EN_SST_ECDH"

text \<open>
  The exchange between the contexts \<open>d\<close> of a server and \<open>e\<close> of a client: the server makes the parameters
  \<open>param\<close>, the client the public key \<open>pub\<close>, and both get the secret \<open>sec\<close>.
\<close>

definition dh_agrees :: "('c, 'd, 'g) crypto_lib \<Rightarrow> 'd \<Rightarrow> 'd \<Rightarrow> byte list \<Rightarrow> byte list \<Rightarrow> byte list \<Rightarrow> bool" where
  "dh_agrees L d e param pub sec \<longleftrightarrow> (\<exists>d1 d2 d3 e1 e2 e3. dh_make_params L d = (0, param, d1) \<and>
     dh_read_params L e param = (0, e1) \<and> dh_make_public L e1 = (0, pub, e2) \<and> dh_calc_secret L e2 = (0, sec, e3) \<and>
     dh_read_public L d1 pub = (0, d2) \<and> dh_calc_secret L d2 = (0, sec, d3))"

text \<open>The cipher \<open>t\<close>, given the secret \<open>sec\<close>, is \<open>c\<close>, with the secret cut to \<open>v\<close>.\<close>

definition dh_key :: "('c, 'd, 'g) crypto_lib \<Rightarrow> string \<Rightarrow> byte list \<Rightarrow> byte list \<Rightarrow> 'c \<Rightarrow> bool" where
  "dh_key L t sec v c \<longleftrightarrow> t \<noteq> [] \<and> (\<exists>r c0 lr. cipher_init L (cipher_new L) t = (r, c0) \<and> 0 \<le> r \<and>
     swap_secret_core L c0 sec = (0, v, lr, c))"

definition set_up :: "('c, 'd, 'g) crypto_lib \<Rightarrow> string \<Rightarrow> 'g global_conf option \<Rightarrow> ('c, 'g) crypt_session" where
  "set_up L t conf = snd (cs_setup L t ((crypt_session_new L)\<lparr>cs_shared_conf := conf\<rparr>))"

lemma set_up_key:
  assumes "dh_key L t sec v c"
  shows "cs_setup L t ((crypt_session_new L)\<lparr>cs_shared_conf := conf\<rparr>) = (0, set_up L t conf)"
    and "cs_shared_conf (set_up L t conf) = conf" and "cs_param (set_up L t conf) = []"
    and "\<exists>lr. swap_secret_self L ((set_up L t conf)\<lparr>cs_param := p, cs_secret := sec\<rparr>) = (0, lr, (keyed conf t v c)\<lparr>cs_param := p\<rparr>)"
  using assms
  by (auto simp: dh_key_def set_up_def cs_setup_def crypt_session_new_def swap_secret_self_def keyed_def Let_def)

section \<open>Configurations\<close>

definition dh_conf :: "'g global_conf \<Rightarrow> int \<Rightarrow> bool" where
  "dh_conf g sw \<longleftrightarrow> conf_type (gc_conf g) \<noteq> [] \<and> conf_switch_secret_type (gc_conf g) = sw \<and> dh_switch sw"

lemma setup_dh:
  assumes "\<not> shake_has_data s" and "dh_conf g sw"
  shows "run_state (setup_handshake K (Some g)) s = (0,
    s\<lparr>crypt_heap := (crypt_heap s)[crypt_handshake s := (hs_crypt s)\<lparr>cs_shared_conf := Some g\<rparr>],
      shake_switch_secret_type := sw, shake_dh_ctx := dh_init (lk_crypto K) (shake_dh_ctx s) (gc_dh g), shake_has_data := True,
      flags := word_set (flags s) (pft_mask EN_PFT_HANDSHAKE_UPDATE) True\<rparr>)"
  using assms
  by (auto simp: setup_handshake_def upd_hs_crypt_def put_crypt_def set_flag_def dh_conf_def dh_switch_def Let_def)

text \<open>The configuration a client follows the server with.\<close>

definition client_conf :: "('c, 'd, 'g) crypto_lib \<Rightarrow> string \<Rightarrow> int \<Rightarrow> 'g global_conf option \<Rightarrow> 'g global_conf" where
  "client_conf L t sw cur =
     (let new = snd (global_conf_init L (global_conf_new L
            (default_crypt_configure\<lparr>conf_type := t, conf_switch_secret_type := sw, conf_client_mode := True\<rparr>)))
      in case cur of None \<Rightarrow> new
         | Some g \<Rightarrow> if fst (check_type g t) \<and> conf_switch_secret_type (gc_conf g) = sw then g else new)"

lemma follow_dh:
  fixes K :: "('c, 'd, 'g, 'b, 'w) link" and s :: "('c, 'd, 'g, 'b, 'w) proto_env"
  assumes "t \<noteq> []" and "map tolower_ch t = t" and "\<And>g. g_current s = Some g \<Longrightarrow> conf_type (gc_conf g) \<noteq> []" and "dh_switch sw"
  shows "run_state (follow_global_conf K t sw) s =
      ((Some (client_conf (lk_crypto K) t sw (g_current s)), t), s\<lparr>g_current := Some (client_conf (lk_crypto K) t sw (g_current s))\<rparr>)"
    and "dh_conf (client_conf (lk_crypto K) t sw (g_current s)) sw"
proof -
  let ?L = "lk_crypto K"
  let ?c = "default_crypt_configure\<lparr>conf_type := t, conf_switch_secret_type := sw, conf_client_mode := True\<rparr>"
  define new where "new = snd (global_conf_init ?L (global_conf_new ?L ?c))"
  have g: "global_conf_init ?L (global_conf_new ?L ?c) = (0, new)" "gc_conf new = ?c"
    using assms(1,4) by (auto simp: new_def dh_switch_def global_conf_init_def global_conf_new_def global_conf_close_def Let_def)
  have re: "snd (global_reload ?L ?c cur) = Some new" for cur using g(1) by (simp add: global_reload_def)
  have conf: "client_conf ?L t sw cur = (case cur of None \<Rightarrow> new
      | Some g \<Rightarrow> if fst (check_type g t) \<and> conf_switch_secret_type (gc_conf g) = sw then g else new)" for cur
    unfolding client_conf_def new_def Let_def by (rule refl)
  have ty: "snd (check_type g0 t) = t" for g0 :: "'g global_conf" using assms(1,2) by (simp add: check_type_def Let_def)
  show "run_state (follow_global_conf K t sw) s =
      ((Some (client_conf ?L t sw (g_current s)), t), s\<lparr>g_current := Some (client_conf ?L t sw (g_current s))\<rparr>)"
    using re ty by (cases "g_current s"; cases s) (auto simp: follow_global_conf_def conf Let_def)
  show "dh_conf (client_conf ?L t sw (g_current s)) sw"
    using assms(3) g(2) assms(1,4) by (auto simp: conf dh_conf_def split: option.split)
qed

section \<open>The server's parameters\<close>

lemma pack_dh:
  assumes "dh_key (lk_crypto K) t sec v c" and "crypt_ok s" and "dh_switch (shake_switch_secret_type s)" and "shake_has_data s"
    and "hs_crypt s = (crypt_session_new (lk_crypto K))\<lparr>cs_shared_conf := Some g\<rparr>" and "sid \<noteq> 0"
    and "dh_make_params (lk_crypto K) (shake_dh_ctx s) = (0, param, d1)"
  shows "run_state (pack_handshake_start_rsp K sid t) s =
    ((0, Some (Createcs_body_handshake sid EN_HST_START_RSP (shake_switch_secret_type s) t param)),
     s\<lparr>crypt_heap := (crypt_heap s)[crypt_handshake s := (set_up (lk_crypto K) t (Some g))\<lparr>cs_param := param\<rparr>], shake_dh_ctx := d1\<rparr>)"
proof -
  let ?L = "lk_crypto K"
  have h: "crypt_handshake s < length (crypt_heap s)" using assms(2) by (simp add: crypt_ok_def)
  have t: "t \<noteq> []" using assms(1) by (simp add: dh_key_def)
  have "shake_switch_secret_type s \<noteq> 0" using assms(3) by (auto simp: dh_switch_def)
  then show ?thesis
    using assms(3-) h t set_up_key(1,2) [OF assms(1), of "Some g"]
    by (auto simp: pack_handshake_start_rsp_def run_hs_crypt_def upd_hs_crypt_def put_crypt_def hs_crypt_def crypt_at_def
        dh_switch_def Let_def)
qed

lemma server_offers:
  fixes K :: "('c, 'd, 'g, 'b, 'w) link"
  assumes K: "calm K" "grants K sid" and rest: "resting K s"
    and fresh: "crypt_ok s" "hs_crypt s = crypt_session_new (lk_crypto K)" "\<not> shake_has_data s"
    and conf: "g_current s = Some g" "dh_conf g sw"
    and body: "hs_crypt_type body = Some ty" "ty \<noteq> []" "peer_tokens K ty \<noteq> []" "select_crypt_type g (peer_tokens K ty) = t"
    and key: "dh_key (lk_crypto K) t sec v c"
    and param: "dh_make_params (lk_crypto K) (dh_init (lk_crypto K) (shake_dh_ctx s) (gc_dh g)) = (0, param, d1)"
    and size: "sendable K (Createcs_body_handshake sid EN_HST_START_RSP sw t param)"
  shows "\<exists>s'. run_state (dispatch_handshake_start_req K body) s = (0, s') \<and>
    says K (Createcs_body_handshake sid EN_HST_START_RSP sw t param) s s' \<and> resting K s' \<and> crypt_ok s' \<and>
    hs_crypt s' = (set_up (lk_crypto K) t (Some g))\<lparr>cs_param := param\<rparr> \<and> shake_dh_ctx s' = d1 \<and> shake_has_data s' \<and>
    session_id s' = sid \<and> shake_switch_secret_type s' = sw \<and> hdr_off s' = hdr_off s \<and> g_current s' = g_current s \<and>
    check_flag EN_PFT_HANDSHAKE_DONE s' = check_flag EN_PFT_HANDSHAKE_DONE s"
proof -
  let ?L = "lk_crypto K" and ?h = "crypt_handshake s"
  obtain cb nf where cb: "lk_cb K = Some cb" "new_session_fn cb = Some nf"
    and nf: "\<And>x s. \<exists>r w. run_state (nf x) s = ((r, sid), s\<lparr>g_world := w\<rparr>)" and sid: "sid \<noteq> 0"
    using K(2) unfolding grants_def by blast
  define s1 where "s1 = s\<lparr>crypt_heap := (crypt_heap s)[?h := (hs_crypt s)\<lparr>cs_shared_conf := Some g\<rparr>],
      shake_switch_secret_type := sw, shake_dh_ctx := dh_init ?L (shake_dh_ctx s) (gc_dh g), shake_has_data := True,
      flags := word_set (flags s) (pft_mask EN_PFT_HANDSHAKE_UPDATE) True\<rparr>"
  have begun: "run_state (setup_handshake K (Some g)) s = (0, s1)"
    unfolding s1_def by (rule setup_dh [OF fresh(3) conf(2)])
  obtain r w where nf1: "run_state (nf (session_id s)) (log_event EvNewSession s1) =
      ((r, sid), (log_event EvNewSession s1)\<lparr>g_world := w\<rparr>)" using nf by blast
  define s2 where "s2 = (log_event EvNewSession s1)\<lparr>g_world := w, session_id := sid, g_seq := alloc_seq (g_seq s)\<rparr>"
  have fields: "crypt_heap s2 = (crypt_heap s)[?h := (hs_crypt s)\<lparr>cs_shared_conf := Some g\<rparr>]"
    "crypt_handshake s2 = ?h" "shake_switch_secret_type s2 = sw" "g_seq s1 = g_seq s" "shake_has_data s2"
    "shake_dh_ctx s2 = dh_init ?L (shake_dh_ctx s) (gc_dh g)"
    "trace s2 = trace s @ [EvNewSession]" "write_buffers s2 = write_buffers s" "session_id s1 = session_id s"
    "flags s2 = word_set (flags s) (pft_mask EN_PFT_HANDSHAKE_UPDATE) True" "write_header_offset s2 = write_header_offset s"
    "session_id s2 = sid" "g_seq s2 = alloc_seq (g_seq s)" "g_current s2 = g_current s"
    by (simp_all add: s2_def s1_def log_event_def)
  have h: "?h < length (crypt_heap s)" using fresh(1) by (simp add: crypt_ok_def)
  have ok2: "crypt_ok s2" using fresh(1) by (simp add: crypt_ok_def s2_def s1_def log_event_def)
  have hs2: "hs_crypt s2 = (crypt_session_new ?L)\<lparr>cs_shared_conf := Some g\<rparr>"
    using h fresh(2) fields(1,2) by (simp add: hs_crypt_def crypt_at_def)
  have sw: "dh_switch sw" using conf(2) by (simp add: dh_conf_def)
  define s3 where "s3 = s2\<lparr>crypt_heap := (crypt_heap s2)[?h := (set_up ?L t (Some g))\<lparr>cs_param := param\<rparr>], shake_dh_ctx := d1\<rparr>"
  have pack: "run_state (pack_handshake_start_rsp K sid t) s2 =
    ((0, Some (Createcs_body_handshake sid EN_HST_START_RSP sw t param)), s3)"
    using pack_dh [OF key ok2 _ _ hs2 sid] param fields sw by (simp add: s3_def)
  have flag: "check_flag f s3 = (if f = EN_PFT_HANDSHAKE_UPDATE then True else check_flag f s)" for f
    using fields(10) pft.check_set [of "flags s" EN_PFT_HANDSHAKE_UPDATE True f] by (auto simp: s3_def check_flag_def)
  have rest3: "resting K s3" using rest fields(8) by (simp add: resting_def flag) (simp add: s3_def write_blocks_def)
  obtain s' where out: "run_state (write_msg K (hs_msg (alloc_seq (g_seq s))
        (Createcs_body_handshake sid EN_HST_START_RSP sw t param))) s3 = (0, s')"
      "says K (Createcs_body_handshake sid EN_HST_START_RSP sw t param) s3 s'" "same_shake s3 s'" "resting K s'"
    using write_hs_msg [OF K(1) rest3 size] by blast
  have open_s: "\<not> check_flag EN_PFT_CLOSING s" using rest by (simp add: resting_def)
  have s2_eq: "(log_event EvNewSession s1)\<lparr>g_world := w, session_id := sid, g_seq := alloc_seq (g_seq (log_event EvNewSession s1))\<rparr> = s2"
    using fields(4) by (simp add: s2_def log_event_def)
  have "run_state (dispatch_handshake_start_req K body) s = (0, s')"
    using cb open_s conf(1) body begun nf1 pack out(1) calm_write_fn [OF K(1)] fields
    by (simp add: dispatch_handshake_start_req_def next_seq_def hs_msg_def s2_eq)
  moreover have "says K (Createcs_body_handshake sid EN_HST_START_RSP sw t param) s s'"
    using out(2) fields(7,11) by (simp add: says_def s3_def hdr_off_def)
  moreover have "crypt_ok s' \<and> hs_crypt s' = (set_up ?L t (Some g))\<lparr>cs_param := param\<rparr> \<and> shake_dh_ctx s' = d1 \<and> shake_has_data s' \<and>
      session_id s' = sid \<and> shake_switch_secret_type s' = sw \<and> hdr_off s' = hdr_off s \<and> g_current s' = g_current s"
    using out(3) ok2 h fields by (auto simp: same_shake_def s3_def crypt_ok_def hs_crypt_def crypt_at_def hdr_off_def)
  moreover have "check_flag f s' = check_flag f s3" for f using out(3) by (simp add: same_shake_def check_flag_def)
  ultimately show ?thesis using out(4) flag by auto
qed

end
