(* ===== verification/DhClient.thy ===== *)
theory DhClient
  imports DhKeys
begin

text \<open>
  The client in a key exchange: it follows the server's parameters with its public key, and proves with its answer to
  the verify text that it has the key.
\<close>

section \<open>The public key\<close>

lemma pack_pubkey:
  fixes K :: "('c, 'd, 'g, 'b, 'w) link"
  assumes key: "dh_key (lk_crypto K) t sec v c" and s: "crypt_ok s" "shake_has_data s" "shake_dh_ctx s = e"
    and hs: "hs_crypt s = set_up (lk_crypto K) t (Some g)"
    and lib: "dh_read_params (lk_crypto K) e param = (0, e1)" "dh_make_public (lk_crypto K) e1 = (0, pub, e2)"
      "dh_calc_secret (lk_crypto K) e2 = (0, sec, e3)"
    and peer: "hs_session_id peer \<noteq> 0" "hs_crypt_param peer = Some param" "uint (hs_switch_type peer) = sw"
  shows "run_state (pack_handshake_dh_pubkey_req K peer step) s =
    ((0, Createcs_body_handshake (hs_session_id peer) step sw '''' pub),
     s\<lparr>crypt_heap := (crypt_heap s)[crypt_handshake s := (keyed (Some g) t v c)\<lparr>cs_param := pub\<rparr>],
       shake_switch_secret_type := sw, shake_dh_ctx := e3, crypt_write := Some (crypt_handshake s)\<rparr>)"
proof -
  let ?L = "lk_crypto K" and ?h = "crypt_handshake s"
  have h: "?h < length (crypt_heap s)" using s(1) by (simp add: crypt_ok_def)
  have at: "crypt_heap s ! ?h = set_up ?L t (Some g)" using hs by (simp add: hs_crypt_def crypt_at_def)
  obtain lr where swap: "swap_secret_self ?L ((set_up ?L t (Some g))\<lparr>cs_param := pub, cs_secret := sec\<rparr>) =
      (0, lr, (keyed (Some g) t v c)\<lparr>cs_param := pub\<rparr>)"
    using set_up_key(4) [OF key] by blast
  show ?thesis
    using s(2,3) h at lib peer swap set_up_key(2) [OF key, of "Some g"]
    by (simp add: pack_handshake_dh_pubkey_req_def upd_hs_crypt_def put_crypt_def hs_crypt_def crypt_at_def swap_hs_secret_self_def
        run_hs_crypt_def use_hs_write_def Let_def)
qed

definition pubkey_req :: "int \<Rightarrow> handshake_step_t" where
  "pubkey_req sw = (if sw = sst EN_SST_DH then EN_HST_DH_PUBKEY_REQ else EN_HST_ECDH_PUBKEY_REQ)"

definition pubkey_rsp :: "int \<Rightarrow> handshake_step_t" where
  "pubkey_rsp sw = (if sw = sst EN_SST_DH then EN_HST_DH_PUBKEY_RSP else EN_HST_ECDH_PUBKEY_RSP)"

lemma client_answers:
  fixes K :: "('c, 'd, 'g, 'b, 'w) link"
  assumes K: "calm K" "resting K s"
    and fresh: "crypt_ok s" "hs_crypt s = crypt_session_new (lk_crypto K)" "\<not> shake_has_data s"
      "\<not> check_flag EN_PFT_HANDSHAKE_DONE s"
    and conf: "\<And>g. g_current s = Some g \<Longrightarrow> conf_type (gc_conf g) \<noteq> []" "gc = client_conf (lk_crypto K) t sw (g_current s)"
    and key: "dh_key (lk_crypto K) t sec v c" "map tolower_ch t = t" "sid \<noteq> 0" "dh_switch sw"
    and lib: "dh_read_params (lk_crypto K) (dh_init (lk_crypto K) (shake_dh_ctx s) (gc_dh gc)) param = (0, e1)"
      "dh_make_public (lk_crypto K) e1 = (0, pub, e2)" "dh_calc_secret (lk_crypto K) e2 = (0, sec, e3)"
    and size: "sendable K (Createcs_body_handshake sid (pubkey_req sw) sw '''' pub)"
  shows "\<exists>s'. run_state (dispatch_handshake_start_rsp K (Createcs_body_handshake sid EN_HST_START_RSP sw t param)) s = (0, s') \<and>
    says K (Createcs_body_handshake sid (pubkey_req sw) sw '''' pub) s s' \<and> resting K s' \<and> crypt_ok s' \<and>
    hs_crypt s' = (keyed (Some gc) t v c)\<lparr>cs_param := pub\<rparr> \<and> crypt_write s' = Some (crypt_handshake s') \<and>
    session_id s' = sid \<and> shake_switch_secret_type s' = sw \<and> hdr_off s' = hdr_off s \<and> \<not> check_flag EN_PFT_HANDSHAKE_DONE s'"
proof -
  let ?L = "lk_crypto K" and ?h = "crypt_handshake s" and ?su = "set_up (lk_crypto K) t (Some gc)"
  let ?body = "Createcs_body_handshake sid EN_HST_START_RSP sw t param"
  have t: "t \<noteq> []" using key(1) by (simp add: dh_key_def)
  have sw: "sw \<noteq> 0" "sw = 1 \<or> sw = 2" "uint (word_of_int sw :: byte) = sw" using key(4) by (auto simp: dh_switch_def)
  have follow: "run_state (follow_global_conf K t sw) (s\<lparr>session_id := sid\<rparr>) =
      ((Some gc, t), s\<lparr>session_id := sid, g_current := Some gc\<rparr>)" "dh_conf gc sw"
    using follow_dh [where s = "s\<lparr>session_id := sid\<rparr>" and K = K, OF t key(2) _ key(4)] conf by simp_all
  define s1 where "s1 = s\<lparr>session_id := sid, g_current := Some gc\<rparr>"
  have h: "?h < length (crypt_heap s)" using fresh(1) by (simp add: crypt_ok_def)
  have s1: "\<not> shake_has_data s1" "crypt_handshake s1 = ?h" "crypt_heap s1 = crypt_heap s" "flags s1 = flags s"
    "hs_crypt s1 = crypt_session_new ?L" "shake_dh_ctx s1 = shake_dh_ctx s"
    using fresh by (simp_all add: s1_def hs_crypt_def crypt_at_def)
  define s2 where "s2 = s1\<lparr>crypt_heap := (crypt_heap s)[?h := (crypt_session_new ?L)\<lparr>cs_shared_conf := Some gc\<rparr>],
      shake_switch_secret_type := sw, shake_dh_ctx := dh_init ?L (shake_dh_ctx s) (gc_dh gc), shake_has_data := True,
      flags := word_set (flags s) (pft_mask EN_PFT_HANDSHAKE_UPDATE) True\<rparr>"
  have begun: "run_state (setup_handshake K (Some gc)) s1 = (0, s2)"
    using setup_dh [OF s1(1) follow(2), of K] s1 by (simp add: s2_def)
  define s3 where "s3 = s2\<lparr>crypt_heap := (crypt_heap s)[?h := ?su]\<rparr>"
  have set: "run_state (run_hs_crypt (cs_setup ?L t)) s2 = (0, s3)"
    using set_up_key(1) [OF key(1), of "Some gc"] h s1(2)
    by (simp add: run_hs_crypt_def upd_hs_crypt_def put_crypt_def hs_crypt_def crypt_at_def s2_def s3_def)
  define s4 where "s4 = s3\<lparr>g_seq := alloc_seq (g_seq s)\<rparr>"
  have f4: "crypt_ok s4" "shake_has_data s4" "shake_dh_ctx s4 = dh_init ?L (shake_dh_ctx s) (gc_dh gc)" "hs_crypt s4 = ?su"
    "crypt_handshake s4 = ?h" "crypt_heap s4 = (crypt_heap s)[?h := ?su]" "session_id s4 = sid"
    "write_buffers s4 = write_buffers s" "trace s4 = trace s" "write_header_offset s4 = write_header_offset s"
    "flags s4 = word_set (flags s) (pft_mask EN_PFT_HANDSHAKE_UPDATE) True"
    using h fresh(1) by (simp_all add: s4_def s3_def s2_def s1_def crypt_ok_def hs_crypt_def crypt_at_def)
  define s5 where "s5 = s4\<lparr>crypt_heap := (crypt_heap s4)[?h := (keyed (Some gc) t v c)\<lparr>cs_param := pub\<rparr>],
       shake_switch_secret_type := sw, shake_dh_ctx := e3, crypt_write := Some ?h\<rparr>"
  have pack: "run_state (pack_handshake_dh_pubkey_req K ?body (pubkey_req sw)) s4 =
      ((0, Createcs_body_handshake sid (pubkey_req sw) sw '''' pub), s5)"
    using pack_pubkey [OF key(1) f4(1,2,3,4) lib, of ?body sw "pubkey_req sw"] key(3) sw(3) f4(5)
    by (simp add: s5_def Createcs_body_handshake_def)
  have flag: "check_flag f s5 = (if f = EN_PFT_HANDSHAKE_UPDATE then True else check_flag f s)" for f
    using f4(11) pft.check_set [of "flags s" EN_PFT_HANDSHAKE_UPDATE True f] by (auto simp: s5_def check_flag_def)
  have rest5: "resting K s5" using K(2) f4(8) by (simp add: resting_def flag) (simp add: s5_def write_blocks_def)
  obtain s' where out: "run_state (write_msg K (hs_msg (alloc_seq (g_seq s)) (Createcs_body_handshake sid (pubkey_req sw) sw '''' pub))) s5 = (0, s')"
      "says K (Createcs_body_handshake sid (pubkey_req sw) sw '''' pub) s5 s'" "same_shake s5 s'" "resting K s'"
    using write_hs_msg [OF K(1) rest5 size] by blast
  have hs: "cs_shared_conf (hs_crypt (s\<lparr>session_id := sid\<rparr>)) = None"
    using fresh(2) by (simp add: hs_crypt_def crypt_at_def crypt_session_new_def)
  have seq: "g_seq s3 = g_seq s" "s3\<lparr>shake_switch_secret_type := sw\<rparr> = s3" "g_seq s4 = alloc_seq (g_seq s)"
    by (simp_all add: s4_def s3_def s2_def s1_def)
  have body: "hs_session_id ?body = sid" "hs_crypt_type ?body = Some t" "uint (hs_switch_type ?body) = sw"
    "hs_crypt_param ?body = Some param"
    using sw(3) by (simp_all add: Createcs_body_handshake_def)
  have dh: "(sw = sst EN_SST_DIRECT) = False" "(sw = sst EN_SST_DH \<or> sw = sst EN_SST_ECDH) = True"
    using key(4) by (auto simp: dh_switch_def)
  have step: "(if sw = sst EN_SST_DH then EN_HST_DH_PUBKEY_REQ else EN_HST_ECDH_PUBKEY_REQ) = pubkey_req sw"
    by (simp only: pubkey_req_def)
  have "run_state (dispatch_handshake_start_rsp K ?body) s = (0, s')"
    using key(3) fresh(3) t follow(1) begun set seq pack out(1) hs
    by (simp add: dispatch_handshake_start_rsp_def body dh step s1_def [symmetric]
        s4_def [symmetric] next_seq_def hs_msg_def del: sst.simps)
  moreover have "says K (Createcs_body_handshake sid (pubkey_req sw) sw '''' pub) s s'"
    using out(2) f4(9,10) by (simp add: says_def s5_def hdr_off_def)
  moreover have "crypt_ok s' \<and> hs_crypt s' = (keyed (Some gc) t v c)\<lparr>cs_param := pub\<rparr> \<and> crypt_write s' = Some (crypt_handshake s') \<and>
      session_id s' = sid \<and> shake_switch_secret_type s' = sw \<and> hdr_off s' = hdr_off s"
    using out(3) f4 h by (auto simp: same_shake_def s5_def crypt_ok_def hs_crypt_def crypt_at_def hdr_off_def)
  moreover have "check_flag f s' = check_flag f s5" for f using out(3) by (simp add: same_shake_def check_flag_def)
  ultimately show ?thesis using out(4) flag fresh(4) by auto
qed

end
