(* ===== verification/DhServer.thy ===== *)
theory DhServer
  imports DhClient
begin

text \<open>
  The verification that ends a key exchange: the server encrypts a text with the key it has, the client decrypts it
  and sends back a text that agrees with it at the odd positions, the server compares them.
\<close>

section \<open>Ciphers in step\<close>

text \<open>
  A pair of ciphers, one of each side, related by \<open>S\<close>: what the one makes of a text that fits, the other makes
  the text of again, with at most \<open>B\<close> bytes of padding after it, and the two stay related. The padding is the
  library's, so its bytes are any. A cipher may change with every use.
\<close>

definition fits :: "byte list \<Rightarrow> bool" where
  "fits x \<longleftrightarrow> x \<noteq> [] \<and> 2 * length x \<le> tls_length"

definition passes :: "('c, 'd, 'g) crypto_lib \<Rightarrow> ('c \<Rightarrow> 'c \<Rightarrow> bool) \<Rightarrow> nat \<Rightarrow> 'c \<Rightarrow> 'c \<Rightarrow> byte list \<Rightarrow> bool" where
  "passes L S B a b x \<longleftrightarrow> (\<exists>r e a' r' pad b'. cipher_encrypt L a x tls_length = (r, e, a') \<and> 0 \<le> r \<and>
     cipher_decrypt L b e tls_length = (r', x @ pad, b') \<and> 0 \<le> r' \<and> length pad \<le> B \<and> S a' b' \<and>
     length x \<le> length e \<and> length e \<le> tls_length)"

definition duplex :: "('c, 'd, 'g) crypto_lib \<Rightarrow> ('c \<Rightarrow> 'c \<Rightarrow> bool) \<Rightarrow> nat \<Rightarrow> bool" where
  "duplex L S B \<longleftrightarrow> symp S \<and> (\<forall>a b x. S a b \<longrightarrow> fits x \<longrightarrow> passes L S B a b x)"

lemma duplex_passes: "duplex L S B \<Longrightarrow> S a b \<Longrightarrow> fits x \<Longrightarrow> passes L S B a b x"
  by (simp add: duplex_def)

lemma run_encrypt:
  assumes "\<not> check_flag EN_PFT_CLOSING s" and "crypt_at i s = (keyed conf t v c)\<lparr>cs_param := p\<rparr>" and "t \<noteq> []" and "x \<noteq> []"
    and "cipher_encrypt (lk_crypto K) c x tls_length = (r, e, c')" and "0 \<le> r"
  shows "run_state (encrypt_data K i (Some x) out0) s = ((0, Some e), put_crypt i ((keyed conf t v c')\<lparr>cs_param := p\<rparr>) s)"
  using assms by (simp add: encrypt_data_def keyed_def)

lemma run_decrypt:
  assumes "\<not> check_flag EN_PFT_CLOSING s" and "crypt_at i s = (keyed conf t v c)\<lparr>cs_param := p\<rparr>" and "t \<noteq> []" and "x \<noteq> []"
    and "cipher_decrypt (lk_crypto K) c x tls_length = (r, e, c')" and "0 \<le> r"
  shows "run_state (decrypt_data K i (Some x) out0) s = ((0, Some e), put_crypt i ((keyed conf t v c')\<lparr>cs_param := p\<rparr>) s)"
  using assms by (simp add: decrypt_data_def keyed_def)

section \<open>The server has the key\<close>

lemma accept_pubkey:
  fixes K :: "('c, 'd, 'g, 'b, 'w) link"
  assumes key: "dh_key (lk_crypto K) t sec v c" and s: "crypt_ok s" "hs_crypt s = set_up (lk_crypto K) t (Some g)"
    and lib: "dh_read_public (lk_crypto K) (shake_dh_ctx s) pub = (0, d2)" "dh_calc_secret (lk_crypto K) d2 = (0, sec, d3)"
  shows "run_state (dh_accept_pubkey K pub) s = (0,
    s\<lparr>crypt_heap := (crypt_heap s)[crypt_handshake s := keyed (Some g) t v c], shake_dh_ctx := d3,
      crypt_read := Some (crypt_handshake s), crypt_write := Some (crypt_handshake s)\<rparr>)"
proof -
  let ?L = "lk_crypto K" and ?h = "crypt_handshake s"
  have h: "?h < length (crypt_heap s)" using s(1) by (simp add: crypt_ok_def)
  have at: "crypt_heap s ! ?h = set_up ?L t (Some g)" using s(2) by (simp add: hs_crypt_def crypt_at_def)
  have p: "(set_up ?L t (Some g))\<lparr>cs_param := [], cs_secret := sec\<rparr> = (set_up ?L t (Some g))\<lparr>cs_secret := sec\<rparr>"
    "(keyed (Some g) t v c)\<lparr>cs_param := []\<rparr> = keyed (Some g) t v c"
    using set_up_key(3) [OF key, of "Some g"] by (simp_all add: keyed_def)
  obtain lr where swap: "swap_secret_self ?L ((set_up ?L t (Some g))\<lparr>cs_secret := sec\<rparr>) = (0, lr, keyed (Some g) t v c)"
    using set_up_key(4) [OF key, where conf = "Some g" and p = "[]"] p by auto
  show ?thesis
    using h at lib swap
    by (simp add: dh_accept_pubkey_def upd_hs_crypt_def put_crypt_def hs_crypt_def crypt_at_def swap_hs_secret_self_def
        run_hs_crypt_def use_hs_write_def use_hs_read_def)
qed

lemma verify_text:
  fixes K :: "('c, 'd, 'g, 'b, 'w) link"
  assumes s: "crypt_ok s" "hs_crypt s = keyed (Some g) t v c" "\<not> check_flag EN_PFT_CLOSING s" "t \<noteq> []"
    and n: "n = unat (cipher_key_bits (lk_crypto K) c div 8)" "n \<noteq> 0"
    and rnd: "\<forall>d. fst (dhs_random (lk_crypto K) (gc_dh g) d n) = 0"
    and enc: "\<forall>x. length x = 2 * n \<longrightarrow> passes (lk_crypto K) S B c c x"
  shows "\<exists>hex pad e r' a b. run_state (dh_verify_text K g) s = ((0, Some e),
      s\<lparr>g_draws := Suc (g_draws s), crypt_heap := (crypt_heap s)[crypt_handshake s := (keyed (Some g) t v a)\<lparr>cs_param := hex\<rparr>]\<rparr>) \<and>
    length hex = 2 * n \<and> 0 \<le> r' \<and> cipher_decrypt (lk_crypto K) c e tls_length = (r', hex @ pad, b) \<and> length pad \<le> B \<and> S a b \<and>
    e \<noteq> [] \<and> length e \<le> tls_length"
proof -
  let ?L = "lk_crypto K" and ?h = "crypt_handshake s"
  obtain bytes where bytes: "dhs_random ?L (gc_dh g) (g_draws s) n = (0, bytes)"
    using rnd by (metis prod.collapse)
  define hex where "hex = vec_resize (2 * n) (lk_hex K (vec_resize n bytes))"
  have len: "length hex = 2 * n" by (simp add: hex_def)
  then have ne: "hex \<noteq> []" using n(2) by auto
  obtain r e a r' pad b where e: "cipher_encrypt ?L c hex tls_length = (r, e, a)" "0 \<le> r"
    "cipher_decrypt ?L c e tls_length = (r', hex @ pad, b)" "0 \<le> r'" "length pad \<le> B" "S a b" "length hex \<le> length e" "length e \<le> tls_length"
    using enc len unfolding passes_def by blast
  have e_ne: "e \<noteq> []" using e(7) ne by auto
  have h: "?h < length (crypt_heap s)" using s(1) by (simp add: crypt_ok_def)
  let ?s1 = "s\<lparr>g_draws := Suc (g_draws s)\<rparr>"
  have p: "(keyed (Some g) t v x)\<lparr>cs_param := []\<rparr> = keyed (Some g) t v x" for x :: 'c by (simp add: keyed_def)
  have run: "run_state (encrypt_data K ?h (Some hex) None) ?s1 = ((0, Some e), put_crypt ?h (keyed (Some g) t v a) ?s1)"
    using run_encrypt [where s = "?s1" and i = "?h" and conf = "Some g" and v = v and p = "[]" and ?out0.0 = None, OF _ _ s(4) ne e(1,2)] s e(1,2) ne
    by (simp add: p check_flag_def hs_crypt_def crypt_at_def)
  have draw: "run_state (random_bytes K (gc_dh g) n) s = ((0, vec_resize n bytes), ?s1)"
    using bytes by (simp add: random_bytes_def)
  have key: "crypt_heap s ! ?h = keyed (Some g) t v c" "unat (cipher_key_bits ?L c div 8) = n" "cs_cipher (keyed (Some g) t v c) = c"
    using s(2) n(1) by (simp_all add: hs_crypt_def crypt_at_def keyed_def)
  have "run_state (dh_verify_text K g) s = ((0, Some e),
      ?s1\<lparr>crypt_heap := (crypt_heap s)[?h := (keyed (Some g) t v a)\<lparr>cs_param := hex\<rparr>]\<rparr>)"
    using h e_ne
    by (simp add: dh_verify_text_def key draw hex_def [symmetric] run upd_hs_crypt_def put_crypt_def hs_crypt_def crypt_at_def Let_def)
  then show ?thesis using len e e_ne by auto
qed

lemma server_checks:
  fixes K :: "('c, 'd, 'g, 'b, 'w) link"
  assumes K: "calm K" "resting K s"
    and s: "crypt_ok s" "hs_crypt s = (set_up (lk_crypto K) t (Some g))\<lparr>cs_param := param\<rparr>" "shake_has_data s"
      "session_id s = sid" "shake_switch_secret_type s = sw" "dh_switch sw"
    and key: "dh_key (lk_crypto K) t sec v c"
    and lib: "dh_read_public (lk_crypto K) (shake_dh_ctx s) pub = (0, d2)" "dh_calc_secret (lk_crypto K) d2 = (0, sec, d3)"
    and n: "n = unat (cipher_key_bits (lk_crypto K) c div 8)" "n \<noteq> 0"
    and rnd: "\<forall>d. fst (dhs_random (lk_crypto K) (gc_dh g) d n) = 0"
    and enc: "\<forall>x. length x = 2 * n \<longrightarrow> passes (lk_crypto K) S B c c x"
    and size: "\<And>p. length p \<le> tls_length \<Longrightarrow> sendable K (Createcs_body_handshake sid step sw '''' p)"
  shows "\<exists>s' hex pad e r' a b. run_state (dispatch_handshake_dh_pubkey_req K (Createcs_body_handshake i st sw '''' pub) step) s = (0, s') \<and>
    says K (Createcs_body_handshake sid step sw '''' e) s s' \<and> resting K s' \<and> crypt_ok s' \<and>
    hs_crypt s' = (keyed (Some g) t v a)\<lparr>cs_param := hex\<rparr> \<and> length hex = 2 * n \<and>
    cipher_decrypt (lk_crypto K) c e tls_length = (r', hex @ pad, b) \<and> 0 \<le> r' \<and> length pad \<le> B \<and> S a b \<and> e \<noteq> [] \<and> length e \<le> tls_length \<and>
    crypt_read s' = Some (crypt_handshake s') \<and> crypt_write s' = Some (crypt_handshake s') \<and>
    session_id s' = sid \<and> shake_switch_secret_type s' = sw \<and> hdr_off s' = hdr_off s \<and>
    check_flag EN_PFT_HANDSHAKE_DONE s' = check_flag EN_PFT_HANDSHAKE_DONE s"
proof -
  let ?L = "lk_crypto K" and ?h = "crypt_handshake s" and ?peer = "Createcs_body_handshake i st sw '''' pub"
  have t: "t \<noteq> []" using key by (simp add: dh_key_def)
  have h: "?h < length (crypt_heap s)" using s(1) by (simp add: crypt_ok_def)
  have sw: "uint (word_of_int sw :: byte) = sw" using s(6) by (auto simp: dh_switch_def)
  have su: "(set_up ?L t (Some g))\<lparr>cs_param := []\<rparr> = set_up ?L t (Some g)"
    using set_up_key(3) [OF key, of "Some g"] by simp
  define s1 where "s1 = s\<lparr>g_seq := alloc_seq (g_seq s), crypt_heap := (crypt_heap s)[?h := set_up ?L t (Some g)]\<rparr>"
  have f1: "crypt_ok s1" "hs_crypt s1 = set_up ?L t (Some g)" "crypt_handshake s1 = ?h" "shake_dh_ctx s1 = shake_dh_ctx s"
    using h s(1) by (simp_all add: s1_def crypt_ok_def hs_crypt_def crypt_at_def)
  define s2 where "s2 = s1\<lparr>crypt_heap := (crypt_heap s1)[?h := keyed (Some g) t v c], shake_dh_ctx := d3,
      crypt_read := Some ?h, crypt_write := Some ?h\<rparr>"
  have acc: "run_state (dh_accept_pubkey K pub) s1 = (0, s2)"
    using accept_pubkey [OF key f1(1,2), of pub d2 d3] lib f1(3,4) by (simp add: s2_def)
  have f2: "crypt_ok s2" "hs_crypt s2 = keyed (Some g) t v c" "\<not> check_flag EN_PFT_CLOSING s2" "session_id s2 = sid"
    "crypt_handshake s2 = ?h"
    using h s(1,4) K(2) by (simp_all add: s2_def s1_def crypt_ok_def hs_crypt_def crypt_at_def resting_def check_flag_def)
  obtain hex pad e r' a b where v: "run_state (dh_verify_text K g) s2 = ((0, Some e),
      s2\<lparr>g_draws := Suc (g_draws s2), crypt_heap := (crypt_heap s2)[?h := (keyed (Some g) t v a)\<lparr>cs_param := hex\<rparr>]\<rparr>)"
    "length hex = 2 * n" "0 \<le> r'" "cipher_decrypt ?L c e tls_length = (r', hex @ pad, b)" "length pad \<le> B" "S a b" "e \<noteq> []" "length e \<le> tls_length"
    using verify_text [OF f2(1,2,3) t n rnd enc] unfolding f2(5) by blast
  define s3 where "s3 = s2\<lparr>g_draws := Suc (g_draws s2), crypt_heap := (crypt_heap s2)[?h := (keyed (Some g) t v a)\<lparr>cs_param := hex\<rparr>]\<rparr>"
  have f3: "session_id s3 = sid" "write_buffers s3 = write_buffers s" "flags s3 = flags s" "trace s3 = trace s"
    "write_header_offset s3 = write_header_offset s" "crypt_ok s3" "hs_crypt s3 = (keyed (Some g) t v a)\<lparr>cs_param := hex\<rparr>"
    "crypt_handshake s3 = ?h" "crypt_read s3 = Some ?h" "crypt_write s3 = Some ?h" "shake_switch_secret_type s3 = sw"
    using h s(1,4,5) by (simp_all add: s3_def s2_def s1_def crypt_ok_def hs_crypt_def crypt_at_def)
  have "resting K s3" using K(2) f3(2,3) by (simp add: resting_def write_blocks_def check_flag_def)
  then obtain s' where out: "run_state (write_msg K (hs_msg (alloc_seq (g_seq s)) (Createcs_body_handshake sid step sw '''' e))) s3 = (0, s')"
      "says K (Createcs_body_handshake sid step sw '''' e) s3 s'" "same_shake s3 s'" "resting K s'"
    using write_hs_msg [OF K(1) _ size [OF v(8)]] by blast
  have p1: "run_state (modify (upd_hs_crypt (\<lambda>cs. cs\<lparr>cs_param := []\<rparr>))) (s\<lparr>g_seq := alloc_seq (g_seq s)\<rparr>) = ((), s1)"
    using s(2) su h by (simp add: upd_hs_crypt_def put_crypt_def hs_crypt_def crypt_at_def s1_def)
  have has: "shake_has_data s1" using s(3) by (simp add: s1_def)
  have peer: "hs_crypt_param ?peer = Some pub" "uint (hs_switch_type ?peer) = sw" using sw by (simp_all add: Createcs_body_handshake_def)
  have conf: "cs_shared_conf (hs_crypt s) = Some g" using s(2) set_up_key(2) [OF key, of "Some g"] by simp
  have "run_state (dispatch_handshake_dh_pubkey_req K ?peer step) s = (0, s')"
    using s(5) conf p1 has acc v(1) out(1) f3(1)
    by (simp add: dispatch_handshake_dh_pubkey_req_def peer next_seq_def s3_def [symmetric] hs_msg_def)
  moreover have "says K (Createcs_body_handshake sid step sw '''' e) s s'"
    using out(2) f3(4,5) by (simp add: says_def hdr_off_def)
  moreover have "resting K s' \<and> crypt_ok s' \<and> hs_crypt s' = (keyed (Some g) t v a)\<lparr>cs_param := hex\<rparr> \<and>
      crypt_read s' = Some (crypt_handshake s') \<and> crypt_write s' = Some (crypt_handshake s') \<and> session_id s' = sid \<and>
      shake_switch_secret_type s' = sw \<and> hdr_off s' = hdr_off s \<and>
      check_flag EN_PFT_HANDSHAKE_DONE s' = check_flag EN_PFT_HANDSHAKE_DONE s"
    using out(3,4) f3 by (auto simp: same_shake_def crypt_ok_def hs_crypt_def crypt_at_def hdr_off_def check_flag_def)
  ultimately show ?thesis using v by blast
qed

end
