(* ===== verification/DhVerify.thy ===== *)
theory DhVerify
  imports DhServer
begin

text \<open>The end of a key exchange: the client proves that it has the key, the server reads the proof.\<close>

section \<open>The proof of the key\<close>

lemma verify_mismatch_odd:
  "(\<And>j. j < length xs \<Longrightarrow> j < length ys \<Longrightarrow> odd (i + j) \<Longrightarrow> xs ! j = ys ! j) \<Longrightarrow> \<not> verify_mismatch i xs ys"
proof (induction i xs ys rule: verify_mismatch.induct)
  case (1 i c cs p ps)
  have "cs ! j = ps ! j" if "j < length cs" "j < length ps" "odd (Suc i + j)" for j
    using "1.prems" [of "Suc j"] that by simp
  moreover have "c = p" if "odd i" using "1.prems" [of 0] that by simp
  ultimately show ?case using "1.IH" by auto
qed simp_all

lemma mix_verify_odd [simp]:
  "length (mix_verify rnd out) = length out"
  "j < length out \<Longrightarrow> odd j \<Longrightarrow> mix_verify rnd out ! j = out ! j"
  by (simp_all add: mix_verify_def)

lemma mix_verify_mismatch: "\<not> verify_mismatch 0 (mix_verify rnd (out @ pad) @ pad') out"
  by (rule verify_mismatch_odd) (simp add: nth_append)

lemma send_proof:
  fixes K :: "('c, 'd, 'g, 'b, 'w) link"
  assumes K: "calm K" "resting K s" and t: "t \<noteq> []"
    and s: "crypt_ok s" "hs_crypt s = (keyed conf t v c)\<lparr>cs_param := p\<rparr>" "crypt_write s = Some (crypt_handshake s)"
      "session_id s = sid" "shake_switch_secret_type s = sw"
    and x: "x \<noteq> []" "cipher_encrypt (lk_crypto K) c x tls_length = (r, e, b)" "0 \<le> r"
    and size: "sendable K (Createcs_body_handshake sid EN_HST_VERIFY sw '''' e)"
  shows "\<exists>s'. run_state (send_verify K (Some x)) s = (0, s') \<and>
    says K (Createcs_body_handshake sid EN_HST_VERIFY sw '''' e) s s' \<and> resting K s' \<and> crypt_ok s' \<and>
    hs_crypt s' = (keyed conf t v b)\<lparr>cs_param := p\<rparr> \<and> crypt_write s' = Some (crypt_handshake s') \<and>
    crypt_read s' = crypt_read s \<and> crypt_handshake s' = crypt_handshake s \<and> session_id s' = sid \<and>
    shake_switch_secret_type s' = sw \<and> hdr_off s' = hdr_off s \<and> flags s' = flags s"
proof -
  let ?h = "crypt_handshake s"
  have h: "?h < length (crypt_heap s)" using s(1) by (simp add: crypt_ok_def)
  have open_s: "\<not> check_flag EN_PFT_CLOSING s" using K(2) by (simp add: resting_def)
  define s1 where "s1 = (put_crypt ?h ((keyed conf t v b)\<lparr>cs_param := p\<rparr>) s)\<lparr>g_seq := alloc_seq (g_seq s)\<rparr>"
  have enc: "run_state (encrypt_data K ?h (Some x) None) s = ((0, Some e), put_crypt ?h ((keyed conf t v b)\<lparr>cs_param := p\<rparr>) s)"
    using run_encrypt [where i = "?h" and conf = conf and v = v and p = p and ?out0.0 = None, OF open_s _ t x(1) x(2,3)] s(2)
    by (simp add: hs_crypt_def)
  have f1: "write_buffers s1 = write_buffers s" "flags s1 = flags s" "trace s1 = trace s" "crypt_ok s1"
    "write_header_offset s1 = write_header_offset s" "hs_crypt s1 = (keyed conf t v b)\<lparr>cs_param := p\<rparr>"
    "crypt_handshake s1 = ?h" "crypt_write s1 = Some ?h" "crypt_read s1 = crypt_read s" "session_id s1 = sid"
    "shake_switch_secret_type s1 = sw"
    using h s by (simp_all add: s1_def put_crypt_def crypt_ok_def hs_crypt_def crypt_at_def)
  have "resting K s1" using K(2) f1(1,2) by (simp add: resting_def write_blocks_def check_flag_def)
  then obtain s' where out: "run_state (write_msg K (hs_msg (alloc_seq (g_seq s)) (Createcs_body_handshake sid EN_HST_VERIFY sw '''' e))) s1 = (0, s')"
      "says K (Createcs_body_handshake sid EN_HST_VERIFY sw '''' e) s1 s'" "same_shake s1 s'" "resting K s'"
    using write_hs_msg [OF K(1) _ size] by blast
  have put: "g_seq (put_crypt ?h y s) = g_seq s" "session_id (put_crypt ?h y s) = sid" "shake_switch_secret_type (put_crypt ?h y s) = sw" for y
    using s(4,5) by (simp_all add: put_crypt_def)
  have "run_state (send_verify K (Some x)) s = (0, s')"
    using open_s s(3,4) x(1) enc out(1) put calm_write_fn [OF K(1)]
    by (simp add: send_verify_def send_msg_def next_seq_def hs_msg_def s1_def)
  moreover have "says K (Createcs_body_handshake sid EN_HST_VERIFY sw '''' e) s s'"
    using out(2) f1(3,5) by (simp add: says_def hdr_off_def)
  ultimately show ?thesis
    using out(3,4) f1 by (auto simp: same_shake_def crypt_ok_def hs_crypt_def crypt_at_def hdr_off_def)
qed

text \<open>Ending the handshake of a side that has the key for both directions.\<close>

lemma end_keyed:
  fixes K :: "('c, 'd, 'g, 'b, 'w) link"
  assumes K: "calm K" and open_s: "\<not> check_flag EN_PFT_CLOSING s"
    and s: "crypt_ok s" "hs_crypt s = (keyed conf t v c)\<lparr>cs_param := p\<rparr>" "crypt_write s = Some (crypt_handshake s)"
      "crypt_read s = Some (crypt_handshake s)" "session_id s = sid" "\<not> check_flag EN_PFT_HANDSHAKE_DONE s"
  shows "\<exists>s'. run_state (close_handshake K 0) s = ((), s') \<and> keyed_side s' sid t v c \<and> hdr_off s' = hdr_off s \<and>
    write_blocks K s' = write_blocks K s \<and> writes (trace s') = writes (trace s) \<and>
    check_flag EN_PFT_WRITING s' = check_flag EN_PFT_WRITING s \<and> \<not> check_flag EN_PFT_CLOSING s'"
proof -
  obtain s' where s': "run_state (close_handshake K 0) s = ((), s')" "ended_shake s s'"
    using close_handshake_calm [OF K, of s 0] s(6) by auto
  then obtain f tr w d where e: "s' = (upd_hs_crypt (\<lambda>cs. cs\<lparr>cs_param := []\<rparr>) s)\<lparr>shake_has_data := False,
       shake_dh_ctx := d, flags := f, trace := tr, g_world := w\<rparr>" "writes tr = writes (trace s)"
     "\<And>t. word_check f (pft_mask t) =
       (if t = EN_PFT_HANDSHAKE_DONE then True else if t = EN_PFT_HANDSHAKE_UPDATE then False else check_flag t s)"
    unfolding ended_shake_def by blast
  have flag: "check_flag t s' =
      (if t = EN_PFT_HANDSHAKE_DONE then True else if t = EN_PFT_HANDSHAKE_UPDATE then False else check_flag t s)" for t
    using e(3) by (simp add: e(1) check_flag_def)
  have p: "(keyed conf t v c)\<lparr>cs_param := []\<rparr> = keyed conf t v c" by (simp add: keyed_def)
  have f: "crypt_ok s'" "hs_crypt s' = keyed conf t v c" "crypt_write s' = Some (crypt_handshake s')"
    "crypt_read s' = Some (crypt_handshake s')" "session_id s' = sid" "hdr_off s' = hdr_off s"
    "write_blocks K s' = write_blocks K s" "writes (trace s') = writes (trace s)"
    using s e(2) p by (simp_all add: e(1) upd_hs_crypt_def put_crypt_def crypt_ok_def hs_crypt_def crypt_at_def hdr_off_def write_blocks_def)
  then have "keyed_side s' sid t v c" using flag unfolding keyed_side_def by auto
  then show ?thesis using s'(1) f flag open_s by auto
qed

lemma client_proves:
  fixes K :: "('c, 'd, 'g, 'b, 'w) link"
  assumes K: "calm K" "resting K s" and t: "t \<noteq> []"
    and s: "crypt_ok s" "hs_crypt s = (keyed (Some g) t v c)\<lparr>cs_param := p\<rparr>" "crypt_write s = Some (crypt_handshake s)"
      "session_id s = sid" "shake_switch_secret_type s = sw" "\<not> check_flag EN_PFT_HANDSHAKE_DONE s" "sid \<noteq> 0"
    and dec: "cipher_decrypt (lk_crypto K) c e tls_length = (r, got, b)" "0 \<le> r" "e \<noteq> []" "fits got"
    and enc: "\<forall>x. length x = length got \<longrightarrow> passes (lk_crypto K) S B b a x"
    and size: "\<And>p. length p \<le> tls_length \<Longrightarrow> sendable K (Createcs_body_handshake sid EN_HST_VERIFY sw '''' p)"
  shows "\<exists>s' rnd pad e' r' a' b'. run_state (dispatch_handshake_dh_pubkey_rsp K (Createcs_body_handshake sid step sw' '''' e)) s = (0, s') \<and>
    says K (Createcs_body_handshake sid EN_HST_VERIFY sw '''' e') s s' \<and> resting K s' \<and> keyed_side s' sid t v b' \<and>
    hdr_off s' = hdr_off s \<and> cipher_decrypt (lk_crypto K) a e' tls_length = (r', mix_verify rnd got @ pad, a') \<and> 0 \<le> r' \<and>
    S b' a' \<and> length got \<le> length e' \<and> length e' \<le> tls_length"
proof -
  let ?L = "lk_crypto K" and ?h = "crypt_handshake s"
  have h: "?h < length (crypt_heap s)" using s(1) by (simp add: crypt_ok_def)
  have open_s: "\<not> check_flag EN_PFT_CLOSING s" using K(2) by (simp add: resting_def)
  define s1 where "s1 = use_hs_read (put_crypt ?h ((keyed (Some g) t v b)\<lparr>cs_param := p\<rparr>) s)"
  have d: "run_state (decrypt_data K ?h (Some e) None) s = ((0, Some got), put_crypt ?h ((keyed (Some g) t v b)\<lparr>cs_param := p\<rparr>) s)"
    using run_decrypt [where i = "?h" and conf = "Some g" and v = v and p = p and ?out0.0 = None, OF open_s _ t dec(3,1,2)] s(2)
    by (simp add: hs_crypt_def)
  define rnd where "rnd = vec_resize (length got) (snd (dhs_random ?L (gc_dh g) (g_draws s1) (length got)))"
  define s2 where "s2 = s1\<lparr>g_draws := Suc (g_draws s1)\<rparr>"
  have rb: "\<exists>q. run_state (random_bytes K (gc_dh g) (length got)) s1 = ((q, rnd), s2)"
    by (simp add: random_bytes_def rnd_def s2_def split: prod.split)
  have f2: "write_buffers s2 = write_buffers s" "flags s2 = flags s" "trace s2 = trace s" "crypt_ok s2"
    "write_header_offset s2 = write_header_offset s" "hs_crypt s2 = (keyed (Some g) t v b)\<lparr>cs_param := p\<rparr>"
    "crypt_handshake s2 = ?h" "crypt_write s2 = Some ?h" "crypt_read s2 = Some ?h" "session_id s2 = sid"
    "shake_switch_secret_type s2 = sw" "cs_shared_conf (hs_crypt s1) = Some g"
    using h s by (simp_all add: s2_def s1_def use_hs_read_def put_crypt_def crypt_ok_def hs_crypt_def crypt_at_def keyed_def)
  have rest2: "resting K s2" using K(2) f2(1,2) by (simp add: resting_def write_blocks_def check_flag_def)
  obtain q e' b' r' pad a' where p: "cipher_encrypt ?L b (mix_verify rnd got) tls_length = (q, e', b')" "0 \<le> q"
    "cipher_decrypt ?L a e' tls_length = (r', mix_verify rnd got @ pad, a')" "0 \<le> r'" "length pad \<le> B" "S b' a'" "length got \<le> length e'" "length e' \<le> tls_length"
    using enc mix_verify_odd(1) [of rnd got] unfolding passes_def by metis
  have ne: "mix_verify rnd got \<noteq> []" using dec(4) mix_verify_odd(1) [of rnd got] unfolding fits_def by (metis length_0_conv)
  have cw2: "crypt_write s2 = Some (crypt_handshake s2)" using f2(7,8) by simp
  obtain s3 where s3: "run_state (send_verify K (Some (mix_verify rnd got))) s2 = (0, s3)"
    "says K (Createcs_body_handshake sid EN_HST_VERIFY sw '''' e') s2 s3" "resting K s3" "crypt_ok s3"
    "hs_crypt s3 = (keyed (Some g) t v b')\<lparr>cs_param := p\<rparr>" "crypt_write s3 = Some (crypt_handshake s3)"
    "crypt_read s3 = crypt_read s2" "crypt_handshake s3 = crypt_handshake s2" "session_id s3 = sid" "hdr_off s3 = hdr_off s2" "flags s3 = flags s2"
    using send_proof [OF K(1) rest2 t f2(4,6) cw2 f2(10,11) ne p(1,2) size [OF p(8)]] by blast
  have s3': "\<not> check_flag EN_PFT_CLOSING s3" "crypt_read s3 = Some (crypt_handshake s3)" "\<not> check_flag EN_PFT_HANDSHAKE_DONE s3"
    using s3(3,7,8,11) f2(2,7,9) s(6) by (simp_all add: resting_def check_flag_def)
  obtain s4 where s4: "run_state (close_handshake K 0) s3 = ((), s4)" "keyed_side s4 sid t v b'" "hdr_off s4 = hdr_off s3"
    "write_blocks K s4 = write_blocks K s3" "writes (trace s4) = writes (trace s3)"
    "check_flag EN_PFT_WRITING s4 = check_flag EN_PFT_WRITING s3" "\<not> check_flag EN_PFT_CLOSING s4"
    using end_keyed [OF K(1) s3'(1) s3(4,5,6) s3'(2) s3(9) s3'(3)] by blast
  have body: "hs_session_id (Createcs_body_handshake sid step sw' '''' e) = sid" "hs_crypt_param (Createcs_body_handshake sid step sw' '''' e) = Some e"
    by (simp_all add: Createcs_body_handshake_def)
  have "run_state (dispatch_handshake_dh_pubkey_rsp K (Createcs_body_handshake sid step sw' '''' e)) s = (0, s4)"
    using rb s(7) d s3(1) s4(1) f2(12)
    by (auto simp: dispatch_handshake_dh_pubkey_rsp_def body s1_def [symmetric])
  moreover have "says K (Createcs_body_handshake sid EN_HST_VERIFY sw '''' e') s s4"
    using s3(2) s4(5) f2(3,5) by (simp add: says_def hdr_off_def)
  moreover have "resting K s4" using s3(3) s4(4,6,7) by (simp add: resting_def)
  moreover have "hdr_off s4 = hdr_off s" using s4(3) s3(10) f2(5) by (simp add: hdr_off_def)
  ultimately show ?thesis using s4(2) p by blast
qed

section \<open>The server reads it\<close>

lemma server_convinced:
  fixes K :: "('c, 'd, 'g, 'b, 'w) link"
  assumes K: "calm K" and open_s: "\<not> check_flag EN_PFT_CLOSING s" and t: "t \<noteq> []"
    and s: "crypt_ok s" "hs_crypt s = (keyed conf t v c)\<lparr>cs_param := hex\<rparr>" "crypt_write s = Some (crypt_handshake s)"
      "crypt_read s = Some (crypt_handshake s)" "session_id s = sid" "\<not> check_flag EN_PFT_HANDSHAKE_DONE s"
      "shake_switch_secret_type s = sw" "dh_switch sw"
    and dec: "cipher_decrypt (lk_crypto K) c e tls_length = (r, mix_verify rnd (hex @ pad) @ pad', c')" "0 \<le> r" "hex \<noteq> []" "length hex \<le> length e"
  shows "\<exists>s'. run_state (dispatch_handshake_verify_ntf K (Createcs_body_handshake sid EN_HST_VERIFY sw '''' e)) s = (0, s') \<and>
    keyed_side s' sid t v c' \<and> \<not> check_flag EN_PFT_CLOSING s'"
proof -
  let ?h = "crypt_handshake s" and ?body = "Createcs_body_handshake sid EN_HST_VERIFY sw '''' e"
  have sw: "uint (word_of_int sw :: byte) = sw" "(sw = sst EN_SST_DIRECT) = False" using s(8) by (auto simp: dh_switch_def)
  have h: "?h < length (crypt_heap s)" using s(1) by (simp add: crypt_ok_def)
  have ne: "e \<noteq> []" using dec(3,4) by auto
  define s1 where "s1 = put_crypt ?h ((keyed conf t v c')\<lparr>cs_param := hex\<rparr>) s"
  have d: "run_state (decrypt_data K ?h (Some e) None) s = ((0, Some (mix_verify rnd (hex @ pad) @ pad')), s1)"
    using run_decrypt [where i = "?h" and conf = conf and v = v and p = hex and ?out0.0 = None, OF open_s _ t ne dec(1,2)] s(2)
    by (simp add: hs_crypt_def s1_def)
  have f1: "crypt_ok s1" "hs_crypt s1 = (keyed conf t v c')\<lparr>cs_param := hex\<rparr>" "crypt_write s1 = Some (crypt_handshake s1)"
    "crypt_read s1 = Some (crypt_handshake s1)" "session_id s1 = sid" "\<not> check_flag EN_PFT_HANDSHAKE_DONE s1"
    "\<not> check_flag EN_PFT_CLOSING s1"
    using h s open_s by (simp_all add: s1_def put_crypt_def crypt_ok_def hs_crypt_def crypt_at_def check_flag_def)
  obtain s2 where s2: "run_state (close_handshake K 0) s1 = ((), s2)" "keyed_side s2 sid t v c'" "\<not> check_flag EN_PFT_CLOSING s2"
    using end_keyed [OF K f1(7,1-6)] by blast
  have param: "cs_param (crypt_at ?h s) = hex" using s(2) by (simp add: hs_crypt_def)
  have body: "uint (hs_switch_type ?body) = sw" "hs_crypt_param ?body = Some e" using sw(1) by (simp_all add: Createcs_body_handshake_def)
  have "run_state (dispatch_handshake_verify_ntf K ?body) s = (0, s2)"
    using s(4,7) param dec(3,4) d s2(1) sw(2) mix_verify_mismatch [of rnd hex pad pad']
    by (simp add: dispatch_handshake_verify_ntf_def body crypt_at_def del: sst.simps)
  then show ?thesis using s2(2,3) by blast
qed

end
