(* ===== verification/HandshakeAgree.thy ===== *)
theory HandshakeAgree
  imports ProtoMeet Examples
begin

text \<open>
  The whole handshake with a direct secret: the client starts a session, and each side is given what the other
  one sent last. The last definitions and theorems say what the two sides hold at the end.
\<close>

section \<open>The exchange\<close>

definition shake_hands ::
  "('c, 'd, 'g, 'b, 'w) link \<Rightarrow> ('c, 'd, 'g, 'b, 'w) link \<Rightarrow> string \<Rightarrow> ('c, 'd, 'g, 'b, 'w) proto_env \<Rightarrow> ('c, 'd, 'g, 'b, 'w) proto_env \<Rightarrow>
   ('c, 'd, 'g, 'b, 'w) proto_env \<times> ('c, 'd, 'g, 'b, 'w) proto_env" where
  "shake_hands K K' ty c s =
     (let c1 = snd (run_state (start_session K ty) c);
          s1 = snd (run_state (dispatch_data K' (last_payload c1) 0) s);
          c2 = snd (run_state (dispatch_data K (last_payload s1) 0) c1);
          s2 = snd (run_state (dispatch_data K' (last_payload c2) 0) s1)
      in (c2, s2))"

text \<open>An object before its first handshake.\<close>

definition unshaken :: "('c, 'd, 'g, 'b, 'w) link \<Rightarrow> ('c, 'd, 'g, 'b, 'w) proto_env \<Rightarrow> bool" where
  "unshaken K s \<longleftrightarrow> resting K s \<and> crypt_ok s \<and> hs_crypt s = crypt_session_new (lk_crypto K) \<and>
     \<not> shake_has_data s \<and> \<not> check_flag EN_PFT_HANDSHAKE_DONE s"

lemma unshaken_same:
  assumes "unshaken K s" and "same_shake s s'" and "resting K s'"
  shows "unshaken K s'"
  using assms by (auto simp: unshaken_def same_shake_def crypt_ok_def hs_crypt_def crypt_at_def check_flag_def)

lemma unshaken_log: "unshaken K s \<Longrightarrow> unshaken K (log_event e s)"
  by (simp add: unshaken_def resting_def write_blocks_def check_flag_def log_event_def crypt_ok_def hs_crypt_def crypt_at_def)

lemma says_hdr:
  assumes "says K body (log_event e s) s'" and "writes [e] = []" shows "says K body s s'"
  using assms by (simp add: says_def log_event_def hdr_off_def)

lemma agreed:
  fixes K K' :: "('c, 'd, 'g, 'b, 'w) link"
  assumes same: "lk_crypto K' = lk_crypto K" "lk_fb K' = lk_fb K"
    and calm: "calm K" "calm K'" and grants: "grants K' sid"
    and client: "unshaken K c" "session_id c = 0" "\<And>g. g_current c = Some g \<Longrightarrow> conf_type (gc_conf g) \<noteq> []"
    and server: "unshaken K' s" "g_current s = Some g" "direct_conf g"
    and choice: "ty \<noteq> []" "peer_tokens K' ty \<noteq> []" "select_crypt_type g (peer_tokens K' ty) = t"
    and key: "direct_key (lk_crypto K) g (g_draws s) t v ci"
    and size: "sendable K (Createcs_body_handshake 0 EN_HST_START_REQ (sst EN_SST_DIRECT) ty [])"
      "sendable K (Createcs_body_handshake sid EN_HST_START_RSP (sst EN_SST_DIRECT) t v)"
      "sendable K (Createcs_body_handshake sid EN_HST_VERIFY (sst EN_SST_DIRECT) '''' [])"
    and run: "shake_hands K K' ty c s = (c', s')"
  shows "keyed_side c' sid t v ci" and "keyed_side s' sid t v ci"
    and "\<not> check_flag EN_PFT_CLOSING c'" and "\<not> check_flag EN_PFT_CLOSING s'"
proof -
  have sid: "sid \<noteq> 0" using grants by (simp add: grants_def)
  have size': "sendable K' (Createcs_body_handshake sid EN_HST_START_RSP (sst EN_SST_DIRECT) t v)"
    using size(2) by (simp add: sendable_def same)
  have parse: "fb_parse (lk_fb K) (fb_pack (lk_fb K) (hs_msg sq body)) = Some (hs_msg sq body)" if "sendable K body" for sq body
    using that by (simp add: sendable_def)
  obtain c1 where c1: "run_state (start_session K ty) c = (0, c1)" "same_shake c c1" "resting K c1"
    "says K (Createcs_body_handshake 0 EN_HST_START_REQ (sst EN_SST_DIRECT) ty []) c c1"
    using client_asks [OF calm(1) _ client(2) size(1)] client(1) by (auto simp: unshaken_def)
  have un1: "unshaken K c1" using unshaken_same [OF client(1) c1(2,3)] .
  obtain sq1 where p1: "last_payload c1 = fb_pack (lk_fb K) (hs_msg sq1 (Createcs_body_handshake 0 EN_HST_START_REQ (sst EN_SST_DIRECT) ty []))"
    using says_payload [OF c1(4)] c1(2) by (auto simp: same_shake_def hdr_off_def)
  define s0 where "s0 = log_event (EvFrame (last_payload c1) 0) s"
  have un0: "unshaken K' s0" using unshaken_log [OF server(1)] by (simp add: s0_def)
  have g0: "g_current s0 = Some g" "g_draws s0 = g_draws s" using server(2) by (simp_all add: s0_def log_event_def)
  obtain s1 where s1: "run_state (dispatch_handshake_start_req K' (Createcs_body_handshake 0 EN_HST_START_REQ (sst EN_SST_DIRECT) ty [])) s0 = (0, s1)"
    "says K' (Createcs_body_handshake sid EN_HST_START_RSP (sst EN_SST_DIRECT) t v) s0 s1" "resting K' s1" "crypt_ok s1"
    "hs_crypt s1 = keyed (Some g) t v ci" "crypt_write s1 = Some (crypt_handshake s1)"
    "session_id s1 = sid" "shake_switch_secret_type s1 = 0" "hdr_off s1 = hdr_off s0"
    "\<not> check_flag EN_PFT_HANDSHAKE_DONE s1"
    using server_answers [OF calm(2) grants, of s0 g "Createcs_body_handshake 0 EN_HST_START_REQ (sst EN_SST_DIRECT) ty []" ty t v ci]
      un0 g0 server(3) choice key size' by (auto simp: unshaken_def same Createcs_body_handshake_def)
  have h1: "run_state (dispatch_data K' (last_payload c1) 0) s = ((), s1)"
    using server(1) s1(1) parse [OF size(1)]
    by (intro heard [where body = "Createcs_body_handshake 0 EN_HST_START_REQ (sst EN_SST_DIRECT) ty []" and sq = sq1])
      (auto simp: p1 same unshaken_def resting_def dispatch_step_def s0_def Createcs_body_handshake_def)
  obtain sq2 where p2: "last_payload s1 = fb_pack (lk_fb K) (hs_msg sq2 (Createcs_body_handshake sid EN_HST_START_RSP (sst EN_SST_DIRECT) t v))"
    using says_payload [OF s1(2,9)] by (auto simp: same)
  define c0 where "c0 = log_event (EvFrame (last_payload s1) 0) c1"
  have unc: "unshaken K c0" using unshaken_log [OF un1] by (simp add: c0_def)
  have gc: "g_current c0 = g_current c" using c1(2) by (simp add: c0_def log_event_def same_shake_def)
  obtain c2 where c2: "run_state (dispatch_handshake_start_rsp K (Createcs_body_handshake sid EN_HST_START_RSP (sst EN_SST_DIRECT) t v)) c0 = (0, c2)"
    "says K (Createcs_body_handshake sid EN_HST_VERIFY (sst EN_SST_DIRECT) [] []) c0 c2" "resting K c2" "keyed_side c2 sid t v ci" "hdr_off c2 = hdr_off c0"
    using client_takes [OF calm(1), of c0 g "g_draws s" t v ci sid] unc gc client(3) key select_lower [OF choice(3)] sid size(3)
    by (auto simp: unshaken_def)
  have h2: "run_state (dispatch_data K (last_payload s1) 0) c1 = ((), c2)"
    using un1 c2(1) parse [OF size(2)]
    by (intro heard [where body = "Createcs_body_handshake sid EN_HST_START_RSP (sst EN_SST_DIRECT) t v" and sq = sq2])
      (auto simp: p2 unshaken_def resting_def dispatch_step_def c0_def Createcs_body_handshake_def)
  have "hdr_off c2 = hdr_off c0" using c2(5) .
  then obtain sq3 where p3: "last_payload c2 = fb_pack (lk_fb K) (hs_msg sq3 (Createcs_body_handshake sid EN_HST_VERIFY (sst EN_SST_DIRECT) [] []))"
    using says_payload [OF c2(2)] by auto
  define s1' where "s1' = log_event (EvFrame (last_payload c2) 0) s1"
  obtain s2 where s2: "run_state (dispatch_handshake_verify_ntf K' (Createcs_body_handshake sid EN_HST_VERIFY (sst EN_SST_DIRECT) [] [])) s1' = (0, s2)"
    "keyed_side s2 sid t v ci" "\<not> check_flag EN_PFT_CLOSING s2"
    using server_told [OF calm(2), of s1' "Some g" t v ci sid] s1(3-8,10)
    by (auto simp: s1'_def log_event_def resting_def check_flag_def crypt_ok_def hs_crypt_def crypt_at_def)
  have h3: "run_state (dispatch_data K' (last_payload c2) 0) s1 = ((), s2)"
    using s1(3,10) s2(1) parse [OF size(3)]
    by (intro heard [where body = "Createcs_body_handshake sid EN_HST_VERIFY (sst EN_SST_DIRECT) [] []" and sq = sq3])
      (auto simp: p3 same resting_def dispatch_step_def s1'_def Createcs_body_handshake_def)
  have "c' = c2 \<and> s' = s2" using run c1(1) h1 h2 h3 by (simp add: shake_hands_def Let_def)
  then show "keyed_side c' sid t v ci" "keyed_side s' sid t v ci" "\<not> check_flag EN_PFT_CLOSING c'" "\<not> check_flag EN_PFT_CLOSING s'"
    using c2(3,4) s2(2,3) by (auto simp: resting_def)
qed

section \<open>What the two sides hold\<close>

text \<open>What the key \<open>c\<close> makes of \<open>x\<close> is \<open>e\<close>, and the same key makes \<open>x\<close> of that.\<close>

definition undone_by :: "('c, 'd, 'g) crypto_lib \<Rightarrow> 'c \<Rightarrow> byte list \<Rightarrow> byte list \<Rightarrow> bool" where
  "undone_by L c x e \<longleftrightarrow> x \<noteq> [] \<and> e \<noteq> [] \<and>
     0 \<le> fst (cipher_encrypt L c x tls_length) \<and> fst (snd (cipher_encrypt L c x tls_length)) = e \<and>
     0 \<le> fst (cipher_decrypt L c e tls_length) \<and> fst (snd (cipher_decrypt L c e tls_length)) = x"

lemma keyed_encodes:
  assumes "keyed_side s sid t v c" and "\<not> check_flag EN_PFT_CLOSING s" and "t \<noteq> []" and "undone_by (lk_crypto K) c x e"
  shows "fst (run_state (encode_post K (Some x)) s) = (0, Some e)" and "fst (run_state (decode_post K (Some e)) s) = (0, Some x)"
proof -
  obtain conf where k: "crypt_at (crypt_handshake s) s = keyed conf t v c" "crypt_write s = Some (crypt_handshake s)"
    "crypt_read s = Some (crypt_handshake s)"
    using assms(1) by (auto simp: keyed_side_def hs_crypt_def)
  obtain r k1 r' k2 where e: "cipher_encrypt (lk_crypto K) c x tls_length = (r, e, k1)" "0 \<le> r"
    "cipher_decrypt (lk_crypto K) c e tls_length = (r', x, k2)" "0 \<le> r'" "x \<noteq> []" "e \<noteq> []"
    using assms(4) unfolding undone_by_def by (metis prod.collapse)
  show "fst (run_state (encode_post K (Some x)) s) = (0, Some e)" "fst (run_state (decode_post K (Some e)) s) = (0, Some x)"
    using assms(2,3) k e by (simp_all add: encode_post_def decode_post_def encrypt_data_def decrypt_data_def keyed_def)
qed

text \<open>
  C92: The handshake with a direct secret, both sides followed: a client that was never shaken starts a session
  with a list of cipher names, the server (whose configuration sends the secret directly, whose engine grants the
  session \<open>sid\<close> and whose library makes the secret \<open>v\<close> and the keyed cipher \<open>ci\<close> of the name \<open>t\<close> it picks from
  the list) answers, the client follows and verifies, the server reads that. Each is given exactly what the other
  one sent. Then both are through the handshake as the session \<open>sid\<close>, with the type \<open>t\<close>, the secret \<open>v\<close> and the
  same keyed cipher for both directions; and what one encodes the other decodes, both ways.
\<close>

theorem direct_handshake_agrees:
  fixes K K' :: "('c, 'd, 'g, 'b, 'w) link"
  assumes same: "lk_crypto K' = lk_crypto K" "lk_fb K' = lk_fb K"
    and calm: "calm K" "calm K'" and grants: "grants K' sid"
    and client: "unshaken K c" "session_id c = 0" "\<And>g. g_current c = Some g \<Longrightarrow> conf_type (gc_conf g) \<noteq> []"
    and server: "unshaken K' s" "g_current s = Some g" "direct_conf g"
    and choice: "ty \<noteq> []" "peer_tokens K' ty \<noteq> []" "select_crypt_type g (peer_tokens K' ty) = t"
    and key: "direct_key (lk_crypto K) g (g_draws s) t v ci"
    and size: "sendable K (Createcs_body_handshake 0 EN_HST_START_REQ (sst EN_SST_DIRECT) ty [])"
      "sendable K (Createcs_body_handshake sid EN_HST_START_RSP (sst EN_SST_DIRECT) t v)"
      "sendable K (Createcs_body_handshake sid EN_HST_VERIFY (sst EN_SST_DIRECT) [] [])"
    and run: "shake_hands K K' ty c s = (c', s')"
  shows "keyed_side c' sid t v ci \<and> keyed_side s' sid t v ci \<and>
    (\<forall>x e. undone_by (lk_crypto K) ci x e \<longrightarrow>
       fst (run_state (encode_post K (Some x)) c') = (0, Some e) \<and> fst (run_state (decode_post K' (Some e)) s') = (0, Some x) \<and>
       fst (run_state (encode_post K' (Some x)) s') = (0, Some e) \<and> fst (run_state (decode_post K (Some e)) c') = (0, Some x))"
proof -
  note ends = agreed [OF same calm grants client server choice key size run]
  have t: "t \<noteq> []" using key by (simp add: direct_key_def)
  show ?thesis
    using keyed_encodes [OF ends(1,3) t, where K = K] keyed_encodes [OF ends(2,4) t, where K = K'] ends(1,2)
    by (simp add: same(1))
qed

section \<open>An instance\<close>

text \<open>A codec of handshake messages, and the library, the engine and the objects of the other examples.\<close>

definition ex_le64 :: "u64 \<Rightarrow> byte list" where
  "ex_le64 w = le32_bytes (ucast w) @ le32_bytes (ucast (drop_bit 32 w))"

definition ex_read64 :: "byte list \<Rightarrow> u64" where
  "ex_read64 bs = ucast (le32_read bs) OR push_bit 32 (ucast (le32_read (drop 4 bs)))"

lemma ex_read64_bytes [simp]: "ex_read64 (ex_le64 w @ xs) = w"
proof -
  have "ucast (ucast w :: u32) OR push_bit 32 (ucast (ucast (drop_bit 32 w) :: u32)) = w"
    by (rule bit_word_eqI) (auto simp: bit_simps)
  then show ?thesis by (simp add: ex_read64_def ex_le64_def)
qed

definition ex_shake_fb :: fb_codec where
  "ex_shake_fb = \<lparr>fb_pack = (\<lambda>m. case (msg_head m, msg_body m) of
        (Some h, Body_handshake (Some b)) \<Rightarrow>
          (case (hs_crypt_type b, hs_crypt_param b) of
             (Some ty, Some p) \<Rightarrow> hs_step b # hs_switch_type b # ex_le64 (head_sequence h) @ ex_le64 (hs_session_id b) @
               word_of_nat (length ty) # bytes_of_string ty @ p
           | _ \<Rightarrow> [9])
      | _ \<Rightarrow> [9]),
     fb_parse = (\<lambda>bs. case bs of
        st # sw # r \<Rightarrow> (let n = unat (hd (drop 16 r)); q = drop 17 r
          in Some (hs_msg (ex_read64 r) \<lparr>hs_session_id = ex_read64 (drop 8 r), hs_step = st, hs_switch_type = sw,
               hs_crypt_type = Some (map (\<lambda>b. char_of (unat b)) (take n q)), hs_crypt_param = Some (drop n q), hs_switch_param = None\<rparr>))
      | _ \<Rightarrow> None)\<rparr>"

definition ex_shake_link :: "(byte list, byte list, unit, bblock list, unit) link" where
  "ex_shake_link = ex_link\<lparr>lk_fb := ex_shake_fb\<rparr>"

lemma ex_chars [simp]: "map (\<lambda>b. char_of (unat b)) (bytes_of_string s) = s"
proof (induction s)
  case (Cons c s)
  have "unat (word_of_nat (of_char c) :: byte) = (of_char c :: nat)" by (simp add: unat_of_nat take_bit_nat_eq_self)
  then show ?case using Cons by (simp add: bytes_of_string_def)
qed (simp add: bytes_of_string_def)

lemma ex_shake_sendable:
  assumes "length ty < 256" and "length p \<le> tls_length"
  shows "sendable ex_shake_link (Createcs_body_handshake sid st sw ty p)"
proof -
  have n: "unat (word_of_nat (length ty) :: byte) = length ty" using assms(1) by (simp add: unat_of_nat take_bit_nat_eq_self)
  have len: "length (ex_le64 w) = 8" for w by (simp add: ex_le64_def)
  show ?thesis
    using assms n
    by (simp add: sendable_def ex_shake_link_def ex_shake_fb_def hs_msg_def Createcs_msg_def Createcs_msg_head_def
        Createcs_body_handshake_def len tls_length_def Let_def)
qed

definition ex_shake_conf :: "unit global_conf" where
  "ex_shake_conf = snd (global_conf_init ex_crypto (global_conf_new ex_crypto (default_crypt_configure\<lparr>conf_type := ''xtea''\<rparr>)))"

lemma ex_world_only: "world_only (ret x :: (ex_env, int) state)"
proof -
  have "run_state (ret x) s = (x, s\<lparr>g_world := g_world s\<rparr>)" for s :: ex_env by simp
  then show ?thesis unfolding world_only_def by blast
qed

lemma ex_shake_calm: "calm ex_shake_link"
proof -
  have k: "lk_buf ex_shake_link = ex_buf" "lk_fuel ex_shake_link = 4" "lk_cb ex_shake_link = Some ex_callbacks"
    by (simp_all add: ex_shake_link_def ex_link_def)
  have cb: "write_fn ex_callbacks = Some (\<lambda>bs. ret (0, True))" "on_handshake_done_fn ex_callbacks = Some (\<lambda>st. ret 0)"
    "on_handshake_update_fn ex_callbacks = Some (\<lambda>st. ret 0)"
    by (simp_all add: ex_callbacks_def)
  have push: "fst (bm_push_back ex_buf b n) = 0" for b n by (simp add: ex_buf_def)
  show ?thesis
    unfolding calm_def k using ex_buf_ok ex_prompt ex_world_only [of 0] push cb by auto
qed

lemma ex_shake_grants: "grants ex_shake_link 7"
proof -
  have "run_state (ret (0, 7)) s = ((0, 7), s\<lparr>g_world := g_world s\<rparr>)" for s :: ex_env by simp
  moreover have "lk_cb ex_shake_link = Some ex_callbacks" "new_session_fn ex_callbacks = Some (\<lambda>sid. ret (0, 7))"
    by (simp_all add: ex_shake_link_def ex_link_def ex_callbacks_def)
  ultimately show ?thesis unfolding grants_def by (auto intro!: exI)
qed

lemma ex_shake_key: "direct_key ex_crypto ex_shake_conf 0 ''xtea'' [0, 0] [0, 0]"
proof -
  have r: "replicate 2 (0 :: byte) = [0, 0]" by (simp add: numeral_2_eq_2)
  show ?thesis
    by (simp add: direct_key_def ex_crypto_def swap_secret_core_def vec_resize_def Let_def r)
qed

lemma ex_unshaken: "unshaken ex_shake_link (ex_state\<lparr>g_current := x\<rparr>)"
  by (simp add: unshaken_def resting_def write_blocks_def ex_shake_link_def ex_defs crypt_ok_def hs_crypt_def crypt_at_def
      crypt_session_new_def check_flag_def)

theorem direct_handshake_agrees_witness:
  "\<exists>c s. shake_hands ex_shake_link ex_shake_link ''xtea'' ex_state (ex_state\<lparr>g_current := Some ex_shake_conf\<rparr>) = (c, s) \<and>
     keyed_side c 7 ''xtea'' [0, 0] [0, 0] \<and> keyed_side s 7 ''xtea'' [0, 0] [0, 0] \<and>
     fst (run_state (encode_post ex_shake_link (Some [1, 2])) c) = (0, Some [84, 87]) \<and>
     fst (run_state (decode_post ex_shake_link (Some [84, 87])) s) = (0, Some [1, 2])"
proof -
  have k: "lk_crypto ex_shake_link = ex_crypto" by (simp add: ex_shake_link_def ex_link_def)
  have u: "undone_by ex_crypto [0, 0] [1, 2] [84, 87]" by (simp add: undone_by_def ex_crypto_def)
  have conf: "direct_conf ex_shake_conf" "select_crypt_type ex_shake_conf (peer_tokens ex_shake_link ''xtea'') = ''xtea''"
    "peer_tokens ex_shake_link ''xtea'' \<noteq> []"
    by (simp_all add: direct_conf_def ex_shake_conf_def global_conf_init_def global_conf_new_def global_conf_close_def
        default_crypt_configure_def ex_crypto_def k peer_tokens_def select_crypt_type_def check_type_def tolower_ch_def Let_def
        numeral_nat)
  have c: "unshaken ex_shake_link ex_state" "session_id ex_state = 0" "g_current ex_state = None" "g_draws ex_state = 0"
    using ex_unshaken [of None] by (simp_all add: ex_defs)
  obtain c' s' where run: "shake_hands ex_shake_link ex_shake_link ''xtea'' ex_state (ex_state\<lparr>g_current := Some ex_shake_conf\<rparr>) = (c', s')"
    by fastforce
  show ?thesis
    using direct_handshake_agrees [OF refl refl ex_shake_calm ex_shake_calm ex_shake_grants c(1,2) _ ex_unshaken _ conf(1) _ conf(3,2)
        _ ex_shake_sendable ex_shake_sendable ex_shake_sendable run, of "[0, 0]" "[0, 0]"] u run c ex_shake_key
    by (simp add: k tls_length_def)
qed

end
