(* ===== verification/DhAgree.thy ===== *)
theory DhAgree
  imports DhVerify HandshakeAgree
begin

text \<open>
  The whole handshake with a key exchange: the client starts a session, each side is given what the other one sent
  last, three times the server and twice the client. The last theorem says what the two sides hold at the end.
\<close>

section \<open>The exchange\<close>

definition shake_hands_dh ::
  "('c, 'd, 'g, 'b, 'w) link \<Rightarrow> ('c, 'd, 'g, 'b, 'w) link \<Rightarrow> string \<Rightarrow> ('c, 'd, 'g, 'b, 'w) proto_env \<Rightarrow> ('c, 'd, 'g, 'b, 'w) proto_env \<Rightarrow>
   ('c, 'd, 'g, 'b, 'w) proto_env \<times> ('c, 'd, 'g, 'b, 'w) proto_env" where
  "shake_hands_dh K K' ty c s =
     (let c1 = snd (run_state (start_session K ty) c);
          s1 = snd (run_state (dispatch_data K' (last_payload c1) 0) s);
          c2 = snd (run_state (dispatch_data K (last_payload s1) 0) c1);
          s2 = snd (run_state (dispatch_data K' (last_payload c2) 0) s1);
          c3 = snd (run_state (dispatch_data K (last_payload s2) 0) c2);
          s3 = snd (run_state (dispatch_data K' (last_payload c3) 0) s2)
      in (c3, s3))"

text \<open>Being given a frame is in the trace, and nowhere else.\<close>

lemma logged [simp]:
  "resting K (log_event e s) = resting K s" "crypt_ok (log_event e s) = crypt_ok s" "hs_crypt (log_event e s) = hs_crypt s"
  "crypt_write (log_event e s) = crypt_write s" "crypt_read (log_event e s) = crypt_read s"
  "crypt_handshake (log_event e s) = crypt_handshake s" "session_id (log_event e s) = session_id s"
  "shake_switch_secret_type (log_event e s) = shake_switch_secret_type s" "shake_has_data (log_event e s) = shake_has_data s"
  "shake_dh_ctx (log_event e s) = shake_dh_ctx s" "hdr_off (log_event e s) = hdr_off s" "g_current (log_event e s) = g_current s"
  "check_flag f (log_event e s) = check_flag f s"
  by (simp_all add: log_event_def resting_def write_blocks_def check_flag_def crypt_ok_def hs_crypt_def crypt_at_def hdr_off_def)

lemma said_heard:
  fixes K K' :: "('c, 'd, 'g, 'b, 'w) link"
  assumes "says K body s s'" and "hdr_off s' = hdr_off s" and "sendable K body" and "lk_fb K' = lk_fb K"
    and "\<not> check_flag EN_PFT_CLOSING r" and "\<not> check_flag EN_PFT_HANDSHAKE_DONE r"
    and "run_state (dispatch_step K' body) (log_event (EvFrame (last_payload s') 0) r) = (0, r')"
  shows "run_state (dispatch_data K' (last_payload s') 0) r = ((), r')"
proof -
  obtain sq where p: "last_payload s' = fb_pack (lk_fb K) (hs_msg sq body)" using says_payload [OF assms(1,2)] by blast
  have "fb_parse (lk_fb K') (last_payload s') = Some (hs_msg sq body)" using assms(3,4) p by (simp add: sendable_def)
  then show ?thesis using heard assms(5-7) by blast
qed

lemma dh_steps:
  assumes "dh_switch sw"
  shows "dispatch_step K (Createcs_body_handshake i (pubkey_req sw) z t p) =
      dispatch_handshake_dh_pubkey_req K (Createcs_body_handshake i (pubkey_req sw) z t p) (pubkey_rsp sw)"
    and "dispatch_step K (Createcs_body_handshake i (pubkey_rsp sw) z t p) =
      dispatch_handshake_dh_pubkey_rsp K (Createcs_body_handshake i (pubkey_rsp sw) z t p)"
    and "dispatch_step K (Createcs_body_handshake i EN_HST_VERIFY z t p) =
      dispatch_handshake_verify_ntf K (Createcs_body_handshake i EN_HST_VERIFY z t p)"
    and "dispatch_step K (Createcs_body_handshake i EN_HST_START_RSP z t p) =
      dispatch_handshake_start_rsp K (Createcs_body_handshake i EN_HST_START_RSP z t p)"
    and "dispatch_step K (Createcs_body_handshake i EN_HST_START_REQ z t p) =
      dispatch_handshake_start_req K (Createcs_body_handshake i EN_HST_START_REQ z t p)"
  using assms by (auto simp: dispatch_step_def Createcs_body_handshake_def pubkey_req_def pubkey_rsp_def dh_switch_def)

lemma agreed_dh:
  fixes K K' :: "('c, 'd, 'g, 'b, 'w) link"
  assumes same: "lk_crypto K' = lk_crypto K" "lk_fb K' = lk_fb K"
    and calm: "calm K" "calm K'" and grants: "grants K' sid"
    and client: "unshaken K c" "session_id c = 0" "\<And>g. g_current c = Some g \<Longrightarrow> conf_type (gc_conf g) \<noteq> []"
    and server: "unshaken K' s" "g_current s = Some g" "dh_conf g sw"
    and choice: "ty \<noteq> []" "peer_tokens K' ty \<noteq> []" "select_crypt_type g (peer_tokens K' ty) = t"
    and exchange: "gc = client_conf (lk_crypto K) t sw (g_current c)"
      "dh_agrees (lk_crypto K) (dh_init (lk_crypto K) (shake_dh_ctx s) (gc_dh g)) (dh_init (lk_crypto K) (shake_dh_ctx c) (gc_dh gc)) param pub sec"
      "length param \<le> tls_length" "length pub \<le> tls_length"
    and key: "dh_key (lk_crypto K) t sec v ci"
    and n: "n = unat (cipher_key_bits (lk_crypto K) ci div 8)" "n \<noteq> 0" "4 * n + 2 * B \<le> tls_length"
    and rnd: "\<forall>d. fst (dhs_random (lk_crypto K) (gc_dh g) d n) = 0"
    and step: "duplex (lk_crypto K) S B" "S ci ci"
    and size: "sendable K (Createcs_body_handshake 0 EN_HST_START_REQ (sst EN_SST_DIRECT) ty [])"
      "\<And>i st t' p. t' \<in> {[], t} \<Longrightarrow> length p \<le> tls_length \<Longrightarrow> sendable K (Createcs_body_handshake i st sw t' p)"
    and run: "shake_hands_dh K K' ty c s = (c', s')"
  shows "\<exists>a b. S a b \<and> keyed_side c' sid t v a \<and> keyed_side s' sid t v b \<and>
    \<not> check_flag EN_PFT_CLOSING c' \<and> \<not> check_flag EN_PFT_CLOSING s'"
proof -
  let ?L = "lk_crypto K"
  have sid: "sid \<noteq> 0" using grants by (simp add: grants_def)
  have sw: "dh_switch sw" using server(3) by (simp add: dh_conf_def)
  have t: "t \<noteq> []" using key by (simp add: dh_key_def)
  obtain d1 d2 d3 e1 e2 e3 where ex: "dh_make_params ?L (dh_init ?L (shake_dh_ctx s) (gc_dh g)) = (0, param, d1)"
    "dh_read_params ?L (dh_init ?L (shake_dh_ctx c) (gc_dh gc)) param = (0, e1)" "dh_make_public ?L e1 = (0, pub, e2)"
    "dh_calc_secret ?L e2 = (0, sec, e3)" "dh_read_public ?L d1 pub = (0, d2)" "dh_calc_secret ?L d2 = (0, sec, d3)"
    using exchange(2) unfolding dh_agrees_def by blast
  have sends: "sendable K (Createcs_body_handshake i st sw t p)" "sendable K (Createcs_body_handshake i st sw '''' p)"
    if "length p \<le> tls_length" for i st p using size(2) that by simp_all
  have sends': "sendable K' x = sendable K x" for x using same(2) by (simp add: sendable_def)
  \<comment> \<open>the client asks\<close>
  obtain c1 where c1: "run_state (start_session K ty) c = (0, c1)" "same_shake c c1" "resting K c1"
    "says K (Createcs_body_handshake 0 EN_HST_START_REQ (sst EN_SST_DIRECT) ty []) c c1"
    using client_asks [OF calm(1) _ client(2) size(1)] client(1) by (auto simp: unshaken_def)
  have un1: "unshaken K c1" using unshaken_same [OF client(1) c1(2,3)] .
  have f1: "hdr_off c1 = hdr_off c" "g_current c1 = g_current c" "shake_dh_ctx c1 = shake_dh_ctx c"
    using c1(2) by (simp_all add: same_shake_def hdr_off_def)
  \<comment> \<open>the server offers\<close>
  define s0 where "s0 = log_event (EvFrame (last_payload c1) 0) s"
  have s0: "resting K' s0" "crypt_ok s0" "hs_crypt s0 = crypt_session_new ?L" "\<not> shake_has_data s0" "g_current s0 = Some g"
    "shake_dh_ctx s0 = shake_dh_ctx s" "\<not> check_flag EN_PFT_HANDSHAKE_DONE s0"
    using server(1,2) same(1) by (simp_all add: s0_def unshaken_def)
  let ?q = "Createcs_body_handshake 0 EN_HST_START_REQ (sst EN_SST_DIRECT) ty []"
  have q: "hs_crypt_type ?q = Some ty" by (simp add: Createcs_body_handshake_def)
  have p0: "dh_make_params (lk_crypto K') (dh_init (lk_crypto K') (shake_dh_ctx s0) (gc_dh g)) = (0, param, d1)"
    "dh_key (lk_crypto K') t sec v ci" "sendable K' (Createcs_body_handshake sid EN_HST_START_RSP sw t param)"
    "hs_crypt s0 = crypt_session_new (lk_crypto K')"
    using ex(1) s0(3,6) key sends(1) [OF exchange(3)] by (simp_all add: same(1) sends')
  note offers = server_offers [OF calm(2) grants s0(1,2) p0(4) s0(4,5) server(3) q choice p0(2,1,3), unfolded same(1)]
  obtain s1 where s1: "run_state (dispatch_handshake_start_req K' (Createcs_body_handshake 0 EN_HST_START_REQ (sst EN_SST_DIRECT) ty [])) s0 = (0, s1)"
    "says K' (Createcs_body_handshake sid EN_HST_START_RSP sw t param) s0 s1" "resting K' s1" "crypt_ok s1"
    "hs_crypt s1 = (set_up ?L t (Some g))\<lparr>cs_param := param\<rparr>" "shake_dh_ctx s1 = d1" "shake_has_data s1"
    "session_id s1 = sid" "shake_switch_secret_type s1 = sw" "hdr_off s1 = hdr_off s0"
    "check_flag EN_PFT_HANDSHAKE_DONE s1 = check_flag EN_PFT_HANDSHAKE_DONE s0"
    using offers by blast
  have open1: "\<not> check_flag EN_PFT_HANDSHAKE_DONE s1" using s1(11) s0(7) by simp
  have h1: "run_state (dispatch_data K' (last_payload c1) 0) s = ((), s1)"
    using said_heard [OF c1(4) f1(1) size(1) same(2), of s s1] server(1) s1(1)
    by (simp add: dh_steps(5) [OF sw] unshaken_def resting_def s0_def)
  \<comment> \<open>the client answers\<close>
  define c10 where "c10 = log_event (EvFrame (last_payload s1) 0) c1"
  have c10: "resting K c10" "crypt_ok c10" "hs_crypt c10 = crypt_session_new ?L" "\<not> shake_has_data c10"
    "\<not> check_flag EN_PFT_HANDSHAKE_DONE c10" "g_current c10 = g_current c" "shake_dh_ctx c10 = shake_dh_ctx c"
    using un1 f1 by (simp_all add: c10_def unshaken_def)
  have low: "map tolower_ch t = t" using select_lower [OF choice(3)] .
  obtain c2 where c2: "run_state (dispatch_handshake_start_rsp K (Createcs_body_handshake sid EN_HST_START_RSP sw t param)) c10 = (0, c2)"
    "says K (Createcs_body_handshake sid (pubkey_req sw) sw '''' pub) c10 c2" "resting K c2" "crypt_ok c2"
    "hs_crypt c2 = (keyed (Some gc) t v ci)\<lparr>cs_param := pub\<rparr>" "crypt_write c2 = Some (crypt_handshake c2)"
    "session_id c2 = sid" "shake_switch_secret_type c2 = sw" "hdr_off c2 = hdr_off c10" "\<not> check_flag EN_PFT_HANDSHAKE_DONE c2"
    using client_answers [OF calm(1) c10(1-5) _ _ key low sid sw, where gc = gc and param = param and ?e1.0 = e1 and pub = pub and ?e2.0 = e2 and ?e3.0 = e3]
      ex client(3) exchange(1) c10(6,7) sends(2) [OF exchange(4)] by auto
  have h2: "run_state (dispatch_data K (last_payload s1) 0) c1 = ((), c2)"
    using said_heard [OF s1(2) s1(10) _ _, of K c1 c2] un1 c2(1) sends(1) [OF exchange(3)] same(2) sends'
    by (simp add: dh_steps(4) [OF sw] unshaken_def resting_def c10_def)
  \<comment> \<open>the server checks\<close>
  define s10 where "s10 = log_event (EvFrame (last_payload c2) 0) s1"
  have s10: "resting K' s10" "crypt_ok s10" "hs_crypt s10 = (set_up (lk_crypto K') t (Some g))\<lparr>cs_param := param\<rparr>" "shake_has_data s10"
    "session_id s10 = sid" "shake_switch_secret_type s10 = sw" "shake_dh_ctx s10 = d1" "\<not> check_flag EN_PFT_HANDSHAKE_DONE s10"
    using s1 same(1) open1 by (simp_all add: s10_def)
  have pass: "\<forall>x. 2 * n \<le> length x \<and> length x \<le> 2 * n + B \<longrightarrow> passes ?L S B a b x" if "S a b" for a b
  proof -
    have "fits x" if "2 * n \<le> length x \<and> length x \<le> 2 * n + B" for x using that n(2,3) by (cases x) (simp_all add: fits_def)
    then show ?thesis using duplex_passes [OF step(1) that] by blast
  qed
  have sy: "S b a" if "S a b" for a b using step(1) that by (auto simp: duplex_def dest: sympD)
  have p2: "dh_key (lk_crypto K') t sec v ci" "dh_read_public (lk_crypto K') (shake_dh_ctx s10) pub = (0, d2)"
    "dh_calc_secret (lk_crypto K') d2 = (0, sec, d3)" "n = unat (cipher_key_bits (lk_crypto K') ci div 8)"
    "\<forall>d. fst (dhs_random (lk_crypto K') (gc_dh g) d n) = 0" "\<forall>x. length x = 2 * n \<longrightarrow> passes (lk_crypto K') S B ci ci x"
    using key ex(5,6) n(1) rnd pass [OF step(2)] s10(7) by (simp_all add: same(1))
  have p3: "sendable K' (Createcs_body_handshake sid (pubkey_rsp sw) sw '''' p)" if "length p \<le> tls_length" for p
    using sends(2) [OF that] by (simp add: sends')
  note checks = server_checks [OF calm(2) s10(1-6) sw p2(1-4) n(2) p2(5,6) p3, of sid "pubkey_req sw", unfolded same(1)]
  obtain s2 hex pad e r' a b where s2: "run_state (dispatch_handshake_dh_pubkey_req K' (Createcs_body_handshake sid (pubkey_req sw) sw '''' pub) (pubkey_rsp sw)) s10 = (0, s2)"
    "says K' (Createcs_body_handshake sid (pubkey_rsp sw) sw '''' e) s10 s2" "resting K' s2" "crypt_ok s2"
    "hs_crypt s2 = (keyed (Some g) t v a)\<lparr>cs_param := hex\<rparr>" "length hex = 2 * n"
    "cipher_decrypt ?L ci e tls_length = (r', hex @ pad, b)" "0 \<le> r'" "length pad \<le> B" "S a b" "e \<noteq> []" "length e \<le> tls_length"
    "crypt_read s2 = Some (crypt_handshake s2)" "crypt_write s2 = Some (crypt_handshake s2)"
    "session_id s2 = sid" "shake_switch_secret_type s2 = sw" "hdr_off s2 = hdr_off s10"
    "check_flag EN_PFT_HANDSHAKE_DONE s2 = check_flag EN_PFT_HANDSHAKE_DONE s10"
    using checks by blast
  have open2: "\<not> check_flag EN_PFT_HANDSHAKE_DONE s2" using s2(18) s10(8) by simp
  have h3: "run_state (dispatch_data K' (last_payload c2) 0) s1 = ((), s2)"
    using said_heard [OF c2(2) c2(9) _ same(2), of s1 s2] s1(3) open1 s2(1) sends(2) [OF exchange(4)]
    by (simp add: dh_steps(1) [OF sw] resting_def s10_def)
  \<comment> \<open>the client proves that it has the key\<close>
  define c20 where "c20 = log_event (EvFrame (last_payload s2) 0) c2"
  have c20: "resting K c20" "crypt_ok c20" "hs_crypt c20 = (keyed (Some gc) t v ci)\<lparr>cs_param := pub\<rparr>"
    "crypt_write c20 = Some (crypt_handshake c20)" "session_id c20 = sid" "shake_switch_secret_type c20 = sw"
    "\<not> check_flag EN_PFT_HANDSHAKE_DONE c20"
    using c2 by (simp_all add: c20_def)
  have hex: "fits (hex @ pad)" "hex \<noteq> []" using s2(9) s2(6) n(2,3) by (auto simp: fits_def)
  have passb: "\<forall>x. length x = length (hex @ pad) \<longrightarrow> passes ?L S B b a x" using pass [OF sy [OF s2(10)]] s2(6,9) by simp
  obtain c3 rd pad' e' q a' b' where c3: "run_state (dispatch_handshake_dh_pubkey_rsp K (Createcs_body_handshake sid (pubkey_rsp sw) sw '''' e)) c20 = (0, c3)"
    "says K (Createcs_body_handshake sid EN_HST_VERIFY sw '''' e') c20 c3" "resting K c3" "keyed_side c3 sid t v b'"
    "hdr_off c3 = hdr_off c20" "cipher_decrypt ?L a e' tls_length = (q, mix_verify rd (hex @ pad) @ pad', a')" "0 \<le> q" "S b' a'" "length (hex @ pad) \<le> length e'"
    "length e' \<le> tls_length"
    using client_proves [OF calm(1) c20(1) t c20(2-7) sid s2(7,8,11) hex(1) passb sends(2)] by blast
  have h4: "run_state (dispatch_data K (last_payload s2) 0) c2 = ((), c3)"
    using said_heard [OF s2(2) s2(17) _ _, of K c2 c3] c2(3,10) c3(1) sends(2) [OF s2(12)] same(2) sends'
    by (simp add: dh_steps(2) [OF sw] resting_def c20_def)
  \<comment> \<open>the server reads it\<close>
  define s20 where "s20 = log_event (EvFrame (last_payload c3) 0) s2"
  have s20: "\<not> check_flag EN_PFT_CLOSING s20" "crypt_ok s20" "hs_crypt s20 = (keyed (Some g) t v a)\<lparr>cs_param := hex\<rparr>"
    "crypt_write s20 = Some (crypt_handshake s20)" "crypt_read s20 = Some (crypt_handshake s20)" "session_id s20 = sid"
    "\<not> check_flag EN_PFT_HANDSHAKE_DONE s20" "shake_switch_secret_type s20 = sw"
    using s2 open2 by (simp_all add: s20_def resting_def)
  obtain s3 where s3: "run_state (dispatch_handshake_verify_ntf K' (Createcs_body_handshake sid EN_HST_VERIFY sw '''' e')) s20 = (0, s3)"
    "keyed_side s3 sid t v a'" "\<not> check_flag EN_PFT_CLOSING s3"
    using server_convinced [OF calm(2) s20(1) t s20(2-8) sw, of e' q rd pad pad' a'] c3(6,7,9) hex(2) by (auto simp: same(1))
  have h5: "run_state (dispatch_data K' (last_payload c3) 0) s2 = ((), s3)"
    using said_heard [OF c3(2) c3(5) _ same(2), of s2 s3] s2(3) open2 s3(1) sends(2) [OF c3(10)]
    by (simp add: dh_steps(3) [OF sw] resting_def s20_def)
  have "c' = c3 \<and> s' = s3" using run c1(1) h1 h2 h3 h4 h5 by (simp add: shake_hands_dh_def Let_def)
  then show ?thesis using c3(3,4,8) s3(2,3) by (auto simp: resting_def)
qed

section \<open>What the two sides hold\<close>

lemma keyed_passes:
  assumes "keyed_side c sid t v a" and "keyed_side s sid t v b" and "\<not> check_flag EN_PFT_CLOSING c" and "\<not> check_flag EN_PFT_CLOSING s"
    and "t \<noteq> []" and "x \<noteq> []" and "passes (lk_crypto K) S B a b x" and "lk_crypto K' = lk_crypto K"
  shows "\<exists>e pad. fst (run_state (encode_post K (Some x)) c) = (0, Some e) \<and> fst (run_state (decode_post K' (Some e)) s) = (0, Some (x @ pad)) \<and> length pad \<le> B"
proof -
  obtain conf where c: "crypt_at (crypt_handshake c) c = keyed conf t v a" "crypt_write c = Some (crypt_handshake c)"
    using assms(1) by (auto simp: keyed_side_def hs_crypt_def)
  obtain conf' where s: "crypt_at (crypt_handshake s) s = keyed conf' t v b" "crypt_read s = Some (crypt_handshake s)"
    using assms(2) by (auto simp: keyed_side_def hs_crypt_def)
  obtain r e a' r' pad b' where p: "cipher_encrypt (lk_crypto K) a x tls_length = (r, e, a')" "0 \<le> r"
    "cipher_decrypt (lk_crypto K) b e tls_length = (r', x @ pad, b')" "0 \<le> r'" "length pad \<le> B" "length x \<le> length e"
    using assms(7) unfolding passes_def by blast
  have "e \<noteq> []" using p(6) assms(6) by auto
  then have "fst (run_state (encode_post K (Some x)) c) = (0, Some e)" "fst (run_state (decode_post K' (Some e)) s) = (0, Some (x @ pad))"
    using assms(3-6,8) c s p by (simp_all add: encode_post_def decode_post_def encrypt_data_def decrypt_data_def keyed_def)
  then show ?thesis using p(5) by blast
qed

text \<open>
  C95: The handshake with a key exchange (Diffie-Hellman, or over elliptic curves), both sides followed through its
  five messages: the client asks, the server offers its parameters, the client answers with its public key, the
  server sends a text under the key it now has, the client sends a text back that agrees with it at the odd
  positions, the server compares. Each is given exactly what the other one sent. The library is the parameter: the
  exchange gives both the secret \<open>sec\<close>, which makes the cipher \<open>ci\<close> of the name the server picked; ciphers in
  step (\<open>S\<close>) undo each other up to at most \<open>B\<close> bytes of padding, whatever bytes, and stay in step. So the text the
  client decrypts, and the one it sends back, may be longer than the one the server made, and the server looks at
  the length of its own. Then both are through the handshake as the session \<open>sid\<close> with the same type and secret,
  their ciphers are in step, and what one encodes next the other decodes, padding after it, both ways.
\<close>

theorem dh_handshake_agrees:
  fixes K K' :: "('c, 'd, 'g, 'b, 'w) link"
  assumes same: "lk_crypto K' = lk_crypto K" "lk_fb K' = lk_fb K"
    and calm: "calm K" "calm K'" and grants: "grants K' sid"
    and client: "unshaken K c" "session_id c = 0" "\<And>g. g_current c = Some g \<Longrightarrow> conf_type (gc_conf g) \<noteq> []"
    and server: "unshaken K' s" "g_current s = Some g" "dh_conf g sw"
    and choice: "ty \<noteq> []" "peer_tokens K' ty \<noteq> []" "select_crypt_type g (peer_tokens K' ty) = t"
    and exchange: "gc = client_conf (lk_crypto K) t sw (g_current c)"
      "dh_agrees (lk_crypto K) (dh_init (lk_crypto K) (shake_dh_ctx s) (gc_dh g)) (dh_init (lk_crypto K) (shake_dh_ctx c) (gc_dh gc)) param pub sec"
      "length param \<le> tls_length" "length pub \<le> tls_length"
    and key: "dh_key (lk_crypto K) t sec v ci"
    and n: "n = unat (cipher_key_bits (lk_crypto K) ci div 8)" "n \<noteq> 0" "4 * n + 2 * B \<le> tls_length"
    and rnd: "\<forall>d. fst (dhs_random (lk_crypto K) (gc_dh g) d n) = 0"
    and step: "duplex (lk_crypto K) S B" "S ci ci"
    and size: "sendable K (Createcs_body_handshake 0 EN_HST_START_REQ (sst EN_SST_DIRECT) ty [])"
      "\<And>i st t' p. t' \<in> {[], t} \<Longrightarrow> length p \<le> tls_length \<Longrightarrow> sendable K (Createcs_body_handshake i st sw t' p)"
    and run: "shake_hands_dh K K' ty c s = (c', s')"
  shows "\<exists>a b. S a b \<and> keyed_side c' sid t v a \<and> keyed_side s' sid t v b \<and>
    (\<forall>x. fits x \<longrightarrow>
       (\<exists>e pad. fst (run_state (encode_post K (Some x)) c') = (0, Some e) \<and> fst (run_state (decode_post K' (Some e)) s') = (0, Some (x @ pad)) \<and> length pad \<le> B) \<and>
       (\<exists>e pad. fst (run_state (encode_post K' (Some x)) s') = (0, Some e) \<and> fst (run_state (decode_post K (Some e)) c') = (0, Some (x @ pad)) \<and> length pad \<le> B))"
proof -
  obtain a b where ends: "S a b" "keyed_side c' sid t v a" "keyed_side s' sid t v b"
    "\<not> check_flag EN_PFT_CLOSING c'" "\<not> check_flag EN_PFT_CLOSING s'"
    using agreed_dh [OF same calm grants client server choice exchange key n rnd step size run] by blast
  have t: "t \<noteq> []" using key by (simp add: dh_key_def)
  have "S b a" using step(1) ends(1) by (auto simp: duplex_def dest: sympD)
  then have "passes (lk_crypto K) S B a b x" "passes (lk_crypto K') S B b a x" "x \<noteq> []" if "fits x" for x
    using duplex_passes [OF step(1) _ that] ends(1) that by (simp_all add: same(1) fits_def)
  then have "(\<exists>e pad. fst (run_state (encode_post K (Some x)) c') = (0, Some e) \<and> fst (run_state (decode_post K' (Some e)) s') = (0, Some (x @ pad)) \<and> length pad \<le> B)"
    "(\<exists>e pad. fst (run_state (encode_post K' (Some x)) s') = (0, Some e) \<and> fst (run_state (decode_post K (Some e)) c') = (0, Some (x @ pad)) \<and> length pad \<le> B)"
    if "fits x" for x
    using keyed_passes [OF ends(2-5) t _ _ same(1)] keyed_passes [OF ends(3,2,5,4) t _ _ same(1) [symmetric]] that by blast+
  then show ?thesis using ends(1-3) by blast
qed

section \<open>An instance\<close>

text \<open>A cipher that works on blocks of eight bytes, and fills the last one with zeros.\<close>

definition ex_pad :: "byte list \<Rightarrow> byte list" where
  "ex_pad bs = bs @ replicate (7 - (length bs + 7) mod 8) 0"

definition ex_pad_crypto :: "(byte list, byte list, unit) crypto_lib" where
  "ex_pad_crypto = ex_crypto\<lparr>cipher_encrypt := \<lambda>c bs cap. (0, map (\<lambda>b. b XOR 85) (ex_pad bs), c)\<rparr>"

definition ex_pad_link :: "(byte list, byte list, unit, bblock list, unit) link" where
  "ex_pad_link = ex_shake_link\<lparr>lk_crypto := ex_pad_crypto\<rparr>"

definition ex_dh_conf :: "unit global_conf" where
  "ex_dh_conf = snd (global_conf_init ex_pad_crypto (global_conf_new ex_pad_crypto
     (default_crypt_configure\<lparr>conf_type := ''xtea'', conf_switch_secret_type := sst EN_SST_DH\<rparr>)))"

lemma ex_pad_fields:
  "lk_crypto ex_pad_link = ex_pad_crypto" "lk_fb ex_pad_link = lk_fb ex_shake_link" "lk_buf ex_pad_link = lk_buf ex_shake_link"
  "lk_fuel ex_pad_link = lk_fuel ex_shake_link" "lk_cb ex_pad_link = lk_cb ex_shake_link"
  by (simp_all add: ex_pad_link_def)

lemma ex_pad_calm: "calm ex_pad_link"
  using ex_shake_calm unfolding calm_def ex_pad_fields .

lemma ex_pad_grants: "grants ex_pad_link 7"
  using ex_shake_grants unfolding grants_def ex_pad_fields .

lemma ex_pad_unshaken: "unshaken ex_pad_link (ex_state\<lparr>g_current := x\<rparr>)"
proof -
  have "crypt_session_new ex_pad_crypto = crypt_session_new ex_crypto"
    by (simp add: ex_pad_crypto_def crypt_session_new_def)
  moreover have "lk_crypto ex_shake_link = ex_crypto" by (simp add: ex_shake_link_def ex_link_def)
  ultimately show ?thesis
    using ex_unshaken [of x] unfolding unshaken_def resting_def write_blocks_def ex_pad_fields by simp
qed

lemma ex_duplex: "duplex ex_pad_crypto (=) 7"
proof -
  have undo: "map ((\<lambda>b. b XOR 85) \<circ> (\<lambda>b. b XOR 85)) x = x" for x :: "byte list" by (simp add: comp_def xor.assoc)
  have "passes ex_pad_crypto (=) 7 a a x" if "fits x" for a x
  proof -
    let ?pad = "replicate (7 - (length x + 7) mod 8) (0 :: byte)"
    have "cipher_decrypt ex_pad_crypto a (map (\<lambda>b. b XOR 85) (ex_pad x)) tls_length = (0, x @ ?pad, a)"
      using undo [of "ex_pad x"] by (simp add: ex_pad_crypto_def ex_crypto_def ex_pad_def)
    moreover have "length (ex_pad x) \<le> length x + 7" by (simp add: ex_pad_def)
    then have "length (ex_pad x) \<le> tls_length" using that by (simp add: fits_def tls_length_def)
    ultimately show ?thesis
      unfolding passes_def by (intro exI [of _ 0] exI [of _ "map (\<lambda>b. b XOR 85) (ex_pad x)"] exI [of _ a] exI [of _ ?pad])
        (simp add: ex_pad_crypto_def ex_pad_def)
  qed
  then show ?thesis by (simp add: duplex_def symp_def)
qed

lemma ex_dh_key: "dh_key ex_pad_crypto ''xtea'' [5, 6] [5, 6] [5, 6]"
  by (simp add: dh_key_def ex_pad_crypto_def ex_crypto_def swap_secret_core_def vec_resize_def Let_def)

theorem dh_handshake_agrees_witness:
  "\<exists>c s a. shake_hands_dh ex_pad_link ex_pad_link ''xtea'' ex_state (ex_state\<lparr>g_current := Some ex_dh_conf\<rparr>) = (c, s) \<and>
     keyed_side c 7 ''xtea'' [5, 6] a \<and> keyed_side s 7 ''xtea'' [5, 6] a \<and>
     (\<exists>e pad. fst (run_state (encode_post ex_pad_link (Some [1, 2])) c) = (0, Some e) \<and>
          fst (run_state (decode_post ex_pad_link (Some e)) s) = (0, Some ([1, 2] @ pad)))"
proof -
  have conf: "dh_conf ex_dh_conf 1" "select_crypt_type ex_dh_conf (peer_tokens ex_pad_link ''xtea'') = ''xtea''"
    "peer_tokens ex_pad_link ''xtea'' \<noteq> []"
    by (simp_all add: dh_conf_def dh_switch_def ex_dh_conf_def global_conf_init_def global_conf_new_def global_conf_close_def
        default_crypt_configure_def ex_pad_crypto_def ex_crypto_def ex_pad_fields peer_tokens_def
        select_crypt_type_def check_type_def tolower_ch_def Let_def numeral_nat)
  have c: "unshaken ex_pad_link ex_state" "session_id ex_state = 0" "g_current ex_state = None"
    using ex_pad_unshaken [of None] by (simp_all add: ex_defs)
  have ex: "dh_agrees ex_pad_crypto d e [1, 2] [3, 4] [5, 6]" for d e by (simp add: dh_agrees_def ex_pad_crypto_def ex_crypto_def)
  have n: "2 = unat (cipher_key_bits ex_pad_crypto [5, 6] div 8)" "\<forall>d. fst (dhs_random ex_pad_crypto g d m) = 0" for g m
    by (simp_all add: ex_pad_crypto_def ex_crypto_def)
  have len: "length [x, y :: byte] \<le> tls_length" "4 * (2 :: nat) + 2 * 7 \<le> tls_length" "fits [1, 2]" for x y
    by (simp_all add: tls_length_def fits_def)
  obtain c' s' where run: "shake_hands_dh ex_pad_link ex_pad_link ''xtea'' ex_state (ex_state\<lparr>g_current := Some ex_dh_conf\<rparr>) = (c', s')"
    by fastforce
  have sends: "sendable ex_pad_link (Createcs_body_handshake i st sw t p)" if "t \<in> {[], ''xtea''}" "length p \<le> tls_length" for i st sw t p
    using ex_shake_sendable [of t p] that by (auto simp: sendable_def ex_pad_fields)
  have "\<exists>a b. a = b \<and> keyed_side c' 7 ''xtea'' [5, 6] a \<and> keyed_side s' 7 ''xtea'' [5, 6] b \<and>
    (\<forall>x. fits x \<longrightarrow>
       (\<exists>e pad. fst (run_state (encode_post ex_pad_link (Some x)) c') = (0, Some e) \<and>
         fst (run_state (decode_post ex_pad_link (Some e)) s') = (0, Some (x @ pad)) \<and> length pad \<le> 7) \<and>
       (\<exists>e pad. fst (run_state (encode_post ex_pad_link (Some x)) s') = (0, Some e) \<and>
         fst (run_state (decode_post ex_pad_link (Some e)) c') = (0, Some (x @ pad)) \<and> length pad \<le> 7))"
    by (rule dh_handshake_agrees [OF refl refl ex_pad_calm ex_pad_calm ex_pad_grants c(1,2) _ ex_pad_unshaken _ conf(1) _ conf(3,2)
        refl _ _ _ _ _ _ _ _ _ _ _ _ run, where sec = "[5, 6]" and ci = "[5, 6]" and n = 2 and param = "[1, 2]" and pub = "[3, 4]"])
      (use c(3) ex ex_dh_key n len ex_duplex sends in \<open>simp_all add: ex_pad_fields\<close>)
  then show ?thesis using run len(3) by blast
qed

end
