(* ===== verification/ProtoInfo.thy ===== *)
theory ProtoInfo
  imports ProtoRead
begin

text \<open>
  libatgw_proto_inner_v1::get_info: the text about a protocol object that operators read. The limits
  of the buffer managers (buffer_manager::limit of atbus) are a parameter. Sizes are size_t, so the
  free size wraps as the code's does.
\<close>

section \<open>Printing into the stream\<close>

definition digit :: "nat \<Rightarrow> char" where
  "digit d = char_of (48 + d)"

fun show_nat :: "nat \<Rightarrow> string" where
  "show_nat n = (if n < 10 then [digit n] else show_nat (n div 10) @ [digit (n mod 10)])"

declare show_nat.simps [simp del]

definition show_int :: "int \<Rightarrow> string" where
  "show_int i = (if i < 0 then CHR ''-'' # show_nat (nat (- i)) else show_nat (nat i))"

definition show_bool :: "bool \<Rightarrow> string" where
  "show_bool b = (if b then ''1'' else ''0'')"

definition endl :: string where
  "endl = [CHR 0x0A]"

text \<open>What a reader of a zero-terminated string sees of the characters in memory.\<close>

definition c_str :: "string \<Rightarrow> string" where
  "c_str s = takeWhile (\<lambda>c. c \<noteq> CHR 0x00) s"

definition string_of_bytes :: "byte list \<Rightarrow> string" where
  "string_of_bytes bs = map (\<lambda>b. char_of (unat b)) bs"

section \<open>The text\<close>

record buf_limit =
  limit_size :: u64
  cost_size :: u64

definition show_read_buffer :: "buf_limit \<Rightarrow> u64 \<Rightarrow> string" where
  "show_read_buffer l head =
     (if limit_size l > 0
      then ''    read buffer: used size='' @ show_nat (unat (head + cost_size l)) @ '', free size='' @
        show_nat (unat (limit_size l + of_nat SMALL_SIZE - head - cost_size l)) @ endl
      else ''    read buffer: used size='' @ show_nat (unat (head + cost_size l)) @ '', free size=unlimited'' @ endl)"

definition show_write_buffer :: "buf_limit \<Rightarrow> string" where
  "show_write_buffer l =
     (if limit_size l > 0
      then ''    write buffer: used size='' @ show_nat (unat (cost_size l)) @ '', free size='' @
        show_nat (unat (limit_size l - cost_size l)) @ endl
      else ''    write buffer: used size='' @ show_nat (unat (cost_size l)) @ '', free size=unlimited'' @ endl)"

text \<open>DUMP_INFO; \<open>own\<close> says that the handle is the member crypt_handshake_ itself.\<close>

definition dump_info ::
  "('c, 'd, 'g, 'b, 'w) link \<Rightarrow> bool \<Rightarrow> string \<Rightarrow> nat option \<Rightarrow> ('c, 'd, 'g, 'b, 'w) proto_env \<Rightarrow> string" where
  "dump_info K own name h s =
     (case h of
        None \<Rightarrow> ''    '' @ name @ '' handle: unset'' @ endl
      | Some i \<Rightarrow>
          if \<not> own \<and> i = crypt_handshake s
          then ''    '' @ name @ '' handle: == handshake handle'' @ endl
          else let cs = crypt_at i s in
            ''    '' @ name @ '' handle: crypt type='' @ (if cs_type cs = [] then ''NONE'' else c_str (cs_type cs)) @
            '', crypt keybits='' @ show_nat (unat (cipher_key_bits (lk_crypto K) (cs_cipher cs))) @
            '', crypt secret='' @ string_of_bytes (lk_hex K (cs_secret cs)) @ endl)"

definition get_info ::
  "('c, 'd, 'g, 'b, 'w) link \<Rightarrow> ('b \<Rightarrow> buf_limit) \<Rightarrow> ('c, 'd, 'g, 'b, 'w) proto_env \<Rightarrow> string" where
  "get_info K lmt s =
     (let sw = shake_switch_secret_type s;
          switch_secret_name = (if sst EN_SST_DIRECT \<le> sw \<and> sw \<le> sst EN_SST_ECDH then sst_name sw else ''Unknown'')
      in ''atgateway inner protocol: session id='' @ show_nat (unat (session_id s)) @ endl @
         ''    last ping delta='' @ show_int (last_delta s) @ endl @
         ''    handshake='' @ (if shake_has_data s then ''running'' else ''not running'') @
         '', switch type='' @ switch_secret_name @ endl @
         ''    status: writing='' @ show_bool (check_flag EN_PFT_WRITING s) @
         '',closing='' @ show_bool (check_flag EN_PFT_CLOSING s) @
         '',closed='' @ show_bool (check_flag EN_PFT_CLOSED s) @
         '',handshake done='' @ show_bool (check_flag EN_PFT_HANDSHAKE_DONE s) @
         '',handshake update='' @ show_bool (check_flag EN_PFT_HANDSHAKE_UPDATE s) @ endl @
         show_read_buffer (lmt (read_buffers s)) (of_nat (read_head_len s)) @
         show_write_buffer (lmt (write_buffers s)) @
         dump_info K False ''read'' (crypt_read s) s @
         dump_info K False ''write'' (crypt_write s) s @
         dump_info K True ''handshake'' (Some (crypt_handshake s)) s)"

end
