(* ===== verification/CExport.thy ===== *)
theory CExport
  imports ProtoSafety ProtoInfo
begin

text \<open>
  The export of the inner protocol to C and to scripts
  (export/atgw_inner_v1_c/libatgw_inner_v1_c.cpp): the process-wide table of C functions, the adapters that
  stand between a protocol object and that table, and the functions over a context, which is a pointer
  to a protocol object or NULL. The adapters read the table when they are called; a table that is
  changed from within a callback is seen by the next call only. The C functions of the client run
  on the environment of the protocol object.
\<close>

section \<open>The table of C functions and its adapters\<close>

record 's c_callbacks =
  callbacks_set :: bool
  write_start_fn :: "(byte list \<Rightarrow> ('s, int \<times> int) state) option"
  on_message_fn :: "(byte list \<Rightarrow> u64 \<Rightarrow> ('s, int) state) option"
  on_init_new_session_fn :: "(u64 \<Rightarrow> ('s, int \<times> u64) state) option"
  on_init_reconnect_fn :: "(u64 \<Rightarrow> ('s, int) state) option"
  on_close_fn :: "(int \<Rightarrow> ('s, int) state) option"
  c_handshake_done_fn :: "(int \<Rightarrow> ('s, int) state) option"
  c_handshake_update_fn :: "(int \<Rightarrow> ('s, int) state) option"
  c_error_fn :: "(int \<Rightarrow> string \<Rightarrow> ('s, int) state) option"

text \<open>The static table; on_handshake_update_fn is not in the initialiser list, but static storage is zero.\<close>

definition c_callbacks_new :: "'s c_callbacks" where
  "c_callbacks_new = \<lparr>callbacks_set = False, write_start_fn = None, on_message_fn = None,
     on_init_new_session_fn = None, on_init_reconnect_fn = None, on_close_fn = None,
     c_handshake_done_fn = None, c_handshake_update_fn = None, c_error_fn = None\<rparr>"

definition proto_inner_callback_on_write :: "'s c_callbacks \<Rightarrow> byte list \<Rightarrow> ('s, int \<times> bool) state" where
  "proto_inner_callback_on_write T buffer =
     (if buffer = [] then ret (ec EN_ECT_PARAM, True)
      else (case write_start_fn T of
          None \<Rightarrow> ret (ec EN_ECT_MISS_CALLBACKS, True)
        | Some fn \<Rightarrow> do { (r, is_done_i) \<leftarrow> fn buffer; ret (r, is_done_i \<noteq> 0) }))"

text \<open>The other adapters call the C function when there is one, and return 0 whatever it returned.\<close>

definition call_c :: "('s, int) state option \<Rightarrow> ('s, int) state" where
  "call_c m = (case m of None \<Rightarrow> ret 0 | Some fn \<Rightarrow> do { _ \<leftarrow> fn; ret 0 })"

definition proto_inner_callback_on_message :: "'s c_callbacks \<Rightarrow> byte list \<Rightarrow> u64 \<Rightarrow> ('s, int) state" where
  "proto_inner_callback_on_message T buffer sz = call_c (map_option (\<lambda>fn. fn buffer sz) (on_message_fn T))"

definition proto_inner_callback_on_new_session :: "'s c_callbacks \<Rightarrow> u64 \<Rightarrow> ('s, int \<times> u64) state" where
  "proto_inner_callback_on_new_session T sess_id =
     (case on_init_new_session_fn T of
        None \<Rightarrow> ret (0, sess_id)
      | Some fn \<Rightarrow> do { (_, sid) \<leftarrow> fn sess_id; ret (0, sid) })"

definition proto_inner_callback_on_reconnect :: "'s c_callbacks \<Rightarrow> u64 \<Rightarrow> ('s, int) state" where
  "proto_inner_callback_on_reconnect T sess_id = call_c (map_option (\<lambda>fn. fn sess_id) (on_init_reconnect_fn T))"

definition proto_inner_callback_on_close :: "'s c_callbacks \<Rightarrow> int \<Rightarrow> ('s, int) state" where
  "proto_inner_callback_on_close T reason = call_c (map_option (\<lambda>fn. fn reason) (on_close_fn T))"

definition proto_inner_callback_on_handshake :: "'s c_callbacks \<Rightarrow> int \<Rightarrow> ('s, int) state" where
  "proto_inner_callback_on_handshake T status = call_c (map_option (\<lambda>fn. fn status) (c_handshake_done_fn T))"

definition proto_inner_callback_on_handshake_update :: "'s c_callbacks \<Rightarrow> int \<Rightarrow> ('s, int) state" where
  "proto_inner_callback_on_handshake_update T status =
     call_c (map_option (\<lambda>fn. fn status) (c_handshake_update_fn T))"

definition proto_inner_callback_on_error :: "'s c_callbacks \<Rightarrow> int \<Rightarrow> string \<Rightarrow> ('s, int) state" where
  "proto_inner_callback_on_error T errcode errmsg =
     call_c (map_option (\<lambda>fn. fn errcode errmsg) (c_error_fn T))"

text \<open>The adapters are installed the first time the table is asked for, and never change.\<close>

definition adapters :: "'s c_callbacks \<Rightarrow> 's proto_callbacks" where
  "adapters T = \<lparr>write_fn = Some (proto_inner_callback_on_write T),
     message_fn = Some (proto_inner_callback_on_message T),
     new_session_fn = Some (proto_inner_callback_on_new_session T),
     reconnect_fn = Some (proto_inner_callback_on_reconnect T),
     close_fn = Some (proto_inner_callback_on_close T),
     on_handshake_done_fn = Some (proto_inner_callback_on_handshake T),
     on_handshake_update_fn = Some (proto_inner_callback_on_handshake_update T),
     on_error_fn = Some (proto_inner_callback_on_error T)\<rparr>"

definition get_proto_callbacks :: "'s c_callbacks \<Rightarrow> 's proto_callbacks \<times> 's c_callbacks" where
  "get_proto_callbacks T = (adapters T, if callbacks_set T then T else T\<lparr>callbacks_set := True\<rparr>)"

section \<open>Setting the C functions\<close>

definition gset_on_write_start_fn ::
  "(byte list \<Rightarrow> ('s, int \<times> int) state) option \<Rightarrow> 's c_callbacks \<Rightarrow> 's c_callbacks" where
  "gset_on_write_start_fn fn T = T\<lparr>write_start_fn := fn\<rparr>"

definition gset_on_message_fn ::
  "(byte list \<Rightarrow> u64 \<Rightarrow> ('s, int) state) option \<Rightarrow> 's c_callbacks \<Rightarrow> 's c_callbacks" where
  "gset_on_message_fn fn T = T\<lparr>on_message_fn := fn\<rparr>"

definition gset_on_init_new_session_fn ::
  "(u64 \<Rightarrow> ('s, int \<times> u64) state) option \<Rightarrow> 's c_callbacks \<Rightarrow> 's c_callbacks" where
  "gset_on_init_new_session_fn fn T = T\<lparr>on_init_new_session_fn := fn\<rparr>"

definition gset_on_init_reconnect_fn ::
  "(u64 \<Rightarrow> ('s, int) state) option \<Rightarrow> 's c_callbacks \<Rightarrow> 's c_callbacks" where
  "gset_on_init_reconnect_fn fn T = T\<lparr>on_init_reconnect_fn := fn\<rparr>"

definition gset_on_close_fn :: "(int \<Rightarrow> ('s, int) state) option \<Rightarrow> 's c_callbacks \<Rightarrow> 's c_callbacks" where
  "gset_on_close_fn fn T = T\<lparr>on_close_fn := fn\<rparr>"

definition gset_on_handshake_done_fn ::
  "(int \<Rightarrow> ('s, int) state) option \<Rightarrow> 's c_callbacks \<Rightarrow> 's c_callbacks" where
  "gset_on_handshake_done_fn fn T = T\<lparr>c_handshake_done_fn := fn\<rparr>"

definition gset_on_handshake_update_fn ::
  "(int \<Rightarrow> ('s, int) state) option \<Rightarrow> 's c_callbacks \<Rightarrow> 's c_callbacks" where
  "gset_on_handshake_update_fn fn T = T\<lparr>c_handshake_update_fn := fn\<rparr>"

definition gset_on_error_fn ::
  "(int \<Rightarrow> string \<Rightarrow> ('s, int) state) option \<Rightarrow> 's c_callbacks \<Rightarrow> 's c_callbacks" where
  "gset_on_error_fn fn T = T\<lparr>c_error_fn := fn\<rparr>"

definition global_get_crypt_size :: "('c, 'd, 'g) crypto_lib \<Rightarrow> u64" where
  "global_get_crypt_size L = of_nat (length (cipher_names L))"

definition global_get_crypt_name :: "('c, 'd, 'g) crypto_lib \<Rightarrow> u64 \<Rightarrow> string option" where
  "global_get_crypt_name L idx =
     (if unat idx \<ge> length (cipher_names L) then None else Some (c_str (cipher_names L ! unat idx)))"

section \<open>Contexts\<close>

text \<open>A context points to a protocol object with the private data of the client; None is NULL.\<close>

record ('s, 'p) c_object =
  cx_proto :: 's
  cx_private :: "'p option"

type_synonym ('s, 'p) c_context = "('s, 'p) c_object option"

text \<open>ATGW_CONTEXT_IS_NULL: nothing is done with NULL, and the default is returned.\<close>

definition on_context :: "'a \<Rightarrow> ('s, 'a) state \<Rightarrow> (('s, 'p) c_context, 'a) state" where
  "on_context dflt m = State (\<lambda>ctx. case ctx of
       None \<Rightarrow> (dflt, None)
     | Some x \<Rightarrow> (case run_state m (cx_proto x) of (r, s) \<Rightarrow> (r, Some (x\<lparr>cx_proto := s\<rparr>))))"

definition from_context :: "'a \<Rightarrow> (('s, 'p) c_object \<Rightarrow> 'a) \<Rightarrow> ('s, 'p) c_context \<Rightarrow> 'a" where
  "from_context dflt f ctx = (case ctx of None \<Rightarrow> dflt | Some x \<Rightarrow> f x)"

definition c_link ::
  "('c, 'd, 'g, 'b, 'w) link \<Rightarrow> ('c, 'd, 'g, 'b, 'w) proto_env c_callbacks \<Rightarrow> ('c, 'd, 'g, 'b, 'w) link" where
  "c_link K T = K\<lparr>lk_cb := Some (adapters T)\<rparr>"

type_synonym ('c, 'd, 'g, 'b, 'w, 'p, 'a) cm =
  "((('c, 'd, 'g, 'b, 'w) proto_env, 'p) c_context, 'a) state"

text \<open>
  create: \<open>alloc\<close> says whether the allocation succeeds; G is the rest of the environment, the state that is
  not the object's.
\<close>

definition c_create ::
  "('c, 'd, 'g) crypto_lib \<Rightarrow> 'b \<Rightarrow> bool \<Rightarrow> 'z \<Rightarrow> 's c_callbacks \<Rightarrow>
   (('c, 'd, 'g, 'b, 'z) proto_scheme, 'p) c_context \<times> 's c_callbacks" where
  "c_create L b alloc G T =
     (if alloc
      then (Some \<lparr>cx_proto = proto.extend (proto_init L b) G, cx_private = None\<rparr>, snd (get_proto_callbacks T))
      else (None, T))"

text \<open>delete on NULL does nothing; the result is the object as its destructor leaves it.\<close>

definition c_destroy :: "('c, 'd, 'g, 'b, 'w) link \<Rightarrow> ('c, 'd, 'g, 'b, 'w, 'p, unit) cm" where
  "c_destroy K = on_context () (proto_dtor K)"

definition c_set_recv_buffer_limit ::
  "('c, 'd, 'g, 'b, 'w) link \<Rightarrow> u64 \<Rightarrow> u64 \<Rightarrow> ('c, 'd, 'g, 'b, 'w, 'p, unit) cm" where
  "c_set_recv_buffer_limit K max_size max_number = on_context () (set_recv_buffer_limit K max_size max_number)"

definition c_set_send_buffer_limit ::
  "('c, 'd, 'g, 'b, 'w) link \<Rightarrow> u64 \<Rightarrow> u64 \<Rightarrow> ('c, 'd, 'g, 'b, 'w, 'p, unit) cm" where
  "c_set_send_buffer_limit K max_size max_number = on_context () (set_send_buffer_limit K max_size max_number)"

definition c_start_session :: "('c, 'd, 'g, 'b, 'w) link \<Rightarrow> string \<Rightarrow> ('c, 'd, 'g, 'b, 'w, 'p, int) cm" where
  "c_start_session K crypt_type = on_context (ec EN_ECT_PARAM) (start_session K crypt_type)"

definition c_reconnect_session ::
  "('c, 'd, 'g, 'b, 'w) link \<Rightarrow> u64 \<Rightarrow> string \<Rightarrow> byte list \<Rightarrow> ('c, 'd, 'g, 'b, 'w, 'p, int) cm" where
  "c_reconnect_session K sess_id crypt_type secret =
     on_context (ec EN_ECT_PARAM) (reconnect_session K sess_id crypt_type secret)"

definition c_set_private_data :: "'p option \<Rightarrow> ('s, 'p) c_context \<Rightarrow> ('s, 'p) c_context" where
  "c_set_private_data p ctx = map_option (\<lambda>x. x\<lparr>cx_private := p\<rparr>) ctx"

definition c_get_private_data :: "('s, 'p) c_context \<Rightarrow> 'p option" where
  "c_get_private_data = from_context None cx_private"

section \<open>Reading the object\<close>

text \<open>
  get_info into the array \<open>info\<close> of info_len characters (None is a NULL pointer). A write before the array is
  a fault of its own.
\<close>

datatype c_fault = Write_before_array

definition copy_info :: "string \<Rightarrow> char list \<Rightarrow> c_fault + char list" where
  "copy_info msg info =
     (let len = (if length msg \<ge> length info then length info - 1 else length msg)
      in if len = 0 then Inl Write_before_array
         else Inr ((take len msg @ drop len info)[len - 1 := CHR 0x00]))"

definition c_get_info ::
  "('c, 'd, 'g, 'b, 'w) link \<Rightarrow> ('b \<Rightarrow> buf_limit) \<Rightarrow> (('c, 'd, 'g, 'b, 'w) proto_env, 'p) c_context \<Rightarrow>
   char list option \<Rightarrow> c_fault + char list option" where
  "c_get_info K lmt ctx info_str =
     (case info_str of
        None \<Rightarrow> Inr None
      | Some info \<Rightarrow>
          if info = [] then Inr (Some info)
          else (case ctx of
              None \<Rightarrow> Inr (Some (info[0 := CHR 0x00]))
            | Some x \<Rightarrow> map_sum id Some (copy_info (get_info K lmt (cx_proto x)) info)))"

definition c_get_session_id :: "(('c, 'd, 'g, 'b, 'w) proto_env, 'p) c_context \<Rightarrow> u64" where
  "c_get_session_id = from_context 0 (\<lambda>x. session_id (cx_proto x))"

definition c_get_crypt_type :: "(('c, 'd, 'g, 'b, 'w) proto_env, 'p) c_context \<Rightarrow> string option" where
  "c_get_crypt_type = from_context None (\<lambda>x. Some (c_str (cs_type (hs_crypt (cx_proto x)))))"

definition c_get_crypt_secret_size :: "(('c, 'd, 'g, 'b, 'w) proto_env, 'p) c_context \<Rightarrow> u64" where
  "c_get_crypt_secret_size = from_context 0 (\<lambda>x. of_nat (length (cs_secret (hs_crypt (cx_proto x)))))"

text \<open>The array of the caller and the number of bytes put there.\<close>

definition c_copy_crypt_secret ::
  "(('c, 'd, 'g, 'b, 'w) proto_env, 'p) c_context \<Rightarrow> byte list \<Rightarrow> byte list \<times> u64" where
  "c_copy_crypt_secret ctx secret =
     (if secret = [] then (secret, 0)
      else from_context (secret, 0) (\<lambda>x.
        let src = cs_secret (hs_crypt (cx_proto x));
            len = (if length src \<ge> length secret then length secret else length src)
        in (take len src @ drop len secret, of_nat len)) ctx)"

definition c_get_crypt_keybits ::
  "('c, 'd, 'g, 'b, 'w) link \<Rightarrow> (('c, 'd, 'g, 'b, 'w) proto_env, 'p) c_context \<Rightarrow> u32" where
  "c_get_crypt_keybits K =
     from_context 0 (\<lambda>x. cipher_key_bits (lk_crypto K) (cs_cipher (hs_crypt (cx_proto x))))"

definition c_get_ping_delta :: "(('c, 'd, 'g, 'b, 'w) proto_env, 'p) c_context \<Rightarrow> int" where
  "c_get_ping_delta = from_context 0 (\<lambda>x. last_delta (cx_proto x))"

definition c_flag :: "flag_t \<Rightarrow> (('c, 'd, 'g, 'b, 'w) proto_env, 'p) c_context \<Rightarrow> int" where
  "c_flag t = from_context 0 (\<lambda>x. of_bool (check_flag t (cx_proto x)))"

definition c_is_closing :: "(('c, 'd, 'g, 'b, 'w) proto_env, 'p) c_context \<Rightarrow> int" where
  "c_is_closing = c_flag EN_PFT_CLOSING"

definition c_is_closed :: "(('c, 'd, 'g, 'b, 'w) proto_env, 'p) c_context \<Rightarrow> int" where
  "c_is_closed = c_flag EN_PFT_CLOSED"

definition c_is_handshake_updating :: "(('c, 'd, 'g, 'b, 'w) proto_env, 'p) c_context \<Rightarrow> int" where
  "c_is_handshake_updating = c_flag EN_PFT_HANDSHAKE_UPDATE"

definition c_is_handshake_done :: "(('c, 'd, 'g, 'b, 'w) proto_env, 'p) c_context \<Rightarrow> int" where
  "c_is_handshake_done = c_flag EN_PFT_HANDSHAKE_DONE"

definition c_is_writing :: "(('c, 'd, 'g, 'b, 'w) proto_env, 'p) c_context \<Rightarrow> int" where
  "c_is_writing = c_flag EN_PFT_WRITING"

definition c_is_in_callback :: "(('c, 'd, 'g, 'b, 'w) proto_env, 'p) c_context \<Rightarrow> int" where
  "c_is_in_callback = c_flag EN_PFT_IN_CALLBACK"

section \<open>Driving the object\<close>

text \<open>
  read_alloc: what is put into *out_buf (the place, its room with it) and *out_len; None is a pointer the
  caller did not give, or NULL, where the arguments are not touched.
\<close>

primrec place_room :: "recv_place \<Rightarrow> u64" where
  "place_room No_place = 0"
| "place_room (In_head off room) = of_nat room"
| "place_room (In_block off room) = of_nat room"

definition c_read_alloc ::
  "('c, 'd, 'g, 'b, 'w) link \<Rightarrow> bool \<Rightarrow> bool \<Rightarrow> ('c, 'd, 'g, 'b, 'w, 'p, recv_place option \<times> u64 option) cm" where
  "c_read_alloc K has_buf has_len = on_context (None, None) (do {
     place \<leftarrow> alloc_recv_buffer K;
     ret (if has_buf then Some place else None, if has_len then Some (place_room place) else None)
   })"

definition c_read ::
  "('c, 'd, 'g, 'b, 'w) link \<Rightarrow> u64 \<Rightarrow> bool \<Rightarrow> ('c, 'd, 'g, 'b, 'w, 'p, int option) cm" where
  "c_read K len has_err = on_context None (do {
     ecd \<leftarrow> proto_read K (unat len);
     ret (if has_err then Some ecd else None)
   })"

definition c_write_done :: "('c, 'd, 'g, 'b, 'w) link \<Rightarrow> int \<Rightarrow> ('c, 'd, 'g, 'b, 'w, 'p, int) cm" where
  "c_write_done K status = on_context (ec EN_ECT_PARAM) (write_done K (lk_fuel K) status)"

definition c_post_msg :: "('c, 'd, 'g, 'b, 'w) link \<Rightarrow> byte list option \<Rightarrow> ('c, 'd, 'g, 'b, 'w, 'p, int) cm" where
  "c_post_msg K out_buf = on_context (ec EN_ECT_PARAM) (send_post K EN_MTT_POST out_buf)"

definition c_send_ping :: "('c, 'd, 'g, 'b, 'w) link \<Rightarrow> ('c, 'd, 'g, 'b, 'w, 'p, int) cm" where
  "c_send_ping K = on_context (ec EN_ECT_PARAM) (send_ping K)"

definition c_close :: "('c, 'd, 'g, 'b, 'w) link \<Rightarrow> int \<Rightarrow> ('c, 'd, 'g, 'b, 'w, 'p, int) cm" where
  "c_close K reason = on_context (ec EN_ECT_PARAM) (close K reason)"

end
