(* ===== verification/CExportProps.thy ===== *)
theory CExportProps
  imports CExport ProtoProps
begin

text \<open>
  Properties of the C export: a program that uses a context only through the C functions, setting the functions
  of the table as it likes between its calls, has the contract of proto_base.h; what get_info and
  copy_crypt_secret do to the memory of the caller.
\<close>

section \<open>Calls of a client\<close>

datatype 's c_gset =
    Set_write_start "(byte list \<Rightarrow> ('s, int \<times> int) state) option"
  | Set_message "(byte list \<Rightarrow> u64 \<Rightarrow> ('s, int) state) option"
  | Set_new_session "(u64 \<Rightarrow> ('s, int \<times> u64) state) option"
  | Set_reconnect "(u64 \<Rightarrow> ('s, int) state) option"
  | Set_close "(int \<Rightarrow> ('s, int) state) option"
  | Set_handshake_done "(int \<Rightarrow> ('s, int) state) option"
  | Set_handshake_update "(int \<Rightarrow> ('s, int) state) option"
  | Set_error "(int \<Rightarrow> string \<Rightarrow> ('s, int) state) option"

primrec run_gset :: "'s c_gset \<Rightarrow> 's c_callbacks \<Rightarrow> 's c_callbacks" where
  "run_gset (Set_write_start fn) T = gset_on_write_start_fn fn T"
| "run_gset (Set_message fn) T = gset_on_message_fn fn T"
| "run_gset (Set_new_session fn) T = gset_on_init_new_session_fn fn T"
| "run_gset (Set_reconnect fn) T = gset_on_init_reconnect_fn fn T"
| "run_gset (Set_close fn) T = gset_on_close_fn fn T"
| "run_gset (Set_handshake_done fn) T = gset_on_handshake_done_fn fn T"
| "run_gset (Set_handshake_update fn) T = gset_on_handshake_update_fn fn T"
| "run_gset (Set_error fn) T = gset_on_error_fn fn T"

text \<open>\<open>Cc_copy\<close> is the client that writes the bytes it received where read_alloc told it to.\<close>

datatype 'p c_call =
    Cc_set_recv_limit u64 u64
  | Cc_set_send_limit u64 u64
  | Cc_start_session string
  | Cc_reconnect_session u64 string "byte list"
  | Cc_set_private_data "'p option"
  | Cc_read_alloc bool bool
  | Cc_copy recv_place "byte list"
  | Cc_read u64 bool
  | Cc_write_done int
  | Cc_post_msg "byte list option"
  | Cc_send_ping
  | Cc_close int

definition copy_bytes :: "('c, 'd, 'g, 'b, 'w) link \<Rightarrow> recv_place \<Rightarrow> byte list \<Rightarrow> ('c, 'd, 'g, 'b, 'w, unit) pm" where
  "copy_bytes K place bytes = (case place of
       No_place \<Rightarrow> ret ()
     | In_head off room \<Rightarrow> modify (\<lambda>s. s\<lparr>read_head_buffer := overlay (read_head_buffer s) off (take room bytes)\<rparr>)
     | In_block off room \<Rightarrow>
         modify (\<lambda>s. s\<lparr>read_buffers := bm_poke_back (lk_buf K) (read_buffers s) off (take room bytes)\<rparr>))"

primrec run_c :: "('c, 'd, 'g, 'b, 'w) link \<Rightarrow> 'p c_call \<Rightarrow> ('c, 'd, 'g, 'b, 'w, 'p, unit) cm" where
  "run_c K (Cc_set_recv_limit m n) = c_set_recv_buffer_limit K m n"
| "run_c K (Cc_set_send_limit m n) = c_set_send_buffer_limit K m n"
| "run_c K (Cc_start_session ty) = do { _ \<leftarrow> c_start_session K ty; ret () }"
| "run_c K (Cc_reconnect_session sid ty secret) = do { _ \<leftarrow> c_reconnect_session K sid ty secret; ret () }"
| "run_c K (Cc_set_private_data p) = modify (c_set_private_data p)"
| "run_c K (Cc_read_alloc b l) = do { _ \<leftarrow> c_read_alloc K b l; ret () }"
| "run_c K (Cc_copy place bytes) = on_context () (copy_bytes K place bytes)"
| "run_c K (Cc_read len e) = do { _ \<leftarrow> c_read K len e; ret () }"
| "run_c K (Cc_write_done status) = do { _ \<leftarrow> c_write_done K status; ret () }"
| "run_c K (Cc_post_msg buf) = do { _ \<leftarrow> c_post_msg K buf; ret () }"
| "run_c K Cc_send_ping = do { _ \<leftarrow> c_send_ping K; ret () }"
| "run_c K (Cc_close r) = do { _ \<leftarrow> c_close K r; ret () }"

text \<open>A program: setters and calls in any order, over the table and the context.\<close>

fun run_client ::
  "('c, 'd, 'g, 'b, 'w) link \<Rightarrow> (('c, 'd, 'g, 'b, 'w) proto_env c_gset + 'p c_call) list \<Rightarrow>
   ('c, 'd, 'g, 'b, 'w) proto_env c_callbacks \<times> (('c, 'd, 'g, 'b, 'w) proto_env, 'p) c_context \<Rightarrow>
   ('c, 'd, 'g, 'b, 'w) proto_env c_callbacks \<times> (('c, 'd, 'g, 'b, 'w) proto_env, 'p) c_context" where
  "run_client K [] (T, ctx) = (T, ctx)"
| "run_client K (Inl g # cs) (T, ctx) = run_client K cs (run_gset g T, ctx)"
| "run_client K (Inr c # cs) (T, ctx) = run_client K cs (T, snd (run_state (run_c (c_link K T) c) ctx))"

section \<open>What the functions of the client keep, the adapters keep\<close>

definition table_rel :: "('s \<Rightarrow> 's \<Rightarrow> bool) \<Rightarrow> 's c_callbacks \<Rightarrow> bool" where
  "table_rel R T \<longleftrightarrow>
     (\<forall>f bs. write_start_fn T = Some f \<longrightarrow> state_io_rel R (f bs)) \<and>
     (\<forall>f bs n. on_message_fn T = Some f \<longrightarrow> state_io_rel R (f bs n)) \<and>
     (\<forall>f sid. on_init_new_session_fn T = Some f \<longrightarrow> state_io_rel R (f sid)) \<and>
     (\<forall>f sid. on_init_reconnect_fn T = Some f \<longrightarrow> state_io_rel R (f sid)) \<and>
     (\<forall>f r. on_close_fn T = Some f \<longrightarrow> state_io_rel R (f r)) \<and>
     (\<forall>f r. c_handshake_done_fn T = Some f \<longrightarrow> state_io_rel R (f r)) \<and>
     (\<forall>f r. c_handshake_update_fn T = Some f \<longrightarrow> state_io_rel R (f r)) \<and>
     (\<forall>f r m. c_error_fn T = Some f \<longrightarrow> state_io_rel R (f r m))"

text \<open>A setter keeps it when the function it sets does.\<close>

definition gset_rel :: "('s \<Rightarrow> 's \<Rightarrow> bool) \<Rightarrow> 's c_gset \<Rightarrow> bool" where
  "gset_rel R g \<longleftrightarrow> table_rel R (run_gset g c_callbacks_new)"

lemmas gset_defs = gset_on_write_start_fn_def gset_on_message_fn_def gset_on_init_new_session_fn_def
  gset_on_init_reconnect_fn_def gset_on_close_fn_def gset_on_handshake_done_fn_def
  gset_on_handshake_update_fn_def gset_on_error_fn_def

lemma run_gset_rel: "table_rel R T \<Longrightarrow> gset_rel R g \<Longrightarrow> table_rel R (run_gset g T)"
  by (cases g) (auto simp: gset_rel_def table_rel_def gset_defs c_callbacks_new_def)

lemmas adapter_defs = proto_inner_callback_on_write_def proto_inner_callback_on_message_def
  proto_inner_callback_on_new_session_def proto_inner_callback_on_reconnect_def
  proto_inner_callback_on_close_def proto_inner_callback_on_handshake_def
  proto_inner_callback_on_handshake_update_def proto_inner_callback_on_error_def

lemma call_c_rel: "rel_pre R \<Longrightarrow> (\<And>fn. m = Some fn \<Longrightarrow> state_io_rel R fn) \<Longrightarrow> state_io_rel R (call_c m)"
  unfolding call_c_def by (cases m) (auto intro!: io_rel_bind io_rel_return)

lemma adapters_rel:
  assumes "rel_pre R" and "table_rel R T"
  shows "cb_rel R (Some (adapters T))"
  using assms
  by (auto simp: cb_rel_def adapters_def adapter_defs table_rel_def split: option.splits
      intro!: call_c_rel io_rel_bind io_rel_return)

lemma link_core: "table_rel core T \<Longrightarrow> cb_rel core (lk_cb (c_link K T))"
  by (simp add: c_link_def adapters_rel [OF core_pre])

section \<open>Calls on a context\<close>

definition ctx_rel :: "('s \<Rightarrow> 's \<Rightarrow> bool) \<Rightarrow> ('s, 'p) c_context \<Rightarrow> ('s, 'p) c_context \<Rightarrow> bool" where
  "ctx_rel R a b = (case a of
       None \<Rightarrow> b = None
     | Some x \<Rightarrow> \<exists>y. b = Some y \<and> R (cx_proto x) (cx_proto y))"

lemma ctx_rel_pre: "rel_pre R \<Longrightarrow> rel_pre (ctx_rel R)"
  unfolding rel_pre_def ctx_rel_def by (fastforce split: option.splits)

lemma on_context_rel: "state_io_rel R m \<Longrightarrow> state_io_rel (ctx_rel R) (on_context d m)"
  by (auto simp: state_io_rel_def ctx_rel_def on_context_def split: option.splits prod.splits)
    (metis snd_conv)

lemma run_on_context:
  "run_state (on_context d m) (Some x) =
     (fst (run_state m (cx_proto x)), Some (x\<lparr>cx_proto := snd (run_state m (cx_proto x))\<rparr>))"
  "run_state (on_context d m) None = (d, None)"
  by (simp_all add: on_context_def split: prod.split)

lemma ctx_rel_private: "rel_pre R \<Longrightarrow> ctx_rel R ctx (c_set_private_data p ctx)"
  by (auto simp: ctx_rel_def c_set_private_data_def rel_pre_def split: option.split)

lemma copy_bytes_recv: "state_io_rel recv_rel (copy_bytes K place bytes)"
  unfolding copy_bytes_def by (intro io_rel_case_place recv_rules io_recv_fields)

lemmas c_call_defs = c_set_recv_buffer_limit_def c_set_send_buffer_limit_def c_start_session_def
  c_reconnect_session_def c_read_alloc_def c_read_def c_write_done_def c_post_msg_def c_send_ping_def c_close_def

lemma run_c_rel:
  assumes "cb_rel core (lk_cb K)"
  shows "state_io_rel (ctx_rel recv_rel) (run_c K c)"
proof (cases c)
  case (Cc_set_private_data p)
  then show ?thesis by (auto intro!: io_rel_modify ctx_rel_private recv_rel_pre)
qed (simp_all only: run_c.simps c_call_defs close_def,
     (intro io_rel_bind [OF ctx_rel_pre [OF recv_rel_pre]] io_rel_return [OF ctx_rel_pre [OF recv_rel_pre]]
        on_context_rel set_limit_recv copy_bytes_recv recv_rules alloc_recv proto_read_recv io_recv_core
        start_session_core reconnect_session_core close_with_core io_rel assms)+)

lemma run_client_rel:
  assumes "table_rel core T" and "\<And>g. Inl g \<in> set cs \<Longrightarrow> gset_rel core g"
    and "run_client K cs (T, ctx) = (T', ctx')"
  shows "table_rel core T' \<and> ctx_rel recv_rel ctx ctx'"
  using assms
proof (induction cs arbitrary: T ctx)
  case Nil
  then show ?case using rel_pre_refl [OF ctx_rel_pre [OF recv_rel_pre]] by auto
next
  case (Cons c cs)
  show ?case
  proof (cases c)
    case (Inl g)
    then show ?thesis using Cons by (auto intro: run_gset_rel)
  next
    case (Inr d)
    let ?c = "snd (run_state (run_c (c_link K T) d) ctx)"
    have "ctx_rel recv_rel ctx ?c"
      by (rule io_relD [OF run_c_rel [OF link_core [OF Cons.prems(1)]]])
    moreover have "table_rel core T' \<and> ctx_rel recv_rel ?c ctx'"
      using Cons Inr by auto
    ultimately show ?thesis
      using rel_pre_trans [OF ctx_rel_pre [OF recv_rel_pre]] by blast
  qed
qed

section \<open>The destructor\<close>

lemma core_stays:
  assumes "core s s'"
  shows "check_flag EN_PFT_CLOSING s \<Longrightarrow> check_flag EN_PFT_CLOSING s'"
    and "check_flag EN_PFT_HANDSHAKE_DONE s \<Longrightarrow> check_flag EN_PFT_HANDSHAKE_DONE s'"
  using assms asteps_view_step [of "view s" "view s'"]
  by (auto simp: core_def refines_def view_step_def view_def)

lemma core_stays_run:
  assumes "state_io_rel core m"
  shows "check_flag EN_PFT_CLOSING s \<Longrightarrow> check_flag EN_PFT_CLOSING (snd (run_state m s))"
    and "check_flag EN_PFT_HANDSHAKE_DONE s \<Longrightarrow> check_flag EN_PFT_HANDSHAKE_DONE (snd (run_state m s))"
  using core_stays [of s "snd (run_state m s)"] assms by (simp_all add: state_io_rel_def)

lemma base_dtor_core: "cb_rel core cb \<Longrightarrow>
    state_io_rel core (proto_base_dtor cb :: ('c, 'd, 'g, 'b, 'w, unit) pm)"
  unfolding proto_base_dtor_def by (intro core_rules io_rel)

lemma proto_dtor_core: "cb_rel core (lk_cb K) \<Longrightarrow> state_io_rel core (proto_dtor K)"
  unfolding proto_dtor_def by (intro core_rules io_rel base_dtor_core)

lemma close_with_closing:
  assumes "cb_rel core (lk_cb K)"
  shows "check_flag EN_PFT_CLOSING (snd (run_state (close_with K r False) s))"
proof (cases "check_flag EN_PFT_CLOSING s")
  case False
  have "state_io_rel core (report_closed K 0)" by (intro io_rel assms)
  then show ?thesis using False
    by (auto simp: close_with_def intro!: core_stays_run(1))
qed (simp add: close_with_def)

lemma base_dtor_done:
  fixes s :: "('c, 'd, 'g, 'b, 'w) proto_env"
  assumes "cb_rel core cb"
  shows "check_flag EN_PFT_HANDSHAKE_DONE (snd (run_state (proto_base_dtor cb) s))"
proof -
  have snd_case: "snd (case p of (a, x) \<Rightarrow> (k, x)) = snd p" for p :: "int \<times> ('c, 'd, 'g, 'b, 'w) proto_env" and k :: int
    by (cases p) simp
  have m: "state_io_rel core m" if "shake_callback cb d st = Some (e, m)" for d st e m
    using that cb_relD(6,7) [OF assms]
    by (auto simp: shake_callback_def split: if_splits option.splits)
  have "check_flag EN_PFT_HANDSHAKE_DONE (snd (run_state (handshake_done cb st) s))" for st
    by (auto simp: handshake_done_def snd_case split: option.split intro!: core_stays_run(2) [OF m])
  then show ?thesis by (simp add: proto_base_dtor_def split: prod.split) (metis snd_conv)
qed

lemma dtor_ends:
  assumes "cb_rel core (lk_cb K)"
  shows "check_flag EN_PFT_CLOSING (snd (run_state (proto_dtor K) s)) \<and>
    check_flag EN_PFT_HANDSHAKE_DONE (snd (run_state (proto_dtor K) s))"
proof -
  let ?s1 = "snd (run_state (close_with K (cr EN_CRT_UNKNOWN) False) s)"
  let ?s2 = "snd (run_state (close_handshake K (ec EN_ECT_SESSION_EXPIRED)) ?s1)"
  have hs: "state_io_rel core (close_handshake K (ec EN_ECT_SESSION_EXPIRED))" by (intro io_rel assms)
  have run: "snd (run_state (proto_dtor K) s) = snd (run_state (proto_base_dtor (lk_cb K)) ?s2)"
    by (simp add: proto_dtor_def split: prod.split)
  have "check_flag EN_PFT_CLOSING ?s2"
    by (rule core_stays_run(1) [OF hs close_with_closing [OF assms]])
  then show ?thesis unfolding run
    by (intro conjI base_dtor_done [OF assms] core_stays_run(1) [OF base_dtor_core [OF assms]])
qed

lemma created_fresh:
  "c_create L b True \<lparr>g_current = c, g_seq = q, g_draws = d, g_now = n, g_world = w\<rparr> T0 = (Some x, T) \<Longrightarrow>
   fresh (cx_proto x)"
  by (auto simp: c_create_def fresh_def proto_init_def proto.defs crypt_ok_def)

lemma created_table: "table_rel R T0 \<Longrightarrow> c_create L b a G T0 = (ctx, T) \<Longrightarrow> table_rel R T"
  by (auto simp: c_create_def get_proto_callbacks_def table_rel_def split: if_splits)

text \<open>C14: The contract through the C export. Create a context, set C functions and call the C functions in
  any order, and destroy it; if every C function the client sets keeps the relation of the object, then over
  the whole life of the object its close is reported at most once, the first handshake is reported
  at most once and before any message, and no write starts before the one before is finished; and the
  destroyed object is closing and its handshake over.\<close>

theorem c_client_keeps_contract:
  fixes K :: "('c, 'd, 'g, 'b, 'w) link"
  assumes "table_rel core T0" and "\<And>g. Inl g \<in> set cs \<Longrightarrow> gset_rel core g"
    and "c_create (lk_crypto K) b True \<lparr>g_current = c, g_seq = q, g_draws = d, g_now = n, g_world = w\<rparr> T0 = (Some x, T)"
    and "run_client K cs (T, Some x) = (T', ctx)"
  shows "\<exists>y. snd (run_state (c_destroy (c_link K T')) ctx) = Some y \<and>
    length (closes (trace (cx_proto y))) \<le> 1 \<and> length (shakes (trace (cx_proto y))) \<le> 1 \<and>
    serial_writes False (trace (cx_proto y)) \<and> crypt_ok (cx_proto y) \<and>
    check_flag EN_PFT_CLOSING (cx_proto y) \<and> check_flag EN_PFT_HANDSHAKE_DONE (cx_proto y)"
proof -
  obtain z where z: "ctx = Some z" and life: "recv_rel (cx_proto x) (cx_proto z)" and T': "table_rel core T'"
    using run_client_rel [OF created_table [OF assms(1,3)] assms(2,4)] by (auto simp: ctx_rel_def)
  let ?y = "snd (run_state (proto_dtor (c_link K T')) (cx_proto z))"
  have "core (cx_proto z) ?y" by (rule io_relD [OF proto_dtor_core [OF link_core [OF T']]])
  with life have rel: "recv_rel (cx_proto x) ?y" by (blast intro: recv_rel_trans core_recv)
  have fr: "fresh (cx_proto x)" using assms(3) by (rule created_fresh)
  have "view_ok (view ?y)"
    using rel asteps_view_ok [OF _ fresh_view_ok [OF fr]] by (simp add: recv_rel_def refines_def)
  moreover have "crypt_ok ?y" using rel fr by (simp add: recv_rel_def fresh_def)
  ultimately show ?thesis
    using dtor_ends [OF link_core [OF T'], where s = "cx_proto z"]
    by (auto simp: z c_destroy_def run_on_context view_ok_def view_def split: if_splits)
qed

lemma ex_table_core:
  "table_rel core c_callbacks_new" "gset_rel core (Set_write_start (Some (\<lambda>bs. ret (0, 1))))"
  by (auto simp: gset_rel_def table_rel_def c_callbacks_new_def gset_defs intro!: io_rel_return [OF core_pre])

definition ex_c_calls :: "(ex_env c_gset + unit c_call) list" where
  "ex_c_calls = [Inl (Set_write_start (Some (\<lambda>bs. ret (0, 1)))), Inr (Cc_start_session ''xtea''), Inr (Cc_close 5)]"

definition ex_object :: "(ex_env, unit) c_object" where
  "ex_object = \<lparr>cx_proto = ex_state, cx_private = None\<rparr>"

lemma ex_created:
  "c_create (lk_crypto ex_link) [] True \<lparr>g_current = None, g_seq = 0, g_draws = 0, g_now = 0, g_world = ()\<rparr>
     c_callbacks_new = (Some ex_object, c_callbacks_new\<lparr>callbacks_set := True\<rparr>)"
  by (simp add: c_create_def ex_object_def ex_state_def ex_link_def get_proto_callbacks_def c_callbacks_new_def)

lemma c_client_keeps_contract_witness:
  "\<exists>y. snd (run_state (c_destroy (c_link ex_link (fst (run_client ex_link ex_c_calls
       (c_callbacks_new\<lparr>callbacks_set := True\<rparr>, Some ex_object)))))
     (snd (run_client ex_link ex_c_calls (c_callbacks_new\<lparr>callbacks_set := True\<rparr>, Some ex_object)))) = Some y \<and>
   length (closes (trace (cx_proto y))) \<le> 1 \<and> check_flag EN_PFT_CLOSING (cx_proto y)"
proof -
  have "gset_rel core g" if "Inl g \<in> set ex_c_calls" for g
    using that ex_table_core by (auto simp: ex_c_calls_def)
  from c_client_keeps_contract [OF ex_table_core(1) this ex_created surjective_pairing] show ?thesis by blast
qed

section \<open>The memory of the caller\<close>

lemma c_str_cut: "c_str (xs[k := CHR 0x00]) = c_str (take k xs)" if "k < length xs"
proof -
  have "xs[k := CHR 0x00] = take k xs @ CHR 0x00 # drop (Suc k) xs" using that by (rule upd_conv_take_nth_drop)
  then show ?thesis by (auto simp: c_str_def takeWhile_append takeWhile_eq_all_conv [THEN iffD2])
qed

lemma copy_info_cut:
  assumes "0 < len" and "len = min (length msg) (length info - 1)"
  shows "\<exists>out. copy_info msg info = Inr out \<and> length out = length info \<and> c_str out = c_str (take (len - 1) msg)"
proof -
  have "(if length msg \<ge> length info then length info - 1 else length msg) = len" and le: "len \<le> length info"
    using assms by auto
  then have run: "copy_info msg info = Inr ((take len msg @ drop len info)[len - 1 := CHR 0x00])"
    using assms(1) by (simp add: copy_info_def)
  have l: "length (take len msg @ drop len info) = length info" using assms le by auto
  have "len - 1 < length (take len msg @ drop len info)" unfolding l using assms by auto
  moreover have "take (len - 1) (take len msg @ drop len info) = take (len - 1) msg"
  proof -
    have "len - 1 \<le> length (take len msg)" using assms by auto
    then have "take (len - 1) (take len msg @ drop len info) = take (len - 1) (take len msg)" by simp
    also have "\<dots> = take (len - 1) msg" by (simp only: take_take min_absorb1 diff_le_self)
    finally show ?thesis .
  qed
  ultimately have "c_str ((take len msg @ drop len info)[len - 1 := CHR 0x00]) = c_str (take (len - 1) msg)"
    using c_str_cut by metis
  then show ?thesis using l by (simp add: run)
qed

lemma get_info_nonempty: "get_info K lmt s \<noteq> []"
  by (simp add: get_info_def Let_def)

text \<open>get_info loses a character. Given an array of one character the export writes before it; given a larger
  one, the string the caller reads lacks the last of the characters that were copied, also when
  the whole text would have fitted.\<close>

theorem c_get_info_cuts:
  fixes K :: "('c, 'd, 'g, 'b, 'w) link"
  assumes "msg = get_info K lmt (cx_proto x)"
  shows "(length info = 1 \<longrightarrow> c_get_info K lmt (Some x) (Some info) = Inl Write_before_array) \<and>
    (length info > 1 \<longrightarrow> (\<exists>out. c_get_info K lmt (Some x) (Some info) = Inr (Some out) \<and>
       length out = length info \<and> c_str out = c_str (take (min (length msg) (length info - 1) - 1) msg)))"
proof (intro conjI impI)
  assume "length info = 1"
  moreover have "Suc 0 \<le> length msg" using get_info_nonempty by (simp add: assms Suc_le_eq)
  ultimately show "c_get_info K lmt (Some x) (Some info) = Inl Write_before_array"
    by (auto simp: c_get_info_def copy_info_def assms)
next
  assume "length info > 1"
  moreover have "length msg > 0" using get_info_nonempty by (simp add: assms)
  ultimately have "0 < min (length msg) (length info - 1)" by simp
  from copy_info_cut [OF this refl] \<open>length info > 1\<close>
  show "\<exists>out. c_get_info K lmt (Some x) (Some info) = Inr (Some out) \<and> length out = length info \<and>
      c_str out = c_str (take (min (length msg) (length info - 1) - 1) msg)"
    by (auto simp: c_get_info_def assms)
qed

lemma c_get_info_cuts_witness:
  "c_get_info ex_link (\<lambda>_. \<lparr>limit_size = 0, cost_size = 0\<rparr>) (Some ex_object) (Some ''x'') = Inl Write_before_array \<and>
   (\<exists>out. c_get_info ex_link (\<lambda>_. \<lparr>limit_size = 0, cost_size = 0\<rparr>) (Some ex_object) (Some ''xxxx'') = Inr (Some out) \<and>
     c_str out = ''at'')"
proof -
  have "take (min (length msg) 3 - 1) msg = ''at''"
    if "msg = get_info ex_link (\<lambda>_. \<lparr>limit_size = 0, cost_size = 0\<rparr>) (cx_proto ex_object)" for msg
    by (simp add: that get_info_def Let_def min_def)
  then show ?thesis
    using c_get_info_cuts [OF refl, where K = ex_link and lmt = "\<lambda>_. \<lparr>limit_size = 0, cost_size = 0\<rparr>" and x = ex_object and info = "''x''"]
      c_get_info_cuts [OF refl, where K = ex_link and lmt = "\<lambda>_. \<lparr>limit_size = 0, cost_size = 0\<rparr>" and x = ex_object and info = "''xxxx''"]
    by (auto simp: c_str_def numeral_eq_Suc)
qed

text \<open>copy_crypt_secret stays inside the array of the caller and reports how much it put there.\<close>

lemma copy_crypt_secret_bounded:
  assumes "c_copy_crypt_secret ctx secret = (out, n)" and "length secret < 2 ^ 64"
  shows "length out = length secret \<and> unat n \<le> length secret \<and> drop (unat n) out = drop (unat n) secret"
proof (cases ctx)
  case None
  then show ?thesis using assms by (auto simp: c_copy_crypt_secret_def from_context_def split: if_splits)
next
  case (Some x)
  let ?len = "min (length (cs_secret (hs_crypt (cx_proto x)))) (length secret)"
  have "unat (of_nat ?len :: u64) = ?len"
    using assms(2) by (subst unat_of_nat, intro mod_less) (simp add: min.strict_coboundedI2)
  then show ?thesis using assms(1) Some
    by (auto simp: c_copy_crypt_secret_def from_context_def Let_def min_def split: if_splits)
qed

end
