(* ===== verification/HelloClient.thy ===== *)
theory HelloClient
  imports CExportProps
begin

text \<open>
  The sample client (src/sample/atgw_cli_inner_hello/hello.cpp): a program over the C export and libuv that
  keeps one connection, reconnects with the secret of the old one, and posts messages. The contexts of the C export
  are protocol objects under the index they were created with; a callback of an object runs the function of the
  client on the whole state, where the object may be called again, up to a depth. Shared pointers to a
  context are the member proto and those held by a running function; the last one destroys it. libuv is a
  library: what its functions answer are parameters, what the client calls is a trace. Printing is left out.
\<close>

section \<open>State\<close>

datatype hello_event =
    Hv_getaddrinfo | Hv_tcp_init | Hv_tcp_connect | Hv_read_start | Hv_read_stop | Hv_write "byte list"
  | Hv_close | Hv_closed | Hv_stop

datatype hello_fault = Null_proto | Use_after_free nat | Empty_vector | Too_deep

record ('c, 'd, 'g, 'b) hello =
  hc_tcp :: bool
  hc_closing :: bool
  hc_dns :: bool
  hc_session_id :: u64
  hc_seq :: u64
  hc_proto :: "nat option"
  hc_print_msg :: bool
  hc_busy_mode :: bool
  hc_allow_reconnect :: bool
  hc_sec_send_bound :: u64
  hc_sec_recv_count :: u64
  hc_sum_recv_count :: u64
  hc_sec_send_count :: u64
  hc_sum_send_count :: u64
  hc_sec_recv_size :: u64
  hc_sum_recv_size :: u64
  hc_sec_send_size :: u64
  hc_sum_send_size :: u64
  hc_crypt_types :: string
  hc_objs :: "nat \<Rightarrow> ('c, 'd, 'g, 'b) proto"
  hc_count :: nat
  hc_held :: "nat list"
  hc_dead :: "nat list"
  hc_current :: "'g global_conf option"
  hc_gseq :: u64
  hc_draws :: nat
  hc_clock :: int
  hc_trace :: "hello_event list"
  hc_faults :: "hello_fault list"

type_synonym ('c, 'd, 'g, 'b) hello_env = "('c, 'd, 'g, 'b, ('c, 'd, 'g, 'b) hello) proto_env"
type_synonym ('c, 'd, 'g, 'b) hello_link = "('c, 'd, 'g, 'b, ('c, 'd, 'g, 'b) hello) link"
type_synonym ('c, 'd, 'g, 'b, 'a) hm = "(('c, 'd, 'g, 'b) hello, 'a) state"

text \<open>What the client is linked with; an answer of libuv depends on how much was asked before.\<close>

record ('c, 'd, 'g, 'b) hello_lib =
  hl_link :: "('c, 'd, 'g, 'b) hello_link"
  hl_buffers :: 'b
  hl_getaddrinfo :: "nat \<Rightarrow> int"
  hl_tcp_connect :: "nat \<Rightarrow> int"
  hl_write :: "nat \<Rightarrow> int"
  uv_eagain :: int
  uv_eai_again :: int
  uv_eintr :: int
  uv_enobufs :: int

definition hc_log :: "hello_event \<Rightarrow> ('c, 'd, 'g, 'b, unit) hm" where
  "hc_log e = modify (\<lambda>h. h\<lparr>hc_trace := hc_trace h @ [e]\<rparr>)"

definition hc_raise :: "hello_fault \<Rightarrow> ('c, 'd, 'g, 'b, unit) hm" where
  "hc_raise f = modify (\<lambda>h. h\<lparr>hc_faults := hc_faults h @ [f]\<rparr>)"

definition hc_ask :: "hello_event \<Rightarrow> (nat \<Rightarrow> int) \<Rightarrow> ('c, 'd, 'g, 'b, int) hm" where
  "hc_ask e answer = do { n \<leftarrow> gets (\<lambda>h. length (hc_trace h)); hc_log e; ret (answer n) }"

section \<open>Calls of the C export and callbacks\<close>

definition hload :: "nat \<Rightarrow> ('c, 'd, 'g, 'b) hello \<Rightarrow> ('c, 'd, 'g, 'b) hello_env" where
  "hload i h = proto.extend (hc_objs h i)
     \<lparr>g_current = hc_current h, g_seq = hc_gseq h, g_draws = hc_draws h, g_now = hc_clock h, g_world = h\<rparr>"

definition hstore :: "nat \<Rightarrow> ('c, 'd, 'g, 'b) hello_env \<Rightarrow> ('c, 'd, 'g, 'b) hello" where
  "hstore i env = (g_world env)\<lparr>hc_objs := (hc_objs (g_world env))(i := proto.truncate env),
     hc_current := g_current env, hc_gseq := g_seq env, hc_draws := g_draws env\<rparr>"

definition hctx :: "nat \<Rightarrow> ('c, 'd, 'g, 'b) hello \<Rightarrow> (('c, 'd, 'g, 'b) hello_env, unit) c_context" where
  "hctx i h = Some \<lparr>cx_proto = hload i h, cx_private = None\<rparr>"

definition on_ctx ::
  "nat \<Rightarrow> ('c, 'd, 'g, 'b, ('c, 'd, 'g, 'b) hello, unit, 'a) cm \<Rightarrow> ('c, 'd, 'g, 'b, 'a) hm" where
  "on_ctx i m = do {
     r \<leftarrow> State (\<lambda>h. case run_state m (hctx i h) of
       (r, Some x) \<Rightarrow> (r, hstore i (cx_proto x)) | (r, None) \<Rightarrow> (r, h));
     dead \<leftarrow> gets (\<lambda>h. i \<in> set (hc_dead h));
     when_do dead (hc_raise (Use_after_free i));
     ret r
   }"

definition call_out :: "nat \<Rightarrow> ('c, 'd, 'g, 'b, 'a) hm \<Rightarrow> (('c, 'd, 'g, 'b) hello_env, 'a) state" where
  "call_out i f = State (\<lambda>env. case run_state f (hstore i env) of (r, h) \<Rightarrow> (r, hload i h))"

section \<open>Shared pointers to contexts\<close>

text \<open>A context without a pointer to it is destroyed (~proto_wrapper).\<close>

definition release_ctx :: "(nat \<Rightarrow> ('c, 'd, 'g, 'b) hello_link) \<Rightarrow> nat \<Rightarrow> ('c, 'd, 'g, 'b, unit) hm" where
  "release_ctx L i = do {
     referenced \<leftarrow> gets (\<lambda>h. i \<in> set (hc_held h) \<or> hc_proto h = Some i);
     when_do (\<not> referenced) (do {
       on_ctx i (c_destroy (L i));
       modify (\<lambda>h. h\<lparr>hc_dead := i # hc_dead h\<rparr>)
     })
   }"

definition release_old :: "(nat \<Rightarrow> ('c, 'd, 'g, 'b) hello_link) \<Rightarrow> nat option \<Rightarrow> ('c, 'd, 'g, 'b, unit) hm" where
  "release_old L p = (case p of None \<Rightarrow> ret () | Some i \<Rightarrow> release_ctx L i)"

definition assign_proto ::
  "(nat \<Rightarrow> ('c, 'd, 'g, 'b) hello_link) \<Rightarrow> nat option \<Rightarrow> ('c, 'd, 'g, 'b, unit) hm" where
  "assign_proto L q = do {
     p \<leftarrow> gets hc_proto;
     modify (\<lambda>h. h\<lparr>hc_proto := q\<rparr>);
     release_old L p
   }"

definition hold_ctx :: "nat \<Rightarrow> ('c, 'd, 'g, 'b, unit) hm" where
  "hold_ctx i = modify (\<lambda>h. h\<lparr>hc_held := i # hc_held h\<rparr>)"

definition unhold_ctx :: "(nat \<Rightarrow> ('c, 'd, 'g, 'b) hello_link) \<Rightarrow> nat \<Rightarrow> ('c, 'd, 'g, 'b, unit) hm" where
  "unhold_ctx L i = do { modify (\<lambda>h. h\<lparr>hc_held := remove1 i (hc_held h)\<rparr>); release_ctx L i }"

text \<open>std::make_shared of a proto_wrapper, held by the function that made it.\<close>

definition make_ctx :: "('c, 'd, 'g, 'b) hello_lib \<Rightarrow> ('c, 'd, 'g, 'b, nat) hm" where
  "make_ctx H = do {
     j \<leftarrow> gets hc_count;
     modify (\<lambda>h. h\<lparr>hc_count := Suc j, hc_objs := (hc_objs h)(j := proto_init (lk_crypto (hl_link H)) (hl_buffers H))\<rparr>);
     hold_ctx j;
     ret j
   }"

section \<open>The connection\<close>

definition hello_uv_close :: "('c, 'd, 'g, 'b, unit) hm" where
  "hello_uv_close = do { hc_log Hv_close; modify (\<lambda>h. h\<lparr>hc_closing := True\<rparr>) }"

definition close_sock :: "(nat \<Rightarrow> ('c, 'd, 'g, 'b) hello_link) \<Rightarrow> ('c, 'd, 'g, 'b, int) hm" where
  "close_sock L = do {
     p \<leftarrow> gets hc_proto;
     (case p of
        None \<Rightarrow> do {
          tcp \<leftarrow> gets hc_tcp;
          when_do tcp hello_uv_close;
          ret 0
        }
      | Some i \<Rightarrow> on_ctx i (c_close (L i) 0))
   }"

definition libuv_close_sock_callback :: "('c, 'd, 'g, 'b, unit) hm" where
  "libuv_close_sock_callback = do { hc_log Hv_closed; modify (\<lambda>h. h\<lparr>hc_tcp := False\<rparr>) }"

definition libuv_tcp_recv_alloc_fn ::
  "(nat \<Rightarrow> ('c, 'd, 'g, 'b) hello_link) \<Rightarrow> ('c, 'd, 'g, 'b, recv_place) hm" where
  "libuv_tcp_recv_alloc_fn L = do {
     p \<leftarrow> gets hc_proto;
     (case p of
        None \<Rightarrow> do { hc_log Hv_read_stop; ret No_place }
      | Some i \<Rightarrow> do {
          (place, _) \<leftarrow> on_ctx i (c_read_alloc (L i) True True);
          when_do (place = Some No_place) (hc_log Hv_read_stop);
          ret (case place of None \<Rightarrow> No_place | Some p \<Rightarrow> p)
        })
   }"

definition libuv_tcp_recv_read_fn ::
  "('c, 'd, 'g, 'b) hello_lib \<Rightarrow> (nat \<Rightarrow> ('c, 'd, 'g, 'b) hello_link) \<Rightarrow> int \<Rightarrow> ('c, 'd, 'g, 'b, unit) hm" where
  "libuv_tcp_recv_read_fn H L nread =
     (if nread = 0 \<or> nread = uv_eagain H \<or> nread = uv_eai_again H \<or> nread = uv_eintr H then ret ()
      else if nread < 0 then do { _ \<leftarrow> close_sock L; ret () }
      else do {
        p \<leftarrow> gets hc_proto;
        (case p of
           None \<Rightarrow> ret ()
         | Some i \<Rightarrow> do {
             hold_ctx i;
             errcode \<leftarrow> on_ctx i (c_read (L i) (of_int nread) True);
             when_do (errcode \<noteq> Some 0) (do { _ \<leftarrow> close_sock L; ret () });
             unhold_ctx L i
           })
      })"

text \<open>
  What libuv does with bytes: it asks for memory, puts as many there as fit, and reports them, or the lack
  of memory.
\<close>

definition hello_receive ::
  "('c, 'd, 'g, 'b) hello_lib \<Rightarrow> (nat \<Rightarrow> ('c, 'd, 'g, 'b) hello_link) \<Rightarrow> byte list \<Rightarrow> ('c, 'd, 'g, 'b, unit) hm" where
  "hello_receive H L bytes = do {
     place \<leftarrow> libuv_tcp_recv_alloc_fn L;
     p \<leftarrow> gets hc_proto;
     if place = No_place then libuv_tcp_recv_read_fn H L (uv_enobufs H)
     else (case p of
        None \<Rightarrow> ret ()
      | Some i \<Rightarrow> do {
          on_ctx i (on_context () (copy_bytes (L i) place bytes));
          libuv_tcp_recv_read_fn H L (int (min (length bytes) (unat (place_room place))))
        })
   }"

definition reconnect_old ::
  "(nat \<Rightarrow> ('c, 'd, 'g, 'b) hello_link) \<Rightarrow> nat \<Rightarrow> nat \<Rightarrow> ('c, 'd, 'g, 'b, int) hm" where
  "reconnect_old L i j = do {
     secret_len \<leftarrow> gets (\<lambda>h. c_get_crypt_secret_size (hctx i h));
     crypt_type \<leftarrow> gets (\<lambda>h. case c_get_crypt_type (hctx i h) of None \<Rightarrow> [] | Some t \<Rightarrow> t);
     when_do (secret_len = 0) (hc_raise Empty_vector);
     secret \<leftarrow> gets (\<lambda>h. fst (c_copy_crypt_secret (hctx i h) (replicate (unat secret_len) 0)));
     assign_proto L (Some j);
     sid \<leftarrow> gets hc_session_id;
     on_ctx j (c_reconnect_session (L j) sid crypt_type secret)
   }"

definition libuv_tcp_connect_callback ::
  "('c, 'd, 'g, 'b) hello_lib \<Rightarrow> (nat \<Rightarrow> ('c, 'd, 'g, 'b) hello_link) \<Rightarrow> int \<Rightarrow> ('c, 'd, 'g, 'b, unit) hm" where
  "libuv_tcp_connect_callback H L status =
     (if status \<noteq> 0 then hc_log Hv_stop
      else do {
        hc_log Hv_read_start;
        j \<leftarrow> make_ctx H;
        on_ctx j (c_set_recv_buffer_limit (L j) (2 * 1024 * 1024) 0);
        on_ctx j (c_set_send_buffer_limit (L j) (2 * 1024 * 1024) 0);
        p \<leftarrow> gets hc_proto;
        allow \<leftarrow> gets hc_allow_reconnect;
        r \<leftarrow> (case p of
           Some i \<Rightarrow>
             if allow then reconnect_old L i j
             else do { assign_proto L (Some j); t \<leftarrow> gets hc_crypt_types; on_ctx j (c_start_session (L j) (c_str t)) }
         | None \<Rightarrow> do { assign_proto L (Some j); t \<leftarrow> gets hc_crypt_types; on_ctx j (c_start_session (L j) (c_str t)) });
        when_do (r \<noteq> 0) (do { hello_uv_close; _ \<leftarrow> on_ctx j (c_close (L j) 0); ret () });
        unhold_ctx L j
      })"

text \<open>\<open>known\<close> says whether the address is of IPv4 or IPv6.\<close>

definition libuv_dns_callback ::
  "('c, 'd, 'g, 'b) hello_lib \<Rightarrow> int \<Rightarrow> bool \<Rightarrow> ('c, 'd, 'g, 'b, unit) hm" where
  "libuv_dns_callback H status known = do {
     modify (\<lambda>h. h\<lparr>hc_dns := False\<rparr>);
     if status \<noteq> 0 then hc_log Hv_stop
     else do {
       tcp \<leftarrow> gets hc_tcp;
       if tcp then ret ()
       else do {
         hc_log Hv_tcp_init;
         modify (\<lambda>h. h\<lparr>hc_tcp := True, hc_closing := False\<rparr>);
         if \<not> known then ret ()
         else do {
           r \<leftarrow> hc_ask Hv_tcp_connect (hl_tcp_connect H);
           when_do (r \<noteq> 0) (do { hello_uv_close; hc_log Hv_stop })
         }
       }
     }
   }"

definition start_connect :: "('c, 'd, 'g, 'b) hello_lib \<Rightarrow> ('c, 'd, 'g, 'b, int) hm" where
  "start_connect H = do {
     dns \<leftarrow> gets hc_dns;
     if dns then ret 0
     else do {
       r \<leftarrow> hc_ask Hv_getaddrinfo (hl_getaddrinfo H);
       if r \<noteq> 0 then ret r
       else do { modify (\<lambda>h. h\<lparr>hc_dns := True\<rparr>); ret 0 }
     }
   }"

section \<open>The callbacks of the protocol\<close>

definition proto_inner_callback_on_written_fn ::
  "(nat \<Rightarrow> ('c, 'd, 'g, 'b) hello_link) \<Rightarrow> int \<Rightarrow> ('c, 'd, 'g, 'b, unit) hm" where
  "proto_inner_callback_on_written_fn L status = do {
     p \<leftarrow> gets hc_proto;
     (case p of
        None \<Rightarrow> ret ()
      | Some i \<Rightarrow> do { _ \<leftarrow> on_ctx i (c_write_done (L i) status); ret () })
   }"

text \<open>The buffer is never NULL here (the adapter of the C export tests that).\<close>

definition hello_on_write :: "('c, 'd, 'g, 'b) hello_lib \<Rightarrow> byte list \<Rightarrow> ('c, 'd, 'g, 'b, int \<times> int) hm" where
  "hello_on_write H buffer = do {
     p \<leftarrow> gets hc_proto;
     if p = None then ret (- 1, 1)
     else do {
       r \<leftarrow> hc_ask (Hv_write buffer) (hl_write H);
       ret (r, if r \<noteq> 0 then 1 else 0)
     }
   }"

fun show_hex :: "nat \<Rightarrow> string" where
  "show_hex n = (let d = (\<lambda>k. if k < 10 then digit k else char_of (87 + k))
     in if n < 16 then [d n] else show_hex (n div 16) @ [d (n mod 16)])"

declare show_hex.simps [simp del]

text \<open>snprintf into an array of 64 characters.\<close>

definition hello_text :: "u64 \<Rightarrow> u64 \<Rightarrow> string" where
  "hello_text sid sq = take 63 (''hello 0x'' @ show_hex (unat sid) @ '', '' @ show_int (sint sq))"

definition send_next_hello_message ::
  "(nat \<Rightarrow> ('c, 'd, 'g, 'b) hello_link) \<Rightarrow> ('c, 'd, 'g, 'b, int) hm" where
  "send_next_hello_message L = do {
     modify (\<lambda>h. h\<lparr>hc_seq := hc_seq h + 1\<rparr>);
     msg \<leftarrow> gets (\<lambda>h. bytes_of_string (hello_text (hc_session_id h) (hc_seq h)));
     p \<leftarrow> gets hc_proto;
     r \<leftarrow> (case p of
        None \<Rightarrow> do { hc_raise Null_proto; ret (- 1) }
      | Some i \<Rightarrow> on_ctx i (c_post_msg (L i) (Some msg)));
     when_do (r = 0) (modify (\<lambda>h. h\<lparr>hc_sec_send_count := hc_sec_send_count h + 1,
       hc_sum_send_count := hc_sum_send_count h + 1, hc_sec_send_size := hc_sec_send_size h + of_nat (length msg),
       hc_sum_send_size := hc_sum_send_size h + of_nat (length msg)\<rparr>));
     ret r
   }"

definition hello_on_message ::
  "(nat \<Rightarrow> ('c, 'd, 'g, 'b) hello_link) \<Rightarrow> byte list \<Rightarrow> u64 \<Rightarrow> ('c, 'd, 'g, 'b, int) hm" where
  "hello_on_message L buffer sz = do {
     modify (\<lambda>h. h\<lparr>hc_sec_recv_count := hc_sec_recv_count h + 1, hc_sum_recv_count := hc_sum_recv_count h + 1,
       hc_sec_recv_size := hc_sec_recv_size h + sz, hc_sum_recv_size := hc_sum_recv_size h + sz\<rparr>);
     more \<leftarrow> gets (\<lambda>h. hc_sec_send_count h < hc_sec_send_bound h);
     when_do more (do { _ \<leftarrow> send_next_hello_message L; ret () });
     ret 0
   }"

definition hello_on_new_session :: "u64 \<Rightarrow> ('c, 'd, 'g, 'b, int \<times> u64) hm" where
  "hello_on_new_session sess_id = ret (0, sess_id)"

definition hello_on_reconnect :: "u64 \<Rightarrow> ('c, 'd, 'g, 'b, int) hm" where
  "hello_on_reconnect sess_id = ret 0"

definition hello_on_close :: "int \<Rightarrow> ('c, 'd, 'g, 'b, int) hm" where
  "hello_on_close reason = do {
     tcp \<leftarrow> gets hc_tcp;
     if \<not> tcp then ret 0
     else do {
       closing \<leftarrow> gets hc_closing;
       when_do (\<not> closing) hello_uv_close;
       modify (\<lambda>h. h\<lparr>hc_allow_reconnect := 1000 > reason\<rparr>);
       ret 0
     }
   }"

definition take_session_id :: "nat \<Rightarrow> ('c, 'd, 'g, 'b, unit) hm" where
  "take_session_id i = modify (\<lambda>h. h\<lparr>hc_session_id := c_get_session_id (hctx i h)\<rparr>)"

definition hello_on_handshake ::
  "(nat \<Rightarrow> ('c, 'd, 'g, 'b) hello_link) \<Rightarrow> nat \<Rightarrow> int \<Rightarrow> ('c, 'd, 'g, 'b, int) hm" where
  "hello_on_handshake L i status =
     (if status = 0 then do { take_session_id i; ret 0 }
      else do { assign_proto L None; ret (- 1) })"

definition hello_on_handshake_update ::
  "(nat \<Rightarrow> ('c, 'd, 'g, 'b) hello_link) \<Rightarrow> nat \<Rightarrow> int \<Rightarrow> ('c, 'd, 'g, 'b, int) hm" where
  "hello_on_handshake_update L i status =
     (if status = 0 then do { take_session_id i; ret 0 }
      else do { _ \<leftarrow> on_ctx i (c_close (L i) 0); assign_proto L None; ret (- 1) })"

definition hello_on_error :: "int \<Rightarrow> string \<Rightarrow> ('c, 'd, 'g, 'b, int) hm" where
  "hello_on_error errcode errmsg = ret 0"

text \<open>The functions main sets, as the callbacks of context \<open>i\<close>.\<close>

definition hello_table ::
  "('c, 'd, 'g, 'b) hello_lib \<Rightarrow> (nat \<Rightarrow> ('c, 'd, 'g, 'b) hello_link) \<Rightarrow> nat \<Rightarrow> ('c, 'd, 'g, 'b) hello_env c_callbacks" where
  "hello_table H L i =
     gset_on_error_fn (Some (\<lambda>e m. call_out i (hello_on_error e m)))
     (gset_on_handshake_update_fn (Some (\<lambda>st. call_out i (hello_on_handshake_update L i st)))
     (gset_on_handshake_done_fn (Some (\<lambda>st. call_out i (hello_on_handshake L i st)))
     (gset_on_close_fn (Some (\<lambda>r. call_out i (hello_on_close r)))
     (gset_on_init_reconnect_fn (Some (\<lambda>sid. call_out i (hello_on_reconnect sid)))
     (gset_on_init_new_session_fn (Some (\<lambda>sid. call_out i (hello_on_new_session sid)))
     (gset_on_message_fn (Some (\<lambda>buffer sz. call_out i (hello_on_message L buffer sz)))
     (gset_on_write_start_fn (Some (\<lambda>buffer. call_out i (hello_on_write H buffer))) c_callbacks_new)))))))"

text \<open>Below the depth that is looked at, a callback is a fault.\<close>

definition hello_too_deep :: "'a \<Rightarrow> ('c, 'd, 'g, 'b, 'a) hm" where
  "hello_too_deep r = do { hc_raise Too_deep; ret r }"

definition deep_table :: "nat \<Rightarrow> ('c, 'd, 'g, 'b) hello_env c_callbacks" where
  "deep_table i = \<lparr>callbacks_set = True, write_start_fn = Some (\<lambda>bs. call_out i (hello_too_deep (- 1, 1))),
     on_message_fn = Some (\<lambda>bs n. call_out i (hello_too_deep 0)),
     on_init_new_session_fn = Some (\<lambda>sid. call_out i (hello_too_deep (0, sid))),
     on_init_reconnect_fn = Some (\<lambda>sid. call_out i (hello_too_deep 0)),
     on_close_fn = Some (\<lambda>r. call_out i (hello_too_deep 0)),
     c_handshake_done_fn = Some (\<lambda>st. call_out i (hello_too_deep 0)),
     c_handshake_update_fn = Some (\<lambda>st. call_out i (hello_too_deep 0)),
     c_error_fn = Some (\<lambda>e m. call_out i (hello_too_deep 0))\<rparr>"

primrec hello_links :: "('c, 'd, 'g, 'b) hello_lib \<Rightarrow> nat \<Rightarrow> nat \<Rightarrow> ('c, 'd, 'g, 'b) hello_link" where
  "hello_links H 0 = (\<lambda>i. c_link (hl_link H) (deep_table i))"
| "hello_links H (Suc n) = (\<lambda>i. c_link (hl_link H) (hello_table H (hello_links H n) i))"

section \<open>The tick and the main function\<close>

text \<open>A turn of the loop counts a message sent or is the last one, so the bound is enough turns; a loop that
  goes on after these is a fault.\<close>

primrec hello_send_loop ::
  "(nat \<Rightarrow> ('c, 'd, 'g, 'b) hello_link) \<Rightarrow> nat \<Rightarrow> ('c, 'd, 'g, 'b, unit) hm" where
  "hello_send_loop L 0 = do {
     more \<leftarrow> gets (\<lambda>h. hc_sec_send_count h < hc_sec_send_bound h);
     when_do more (hc_raise Too_deep)
   }"
| "hello_send_loop L (Suc n) = do {
     more \<leftarrow> gets (\<lambda>h. hc_sec_send_count h < hc_sec_send_bound h);
     when_do more (do {
       r \<leftarrow> send_next_hello_message L;
       when_do (r = 0) (hello_send_loop L n)
     })
   }"

definition hello_idle :: "nat \<Rightarrow> ('c, 'd, 'g, 'b) hello \<Rightarrow> bool" where
  "hello_idle i h \<longleftrightarrow> hc_session_id h = 0 \<or> c_is_closing (hctx i h) \<noteq> 0 \<or> c_is_handshake_done (hctx i h) = 0"

definition hello_tick_send :: "(nat \<Rightarrow> ('c, 'd, 'g, 'b) hello_link) \<Rightarrow> ('c, 'd, 'g, 'b, unit) hm" where
  "hello_tick_send L = do {
     p \<leftarrow> gets hc_proto;
     (case p of
        None \<Rightarrow> ret ()
      | Some i \<Rightarrow> do {
          wait \<leftarrow> gets (hello_idle i);
          when_do (\<not> wait) (do {
            modify (\<lambda>h. h\<lparr>hc_sec_recv_count := 0, hc_sec_send_count := 0, hc_sec_recv_size := 0,
              hc_sec_send_size := 0\<rparr>);
            n \<leftarrow> gets (\<lambda>h. unat (hc_sec_send_bound h));
            hello_send_loop L n
          })
        })
   }"

definition libuv_tick_timer_callback ::
  "('c, 'd, 'g, 'b) hello_lib \<Rightarrow> (nat \<Rightarrow> ('c, 'd, 'g, 'b) hello_link) \<Rightarrow> ('c, 'd, 'g, 'b, unit) hm" where
  "libuv_tick_timer_callback H L = do {
     idle \<leftarrow> gets (\<lambda>h. \<not> hc_tcp h \<and> \<not> hc_dns h);
     if idle then do {
       allow \<leftarrow> gets hc_allow_reconnect;
       if \<not> allow then hc_log Hv_stop else do { _ \<leftarrow> start_connect H; ret () }
     }
     else hello_tick_send L
   }"

text \<open>What the tick prints of a size.\<close>

definition get_size_readable :: "u64 \<Rightarrow> u64 \<times> string" where
  "get_size_readable sz0 =
     (let (sz1, u1) = (if sz0 \<ge> 32768 then (sz0 div 1024, ''KB'') else (sz0, ''B''));
          (sz2, u2) = (if sz1 \<ge> 32768 then (sz1 div 1024, ''MB'') else (sz1, u1));
          (sz3, u3) = (if sz2 \<ge> 32768 then (sz2 div 1024, ''GB'') else (sz2, u2))
      in if sz3 \<ge> 32768 then (sz3 div 1024, ''TB'') else (sz3, u3))"

text \<open>The globals as main sets them: the cipher names and the mode are the optional arguments; None is an
  unknown mode.\<close>

definition hello_init ::
  "('c, 'd, 'g, 'b) hello_lib \<Rightarrow> string option \<Rightarrow> string option \<Rightarrow> ('c, 'd, 'g, 'b) hello option" where
  "hello_init H names mode =
     (let h = \<lparr>hc_tcp = False, hc_closing = False, hc_dns = False, hc_session_id = 0, hc_seq = 0, hc_proto = None,
            hc_print_msg = False, hc_busy_mode = False, hc_allow_reconnect = True, hc_sec_send_bound = 1,
            hc_sec_recv_count = 0, hc_sum_recv_count = 0, hc_sec_send_count = 0, hc_sum_send_count = 0,
            hc_sec_recv_size = 0, hc_sum_recv_size = 0, hc_sec_send_size = 0, hc_sum_send_size = 0,
            hc_crypt_types = (if names = None \<or> names = Some [] then ''xxtea:aes-128-cfb:aes-256-cfb'' else the names),
            hc_objs = (\<lambda>i. proto_init (lk_crypto (hl_link H)) (hl_buffers H)), hc_count = 0, hc_held = [], hc_dead = [],
            hc_current = None, hc_gseq = 0, hc_draws = 0, hc_clock = 0, hc_trace = [], hc_faults = []\<rparr>;
          m = (case mode of None \<Rightarrow> ''tick'' | Some s \<Rightarrow> map tolower_ch s)
      in if m = ''tick'' then Some (h\<lparr>hc_print_msg := True\<rparr>)
         else if m = ''busy'' then Some (h\<lparr>hc_busy_mode := True, hc_sec_send_bound := 5000\<rparr>)
         else None)"

text \<open>What libuv calls, in any order.\<close>

datatype hello_input =
    In_receive "byte list" | In_read int | In_connected int | In_resolved int bool | In_closed | In_written int
  | In_tick | In_clock int

primrec hello_call ::
  "('c, 'd, 'g, 'b) hello_lib \<Rightarrow> nat \<Rightarrow> hello_input \<Rightarrow> ('c, 'd, 'g, 'b, unit) hm" where
  "hello_call H n (In_receive bytes) = hello_receive H (hello_links H n) bytes"
| "hello_call H n (In_read nread) = libuv_tcp_recv_read_fn H (hello_links H n) nread"
| "hello_call H n (In_connected status) = libuv_tcp_connect_callback H (hello_links H n) status"
| "hello_call H n (In_resolved status known) = libuv_dns_callback H status known"
| "hello_call H n In_closed = libuv_close_sock_callback"
| "hello_call H n (In_written status) = proto_inner_callback_on_written_fn (hello_links H n) status"
| "hello_call H n In_tick = libuv_tick_timer_callback H (hello_links H n)"
| "hello_call H n (In_clock t) = modify (\<lambda>h. h\<lparr>hc_clock := t\<rparr>)"

fun hello_run :: "('c, 'd, 'g, 'b) hello_lib \<Rightarrow> nat \<Rightarrow> hello_input list \<Rightarrow> ('c, 'd, 'g, 'b, unit) hm" where
  "hello_run H n [] = ret ()"
| "hello_run H n (c # cs) = do { hello_call H n c; hello_run H n cs }"

text \<open>main: the first connection, then the loop; the result says whether the loop ran.\<close>

definition hello_main ::
  "('c, 'd, 'g, 'b) hello_lib \<Rightarrow> nat \<Rightarrow> hello_input list \<Rightarrow> ('c, 'd, 'g, 'b, int) hm" where
  "hello_main H n cs = do {
     r \<leftarrow> start_connect H;
     if r < 0 then ret r else do { hello_run H n cs; ret 0 }
   }"

end
