(* ===== verification/HelloCore.thy ===== *)
theory HelloCore
  imports HelloClient GwContract
begin

text \<open>
  What the callbacks of the sample client keep, however deep they nest: a relation of its state, and the contract
  of its protocol objects.
\<close>

section \<open>What the callbacks keep\<close>

definition handle_events :: "hello_event list \<Rightarrow> hello_event list" where
  "handle_events tr = filter (\<lambda>e. e = Hv_tcp_init \<or> e = Hv_closed) tr"

lemma handle_events_simps [simp]:
  "handle_events [] = []" "handle_events (s @ t) = handle_events s @ handle_events t"
  "handle_events [Hv_tcp_init] = [Hv_tcp_init]" "handle_events [Hv_closed] = [Hv_closed]"
  "e \<noteq> Hv_tcp_init \<Longrightarrow> e \<noteq> Hv_closed \<Longrightarrow> handle_events [e] = []"
  by (auto simp: handle_events_def)

definition hello_writes :: "hello_event list \<Rightarrow> byte list list" where
  "hello_writes tr = List.map_filter (\<lambda>e. case e of Hv_write bs \<Rightarrow> Some bs | _ \<Rightarrow> None) tr"

lemma hello_writes_simps [simp]:
  "hello_writes [] = []" "hello_writes (s @ t) = hello_writes s @ hello_writes t"
  "\<not> (\<exists>bs. e = Hv_write bs) \<Longrightarrow> hello_writes [e] = []"
  by (auto simp: hello_writes_def map_filter_def split: hello_event.splits)

text \<open>Whether the socket is initialised after a trace; None when it was initialised twice without a close.\<close>

fun handle_run :: "bool \<Rightarrow> hello_event list \<Rightarrow> bool option" where
  "handle_run b [] = Some b"
| "handle_run b (Hv_tcp_init # tr) = (if b then None else handle_run True tr)"
| "handle_run b (Hv_closed # tr) = handle_run False tr"
| "handle_run b (e # tr) = handle_run b tr"

lemma handle_run_append: "handle_run b (s @ t) = Option.bind (handle_run b s) (\<lambda>c. handle_run c t)"
  by (induction b s rule: handle_run.induct) auto

lemma handle_run_events: "handle_run b (handle_events tr) = handle_run b tr"
  by (induction b tr rule: handle_run.induct) (auto simp: handle_events_def)

text \<open>
  The callbacks leave the socket, the name resolution, the number of contexts and the held ones alone, do not set
  the pointer to a context, and keep the contract of the objects, but for those in \<open>I\<close>.
\<close>

definition kept :: "nat set \<Rightarrow> ('c, 'd, 'g, 'b) hello \<Rightarrow> ('c, 'd, 'g, 'b) hello \<Rightarrow> bool" where
  "kept I h h' \<longleftrightarrow> hc_tcp h' = hc_tcp h \<and> hc_dns h' = hc_dns h \<and> hc_count h' = hc_count h \<and> hc_held h' = hc_held h \<and>
     handle_events (hc_trace h') = handle_events (hc_trace h) \<and> (hc_proto h = None \<longrightarrow> hc_proto h' = None \<and> hello_writes (hc_trace h') = hello_writes (hc_trace h)) \<and>
     (\<forall>j. j \<notin> I \<longrightarrow> core (env_of (hc_objs h j)) (env_of (hc_objs h' j)))"

lemma kept_pre: "rel_pre (kept I)"
  unfolding rel_pre_def kept_def using core_pre unfolding rel_pre_def by simp blast

lemma kept_quiet:
  assumes "hc_tcp h' = hc_tcp h" "hc_dns h' = hc_dns h" "hc_count h' = hc_count h" "hc_held h' = hc_held h"
    "handle_events (hc_trace h') = handle_events (hc_trace h)" "hello_writes (hc_trace h') = hello_writes (hc_trace h)"
    "hc_proto h' = hc_proto h \<or> hc_proto h' = None"
    "\<And>j. j \<notin> I \<Longrightarrow> hc_objs h' j = hc_objs h j"
  shows "kept I h h'"
  using assms rel_pre_refl [OF core_pre] by (auto simp: kept_def)

lemma kept_modify:
  "(\<And>h. hc_tcp (f h) = hc_tcp h) \<Longrightarrow> (\<And>h. hc_dns (f h) = hc_dns h) \<Longrightarrow> (\<And>h. hc_count (f h) = hc_count h) \<Longrightarrow>
   (\<And>h. hc_held (f h) = hc_held h) \<Longrightarrow> (\<And>h. handle_events (hc_trace (f h)) = handle_events (hc_trace h)) \<Longrightarrow>
   (\<And>h. hello_writes (hc_trace (f h)) = hello_writes (hc_trace h)) \<Longrightarrow> (\<And>h. hc_proto (f h) = hc_proto h \<or> hc_proto (f h) = None) \<Longrightarrow> (\<And>h. hc_objs (f h) = hc_objs h) \<Longrightarrow>
   state_io_rel (kept I) (modify f)"
  by (rule io_rel_modify) (rule kept_quiet; simp)

lemmas kept_rules = io_rel_bind [OF kept_pre] io_rel_return [OF kept_pre] io_rel_gets [OF kept_pre]
  io_rel_when [OF kept_pre] io_rel_if io_rel_case_option io_rel_case_prod io_rel_let kept_modify

lemma truncate_hload [simp]: "proto.truncate (hload i h) = hc_objs h i"
  by (simp add: hload_def proto.defs)

lemma world_hload [simp]: "g_world (hload i h) = h"
  by (simp add: hload_def proto.defs)

lemma hstore_fields [simp]:
  "hc_tcp (hstore i e) = hc_tcp (g_world e)" "hc_dns (hstore i e) = hc_dns (g_world e)"
  "hc_count (hstore i e) = hc_count (g_world e)" "hc_held (hstore i e) = hc_held (g_world e)"
  "hc_trace (hstore i e) = hc_trace (g_world e)" "hc_proto (hstore i e) = hc_proto (g_world e)"
  "hc_objs (hstore i e) j = (if j = i then proto.truncate e else hc_objs (g_world e) j)"
  by (simp_all add: hstore_def)

definition side :: "nat \<Rightarrow> ('c, 'd, 'g, 'b) hello_env \<Rightarrow> ('c, 'd, 'g, 'b) hello_env \<Rightarrow> bool" where
  "side i = world_rel (kept {i})"

lemma side_pre: "rel_pre (side i)"
  unfolding side_def by (rule world_rel_pre [OF kept_pre])

lemma kept_into:
  assumes "kept {i} h (g_world e)" and "core (env_of (hc_objs h i)) (env_of (proto.truncate e))"
  shows "kept {} h (hstore i e)"
  using assms by (auto simp: kept_def)

lemma kept_weaken: "kept {} h h' \<Longrightarrow> kept I h h'"
  by (simp add: kept_def)

lemma kept_store: "kept {i} (g_world e) (hstore i e)"
  by (rule kept_quiet) auto

section \<open>Into a context and out of it\<close>

lemma run_on_ctx:
  "run_state (on_ctx i (on_context d m)) h =
     (case run_state m (hload i h) of (r, e) \<Rightarrow> (r, (hstore i e)\<lparr>hc_faults := hc_faults (hstore i e) @
        (if i \<in> set (hc_dead (hstore i e)) then [Use_after_free i] else [])\<rparr>))"
  by (auto simp: on_ctx_def hctx_def run_on_context hc_raise_def split: prod.split)

lemma on_ctx_kept:
  assumes "state_io_rel (side i) m" and "state_io_rel core m"
  shows "state_io_rel (kept {}) (on_ctx i (on_context d m))"
  unfolding state_io_rel_def
proof
  fix h
  obtain r e where run: "run_state m (hload i h) = (r, e)" by fastforce
  have "core (hload i h) e" using io_relD [OF assms(2), of "hload i h"] run by simp
  then have "core (env_of (hc_objs h i)) (env_of (proto.truncate e))"
    using core_env_of [of "hload i h" e] by simp
  moreover have "kept {i} h (g_world e)"
    using io_relD [OF assms(1), of "hload i h"] run by (simp add: side_def world_rel_def)
  ultimately have "kept {} h (hstore i e)" by (rule kept_into [rotated])
  then show "kept {} h (snd (run_state (on_ctx i (on_context d m)) h))"
    using run by (simp add: run_on_ctx kept_def)
qed

lemma call_out_kept:
  assumes "state_io_rel (kept {}) f"
  shows "state_io_rel core (call_out i f)" and "state_io_rel (side i) (call_out i f)"
proof -
  have both: "core e (snd (run_state (call_out i f) e)) \<and> kept {i} (g_world e) (g_world (snd (run_state (call_out i f) e)))" for e
  proof -
    obtain r h where run: "run_state f (hstore i e) = (r, h)" by fastforce
    have k: "kept {} (hstore i e) h" using io_relD [OF assms, of "hstore i e"] run by simp
    then have "core (env_of (hc_objs (hstore i e) i)) (env_of (hc_objs h i))" unfolding kept_def by blast
    then have "core (env_of (proto.truncate e)) (env_of (hc_objs h i))" by simp
    then have "core e (hload i h)" using core_env_of [of e "hload i h"] by simp
    moreover have "kept {i} (g_world e) h"
      using rel_pre_trans [OF kept_pre kept_store kept_weaken [OF k]] .
    ultimately show ?thesis using run by (simp add: call_out_def)
  qed
  show "state_io_rel core (call_out i f)" "state_io_rel (side i) (call_out i f)"
    using both by (simp_all add: state_io_rel_def side_def world_rel_def)
qed

section \<open>The callbacks, at every depth\<close>

context engine
begin

lemma dtor_world [world_io]: "state_io_rel R (proto_dtor K)"
  unfolding proto_dtor_def proto_base_dtor_def by (intro world_rules world_io)

end

definition good_links :: "(nat \<Rightarrow> ('c, 'd, 'g, 'b) hello_link) \<Rightarrow> bool" where
  "good_links L \<longleftrightarrow> (\<forall>i. cb_rel core (lk_cb (L i)) \<and> cb_rel (side i) (lk_cb (L i)))"

lemma good_engine: "good_links L \<Longrightarrow> engine (L i) (side i)"
  unfolding good_links_def side_def by (blast intro: world_engine kept_pre)

lemma hello_events_kept:
  "e \<noteq> Hv_tcp_init \<Longrightarrow> e \<noteq> Hv_closed \<Longrightarrow> \<not> (\<exists>bs. e = Hv_write bs) \<Longrightarrow> state_io_rel (kept I) (hc_log e)"
  "state_io_rel (kept I) (hc_raise f)"
  "state_io_rel (kept I) hello_uv_close"
  unfolding hello_uv_close_def hc_log_def hc_raise_def by (intro kept_rules; simp)+

lemma calls_kept:
  assumes "good_links L"
  shows "state_io_rel (kept {}) (on_ctx i (c_close (L i) r))"
    and "state_io_rel (kept {}) (on_ctx i (c_post_msg (L i) buf))"
    and "state_io_rel (kept {}) (on_ctx i (c_destroy (L i)))"
    and "state_io_rel (kept {}) (on_ctx i (c_write_done (L i) st))"
    and "state_io_rel (kept {}) (on_ctx i (c_start_session (L i) ty))"
    and "state_io_rel (kept {}) (on_ctx i (c_reconnect_session (L i) sid ty secret))"
proof -
  note e = good_engine [OF assms, of i]
  have cb: "cb_rel core (lk_cb (L i))" using assms by (simp add: good_links_def)
  show "state_io_rel (kept {}) (on_ctx i (c_close (L i) r))"
    and "state_io_rel (kept {}) (on_ctx i (c_post_msg (L i) buf))"
    and "state_io_rel (kept {}) (on_ctx i (c_destroy (L i)))"
    and "state_io_rel (kept {}) (on_ctx i (c_write_done (L i) st))"
    and "state_io_rel (kept {}) (on_ctx i (c_start_session (L i) ty))"
    and "state_io_rel (kept {}) (on_ctx i (c_reconnect_session (L i) sid ty secret))"
    unfolding c_close_def c_post_msg_def c_destroy_def c_write_done_def c_start_session_def c_reconnect_session_def close_def
    by (intro on_ctx_kept engine.close_world [OF e] engine.client_world [OF e] engine.dtor_world [OF e] engine.write_world [OF e]
        engine.call_world [OF e] close_with_core proto_dtor_core write_done_core start_session_core reconnect_session_core
        io_rel cb)+
qed

lemma pointer_kept:
  assumes "good_links L"
  shows "state_io_rel (kept {}) (release_ctx L i)" and "state_io_rel (kept {}) (assign_proto L None)"
    and "state_io_rel (kept {}) (close_sock L)"
  unfolding assign_proto_def release_old_def release_ctx_def close_sock_def
  by (intro kept_rules calls_kept [OF assms] hello_events_kept; simp)+

lemma on_write_kept:
  fixes H :: "('c, 'd, 'g, 'b) hello_lib"
  shows "state_io_rel (kept {}) (hello_on_write H buffer)"
proof -
  have "kept {} h (h\<lparr>hc_trace := hc_trace h @ [Hv_write buffer]\<rparr>)" if "hc_proto h = Some p"
    for p and h :: "('c, 'd, 'g, 'b) hello"
    using that rel_pre_refl [OF core_pre] by (auto simp: kept_def)
  then show ?thesis
    using rel_pre_refl [OF kept_pre]
    by (auto simp: state_io_rel_def hello_on_write_def hc_ask_def hc_log_def)
qed

lemma callbacks_kept:
  assumes "good_links L"
  shows "state_io_rel (kept {}) (send_next_hello_message L)"
    and "state_io_rel (kept {}) (hello_on_message L buffer sz)"
    and "state_io_rel (kept {}) (hello_on_close r)"
    and "state_io_rel (kept {}) (hello_on_handshake L i st)"
    and "state_io_rel (kept {}) (hello_on_handshake_update L i st)"
  unfolding hello_on_message_def send_next_hello_message_def hello_on_close_def hello_on_handshake_def
    hello_on_handshake_update_def take_session_id_def
  by (intro kept_rules calls_kept [OF assms] pointer_kept [OF assms] hello_events_kept; simp)+

lemma hello_table_rel:
  assumes "good_links L"
  shows "table_rel core (hello_table H L i)" and "table_rel (side i) (hello_table H L i)"
  unfolding table_rel_def hello_table_def gset_defs c_callbacks_new_def hello_on_new_session_def hello_on_reconnect_def
    hello_on_error_def
  by (auto intro!: call_out_kept on_write_kept callbacks_kept [OF assms] kept_rules)

lemma deep_table_rel: "table_rel core (deep_table i)" "table_rel (side i) (deep_table i)"
  unfolding table_rel_def deep_table_def hello_too_deep_def
  by (auto intro!: call_out_kept kept_rules hello_events_kept)

lemma hello_links_good: "good_links (hello_links H n)"
proof (induction n)
  case 0
  then show ?case
    by (simp add: good_links_def c_link_def adapters_rel [OF core_pre deep_table_rel(1)]
        adapters_rel [OF side_pre deep_table_rel(2)])
next
  case (Suc n)
  then show ?case
    by (simp add: good_links_def c_link_def adapters_rel [OF core_pre hello_table_rel(1)]
        adapters_rel [OF side_pre hello_table_rel(2)])
qed

end
