(* ===== verification/HelloProps.thy ===== *)
theory HelloProps
  imports HelloCore
begin

text \<open>
  Properties of the sample client, over any sequence of calls of libuv: its protocol objects keep the contract, a
  socket is not initialised again before it is closed, and what becomes of a session whose connection is lost.
\<close>

section \<open>Events\<close>

text \<open>
  What every event keeps: well-formed objects stay so; a socket that is initialised again was closed; the name is
  not resolved while there is a socket.
\<close>

definition hello_ok :: "('c, 'd, 'g, 'b) hello \<Rightarrow> bool" where
  "hello_ok h \<longleftrightarrow> (\<forall>i. obj_ok (hc_objs h i)) \<and> handle_run False (hc_trace h) = Some (hc_tcp h) \<and>
     \<not> (hc_tcp h \<and> hc_dns h)"

definition keeps_ok :: "('c, 'd, 'g, 'b) hello \<Rightarrow> ('c, 'd, 'g, 'b) hello \<Rightarrow> bool" where
  "keeps_ok h h' \<longleftrightarrow> (hello_ok h \<longrightarrow> hello_ok h')"

lemma keeps_ok_pre: "rel_pre keeps_ok"
  by (simp add: rel_pre_def keeps_ok_def)

lemma kept_handle:
  assumes "kept I h h'" shows "handle_run b (hc_trace h') = handle_run b (hc_trace h)"
proof -
  have "handle_events (hc_trace h') = handle_events (hc_trace h)" using assms by (simp add: kept_def)
  then show ?thesis using handle_run_events [of b "hc_trace h"] handle_run_events [of b "hc_trace h'"] by simp
qed

lemma kept_ok: "kept {} h h' \<Longrightarrow> keeps_ok h h'"
  unfolding keeps_ok_def hello_ok_def kept_def
  by (metis core_obj_ok empty_iff handle_run_events)

lemma io_kept: "state_io_rel (kept {}) m \<Longrightarrow> state_io_rel keeps_ok m"
  by (simp add: state_io_rel_def kept_ok)

lemmas ok_rules = io_rel_bind [OF keeps_ok_pre] io_rel_return [OF keeps_ok_pre] io_rel_gets [OF keeps_ok_pre]
  io_rel_when [OF keeps_ok_pre] io_rel_if io_rel_case_option io_rel_case_prod io_rel_let

lemma on_ctx_ok:
  fixes m :: "(('c, 'd, 'g, 'b) hello_env, 'a) state"
  assumes "state_io_rel (side i) m" and "state_io_rel recv_rel m"
  shows "state_io_rel keeps_ok (on_ctx i (on_context d m))"
  unfolding state_io_rel_def keeps_ok_def
proof (intro allI impI)
  fix h :: "('c, 'd, 'g, 'b) hello" assume ok: "hello_ok h"
  obtain r e where run: "run_state m (hload i h) = (r, e)" by fastforce
  have k: "kept {i} h (g_world e)"
    using io_relD [OF assms(1), of "hload i h"] run by (simp add: side_def world_rel_def)
  have "obj_ok (proto.truncate e)"
    using recv_obj_ok [of "hload i h" e] io_relD [OF assms(2), of "hload i h"] run ok by (simp add: hello_ok_def)
  moreover have "obj_ok (hc_objs (g_world e) j)" if "j \<noteq> i" for j
    using k ok that core_obj_ok by (auto simp: kept_def hello_ok_def)
  moreover have "handle_run False (hc_trace (g_world e)) = handle_run False (hc_trace h)"
    "hc_tcp (g_world e) = hc_tcp h" "hc_dns (g_world e) = hc_dns h"
    using kept_handle [OF k] k by (auto simp: kept_def)
  ultimately have "hello_ok (hstore i e)" using ok by (auto simp: hello_ok_def)
  then show "hello_ok (snd (run_state (on_ctx i (on_context d m)) h))"
    using run by (simp add: run_on_ctx hello_ok_def)
qed

lemma copy_bytes_side: "good_links L \<Longrightarrow> state_io_rel (side i) (copy_bytes (L i) place bytes)"
  unfolding copy_bytes_def
  by (intro io_rel_case_place engine.world_rules [OF good_engine]; (assumption | simp))

lemma calls_ok:
  assumes "good_links L"
  shows "state_io_rel keeps_ok (on_ctx i (c_read_alloc (L i) b l))"
    and "state_io_rel keeps_ok (on_ctx i (c_read (L i) len er))"
    and "state_io_rel keeps_ok (on_ctx i (on_context () (copy_bytes (L i) place bytes)))"
    and "state_io_rel keeps_ok (on_ctx i (c_set_recv_buffer_limit (L i) x y))"
    and "state_io_rel keeps_ok (on_ctx i (c_set_send_buffer_limit (L i) x y))"
proof -
  note e = good_engine [OF assms, of i]
  have cb: "cb_rel core (lk_cb (L i))" using assms by (simp add: good_links_def)
  note w = engine.world_rules(1-9) [OF e]
  show "state_io_rel keeps_ok (on_ctx i (c_read_alloc (L i) b l))"
    unfolding c_read_alloc_def by (intro on_ctx_ok w engine.read_world [OF e] recv_rules alloc_recv)
  show "state_io_rel keeps_ok (on_ctx i (c_read (L i) len er))"
    unfolding c_read_def by (intro on_ctx_ok w engine.read_world [OF e] recv_rules proto_read_recv cb)
  show "state_io_rel keeps_ok (on_ctx i (on_context () (copy_bytes (L i) place bytes)))"
    by (intro on_ctx_ok copy_bytes_side [OF assms] copy_bytes_recv)
  show "state_io_rel keeps_ok (on_ctx i (c_set_recv_buffer_limit (L i) x y))"
    "state_io_rel keeps_ok (on_ctx i (c_set_send_buffer_limit (L i) x y))"
    unfolding c_set_recv_buffer_limit_def c_set_send_buffer_limit_def
    by (intro on_ctx_ok engine.limits_world [OF e] set_limit_recv)+
qed

lemma ok_modify:
  "(\<And>h. hc_tcp (f h) = hc_tcp h) \<Longrightarrow> (\<And>h. hc_dns (f h) = hc_dns h) \<Longrightarrow> (\<And>h. hc_trace (f h) = hc_trace h) \<Longrightarrow>
   (\<And>h. hc_objs (f h) = hc_objs h) \<Longrightarrow> state_io_rel keeps_ok (modify f)"
  by (rule io_rel_modify) (simp add: keeps_ok_def hello_ok_def)

lemma pointers_ok:
  assumes "good_links L"
  shows "state_io_rel keeps_ok (assign_proto L q)" and "state_io_rel keeps_ok (hold_ctx i)"
    and "state_io_rel keeps_ok (unhold_ctx L i)"
  unfolding assign_proto_def release_old_def hold_ctx_def unhold_ctx_def
  by (intro ok_rules ok_modify io_kept [OF pointer_kept(1) [OF assms]]; simp)+

lemma make_ctx_ok: "state_io_rel keeps_ok (make_ctx H)"
  by (auto simp: state_io_rel_def make_ctx_def hold_ctx_def keeps_ok_def hello_ok_def obj_ok_def view_ok_def view_def
      check_flag_def crypt_ok_def proto_init_def)

lemma receive_ok:
  assumes "good_links L"
  shows "state_io_rel keeps_ok (libuv_tcp_recv_alloc_fn L)" and "state_io_rel keeps_ok (libuv_tcp_recv_read_fn H L n)"
  unfolding libuv_tcp_recv_alloc_fn_def libuv_tcp_recv_read_fn_def
  by (intro ok_rules calls_ok [OF assms] pointers_ok [OF assms] io_kept [OF pointer_kept(3) [OF assms]]
      io_kept hello_events_kept; simp)+

lemma hello_receive_ok:
  assumes "good_links L"
  shows "state_io_rel keeps_ok (hello_receive H L bytes)"
  unfolding hello_receive_def by (intro ok_rules receive_ok [OF assms] calls_ok [OF assms])

lemma connect_ok:
  assumes "good_links L"
  shows "state_io_rel keeps_ok (libuv_tcp_connect_callback H L st)"
  unfolding libuv_tcp_connect_callback_def reconnect_old_def
  by (intro ok_rules calls_ok [OF assms] pointers_ok [OF assms] make_ctx_ok io_kept [OF calls_kept(1) [OF assms]]
      io_kept [OF calls_kept(5) [OF assms]] io_kept [OF calls_kept(6) [OF assms]] io_kept hello_events_kept; simp)

lemma dns_ok: "state_io_rel keeps_ok (libuv_dns_callback H st known)"
  unfolding state_io_rel_def keeps_ok_def
  by (auto simp: libuv_dns_callback_def hc_log_def hc_ask_def hello_uv_close_def hello_ok_def handle_run_append)

lemma start_connect_rel: "\<not> hc_tcp h \<Longrightarrow> keeps_ok h (snd (run_state (start_connect H) h))"
  by (auto simp: start_connect_def hc_ask_def hc_log_def keeps_ok_def hello_ok_def handle_run_append)

lemma tick_ok:
  fixes L :: "nat \<Rightarrow> ('c, 'd, 'g, 'b) hello_link"
  assumes "good_links L"
  shows "state_io_rel keeps_ok (libuv_tick_timer_callback H L)"
proof -
  have loop: "state_io_rel keeps_ok (hello_send_loop L n)" for n
    by (induction n) (auto intro!: ok_rules io_kept [OF callbacks_kept(1) [OF assms]] io_kept [OF hello_events_kept(2)])
  have send: "state_io_rel keeps_ok (hello_tick_send L)"
    unfolding hello_tick_send_def by (intro ok_rules ok_modify loop; simp)
  show ?thesis
    unfolding state_io_rel_def
  proof
    fix h :: "('c, 'd, 'g, 'b) hello"
    have "keeps_ok h (snd (run_state (hc_log Hv_stop) h))"
      by (rule io_relD [OF io_kept [OF hello_events_kept(1)]]) auto
    then show "keeps_ok h (snd (run_state (libuv_tick_timer_callback H L) h))"
      using io_relD [OF send, of h] start_connect_rel [of h H]
      by (auto simp: libuv_tick_timer_callback_def split: prod.split)
  qed
qed

lemma closed_ok: "state_io_rel keeps_ok libuv_close_sock_callback"
  by (auto simp: state_io_rel_def keeps_ok_def libuv_close_sock_callback_def hc_log_def hello_ok_def handle_run_append
      split: bind_splits)

lemma hello_call_ok: "state_io_rel keeps_ok (hello_call H n c)"
proof -
  note g = hello_links_good [of H n]
  have "state_io_rel keeps_ok (proto_inner_callback_on_written_fn (hello_links H n) st)" for st
    unfolding proto_inner_callback_on_written_fn_def by (intro ok_rules io_kept [OF calls_kept(4) [OF g]])
  then show ?thesis
    by (cases c) (simp_all only: hello_call.simps hello_receive_ok [OF g] receive_ok [OF g] connect_ok [OF g] dns_ok closed_ok
        tick_ok [OF g], (intro ok_modify; simp))
qed

lemma hello_run_ok: "state_io_rel keeps_ok (hello_run H n cs)"
  by (induction cs) (auto simp del: hello_call.simps intro!: ok_rules hello_call_ok)

lemma hello_init_ok: "hello_init H names mode = Some h \<Longrightarrow> hello_ok h \<and> \<not> hc_tcp h"
  by (auto simp: hello_init_def Let_def hello_ok_def obj_ok_def view_ok_def view_def check_flag_def crypt_ok_def
      proto_init_def split: if_splits)

text \<open>
  C93: The sample client is a sound client. Whatever libuv calls after the start of main, in any order, and however
  deep the callbacks nest: every protocol object the client ever makes reports its close and its first
  handshake at most once, delivers messages only after the handshake and writes one buffer at a time, and the
  one socket handle is never initialised again before libuv reported its close, nor while the name of the host is being
  resolved.
\<close>

theorem hello_client_contract:
  assumes "hello_init H names mode = Some h" and "h' = snd (run_state (hello_main H n cs) h)"
  shows "length (closes (trace (hc_objs h' i))) \<le> 1 \<and> length (shakes (trace (hc_objs h' i))) \<le> 1 \<and>
    (messages (trace (hc_objs h' i)) \<noteq> [] \<longrightarrow> check_flag EN_PFT_HANDSHAKE_DONE (hc_objs h' i)) \<and>
    serial_writes False (trace (hc_objs h' i)) \<and> crypt_ok (hc_objs h' i) \<and>
    handle_run False (hc_trace h') = Some (hc_tcp h') \<and> \<not> (hc_tcp h' \<and> hc_dns h')"
proof -
  note init = hello_init_ok [OF assms(1)]
  obtain r h1 where s: "run_state (start_connect H) h = (r, h1)" by fastforce
  have "hello_ok h1" using start_connect_rel [of h H] init s by (simp add: keeps_ok_def)
  moreover have "h' = (if r < 0 then h1 else snd (run_state (hello_run H n cs) h1))"
    using assms(2) s by (simp add: hello_main_def split: prod.split)
  ultimately have "hello_ok h'"
    using io_relD [OF hello_run_ok, of h1 H n cs] by (auto simp: keeps_ok_def)
  then show ?thesis by (auto simp: hello_ok_def obj_ok_def view_ok_def view_def split: if_splits)
qed

section \<open>A session that is lost\<close>

definition let_go :: "('c, 'd, 'g, 'b) hello \<Rightarrow> ('c, 'd, 'g, 'b) hello \<Rightarrow> bool" where
  "let_go h h' \<longleftrightarrow> hc_proto h' = None \<and> hello_writes (hc_trace h') = hello_writes (hc_trace h)"

lemma let_go_kept: "let_go h h1 \<Longrightarrow> kept I h1 h2 \<Longrightarrow> let_go h h2"
  by (simp add: let_go_def kept_def)

lemma assign_none:
  assumes "good_links L"
  shows "let_go h (snd (run_state (assign_proto L None) h))"
proof -
  have "state_io_rel (kept {}) (release_old L p)" for p
    unfolding release_old_def by (intro kept_rules pointer_kept [OF assms])
  then have "kept {} (h\<lparr>hc_proto := None\<rparr>) (snd (run_state (release_old L (hc_proto h)) (h\<lparr>hc_proto := None\<rparr>)))"
    by (rule io_relD)
  then show ?thesis by (simp add: assign_proto_def kept_def let_go_def)
qed

lemma close_again:
  assumes "check_flag EN_PFT_CLOSING (hc_objs h i)"
  shows "hc_trace (snd (run_state (on_ctx i (c_close K r)) h)) = hc_trace h"
proof -
  have "check_flag EN_PFT_CLOSING (hload i h)" using assms by (simp add: hload_def check_flag_def proto.defs)
  then show ?thesis by (simp add: c_close_def run_on_ctx close_def close_with_def)
qed

lemma failed_shake_resets:
  assumes "good_links L" and "st \<noteq> 0"
  shows "let_go h (snd (run_state (hello_on_handshake L i st) h))"
    and "check_flag EN_PFT_CLOSING (hc_objs h i) \<Longrightarrow> let_go h (snd (run_state (hello_on_handshake_update L i st) h))"
  using assms(2) assign_none [OF assms(1)] close_again [of h i "L i" 0]
  by (simp_all add: hello_on_handshake_def hello_on_handshake_update_def split_beta let_go_def)

lemma world_call_out: "g_world (snd (run_state (call_out i f) e)) = snd (run_state f (hstore i e))"
  by (simp add: call_out_def split: prod.split)

lemma handshake_done_resets:
  fixes e :: "('c, 'd, 'g, 'b) hello_env"
  assumes "st \<noteq> 0" and "\<not> check_flag EN_PFT_HANDSHAKE_DONE e \<or> check_flag EN_PFT_HANDSHAKE_UPDATE e"
    and "check_flag EN_PFT_CLOSING e"
  shows "let_go (g_world e) (g_world (snd (run_state (handshake_done (lk_cb (hello_links H (Suc n) i)) st) e)))"
proof -
  define e1 where "e1 x = log_event x (set_flag EN_PFT_HANDSHAKE_UPDATE False (set_flag EN_PFT_HANDSHAKE_DONE True e))" for x
  have "check_flag EN_PFT_CLOSING (e1 x)" for x using assms(3) by (simp add: e1_def)
  then have "check_flag EN_PFT_CLOSING (proto.truncate (e1 x))" for x by (simp add: check_flag_def proto.defs)
  then have "let_go (hstore i (e1 x)) (snd (run_state (hello_on_handshake (hello_links H n) i st) (hstore i (e1 x))))"
    and "let_go (hstore i (e1 x)) (snd (run_state (hello_on_handshake_update (hello_links H n) i st) (hstore i (e1 x))))" for x
    by (auto intro: failed_shake_resets [OF hello_links_good assms(1)])
  moreover have "g_world (e1 x) = g_world e" for x by (simp add: e1_def log_event_def set_flag_def)
  ultimately have "let_go (g_world e) (snd (run_state (hello_on_handshake (hello_links H n) i st) (hstore i (e1 x))))"
    and "let_go (g_world e) (snd (run_state (hello_on_handshake_update (hello_links H n) i st) (hstore i (e1 x))))" for x
    by (simp_all add: let_go_def)
  then show ?thesis
    using assms(2)
    by (cases "check_flag EN_PFT_HANDSHAKE_DONE e")
      (auto simp: handshake_done_def shake_callback_def c_link_def adapters_def hello_table_def gset_defs adapter_defs call_c_def
        world_call_out split_beta e1_def)
qed

lemma close_handshake_ends:
  "\<exists>st' e1. run_state (close_handshake K st) e = ((), snd (run_state (handshake_done (lk_cb K) st') e1)) \<and>
     (st \<noteq> 0 \<longrightarrow> st' \<noteq> 0) \<and> (\<forall>f. check_flag f e1 = check_flag f e) \<and> g_world e1 = g_world e"
proof -
  let ?e0 = "upd_hs_crypt (\<lambda>cs. cs\<lparr>cs_param := []\<rparr>) e" and ?sw = "shake_switch_secret_type e"
  have f: "flags ?e0 = flags e" "g_world ?e0 = g_world e" "shake_has_data ?e0 = shake_has_data e"
    "shake_switch_secret_type ?e0 = ?sw"
    by (simp_all add: upd_hs_crypt_def put_crypt_def)
  show ?thesis
  proof (cases "shake_has_data e")
    case False
    then have "run_state (close_handshake K st) e = ((), snd (run_state (handshake_done (lk_cb K) st) ?e0))"
      using f by (simp add: close_handshake_def split_beta)
    then show ?thesis using f by (intro exI [of _ st] exI [of _ ?e0]) (simp add: check_flag_def)
  next
    case True
    let ?dh = "?sw = sst EN_SST_DH \<or> ?sw = sst EN_SST_ECDH"
    let ?y = "if ?dh \<or> ?sw = sst EN_SST_DIRECT then st else ec EN_ECT_CRYPT_NOT_SUPPORTED"
    define e1 where "e1 = (if ?dh then ?e0\<lparr>shake_has_data := False, shake_dh_ctx := dh_close (lk_crypto K) (shake_dh_ctx ?e0)\<rparr>
      else ?e0\<lparr>shake_has_data := False\<rparr>)"
    have "run_state (close_handshake K st) e = ((), snd (run_state (handshake_done (lk_cb K) ?y) e1))"
      using True f by (simp add: close_handshake_def split_beta e1_def)
    moreover have "check_flag g e1 = check_flag g e" "g_world e1 = g_world e" for g
      using f by (simp_all add: e1_def check_flag_def)
    ultimately show ?thesis by (intro exI [of _ ?y] exI [of _ e1]) simp
  qed
qed

text \<open>Destroying a context whose handshake is not finished takes the pointer of the client, whatever it points to.\<close>

lemma dtor_resets:
  fixes e :: "('c, 'd, 'g, 'b) hello_env"
  assumes "check_flag EN_PFT_CLOSING e" and "\<not> check_flag EN_PFT_HANDSHAKE_DONE e \<or> check_flag EN_PFT_HANDSHAKE_UPDATE e"
  shows "let_go (g_world e) (g_world (snd (run_state (proto_dtor (hello_links H (Suc n) i)) e)))"
proof -
  let ?K = "hello_links H (Suc n) i"
  obtain st e1 where shut: "run_state (close_handshake ?K (ec EN_ECT_SESSION_EXPIRED)) e =
      ((), snd (run_state (handshake_done (lk_cb ?K) st) e1))" "st \<noteq> 0" "\<And>f. check_flag f e1 = check_flag f e"
      "g_world e1 = g_world e"
    using close_handshake_ends [of ?K "ec EN_ECT_SESSION_EXPIRED" e] by (auto simp del: hello_links.simps)
  let ?e2 = "snd (run_state (handshake_done (lk_cb ?K) st) e1)"
  have none: "let_go (g_world e) (g_world ?e2)"
    using handshake_done_resets [OF shut(2), of e1 H n i] assms by (simp add: shut(3,4) del: hello_links.simps)
  have en: "engine ?K (side i)" by (rule good_engine [OF hello_links_good])
  have "state_io_rel (side i) (proto_base_dtor (lk_cb ?K))"
    unfolding proto_base_dtor_def by (intro engine.world_rules [OF en] engine.handshake_done_world [OF en])
  then have "side i ?e2 (snd (run_state (proto_base_dtor (lk_cb ?K)) ?e2))" by (rule io_relD)
  moreover have "run_state (proto_dtor ?K) e = run_state (proto_base_dtor (lk_cb ?K)) ?e2"
    using assms(1) shut(1) by (simp add: proto_dtor_def close_with_def del: hello_links.simps)
  ultimately show ?thesis using let_go_kept [OF none] by (simp add: side_def world_rel_def del: hello_links.simps)
qed

text \<open>The limits of the buffers touch the object only.\<close>

lemma limits_quiet:
  "hc_trace (snd (run_state (on_ctx i (c_set_recv_buffer_limit K x y)) h)) = hc_trace h"
  "hc_trace (snd (run_state (on_ctx i (c_set_send_buffer_limit K x y)) h)) = hc_trace h"
  "hc_proto (snd (run_state (on_ctx i (c_set_recv_buffer_limit K x y)) h)) = hc_proto h"
  "hc_proto (snd (run_state (on_ctx i (c_set_send_buffer_limit K x y)) h)) = hc_proto h"
  "hc_held (snd (run_state (on_ctx i (c_set_recv_buffer_limit K x y)) h)) = hc_held h"
  "hc_held (snd (run_state (on_ctx i (c_set_send_buffer_limit K x y)) h)) = hc_held h"
  "hc_allow_reconnect (snd (run_state (on_ctx i (c_set_recv_buffer_limit K x y)) h)) = hc_allow_reconnect h"
  "hc_allow_reconnect (snd (run_state (on_ctx i (c_set_send_buffer_limit K x y)) h)) = hc_allow_reconnect h"
  "j \<noteq> i \<Longrightarrow> hc_objs (snd (run_state (on_ctx i (c_set_recv_buffer_limit K x y)) h)) j = hc_objs h j"
  "j \<noteq> i \<Longrightarrow> hc_objs (snd (run_state (on_ctx i (c_set_send_buffer_limit K x y)) h)) j = hc_objs h j"
  by (simp_all add: c_set_recv_buffer_limit_def c_set_send_buffer_limit_def run_on_ctx set_recv_buffer_limit_def
      set_send_buffer_limit_def)
    (simp_all add: hstore_def)

lemma release_undone:
  assumes "check_flag EN_PFT_CLOSING (hc_objs h i)" and "i \<notin> set (hc_held h)" and "hc_proto h \<noteq> Some i"
    and "\<not> check_flag EN_PFT_HANDSHAKE_DONE (hc_objs h i) \<or> check_flag EN_PFT_HANDSHAKE_UPDATE (hc_objs h i)"
  shows "let_go h (snd (run_state (release_ctx (hello_links H (Suc n)) i) h))"
proof -
  let ?K = "hello_links H (Suc n) i"
  have "check_flag f (hload i h) = check_flag f (hc_objs h i)" for f by (simp add: hload_def check_flag_def proto.defs)
  then have "let_go h (g_world (snd (run_state (proto_dtor ?K) (hload i h))))"
    using dtor_resets [of "hload i h" H n i] assms(1,4) by simp
  then show ?thesis
    using assms(2,3)
    by (simp add: release_ctx_def c_destroy_def run_on_ctx split_beta let_go_def del: hello_links.simps)
qed

text \<open>Without a pointer, nothing brings one back or sends.\<close>

definition gone :: "('c, 'd, 'g, 'b) hello \<Rightarrow> ('c, 'd, 'g, 'b) hello \<Rightarrow> bool" where
  "gone h h' \<longleftrightarrow> (hc_proto h = None \<longrightarrow> let_go h h')"

lemma gone_pre: "rel_pre gone"
  by (auto simp: rel_pre_def gone_def let_go_def)

lemma io_gone: "state_io_rel (kept {}) m \<Longrightarrow> state_io_rel gone m"
  by (simp add: state_io_rel_def kept_def gone_def let_go_def)

lemma unhold_gone: "good_links L \<Longrightarrow> state_io_rel gone (unhold_ctx L i)"
  unfolding unhold_ctx_def
  by (intro io_rel_bind [OF gone_pre] io_gone [OF pointer_kept(1)] io_rel_modify; simp add: gone_def let_go_def)

lemma let_go_gone: "let_go h (snd (run_state m s)) \<Longrightarrow> (\<And>x. state_io_rel gone (f x)) \<Longrightarrow>
    let_go h (snd (run_state (State_Monad.bind m f) s))"
  using io_relD [of gone "f (fst (run_state m s))" "snd (run_state m s)"]
  by (simp add: gone_def let_go_def split_beta)

text \<open>
  C94: A reconnect that is lost. When a connection is lost before its handshake is done, or while the keys are renewed,
  and the client connects again, the new context takes the place of the old one; destroying that one reports its
  unfinished handshake as failed, and the callback resets the pointer that now holds the new context. So the
  client is left without a context and nothing is sent on the new connection, not even the request to
  reconnect.
\<close>

theorem reconnect_lost:
  assumes "hc_proto h = Some i" and "hc_allow_reconnect h" and "hc_held h = []" and "i < hc_count h"
    and "check_flag EN_PFT_CLOSING (hc_objs h i)"
    and "\<not> check_flag EN_PFT_HANDSHAKE_DONE (hc_objs h i) \<or> check_flag EN_PFT_HANDSHAKE_UPDATE (hc_objs h i)"
    and "h' = snd (run_state (libuv_tcp_connect_callback H (hello_links H (Suc n)) 0) h)"
  shows "hc_proto h' = None \<and> hello_writes (hc_trace h') = hello_writes (hc_trace h)"
proof -
  let ?L = "hello_links H (Suc n)" and ?j = "hc_count h"
  note g = hello_links_good [of H "Suc n"]
  let ?lim = "do { on_ctx ?j (c_set_recv_buffer_limit (?L ?j) (2 * 1024 * 1024) 0);
    on_ctx ?j (c_set_send_buffer_limit (?L ?j) (2 * 1024 * 1024) 0) }"
  obtain h1 where h1: "run_state (do { hc_log Hv_read_start; make_ctx H }) h = (?j, h1)"
    by (simp add: make_ctx_def hold_ctx_def hc_log_def)
  have f1: "hc_proto h1 = Some i" "hc_allow_reconnect h1" "hc_held h1 = [?j]" "hc_objs h1 i = hc_objs h i"
    "hello_writes (hc_trace h1) = hello_writes (hc_trace h)"
    using h1 assms(1-4) by (auto simp: make_ctx_def hold_ctx_def hc_log_def)
  define h2 where "h2 = snd (run_state ?lim h1)"
  have f2: "hc_proto h2 = Some i" "hc_allow_reconnect h2" "hc_held h2 = [?j]" "hc_objs h2 i = hc_objs h i"
    "hello_writes (hc_trace h2) = hello_writes (hc_trace h)"
    using f1 assms(4) by (simp_all add: h2_def split_beta limits_quiet del: hello_links.simps)
  let ?late = "\<lambda>r. do { when_do (r \<noteq> 0) (do { hello_uv_close; _ \<leftarrow> on_ctx ?j (c_close (?L ?j) 0); ret () }); unhold_ctx ?L ?j }"
  have late: "state_io_rel gone (?late r)" for r
    by (intro io_rel_bind [OF gone_pre] io_rel_when [OF gone_pre] io_rel_return [OF gone_pre] io_gone [OF hello_events_kept(3)]
        io_gone [OF calls_kept(1) [OF g]] unhold_gone [OF g])
  have assign: "let_go h (snd (run_state (assign_proto ?L (Some ?j)) h3))"
    if "hc_proto h3 = Some i" "hc_held h3 = [?j]" "hc_objs h3 i = hc_objs h i" "hello_writes (hc_trace h3) = hello_writes (hc_trace h)"
    for h3
    using that assms(4-6) release_undone [of "h3\<lparr>hc_proto := Some ?j\<rparr>" i H n]
    by (simp add: assign_proto_def release_old_def let_go_def del: hello_links.simps)
  have old: "let_go h (snd (run_state (reconnect_old ?L i ?j) h2))"
  proof -
    have tail: "state_io_rel gone (do { sid \<leftarrow> gets hc_session_id; on_ctx ?j (c_reconnect_session (?L ?j) sid ty secret) })" for ty secret
      by (intro io_rel_bind [OF gone_pre] io_rel_gets [OF gone_pre] io_gone [OF calls_kept(6) [OF g]])
    have "let_go h (snd (run_state (do { assign_proto ?L (Some ?j); sid \<leftarrow> gets hc_session_id;
        on_ctx ?j (c_reconnect_session (?L ?j) sid ty secret) }) h3))"
      if "hc_proto h3 = Some i" "hc_held h3 = [?j]" "hc_objs h3 i = hc_objs h i" "hello_writes (hc_trace h3) = hello_writes (hc_trace h)"
      for h3 ty secret
      by (rule let_go_gone [OF assign [OF that] tail])
    then show ?thesis using f2 by (simp add: reconnect_old_def hc_raise_def del: hello_links.simps)
  qed
  have "let_go h (snd (run_state (do { r \<leftarrow> reconnect_old ?L i ?j; ?late r }) h2))"
    by (rule let_go_gone [OF old late])
  moreover have "h' = snd (run_state (do { r \<leftarrow> reconnect_old ?L i ?j; ?late r }) h2)"
    using h1 f2(1,2) unfolding assms(7) h2_def
    by (simp add: libuv_tcp_connect_callback_def split_beta del: hello_links.simps)
  ultimately show ?thesis by (simp add: let_go_def)
qed

section \<open>An instance\<close>

definition ex_hello_lib :: "(byte list, byte list, unit, bblock list) hello_lib" where
  "ex_hello_lib = \<lparr>hl_link = \<lparr>lk_crypto = ex_crypto, lk_buf = ex_buf, lk_fb = ex_fb,
       lk_hash = (\<lambda>bs. word_of_nat (length bs)), lk_hex = (\<lambda>bs. concat (map (\<lambda>b. [b, b]) bs)), lk_cb = None, lk_fuel = 4\<rparr>,
     hl_buffers = [], hl_getaddrinfo = (\<lambda>n. 0), hl_tcp_connect = (\<lambda>n. 0), hl_write = (\<lambda>n. 0),
     uv_eagain = - 11, uv_eai_again = - 3001, uv_eintr = - 4, uv_enobufs = - 105\<rparr>"

definition ex_hello :: "(byte list, byte list, unit, bblock list) hello" where
  "ex_hello = the (hello_init ex_hello_lib None None)"

lemma ex_hello_start: "hello_init ex_hello_lib None None = Some ex_hello"
  by (simp add: ex_hello_def hello_init_def Let_def)

theorem hello_client_contract_witness:
  "length (closes (trace (hc_objs (snd (run_state (hello_main ex_hello_lib 3
     [In_resolved 0 True, In_connected 0, In_read (- 4), In_closed, In_tick]) ex_hello)) 0))) \<le> 1"
  using hello_client_contract [OF ex_hello_start refl] by blast

text \<open>A client whose first connection was lost before the handshake.\<close>

definition ex_hello_lost :: "(byte list, byte list, unit, bblock list) hello" where
  "ex_hello_lost = ex_hello\<lparr>hc_tcp := True, hc_proto := Some 0, hc_count := 1,
     hc_objs := (hc_objs ex_hello)(0 := set_flag EN_PFT_CLOSING True (proto_init ex_crypto []))\<rparr>"

theorem reconnect_lost_witness:
  "hc_proto (snd (run_state (libuv_tcp_connect_callback ex_hello_lib (hello_links ex_hello_lib 2) 0) ex_hello_lost)) = None"
proof -
  have h: "hc_proto ex_hello_lost = Some 0" "hc_allow_reconnect ex_hello_lost" "hc_held ex_hello_lost = []"
    "0 < hc_count ex_hello_lost" "hc_objs ex_hello_lost 0 = set_flag EN_PFT_CLOSING True (proto_init ex_crypto [])"
    by (simp_all add: ex_hello_lost_def ex_hello_def hello_init_def Let_def)
  have "check_flag EN_PFT_CLOSING (hc_objs ex_hello_lost 0)" "\<not> check_flag EN_PFT_HANDSHAKE_DONE (hc_objs ex_hello_lost 0)"
    by (simp_all add: h(5)) (simp add: check_flag_def proto_init_def)
  then show ?thesis
    using reconnect_lost [OF h(1-4) _ _ refl, where H = ex_hello_lib and n = 1] by (simp add: numeral_2_eq_2 del: hello_links.simps)
qed

end
