(* ===== verification/EtcdJson.thy ===== *)
theory EtcdJson
  imports Prelude "HOL-Library.Char_ord" "HOL-Library.List_Lexorder"
begin

text \<open>
  etcd_packer (service/component/etcdcli/etcd_packer.cpp, etcd_def.h): the JSON messages of the etcd
  HTTP API. Parsing and printing JSON (rapidjson), base64 and str2int are libraries, the record
  \<open>json_lib\<close>. A document is a datatype; an object is the list of its members in order, and
  FindMember finds the first of a name. C strings end at their first zero byte (\<open>c_str\<close>).
\<close>

section \<open>Values\<close>

text \<open>
  A number without fraction is an integer (the parser gives a double when it does not fit 64 bits);
  a double is represented by the text a stream prints for it.
\<close>

datatype json = JNull | JBool bool | JInt int | JDouble string | JStr string
  | JArr "json list" | JObj "(string \<times> json) list"

definition c_str :: "string \<Rightarrow> string" where
  "c_str s = takeWhile (\<lambda>c. c \<noteq> CHR 0x00) s"

record json_lib =
  jl_parse :: "string \<Rightarrow> json option"
  jl_print :: "json \<Rightarrow> string"
  jl_str2int :: "string \<Rightarrow> int"
  jl_show_int :: "int \<Rightarrow> string"
  jl_b64_encode :: "string \<Rightarrow> string"
  jl_b64_decode :: "string \<Rightarrow> bool \<times> string"

primrec is_obj :: "json \<Rightarrow> bool" where
  "is_obj JNull = False" | "is_obj (JBool b) = False" | "is_obj (JInt i) = False" | "is_obj (JDouble d) = False"
| "is_obj (JStr s) = False" | "is_obj (JArr xs) = False" | "is_obj (JObj ms) = True"

text \<open>FindMember; on a value that is no object the library asserts, and the model finds nothing.\<close>

definition find_member :: "json \<Rightarrow> string \<Rightarrow> json option" where
  "find_member j k = (case j of JObj ms \<Rightarrow> map_of ms k | _ \<Rightarrow> None)"

definition fits_i64 :: "int \<Rightarrow> bool" where
  "fits_i64 i \<longleftrightarrow> - (2 ^ 63) \<le> i \<and> i < 2 ^ 63"

definition fits_u64 :: "int \<Rightarrow> bool" where
  "fits_u64 i \<longleftrightarrow> 0 \<le> i \<and> i < 2 ^ 64"

definition parse_object :: "json_lib \<Rightarrow> string \<Rightarrow> json option" where
  "parse_object L data =
     (case jl_parse L (c_str data) of
        None \<Rightarrow> None
      | Some j \<Rightarrow> if is_obj j then Some j else None)"

section \<open>Fields\<close>

text \<open>The fields of the two unpack functions: 0 when the member is missing or of another type.\<close>

definition int_field :: "json_lib \<Rightarrow> (int \<Rightarrow> bool) \<Rightarrow> json \<Rightarrow> string \<Rightarrow> int" where
  "int_field L fits j k =
     (case find_member j k of
        Some (JInt i) \<Rightarrow> if fits i then i else 0
      | Some (JStr s) \<Rightarrow> jl_str2int L (c_str s)
      | _ \<Rightarrow> 0)"

text \<open>unpack_int: as above, but a member of another type leaves the output as it is.\<close>

definition unpack_int :: "json_lib \<Rightarrow> (int \<Rightarrow> bool) \<Rightarrow> json \<Rightarrow> string \<Rightarrow> int \<Rightarrow> int" where
  "unpack_int L fits j k out =
     (case find_member j k of
        None \<Rightarrow> 0
      | Some (JInt i) \<Rightarrow> if fits i then i else out
      | Some (JStr s) \<Rightarrow> jl_str2int L (c_str s)
      | _ \<Rightarrow> out)"

definition unpack_bool :: "json_lib \<Rightarrow> json \<Rightarrow> string \<Rightarrow> bool \<Rightarrow> bool" where
  "unpack_bool L j k out =
     (case find_member j k of
        None \<Rightarrow> False
      | Some (JBool b) \<Rightarrow> b
      | Some (JInt i) \<Rightarrow> if fits_u64 i \<or> fits_i64 i then i \<noteq> 0 else out
      | Some (JStr s) \<Rightarrow> jl_str2int L (c_str s) \<noteq> 0
      | _ \<Rightarrow> out)"

definition pack_base64 :: "json_lib \<Rightarrow> string \<Rightarrow> string \<Rightarrow> (string \<times> json) list" where
  "pack_base64 L k v = [(c_str k, JStr (jl_b64_encode L v))]"

text \<open>The result and the output string, which is \<open>out\<close> before the call.\<close>

definition unpack_base64 :: "json_lib \<Rightarrow> json \<Rightarrow> string \<Rightarrow> string \<Rightarrow> bool \<times> string" where
  "unpack_base64 L j k out =
     (case find_member j k of
        Some (JStr s) \<Rightarrow> jl_b64_decode L (c_str s)
      | _ \<Rightarrow> (False, out))"

definition pack_string :: "string \<Rightarrow> string \<Rightarrow> (string \<times> json) list" where
  "pack_string k v = [(c_str k, JStr (c_str v))]"

fun unpack_to_string :: "json_lib \<Rightarrow> json \<Rightarrow> string" where
  "unpack_to_string L JNull = ''null''"
| "unpack_to_string L (JBool b) = (if b then ''true'' else ''false'')"
| "unpack_to_string L (JObj ms) = ''[object object]''"
| "unpack_to_string L (JArr xs) = ''[object array]''"
| "unpack_to_string L (JStr s) = c_str s"
| "unpack_to_string L (JDouble d) = d"
| "unpack_to_string L (JInt i) = jl_show_int L i"

definition unpack_string :: "json_lib \<Rightarrow> json \<Rightarrow> string \<Rightarrow> string option" where
  "unpack_string L j k = map_option (unpack_to_string L) (find_member j k)"

section \<open>Messages\<close>

record etcd_response_header =
  rh_cluster_id :: int
  rh_member_id :: int
  rh_revision :: int
  rh_raft_term :: int

record etcd_key_value =
  kv_key :: string
  kv_create_revision :: int
  kv_mod_revision :: int
  kv_version :: int
  kv_value :: string
  kv_lease :: int

definition int_member :: "string \<Rightarrow> int \<Rightarrow> (string \<times> json) list" where
  "int_member k i = (if i \<noteq> 0 then [(k, JInt i)] else [])"

definition pack_kv :: "json_lib \<Rightarrow> etcd_key_value \<Rightarrow> (string \<times> json) list" where
  "pack_kv L kv =
     int_member ''create_revision'' (kv_create_revision kv) @
     int_member ''mod_revision'' (kv_mod_revision kv) @
     int_member ''version'' (kv_version kv) @
     int_member ''lease'' (kv_lease kv) @
     (if kv_key kv \<noteq> [] then pack_base64 L ''key'' (kv_key kv) else []) @
     (if kv_value kv \<noteq> [] then pack_base64 L ''value'' (kv_value kv) else [])"

definition unpack_kv :: "json_lib \<Rightarrow> etcd_key_value \<Rightarrow> json \<Rightarrow> etcd_key_value" where
  "unpack_kv L kv j = \<lparr>
     kv_key = snd (unpack_base64 L j ''key'' (kv_key kv)),
     kv_create_revision = int_field L fits_i64 j ''create_revision'',
     kv_mod_revision = int_field L fits_i64 j ''mod_revision'',
     kv_version = int_field L fits_i64 j ''version'',
     kv_value = snd (unpack_base64 L j ''value'' (kv_value kv)),
     kv_lease = int_field L fits_i64 j ''lease''\<rparr>"

definition pack_header :: "etcd_response_header \<Rightarrow> (string \<times> json) list" where
  "pack_header h =
     int_member ''cluster_id'' (rh_cluster_id h) @ int_member ''member_id'' (rh_member_id h) @
     int_member ''revision'' (rh_revision h) @ int_member ''raft_term'' (rh_raft_term h)"

definition unpack_header :: "json_lib \<Rightarrow> json \<Rightarrow> etcd_response_header" where
  "unpack_header L j = \<lparr>
     rh_cluster_id = int_field L fits_u64 j ''cluster_id'',
     rh_member_id = int_field L fits_u64 j ''member_id'',
     rh_revision = int_field L fits_i64 j ''revision'',
     rh_raft_term = int_field L fits_u64 j ''raft_term''\<rparr>"

section \<open>Key ranges\<close>

text \<open>The loop that turns a key into the first key after all keys it is a prefix of.\<close>

function range_plus :: "string \<Rightarrow> string" where
  "range_plus s =
     (if s = [] then []
      else if of_char (last s) = (255 :: nat) then range_plus (butlast s)
      else butlast s @ [char_of (of_char (last s) + 1 :: nat)])"
  by pat_completeness auto
termination by (relation "measure length") auto

text \<open>
  The end of the range that is sent. The assignment of the literal with the zero byte goes through
  a C string, so it assigns the empty string.
\<close>

definition range_end_of :: "string \<Rightarrow> string \<Rightarrow> string" where
  "range_end_of key range_end =
     (if range_end = ''+1'' then
        (let r = range_plus key in if r = [] \<and> key \<noteq> [] then c_str [CHR 0x00] else r)
      else range_end)"

definition pack_key_range :: "json_lib \<Rightarrow> string \<Rightarrow> string \<Rightarrow> (string \<times> json) list" where
  "pack_key_range L key range_end =
     (let r = range_end_of key range_end in
      (if key \<noteq> [] then pack_base64 L ''key'' key else []) @
      (if r \<noteq> [] then pack_base64 L ''range_end'' r else []))"

section \<open>Round trips\<close>

text \<open>What is documented of the base64 functions: decoding inverts encoding, whose text has no zero byte.\<close>

definition b64_ok :: "json_lib \<Rightarrow> bool" where
  "b64_ok L \<longleftrightarrow> (\<forall>v. jl_b64_decode L (jl_b64_encode L v) = (True, v) \<and> CHR 0x00 \<notin> set (jl_b64_encode L v))"

lemma c_str_id: "CHR 0x00 \<notin> set s \<Longrightarrow> c_str s = s"
  by (auto simp: c_str_def takeWhile_eq_all_conv)

lemma find_int_member [simp]:
  "find_member (JObj (int_member k i @ ms)) k' =
    (if k = k' \<and> i \<noteq> 0 then Some (JInt i) else find_member (JObj ms) k')"
  by (simp add: find_member_def int_member_def)

lemma find_int_member_only [simp]:
  "find_member (JObj (int_member k i)) k' = (if k = k' \<and> i \<noteq> 0 then Some (JInt i) else None)"
  by (simp add: find_member_def int_member_def)

lemma find_pack_base64 [simp]:
  "find_member (JObj (pack_base64 L k v @ ms)) k' =
    (if c_str k = k' then Some (JStr (jl_b64_encode L v)) else find_member (JObj ms) k')"
  "find_member (JObj (pack_base64 L k v)) k' = (if c_str k = k' then Some (JStr (jl_b64_encode L v)) else None)"
  by (simp_all add: find_member_def pack_base64_def)

lemma find_empty [simp]: "find_member (JObj []) k = None"
  by (simp add: find_member_def)

lemma kv_round:
  assumes "b64_ok L" and "fits_i64 (kv_create_revision kv)" and "fits_i64 (kv_mod_revision kv)"
    and "fits_i64 (kv_version kv)" and "fits_i64 (kv_lease kv)" and "kv_key kv0 = []" and "kv_value kv0 = []"
  shows "unpack_kv L kv0 (JObj (pack_kv L kv)) = kv"
proof -
  have b: "jl_b64_decode L (c_str (jl_b64_encode L v)) = (True, v)" for v
    using assms(1) by (simp add: b64_ok_def c_str_id)
  have c: "c_str ''key'' = ''key''" "c_str ''value'' = ''value''" by (simp_all add: c_str_def)
  have k: "snd (unpack_base64 L (JObj (pack_kv L kv)) ''key'' (kv_key kv0)) = kv_key kv"
    "snd (unpack_base64 L (JObj (pack_kv L kv)) ''value'' (kv_value kv0)) = kv_value kv"
    using assms(6,7) by (auto simp: unpack_base64_def pack_kv_def b c)
  have i: "int_field L fits_i64 (JObj (pack_kv L kv)) ''create_revision'' = kv_create_revision kv"
    "int_field L fits_i64 (JObj (pack_kv L kv)) ''mod_revision'' = kv_mod_revision kv"
    "int_field L fits_i64 (JObj (pack_kv L kv)) ''version'' = kv_version kv"
    "int_field L fits_i64 (JObj (pack_kv L kv)) ''lease'' = kv_lease kv"
    using assms(2-5) by (auto simp: int_field_def pack_kv_def c)
  show ?thesis by (simp add: unpack_kv_def k i)
qed

lemma header_round:
  assumes "fits_u64 (rh_cluster_id h)" and "fits_u64 (rh_member_id h)" and "fits_i64 (rh_revision h)"
    and "fits_u64 (rh_raft_term h)"
  shows "unpack_header L (JObj (pack_header h)) = h"
  using assms by (simp add: unpack_header_def pack_header_def int_field_def)

section \<open>The keys of a range\<close>

text \<open>
  Which keys etcd selects for a key and a range end (its documentation, quoted in etcd_packer.h):
  only the key itself without an end, everything from the key on for the one-byte end zero, and
  otherwise the keys from the key up to the end, in the order of bytes.
\<close>

definition in_range :: "string \<Rightarrow> string \<Rightarrow> string \<Rightarrow> bool" where
  "in_range key range_end x \<longleftrightarrow>
     (if range_end = [] then x = key
      else if range_end = [CHR 0x00] then key \<le> x
      else key \<le> x \<and> x < range_end)"

definition char_top :: "char \<Rightarrow> bool" where
  "char_top c \<longleftrightarrow> of_char c = (255 :: nat)"

lemma char_le_top: "char_top c \<Longrightarrow> d \<le> c"
  unfolding char_top_def less_eq_char_def using nat_of_char_less_256 [of d] by linarith

lemma char_succ:
  assumes "\<not> char_top c"
  shows "d < char_of (of_char c + 1 :: nat) \<longleftrightarrow> d \<le> c"
proof -
  have "of_char c < (255 :: nat)" using assms nat_of_char_less_256 [of c] unfolding char_top_def by linarith
  then have "of_char (char_of (of_char c + 1 :: nat)) = (of_char c + 1 :: nat)" by simp
  then show ?thesis by (simp add: less_char_def less_eq_char_def less_Suc_eq_le)
qed

declare range_plus.simps [simp del]

text \<open>The result of the loop, by the last byte of the key that is not 0xff.\<close>

lemma range_plus_split:
  assumes "\<not> char_top c" and "\<forall>d \<in> set fs. char_top d"
  shows "range_plus (p @ c # fs) = p @ [char_of (of_char c + 1 :: nat)]"
  using assms(2)
proof (induction fs rule: rev_induct)
  case Nil
  then show ?case using assms(1) by (subst range_plus.simps) (simp add: char_top_def)
next
  case (snoc d fs)
  then have "of_char d = (255 :: nat)" by (simp add: char_top_def)
  then have "range_plus (p @ c # fs @ [d]) = range_plus (p @ c # fs)"
    by (subst range_plus.simps) (simp add: butlast_append)
  with snoc show ?case by simp
qed

lemma range_plus_all_top: "\<forall>d \<in> set fs. char_top d \<Longrightarrow> range_plus fs = []"
proof (induction fs rule: rev_induct)
  case Nil
  then show ?case by (simp add: range_plus.simps)
next
  case (snoc d fs)
  then show ?case by (subst range_plus.simps) (simp add: char_top_def)
qed

lemma tops_le: "\<forall>d \<in> set fs. char_top d \<Longrightarrow> fs \<le> xs \<longleftrightarrow> prefix fs xs"
proof (induction fs arbitrary: xs)
  case Nil
  then show ?case by simp
next
  case (Cons f fs)
  show ?case
  proof (cases xs)
    case Nil
    then show ?thesis by simp
  next
    case (Cons x xs')
    have "x \<le> f" using Cons.prems by (simp add: char_le_top)
    then have "f < x \<longleftrightarrow> False" by simp
    moreover have "fs \<le> xs' \<longleftrightarrow> prefix fs xs'" using Cons.IH Cons.prems by simp
    ultimately show ?thesis by (simp add: Cons)
  qed
qed

lemma between_prefix:
  fixes e :: char
  assumes e: "\<And>d. d < e \<longleftrightarrow> d \<le> c" and fs: "\<forall>d \<in> set fs. char_top d"
  shows "p @ c # fs \<le> x \<and> x < p @ [e] \<longleftrightarrow> prefix (p @ c # fs) x"
proof (induction p arbitrary: x)
  case Nil
  show ?case
  proof (cases x)
    case (Cons d ds)
    have "(c < d \<or> c = d \<and> P) \<and> d \<le> c \<longleftrightarrow> c = d \<and> P" for P by (meson leD order_refl)
    moreover have "d # ds < [e] \<longleftrightarrow> d \<le> c" using e [of d] by simp
    moreover have "c # fs \<le> d # ds \<longleftrightarrow> c < d \<or> c = d \<and> prefix fs ds" using tops_le [OF fs, of ds] by simp
    ultimately show ?thesis by (simp only: Cons append_Nil Cons_prefix_Cons)
  qed simp
next
  case (Cons a p)
  show ?case
  proof (cases x)
    case (Cons d ds)
    have "(a < d \<or> a = d \<and> P) \<and> (d < a \<or> d = a \<and> Q) \<longleftrightarrow> a = d \<and> P \<and> Q" for P Q by (meson less_asym less_irrefl)
    then show ?thesis using Cons.IH [of ds] by (simp only: Cons append_Cons Cons_le_Cons Cons_less_Cons Cons_prefix_Cons)
  qed simp
qed

lemma split_top: "\<exists>d \<in> set key. \<not> char_top d \<Longrightarrow>
    \<exists>p c fs. key = p @ c # fs \<and> \<not> char_top c \<and> (\<forall>d \<in> set fs. char_top d)"
  using split_list_last_prop [of key "\<lambda>d. \<not> char_top d"] by simp

end
