(* ===== verification/EtcdData.thy ===== *)
theory EtcdData
  imports EtcdJson FlagWord "HOL-Library.AList" "HOL-Library.Signed_Division"
begin

text \<open>
  The state of the etcd client (service/component/etcdcli): the cluster object with its configuration
  and statistics, the keepalive objects and the watchers it drives, the objects that delete paths,
  and the HTTP requests. Pointers are indices into heaps of records; lifetimes are not modelled but
  for the deletors, which the code deletes by hand. There is one cluster, so the pointers owner_ of
  its keepalives and watchers have no other value; the one of a deletor is a boolean, False for NULL.

  The HTTP client (over libcurl) is a library: whether a request can be made or started is a
  parameter, and its completion is an input. Times are in nanoseconds.
\<close>

section \<open>Time\<close>

definition chrono_seconds :: "int \<Rightarrow> int" where
  "chrono_seconds n = n * 1000000000"

definition chrono_minutes :: "int \<Rightarrow> int" where
  "chrono_minutes n = n * 60000000000"

definition chrono_hours :: "int \<Rightarrow> int" where
  "chrono_hours n = n * 3600000000000"

section \<open>The cluster\<close>

datatype cluster_flag_t = CLUSTER_CLOSING | CLUSTER_RUNNING | ENABLE_LEASE

primrec clf_mask :: "cluster_flag_t \<Rightarrow> u32" where
  "clf_mask CLUSTER_CLOSING = 0x0001"
| "clf_mask CLUSTER_RUNNING = 0x0002"
| "clf_mask ENABLE_LEASE = 0x0100"

primrec clf_pos :: "cluster_flag_t \<Rightarrow> nat" where
  "clf_pos CLUSTER_CLOSING = 0"
| "clf_pos CLUSTER_RUNNING = 1"
| "clf_pos ENABLE_LEASE = 8"

interpretation clf: flag_word clf_mask clf_pos
proof unfold_locales
  fix t t' :: cluster_flag_t
  show "clf_mask t = 2 ^ clf_pos t" by (cases t) simp_all
  show "clf_pos t < 32" by (cases t) simp_all
  show "clf_pos t = clf_pos t' \<Longrightarrow> t = t'" by (cases t; cases t') simp_all
qed

datatype ssl_version_t = SSL_DISABLED | SSL3 | TLS_V10 | TLS_V11 | TLS_V12 | TLS_V13

record cluster_conf_t =
  conf_hosts :: "string list"
  hosts :: "string list"
  authorization :: string
  http_cmd_timeout :: int
  authorization_user_roles :: "string list"
  authorization_header :: string
  authorization_next_update_time :: int
  authorization_retry_interval :: int
  auth_user_get_next_update_time :: int
  auth_user_get_retry_interval :: int
  path_node :: string
  etcd_members_next_update_time :: int
  etcd_members_update_interval :: int
  etcd_members_retry_interval :: int
  lease :: int
  keepalive_next_update_time :: int
  keepalive_timeout :: int
  keepalive_interval :: int
  ssl_enable_alpn :: bool
  ssl_verify_peer :: bool
  ssl_min_version :: ssl_version_t
  ssl_client_cert :: string
  ssl_client_cert_type :: string
  ssl_client_key :: string
  ssl_client_key_passwd :: string
  ssl_ca_cert :: string
  ssl_cipher_list :: string
  ssl_cipher_list_tls13 :: string

record stats_t =
  sum_error_requests :: u64
  continue_error_requests :: u64
  sum_success_requests :: u64
  continue_success_requests :: u64
  sum_create_requests :: u64

section \<open>Requests\<close>

datatype http_opt =
    FollowLocation bool | SslVerifyPeer bool | AcceptEncoding string | ContentDecoding bool
  | OptTimeout int | UserAgent string | HttpAndHttps | NoSignal bool | HttpHeader string
  | EnableAlpn bool | SslVersion ssl_version_t | SslCert string | SslCertType string | SslKey string
  | SslKeyPasswd string | CaInfo string | CipherList string | Tls13Ciphers string
  | OptKeepalive int int | ReuseConnection bool

text \<open>
  The private data of a request, and the function set_on_complete was given; the last of each are those of
  the owners of a client: the module (EtcdModule) and the tool that lists nodes (EtcdTools).
\<close>

datatype http_priv = PCluster | PKeepalive nat | PWatcher nat | PDeletor nat | PModule | PTool

datatype http_done =
    OnAuthenticate | OnUserGet | OnMemberUpdate | OnLeaseKeepalive | OnRemoveKeepalivePath
  | OnGetData | OnSetData | OnRangeCompleted | OnWatchCompleted | OnEtcdClosed | OnKvListed

record http_request =
  hr_url :: string
  hr_post_data :: string
  hr_opts :: "http_opt list"
  hr_priv :: "http_priv option"
  hr_on_complete :: "http_done option"
  hr_on_write :: bool
  hr_pending :: bool

definition http_request_new :: "string \<Rightarrow> http_request" where
  "http_request_new url = \<lparr>hr_url = url, hr_post_data = [], hr_opts = [], hr_priv = None,
     hr_on_complete = None, hr_on_write = False, hr_pending = False\<rparr>"

section \<open>Keepalives, watchers, deletors\<close>

record keepalive =
  ka_path :: string
  ka_value :: string
  ka_rpc :: "nat option"
  ka_actived :: bool
  ka_value_changed :: bool
  ka_has_data :: bool
  ka_checker :: "(string \<Rightarrow> bool) option"
  ka_check_run :: bool
  ka_check_passed :: bool
  ka_retry_times :: u64

definition keepalive_new :: "string \<Rightarrow> keepalive" where
  "keepalive_new path = \<lparr>ka_path = path, ka_value = [], ka_rpc = None, ka_actived = False,
     ka_value_changed = True, ka_has_data = False, ka_checker = None, ka_check_run = False,
     ka_check_passed = False, ka_retry_times = 0\<rparr>"

definition default_checker :: "string \<Rightarrow> string \<Rightarrow> bool" where
  "default_checker data checked \<longleftrightarrow> checked = [] \<or> data = checked"

record deletor =
  kd_rpc :: "nat option"
  kd_path :: string
  kd_retry_times :: u64
  kd_owner :: bool
  kd_alive :: bool

record watcher =
  w_path :: string
  w_range_end :: string
  w_stream :: string
  w_brackets :: int
  w_rpc :: "nat option"
  w_actived :: bool
  w_retry_mode :: bool
  w_progress_notify :: bool
  w_prev_kv :: bool
  w_last_revision :: int
  w_next_request_time :: int
  w_retry_interval :: int
  w_request_timeout :: int
  w_evt_handle :: bool

definition watcher_new :: "string \<Rightarrow> string \<Rightarrow> watcher" where
  "watcher_new path range_end = \<lparr>w_path = path, w_range_end = range_end, w_stream = [], w_brackets = 0,
     w_rpc = None, w_actived = False, w_retry_mode = False, w_progress_notify = True, w_prev_kv = False,
     w_last_revision = 0, w_next_request_time = 0, w_retry_interval = chrono_seconds 15,
     w_request_timeout = chrono_hours 1, w_evt_handle = False\<rparr>"

datatype etcd_watch_event = EN_WEVT_PUT | EN_WEVT_DELETE

record watch_event =
  evt_type :: etcd_watch_event
  evt_kv :: etcd_key_value
  evt_prev_kv :: etcd_key_value

record watch_response =
  wr_watch_id :: int
  wr_created :: bool
  wr_canceled :: bool
  wr_compact_revision :: int
  wr_events :: "watch_event list"

section \<open>The state\<close>

text \<open>What is recorded: a request started or stopped, and a call of the event handle of a watcher.\<close>

datatype etcd_event =
    EvStart nat | EvStop nat | EvWatchEvent nat etcd_response_header watch_response

datatype etcd_fault = JsonAssert string | DeadDeletor nat | LoopFuel string

record etcd =
  ec_flags :: u32
  ec_conf :: cluster_conf_t
  ec_stats :: stats_t
  ec_curl :: bool
  ec_rpc_authenticate :: "nat option"
  ec_rpc_members :: "nat option"
  ec_rpc_keepalive :: "nat option"
  ec_keepalives :: "nat list"
  ec_retries :: "nat list"
  ec_deletors :: "(string \<times> nat) list"
  ec_watchers :: "nat list"
  et_requests :: "http_request list"
  et_keepalives :: "keepalive list"
  et_watchers :: "watcher list"
  et_deletors :: "deletor list"
  et_now :: int
  et_calls :: nat
  et_trace :: "etcd_event list"
  et_faults :: "etcd_fault list"

type_synonym 'a em = "(etcd, 'a) state"

text \<open>
  The libraries: JSON; whether the n-th call of the HTTP client makes a request, and the code with
  which it starts one; the random generator (an index below the bound); which response codes are a
  success; the code of a timeout; whether a request still runs; the name of the system; and what memory that is not
  initialised reads as.
\<close>

record etcd_link =
  el_json :: json_lib
  el_create :: "nat \<Rightarrow> bool"
  el_start :: "nat \<Rightarrow> int"
  el_random :: "nat \<Rightarrow> nat \<Rightarrow> nat"
  el_success :: "int \<Rightarrow> bool"
  el_timedout :: int
  el_running :: "nat \<Rightarrow> bool"
  el_sys_env :: string
  el_trash_header :: etcd_response_header
  el_trash_int :: int
  el_trash_bool :: bool

section \<open>Access\<close>

definition upd_req :: "nat \<Rightarrow> (http_request \<Rightarrow> http_request) \<Rightarrow> etcd \<Rightarrow> etcd" where
  "upd_req r f s = s\<lparr>et_requests := (et_requests s)[r := f (et_requests s ! r)]\<rparr>"

definition ka :: "nat \<Rightarrow> etcd \<Rightarrow> keepalive" where
  "ka i s = (if i < length (et_keepalives s) then et_keepalives s ! i else keepalive_new [])"

definition upd_ka :: "nat \<Rightarrow> (keepalive \<Rightarrow> keepalive) \<Rightarrow> etcd \<Rightarrow> etcd" where
  "upd_ka i f s = s\<lparr>et_keepalives := (et_keepalives s)[i := f (et_keepalives s ! i)]\<rparr>"

definition wt :: "nat \<Rightarrow> etcd \<Rightarrow> watcher" where
  "wt i s = (if i < length (et_watchers s) then et_watchers s ! i else watcher_new [] [])"

definition upd_wt :: "nat \<Rightarrow> (watcher \<Rightarrow> watcher) \<Rightarrow> etcd \<Rightarrow> etcd" where
  "upd_wt i f s = s\<lparr>et_watchers := (et_watchers s)[i := f (et_watchers s ! i)]\<rparr>"

definition kd :: "nat \<Rightarrow> etcd \<Rightarrow> deletor" where
  "kd d s = (if d < length (et_deletors s) then et_deletors s ! d
     else \<lparr>kd_rpc = None, kd_path = [], kd_retry_times = 0, kd_owner = False, kd_alive = False\<rparr>)"

definition upd_kd :: "nat \<Rightarrow> (deletor \<Rightarrow> deletor) \<Rightarrow> etcd \<Rightarrow> etcd" where
  "upd_kd d f s = s\<lparr>et_deletors := (et_deletors s)[d := f (et_deletors s ! d)]\<rparr>"

definition upd_conf :: "(cluster_conf_t \<Rightarrow> cluster_conf_t) \<Rightarrow> unit em" where
  "upd_conf f = modify (\<lambda>s. s\<lparr>ec_conf := f (ec_conf s)\<rparr>)"

definition et_log :: "etcd_event \<Rightarrow> unit em" where
  "et_log e = modify (\<lambda>s. s\<lparr>et_trace := et_trace s @ [e]\<rparr>)"

definition et_raise :: "etcd_fault \<Rightarrow> unit em" where
  "et_raise f = modify (\<lambda>s. s\<lparr>et_faults := et_faults s @ [f]\<rparr>)"

text \<open>RAPIDJSON_ASSERT of a function that needs an object.\<close>

definition need_object :: "json \<Rightarrow> string \<Rightarrow> unit em" where
  "need_object j what = when_do (\<not> is_obj j) (et_raise (JsonAssert what))"

fun for_each :: "('x \<Rightarrow> unit em) \<Rightarrow> 'x list \<Rightarrow> unit em" where
  "for_each f [] = ret ()"
| "for_each f (x # xs) = do { f x; for_each f xs }"

lemma for_each_rel: "rel_pre R \<Longrightarrow> (\<And>x. state_io_rel R (f x)) \<Longrightarrow> state_io_rel R (for_each f xs)"
  by (induction xs) (auto intro: io_rel_bind io_rel_return)

text \<open>The removal of an element from a vector: swapped with the last one, which is popped.\<close>

definition swap_pop :: "nat \<Rightarrow> 'x list \<Rightarrow> 'x list" where
  "swap_pop i xs = (if i + 1 \<noteq> length xs then butlast (xs[i := last xs]) else butlast xs)"

definition remove_actor :: "nat \<Rightarrow> nat list \<Rightarrow> nat list option" where
  "remove_actor x xs =
     (case List.find (\<lambda>j. xs ! j = x) [0 ..< length xs] of None \<Rightarrow> None | Some j \<Rightarrow> Some (swap_pop j xs))"

end
