(* ===== verification/EtcdRequest.thy ===== *)
theory EtcdRequest
  imports EtcdData
begin

text \<open>
  The requests of etcd_cluster (service/component/etcdcli/etcd_cluster.cpp): the flags, the
  statistics, the options of a request, and the functions that create the requests of the API.
\<close>

section \<open>The HTTP client\<close>

text \<open>http_request::create, set_priv_data with set_on_complete, start, and stop.\<close>

definition http_create :: "etcd_link \<Rightarrow> string \<Rightarrow> nat option em" where
  "http_create K url = do {
     n \<leftarrow> gets et_calls;
     r \<leftarrow> gets (\<lambda>s. length (et_requests s));
     modify (\<lambda>s. s\<lparr>et_calls := Suc n\<rparr>);
     if el_create K n then do {
       modify (\<lambda>s. s\<lparr>et_requests := et_requests s @ [http_request_new url]\<rparr>);
       ret (Some r)
     }
     else ret None
   }"

definition set_callback :: "nat \<Rightarrow> http_priv option \<Rightarrow> http_done option \<Rightarrow> unit em" where
  "set_callback r p cb = modify (upd_req r (\<lambda>q. q\<lparr>hr_priv := p, hr_on_complete := cb\<rparr>))"

definition set_on_complete :: "nat \<Rightarrow> http_done option \<Rightarrow> unit em" where
  "set_on_complete r cb = modify (upd_req r (\<lambda>q. q\<lparr>hr_on_complete := cb\<rparr>))"

definition http_start :: "etcd_link \<Rightarrow> nat \<Rightarrow> int em" where
  "http_start K r = do {
     n \<leftarrow> gets et_calls;
     modify (\<lambda>s. s\<lparr>et_calls := Suc n\<rparr>);
     when_do (el_start K n = 0) (do {
       modify (upd_req r (\<lambda>q. q\<lparr>hr_pending := True\<rparr>));
       et_log (EvStart r)
     });
     ret (el_start K n)
   }"

definition http_stop :: "nat \<Rightarrow> unit em" where
  "http_stop r = et_log (EvStop r)"

section \<open>Flags, statistics, configuration\<close>

definition check_cluster :: "cluster_flag_t \<Rightarrow> etcd \<Rightarrow> bool" where
  "check_cluster t s = word_check (ec_flags s) (clf_mask t)"

definition put_cluster :: "cluster_flag_t \<Rightarrow> bool \<Rightarrow> etcd \<Rightarrow> etcd" where
  "put_cluster t v s = s\<lparr>ec_flags := word_set (ec_flags s) (clf_mask t) v\<rparr>"

definition add_stats_error_request :: "unit em" where
  "add_stats_error_request = modify (\<lambda>s. let st = ec_stats s in s\<lparr>ec_stats := st\<lparr>
     sum_error_requests := sum_error_requests st + 1,
     continue_error_requests := continue_error_requests st + 1,
     continue_success_requests := 0\<rparr>\<rparr>)"

definition add_stats_success_request :: "unit em" where
  "add_stats_success_request = modify (\<lambda>s. let st = ec_stats s in s\<lparr>ec_stats := st\<lparr>
     sum_success_requests := sum_success_requests st + 1,
     continue_success_requests := continue_success_requests st + 1,
     continue_error_requests := 0\<rparr>\<rparr>)"

definition add_stats_create_request :: "unit em" where
  "add_stats_create_request = modify (\<lambda>s. s\<lparr>ec_stats := (ec_stats s)\<lparr>sum_create_requests := 0\<rparr>\<rparr>)"

text \<open>The user name and the password of the configuration; the password stays empty when there is none.\<close>

definition pick_conf_authorization :: "cluster_conf_t \<Rightarrow> string \<times> string" where
  "pick_conf_authorization conf =
     (let a = authorization conf; u = takeWhile (\<lambda>c. c \<noteq> CHR '':'') a
      in if u = a then (a, []) else (u, drop (Suc (length u)) a))"

definition get_http_timeout_ms :: "cluster_conf_t \<Rightarrow> int" where
  "get_http_timeout_ms conf =
     (let t = http_cmd_timeout conf sdiv 1000000 in if t \<le> 0 then 30000 else t)"

definition check_authorization :: "cluster_conf_t \<Rightarrow> bool" where
  "check_authorization conf \<longleftrightarrow> authorization conf = [] \<or> authorization_header conf \<noteq> []"

definition str_contains :: "string \<Rightarrow> string \<Rightarrow> bool" where
  "str_contains sub s = list_ex (\<lambda>n. prefix sub (drop n s)) [0 ..< Suc (length s)]"

definition clear_authorization_header :: "unit em" where
  "clear_authorization_header = upd_conf (\<lambda>c. c\<lparr>authorization_header := []\<rparr>)"

definition auth_expired :: "json_lib \<Rightarrow> int \<Rightarrow> string \<Rightarrow> bool" where
  "auth_expired L http_code content \<longleftrightarrow>
     http_code = 401 \<or>
     (case parse_object L content of None \<Rightarrow> False | Some doc \<Rightarrow> unpack_int L fits_i64 doc ''code'' 0 = 16) \<or>
     (http_code = 400 \<or> http_code = 412) \<and> str_contains ''authenticat'' content"

definition check_authorization_expired :: "etcd_link \<Rightarrow> int \<Rightarrow> string \<Rightarrow> unit em" where
  "check_authorization_expired K http_code content =
     when_do (auth_expired (el_json K) http_code content) clear_authorization_header"

section \<open>Options of a request\<close>

text \<open>
  The TLS options, with a libcurl recent enough for all of them. A string is passed as a C string.
  The default branch of the switch over the version is unreachable for a value of the enumeration.
\<close>

definition default_ciphers :: string where
  "default_ciphers = ''ECDHE-ECDSA-AES128-GCM-SHA256:ECDHE-RSA-AES128-GCM-SHA256:ECDHE-ECDSA-AES256-GCM-SHA384:ECDHE-RSA-AES256-GCM-SHA384:ECDHE-ECDSA-CHACHA20-POLY1305:ECDHE-RSA-CHACHA20-POLY1305:DHE-RSA-AES128-GCM-SHA256:DHE-RSA-AES256-GCM-SHA384''"

definition default_ciphers_tls13 :: string where
  "default_ciphers_tls13 = ''TLS_AES_256_GCM_SHA384:TLS_CHACHA20_POLY1305_SHA256:TLS_AES_128_GCM_SHA256''"

definition string_opt :: "(string \<Rightarrow> http_opt) \<Rightarrow> string \<Rightarrow> http_opt list" where
  "string_opt mk v = (if v \<noteq> [] then [mk (c_str v)] else [])"

definition ssl_opts :: "cluster_conf_t \<Rightarrow> http_opt list" where
  "ssl_opts conf =
     (if ssl_min_version conf = SSL_DISABLED then []
      else [EnableAlpn (ssl_enable_alpn conf), SslVersion (ssl_min_version conf), EnableAlpn (ssl_enable_alpn conf)] @
        string_opt SslCert (ssl_client_cert conf) @ string_opt SslCertType (ssl_client_cert_type conf) @
        string_opt SslKey (ssl_client_key conf) @ string_opt SslKeyPasswd (ssl_client_key_passwd conf) @
        string_opt CaInfo (ssl_ca_cert conf) @
        (if ssl_cipher_list conf \<noteq> [] then [CipherList (c_str (ssl_cipher_list conf))]
         else if ssl_min_version conf = TLS_V12 \<or> ssl_min_version conf = TLS_V13 then [CipherList default_ciphers]
         else []) @
        (if ssl_cipher_list_tls13 conf \<noteq> [] then [Tls13Ciphers (c_str (ssl_cipher_list_tls13 conf))]
         else if ssl_min_version conf = TLS_V12 then [Tls13Ciphers default_ciphers_tls13]
         else []))"

text \<open>The user agent, printed into a buffer of 256 bytes; the name of the system is fixed by the compiler.\<close>

definition get_default_user_agent :: "etcd_link \<Rightarrow> string" where
  "get_default_user_agent K = take 254 (''Mozilla/5.0 ('' @ el_sys_env K @ '') Atframework Etcdcli/1.0'')"

definition setup_http_request :: "etcd_link \<Rightarrow> nat \<Rightarrow> json \<Rightarrow> int \<Rightarrow> unit em" where
  "setup_http_request K r doc timeout = do {
     conf \<leftarrow> gets ec_conf;
     let t = (if timeout \<le> 0 then get_http_timeout_ms conf else timeout);
     modify (upd_req r (\<lambda>q. q\<lparr>hr_opts := hr_opts q @
        [FollowLocation True, SslVerifyPeer (ssl_verify_peer conf), AcceptEncoding [], ContentDecoding True,
         OptTimeout t, UserAgent (get_default_user_agent K), HttpAndHttps, NoSignal True] @
        string_opt HttpHeader (authorization_header conf) @ ssl_opts conf,
        hr_post_data := jl_print (el_json K) doc\<rparr>))
   }"

section \<open>Requests of the API\<close>

text \<open>What all of them share: the URL, the request, the statistics, the options.\<close>

definition build_request :: "etcd_link \<Rightarrow> string \<Rightarrow> json \<Rightarrow> nat option em" where
  "build_request K url doc = do {
     ro \<leftarrow> http_create K url;
     (case ro of
        None \<Rightarrow> do { add_stats_error_request; ret None }
      | Some r \<Rightarrow> do {
          add_stats_create_request;
          t \<leftarrow> gets (\<lambda>s. get_http_timeout_ms (ec_conf s));
          setup_http_request K r doc t;
          ret (Some r)
        })
   }"

definition can_request :: "etcd \<Rightarrow> bool" where
  "can_request s \<longleftrightarrow> ec_curl s \<and> path_node (ec_conf s) \<noteq> [] \<and> \<not> check_cluster CLUSTER_CLOSING s"

definition create_request_kv_get :: "etcd_link \<Rightarrow> string \<Rightarrow> string \<Rightarrow> int \<Rightarrow> int \<Rightarrow> nat option em" where
  "create_request_kv_get K key range_end limit revision = do {
     ok \<leftarrow> gets can_request;
     node \<leftarrow> gets (\<lambda>s. path_node (ec_conf s));
     if \<not> ok then ret None
     else build_request K (node @ ''/v3/kv/range'')
       (JObj (pack_key_range (el_json K) key range_end @ [(''limit'', JInt limit), (''revision'', JInt revision)]))
   }"

definition create_request_kv_set ::
  "etcd_link \<Rightarrow> string \<Rightarrow> string \<Rightarrow> bool \<Rightarrow> bool \<Rightarrow> bool \<Rightarrow> bool \<Rightarrow> nat option em" where
  "create_request_kv_set K key val assign_lease prev_kv ignore_value ignore_lease = do {
     ok \<leftarrow> gets can_request;
     node \<leftarrow> gets (\<lambda>s. path_node (ec_conf s));
     ls \<leftarrow> gets (\<lambda>s. lease (ec_conf s));
     if \<not> ok then ret None
     else if assign_lease \<and> ls = 0 then ret None
     else build_request K (node @ ''/v3/kv/put'')
       (JObj (pack_base64 (el_json K) ''key'' key @ pack_base64 (el_json K) ''value'' val @
          (if assign_lease then [(''lease'', JInt ls)] else []) @
          [(''prev_kv'', JBool prev_kv), (''ignore_value'', JBool ignore_value), (''ignore_lease'', JBool ignore_lease)]))
   }"

definition create_request_kv_del :: "etcd_link \<Rightarrow> string \<Rightarrow> string \<Rightarrow> bool \<Rightarrow> nat option em" where
  "create_request_kv_del K key range_end prev_kv = do {
     ok \<leftarrow> gets can_request;
     node \<leftarrow> gets (\<lambda>s. path_node (ec_conf s));
     if \<not> ok then ret None
     else build_request K (node @ ''/v3/kv/deleterange'')
       (JObj (pack_key_range (el_json K) key range_end @ [(''prev_kv'', JBool prev_kv)]))
   }"

definition create_request_watch ::
  "etcd_link \<Rightarrow> string \<Rightarrow> string \<Rightarrow> int \<Rightarrow> bool \<Rightarrow> bool \<Rightarrow> nat option em" where
  "create_request_watch K key range_end start_revision prev_kv progress_notify = do {
     ok \<leftarrow> gets can_request;
     node \<leftarrow> gets (\<lambda>s. path_node (ec_conf s));
     if \<not> ok then ret None
     else do {
       ro \<leftarrow> build_request K (node @ ''/v3/watch'')
         (JObj [(''create_request'', JObj (pack_key_range (el_json K) key range_end @
            (if prev_kv then [(''prev_kv'', JBool prev_kv)] else []) @
            (if progress_notify then [(''progress_notify'', JBool progress_notify)] else []) @
            (if start_revision \<noteq> 0 then [(''start_revision'', JInt start_revision)] else [])))]);
       (case ro of
          None \<Rightarrow> ret None
        | Some r \<Rightarrow> do {
            modify (upd_req r (\<lambda>q. q\<lparr>hr_opts := hr_opts q @ [OptKeepalive 75 150, ReuseConnection False]\<rparr>));
            ret (Some r)
          })
     }
   }"

definition create_request_lease_revoke :: "etcd_link \<Rightarrow> nat option em" where
  "create_request_lease_revoke K = do {
     ok \<leftarrow> gets (\<lambda>s. ec_curl s \<and> lease (ec_conf s) \<noteq> 0 \<and> path_node (ec_conf s) \<noteq> []);
     node \<leftarrow> gets (\<lambda>s. path_node (ec_conf s));
     ls \<leftarrow> gets (\<lambda>s. lease (ec_conf s));
     if \<not> ok then ret None
     else build_request K (node @ ''/v3/kv/lease/revoke'') (JObj [(''ID'', JInt ls)])
   }"

text \<open>A request of the cluster itself: its callback is set and it is started; on failure it is given up.\<close>

definition start_own :: "etcd_link \<Rightarrow> nat \<Rightarrow> http_done \<Rightarrow> bool em" where
  "start_own K r cb = do {
     set_callback r (Some PCluster) (Some cb);
     res \<leftarrow> http_start K r;
     if res \<noteq> 0 then do { set_on_complete r None; add_stats_error_request; ret False }
     else ret True
   }"

section \<open>Authorization, members, lease\<close>

definition create_request_auth_authenticate :: "etcd_link \<Rightarrow> bool em" where
  "create_request_auth_authenticate K = do {
     ok \<leftarrow> gets can_request;
     conf \<leftarrow> gets ec_conf;
     rpc \<leftarrow> gets ec_rpc_authenticate;
     now \<leftarrow> gets et_now;
     if \<not> ok then ret False
     else if authorization conf = [] then do { clear_authorization_header; ret False }
     else if rpc \<noteq> None then ret False
     else if now \<le> authorization_next_update_time conf then ret False
     else do {
       upd_conf (\<lambda>c. c\<lparr>authorization_next_update_time :=
          (if authorization_retry_interval c \<le> 0 then now else now + authorization_retry_interval c)\<rparr>);
       let (username, password) = pick_conf_authorization conf;
       ro \<leftarrow> build_request K (path_node conf @ ''/v3/auth/authenticate'')
         (JObj [(''name'', JStr username), (''password'', JStr password)]);
       (case ro of
          None \<Rightarrow> ret False
        | Some r \<Rightarrow> do {
            started \<leftarrow> start_own K r OnAuthenticate;
            when_do started (modify (\<lambda>s. s\<lparr>ec_rpc_authenticate := Some r\<rparr>));
            ret started
          })
     }
   }"

definition create_request_auth_user_get :: "etcd_link \<Rightarrow> bool em" where
  "create_request_auth_user_get K = do {
     ok \<leftarrow> gets can_request;
     conf \<leftarrow> gets ec_conf;
     rpc \<leftarrow> gets ec_rpc_authenticate;
     now \<leftarrow> gets et_now;
     if \<not> ok \<or> authorization conf = [] \<or> rpc \<noteq> None \<or> now \<le> auth_user_get_next_update_time conf then ret False
     else do {
       upd_conf (\<lambda>c. c\<lparr>auth_user_get_next_update_time :=
          (if auth_user_get_retry_interval c \<le> 0 then now else now + auth_user_get_retry_interval c)\<rparr>);
       ro \<leftarrow> build_request K (path_node conf @ ''/v3/auth/user/get'')
         (JObj [(''name'', JStr (fst (pick_conf_authorization conf)))]);
       (case ro of
          None \<Rightarrow> ret False
        | Some r \<Rightarrow> do {
            started \<leftarrow> start_own K r OnUserGet;
            when_do started (modify (\<lambda>s. s\<lparr>ec_rpc_authenticate := Some r\<rparr>));
            ret started
          })
     }
   }"

text \<open>random_between(0, n) of the generator, as an index.\<close>

definition random_index :: "etcd_link \<Rightarrow> nat \<Rightarrow> nat em" where
  "random_index K n = do {
     k \<leftarrow> gets et_calls;
     modify (\<lambda>s. s\<lparr>et_calls := Suc k\<rparr>);
     ret (el_random K k n)
   }"

definition create_request_member_update :: "etcd_link \<Rightarrow> bool em" where
  "create_request_member_update K = do {
     ok \<leftarrow> gets (\<lambda>s. ec_curl s \<and> \<not> check_cluster CLUSTER_CLOSING s \<and> ec_rpc_members s = None);
     conf \<leftarrow> gets ec_conf;
     now \<leftarrow> gets et_now;
     if \<not> ok \<or> conf_hosts conf = [] \<and> hosts conf = [] then ret False
     else do {
       upd_conf (\<lambda>c. c\<lparr>etcd_members_next_update_time := now +
          (if etcd_members_update_interval c \<le> 0 then chrono_seconds 1 else etcd_members_update_interval c)\<rparr>);
       let hs = (if hosts conf \<noteq> [] then hosts conf else conf_hosts conf);
       n \<leftarrow> random_index K (length hs);
       ro \<leftarrow> build_request K (hs ! n @ ''/v3/cluster/member/list'') (JObj []);
       (case ro of
          None \<Rightarrow> ret True
        | Some r \<Rightarrow> do {
            started \<leftarrow> start_own K r OnMemberUpdate;
            when_do started (modify (\<lambda>s. s\<lparr>ec_rpc_members := Some r\<rparr>));
            ret started
          })
     }
   }"

text \<open>The next time of a keepalive, after a request that grants or renews the lease.\<close>

definition delay_keepalive :: "unit em" where
  "delay_keepalive = do {
     now \<leftarrow> gets et_now;
     upd_conf (\<lambda>c. c\<lparr>keepalive_next_update_time := now +
        (if keepalive_interval c \<le> 0 then chrono_seconds 1 else keepalive_interval c)\<rparr>)
   }"

definition start_lease :: "etcd_link \<Rightarrow> nat option \<Rightarrow> bool em" where
  "start_lease K ro =
     (case ro of
        None \<Rightarrow> ret True
      | Some r \<Rightarrow> do {
          started \<leftarrow> start_own K r OnLeaseKeepalive;
          when_do started (modify (\<lambda>s. s\<lparr>ec_rpc_keepalive := Some r\<rparr>));
          ret started
        })"

definition create_request_lease_grant :: "etcd_link \<Rightarrow> bool em" where
  "create_request_lease_grant K = do {
     ok \<leftarrow> gets can_request;
     idle \<leftarrow> gets (\<lambda>s. check_cluster ENABLE_LEASE s \<and> ec_rpc_keepalive s = None);
     if \<not> ok \<or> \<not> idle then ret False
     else do {
       delay_keepalive;
       conf \<leftarrow> gets ec_conf;
       ro \<leftarrow> build_request K (path_node conf @ ''/v3/lease/grant'')
         (JObj [(''ID'', JInt (lease conf)), (''TTL'', JInt (keepalive_timeout conf sdiv 1000000000))]);
       start_lease K ro
     }
   }"

definition create_request_lease_keepalive :: "etcd_link \<Rightarrow> bool em" where
  "create_request_lease_keepalive K = do {
     ok \<leftarrow> gets can_request;
     idle \<leftarrow> gets (\<lambda>s. lease (ec_conf s) \<noteq> 0 \<and> check_cluster ENABLE_LEASE s \<and> ec_rpc_keepalive s = None \<and>
       keepalive_next_update_time (ec_conf s) < et_now s);
     if \<not> ok \<or> \<not> idle then ret False
     else do {
       delay_keepalive;
       conf \<leftarrow> gets ec_conf;
       ro \<leftarrow> build_request K (path_node conf @ ''/v3/lease/keepalive'') (JObj [(''ID'', JInt (lease conf))]);
       start_lease K ro
     }
   }"

text \<open>Cancelling a request of the cluster.\<close>

definition cancel_request :: "nat option \<Rightarrow> unit em" where
  "cancel_request ro = (case ro of None \<Rightarrow> ret () | Some r \<Rightarrow> do { set_on_complete r None; http_stop r })"

definition set_cluster_flag :: "etcd_link \<Rightarrow> cluster_flag_t \<Rightarrow> bool \<Rightarrow> unit em" where
  "set_cluster_flag K f v = do {
     old \<leftarrow> gets (check_cluster f);
     if v = old then ret ()
     else do {
       modify (put_cluster f v);
       when_do (f = ENABLE_LEASE)
         (if v then do { _ \<leftarrow> create_request_lease_grant K; ret () }
          else do {
            rpc \<leftarrow> gets ec_rpc_keepalive;
            cancel_request rpc;
            modify (\<lambda>s. s\<lparr>ec_rpc_keepalive := None\<rparr>)
          })
     }
   }"

end
