(* ===== verification/EtcdKeepalive.thy ===== *)
theory EtcdKeepalive
  imports EtcdRequest
begin

text \<open>
  etcd_keepalive (service/component/etcdcli/etcd_keepalive.cpp): an object that keeps one key of etcd
  alive under the lease of the cluster. It may first read the key and ask a checker, then writes it;
  what fails is queued with the cluster for a retry.
\<close>

section \<open>Queueing a retry\<close>

text \<open>etcd_cluster::add_retry_keepalive.\<close>

definition add_retry_keepalive :: "etcd_link \<Rightarrow> nat \<Rightarrow> bool em" where
  "add_retry_keepalive K i = do {
     closing \<leftarrow> gets (check_cluster CLUSTER_CLOSING);
     queued \<leftarrow> gets (\<lambda>s. i \<in> set (ec_retries s));
     if closing \<or> queued then ret False
     else do {
       set_cluster_flag K ENABLE_LEASE True;
       modify (\<lambda>s. s\<lparr>ec_retries := ec_retries s @ [i]\<rparr>);
       ret True
     }
   }"

section \<open>The object\<close>

definition keepalive_create :: "string \<Rightarrow> nat em" where
  "keepalive_create path = do {
     i \<leftarrow> gets (\<lambda>s. length (et_keepalives s));
     modify (\<lambda>s. s\<lparr>et_keepalives := et_keepalives s @ [keepalive_new path]\<rparr>);
     ret i
   }"

definition keepalive_close :: "nat \<Rightarrow> bool \<Rightarrow> unit em" where
  "keepalive_close i reset_has_data_flag = do {
     rpc \<leftarrow> gets (\<lambda>s. ka_rpc (ka i s));
     (case rpc of
        None \<Rightarrow> ret ()
      | Some r \<Rightarrow> do { set_callback r None None; http_stop r });
     modify (upd_ka i (\<lambda>k. k\<lparr>ka_rpc := None, ka_actived := False, ka_value_changed := True,
        ka_has_data := (if reset_has_data_flag then False else ka_has_data k),
        ka_check_run := False, ka_check_passed := False, ka_checker := None, ka_retry_times := 0\<rparr>))
   }"

definition set_checker :: "nat \<Rightarrow> (string \<Rightarrow> bool) \<Rightarrow> unit em" where
  "set_checker i f = modify (upd_ka i (\<lambda>k. k\<lparr>ka_checker := Some f\<rparr>))"

definition set_checker_string :: "nat \<Rightarrow> string \<Rightarrow> unit em" where
  "set_checker_string i checked = set_checker i (default_checker checked)"

definition reset_value_changed :: "nat \<Rightarrow> unit em" where
  "reset_value_changed i = modify (upd_ka i (\<lambda>k. k\<lparr>ka_value_changed := True\<rparr>))"

section \<open>Requests\<close>

text \<open>The do block of process: the request that is due, and whether making it failed.\<close>

definition keepalive_request :: "etcd_link \<Rightarrow> nat \<Rightarrow> bool em" where
  "keepalive_request K i = do {
     k \<leftarrow> gets (ka i);
     if \<not> ka_check_run k then do {
       ro \<leftarrow> create_request_kv_get K (ka_path k) [] 0 0;
       modify (upd_ka i (\<lambda>k. k\<lparr>ka_rpc := ro\<rparr>));
       (case ro of
          None \<Rightarrow> do { modify (upd_ka i (\<lambda>k. k\<lparr>ka_retry_times := ka_retry_times k + 1\<rparr>)); ret True }
        | Some r \<Rightarrow> do { set_callback r (Some (PKeepalive i)) (Some OnGetData); ret False })
     }
     else if ka_check_passed k \<and> ka_value_changed k then do {
       ro \<leftarrow> create_request_kv_set K (ka_path k) (ka_value k) True False False False;
       modify (upd_ka i (\<lambda>k. k\<lparr>ka_rpc := ro\<rparr>));
       (case ro of
          None \<Rightarrow> ret True
        | Some r \<Rightarrow> do {
            modify (upd_ka i (\<lambda>k. k\<lparr>ka_value_changed := False\<rparr>));
            set_callback r (Some (PKeepalive i)) (Some OnSetData);
            ret False
          })
     }
     else ret False
   }"

text \<open>process: on an idle object, make the request that is due and start it.\<close>

definition keepalive_process :: "etcd_link \<Rightarrow> nat \<Rightarrow> unit em" where
  "keepalive_process K i = do {
     busy \<leftarrow> gets (\<lambda>s. ka_rpc (ka i s) \<noteq> None);
     if busy then ret ()
     else do {
       modify (upd_ka i (\<lambda>k. k\<lparr>ka_actived := False\<rparr>));
       no_checker \<leftarrow> gets (\<lambda>s. ka_checker (ka i s) = None);
       when_do no_checker (modify (upd_ka i (\<lambda>k. k\<lparr>ka_check_run := True, ka_check_passed := True,
         ka_retry_times := ka_retry_times k + 1\<rparr>)));
       failed \<leftarrow> keepalive_request K i;
       rpc \<leftarrow> gets (\<lambda>s. ka_rpc (ka i s));
       failed' \<leftarrow> (case rpc of
          None \<Rightarrow> ret failed
        | Some r \<Rightarrow> do {
            res \<leftarrow> http_start K r;
            if res \<noteq> 0 then do {
              set_callback r None None;
              modify (upd_ka i (\<lambda>k. k\<lparr>ka_rpc := None\<rparr>));
              ret True
            }
            else ret failed
          });
       when_do failed' (do { _ \<leftarrow> add_retry_keepalive K i; ret () })
     }
   }"

definition keepalive_active :: "etcd_link \<Rightarrow> nat \<Rightarrow> unit em" where
  "keepalive_active K i = do {
     modify (upd_ka i (\<lambda>k. k\<lparr>ka_actived := True\<rparr>));
     keepalive_process K i
   }"

definition keepalive_set_value :: "etcd_link \<Rightarrow> nat \<Rightarrow> string \<Rightarrow> unit em" where
  "keepalive_set_value K i v = do {
     old \<leftarrow> gets (\<lambda>s. ka_value (ka i s));
     when_do (old \<noteq> v) (do {
       modify (upd_ka i (\<lambda>k. k\<lparr>ka_value := v, ka_value_changed := True\<rparr>));
       run \<leftarrow> gets (\<lambda>s. check_cluster CLUSTER_RUNNING s \<and> lease (ec_conf s) \<noteq> 0);
       when_do run (keepalive_active K i)
     })
   }"

section \<open>Completions\<close>

text \<open>
  The value a get found: the first of the array kvs when count is positive. The result is None where
  the code gives up for a retry (kvs is missing).
\<close>

definition got_value :: "json_lib \<Rightarrow> string \<Rightarrow> (string \<times> etcd_fault list) option" where
  "got_value L content =
     (case parse_object L content of
        None \<Rightarrow> Some ([], [])
      | Some doc \<Rightarrow>
          if unpack_int L fits_i64 doc ''count'' 0 > 0 then
            (case find_member doc ''kvs'' of
               None \<Rightarrow> None
             | Some (JArr []) \<Rightarrow> Some ([], [])
             | Some (JArr (j # js)) \<Rightarrow>
                 Some (snd (unpack_base64 L j ''value'' []), if is_obj j then [] else [JsonAssert ''kvs''])
             | Some _ \<Rightarrow> Some ([], [JsonAssert ''kvs'']))
          else Some ([], []))"

definition failed_response :: "etcd_link \<Rightarrow> int \<Rightarrow> int \<Rightarrow> bool" where
  "failed_response K err http_code \<longleftrightarrow> err \<noteq> 0 \<or> \<not> el_success K http_code"

definition callback_on_get_data :: "etcd_link \<Rightarrow> nat \<Rightarrow> int \<Rightarrow> int \<Rightarrow> string \<Rightarrow> unit em" where
  "callback_on_get_data K i err http_code content = do {
     modify (upd_ka i (\<lambda>k. k\<lparr>ka_rpc := None, ka_retry_times := ka_retry_times k + 1\<rparr>));
     if failed_response K err http_code then do {
       _ \<leftarrow> add_retry_keepalive K i;
       check_authorization_expired K http_code content
     }
     else (case got_value (el_json K) content of
        None \<Rightarrow> do { _ \<leftarrow> add_retry_keepalive K i; ret () }
      | Some (v, bad) \<Rightarrow> do {
          for_each et_raise bad;
          modify (upd_ka i (\<lambda>k. k\<lparr>ka_check_run := True,
            ka_check_passed := (case ka_checker k of None \<Rightarrow> True | Some f \<Rightarrow> f v)\<rparr>));
          keepalive_active K i
        })
   }"

definition callback_on_set_data :: "etcd_link \<Rightarrow> nat \<Rightarrow> int \<Rightarrow> int \<Rightarrow> string \<Rightarrow> unit em" where
  "callback_on_set_data K i err http_code content = do {
     modify (upd_ka i (\<lambda>k. k\<lparr>ka_rpc := None\<rparr>));
     if failed_response K err http_code then do {
       modify (upd_ka i (\<lambda>k. k\<lparr>ka_value_changed := True\<rparr>));
       _ \<leftarrow> add_retry_keepalive K i;
       check_authorization_expired K http_code content
     }
     else do {
       modify (upd_ka i (\<lambda>k. k\<lparr>ka_has_data := True\<rparr>));
       keepalive_active K i
     }
   }"

end
