(* ===== verification/EtcdWatcher.thy ===== *)
theory EtcdWatcher
  imports EtcdKeepalive
begin

text \<open>
  etcd_watcher (service/component/etcdcli/etcd_watcher.cpp): it reads a range of keys once, for the
  events of the keys there are, and then watches from the revision after; a watch request delivers
  JSON documents as a stream of bytes, which is cut into documents by counting brackets.
\<close>

section \<open>The object\<close>

definition watcher_create :: "string \<Rightarrow> string \<Rightarrow> nat em" where
  "watcher_create path range_end = do {
     i \<leftarrow> gets (\<lambda>s. length (et_watchers s));
     modify (\<lambda>s. s\<lparr>et_watchers := et_watchers s @ [watcher_new path range_end]\<rparr>);
     ret i
   }"

definition set_watch_callback :: "nat \<Rightarrow> http_priv option \<Rightarrow> http_done option \<Rightarrow> bool \<Rightarrow> unit em" where
  "set_watch_callback r p cb wr = modify (upd_req r (\<lambda>q. q\<lparr>hr_priv := p, hr_on_complete := cb, hr_on_write := wr\<rparr>))"

definition watcher_close :: "nat \<Rightarrow> unit em" where
  "watcher_close i = do {
     rpc \<leftarrow> gets (\<lambda>s. w_rpc (wt i s));
     (case rpc of
        None \<Rightarrow> ret ()
      | Some r \<Rightarrow> do { set_watch_callback r None None False; http_stop r });
     modify (upd_wt i (\<lambda>w. w\<lparr>w_rpc := None, w_actived := False, w_retry_mode := False, w_last_revision := 0\<rparr>))
   }"

section \<open>Requests\<close>

text \<open>The range request that asks for the revision, and the watch request from the one after it.\<close>

definition watcher_range :: "etcd_link \<Rightarrow> nat \<Rightarrow> unit em" where
  "watcher_range K i = do {
     w \<leftarrow> gets (wt i);
     now \<leftarrow> gets et_now;
     ro \<leftarrow> create_request_kv_get K (w_path w) (if w_retry_mode w then [] else w_range_end w) 0 0;
     modify (upd_wt i (\<lambda>w. w\<lparr>w_rpc := ro\<rparr>));
     (case ro of
        None \<Rightarrow> modify (upd_wt i (\<lambda>w. w\<lparr>w_next_request_time := now + w_retry_interval w\<rparr>))
      | Some r \<Rightarrow> do {
          set_callback r (Some (PWatcher i)) (Some OnRangeCompleted);
          res \<leftarrow> http_start K r;
          when_do (res \<noteq> 0) (do {
            set_on_complete r None;
            modify (upd_wt i (\<lambda>w. w\<lparr>w_rpc := None\<rparr>))
          })
        })
   }"

definition watcher_watch :: "etcd_link \<Rightarrow> nat \<Rightarrow> unit em" where
  "watcher_watch K i = do {
     w \<leftarrow> gets (wt i);
     now \<leftarrow> gets et_now;
     ro \<leftarrow> create_request_watch K (w_path w) (w_range_end w) (w_last_revision w + 1) (w_prev_kv w) (w_progress_notify w);
     modify (upd_wt i (\<lambda>w. w\<lparr>w_rpc := ro\<rparr>));
     (case ro of
        None \<Rightarrow> modify (upd_wt i (\<lambda>w. w\<lparr>w_next_request_time := now + w_retry_interval w\<rparr>))
      | Some r \<Rightarrow> do {
          set_watch_callback r (Some (PWatcher i)) (Some OnWatchCompleted) True;
          modify (upd_req r (\<lambda>q. q\<lparr>hr_opts := hr_opts q @ [OptTimeout (w_request_timeout w sdiv 1000000)]\<rparr>));
          modify (upd_wt i (\<lambda>w. w\<lparr>w_stream := [], w_brackets := 0\<rparr>));
          res \<leftarrow> http_start K r;
          when_do (res \<noteq> 0) (do {
            modify (upd_req r (\<lambda>q. q\<lparr>hr_on_complete := None, hr_on_write := False\<rparr>));
            modify (upd_wt i (\<lambda>w. w\<lparr>w_rpc := None\<rparr>))
          })
        })
   }"

definition watcher_process :: "etcd_link \<Rightarrow> nat \<Rightarrow> unit em" where
  "watcher_process K i = do {
     busy \<leftarrow> gets (\<lambda>s. w_rpc (wt i s) \<noteq> None);
     if busy then ret ()
     else do {
       modify (upd_wt i (\<lambda>w. w\<lparr>w_actived := False\<rparr>));
       w \<leftarrow> gets (wt i);
       now \<leftarrow> gets et_now;
       if w_next_request_time w > now then ret ()
       else if w_last_revision w = 0 \<or> w_retry_mode w then watcher_range K i
       else watcher_watch K i
     }
   }"

definition watcher_active :: "etcd_link \<Rightarrow> nat \<Rightarrow> unit em" where
  "watcher_active K i = do {
     modify (upd_wt i (\<lambda>w. w\<lparr>w_actived := True\<rparr>));
     watcher_process K i
   }"

section \<open>Completions\<close>

definition retry_later :: "nat \<Rightarrow> unit em" where
  "retry_later i = do {
     now \<leftarrow> gets et_now;
     modify (upd_wt i (\<lambda>w. w\<lparr>w_next_request_time := now + w_retry_interval w\<rparr>))
   }"

definition retry_now :: "nat \<Rightarrow> unit em" where
  "retry_now i = do {
     now \<leftarrow> gets et_now;
     modify (upd_wt i (\<lambda>w. w\<lparr>w_next_request_time := now\<rparr>))
   }"

definition kv_zero :: etcd_key_value where
  "kv_zero = \<lparr>kv_key = [], kv_create_revision = 0, kv_mod_revision = 0, kv_version = 0, kv_value = [], kv_lease = 0\<rparr>"

definition range_events :: "json_lib \<Rightarrow> json \<Rightarrow> watch_event list" where
  "range_events L doc =
     (case find_member doc ''kvs'' of
        Some (JArr js) \<Rightarrow> map (\<lambda>j. \<lparr>evt_type = EN_WEVT_PUT, evt_kv = unpack_kv L kv_zero j, evt_prev_kv = kv_zero\<rparr>) js
      | _ \<Rightarrow> [])"

text \<open>The documents whose members are read must be objects.\<close>

definition range_asserts :: "json \<Rightarrow> etcd_fault list" where
  "range_asserts doc =
     (case find_member doc ''kvs'' of
        Some (JArr js) \<Rightarrow> map (\<lambda>j. JsonAssert ''kvs'') (filter (\<lambda>j. \<not> is_obj j) js)
      | _ \<Rightarrow> [])"

definition header_asserts :: "json \<Rightarrow> etcd_fault list" where
  "header_asserts doc =
     (case find_member doc ''header'' of Some h \<Rightarrow> if is_obj h then [] else [JsonAssert ''header''] | None \<Rightarrow> [])"

definition fire_event :: "nat \<Rightarrow> etcd_response_header \<Rightarrow> watch_response \<Rightarrow> unit em" where
  "fire_event i h r = do {
     handled \<leftarrow> gets (\<lambda>s. w_evt_handle (wt i s));
     when_do handled (et_log (EvWatchEvent i h r))
   }"

definition callback_on_range_completed :: "etcd_link \<Rightarrow> nat \<Rightarrow> int \<Rightarrow> int \<Rightarrow> string \<Rightarrow> unit em" where
  "callback_on_range_completed K i err http_code content = do {
     modify (upd_wt i (\<lambda>w. w\<lparr>w_rpc := None\<rparr>));
     retrying \<leftarrow> gets (\<lambda>s. w_retry_mode (wt i s));
     if failed_response K err http_code then do {
       retry_later i;
       check_authorization_expired K http_code content
     }
     else if retrying then do {
       modify (upd_wt i (\<lambda>w. w\<lparr>w_retry_mode := False\<rparr>));
       retry_now i;
       watcher_active K i
     }
     else (case parse_object (el_json K) content of
        None \<Rightarrow> do { retry_later i; watcher_active K i }
      | Some doc \<Rightarrow> do {
          for_each et_raise (header_asserts doc);
          let header = (case find_member doc ''header'' of
             None \<Rightarrow> (el_trash_header K)\<lparr>rh_revision := 0\<rparr> | Some h \<Rightarrow> unpack_header (el_json K) h);
          if rh_revision header = 0 then do { retry_later i; watcher_active K i }
          else do {
            modify (upd_wt i (\<lambda>w. w\<lparr>w_last_revision := rh_revision header\<rparr>));
            for_each et_raise (range_asserts doc);
            fire_event i header \<lparr>wr_watch_id = 0, wr_created = False, wr_canceled = False, wr_compact_revision = 0,
              wr_events = range_events (el_json K) doc\<rparr>;
            retry_now i;
            watcher_active K i
          }
        })
   }"

definition callback_on_watch_completed :: "etcd_link \<Rightarrow> nat \<Rightarrow> int \<Rightarrow> int \<Rightarrow> string \<Rightarrow> unit em" where
  "callback_on_watch_completed K i err http_code content = do {
     modify (upd_wt i (\<lambda>w. w\<lparr>w_rpc := None, w_retry_mode := True\<rparr>));
     when_do (failed_response K err http_code) (do {
       (if err \<noteq> el_timedout K then retry_later i else retry_now i);
       check_authorization_expired K http_code content
     });
     watcher_active K i
   }"

section \<open>Documents of the watch stream\<close>

definition lower_ascii :: "char \<Rightarrow> char" where
  "lower_ascii c = (if CHR ''A'' \<le> c \<and> c \<le> CHR ''Z'' then char_of (of_char c + 32 :: nat) else c)"

definition str_case_eq :: "string \<Rightarrow> string \<Rightarrow> bool" where
  "str_case_eq a b \<longleftrightarrow> map lower_ascii (c_str a) = map lower_ascii (c_str b)"

text \<open>A type that is neither a string nor a number is only logged. The event is then what \<open>event_t()\<close> makes it:
  event_t has no constructor of its own, so this is value-initialisation, which sets evt_type to 0, EN_WEVT_PUT.\<close>

definition event_type :: "json_lib \<Rightarrow> json \<Rightarrow> etcd_watch_event" where
  "event_type L j =
     (case find_member j ''type'' of
        Some (JStr t) \<Rightarrow> if str_case_eq ''DELETE'' t then EN_WEVT_DELETE else EN_WEVT_PUT
      | Some (JInt i) \<Rightarrow> if unpack_int L fits_u64 j ''type'' 0 = 0 then EN_WEVT_PUT else EN_WEVT_DELETE
      | _ \<Rightarrow> EN_WEVT_PUT)"

definition kv_member :: "json_lib \<Rightarrow> json \<Rightarrow> string \<Rightarrow> etcd_key_value" where
  "kv_member L j k = (case find_member j k of None \<Rightarrow> kv_zero | Some v \<Rightarrow> unpack_kv L kv_zero v)"

definition watch_event_of :: "json_lib \<Rightarrow> json \<Rightarrow> watch_event" where
  "watch_event_of L j = \<lparr>evt_type = event_type L j, evt_kv = kv_member L j ''kv'', evt_prev_kv = kv_member L j ''prev_kv''\<rparr>"

definition events_of :: "json \<Rightarrow> json list" where
  "events_of res = (case find_member res ''events'' of Some (JArr js) \<Rightarrow> js | _ \<Rightarrow> [])"

definition watch_response_of :: "etcd_link \<Rightarrow> json \<Rightarrow> watch_response" where
  "watch_response_of K res = (let L = el_json K in \<lparr>
     wr_watch_id = unpack_int L fits_i64 res ''watch_id'' (el_trash_int K),
     wr_created = unpack_bool L res ''created'' (el_trash_bool K),
     wr_canceled = unpack_bool L res ''canceled'' (el_trash_bool K),
     wr_compact_revision = unpack_int L fits_i64 res ''compact_revision'' (el_trash_int K),
     wr_events = map (watch_event_of L) (events_of res)\<rparr>)"

definition sub_asserts :: "json \<Rightarrow> string \<Rightarrow> etcd_fault list" where
  "sub_asserts j k = (case find_member j k of None \<Rightarrow> [] | Some v \<Rightarrow> if is_obj v then [] else [JsonAssert k])"

definition watch_asserts :: "json \<Rightarrow> etcd_fault list" where
  "watch_asserts res =
     (if is_obj res then [] else [JsonAssert ''result'']) @ sub_asserts res ''header'' @
     concat (map (\<lambda>j. (if is_obj j then [] else [JsonAssert ''events'']) @ sub_asserts j ''kv'' @ sub_asserts j ''prev_kv'')
       (events_of res))"

text \<open>One document of the stream, on the request \<open>r\<close>.\<close>

definition watch_document :: "etcd_link \<Rightarrow> nat \<Rightarrow> nat \<Rightarrow> string \<Rightarrow> unit em" where
  "watch_document K i r text =
     (case parse_object (el_json K) text of
        None \<Rightarrow> ret ()
      | Some doc \<Rightarrow> do {
          let res = (case find_member doc ''result'' of None \<Rightarrow> doc | Some v \<Rightarrow> v);
          for_each et_raise (watch_asserts res);
          let header = (case find_member res ''header'' of None \<Rightarrow> el_trash_header K | Some h \<Rightarrow> unpack_header (el_json K) h);
          when_do (find_member res ''header'' \<noteq> None \<and> rh_revision header \<noteq> 0)
            (modify (upd_wt i (\<lambda>w. w\<lparr>w_last_revision := rh_revision header\<rparr>)));
          let response = watch_response_of K res;
          fire_event i header response;
          when_do (wr_canceled response) (http_stop r)
        })"

section \<open>Cutting the stream\<close>

definition opens :: "char \<Rightarrow> bool" where
  "opens c \<longleftrightarrow> c = CHR ''{'' \<or> c = CHR ''[''"

definition closes :: "char \<Rightarrow> bool" where
  "closes c \<longleftrightarrow> c = CHR ''}'' \<or> c = CHR '']''"

text \<open>
  The for loop: with the bracket count \<open>b\<close> before a byte, the text up to the byte at which the count
  is no longer positive and the rest after it; or, when there is none, the count at the end.
\<close>

fun scan_doc :: "int \<Rightarrow> string \<Rightarrow> (string \<times> string) option \<times> int" where
  "scan_doc b [] = (None, b)"
| "scan_doc b (c # cs) =
     (let b' = b + (if opens c then 1 else 0) - (if closes c then 1 else 0) in
      if b' \<le> 0 then (Some ([c], cs), b')
      else (case scan_doc b' cs of
              (Some (d, rest), e) \<Rightarrow> (Some (c # d, rest), e)
            | (None, e) \<Rightarrow> (None, e)))"

definition skip_gap :: "string \<Rightarrow> string" where
  "skip_gap = dropWhile (\<lambda>c. c \<noteq> CHR 0x00 \<and> \<not> opens c)"

text \<open>The loop of the write callback; every turn but the last takes a byte, so the bound is the length.\<close>

fun watch_loop :: "etcd_link \<Rightarrow> nat \<Rightarrow> nat \<Rightarrow> nat \<Rightarrow> string \<Rightarrow> unit em" where
  "watch_loop K i r 0 inbuf = when_do (inbuf \<noteq> []) (et_raise (LoopFuel ''watch_write''))"
| "watch_loop K i r (Suc n) inbuf =
     (if inbuf = [] then ret ()
      else do {
        brackets \<leftarrow> gets (\<lambda>s. w_brackets (wt i s));
        let buf = (if brackets \<le> 0 then skip_gap inbuf else inbuf);
        (case scan_doc brackets buf of
           (None, b) \<Rightarrow> modify (upd_wt i (\<lambda>w. w\<lparr>w_stream := w_stream w @ buf, w_brackets := b\<rparr>))
         | (Some (part, rest), b) \<Rightarrow> do {
             text \<leftarrow> gets (\<lambda>s. w_stream (wt i s) @ part);
             modify (upd_wt i (\<lambda>w. w\<lparr>w_stream := [], w_brackets := 0\<rparr>));
             watch_document K i r text;
             watch_loop K i r n rest
           })
      })"

definition callback_on_watch_write :: "etcd_link \<Rightarrow> nat \<Rightarrow> nat \<Rightarrow> string \<Rightarrow> unit em" where
  "callback_on_watch_write K i r inbuf = watch_loop K i r (length inbuf) inbuf"

end
