(* ===== verification/EtcdCluster.thy ===== *)
theory EtcdCluster
  imports EtcdWatcher
begin

text \<open>
  etcd_cluster (service/component/etcdcli/etcd_cluster.cpp): the keepalives and watchers it drives, the
  paths it deletes, the lease, the members of the cluster, the tick, closing, and the completions of
  its own requests.
\<close>

section \<open>Starting\<close>

definition conf_new :: cluster_conf_t where
  "conf_new = \<lparr>conf_hosts = [], hosts = [], authorization = [], http_cmd_timeout = chrono_seconds 10,
     authorization_user_roles = [], authorization_header = [],
     authorization_next_update_time = 0, authorization_retry_interval = chrono_seconds 5,
     auth_user_get_next_update_time = 0, auth_user_get_retry_interval = chrono_minutes 2,
     path_node = [], etcd_members_next_update_time = 0, etcd_members_update_interval = chrono_minutes 5,
     etcd_members_retry_interval = chrono_minutes 1, lease = 0, keepalive_next_update_time = 0,
     keepalive_timeout = chrono_seconds 16, keepalive_interval = chrono_seconds 5,
     ssl_enable_alpn = True, ssl_verify_peer = False, ssl_min_version = SSL_DISABLED,
     ssl_client_cert = [], ssl_client_cert_type = [], ssl_client_key = [], ssl_client_key_passwd = [],
     ssl_ca_cert = [], ssl_cipher_list = [], ssl_cipher_list_tls13 = []\<rparr>"

definition etcd_new :: "int \<Rightarrow> etcd" where
  "etcd_new now = \<lparr>ec_flags = 0, ec_conf = conf_new,
     ec_stats = \<lparr>sum_error_requests = 0, continue_error_requests = 0, sum_success_requests = 0,
       continue_success_requests = 0, sum_create_requests = 0\<rparr>,
     ec_curl = False, ec_rpc_authenticate = None, ec_rpc_members = None, ec_rpc_keepalive = None,
     ec_keepalives = [], ec_retries = [], ec_deletors = [], ec_watchers = [],
     et_requests = [], et_keepalives = [], et_watchers = [], et_deletors = [],
     et_now = now, et_calls = 0, et_trace = [], et_faults = []\<rparr>"

definition cluster_init :: "etcd_link \<Rightarrow> unit em" where
  "cluster_init K = do {
     modify (\<lambda>s. s\<lparr>ec_curl := True\<rparr>);
     set_cluster_flag K CLUSTER_CLOSING False
   }"

definition is_available :: "etcd \<Rightarrow> bool" where
  "is_available s \<longleftrightarrow> ec_curl s \<and> \<not> check_cluster CLUSTER_CLOSING s \<and> path_node (ec_conf s) \<noteq> [] \<and>
     check_authorization (ec_conf s)"

section \<open>Settings\<close>

text \<open>
  The set functions of the headers, one constructor for each (the get functions are the fields); the ones that take a number of seconds, minutes
  or hours pass it on through \<open>chrono_seconds\<close>, \<open>chrono_minutes\<close> or \<open>chrono_hours\<close>.
\<close>

datatype cluster_setting =
    Conf_authorization string | Conf_hosts "string list" | Conf_http_timeout int
  | Conf_members_update_interval int | Conf_members_retry_interval int
  | Conf_keepalive_timeout int | Conf_keepalive_interval int
  | Conf_ssl_enable_alpn bool | Conf_ssl_verify_peer bool | Conf_ssl_min_version ssl_version_t
  | Conf_ssl_client_cert string | Conf_ssl_client_cert_type string | Conf_ssl_client_key string
  | Conf_ssl_client_key_passwd string | Conf_ssl_ca_cert string | Conf_ssl_cipher_list string
  | Conf_ssl_cipher_list_tls13 string

primrec set_conf :: "cluster_setting \<Rightarrow> cluster_conf_t \<Rightarrow> cluster_conf_t" where
  "set_conf (Conf_authorization v) c = c\<lparr>authorization := v\<rparr>"
| "set_conf (Conf_hosts v) c = c\<lparr>conf_hosts := v\<rparr>"
| "set_conf (Conf_http_timeout v) c = c\<lparr>http_cmd_timeout := v\<rparr>"
| "set_conf (Conf_members_update_interval v) c = c\<lparr>etcd_members_update_interval := v\<rparr>"
| "set_conf (Conf_members_retry_interval v) c = c\<lparr>etcd_members_retry_interval := v\<rparr>"
| "set_conf (Conf_keepalive_timeout v) c = c\<lparr>keepalive_timeout := v\<rparr>"
| "set_conf (Conf_keepalive_interval v) c = c\<lparr>keepalive_interval := v\<rparr>"
| "set_conf (Conf_ssl_enable_alpn b) c = c\<lparr>ssl_enable_alpn := b\<rparr>"
| "set_conf (Conf_ssl_verify_peer b) c = c\<lparr>ssl_verify_peer := b\<rparr>"
| "set_conf (Conf_ssl_min_version w) c = c\<lparr>ssl_min_version := w\<rparr>"
| "set_conf (Conf_ssl_client_cert v) c = c\<lparr>ssl_client_cert := v\<rparr>"
| "set_conf (Conf_ssl_client_cert_type v) c = c\<lparr>ssl_client_cert_type := v\<rparr>"
| "set_conf (Conf_ssl_client_key v) c = c\<lparr>ssl_client_key := v\<rparr>"
| "set_conf (Conf_ssl_client_key_passwd v) c = c\<lparr>ssl_client_key_passwd := v\<rparr>"
| "set_conf (Conf_ssl_ca_cert v) c = c\<lparr>ssl_ca_cert := v\<rparr>"
| "set_conf (Conf_ssl_cipher_list v) c = c\<lparr>ssl_cipher_list := v\<rparr>"
| "set_conf (Conf_ssl_cipher_list_tls13 v) c = c\<lparr>ssl_cipher_list_tls13 := v\<rparr>"

datatype watcher_setting =
    Watch_progress_notify bool | Watch_prev_kv bool | Watch_retry_interval int | Watch_request_timeout int
  | Watch_evt_handle bool

primrec set_watch_conf :: "watcher_setting \<Rightarrow> watcher \<Rightarrow> watcher" where
  "set_watch_conf (Watch_progress_notify b) w = w\<lparr>w_progress_notify := b\<rparr>"
| "set_watch_conf (Watch_prev_kv b) w = w\<lparr>w_prev_kv := b\<rparr>"
| "set_watch_conf (Watch_retry_interval v) w = w\<lparr>w_retry_interval := v\<rparr>"
| "set_watch_conf (Watch_request_timeout v) w = w\<lparr>w_request_timeout := v\<rparr>"
| "set_watch_conf (Watch_evt_handle b) w = w\<lparr>w_evt_handle := b\<rparr>"

section \<open>Deleting a path\<close>

text \<open>delete_keepalive_deletor frees the object; using it afterwards is a fault.\<close>

definition use_deletor :: "nat \<Rightarrow> unit em" where
  "use_deletor d = do {
     alive \<leftarrow> gets (\<lambda>s. kd_alive (kd d s));
     when_do (\<not> alive) (et_raise (DeadDeletor d))
   }"

definition delete_keepalive_deletor :: "nat \<Rightarrow> bool \<Rightarrow> unit em" where
  "delete_keepalive_deletor d close_rpc = do {
     use_deletor d;
     modify (upd_kd d (\<lambda>x. x\<lparr>kd_owner := False\<rparr>));
     rpc \<leftarrow> gets (\<lambda>s. kd_rpc (kd d s));
     (case rpc of
        None \<Rightarrow> ret ()
      | Some r \<Rightarrow>
          if close_rpc then do { set_callback r None None; http_stop r }
          else modify (upd_req r (\<lambda>q. q\<lparr>hr_priv := None\<rparr>)));
     modify (upd_kd d (\<lambda>x. x\<lparr>kd_alive := False\<rparr>))
   }"

text \<open>All deletors that wait are deleted. The map is empty after one turn of the loop.\<close>

definition cleanup_keepalive_deletors :: "unit em" where
  "cleanup_keepalive_deletors = do {
     pending \<leftarrow> gets ec_deletors;
     modify (\<lambda>s. s\<lparr>ec_deletors := []\<rparr>);
     for_each (\<lambda>(p, d). delete_keepalive_deletor d True) pending
   }"

definition drop_deletor :: "string \<Rightarrow> unit em" where
  "drop_deletor path = do {
     it \<leftarrow> gets (\<lambda>s. map_of (ec_deletors s) path);
     (case it of
        None \<Rightarrow> ret ()
      | Some d \<Rightarrow> do {
          modify (\<lambda>s. s\<lparr>ec_deletors := AList.delete path (ec_deletors s)\<rparr>);
          delete_keepalive_deletor d True
        })
   }"

definition queue_deletor :: "nat \<Rightarrow> unit em" where
  "queue_deletor d = modify (\<lambda>s. s\<lparr>ec_deletors := AList.update (kd_path (kd d s)) d (ec_deletors s)\<rparr>)"

definition remove_keepalive_path :: "etcd_link \<Rightarrow> nat \<Rightarrow> bool \<Rightarrow> unit em" where
  "remove_keepalive_path K d delay_delete = do {
     use_deletor d;
     path \<leftarrow> gets (\<lambda>s. kd_path (kd d s));
     drop_deletor path;
     if delay_delete then queue_deletor d
     else do {
       modify (upd_kd d (\<lambda>x. x\<lparr>kd_owner := True, kd_retry_times := kd_retry_times x + 1\<rparr>));
       n \<leftarrow> gets (\<lambda>s. kd_retry_times (kd d s));
       if n > 8 then delete_keepalive_deletor d True
       else do {
         ro \<leftarrow> create_request_kv_del K path ''+1'' False;
         (case ro of
            None \<Rightarrow> queue_deletor d
          | Some r \<Rightarrow> do {
              modify (upd_kd d (\<lambda>x. x\<lparr>kd_rpc := Some r\<rparr>));
              set_callback r (Some (PDeletor d)) (Some OnRemoveKeepalivePath);
              res \<leftarrow> http_start K r;
              when_do (res \<noteq> 0) (do {
                set_callback r None None;
                modify (upd_kd d (\<lambda>x. x\<lparr>kd_rpc := None\<rparr>));
                queue_deletor d
              })
            })
       }
     }
   }"

section \<open>Keepalives and watchers\<close>

definition add_keepalive :: "etcd_link \<Rightarrow> nat \<Rightarrow> bool em" where
  "add_keepalive K i = do {
     closing \<leftarrow> gets (check_cluster CLUSTER_CLOSING);
     there \<leftarrow> gets (\<lambda>s. i \<in> set (ec_keepalives s));
     if closing \<or> there then ret False
     else do {
       set_cluster_flag K ENABLE_LEASE True;
       modify (\<lambda>s. s\<lparr>ec_keepalives := ec_keepalives s @ [i]\<rparr>);
       path \<leftarrow> gets (\<lambda>s. ka_path (ka i s));
       drop_deletor path;
       run \<leftarrow> gets (\<lambda>s. check_cluster CLUSTER_RUNNING s \<and> lease (ec_conf s) \<noteq> 0);
       when_do run (keepalive_active K i);
       ret True
     }
   }"

definition remove_keepalive :: "etcd_link \<Rightarrow> nat \<Rightarrow> bool em" where
  "remove_keepalive K i = do {
     a \<leftarrow> gets (\<lambda>s. remove_actor i (ec_keepalives s));
     b \<leftarrow> gets (\<lambda>s. remove_actor i (ec_retries s));
     modify (\<lambda>s. s\<lparr>ec_keepalives := (case a of None \<Rightarrow> ec_keepalives s | Some l \<Rightarrow> l),
                  ec_retries := (case b of None \<Rightarrow> ec_retries s | Some l \<Rightarrow> l)\<rparr>);
     if a = None \<and> b = None then ret False
     else do {
       k \<leftarrow> gets (ka i);
       (if ka_has_data k then do {
          d \<leftarrow> gets (\<lambda>s. length (et_deletors s));
          modify (\<lambda>s. s\<lparr>et_deletors := et_deletors s @ [\<lparr>kd_rpc = None, kd_path = ka_path k, kd_retry_times = 0,
             kd_owner = False, kd_alive = True\<rparr>]\<rparr>);
          remove_keepalive_path K d False;
          keepalive_close i True
        }
        else keepalive_close i False);
       ret True
     }
   }"

definition add_watcher :: "nat \<Rightarrow> bool em" where
  "add_watcher i = do {
     closing \<leftarrow> gets (check_cluster CLUSTER_CLOSING);
     there \<leftarrow> gets (\<lambda>s. i \<in> set (ec_watchers s));
     if closing \<or> there then ret False
     else do { modify (\<lambda>s. s\<lparr>ec_watchers := ec_watchers s @ [i]\<rparr>); ret True }
   }"

definition remove_watcher :: "nat \<Rightarrow> bool em" where
  "remove_watcher i = do {
     a \<leftarrow> gets (\<lambda>s. remove_actor i (ec_watchers s));
     (case a of
        None \<Rightarrow> ret False
      | Some l \<Rightarrow> do { modify (\<lambda>s. s\<lparr>ec_watchers := l\<rparr>); watcher_close i; ret True })
   }"

text \<open>
  The loops go over the vector by index while what they call may queue a retry; queueing an object that is
  in the vector changes nothing, so the vector is the same at the end and the loop goes over a copy here.
\<close>

definition renew_keepalive :: "etcd_link \<Rightarrow> nat \<Rightarrow> unit em" where
  "renew_keepalive K i = do { reset_value_changed i; keepalive_active K i }"

definition retry_pending_actions :: "etcd_link \<Rightarrow> unit em" where
  "retry_pending_actions K = do {
     ls \<leftarrow> gets (\<lambda>s. lease (ec_conf s));
     when_do (ls \<noteq> 0) (do {
       retries \<leftarrow> gets ec_retries;
       for_each (renew_keepalive K) retries;
       modify (\<lambda>s. s\<lparr>ec_retries := []\<rparr>)
     });
     watchers \<leftarrow> gets ec_watchers;
     for_each (watcher_active K) watchers;
     pending \<leftarrow> gets ec_deletors;
     modify (\<lambda>s. s\<lparr>ec_deletors := []\<rparr>);
     for_each (\<lambda>(p, d). remove_keepalive_path K d False) pending
   }"

definition set_lease :: "etcd_link \<Rightarrow> int \<Rightarrow> bool \<Rightarrow> unit em" where
  "set_lease K v force_active_keepalives = do {
     old_v \<leftarrow> gets (\<lambda>s. lease (ec_conf s));
     upd_conf (\<lambda>c. c\<lparr>lease := v\<rparr>);
     if old_v = v \<and> \<not> force_active_keepalives \<and> v \<noteq> 0 then retry_pending_actions K
     else when_do (v \<noteq> 0) (do {
       modify (\<lambda>s. s\<lparr>ec_retries := []\<rparr>);
       actors \<leftarrow> gets ec_keepalives;
       for_each (renew_keepalive K) actors;
       retry_pending_actions K
     })
   }"

section \<open>Members\<close>

text \<open>The loop that drops a host that does not answer from the list.\<close>

function drop_host :: "string \<Rightarrow> nat \<Rightarrow> string list \<Rightarrow> string list" where
  "drop_host node i hs =
     (if i < length hs then
        (if hs ! i \<noteq> node then drop_host node (Suc i) hs else drop_host node (Suc i) (swap_pop i hs))
      else hs)"
  by pat_completeness auto
termination
  by (relation "measure (\<lambda>(n, i, hs). length hs - i)") (auto simp: swap_pop_def)

definition bad_node :: "cluster_conf_t \<Rightarrow> string \<Rightarrow> bool" where
  "bad_node conf bad_url \<longleftrightarrow> path_node conf \<noteq> [] \<and>
     map lower_ascii (take (length (path_node conf)) bad_url) = map lower_ascii (path_node conf)"

definition select_node :: "etcd_link \<Rightarrow> unit em" where
  "select_node K = do {
     hs \<leftarrow> gets (\<lambda>s. hosts (ec_conf s));
     n \<leftarrow> random_index K (length hs);
     upd_conf (\<lambda>c. c\<lparr>path_node := hs ! n\<rparr>)
   }"

definition retry_request_member_update :: "etcd_link \<Rightarrow> string \<Rightarrow> bool em" where
  "retry_request_member_update K bad_url = do {
     bad \<leftarrow> gets (\<lambda>s. bad_node (ec_conf s) bad_url);
     when_do bad (do {
       upd_conf (\<lambda>c. c\<lparr>hosts := drop_host (path_node c) 0 (hosts c)\<rparr>);
       hs \<leftarrow> gets (\<lambda>s. hosts (ec_conf s));
       (if hs \<noteq> [] then select_node K else upd_conf (\<lambda>c. c\<lparr>path_node := []\<rparr>))
     });
     conf \<leftarrow> gets ec_conf;
     now \<leftarrow> gets et_now;
     if now + etcd_members_retry_interval conf < etcd_members_next_update_time conf then do {
       upd_conf (\<lambda>c. c\<lparr>etcd_members_next_update_time := now + etcd_members_retry_interval c\<rparr>);
       ret False
     }
     else if now \<le> etcd_members_next_update_time conf then ret False
     else create_request_member_update K
   }"

section \<open>Tick\<close>

definition count_true :: "bool \<Rightarrow> int" where
  "count_true b = (if b then 1 else 0)"

definition cluster_tick :: "etcd_link \<Rightarrow> int em" where
  "cluster_tick K = do {
     stopped \<leftarrow> gets (\<lambda>s. \<not> ec_curl s \<or> check_cluster CLUSTER_CLOSING s);
     if stopped then ret 0
     else do {
       due \<leftarrow> gets (\<lambda>s. et_now s > etcd_members_next_update_time (ec_conf s));
       m \<leftarrow> (if due then create_request_member_update K else ret False);
       conf \<leftarrow> gets ec_conf;
       rpc \<leftarrow> gets ec_rpc_authenticate;
       if path_node conf = [] then ret (count_true m)
       else if \<not> check_authorization conf then do {
         a \<leftarrow> (if rpc = None then create_request_auth_authenticate K else ret False);
         ret (count_true m + count_true a)
       }
       else do {
         u \<leftarrow> (if authorization conf \<noteq> [] \<and> rpc = None then create_request_auth_user_get K else ret False);
         enabled \<leftarrow> gets (check_cluster ENABLE_LEASE);
         ls \<leftarrow> gets (\<lambda>s. lease (ec_conf s));
         late \<leftarrow> gets (\<lambda>s. et_now s > keepalive_next_update_time (ec_conf s));
         running \<leftarrow> gets (check_cluster CLUSTER_RUNNING);
         if enabled \<and> ls = 0 then do {
           g \<leftarrow> create_request_lease_grant K;
           ret (count_true m + count_true u + count_true g)
         }
         else do {
           l \<leftarrow> (if enabled \<and> late then create_request_lease_keepalive K else ret False);
           when_do (\<not> enabled \<and> \<not> running) (set_cluster_flag K CLUSTER_RUNNING True);
           retry_pending_actions K;
           ret (count_true m + count_true u + count_true l)
         }
       }
     }
   }"

section \<open>Closing\<close>

definition cluster_close :: "etcd_link \<Rightarrow> bool \<Rightarrow> nat option em" where
  "cluster_close K wait = do {
     set_cluster_flag K CLUSTER_CLOSING True;
     k \<leftarrow> gets ec_rpc_keepalive;
     cancel_request k;
     modify (\<lambda>s. s\<lparr>ec_rpc_keepalive := None\<rparr>);
     cleanup_keepalive_deletors;
     m \<leftarrow> gets ec_rpc_members;
     cancel_request m;
     modify (\<lambda>s. s\<lparr>ec_rpc_members := None\<rparr>);
     a \<leftarrow> gets ec_rpc_authenticate;
     cancel_request a;
     modify (\<lambda>s. s\<lparr>ec_rpc_authenticate := None\<rparr>);
     kas \<leftarrow> gets ec_keepalives;
     for_each (\<lambda>i. keepalive_close i False) kas;
     modify (\<lambda>s. s\<lparr>ec_keepalives := [], ec_retries := []\<rparr>);
     ws \<leftarrow> gets ec_watchers;
     for_each watcher_close ws;
     modify (\<lambda>s. s\<lparr>ec_watchers := []\<rparr>);
     leased \<leftarrow> gets (\<lambda>s. ec_curl s \<and> lease (ec_conf s) \<noteq> 0);
     ro \<leftarrow> (if leased then do {
              ro \<leftarrow> create_request_lease_revoke K;
              (case ro of None \<Rightarrow> ret () | Some r \<Rightarrow> do { _ \<leftarrow> http_start K r; ret () });
              upd_conf (\<lambda>c. c\<lparr>lease := 0\<rparr>);
              ret ro
            } else ret None);
     ret (case ro of None \<Rightarrow> None | Some r \<Rightarrow> if el_running K r then Some r else None)
   }"

definition cluster_reset :: "etcd_link \<Rightarrow> unit em" where
  "cluster_reset K = do {
     _ \<leftarrow> cluster_close K True;
     modify (\<lambda>s. s\<lparr>ec_curl := False, ec_flags := 0\<rparr>);
     upd_conf (\<lambda>c. conf_new\<lparr>conf_hosts := conf_hosts c, hosts := hosts c, authorization := authorization c\<rparr>)
   }"

definition cluster_dtor :: "etcd_link \<Rightarrow> unit em" where
  "cluster_dtor K = do { cluster_reset K; cleanup_keepalive_deletors }"

section \<open>Completions of the cluster's requests\<close>

definition own_failure :: "etcd_link \<Rightarrow> string \<Rightarrow> int \<Rightarrow> unit em" where
  "own_failure K url err = do {
     when_do (err \<noteq> 0) (do { _ \<leftarrow> retry_request_member_update K url; ret () });
     add_stats_error_request
   }"

definition callback_on_remove_keepalive_path :: "etcd_link \<Rightarrow> nat \<Rightarrow> nat \<Rightarrow> int \<Rightarrow> int \<Rightarrow> string \<Rightarrow> unit em" where
  "callback_on_remove_keepalive_path K r d err http_code content = do {
     use_deletor d;
     modify (upd_kd d (\<lambda>x. x\<lparr>kd_rpc := (if kd_rpc x = Some r then None else kd_rpc x)\<rparr>));
     if err \<noteq> 0 \<or> \<not> el_success K http_code \<and> http_code \<noteq> 404 then do {
       owner \<leftarrow> gets (\<lambda>s. kd_owner (kd d s));
       if owner then do {
         url \<leftarrow> gets (\<lambda>s. hr_url (et_requests s ! r));
         own_failure K url err;
         check_authorization_expired K http_code content;
         remove_keepalive_path K d True
       }
       else delete_keepalive_deletor d False
     }
     else delete_keepalive_deletor d False
   }"

definition callback_on_auth_authenticate :: "etcd_link \<Rightarrow> nat \<Rightarrow> int \<Rightarrow> int \<Rightarrow> string \<Rightarrow> unit em" where
  "callback_on_auth_authenticate K r err http_code content = do {
     modify (\<lambda>s. s\<lparr>ec_rpc_authenticate := None\<rparr>);
     if failed_response K err http_code then do {
       url \<leftarrow> gets (\<lambda>s. hr_url (et_requests s ! r));
       own_failure K url err;
       check_authorization_expired K http_code content
     }
     else (case parse_object (el_json K) content of
        None \<Rightarrow> ret ()
      | Some doc \<Rightarrow>
          (case unpack_string (el_json K) doc ''token'' of
             None \<Rightarrow> add_stats_error_request
           | Some token \<Rightarrow> do {
               upd_conf (\<lambda>c. c\<lparr>authorization_header := ''Authorization: '' @ token\<rparr>);
               add_stats_success_request;
               retry_pending_actions K;
               now \<leftarrow> gets et_now;
               upd_conf (\<lambda>c. c\<lparr>auth_user_get_next_update_time :=
                 (if auth_user_get_retry_interval c \<le> 0 then now else now + auth_user_get_retry_interval c)\<rparr>)
             }))
   }"

definition roles_of :: "json list \<Rightarrow> string list" where
  "roles_of js = concat (map (\<lambda>j. case j of JStr r \<Rightarrow> [c_str r] | _ \<Rightarrow> []) js)"

text \<open>is_success is never set, so its branch is never taken.\<close>

definition callback_on_auth_user_get :: "etcd_link \<Rightarrow> nat \<Rightarrow> int \<Rightarrow> int \<Rightarrow> string \<Rightarrow> unit em" where
  "callback_on_auth_user_get K r err http_code content = do {
     modify (\<lambda>s. s\<lparr>ec_rpc_authenticate := None\<rparr>);
     if failed_response K err http_code then do {
       url \<leftarrow> gets (\<lambda>s. hr_url (et_requests s ! r));
       own_failure K url err;
       check_authorization_expired K http_code content
     }
     else do {
       let is_success = False;
       (case parse_object (el_json K) content of
          None \<Rightarrow> ret ()
        | Some doc \<Rightarrow>
            (case find_member doc ''roles'' of
               Some (JArr js) \<Rightarrow> upd_conf (\<lambda>c. c\<lparr>authorization_user_roles := roles_of js\<rparr>)
             | _ \<Rightarrow> ret ()));
       when_do is_success (do { add_stats_success_request; retry_pending_actions K })
     }
   }"

text \<open>The client URLs of the members, and what the library asserts about their types on the way.\<close>

definition url_of :: "json \<Rightarrow> string list" where
  "url_of j = (case j of JStr u \<Rightarrow> if u \<noteq> [] then [c_str u] else [] | _ \<Rightarrow> [])"

definition member_urls :: "json \<Rightarrow> string list" where
  "member_urls m = (case find_member m ''clientURLs'' of Some (JArr us) \<Rightarrow> concat (map url_of us) | _ \<Rightarrow> [])"

definition member_asserts :: "json \<Rightarrow> etcd_fault list" where
  "member_asserts m =
     (if is_obj m then [] else [JsonAssert ''members'']) @
     (case find_member m ''clientURLs'' of
        None \<Rightarrow> []
      | Some (JArr us) \<Rightarrow> concat (map (\<lambda>u. case u of JStr t \<Rightarrow> [] | _ \<Rightarrow> [JsonAssert ''clientURLs'']) us)
      | Some _ \<Rightarrow> [JsonAssert ''clientURLs''])"

definition is_arr :: "json \<Rightarrow> bool" where
  "is_arr j = (case j of JArr ms \<Rightarrow> True | _ \<Rightarrow> False)"

definition member_list :: "json \<Rightarrow> json list" where
  "member_list j = (case j of JArr ms \<Rightarrow> ms | _ \<Rightarrow> [])"

definition callback_on_member_update :: "etcd_link \<Rightarrow> nat \<Rightarrow> int \<Rightarrow> int \<Rightarrow> string \<Rightarrow> unit em" where
  "callback_on_member_update K r err http_code content = do {
     modify (\<lambda>s. s\<lparr>ec_rpc_members := None\<rparr>);
     if failed_response K err http_code then do {
       url \<leftarrow> gets (\<lambda>s. hr_url (et_requests s ! r));
       own_failure K url err
     }
     else (case parse_object (el_json K) content of
        None \<Rightarrow> ret ()
      | Some doc \<Rightarrow>
          (case find_member doc ''members'' of
             None \<Rightarrow> add_stats_error_request
           | Some ms \<Rightarrow> do {
               when_do (\<not> is_arr ms) (et_raise (JsonAssert ''members''));
               for_each et_raise (concat (map member_asserts (member_list ms)));
               let urls = concat (map member_urls (member_list ms));
               node \<leftarrow> gets (\<lambda>s. path_node (ec_conf s));
               upd_conf (\<lambda>c. c\<lparr>hosts := urls\<rparr>);
               when_do (urls \<noteq> [] \<and> node \<notin> set urls) (select_node K);
               add_stats_success_request;
               _ \<leftarrow> cluster_tick K;
               ret ()
             }))
   }"

definition callback_on_lease_keepalive :: "etcd_link \<Rightarrow> nat \<Rightarrow> int \<Rightarrow> int \<Rightarrow> string \<Rightarrow> unit em" where
  "callback_on_lease_keepalive K r err http_code content = do {
     modify (\<lambda>s. s\<lparr>ec_rpc_keepalive := None\<rparr>);
     if failed_response K err http_code then do {
       url \<leftarrow> gets (\<lambda>s. hr_url (et_requests s ! r));
       own_failure K url err;
       check_authorization_expired K http_code content
     }
     else (case parse_object (el_json K) content of
        None \<Rightarrow> ret ()
      | Some doc \<Rightarrow> do {
          let is_grant = (find_member doc ''result'' = None);
          let res = (case find_member doc ''result'' of None \<Rightarrow> doc | Some v \<Rightarrow> v);
          need_object res ''result'';
          if find_member res ''TTL'' = None then do {
            when_do (\<not> is_grant) (do {
              set_lease K 0 is_grant;
              _ \<leftarrow> create_request_lease_grant K;
              ret ()
            });
            add_stats_error_request
          }
          else do {
            let new_lease = unpack_int (el_json K) fits_i64 res ''ID'' 0;
            if new_lease = 0 then add_stats_error_request
            else do {
              add_stats_success_request;
              running \<leftarrow> gets (check_cluster CLUSTER_RUNNING);
              when_do (\<not> running) (set_cluster_flag K CLUSTER_RUNNING True);
              set_lease K new_lease is_grant
            }
          }
        })
   }"

section \<open>The HTTP client completes a request\<close>

definition callback_of :: "etcd_link \<Rightarrow> nat \<Rightarrow> http_done \<Rightarrow> http_priv \<Rightarrow> int \<Rightarrow> int \<Rightarrow> string \<Rightarrow> unit em" where
  "callback_of K r cb p err http_code content =
     (case (cb, p) of
        (OnAuthenticate, PCluster) \<Rightarrow> callback_on_auth_authenticate K r err http_code content
      | (OnUserGet, PCluster) \<Rightarrow> callback_on_auth_user_get K r err http_code content
      | (OnMemberUpdate, PCluster) \<Rightarrow> callback_on_member_update K r err http_code content
      | (OnLeaseKeepalive, PCluster) \<Rightarrow> callback_on_lease_keepalive K r err http_code content
      | (OnRemoveKeepalivePath, PDeletor d) \<Rightarrow> callback_on_remove_keepalive_path K r d err http_code content
      | (OnGetData, PKeepalive i) \<Rightarrow> callback_on_get_data K i err http_code content
      | (OnSetData, PKeepalive i) \<Rightarrow> callback_on_set_data K i err http_code content
      | (OnRangeCompleted, PWatcher i) \<Rightarrow> callback_on_range_completed K i err http_code content
      | (OnWatchCompleted, PWatcher i) \<Rightarrow> callback_on_watch_completed K i err http_code content
      | _ \<Rightarrow> ret ())"

text \<open>
  A started request completes once, with the function and the private data it has then; the callbacks
  return at once when there is none.
\<close>

definition http_complete :: "etcd_link \<Rightarrow> nat \<Rightarrow> int \<Rightarrow> int \<Rightarrow> string \<Rightarrow> unit em" where
  "http_complete K r err http_code content = do {
     q \<leftarrow> gets (\<lambda>s. if r < length (et_requests s) then et_requests s ! r else http_request_new []);
     when_do (hr_pending q) (do {
       modify (upd_req r (\<lambda>q. q\<lparr>hr_pending := False\<rparr>));
       (case (hr_on_complete q, hr_priv q) of
          (Some cb, Some p) \<Rightarrow> callback_of K r cb p err http_code content
        | _ \<Rightarrow> ret ())
     })
   }"

definition http_data :: "etcd_link \<Rightarrow> nat \<Rightarrow> string \<Rightarrow> unit em" where
  "http_data K r bytes = do {
     q \<leftarrow> gets (\<lambda>s. if r < length (et_requests s) then et_requests s ! r else http_request_new []);
     (case hr_priv q of
        Some (PWatcher i) \<Rightarrow> when_do (hr_pending q \<and> hr_on_write q) (callback_on_watch_write K i r bytes)
      | _ \<Rightarrow> ret ())
   }"

end
