(* ===== verification/EtcdStream.thy ===== *)
theory EtcdStream
  imports EtcdCluster
begin

text \<open>
  The watch stream: however its bytes are cut into chunks, the same documents are processed in the
  same order; and the documents of a stream of well-bracketed texts are exactly those texts.
\<close>

section \<open>Scanning\<close>

lemma scan_append:
  "scan_doc b (xs @ ys) =
    (case scan_doc b xs of
       (Some (d, rest), e) \<Rightarrow> (Some (d, rest @ ys), e)
     | (None, e) \<Rightarrow> (case scan_doc e ys of
          (Some (d, rest), e') \<Rightarrow> (Some (xs @ d, rest), e')
        | (None, e') \<Rightarrow> (None, e')))"
  by (induction b xs rule: scan_doc.induct) (auto simp: Let_def split: option.splits prod.splits)

lemma scan_parts: "scan_doc b xs = (Some (d, rest), e) \<Longrightarrow> xs = d @ rest \<and> d \<noteq> []"
  by (induction b xs arbitrary: d rule: scan_doc.induct) (auto simp: Let_def split: option.splits prod.splits if_splits)

lemma scan_none_pos: "scan_doc b xs = (None, e) \<Longrightarrow> xs \<noteq> [] \<Longrightarrow> e > 0"
proof (induction b xs rule: scan_doc.induct)
  case (2 b c cs)
  then show ?case by (cases cs) (auto simp: Let_def split: option.splits prod.splits if_splits)
qed simp

lemma skip_append: "skip_gap (xs @ ys) = (if skip_gap xs = [] then skip_gap ys else skip_gap xs @ ys)"
  by (induction xs) (auto simp: skip_gap_def)

lemma length_skip: "length (skip_gap xs) \<le> length xs"
  by (simp add: skip_gap_def length_dropWhile_le)

section \<open>The loop\<close>

lemma wt_upd [simp]:
  "i < length (et_watchers s) \<Longrightarrow> wt i (upd_wt i f s) = f (wt i s)"
  "length (et_watchers (upd_wt i f s)) = length (et_watchers s)"
  by (simp_all add: wt_def upd_wt_def)

lemma upd_wt_id: "f (wt i s) = wt i s \<Longrightarrow> upd_wt i f s = s"
  by (cases "i < length (et_watchers s)") (simp_all add: upd_wt_def wt_def list_update_beyond)

lemma upd_wt_twice: "upd_wt i g (upd_wt i f s) = upd_wt i (\<lambda>w. g (f w)) s"
  by (cases "i < length (et_watchers s)") (simp_all add: upd_wt_def list_update_beyond)

text \<open>The watchers stay, with their stream and their bracket count, while a document is processed.\<close>

definition same_watchers :: "etcd \<Rightarrow> etcd \<Rightarrow> bool" where
  "same_watchers s s' \<longleftrightarrow> length (et_watchers s') = length (et_watchers s) \<and>
     (\<forall>j. w_stream (wt j s') = w_stream (wt j s) \<and> w_brackets (wt j s') = w_brackets (wt j s))"

lemma same_watchers_pre: "rel_pre same_watchers"
  by (simp add: rel_pre_def same_watchers_def)

lemma watch_document_same: "state_io_rel same_watchers (watch_document K i r text)"
proof -
  note rules = io_rel_bind [OF same_watchers_pre] io_rel_return [OF same_watchers_pre] io_rel_gets [OF same_watchers_pre]
    io_rel_when [OF same_watchers_pre] io_rel_let io_rel_case_option for_each_rel [OF same_watchers_pre] io_rel_modify
  have upd: "same_watchers s (upd_wt i (\<lambda>w. w\<lparr>w_last_revision := n\<rparr>) s)" for n s
    by (cases "i < length (et_watchers s)")
      (auto simp: same_watchers_def wt_def upd_wt_def nth_list_update list_update_beyond)
  show ?thesis
    unfolding watch_document_def fire_event_def et_log_def et_raise_def http_stop_def
    by (intro rules; (rule upd | simp add: same_watchers_def wt_def))
qed

text \<open>
  The loop without its bound, as the sequence of steps it takes: \<open>bound_free\<close> states that any bound of
  at least the length of the input gives the same.
\<close>

declare watch_loop.simps(2) [simp del]

lemma watch_loop_nil [simp]: "run_state (watch_loop K i r n []) s = ((), s)"
  by (cases n) (simp_all add: watch_loop.simps)

lemma watch_loop_Suc:
  assumes "xs \<noteq> []" and "b = w_brackets (wt i s)" and "buf = (if b \<le> 0 then skip_gap xs else xs)"
  shows "run_state (watch_loop K i r (Suc n) xs) s =
    (case scan_doc b buf of
       (None, e) \<Rightarrow> ((), upd_wt i (\<lambda>w. w\<lparr>w_stream := w_stream w @ buf, w_brackets := e\<rparr>) s)
     | (Some (part, rest), e) \<Rightarrow>
         run_state (watch_loop K i r n rest)
           (snd (run_state (watch_document K i r (w_stream (wt i s) @ part))
             (upd_wt i (\<lambda>w. w\<lparr>w_stream := [], w_brackets := 0\<rparr>) s))))"
  using assms by (auto simp: watch_loop.simps(2) Let_def case_prod_unfold split: option.splits prod.splits)

lemma rest_shorter:
  assumes "scan_doc b buf = (Some (part, rest), e)" and "length buf \<le> length xs"
  shows "length rest < length xs"
  using scan_parts [OF assms(1)] assms(2) by (auto simp: Suc_le_eq [symmetric] neq_Nil_conv)

lemma watch_loop_bound:
  "length xs \<le> n \<Longrightarrow> length xs \<le> m \<Longrightarrow> run_state (watch_loop K i r n xs) s = run_state (watch_loop K i r m xs) s"
proof (induction "length xs" arbitrary: xs n m s rule: less_induct)
  case less
  show ?case
  proof (cases "xs = []")
    case False
    then obtain n' m' where nm: "n = Suc n'" "m = Suc m'" using less.prems by (cases n; cases m) auto
    define b where "b = w_brackets (wt i s)"
    define buf where "buf = (if b \<le> 0 then skip_gap xs else xs)"
    have l: "length buf \<le> length xs" using length_skip by (simp add: buf_def)
    have "run_state (watch_loop K i r n' rest) s' = run_state (watch_loop K i r m' rest) s'"
      if "scan_doc b buf = (Some (part, rest), e)" for part rest e s'
      using less.hyps [OF rest_shorter [OF that l]] rest_shorter [OF that l] less.prems nm by simp
    then show ?thesis
      unfolding nm watch_loop_Suc [OF False b_def buf_def] by (auto split: option.splits prod.splits)
  qed simp
qed

lemma watch_loop_cut:
  assumes "i < length (et_watchers s)" and "length (xs @ ys) \<le> n"
  shows "run_state (watch_loop K i r n (xs @ ys)) s =
    run_state (watch_loop K i r n ys) (snd (run_state (watch_loop K i r n xs) s))"
  using assms
proof (induction "length xs" arbitrary: xs s n rule: less_induct)
  case less
  show ?case
  proof (cases "xs = [] \<or> ys = []")
    case True
    then show ?thesis by (cases "xs = []") (auto simp: prod_eq_iff)
  next
    case False
    then have xs: "xs \<noteq> []" "xs @ ys \<noteq> []" "ys \<noteq> []" by auto
    obtain n' where n: "n = Suc n'" using less.prems xs by (cases n) auto
    define b where "b = w_brackets (wt i s)"
    define buf where "buf = (if b \<le> 0 then skip_gap xs else xs)"
    define buf2 where "buf2 = (if b \<le> 0 then skip_gap (xs @ ys) else xs @ ys)"
    have l: "length buf \<le> length xs" using length_skip by (simp add: buf_def)
    note run = watch_loop_Suc [OF xs(1) b_def buf_def, of K r n'] watch_loop_Suc [OF xs(2) b_def buf2_def, of K r n']
    show ?thesis
    proof (cases "buf = []")
      case True
      have "upd_wt i (\<lambda>w. w\<lparr>w_stream := w_stream w @ buf, w_brackets := b\<rparr>) s = s"
        by (rule upd_wt_id) (simp add: True b_def)
      then have a: "run_state (watch_loop K i r n xs) s = ((), s)" using run(1) True by (simp add: n)
      have b0: "b \<le> 0" "skip_gap xs = []" using True xs by (auto simp: buf_def split: if_splits)
      then have "buf2 = (if b \<le> 0 then skip_gap ys else ys)" by (simp add: buf2_def skip_append)
      from watch_loop_Suc [OF xs(3) b_def this, of K r n'] run(2) a show ?thesis by (simp add: n)
    next
      case bf: False
      have buf2: "buf2 = buf @ ys" using bf by (auto simp: buf2_def buf_def skip_append)
      show ?thesis
      proof (cases "scan_doc b buf")
        case (Pair res e)
        show ?thesis
        proof (cases res)
          case None
          have e: "e > 0" using scan_none_pos Pair None bf by blast
          let ?s1 = "upd_wt i (\<lambda>w. w\<lparr>w_stream := w_stream w @ buf, w_brackets := e\<rparr>) s"
          have w1: "wt i ?s1 = (wt i s)\<lparr>w_stream := w_stream (wt i s) @ buf, w_brackets := e\<rparr>" using less.prems by simp
          have a: "run_state (watch_loop K i r n xs) s = ((), ?s1)" using run(1) Pair None by (simp add: n)
          have "e = w_brackets (wt i ?s1)" "ys = (if e \<le> 0 then skip_gap ys else ys)" using e w1 by simp_all
          from watch_loop_Suc [OF xs(3) this, of K r n'] show ?thesis
            unfolding a snd_conv unfolding n run(2) buf2 scan_append Pair None
            by (auto simp: w1 upd_wt_twice split: option.splits prod.splits)
        next
          case (Some p)
          obtain part rest where p: "p = (part, rest)" by (cases p)
          have sc: "scan_doc b buf = (Some (part, rest), e)" using Pair Some p by simp
          let ?s1 = "snd (run_state (watch_document K i r (w_stream (wt i s) @ part)) (upd_wt i (\<lambda>w. w\<lparr>w_stream := [], w_brackets := 0\<rparr>) s))"
          have r: "length rest < length xs" by (rule rest_shorter [OF sc l])
          have i1: "i < length (et_watchers ?s1)"
            using io_relD [OF watch_document_same] less.prems(1) by (simp add: same_watchers_def)
          have "run_state (watch_loop K i r n' (rest @ ys)) ?s1 =
              run_state (watch_loop K i r n' ys) (snd (run_state (watch_loop K i r n' rest) ?s1))"
            by (rule less.hyps [OF r i1]) (use r less.prems(2) n in simp)
          moreover have "run_state (watch_loop K i r n' ys) z = run_state (watch_loop K i r n ys) z" for z
            by (rule watch_loop_bound) (use less.prems(2) n xs in \<open>cases xs; simp\<close>)+
          ultimately show ?thesis
            using run by (simp add: n buf2 scan_append sc)
        qed
      qed
    qed
  qed
qed

section \<open>Documents\<close>

lemma callback_cut:
  assumes "i < length (et_watchers s)"
  shows "run_state (callback_on_watch_write K i r (xs @ ys)) s =
    run_state (callback_on_watch_write K i r ys) (snd (run_state (callback_on_watch_write K i r xs) s))"
  unfolding callback_on_watch_write_def watch_loop_cut [OF assms order_refl]
  by (subst (1 2) watch_loop_bound [of _ "length (xs @ ys)" "length _"]) simp_all

lemma callback_same_length: "length (et_watchers (snd (run_state (callback_on_watch_write K i r xs) s))) = length (et_watchers s)"
proof -
  let ?R = "\<lambda>s s' :: etcd. length (et_watchers s') = length (et_watchers s)"
  have R: "rel_pre ?R" by (simp add: rel_pre_def)
  have doc: "state_io_rel ?R (watch_document K i r t)" for t
    using watch_document_same [of K i r t] by (auto simp: state_io_rel_def same_watchers_def)
  have "state_io_rel ?R (watch_loop K i r n xs)" for n
  proof (induction n arbitrary: xs)
    case 0
    show ?case by (simp add: state_io_rel_def et_raise_def)
  next
    case (Suc n)
    show ?case
      unfolding watch_loop.simps
      by (intro io_rel_if io_rel_bind [OF R] io_rel_return [OF R] io_rel_gets [OF R] io_rel_let io_rel_case_prod
          io_rel_case_option io_rel_modify doc Suc.IH) simp_all
  qed
  then have "?R s (snd (run_state (watch_loop K i r n xs) s))" for n by (rule io_relD)
  then show ?thesis unfolding callback_on_watch_write_def .
qed

lemma callback_chunks:
  "i < length (et_watchers s) \<Longrightarrow>
    run_state (for_each (callback_on_watch_write K i r) cs) s = run_state (callback_on_watch_write K i r (concat cs)) s"
proof (induction cs arbitrary: s)
  case Nil
  then show ?case by (simp add: callback_on_watch_write_def)
next
  case (Cons c cs)
  then show ?case
    using Cons.IH [of "snd (run_state (callback_on_watch_write K i r c) s)"] callback_cut [of i s K r c "concat cs"]
    by (simp add: callback_same_length case_prod_unfold)
qed

text \<open>
  A gap has no bracket that opens and no zero byte; a bracketed text opens with its first byte and
  comes back to depth zero with its last byte and not before.
\<close>

definition gap :: "string \<Rightarrow> bool" where
  "gap g \<longleftrightarrow> skip_gap g = []"

definition bracketed :: "string \<Rightarrow> bool" where
  "bracketed d \<longleftrightarrow> d \<noteq> [] \<and> opens (hd d) \<and> scan_doc 0 d = (Some (d, []), 0)"

lemma loop_documents:
  assumes "i < length (et_watchers s)" and "w_brackets (wt i s) = 0" and "w_stream (wt i s) = []"
    and "\<forall>(g, d) \<in> set gds. gap g \<and> bracketed d" and "gap t"
    and "length (concat (map (\<lambda>(g, d). g @ d) gds) @ t) \<le> n"
  shows "run_state (watch_loop K i r n (concat (map (\<lambda>(g, d). g @ d) gds) @ t)) s =
    run_state (for_each (watch_document K i r) (map snd gds)) s"
  using assms
proof (induction gds arbitrary: s n)
  case Nil
  show ?case
  proof (cases "t = []")
    case False
    then obtain n' where n: "n = Suc n'" using Nil.prems by (cases n) auto
    have "skip_gap t = []" using Nil.prems by (simp add: gap_def)
    then have b: "0 = w_brackets (wt i s)" "[] = (if (0 :: int) \<le> 0 then skip_gap t else t)" using Nil.prems by simp_all
    have "upd_wt i (\<lambda>w. w\<lparr>w_stream := w_stream w @ [], w_brackets := 0\<rparr>) s = s"
      by (rule upd_wt_id) (simp add: b)
    with watch_loop_Suc [OF False b, of K r n'] show ?thesis by (simp add: n)
  qed simp
next
  case (Cons gd gds)
  obtain g d where gd: "gd = (g, d)" by (cases gd)
  let ?rest = "concat (map (\<lambda>(g, d). g @ d) gds) @ t"
  have g: "skip_gap g = []" and d: "d \<noteq> []" "opens (hd d)" "scan_doc 0 d = (Some (d, []), 0)"
    using Cons.prems(4) gd by (auto simp: gap_def bracketed_def)
  have ne: "g @ d @ ?rest \<noteq> []" using d by simp
  have "skip_gap (d @ ?rest) = d @ ?rest" using d by (cases d) (auto simp: skip_gap_def)
  then have skip: "skip_gap (g @ d @ ?rest) = d @ ?rest" by (simp add: skip_append g)
  obtain n' where n: "n = Suc n'" using Cons.prems(6) d gd by (cases n) auto
  have b: "0 = w_brackets (wt i s)" using Cons.prems by simp
  have scan: "scan_doc 0 (d @ ?rest) = (Some (d, ?rest), 0)" by (simp add: scan_append d(3))
  have run: "run_state (watch_loop K i r n (g @ d @ ?rest)) s =
      run_state (watch_loop K i r n' ?rest) (snd (run_state (watch_document K i r d)
        (upd_wt i (\<lambda>w. w\<lparr>w_stream := [], w_brackets := 0\<rparr>) s)))"
    unfolding n watch_loop_Suc [OF ne b refl, of K r n'] skip by (simp only: order_refl if_True scan Cons.prems(3) append_Nil prod.case option.case)
  have id: "upd_wt i (\<lambda>w. w\<lparr>w_stream := [], w_brackets := 0\<rparr>) s = s"
    by (rule upd_wt_id) (use Cons.prems(2,3) in simp)
  let ?s1 = "snd (run_state (watch_document K i r d) s)"
  have same: "same_watchers s ?s1" by (rule io_relD [OF watch_document_same])
  have "run_state (watch_loop K i r n' ?rest) ?s1 = run_state (for_each (watch_document K i r) (map snd gds)) ?s1"
  proof (rule Cons.IH)
    show "length ?rest \<le> n'" using Cons.prems(6) n gd d(1) by (cases d) (simp_all add: case_prod_unfold)
  qed (use Cons.prems(1-5) same in \<open>auto simp: same_watchers_def\<close>)
  then show ?case using run id gd by (simp add: case_prod_unfold)
qed

text \<open>C33: The watch stream is cut into its documents. However the bytes of a stream of bracketed texts,
  with gaps between them, are cut into chunks, the watcher processes exactly those texts, in order,
  and has nothing pending at the end.\<close>

theorem watch_delivers_documents:
  assumes "i < length (et_watchers s)" and "w_brackets (wt i s) = 0" and "w_stream (wt i s) = []"
    and "\<forall>(g, d) \<in> set gds. gap g \<and> bracketed d" and "gap t"
    and "concat cs = concat (map (\<lambda>(g, d). g @ d) gds) @ t"
  shows "run_state (for_each (callback_on_watch_write K i r) cs) s =
    run_state (for_each (watch_document K i r) (map snd gds)) s"
  unfolding callback_chunks [OF assms(1)] assms(6) callback_on_watch_write_def
  by (rule loop_documents [OF assms(1-5) order_refl])

end
