(* ===== verification/EtcdTypes.thy ===== *)
theory EtcdTypes
  imports EtcdCluster
begin

text \<open>
  The private data of an HTTP request is an untyped pointer, which each callback casts to the class it
  expects. Over any sequence of calls and completions, the callback of a request fits its private
  data. The proof is by a relation every operation keeps, composed with the rules of the prelude.
\<close>

section \<open>Inputs\<close>

datatype etcd_input =
    In_clock int | In_init | In_setting cluster_setting | In_flag cluster_flag_t bool
  | In_keepalive string | In_checker nat "string \<Rightarrow> bool" | In_set_value nat string
  | In_add_keepalive nat | In_remove_keepalive nat
  | In_watcher string string | In_watcher_setting nat watcher_setting | In_add_watcher nat | In_remove_watcher nat
  | In_tick | In_complete nat int int string | In_data nat string | In_close bool | In_reset | In_destroy

fun etcd_call :: "etcd_link \<Rightarrow> etcd_input \<Rightarrow> unit em" where
  "etcd_call K (In_clock t) = modify (\<lambda>s. s\<lparr>et_now := t\<rparr>)"
| "etcd_call K In_init = cluster_init K"
| "etcd_call K (In_setting v) = upd_conf (set_conf v)"
| "etcd_call K (In_flag f v) = set_cluster_flag K f v"
| "etcd_call K (In_keepalive path) = do { _ \<leftarrow> keepalive_create path; ret () }"
| "etcd_call K (In_checker i f) = set_checker i f"
| "etcd_call K (In_set_value i v) = keepalive_set_value K i v"
| "etcd_call K (In_add_keepalive i) = do { _ \<leftarrow> add_keepalive K i; ret () }"
| "etcd_call K (In_remove_keepalive i) = do { _ \<leftarrow> remove_keepalive K i; ret () }"
| "etcd_call K (In_watcher path e) = do { _ \<leftarrow> watcher_create path e; ret () }"
| "etcd_call K (In_watcher_setting i v) = modify (upd_wt i (set_watch_conf v))"
| "etcd_call K (In_add_watcher i) = do { _ \<leftarrow> add_watcher i; ret () }"
| "etcd_call K (In_remove_watcher i) = do { _ \<leftarrow> remove_watcher i; ret () }"
| "etcd_call K In_tick = do { _ \<leftarrow> cluster_tick K; ret () }"
| "etcd_call K (In_complete r err code content) = http_complete K r err code content"
| "etcd_call K (In_data r bytes) = http_data K r bytes"
| "etcd_call K (In_close w) = do { _ \<leftarrow> cluster_close K w; ret () }"
| "etcd_call K In_reset = cluster_reset K"
| "etcd_call K In_destroy = cluster_dtor K"

definition etcd_run :: "etcd_link \<Rightarrow> etcd_input list \<Rightarrow> unit em" where
  "etcd_run K cs = for_each (etcd_call K) cs"

section \<open>The relation\<close>

fun fits_callback :: "http_done \<Rightarrow> http_priv \<Rightarrow> bool" where
  "fits_callback OnAuthenticate p = (p = PCluster)"
| "fits_callback OnUserGet p = (p = PCluster)"
| "fits_callback OnMemberUpdate p = (p = PCluster)"
| "fits_callback OnLeaseKeepalive p = (p = PCluster)"
| "fits_callback OnRemoveKeepalivePath p = (case p of PDeletor d \<Rightarrow> True | _ \<Rightarrow> False)"
| "fits_callback OnGetData p = (case p of PKeepalive i \<Rightarrow> True | _ \<Rightarrow> False)"
| "fits_callback OnSetData p = (case p of PKeepalive i \<Rightarrow> True | _ \<Rightarrow> False)"
| "fits_callback OnRangeCompleted p = (case p of PWatcher i \<Rightarrow> True | _ \<Rightarrow> False)"
| "fits_callback OnWatchCompleted p = (case p of PWatcher i \<Rightarrow> True | _ \<Rightarrow> False)"
| "fits_callback OnEtcdClosed p = (p = PModule)"
| "fits_callback OnKvListed p = (p = PTool)"

definition req_fits :: "http_request \<Rightarrow> bool" where
  "req_fits q \<longleftrightarrow> (\<forall>cb p. hr_on_complete q = Some cb \<longrightarrow> hr_priv q = Some p \<longrightarrow> fits_callback cb p)"

definition all_fit :: "etcd \<Rightarrow> bool" where
  "all_fit s \<longleftrightarrow> (\<forall>q \<in> set (et_requests s). req_fits q)"

definition fit_rel :: "etcd \<Rightarrow> etcd \<Rightarrow> bool" where
  "fit_rel s s' \<longleftrightarrow> (all_fit s \<longrightarrow> all_fit s') \<and> length (et_requests s) \<le> length (et_requests s')"

lemma fit_pre: "rel_pre fit_rel"
  by (auto simp: rel_pre_def fit_rel_def)

named_theorems fit_io

lemma io_rel_case_json:
  "state_io_rel R a \<Longrightarrow> (\<And>x. state_io_rel R (b x)) \<Longrightarrow> (\<And>x. state_io_rel R (c x)) \<Longrightarrow> (\<And>x. state_io_rel R (d x)) \<Longrightarrow>
   (\<And>x. state_io_rel R (e x)) \<Longrightarrow> (\<And>x. state_io_rel R (f x)) \<Longrightarrow> (\<And>x. state_io_rel R (g x)) \<Longrightarrow>
   state_io_rel R (case_json a b c d e f g j)"
  by (cases j) simp_all

lemma io_rel_case_priv:
  "state_io_rel R a \<Longrightarrow> (\<And>x. state_io_rel R (b x)) \<Longrightarrow> (\<And>x. state_io_rel R (c x)) \<Longrightarrow> (\<And>x. state_io_rel R (d x)) \<Longrightarrow>
   state_io_rel R e \<Longrightarrow> state_io_rel R f \<Longrightarrow> state_io_rel R (case_http_priv a b c d e f p)"
  by (cases p) simp_all

lemmas fit_rules = io_rel_case_json io_rel_case_priv io_rel_bind [OF fit_pre] io_rel_return [OF fit_pre] io_rel_gets [OF fit_pre]
  io_rel_when [OF fit_pre] io_rel_if io_rel_case_option io_rel_case_prod io_rel_let io_rel_case_list for_each_rel [OF fit_pre]

lemma fit_other: "(\<And>s. et_requests (f s) = et_requests s) \<Longrightarrow> state_io_rel fit_rel (modify f)"
  by (rule io_rel_modify) (simp add: fit_rel_def all_fit_def)

lemma fit_req: "(\<And>q. req_fits q \<Longrightarrow> req_fits (f q)) \<Longrightarrow> state_io_rel fit_rel (modify (upd_req r f))"
proof (rule io_rel_modify)
  fix s
  assume f: "\<And>q. req_fits q \<Longrightarrow> req_fits (f q)"
  have "all_fit (upd_req r f s)" if "all_fit s"
  proof (cases "r < length (et_requests s)")
    case True
    then have "et_requests s ! r \<in> set (et_requests s)" by simp
    then show ?thesis using that f set_update_subset_insert [of "et_requests s" r]
      by (fastforce simp: all_fit_def upd_req_def)
  next
    case False
    then show ?thesis using that by (simp add: all_fit_def upd_req_def list_update_beyond)
  qed
  then show "fit_rel s (upd_req r f s)" by (simp add: fit_rel_def upd_req_def)
qed

section \<open>Primitives\<close>

lemma upd_ka_fit [fit_io]: "state_io_rel fit_rel (modify (upd_ka i f))"
  by (rule fit_other) (simp add: upd_ka_def)

lemma upd_wt_fit [fit_io]: "state_io_rel fit_rel (modify (upd_wt i f))"
  by (rule fit_other) (simp add: upd_wt_def)

lemma upd_kd_fit [fit_io]: "state_io_rel fit_rel (modify (upd_kd d f))"
  by (rule fit_other) (simp add: upd_kd_def)

lemma upd_conf_fit [fit_io]: "state_io_rel fit_rel (upd_conf f)"
  unfolding upd_conf_def by (rule fit_other) simp

lemma et_log_fit [fit_io]: "state_io_rel fit_rel (et_log e)"
  unfolding et_log_def by (rule fit_other) simp

lemma et_raise_fit [fit_io]: "state_io_rel fit_rel (et_raise f)"
  unfolding et_raise_def by (rule fit_other) simp

lemma put_cluster_fit [fit_io]: "state_io_rel fit_rel (modify (put_cluster t v))"
  by (rule fit_other) (simp add: put_cluster_def)

lemma http_create_fit [fit_io]: "state_io_rel fit_rel (http_create K url)"
proof -
  have "state_io_rel fit_rel (modify (\<lambda>s. s\<lparr>et_requests := et_requests s @ [http_request_new url]\<rparr>))"
    by (rule io_rel_modify) (auto simp: fit_rel_def all_fit_def req_fits_def http_request_new_def)
  then show ?thesis unfolding http_create_def by (intro fit_rules fit_io) (auto intro: fit_other)
qed

lemma set_callback_fit [fit_io]:
  "(case (cb, p) of (Some c, Some x) \<Rightarrow> fits_callback c x | _ \<Rightarrow> True) \<Longrightarrow> state_io_rel fit_rel (set_callback r p cb)"
  unfolding set_callback_def by (rule fit_req) (auto simp: req_fits_def)

lemma set_on_complete_fit [fit_io]: "state_io_rel fit_rel (set_on_complete r None)"
  unfolding set_on_complete_def by (rule fit_req) (auto simp: req_fits_def)

lemma set_watch_callback_fit [fit_io]:
  "(case (cb, p) of (Some c, Some x) \<Rightarrow> fits_callback c x | _ \<Rightarrow> True) \<Longrightarrow> state_io_rel fit_rel (set_watch_callback r p cb w)"
  unfolding set_watch_callback_def by (rule fit_req) (auto simp: req_fits_def)

lemma http_start_fit [fit_io]: "state_io_rel fit_rel (http_start K r)"
  unfolding http_start_def
  by (intro fit_rules fit_io) (auto intro: fit_other fit_req simp: req_fits_def)

lemma http_stop_fit [fit_io]: "state_io_rel fit_rel (http_stop r)"
  unfolding http_stop_def by (rule fit_io)

lemma stats_fit [fit_io]:
  "state_io_rel fit_rel add_stats_error_request" "state_io_rel fit_rel add_stats_success_request"
  "state_io_rel fit_rel add_stats_create_request"
  unfolding add_stats_error_request_def add_stats_success_request_def add_stats_create_request_def
  by (rule fit_other, simp add: Let_def)+

section \<open>Operations\<close>

lemma setup_fit [fit_io]:
  "state_io_rel fit_rel (setup_http_request K r doc t)"
  "state_io_rel fit_rel (clear_authorization_header)"
  "state_io_rel fit_rel (random_index K n)"
  "state_io_rel fit_rel (delay_keepalive)"
  "state_io_rel fit_rel (need_object j what)"
  "state_io_rel fit_rel (cancel_request ro)"
  unfolding setup_http_request_def clear_authorization_header_def random_index_def delay_keepalive_def need_object_def cancel_request_def
  by ((intro fit_rules fit_io)?; ((rule fit_req, simp add: req_fits_def) | (rule fit_other, simp) | simp)?)+

lemma build_fit [fit_io]:
  "state_io_rel fit_rel (build_request K url doc)"
  unfolding build_request_def
  by ((intro fit_rules fit_io)?; ((rule fit_req, simp add: req_fits_def) | (rule fit_other, simp) | simp)?)+

lemma create_request_fit [fit_io]:
  "state_io_rel fit_rel (create_request_kv_get K k e l v)"
  "state_io_rel fit_rel (create_request_kv_set K k val a b c d)"
  "state_io_rel fit_rel (create_request_kv_del K k e b)"
  "state_io_rel fit_rel (create_request_watch K k e n a b)"
  "state_io_rel fit_rel (create_request_lease_revoke K)"
  unfolding create_request_kv_get_def create_request_kv_set_def create_request_kv_del_def create_request_watch_def create_request_lease_revoke_def
  by ((intro fit_rules fit_io)?; ((rule fit_req, simp add: req_fits_def) | (rule fit_other, simp) | simp)?)+

lemma start_own_fit [fit_io]: "fits_callback cb PCluster \<Longrightarrow> state_io_rel fit_rel (start_own K r cb)"
  unfolding start_own_def by (intro fit_rules fit_io; simp)

lemma own_request_fit [fit_io]:
  "state_io_rel fit_rel (create_request_auth_authenticate K)"
  "state_io_rel fit_rel (create_request_auth_user_get K)"
  "state_io_rel fit_rel (create_request_member_update K)"
  "state_io_rel fit_rel (start_lease K ro)"
  unfolding create_request_auth_authenticate_def create_request_auth_user_get_def create_request_member_update_def start_lease_def
  by ((intro fit_rules fit_io)?; ((rule fit_req, simp add: req_fits_def) | (rule fit_other, simp) | simp)?)+

lemma lease_fit [fit_io]:
  "state_io_rel fit_rel (create_request_lease_grant K)"
  "state_io_rel fit_rel (create_request_lease_keepalive K)"
  unfolding create_request_lease_grant_def create_request_lease_keepalive_def
  by ((intro fit_rules fit_io)?; ((rule fit_req, simp add: req_fits_def) | (rule fit_other, simp) | simp)?)+

lemma flag_fit [fit_io]:
  "state_io_rel fit_rel (set_cluster_flag K f v)"
  "state_io_rel fit_rel (check_authorization_expired K code content)"
  unfolding set_cluster_flag_def check_authorization_expired_def
  by ((intro fit_rules fit_io)?; ((rule fit_req, simp add: req_fits_def) | (rule fit_other, simp) | simp)?)+

lemma keepalive_object_fit [fit_io]:
  "state_io_rel fit_rel (add_retry_keepalive K i)"
  "state_io_rel fit_rel (keepalive_create path)"
  "state_io_rel fit_rel (keepalive_close i b)"
  "state_io_rel fit_rel (set_checker i f)"
  "state_io_rel fit_rel (reset_value_changed i)"
  "state_io_rel fit_rel (keepalive_request K i)"
  unfolding add_retry_keepalive_def keepalive_create_def keepalive_close_def set_checker_def reset_value_changed_def keepalive_request_def
  by ((intro fit_rules fit_io)?; ((rule fit_req, simp add: req_fits_def) | (rule fit_other, simp) | simp)?)+

lemma keepalive_fit [fit_io]:
  "state_io_rel fit_rel (keepalive_process K i)"
  "state_io_rel fit_rel (keepalive_active K i)"
  "state_io_rel fit_rel (keepalive_set_value K i v)"
  "state_io_rel fit_rel (callback_on_get_data K i err code content)"
  "state_io_rel fit_rel (callback_on_set_data K i err code content)"
  unfolding keepalive_process_def keepalive_active_def keepalive_set_value_def callback_on_get_data_def callback_on_set_data_def
  by ((intro fit_rules fit_io)?; ((rule fit_req, simp add: req_fits_def) | (rule fit_other, simp) | simp)?)+

lemma watcher_object_fit [fit_io]:
  "state_io_rel fit_rel (watcher_create path e)"
  "state_io_rel fit_rel (watcher_close i)"
  "state_io_rel fit_rel (watcher_range K i)"
  "state_io_rel fit_rel (watcher_watch K i)"
  "state_io_rel fit_rel (retry_later i)"
  "state_io_rel fit_rel (retry_now i)"
  "state_io_rel fit_rel (fire_event i h r)"
  unfolding watcher_create_def watcher_close_def watcher_range_def watcher_watch_def retry_later_def retry_now_def fire_event_def
  by ((intro fit_rules fit_io)?; ((rule fit_req, simp add: req_fits_def) | (rule fit_other, simp) | simp)?)+

lemma watcher_fit [fit_io]:
  "state_io_rel fit_rel (watcher_process K i)"
  "state_io_rel fit_rel (watcher_active K i)"
  "state_io_rel fit_rel (callback_on_range_completed K i err code content)"
  "state_io_rel fit_rel (callback_on_watch_completed K i err code content)"
  "state_io_rel fit_rel (watch_document K i r text)"
  unfolding watcher_process_def watcher_active_def callback_on_range_completed_def callback_on_watch_completed_def watch_document_def
  by ((intro fit_rules fit_io)?; ((rule fit_req, simp add: req_fits_def) | (rule fit_other, simp) | simp)?)+

lemma watch_loop_fit [fit_io]: "state_io_rel fit_rel (watch_loop K i r n buf)"
proof (induction n arbitrary: buf)
  case 0
  show ?case unfolding watch_loop.simps by (intro fit_rules fit_io)
next
  case (Suc n)
  show ?case unfolding watch_loop.simps by (intro fit_rules fit_io Suc.IH)
qed

lemma deletor_fit [fit_io]:
  "state_io_rel fit_rel (cluster_init K)"
  "state_io_rel fit_rel (use_deletor d)"
  "state_io_rel fit_rel (delete_keepalive_deletor d b)"
  "state_io_rel fit_rel (queue_deletor d)"
  unfolding cluster_init_def use_deletor_def delete_keepalive_deletor_def queue_deletor_def
  by ((intro fit_rules fit_io)?; ((rule fit_req, simp add: req_fits_def) | (rule fit_other, simp) | simp)?)+

lemma cleanup_fit [fit_io]:
  "state_io_rel fit_rel (cleanup_keepalive_deletors)"
  "state_io_rel fit_rel (drop_deletor path)"
  unfolding cleanup_keepalive_deletors_def drop_deletor_def
  by ((intro fit_rules fit_io)?; ((rule fit_req, simp add: req_fits_def) | (rule fit_other, simp) | simp)?)+

lemma remove_path_fit [fit_io]:
  "state_io_rel fit_rel (remove_keepalive_path K d b)"
  unfolding remove_keepalive_path_def
  by ((intro fit_rules fit_io)?; ((rule fit_req, simp add: req_fits_def) | (rule fit_other, simp) | simp)?)+

lemma actors_fit [fit_io]:
  "state_io_rel fit_rel (add_keepalive K i)"
  "state_io_rel fit_rel (remove_keepalive K i)"
  "state_io_rel fit_rel (add_watcher i)"
  "state_io_rel fit_rel (remove_watcher i)"
  "state_io_rel fit_rel (renew_keepalive K i)"
  "state_io_rel fit_rel (callback_on_watch_write K i r buf)"
  unfolding add_keepalive_def remove_keepalive_def add_watcher_def remove_watcher_def renew_keepalive_def callback_on_watch_write_def
  by ((intro fit_rules fit_io)?; ((rule fit_req, simp add: req_fits_def) | (rule fit_other, simp) | simp)?)+

lemma pending_fit [fit_io]:
  "state_io_rel fit_rel (retry_pending_actions K)"
  unfolding retry_pending_actions_def
  by ((intro fit_rules fit_io)?; ((rule fit_req, simp add: req_fits_def) | (rule fit_other, simp) | simp)?)+

lemma members_fit [fit_io]:
  "state_io_rel fit_rel (set_lease K v b)"
  "state_io_rel fit_rel (select_node K)"
  "state_io_rel fit_rel (retry_request_member_update K url)"
  "state_io_rel fit_rel (own_failure K url err)"
  unfolding set_lease_def select_node_def retry_request_member_update_def own_failure_def
  by ((intro fit_rules fit_io)?; ((rule fit_req, simp add: req_fits_def) | (rule fit_other, simp) | simp)?)+

lemma cluster_fit [fit_io]:
  "state_io_rel fit_rel (cluster_tick K)"
  "state_io_rel fit_rel (cluster_close K w)"
  unfolding cluster_tick_def cluster_close_def
  by ((intro fit_rules fit_io)?; ((rule fit_req, simp add: req_fits_def) | (rule fit_other, simp) | simp)?)+

lemma callbacks_fit [fit_io]:
  "state_io_rel fit_rel (cluster_reset K)"
  "state_io_rel fit_rel (cluster_dtor K)"
  "state_io_rel fit_rel (callback_on_remove_keepalive_path K r d err code content)"
  "state_io_rel fit_rel (callback_on_auth_authenticate K r err code content)"
  "state_io_rel fit_rel (callback_on_auth_user_get K r err code content)"
  "state_io_rel fit_rel (callback_on_member_update K r err code content)"
  "state_io_rel fit_rel (callback_on_lease_keepalive K r err code content)"
  unfolding cluster_dtor_def cluster_reset_def callback_on_remove_keepalive_path_def callback_on_auth_authenticate_def callback_on_auth_user_get_def callback_on_member_update_def callback_on_lease_keepalive_def
  by ((intro fit_rules fit_io)?; ((rule fit_req, simp add: req_fits_def) | (rule fit_other, simp) | simp)?)+

lemma callback_of_fit [fit_io]: "state_io_rel fit_rel (callback_of K r cb p err code content)"
  unfolding callback_of_def by (cases cb) (simp_all only: prod.case http_done.case, (intro fit_rules fit_io)+)

lemma http_fit [fit_io]:
  "state_io_rel fit_rel (http_complete K r err code content)"
  "state_io_rel fit_rel (http_data K r bytes)"
  unfolding http_complete_def http_data_def
  by ((intro fit_rules fit_io)?; ((rule fit_req, simp add: req_fits_def) | (rule fit_other, simp) | simp)?)+

lemma etcd_call_fit: "state_io_rel fit_rel (etcd_call K c)"
  by (cases c; simp only: etcd_call.simps; (intro fit_rules fit_io)?; ((rule fit_other, simp) | simp)?)

lemma etcd_run_fit: "state_io_rel fit_rel (etcd_run K cs)"
  unfolding etcd_run_def by (intro fit_rules etcd_call_fit)

section \<open>Callbacks get what they cast to\<close>

text \<open>C35: Callbacks are type-safe. After any sequence of calls and completions from a new cluster on, the
  private data of every request is of the class its callback casts it to.\<close>

theorem callbacks_match_private_data:
  assumes "q \<in> set (et_requests (snd (run_state (etcd_run K cs) (etcd_new now))))"
    and "hr_on_complete q = Some cb" and "hr_priv q = Some p"
  shows "fits_callback cb p"
proof -
  have "fit_rel (etcd_new now) (snd (run_state (etcd_run K cs) (etcd_new now)))" by (rule io_relD [OF etcd_run_fit])
  then show ?thesis using assms by (auto simp: fit_rel_def all_fit_def etcd_new_def req_fits_def)
qed

end
