(* ===== verification/EtcdProps.thy ===== *)
theory EtcdProps
  imports EtcdCluster
begin

text \<open>
  What the etcd client computes: key ranges, the encoding of key-values, the retry queue, the keepalives
  after a lease is granted, deleting a path, and where a watch resumes.
\<close>

section \<open>Ranges and messages\<close>

text \<open>C36: The range end "+1" selects by prefix, but for one kind of key. The range that is sent for a key
  with a byte other than 0xff selects exactly the keys the key is a prefix of. For a key without such a byte (the
  empty key, and keys of bytes 0xff only) no end is sent, so it selects the key alone: not the longer keys it is a
  prefix of, which the end meant for this case, a single zero byte, would select.\<close>

theorem key_range_is_prefix:
  "(in_range key (range_end_of key ''+1'') x \<longleftrightarrow> (if \<exists>c \<in> set key. \<not> char_top c then prefix key x else x = key)) \<and>
   ((\<forall>c \<in> set key. char_top c) \<longrightarrow> range_end_of key ''+1'' = [] \<and> (in_range key [CHR 0x00] x \<longleftrightarrow> prefix key x))"
proof (cases "\<exists>c \<in> set key. \<not> char_top c")
  case True
  obtain p c fs where key: "key = p @ c # fs" and c: "\<not> char_top c" and fs: "\<forall>d \<in> set fs. char_top d"
    using split_top [OF True] by blast
  let ?e = "char_of (of_char c + 1 :: nat)"
  have r: "range_end_of key ''+1'' = p @ [?e]"
    by (simp add: range_end_of_def key range_plus_split [OF c fs] Let_def)
  have "CHR 0x00 \<le> c" by (simp add: less_eq_char_def)
  then have "CHR 0x00 < ?e" using char_succ [OF c] by simp
  then have "?e \<noteq> CHR 0x00" by auto
  then have "p @ [?e] \<noteq> [CHR 0x00]" by (cases p) auto
  then have "in_range key (p @ [?e]) x \<longleftrightarrow> key \<le> x \<and> x < p @ [?e]" by (simp only: in_range_def if_False) simp
  also have "\<dots> \<longleftrightarrow> prefix key x" unfolding key by (rule between_prefix [OF char_succ [OF c] fs])
  finally show ?thesis using True unfolding r by auto
next
  case False
  then have top: "\<forall>c \<in> set key. char_top c" by blast
  then have r: "range_end_of key ''+1'' = []" by (simp add: range_end_of_def range_plus_all_top c_str_def Let_def)
  show ?thesis using False tops_le [OF top, of x] by (auto simp: in_range_def r)
qed

text \<open>A key-value that is packed is unpacked to itself, with 64-bit numbers and base64 text; members that
  are zero or empty are left out and come back as zero and empty.\<close>

theorem key_value_round_trip:
  assumes "b64_ok L" and "fits_i64 (kv_create_revision kv)" and "fits_i64 (kv_mod_revision kv)"
    and "fits_i64 (kv_version kv)" and "fits_i64 (kv_lease kv)" and "kv_key kv0 = []" and "kv_value kv0 = []"
  shows "unpack_kv L kv0 (JObj (pack_kv L kv)) = kv"
  using assms by (rule kv_round)

section \<open>Frames\<close>

lemma ka_upd [simp]:
  "i < length (et_keepalives s) \<Longrightarrow> ka i (upd_ka i f s) = f (ka i s)"
  "j \<noteq> i \<Longrightarrow> ka j (upd_ka i f s) = ka j s"
  "length (et_keepalives (upd_ka i f s)) = length (et_keepalives s)"
  by (simp_all add: ka_def upd_ka_def)

text \<open>Only keepalive \<open>i\<close> may change, and whether requests can be made stays.\<close>

definition others :: "nat \<Rightarrow> etcd \<Rightarrow> etcd \<Rightarrow> bool" where
  "others i s s' \<longleftrightarrow> (\<forall>j. j \<noteq> i \<longrightarrow> ka j s' = ka j s) \<and> length (et_keepalives s') = length (et_keepalives s) \<and>
     (can_request s' \<longleftrightarrow> can_request s) \<and> lease (ec_conf s') = lease (ec_conf s)"

lemma others_pre: "rel_pre (others i)"
  by (simp add: rel_pre_def others_def)

text \<open>No keepalive changes, and neither does the retry queue or the watcher list.\<close>

definition quiet :: "etcd \<Rightarrow> etcd \<Rightarrow> bool" where
  "quiet s s' \<longleftrightarrow> et_keepalives s' = et_keepalives s \<and> ec_retries s' = ec_retries s \<and>
     ec_keepalives s' = ec_keepalives s \<and> (can_request s' \<longleftrightarrow> can_request s) \<and>
     lease (ec_conf s') = lease (ec_conf s)"

lemma quiet_pre: "rel_pre quiet"
  by (simp add: rel_pre_def quiet_def)

lemma quiet_others: "quiet s s' \<Longrightarrow> others i s s'"
  by (simp add: quiet_def others_def ka_def)

lemma quiet_io_others: "state_io_rel quiet m \<Longrightarrow> state_io_rel (others i) m"
  by (simp add: state_io_rel_def quiet_others)

lemmas quiet_rules = io_rel_bind [OF quiet_pre] io_rel_return [OF quiet_pre] io_rel_gets [OF quiet_pre]
  io_rel_when [OF quiet_pre] io_rel_if io_rel_case_option io_rel_case_prod io_rel_let io_rel_case_list
  for_each_rel [OF quiet_pre]

named_theorems quiet_io

lemma quiet_modify: "(\<And>s. quiet s (f s)) \<Longrightarrow> state_io_rel quiet (modify f)"
  by (rule io_rel_modify)

lemmas quiet_simps = quiet_def can_request_def check_cluster_def upd_req_def upd_wt_def upd_kd_def Let_def

lemma quiet_primitive [quiet_io]:
  "state_io_rel quiet (http_create K url)" "state_io_rel quiet (set_callback r p cb)"
  "state_io_rel quiet (set_on_complete r cb)" "state_io_rel quiet (set_watch_callback r p cb w)"
  "state_io_rel quiet (http_start K r)" "state_io_rel quiet (http_stop r)"
  "state_io_rel quiet add_stats_error_request" "state_io_rel quiet add_stats_success_request"
  "state_io_rel quiet add_stats_create_request" "state_io_rel quiet (setup_http_request K r doc t)"
  unfolding http_create_def set_callback_def set_on_complete_def set_watch_callback_def http_start_def http_stop_def
    add_stats_error_request_def add_stats_success_request_def add_stats_create_request_def setup_http_request_def et_log_def
  by ((intro quiet_rules quiet_modify)?; (simp add: quiet_simps)?)+

lemma quiet_request [quiet_io]:
  "state_io_rel quiet (build_request K url doc)" "state_io_rel quiet (start_own K r cb)"
  "state_io_rel quiet delay_keepalive" "state_io_rel quiet (random_index K n)"
  unfolding build_request_def start_own_def delay_keepalive_def upd_conf_def random_index_def
  by ((intro quiet_rules quiet_io)?; (rule quiet_modify, simp add: quiet_simps)?)+

lemma quiet_create [quiet_io]:
  "state_io_rel quiet (create_request_kv_get K k e l v)" "state_io_rel quiet (create_request_kv_set K k val a b c d)"
  "state_io_rel quiet (create_request_kv_del K k e b)" "state_io_rel quiet (create_request_watch K k e n a b)"
  "state_io_rel quiet (start_lease K ro)" "state_io_rel quiet (create_request_lease_grant K)"
  "state_io_rel quiet (cancel_request ro)"
  unfolding create_request_kv_get_def create_request_kv_set_def create_request_kv_del_def create_request_watch_def
    start_lease_def create_request_lease_grant_def cancel_request_def
  by ((intro quiet_rules quiet_io)?; (rule quiet_modify, simp add: quiet_simps)?)+

lemma check_put_cluster [simp]: "check_cluster t (put_cluster t' v s) = (if t' = t then v else check_cluster t s)"
  by (simp add: check_cluster_def put_cluster_def clf.check_set del: clf_mask.simps)

lemma quiet_put: "state_io_rel quiet (modify (put_cluster ENABLE_LEASE v))"
  by (rule quiet_modify, simp add: quiet_def can_request_def, simp add: put_cluster_def)

lemma quiet_flag [quiet_io]: "state_io_rel quiet (set_cluster_flag K ENABLE_LEASE v)"
  unfolding set_cluster_flag_def
  by (intro quiet_rules quiet_io quiet_put; rule quiet_modify; simp add: quiet_simps)

lemma quiet_watcher [quiet_io]: "state_io_rel quiet (watcher_active K i)"
  unfolding watcher_active_def watcher_process_def watcher_range_def watcher_watch_def
  by (intro quiet_rules quiet_io; rule quiet_modify; simp add: quiet_simps)

lemma quiet_deletor [quiet_io]:
  "state_io_rel quiet (delete_keepalive_deletor d b)" "state_io_rel quiet (queue_deletor d)"
  "state_io_rel quiet (use_deletor d)"
  unfolding delete_keepalive_deletor_def queue_deletor_def use_deletor_def et_raise_def
  by ((intro quiet_rules quiet_io)?; (rule quiet_modify, simp add: quiet_simps)?)+

lemma quiet_remove [quiet_io]: "state_io_rel quiet (remove_keepalive_path K d b)"
  unfolding remove_keepalive_path_def drop_deletor_def
  by (intro quiet_rules quiet_io; rule quiet_modify; simp add: quiet_simps)

text \<open>No request that is under way stops being so.\<close>

definition still :: "etcd \<Rightarrow> etcd \<Rightarrow> bool" where
  "still s s' \<longleftrightarrow> length (et_requests s) \<le> length (et_requests s') \<and>
     (\<forall>r < length (et_requests s). hr_pending (et_requests s ! r) \<longrightarrow> hr_pending (et_requests s' ! r))"

lemma still_pre: "rel_pre still"
  unfolding rel_pre_def still_def by (meson order_refl order_trans order_less_le_trans)

lemmas still_rules = io_rel_bind [OF still_pre] io_rel_return [OF still_pre] io_rel_gets [OF still_pre]
  io_rel_when [OF still_pre] io_rel_if io_rel_case_option io_rel_case_prod io_rel_let io_rel_case_list
  for_each_rel [OF still_pre]

named_theorems still_io

lemma still_modify: "(\<And>s. et_requests (f s) = et_requests s) \<Longrightarrow> state_io_rel still (modify f)"
  by (rule io_rel_modify) (simp add: still_def)

lemma still_req: "(\<And>q. hr_pending q \<Longrightarrow> hr_pending (f q)) \<Longrightarrow> state_io_rel still (modify (upd_req r f))"
proof (rule io_rel_modify)
  fix s :: etcd assume f: "\<And>q. hr_pending q \<Longrightarrow> hr_pending (f q)"
  have "hr_pending ((et_requests s)[r := f (et_requests s ! r)] ! k)"
    if "hr_pending (et_requests s ! k)" "k < length (et_requests s)" for k
    using f that by (cases "k = r") simp_all
  then show "still s (upd_req r f s)" by (simp add: still_def upd_req_def)
qed

lemma still_append: "state_io_rel still (modify (\<lambda>s. s\<lparr>et_requests := et_requests s @ [q]\<rparr>))"
  by (rule io_rel_modify) (auto simp: still_def nth_append)

lemma still_primitive [still_io]:
  "state_io_rel still (http_create K url)" "state_io_rel still (set_callback r p cb)"
  "state_io_rel still (set_on_complete r cb)" "state_io_rel still (set_watch_callback r p cb w)"
  "state_io_rel still (http_start K r)" "state_io_rel still (http_stop r)"
  "state_io_rel still add_stats_error_request" "state_io_rel still add_stats_success_request"
  "state_io_rel still add_stats_create_request" "state_io_rel still (setup_http_request K r doc t)"
  unfolding http_create_def set_callback_def set_on_complete_def set_watch_callback_def http_start_def http_stop_def
    add_stats_error_request_def add_stats_success_request_def add_stats_create_request_def setup_http_request_def et_log_def
  by ((intro still_rules still_append)?; ((rule still_req, simp) | (rule still_modify, simp add: Let_def))?)+

lemma still_request [still_io]:
  "state_io_rel still (build_request K url doc)" "state_io_rel still (start_own K r cb)"
  "state_io_rel still delay_keepalive" "state_io_rel still (random_index K n)"
  "state_io_rel still (modify (put_cluster t v))"
  unfolding build_request_def start_own_def delay_keepalive_def upd_conf_def random_index_def
  by ((intro still_rules still_io)?; (rule still_modify, simp add: put_cluster_def)?)+

lemma still_create [still_io]:
  "state_io_rel still (create_request_kv_get K k e l v)" "state_io_rel still (create_request_kv_set K k val a b c d)"
  "state_io_rel still (create_request_kv_del K k e b)" "state_io_rel still (create_request_watch K k e n a b)"
  "state_io_rel still (start_lease K ro)" "state_io_rel still (create_request_lease_grant K)"
  "state_io_rel still (cancel_request ro)"
  unfolding create_request_kv_get_def create_request_kv_set_def create_request_kv_del_def create_request_watch_def
    start_lease_def create_request_lease_grant_def cancel_request_def
  by (intro still_rules still_io; ((rule still_req, simp) | (rule still_modify, simp)))+

lemma still_flag [still_io]: "state_io_rel still (set_cluster_flag K ENABLE_LEASE v)"
  unfolding set_cluster_flag_def by (intro still_rules still_io; rule still_modify; simp)

lemma still_upd [still_io]:
  "state_io_rel still (modify (upd_ka i f))" "state_io_rel still (modify (upd_wt i g))" "state_io_rel still (modify (upd_kd i h))"
  by (rule still_modify, simp add: upd_ka_def upd_wt_def upd_kd_def)+

lemma still_retry [still_io]: "state_io_rel still (add_retry_keepalive K i)"
  unfolding add_retry_keepalive_def by (intro still_rules still_io; rule still_modify; simp)

lemma still_keepalive [still_io]: "state_io_rel still (renew_keepalive K i)"
  unfolding renew_keepalive_def reset_value_changed_def keepalive_active_def keepalive_process_def keepalive_request_def
  by (intro still_rules still_io)

lemma still_watcher [still_io]: "state_io_rel still (watcher_active K i)"
  unfolding watcher_active_def watcher_process_def watcher_range_def watcher_watch_def
  by (intro still_rules still_io; ((rule still_req, simp) | (rule still_modify, simp)))

lemma still_deletor [still_io]:
  "state_io_rel still (delete_keepalive_deletor d b)" "state_io_rel still (queue_deletor d)" "state_io_rel still (use_deletor d)"
  unfolding delete_keepalive_deletor_def queue_deletor_def use_deletor_def et_raise_def
  by ((intro still_rules still_io)?; ((rule still_req, simp) | (rule still_modify, simp))?)+

lemma still_remove [still_io]: "state_io_rel still (remove_keepalive_path K d b)"
  unfolding remove_keepalive_path_def drop_deletor_def by (intro still_rules still_io; rule still_modify; simp)

section \<open>A keepalive at work\<close>

definition client_works :: "etcd_link \<Rightarrow> bool" where
  "client_works K \<longleftrightarrow> (\<forall>n. el_create K n \<and> el_start K n = 0)"

definition client_refuses :: "etcd_link \<Rightarrow> bool" where
  "client_refuses K \<longleftrightarrow> (\<forall>n. \<not> el_create K n)"

lemma build_result:
  "fst (run_state (build_request K url doc) s) =
    (if el_create K (et_calls s) then Some (length (et_requests s)) else None)"
  by (simp add: build_request_def http_create_def case_prod_unfold)

lemma create_result:
  assumes "can_request s"
  shows "fst (run_state (create_request_kv_get K k e l v) s) =
      (if el_create K (et_calls s) then Some (length (et_requests s)) else None)"
    and "lease (ec_conf s) \<noteq> 0 \<Longrightarrow> fst (run_state (create_request_kv_set K k val a b c d) s) =
      (if el_create K (et_calls s) then Some (length (et_requests s)) else None)"
  using assms by (simp_all add: create_request_kv_get_def create_request_kv_set_def build_result)

lemma build_adds:
  assumes "el_create K (et_calls s)"
  shows "length (et_requests (snd (run_state (build_request K url doc) s))) = Suc (length (et_requests s))"
  using assms
  by (simp add: build_request_def http_create_def setup_http_request_def add_stats_create_request_def upd_req_def Let_def case_prod_unfold)

lemma create_adds:
  assumes "can_request s"
  shows "el_create K (et_calls s) \<Longrightarrow> length (et_requests (snd (run_state (create_request_kv_get K k e l v) s))) = Suc (length (et_requests s))"
    and "lease (ec_conf s) \<noteq> 0 \<Longrightarrow> el_create K (et_calls s) \<Longrightarrow>
      length (et_requests (snd (run_state (create_request_kv_set K k val a b c d) s))) = Suc (length (et_requests s))"
  using assms by (simp_all add: create_request_kv_get_def create_request_kv_set_def build_adds)

lemma start_result: "fst (run_state (http_start K r) s) = el_start K (et_calls s)"
  by (simp add: http_start_def case_prod_unfold)

lemmas others_rules = io_rel_bind [OF others_pre] io_rel_return [OF others_pre] io_rel_gets [OF others_pre]
  io_rel_when [OF others_pre] io_rel_if io_rel_case_option io_rel_case_prod io_rel_let

lemma upd_ka_others: "state_io_rel (others i) (modify (upd_ka i f))"
proof -
  have "can_request (upd_ka i f s) = can_request s" for s
    by (simp add: can_request_def check_cluster_def upd_ka_def)
  then show ?thesis by (intro io_rel_modify) (simp add: others_def, simp add: upd_ka_def)
qed

lemma add_retry_others: "state_io_rel (others i) (add_retry_keepalive K j)"
proof -
  have "state_io_rel (others i) (modify (\<lambda>s. s\<lparr>ec_retries := ec_retries s @ [j]\<rparr>))"
    by (rule io_rel_modify) (simp add: others_def ka_def can_request_def check_cluster_def)
  then show ?thesis
    unfolding add_retry_keepalive_def by (intro others_rules quiet_io_others [OF quiet_flag])
qed

lemmas others_io = upd_ka_others add_retry_others quiet_io_others [OF quiet_create(1)] quiet_io_others [OF quiet_create(2)]
  quiet_io_others [OF quiet_primitive(2)] quiet_io_others [OF quiet_primitive(5)]

lemma renew_others: "state_io_rel (others i) (renew_keepalive K i)"
  unfolding renew_keepalive_def reset_value_changed_def keepalive_active_def keepalive_process_def keepalive_request_def
  by (intro others_rules others_io)

text \<open>A keepalive has something to do unless its check has run and failed.\<close>

definition ready :: "keepalive \<Rightarrow> bool" where
  "ready k \<longleftrightarrow> ka_checker k = None \<or> \<not> ka_check_run k \<or> ka_check_passed k"

text \<open>The request process makes when the client works, and the state it is made in.\<close>

lemma request_works:
  assumes K: "client_works K" and s: "can_request s" "lease (ec_conf s) \<noteq> 0" "i < length (et_keepalives s)"
    and k: "ka_check_run (ka i s) \<longrightarrow> ka_check_passed (ka i s) \<and> ka_value_changed (ka i s)"
  shows "\<not> fst (run_state (keepalive_request K i) s) \<and>
    ka_rpc (ka i (snd (run_state (keepalive_request K i) s))) = Some (length (et_requests s)) \<and>
    length (et_requests s) < length (et_requests (snd (run_state (keepalive_request K i) s)))"
proof (cases "ka_check_run (ka i s)")
  case False
  let ?m = "create_request_kv_get K (ka_path (ka i s)) [] 0 0"
  obtain s1 where m: "run_state ?m s = (Some (length (et_requests s)), s1)"
    using create_result(1) [OF s(1), of K "ka_path (ka i s)" "[]" 0 0] K
    by (cases "run_state ?m s") (simp add: client_works_def)
  have "quiet s s1" using io_relD [OF quiet_create(1), of s K "ka_path (ka i s)" "[]" 0 0] m by simp
  then have "i < length (et_keepalives s1)" using s(3) by (simp add: quiet_def)
  moreover have "length (et_requests s1) = Suc (length (et_requests s))"
    using create_adds(1) [OF s(1), of K "ka_path (ka i s)" "[]" 0 0] K m by (simp add: client_works_def)
  ultimately show ?thesis using False m
    by (simp add: keepalive_request_def set_callback_def) (simp add: ka_def upd_req_def upd_ka_def)
next
  case True
  let ?m = "create_request_kv_set K (ka_path (ka i s)) (ka_value (ka i s)) True False False False"
  obtain s1 where m: "run_state ?m s = (Some (length (et_requests s)), s1)"
    using create_result(2) [OF s(1,2), of K "ka_path (ka i s)" "ka_value (ka i s)" True False False False] K
    by (cases "run_state ?m s") (simp add: client_works_def)
  have "quiet s s1"
    using io_relD [OF quiet_create(2), of s K "ka_path (ka i s)" "ka_value (ka i s)" True False False False] m by simp
  then have "i < length (et_keepalives s1)" using s(3) by (simp add: quiet_def)
  moreover have "length (et_requests s1) = Suc (length (et_requests s))"
    using create_adds(2) [OF s(1,2), of K "ka_path (ka i s)" "ka_value (ka i s)" True False False False] K m by (simp add: client_works_def)
  ultimately show ?thesis using True m k
    by (simp add: keepalive_request_def set_callback_def) (simp add: ka_def upd_req_def upd_ka_def)
qed

text \<open>Keepalive \<open>i\<close> has a request, and it is under way: started and not yet completed.\<close>

definition under_way :: "nat \<Rightarrow> etcd \<Rightarrow> bool" where
  "under_way i s \<longleftrightarrow> (\<exists>r. ka_rpc (ka i s) = Some r \<and> r < length (et_requests s) \<and> hr_pending (et_requests s ! r))"

lemma under_way_still:
  assumes "still s s'" and "ka i s' = ka i s" and "under_way i s"
  shows "under_way i s'"
  using assms unfolding under_way_def still_def by (metis order_less_le_trans)

lemma under_way_retries: "under_way i (s\<lparr>ec_retries := x\<rparr>) = under_way i s"
  by (simp add: under_way_def ka_def)

lemma start_pending:
  assumes "el_start K (et_calls s) = 0" and "r < length (et_requests s)"
  shows "r < length (et_requests (snd (run_state (http_start K r) s))) \<and>
    hr_pending (et_requests (snd (run_state (http_start K r) s)) ! r)"
  using assms by (simp add: http_start_def et_log_def upd_req_def)

lemma renew_starts:
  assumes K: "client_works K" and s: "can_request s" "lease (ec_conf s) \<noteq> 0" "i < length (et_keepalives s)"
    and k: "under_way i s \<or> ka_rpc (ka i s) = None \<and> ready (ka i s)"
  shows "under_way i (snd (run_state (renew_keepalive K i) s))"
proof (cases "ka_rpc (ka i s)")
  case (Some r)
  then have "r < length (et_requests s) \<and> hr_pending (et_requests s ! r)" using k by (simp add: under_way_def)
  then show ?thesis using s(3) Some
    by (simp add: renew_keepalive_def reset_value_changed_def keepalive_active_def keepalive_process_def under_way_def)
      (simp add: upd_ka_def)
next
  case None
  define f where "f = (\<lambda>k :: keepalive. if ka_checker k = None then
      k\<lparr>ka_value_changed := True, ka_actived := False, ka_check_run := True, ka_check_passed := True, ka_retry_times := ka_retry_times k + 1\<rparr>
      else k\<lparr>ka_value_changed := True, ka_actived := False\<rparr>)"
  have fc: "ka_checker (f k) = ka_checker k" for k by (simp add: f_def)
  let ?s1 = "upd_ka i f s"
  have s1: "can_request ?s1" "lease (ec_conf ?s1) \<noteq> 0" "i < length (et_keepalives ?s1)"
    using s by (simp_all add: upd_ka_def can_request_def check_cluster_def)
  have k1: "ka_check_run (ka i ?s1) \<longrightarrow> ka_check_passed (ka i ?s1) \<and> ka_value_changed (ka i ?s1)"
    using s(3) k None by (cases "ka_checker (ka i s)") (auto simp: f_def ready_def under_way_def)
  obtain r s2 where req: "run_state (keepalive_request K i) ?s1 = (False, s2)" "ka_rpc (ka i s2) = Some r" "r < length (et_requests s2)"
    using request_works [OF K s1 k1] by (cases "run_state (keepalive_request K i) ?s1") auto
  obtain s3 where st: "run_state (http_start K r) s2 = (0, s3)"
    using start_result [of K r s2] K by (cases "run_state (http_start K r) s2") (simp add: client_works_def)
  have q: "quiet s2 s3" using io_relD [OF quiet_primitive(5), of s2 K r] st by simp
  have pre: "upd_ka i (\<lambda>k. k\<lparr>ka_check_run := True, ka_check_passed := True, ka_retry_times := ka_retry_times k + 1\<rparr>)
      (upd_ka i (\<lambda>k. k\<lparr>ka_actived := False\<rparr>) (upd_ka i (\<lambda>k. k\<lparr>ka_actived := True\<rparr>)
        (upd_ka i (\<lambda>k. k\<lparr>ka_value_changed := True\<rparr>) s))) = ?s1" if "ka_checker (ka i s) = None"
    using that s(3) by (auto simp: upd_ka_def f_def ka_def)
  have pre': "upd_ka i (\<lambda>k. k\<lparr>ka_actived := False\<rparr>) (upd_ka i (\<lambda>k. k\<lparr>ka_actived := True\<rparr>)
        (upd_ka i (\<lambda>k. k\<lparr>ka_value_changed := True\<rparr>) s)) = ?s1" if "ka_checker (ka i s) \<noteq> None"
    using that s(3) by (auto simp: upd_ka_def f_def ka_def)
  have "run_state (renew_keepalive K i) s = ((), s3)"
    using None s(3) req st
    by (cases "ka_checker (ka i s) = None")
      (simp_all add: renew_keepalive_def reset_value_changed_def keepalive_active_def keepalive_process_def pre pre' fc,
       auto)
  moreover have "ka i s3 = ka i s2" using q by (simp add: quiet_def ka_def)
  moreover have "r < length (et_requests s3) \<and> hr_pending (et_requests s3 ! r)"
    using start_pending [OF _ req(3), of K] K st by (simp add: client_works_def)
  ultimately show ?thesis using req(2) by (simp add: under_way_def)
qed

section \<open>All of them\<close>

text \<open>A pass over the keepalives: each that is ready has a request afterwards.\<close>

lemma renew_all:
  assumes K: "client_works K"
  shows "can_request s \<Longrightarrow> lease (ec_conf s) \<noteq> 0 \<Longrightarrow> i < length (et_keepalives s) \<Longrightarrow>
    under_way i s \<or> i \<in> set is \<and> ka_rpc (ka i s) = None \<and> ready (ka i s) \<Longrightarrow>
    under_way i (snd (run_state (for_each (renew_keepalive K) is) s))"
proof (induction "is" arbitrary: s)
  case Nil
  then show ?case by simp
next
  case (Cons j js)
  let ?s1 = "snd (run_state (renew_keepalive K j) s)"
  have o: "others j s ?s1" by (rule io_relD [OF renew_others])
  have s1: "can_request ?s1" "lease (ec_conf ?s1) \<noteq> 0" "i < length (et_keepalives ?s1)"
    using o Cons.prems(1-3) by (simp_all add: others_def)
  have k: "under_way i ?s1 \<or> i \<in> set js \<and> ka_rpc (ka i ?s1) = None \<and> ready (ka i ?s1)"
  proof (cases "j = i")
    case True
    have "under_way i s \<or> ka_rpc (ka i s) = None \<and> ready (ka i s)" using Cons.prems(4) by auto
    then show ?thesis using renew_starts [OF K Cons.prems(1-3)] True by simp
  next
    case False
    then have "ka i ?s1 = ka i s" using o by (simp add: others_def)
    then show ?thesis using Cons.prems(4) False under_way_still [OF io_relD [OF still_keepalive]] by auto
  qed
  have "under_way i (snd (run_state (for_each (renew_keepalive K) js) ?s1))"
    by (rule Cons.IH [OF s1 k])
  then show ?case by (simp add: case_prod_unfold)
qed

definition keeps :: "etcd \<Rightarrow> etcd \<Rightarrow> bool" where
  "keeps s s' \<longleftrightarrow> length (et_keepalives s') = length (et_keepalives s) \<and>
     (can_request s' \<longleftrightarrow> can_request s) \<and> lease (ec_conf s') = lease (ec_conf s)"

lemma renew_each_keeps: "state_io_rel keeps (for_each (renew_keepalive K) is)"
proof (rule for_each_rel)
  show "rel_pre keeps" by (simp add: rel_pre_def keeps_def)
  show "state_io_rel keeps (renew_keepalive K i)" for i
    using renew_others [of i K] by (simp add: state_io_rel_def others_def keeps_def)
qed

lemma retry_tail: "state_io_rel quiet (do {
    watchers \<leftarrow> gets ec_watchers;
    for_each (watcher_active K) watchers;
    pending \<leftarrow> gets ec_deletors;
    modify (\<lambda>s. s\<lparr>ec_deletors := []\<rparr>);
    for_each (\<lambda>(p, d). remove_keepalive_path K d False) pending
  })"
  by (intro quiet_rules quiet_io; rule quiet_modify; simp add: quiet_simps)

lemma retry_tail_still: "state_io_rel still (do {
    watchers \<leftarrow> gets ec_watchers;
    for_each (watcher_active K) watchers;
    pending \<leftarrow> gets ec_deletors;
    modify (\<lambda>s. s\<lparr>ec_deletors := []\<rparr>);
    for_each (\<lambda>(p, d). remove_keepalive_path K d False) pending
  })"
  by (intro still_rules still_io; rule still_modify; simp)

lemma retry_result:
  "lease (ec_conf s) \<noteq> 0 \<Longrightarrow>
    quiet ((snd (run_state (for_each (renew_keepalive K) (ec_retries s)) s))\<lparr>ec_retries := []\<rparr>)
      (snd (run_state (retry_pending_actions K) s)) \<and>
    still ((snd (run_state (for_each (renew_keepalive K) (ec_retries s)) s))\<lparr>ec_retries := []\<rparr>)
      (snd (run_state (retry_pending_actions K) s))"
  using io_relD [OF retry_tail, of "(snd (run_state (for_each (renew_keepalive K) (ec_retries s)) s))\<lparr>ec_retries := []\<rparr>" K]
    io_relD [OF retry_tail_still, of "(snd (run_state (for_each (renew_keepalive K) (ec_retries s)) s))\<lparr>ec_retries := []\<rparr>" K]
  by (simp add: retry_pending_actions_def case_prod_unfold)

text \<open>C34: A lease restarts every keepalive. When the cluster is granted a lease, and every request the client
  makes is created and started, then every keepalive of the cluster that its checker did not refuse, and
  whose request, if it has one, is not a stale one, has a request that was started and is not completed.\<close>

theorem lease_starts_all:
  assumes K: "client_works K" and s: "can_request s" "v \<noteq> 0"
    and i: "i \<in> set (ec_keepalives s)" "i < length (et_keepalives s)" "ready (ka i s)"
    and idle: "ka_rpc (ka i s) = None \<or> under_way i s"
  shows "under_way i (snd (run_state (set_lease K v True) s))"
proof -
  let ?s1 = "s\<lparr>ec_conf := (ec_conf s)\<lparr>lease := v\<rparr>, ec_retries := []\<rparr>"
  let ?s2 = "snd (run_state (for_each (renew_keepalive K) (ec_keepalives s)) ?s1)"
  have s1: "can_request ?s1" "lease (ec_conf ?s1) \<noteq> 0" "i < length (et_keepalives ?s1)"
    using s i by (simp_all add: can_request_def check_cluster_def)
  have k1: "under_way i ?s1 \<or> i \<in> set (ec_keepalives s) \<and> ka_rpc (ka i ?s1) = None \<and> ready (ka i ?s1)"
    using i idle by (auto simp: under_way_def ka_def)
  have r2: "under_way i ?s2" by (rule renew_all [OF K s1 k1])
  have k2: "keeps ?s1 ?s2" by (rule io_relD [OF renew_each_keeps])
  let ?s3 = "(snd (run_state (for_each (renew_keepalive K) (ec_retries ?s2)) ?s2))\<lparr>ec_retries := []\<rparr>"
  have s2: "can_request ?s2" "lease (ec_conf ?s2) \<noteq> 0" "i < length (et_keepalives ?s2)"
    using k2 s1 by (simp_all add: keeps_def)
  have "under_way i (snd (run_state (for_each (renew_keepalive K) (ec_retries ?s2)) ?s2))" using renew_all [OF K s2] r2 by simp
  then have r3: "under_way i ?s3" by (simp only: under_way_retries)
  have "quiet ?s3 (snd (run_state (retry_pending_actions K) ?s2)) \<and> still ?s3 (snd (run_state (retry_pending_actions K) ?s2))"
    using retry_result [of ?s2 K] s2(2) by simp
  then have "under_way i (snd (run_state (retry_pending_actions K) ?s2))"
    using under_way_still r3 by (auto simp: quiet_def ka_def)
  moreover have "snd (run_state (set_lease K v True) s) = snd (run_state (retry_pending_actions K) ?s2)"
    using s(2) by (simp add: set_lease_def upd_conf_def case_prod_unfold)
  ultimately show ?thesis by simp
qed

section \<open>Retries that fail at once\<close>

definition idle_stays :: "etcd \<Rightarrow> etcd \<Rightarrow> bool" where
  "idle_stays s s' \<longleftrightarrow> (\<forall>i. ka_rpc (ka i s) = None \<longrightarrow> ka_rpc (ka i s') = None)"

lemma idle_pre: "rel_pre idle_stays"
  by (simp add: rel_pre_def idle_stays_def)

lemma quiet_io_idle: "state_io_rel quiet m \<Longrightarrow> state_io_rel idle_stays m"
  by (simp add: state_io_rel_def quiet_def idle_stays_def ka_def)

lemmas idle_rules = io_rel_bind [OF idle_pre] io_rel_return [OF idle_pre] io_rel_gets [OF idle_pre]
  io_rel_when [OF idle_pre] io_rel_if io_rel_case_option io_rel_let for_each_rel [OF idle_pre]

lemma upd_ka_idle:
  assumes "\<And>k. ka_rpc k = None \<Longrightarrow> ka_rpc (f k) = None"
  shows "state_io_rel idle_stays (modify (upd_ka i f))"
proof (rule io_rel_modify)
  fix s
  have "ka_rpc (ka j (upd_ka i f s)) = None" if "ka_rpc (ka j s) = None" for j
    using that assms [of "ka i s"]
    by (cases "j = i"; cases "i < length (et_keepalives s)") (simp_all, simp add: ka_def upd_ka_def)
  then show "idle_stays s (upd_ka i f s)" by (simp add: idle_stays_def)
qed

lemma add_retry_idle: "state_io_rel idle_stays (add_retry_keepalive K i)"
proof -
  have "state_io_rel idle_stays (modify (\<lambda>s. s\<lparr>ec_retries := ec_retries s @ [i]\<rparr>))"
    by (rule io_rel_modify) (simp add: idle_stays_def ka_def)
  then show ?thesis
    unfolding add_retry_keepalive_def by (intro idle_rules quiet_io_idle [OF quiet_flag])
qed

lemma refused:
  assumes "client_refuses K"
  shows "fst (run_state (create_request_kv_get K k e l v) s) = None"
    and "fst (run_state (create_request_kv_set K k val a b c d) s) = None"
  using assms build_result [of K]
  by (simp_all add: client_refuses_def create_request_kv_get_def create_request_kv_set_def)

lemma request_idle:
  assumes "client_refuses K"
  shows "state_io_rel idle_stays (keepalive_request K i)"
proof (unfold state_io_rel_def, intro allI)
  fix s
  let ?k = "ka i s"
  obtain s1 s2 where g: "run_state (create_request_kv_get K (ka_path ?k) [] 0 0) s = (None, s1)"
    and p: "run_state (create_request_kv_set K (ka_path ?k) (ka_value ?k) True False False False) s = (None, s2)"
    using refused [OF assms] by (metis prod.collapse)
  have q: "idle_stays s s1" "idle_stays s s2"
    using io_relD [OF quiet_io_idle [OF quiet_create(1)], of s K "ka_path ?k" "[]" 0 0] g
      io_relD [OF quiet_io_idle [OF quiet_create(2)], of s K "ka_path ?k" "ka_value ?k" True False False False] p
    by simp_all
  have u: "idle_stays s (upd_ka i f s')" if "idle_stays s s'" "\<And>k. ka_rpc k = None \<Longrightarrow> ka_rpc (f k) = None" for f s'
    using that io_relD [OF upd_ka_idle, of f s' i] by (simp add: idle_stays_def)
  have "idle_stays s s" by (simp add: idle_stays_def)
  then show "idle_stays s (snd (run_state (keepalive_request K i) s))"
    using g p q by (simp add: keepalive_request_def u)
qed

lemma renew_idle:
  assumes "client_refuses K"
  shows "state_io_rel idle_stays (renew_keepalive K i)"
  unfolding renew_keepalive_def reset_value_changed_def keepalive_active_def keepalive_process_def
  by (intro idle_rules request_idle [OF assms] add_retry_idle quiet_io_idle [OF quiet_primitive(2)]
      quiet_io_idle [OF quiet_primitive(5)] upd_ka_idle) simp_all

text \<open>C37: A retry that fails at once is lost. When the queued keepalives are retried and no request can be made,
  the queue is empty afterwards and none of them has a request: the failing retry queues its object
  again, which is refused because it still is in the queue, and then the queue is emptied.\<close>

theorem retry_is_lost:
  assumes K: "client_refuses K" and s: "lease (ec_conf s) \<noteq> 0"
    and i: "i \<in> set (ec_retries s)" "ka_rpc (ka i s) = None"
  shows "ka_rpc (ka i (snd (run_state (retry_pending_actions K) s))) = None \<and>
    ec_retries (snd (run_state (retry_pending_actions K) s)) = []"
proof -
  let ?s1 = "snd (run_state (for_each (renew_keepalive K) (ec_retries s)) s)"
  let ?s2 = "snd (run_state (retry_pending_actions K) s)"
  have "idle_stays s ?s1" by (rule io_relD) (intro for_each_rel idle_pre renew_idle K)
  then have r: "ka_rpc (ka i ?s1) = None" using i(2) by (simp add: idle_stays_def)
  have q: "quiet (?s1\<lparr>ec_retries := []\<rparr>) ?s2" using retry_result [of s K] s by simp
  then have "ka i ?s2 = ka i ?s1" by (simp add: quiet_def ka_def)
  then show ?thesis using q r by (simp add: quiet_def)
qed

section \<open>Deleting a path\<close>

lemma remove_actor_there:
  assumes "x \<in> set xs"
  shows "\<exists>l. remove_actor x xs = Some l"
proof -
  obtain j where "j < length xs" "xs ! j = x" using assms by (auto simp: in_set_conv_nth)
  then have "List.find (\<lambda>j. xs ! j = x) [0 ..< length xs] \<noteq> None" by (auto simp: find_None_iff)
  then show ?thesis by (auto simp: remove_actor_def)
qed

lemma drop_absent: "map_of (ec_deletors s) path = None \<Longrightarrow> run_state (drop_deletor path) s = ((), s)"
  by (simp add: drop_deletor_def)

text \<open>What a request that is built looks like, and what building it leaves.\<close>

definition built :: "etcd_link \<Rightarrow> json \<Rightarrow> etcd \<Rightarrow> etcd \<Rightarrow> bool" where
  "built K doc s s' \<longleftrightarrow> length (et_requests s') = Suc (length (et_requests s)) \<and>
     hr_post_data (et_requests s' ! length (et_requests s)) = jl_print (el_json K) doc \<and>
     et_keepalives s' = et_keepalives s \<and> et_deletors s' = et_deletors s \<and> et_watchers s' = et_watchers s \<and>
     ec_deletors s' = ec_deletors s \<and> et_now s' = et_now s"

lemma build_works:
  assumes "client_works K"
  shows "\<exists>s'. run_state (build_request K url doc) s = (Some (length (et_requests s)), s') \<and> built K doc s s'"
  using assms
  by (simp add: client_works_def build_request_def http_create_def add_stats_create_request_def setup_http_request_def
      upd_req_def built_def http_request_new_def nth_append)

lemma start_works:
  assumes "client_works K"
  shows "run_state (http_start K r) s = (0, (upd_req r (\<lambda>q. q\<lparr>hr_pending := True\<rparr>)
    (s\<lparr>et_calls := Suc (et_calls s)\<rparr>))\<lparr>et_trace := et_trace s @ [EvStart r]\<rparr>)"
  using assms by (simp add: client_works_def http_start_def et_log_def upd_req_def)

lemma create_del_works:
  assumes "client_works K" and "can_request s"
  shows "\<exists>s' doc. run_state (create_request_kv_del K k e p) s = (Some (length (et_requests s)), s') \<and> built K doc s s'"
  using build_works [OF assms(1)] assms(2) by (simp add: create_request_kv_del_def) blast

text \<open>A delete under way cannot be cancelled. When a keepalive that has stored its value is removed, the
  request that deletes its path is started, but the path is not in the map of deletions in which a
  keepalive added for the same path looks for one to cancel: the lookup finds nothing, and the delete
  runs against the new keepalive.\<close>

theorem delete_in_flight_unseen:
  assumes K: "client_works K" and s: "can_request s" "map_of (ec_deletors s) (ka_path (ka i s)) = None"
    and i: "i \<in> set (ec_keepalives s)" "i < length (et_keepalives s)" "ka_has_data (ka i s)" "ka_rpc (ka i s) = None"
  shows "let s' = snd (run_state (remove_keepalive K i) s); r = length (et_requests s); d = length (et_deletors s) in
    r < length (et_requests s') \<and> hr_pending (et_requests s' ! r) \<and>
    hr_on_complete (et_requests s' ! r) = Some OnRemoveKeepalivePath \<and> hr_priv (et_requests s' ! r) = Some (PDeletor d) \<and>
    kd_path (kd d s') = ka_path (ka i s) \<and> run_state (drop_deletor (ka_path (ka i s))) s' = ((), s')"
proof -
  obtain l where l: "remove_actor i (ec_keepalives s) = Some l"
    using remove_actor_there [OF i(1)] by blast
  let ?path = "ka_path (ka i s)" and ?d = "length (et_deletors s)" and ?r = "length (et_requests s)"
  define s0 where "s0 = s\<lparr>ec_keepalives := l,
    ec_retries := (case remove_actor i (ec_retries s) of None \<Rightarrow> ec_retries s | Some l \<Rightarrow> l),
    et_deletors := et_deletors s @ [\<lparr>kd_rpc = None, kd_path = ?path, kd_retry_times = 0, kd_owner = False, kd_alive = True\<rparr>]\<rparr>"
  define s1 where "s1 = upd_kd ?d (\<lambda>x. x\<lparr>kd_owner := True, kd_retry_times := 1\<rparr>) s0"
  have s1: "can_request s1" "length (et_requests s1) = ?r" "?d < length (et_deletors s1)" "kd_path (kd ?d s1) = ?path"
      "kd_retry_times (kd ?d s1) = 1" "et_keepalives s1 = et_keepalives s" "ec_deletors s1 = ec_deletors s"
    using s(1) by (simp_all add: s1_def s0_def upd_kd_def kd_def can_request_def check_cluster_def nth_append)
  obtain s2 doc where c: "run_state (create_request_kv_del K ?path ''+1'' False) s1 = (Some ?r, s2)" "built K doc s1 s2"
    using create_del_works [OF K s1(1)] s1(2) by metis
  have i2: "?r < length (et_requests s2)" "?d < length (et_deletors s2)" "kd ?d s2 = kd ?d s1"
      "et_keepalives s2 = et_keepalives s" "ec_deletors s2 = ec_deletors s"
    using c(2) s1 by (simp_all add: built_def kd_def)
  define s3 where "s3 = snd (run_state (remove_keepalive_path K ?d False) s0)"
  have k0: "kd ?d s0 = \<lparr>kd_rpc = None, kd_path = ?path, kd_retry_times = 0, kd_owner = False, kd_alive = True\<rparr>"
    "map_of (ec_deletors s0) ?path = None" "kd ?d (upd_kd ?d f s0) = f (kd ?d s0)" for f
    using s(2) by (simp_all add: s0_def kd_def upd_kd_def nth_append)
  have u1: "upd_kd ?d (\<lambda>x. x\<lparr>kd_owner := True, kd_retry_times := kd_retry_times x + 1\<rparr>) s0 = s1"
    by (simp add: s1_def s0_def upd_kd_def nth_append)
  have s3: "s3 = (upd_req ?r (\<lambda>q. q\<lparr>hr_priv := Some (PDeletor ?d), hr_on_complete := Some OnRemoveKeepalivePath, hr_pending := True\<rparr>)
      (upd_kd ?d (\<lambda>x. x\<lparr>kd_rpc := Some ?r\<rparr>) s2))\<lparr>et_calls := Suc (et_calls s2), et_trace := et_trace s2 @ [EvStart ?r]\<rparr>"
    unfolding s3_def
    using c(1) i2 s1(5)
    by (simp add: remove_keepalive_path_def use_deletor_def drop_absent k0 u1 set_callback_def start_works [OF K])
      (simp add: upd_req_def upd_kd_def)
  define s4 where "s4 = snd (run_state (remove_keepalive K i) s)"
  have k3: "ka_rpc (ka i s3) = None" using i(2,4) i2(4) by (simp add: s3 ka_def upd_req_def upd_kd_def)
  have f: "ka i (s\<lparr>ec_keepalives := a, ec_retries := b\<rparr>) = ka i s" for a b by (simp add: ka_def)
  have p: "run_state (remove_keepalive_path K ?d False) s0 = ((), s3)"
    unfolding s3_def by (cases "run_state (remove_keepalive_path K ?d False) s0") simp
  have s4: "s4 = upd_ka i (\<lambda>k. k\<lparr>ka_rpc := None, ka_actived := False, ka_value_changed := True, ka_has_data := False,
      ka_check_run := False, ka_check_passed := False, ka_checker := None, ka_retry_times := 0\<rparr>) s3"
    using l i(3) k3 p unfolding s4_def by (simp add: remove_keepalive_def keepalive_close_def f s0_def [symmetric])
  have "map_of (ec_deletors s4) ?path = None" using i2(5) s(2) by (simp add: s4 s3 upd_ka_def upd_req_def upd_kd_def)
  moreover have "kd_path (kd ?d s4) = ?path"
    using i2(2,3) s1(4) by (simp add: s4 s3 upd_ka_def upd_req_def upd_kd_def kd_def)
  ultimately show ?thesis using i2(1)
    unfolding s4_def [symmetric] by (simp add: drop_absent Let_def) (simp add: s4 s3 upd_ka_def upd_req_def upd_kd_def)
qed

definition watch_doc :: "etcd_link \<Rightarrow> watcher \<Rightarrow> json" where
  "watch_doc K w = JObj [(''create_request'', JObj (pack_key_range (el_json K) (w_path w) (w_range_end w) @
     (if w_prev_kv w then [(''prev_kv'', JBool True)] else []) @
     (if w_progress_notify w then [(''progress_notify'', JBool True)] else []) @
     [(''start_revision'', JInt (w_last_revision w + 1))]))]"

lemma create_watch_works:
  assumes K: "client_works K" and s: "can_request s" and w: "0 < w_last_revision w"
  shows "\<exists>s'. run_state (create_request_watch K (w_path w) (w_range_end w) (w_last_revision w + 1) (w_prev_kv w)
    (w_progress_notify w)) s = (Some (length (et_requests s)), s') \<and> built K (watch_doc K w) s s'"
proof -
  obtain s1 where b: "run_state (build_request K (path_node (ec_conf s) @ ''/v3/watch'') (watch_doc K w)) s =
      (Some (length (et_requests s)), s1)" "built K (watch_doc K w) s s1"
    using build_works [OF K] by blast
  have "(if w_prev_kv w then [(''prev_kv'', JBool (w_prev_kv w))] else []) = (if w_prev_kv w then [(''prev_kv'', JBool True)] else [])"
    "(if w_progress_notify w then [(''progress_notify'', JBool (w_progress_notify w))] else []) =
     (if w_progress_notify w then [(''progress_notify'', JBool True)] else [])"
    by simp_all
  then have "run_state (create_request_watch K (w_path w) (w_range_end w) (w_last_revision w + 1) (w_prev_kv w)
      (w_progress_notify w)) s = (Some (length (et_requests s)),
      upd_req (length (et_requests s)) (\<lambda>q. q\<lparr>hr_opts := hr_opts q @ [OptKeepalive 75 150, ReuseConnection False]\<rparr>) s1)"
    using b(1) s w unfolding create_request_watch_def watch_doc_def by (simp del: if_split cong: if_cong)
  then show ?thesis using b(2) by (auto simp: built_def upd_req_def nth_list_update)
qed

text \<open>A watch resumes after the last revision. An idle watcher that is due, knows a revision and is not to
  read the range again starts a watch request for the revision after it, with its callbacks set and
  the stream of the earlier request forgotten.\<close>

theorem watch_resumes:
  assumes K: "client_works K" and s: "can_request s" "i < length (et_watchers s)"
    and w: "w_rpc (wt i s) = None" "w_next_request_time (wt i s) \<le> et_now s" "0 < w_last_revision (wt i s)"
      "\<not> w_retry_mode (wt i s)"
  shows "let s' = snd (run_state (watcher_process K i) s); r = length (et_requests s); q = et_requests s' ! r in
    w_rpc (wt i s') = Some r \<and> w_stream (wt i s') = [] \<and> w_brackets (wt i s') = 0 \<and> r < length (et_requests s') \<and>
    hr_pending q \<and> hr_on_write q \<and> hr_on_complete q = Some OnWatchCompleted \<and> hr_priv q = Some (PWatcher i) \<and>
    hr_post_data q = jl_print (el_json K) (JObj [(''create_request'', JObj (
      pack_key_range (el_json K) (w_path (wt i s)) (w_range_end (wt i s)) @
      (if w_prev_kv (wt i s) then [(''prev_kv'', JBool True)] else []) @
      (if w_progress_notify (wt i s) then [(''progress_notify'', JBool True)] else []) @
      [(''start_revision'', JInt (w_last_revision (wt i s) + 1))]))])"
proof -
  let ?w = "(wt i s)\<lparr>w_actived := False\<rparr>" and ?r = "length (et_requests s)"
  define s1 where "s1 = upd_wt i (\<lambda>w. w\<lparr>w_actived := False\<rparr>) s"
  have s1: "can_request s1" "length (et_requests s1) = ?r" "et_now s1 = et_now s" "wt i s1 = ?w"
      "i < length (et_watchers s1)"
    using s by (simp_all add: s1_def upd_wt_def wt_def can_request_def check_cluster_def)
  obtain s2 where c: "run_state (create_request_watch K (w_path ?w) (w_range_end ?w) (w_last_revision ?w + 1) (w_prev_kv ?w)
      (w_progress_notify ?w)) s1 = (Some ?r, s2)" and b: "built K (watch_doc K ?w) s1 s2"
    using create_watch_works [OF K s1(1), of ?w] w(3) s1(2) by auto
  have i2: "i < length (et_watchers s2)" "?r < length (et_requests s2)"
    "hr_post_data (et_requests s2 ! ?r) = jl_print (el_json K) (watch_doc K ?w)"
    using b s1 by (simp_all add: built_def)
  have "snd (run_state (watcher_process K i) s) = snd (run_state (watcher_watch K i) s1)"
    using w s1(3,4) by (simp add: watcher_process_def s1_def [symmetric])
  moreover have "w_rpc (wt i s') = Some ?r \<and> w_stream (wt i s') = [] \<and> w_brackets (wt i s') = 0 \<and>
      ?r < length (et_requests s') \<and> hr_pending (et_requests s' ! ?r) \<and> hr_on_write (et_requests s' ! ?r) \<and>
      hr_on_complete (et_requests s' ! ?r) = Some OnWatchCompleted \<and> hr_priv (et_requests s' ! ?r) = Some (PWatcher i) \<and>
      hr_post_data (et_requests s' ! ?r) = jl_print (el_json K) (watch_doc K ?w)"
    if "s' = snd (run_state (watcher_watch K i) s1)" for s'
    using c i2 that
    by (simp add: watcher_watch_def set_watch_callback_def start_works [OF K] s1(4))
      (simp add: upd_wt_def wt_def upd_req_def)
  ultimately show ?thesis by (simp add: Let_def watch_doc_def)
qed

end
