(* ===== verification/EtcdWitness.thy ===== *)
theory EtcdWitness
  imports EtcdStream EtcdTypes EtcdProps
begin

text \<open>
  The theorems about the etcd client at concrete inputs: a JSON library that knows one document and a base64
  that writes each byte as two letters, a client that works and one that refuses, and small states.
\<close>

section \<open>A library\<close>

definition enc_char :: "char \<Rightarrow> string" where
  "enc_char c = [char_of (65 + of_char c div 16 :: nat), char_of (65 + of_char c mod 16 :: nat)]"

fun dec_chars :: "string \<Rightarrow> string" where
  "dec_chars (a # b # cs) = char_of ((of_char a - 65) * 16 + (of_char b - 65) :: nat) # dec_chars cs"
| "dec_chars cs = []"

definition lib0 :: json_lib where
  "lib0 = \<lparr>jl_parse = (\<lambda>t. if t = ''{}'' then Some (JObj []) else None), jl_print = (\<lambda>j. ''{}''), jl_str2int = (\<lambda>t. 0),
     jl_show_int = (\<lambda>n. ''0''), jl_b64_encode = (\<lambda>v. concat (map enc_char v)), jl_b64_decode = (\<lambda>t. (True, dec_chars t))\<rparr>"

lemma dec_enc: "dec_chars (concat (map enc_char v)) = v \<and> CHR 0x00 \<notin> set (concat (map enc_char v))"
proof (induction v)
  case (Cons c v)
  have "of_char c < (256 :: nat)" by (rule nat_of_char_less_256)
  then have d: "(of_char c :: nat) div 16 < 16" "(of_char c :: nat) mod 16 < 16" by linarith+
  have z: "char_of m \<noteq> CHR 0x00" if "0 < m" "m < 256" for m :: nat
  proof
    assume "char_of m = CHR 0x00"
    then have "of_char (char_of m) = (of_char CHR 0x00 :: nat)" by simp
    then show False using that by simp
  qed
  have "char_of (65 + of_char c div 16 :: nat) \<noteq> CHR 0x00" "char_of (65 + of_char c mod 16 :: nat) \<noteq> CHR 0x00"
    by (rule z; use d in linarith)+
  then show ?case using Cons d by (simp add: enc_char_def)
qed simp

lemma lib0_ok: "b64_ok lib0"
  using dec_enc by (simp add: b64_ok_def lib0_def)

definition link0 :: etcd_link where
  "link0 = \<lparr>el_json = lib0, el_create = (\<lambda>n. True), el_start = (\<lambda>n. 0), el_random = (\<lambda>n b. 0), el_success = (\<lambda>c. c = 200),
     el_timedout = 28, el_running = (\<lambda>r. True), el_sys_env = ''Linux'',
     el_trash_header = \<lparr>rh_cluster_id = 0, rh_member_id = 0, rh_revision = 0, rh_raft_term = 0\<rparr>,
     el_trash_int = 0, el_trash_bool = False\<rparr>"

definition dead_link :: etcd_link where
  "dead_link = link0\<lparr>el_create := (\<lambda>n. False)\<rparr>"

lemma link0_works: "client_works link0"
  by (simp add: client_works_def link0_def)

lemma dead_refuses: "client_refuses dead_link"
  by (simp add: client_refuses_def dead_link_def)

section \<open>A cluster\<close>

text \<open>It has a node, a lease, two keepalives, the second with its value stored, and a watcher at revision 7.\<close>

definition etcd0 :: etcd where
  "etcd0 = (etcd_new 100)\<lparr>ec_curl := True, ec_conf := conf_new\<lparr>path_node := ''http://h'', lease := 5\<rparr>,
     ec_keepalives := [0, 1], ec_retries := [0], ec_watchers := [0],
     et_keepalives := [keepalive_new ''/a'', (keepalive_new ''/b'')\<lparr>ka_has_data := True\<rparr>],
     et_watchers := [(watcher_new ''/w'' ''+1'')\<lparr>w_last_revision := 7\<rparr>]\<rparr>"

lemmas etcd0_simps = etcd0_def etcd_new_def conf_new_def can_request_def check_cluster_def word_check_def keepalive_new_def
  watcher_new_def ka_def wt_def ready_def

lemma key_range_is_prefix_witness:
  "in_range ''/a'' (range_end_of ''/a'' ''+1'') ''/a/b'' \<and>
   range_end_of [CHR 0xFF] ''+1'' = [] \<and> \<not> in_range [CHR 0xFF] (range_end_of [CHR 0xFF] ''+1'') [CHR 0xFF, CHR ''a'']"
  using key_range_is_prefix [of "''/a''" "''/a/b''"] key_range_is_prefix [of "[CHR 0xFF]" "[CHR 0xFF, CHR ''a'']"]
  by (simp add: char_top_def) (simp add: in_range_def)

definition kv0 :: etcd_key_value where
  "kv0 = \<lparr>kv_key = ''k'', kv_create_revision = 3, kv_mod_revision = 4, kv_version = 2, kv_value = ''v'', kv_lease = 0\<rparr>"

lemma key_value_round_trip_witness: "unpack_kv lib0 kv_zero (JObj (pack_kv lib0 kv0)) = kv0"
  by (rule key_value_round_trip [OF lib0_ok]) (simp_all add: kv0_def fits_i64_def kv_zero_def)

lemma lease_starts_all_witness: "under_way 1 (snd (run_state (set_lease link0 9 True) etcd0))"
  by (rule lease_starts_all [OF link0_works]) (simp_all add: etcd0_simps)

lemma retry_is_lost_witness:
  "ka_rpc (ka 0 (snd (run_state (retry_pending_actions dead_link) etcd0))) = None \<and>
    ec_retries (snd (run_state (retry_pending_actions dead_link) etcd0)) = []"
  by (rule retry_is_lost [OF dead_refuses]) (simp_all add: etcd0_simps)

lemma delete_in_flight_unseen_witness:
  "hr_pending (et_requests (snd (run_state (remove_keepalive link0 1) etcd0)) ! 0) \<and>
    run_state (drop_deletor ''/b'') (snd (run_state (remove_keepalive link0 1) etcd0)) =
      ((), snd (run_state (remove_keepalive link0 1) etcd0))"
proof -
  have s: "can_request etcd0" "map_of (ec_deletors etcd0) (ka_path (ka 1 etcd0)) = None" "1 \<in> set (ec_keepalives etcd0)"
    "1 < length (et_keepalives etcd0)" "ka_has_data (ka 1 etcd0)" "ka_rpc (ka 1 etcd0) = None"
    "ka_path (ka 1 etcd0) = ''/b''" "length (et_requests etcd0) = 0"
    by (simp_all add: etcd0_simps)
  show ?thesis using delete_in_flight_unseen [OF link0_works s(1-6)] s(7,8) by (simp add: Let_def)
qed

lemma watch_resumes_witness:
  "w_rpc (wt 0 (snd (run_state (watcher_process link0 0) etcd0))) = Some 0 \<and>
    hr_on_write (et_requests (snd (run_state (watcher_process link0 0) etcd0)) ! 0)"
proof -
  have s: "can_request etcd0" "0 < length (et_watchers etcd0)" "w_rpc (wt 0 etcd0) = None"
    "w_next_request_time (wt 0 etcd0) \<le> et_now etcd0" "0 < w_last_revision (wt 0 etcd0)" "\<not> w_retry_mode (wt 0 etcd0)"
    "length (et_requests etcd0) = 0"
    by (simp_all add: etcd0_simps)
  show ?thesis using watch_resumes [OF link0_works s(1-6)] s(7) by (simp add: Let_def)
qed

lemma watch_delivers_documents_witness:
  "run_state (for_each (callback_on_watch_write link0 0 0) [''{'', ''} '', ''{}'']) etcd0 =
    run_state (for_each (watch_document link0 0 0) [''{}'', ''{}'']) etcd0"
  using watch_delivers_documents [of 0 etcd0 "[([], ''{}''), ('' '', ''{}'')]" "[]" "[''{'', ''} '', ''{}'']" link0 0]
  by (simp add: etcd0_simps gap_def bracketed_def skip_gap_def opens_def closes_def)

definition calls0 :: "etcd_input list" where
  "calls0 = [In_clock 10, In_init, In_setting (Conf_hosts [''http://h'']), In_tick]"

lemma callbacks_match_private_data_witness:
  "map (\<lambda>q. (hr_on_complete q, hr_priv q)) (et_requests (snd (run_state (etcd_run link0 calls0) (etcd_new 0)))) =
     [(Some OnMemberUpdate, Some PCluster)] \<and> fits_callback OnMemberUpdate PCluster"
proof -
  let ?s = "snd (run_state (etcd_run link0 calls0) (etcd_new 0))"
  have r: "map (\<lambda>q. (hr_on_complete q, hr_priv q)) (et_requests ?s) = [(Some OnMemberUpdate, Some PCluster)]"
    by (simp add: calls0_def etcd_run_def cluster_init_def set_cluster_flag_def upd_conf_def cluster_tick_def
        create_request_member_update_def random_index_def build_request_def http_create_def start_own_def
        set_callback_def http_start_def add_stats_create_request_def setup_http_request_def et_log_def link0_def lib0_def
        upd_req_def http_request_new_def etcd_new_def conf_new_def check_cluster_def put_cluster_def word_check_def
        word_set_def chrono_seconds_def chrono_minutes_def chrono_hours_def get_http_timeout_ms_def Let_def
        count_true_def check_authorization_def string_opt_def ssl_opts_def)
  then obtain q where "et_requests ?s = [q]" "hr_on_complete q = Some OnMemberUpdate" "hr_priv q = Some PCluster"
    by (auto simp: map_eq_Cons_conv)
  then have "fits_callback OnMemberUpdate PCluster"
    by (intro callbacks_match_private_data [of q link0 calls0 0]) simp_all
  with r show ?thesis by simp
qed

end
