(* ===== verification/NodeInfo.thy ===== *)
theory NodeInfo
  imports EtcdTypes
begin

text \<open>
  What a service reports of itself under its keys in etcd, and reads of the others
  (service/component/modules/etcd_module.cpp, pack, unpack and the wrappers of the watcher callbacks).
\<close>

section \<open>Data\<close>

datatype node_action_t = EN_NAT_UNKNOWN | EN_NAT_PUT | EN_NAT_DELETE

record node_info =
  ni_id :: int
  ni_name :: string
  ni_hostname :: string
  ni_listens :: "string list"
  ni_hash_code :: string
  ni_type_id :: int
  ni_type_name :: string
  ni_version :: string
  ni_custom_data :: string
  ni_protocol_version :: int
  ni_protocol_min_version :: int
  ni_action :: node_action_t

definition node_reset :: node_info where
  "node_reset = \<lparr>ni_id = 0, ni_name = [], ni_hostname = [], ni_listens = [], ni_hash_code = [], ni_type_id = 0,
     ni_type_name = [], ni_version = [], ni_custom_data = [], ni_protocol_version = 0,
     ni_protocol_min_version = 0, ni_action = EN_NAT_UNKNOWN\<rparr>"

section \<open>Reading\<close>

text \<open>The name after the last separator of a path, as the index at which it starts.\<close>

definition is_separator :: "char \<Rightarrow> bool" where
  "is_separator c \<longleftrightarrow> c \<in> {CHR ''/'', CHR 0x5C, CHR '' '', CHR 0x09, CHR 0x0D, CHR 0x0A}"

definition key_start :: "string \<Rightarrow> nat" where
  "key_start path = fold (\<lambda>i start. if is_separator (path ! i) then i + 1 else start) [0 ..< length path] 0"

text \<open>
  A member that must be a string when it is there; unpack returns false when it is of another type, or
  when it is missing and required. \<open>next\<close> is the rest of the function.
\<close>

definition string_part ::
  "json \<Rightarrow> string \<Rightarrow> bool \<Rightarrow> (string \<Rightarrow> node_info \<Rightarrow> node_info) \<Rightarrow> (node_info \<Rightarrow> bool \<times> node_info) \<Rightarrow> node_info \<Rightarrow> bool \<times> node_info" where
  "string_part doc key required put next_part out =
     (case find_member doc key of
        None \<Rightarrow> if required then (False, out) else next_part out
      | Some (JStr v) \<Rightarrow> next_part (put (c_str v) out)
      | Some _ \<Rightarrow> (False, out))"

definition u64_member :: "json \<Rightarrow> string \<Rightarrow> int option" where
  "u64_member doc key = (case find_member doc key of Some (JInt i) \<Rightarrow> if fits_u64 i then Some i else None | _ \<Rightarrow> None)"

definition u64_or_zero :: "json \<Rightarrow> string \<Rightarrow> int" where
  "u64_or_zero doc key = (case u64_member doc key of None \<Rightarrow> 0 | Some i \<Rightarrow> i)"

definition string_elems :: "json list \<Rightarrow> string list" where
  "string_elems js = concat (map (\<lambda>j. case j of JStr v \<Rightarrow> [c_str v] | _ \<Rightarrow> []) js)"

definition unpack_listens :: "json \<Rightarrow> node_info \<Rightarrow> node_info" where
  "unpack_listens doc out =
     (case find_member doc ''listen'' of
        Some (JArr js) \<Rightarrow> out\<lparr>ni_listens := ni_listens out @ string_elems js\<rparr>
      | _ \<Rightarrow> out)"

definition unpack_type_id :: "json \<Rightarrow> node_info \<Rightarrow> node_info" where
  "unpack_type_id doc out =
     (if find_member doc ''type_id'' = None then out else out\<lparr>ni_type_id := u64_or_zero doc ''type_id''\<rparr>)"

definition unpack_tail :: "json \<Rightarrow> node_info \<Rightarrow> bool \<times> node_info" where
  "unpack_tail doc out =
     (True, out\<lparr>ni_custom_data := (case find_member doc ''custom_data'' of Some (JStr v) \<Rightarrow> c_str v | _ \<Rightarrow> ni_custom_data out),
        ni_protocol_version := u64_or_zero doc ''atbus-protocol-version'',
        ni_protocol_min_version := u64_or_zero doc ''atbus-protocol-min-version''\<rparr>)"

definition unpack_doc :: "json \<Rightarrow> node_info \<Rightarrow> bool \<times> node_info" where
  "unpack_doc doc out =
     (case find_member doc ''id'' of
        None \<Rightarrow> (False, out)
      | Some _ \<Rightarrow>
          (case u64_member doc ''id'' of
             None \<Rightarrow> (False, out\<lparr>ni_id := 0\<rparr>)
           | Some i \<Rightarrow>
               string_part doc ''name'' True (\<lambda>v n. n\<lparr>ni_name := v\<rparr>)
                (string_part doc ''hostname'' False (\<lambda>v n. n\<lparr>ni_hostname := v\<rparr>)
                 (\<lambda>n. string_part doc ''hash_code'' False (\<lambda>v n. n\<lparr>ni_hash_code := v\<rparr>)
                   (\<lambda>n. string_part doc ''type_name'' False (\<lambda>v n. n\<lparr>ni_type_name := v\<rparr>)
                     (string_part doc ''version'' True (\<lambda>v n. n\<lparr>ni_version := v\<rparr>) (unpack_tail doc))
                     (unpack_type_id doc n))
                   (unpack_listens doc n)))
                (out\<lparr>ni_id := i\<rparr>)))"

definition unpack_node :: "json_lib \<Rightarrow> node_info \<Rightarrow> string \<Rightarrow> string \<Rightarrow> bool \<Rightarrow> bool \<times> node_info" where
  "unpack_node L out path text reset_data =
     (let out0 = (if reset_data then node_reset else out) in
      if text = [] then
        (False, if key_start path < length path
                then out0\<lparr>ni_id := jl_str2int L (c_str (drop (key_start path) path))\<rparr> else out0)
      else (case parse_object L text of
              None \<Rightarrow> (True, out0)
            | Some doc \<Rightarrow> unpack_doc doc out0))"

section \<open>Writing\<close>

definition node_doc :: "node_info \<Rightarrow> json" where
  "node_doc n = JObj ([(''id'', JInt (ni_id n)), (''name'', JStr (ni_name n)), (''hostname'', JStr (ni_hostname n)),
      (''listen'', JArr (map JStr (ni_listens n))), (''hash_code'', JStr (ni_hash_code n)),
      (''type_id'', JInt (ni_type_id n)), (''type_name'', JStr (ni_type_name n)), (''version'', JStr (ni_version n))] @
     (if ni_custom_data n \<noteq> [] then [(''custom_data'', JStr (ni_custom_data n))] else []) @
     [(''atbus-protocol-version'', JInt (ni_protocol_version n)),
      (''atbus-protocol-min-version'', JInt (ni_protocol_min_version n))])"

definition pack_node :: "json_lib \<Rightarrow> node_info \<Rightarrow> string" where
  "pack_node L n = jl_print L (node_doc n)"

section \<open>Events\<close>

text \<open>
  What both wrappers do with an event: the node of its value, or of the value before when it is empty;
  a node without an id is skipped.
\<close>

definition event_node :: "json_lib \<Rightarrow> watch_event \<Rightarrow> node_info option" where
  "event_node L e =
     (let text = (if kv_value (evt_kv e) = [] then kv_value (evt_prev_kv e) else kv_value (evt_kv e));
          n = snd (unpack_node L node_reset (kv_key (evt_kv e)) text True) in
      if ni_id n = 0 then None
      else Some (n\<lparr>ni_action := (case evt_type e of EN_WEVT_DELETE \<Rightarrow> EN_NAT_DELETE | EN_WEVT_PUT \<Rightarrow> EN_NAT_PUT)\<rparr>))"

text \<open>The calls made for a response: the callback and the node of each.\<close>

definition wrapper_calls :: "json_lib \<Rightarrow> nat list \<Rightarrow> watch_response \<Rightarrow> (nat \<times> node_info) list" where
  "wrapper_calls L callbacks body =
     concat (map (\<lambda>e. case event_node L e of None \<Rightarrow> [] | Some n \<Rightarrow> map (\<lambda>cb. (cb, n)) callbacks) (wr_events body))"

section \<open>Round trip\<close>

text \<open>A node whose strings have no zero byte and whose numbers fit their types.\<close>

definition node_plain :: "node_info \<Rightarrow> bool" where
  "node_plain n \<longleftrightarrow> fits_u64 (ni_id n) \<and> fits_u64 (ni_type_id n) \<and> fits_u64 (ni_protocol_version n) \<and>
     fits_u64 (ni_protocol_min_version n) \<and>
     CHR 0x00 \<notin> set (concat ([ni_name n, ni_hostname n, ni_hash_code n, ni_type_name n, ni_version n, ni_custom_data n] @
       ni_listens n))"

lemma string_elems_plain: "CHR 0x00 \<notin> set (concat vs) \<Longrightarrow> string_elems (map JStr vs) = vs"
  by (induction vs) (simp_all add: string_elems_def c_str_id)

lemma find_node:
  "find_member (node_doc n) ''id'' = Some (JInt (ni_id n))"
  "find_member (node_doc n) ''name'' = Some (JStr (ni_name n))"
  "find_member (node_doc n) ''hostname'' = Some (JStr (ni_hostname n))"
  "find_member (node_doc n) ''listen'' = Some (JArr (map JStr (ni_listens n)))"
  "find_member (node_doc n) ''hash_code'' = Some (JStr (ni_hash_code n))"
  "find_member (node_doc n) ''type_id'' = Some (JInt (ni_type_id n))"
  "find_member (node_doc n) ''type_name'' = Some (JStr (ni_type_name n))"
  "find_member (node_doc n) ''version'' = Some (JStr (ni_version n))"
  "find_member (node_doc n) ''custom_data'' = (if ni_custom_data n \<noteq> [] then Some (JStr (ni_custom_data n)) else None)"
  "find_member (node_doc n) ''atbus-protocol-version'' = Some (JInt (ni_protocol_version n))"
  "find_member (node_doc n) ''atbus-protocol-min-version'' = Some (JInt (ni_protocol_min_version n))"
  by (simp_all add: node_doc_def find_member_def)

text \<open>C40: What a service reports is read back. The text packed for a node, when the JSON library parses it
  to the document it was printed from, is unpacked by every other service to the same node. That includes every listen address: a comment in pack says
  that only those available on different machines are reported, the loop below it reports them all.\<close>

theorem node_info_round_trip:
  assumes "node_plain n" and "ni_action n = EN_NAT_UNKNOWN"
    and "parse_object L (pack_node L n) = Some (node_doc n)" and "pack_node L n \<noteq> []"
  shows "unpack_node L out path (pack_node L n) True = (True, n)"
proof -
  have z: "CHR 0x00 \<notin> set (concat (ni_listens n))" "CHR 0x00 \<notin> set (ni_name n)" "CHR 0x00 \<notin> set (ni_hostname n)"
    "CHR 0x00 \<notin> set (ni_hash_code n)" "CHR 0x00 \<notin> set (ni_type_name n)" "CHR 0x00 \<notin> set (ni_version n)"
    "CHR 0x00 \<notin> set (ni_custom_data n)"
    using assms(1) by (simp_all add: node_plain_def)
  note c = z(2-7) [THEN c_str_id]
  have u: "u64_member (node_doc n) ''id'' = Some (ni_id n)" "u64_or_zero (node_doc n) ''type_id'' = ni_type_id n"
    "u64_or_zero (node_doc n) ''atbus-protocol-version'' = ni_protocol_version n"
    "u64_or_zero (node_doc n) ''atbus-protocol-min-version'' = ni_protocol_min_version n"
    using assms(1) by (simp_all add: u64_or_zero_def u64_member_def find_node node_plain_def)
  have "unpack_doc (node_doc n) node_reset = (True, n)"
    using assms(2) by (simp add: unpack_doc_def find_node string_part_def unpack_listens_def unpack_type_id_def
        unpack_tail_def u c string_elems_plain [OF z(1)] node_reset_def)
  then show ?thesis using assms(3,4) by (simp add: unpack_node_def)
qed

text \<open>A delete without the value before is reported only where the key ends in a number. For a key
  whose last part does not read as one, as under by_name, the event is dropped.\<close>

lemma name_delete_lost:
  assumes "evt_type e = EN_WEVT_DELETE" and "kv_value (evt_kv e) = []" and "kv_value (evt_prev_kv e) = []"
    and "jl_str2int L (c_str (drop (key_start (kv_key (evt_kv e))) (kv_key (evt_kv e)))) = 0"
  shows "wrapper_calls L callbacks \<lparr>wr_watch_id = 0, wr_created = False, wr_canceled = False, wr_compact_revision = 0,
    wr_events = [e]\<rparr> = []"
  using assms by (simp add: wrapper_calls_def event_node_def unpack_node_def node_reset_def Let_def)

end
