(* ===== verification/EtcdModule.thy ===== *)
theory EtcdModule
  imports NodeInfo
begin

text \<open>
  The etcd module of a service (service/component/modules/etcd_module.cpp): it owns an etcd client, reads
  the configuration, puts the node under its keys at the start and waits until all are there, and
  watches the nodes of others for whoever asks. The event loop is libuv, whose turns are parameters.
\<close>

section \<open>State\<close>

record module_conf_t =
  path_prefix :: string
  custom_data :: string
  etcd_init_timeout :: int
  watcher_retry_interval :: int
  watcher_request_timeout :: int
  report_alive_by_id :: bool
  report_alive_by_type :: bool
  report_alive_by_name :: bool
  report_alive_by_tag :: "string list"

definition module_conf_new :: module_conf_t where
  "module_conf_new = \<lparr>path_prefix = ''/'', custom_data = [], etcd_init_timeout = chrono_seconds 5,
     watcher_retry_interval = chrono_seconds 15, watcher_request_timeout = chrono_hours 1,
     report_alive_by_id = False, report_alive_by_type = False, report_alive_by_name = False,
     report_alive_by_tag = []\<rparr>"

text \<open>The function a watcher of the module calls: for a list of callbacks of the module, or for one.\<close>

datatype wrapper = ListById | ListByName | OneCallback nat

record etcd_module =
  em_conf :: module_conf_t
  em_curl :: bool
  em_cleanup :: "nat option"
  em_ctx :: etcd
  em_by_id :: "nat list"
  em_by_name :: "nat list"
  em_wrappers :: "(nat \<times> wrapper) list"
  em_calls :: "(nat \<times> node_info) list"
  em_app_stops :: nat
  em_stuck :: bool

type_synonym 'a mm = "(etcd_module, 'a) state"

text \<open>What the module asks of the application and its bus node, and the libraries.\<close>

record app_info =
  app_id :: int
  app_type_id :: int
  app_type_name :: string
  app_name :: string
  app_hostname :: string
  app_listens :: "string list"
  app_hash_code :: string
  app_version :: string
  app_protocol_version :: int
  app_protocol_min_version :: int

record module_link =
  ml_etcd :: etcd_link
  ml_app :: app_info
  ml_curl_global :: int
  ml_curl_multi :: bool

definition etcd_module_new :: "int \<Rightarrow> etcd_module" where
  "etcd_module_new now = \<lparr>em_conf = module_conf_new, em_curl = False, em_cleanup = None, em_ctx = etcd_new now,
     em_by_id = [], em_by_name = [], em_wrappers = [], em_calls = [], em_app_stops = 0, em_stuck = False\<rparr>"

text \<open>An operation of the client, within the module.\<close>

definition in_ctx :: "'a em \<Rightarrow> 'a mm" where
  "in_ctx m = do {
     c \<leftarrow> gets em_ctx;
     (case run_state m c of (x, c') \<Rightarrow> do { modify (\<lambda>s. s\<lparr>em_ctx := c'\<rparr>); ret x })
   }"

definition app_stop :: "unit mm" where
  "app_stop = modify (\<lambda>s. s\<lparr>em_app_stops := Suc (em_app_stops s)\<rparr>)"

section \<open>Paths\<close>

definition by_dir :: "module_conf_t \<Rightarrow> string \<Rightarrow> string" where
  "by_dir conf dir = path_prefix conf @ dir"

definition num_text :: "module_link \<Rightarrow> int \<Rightarrow> string" where
  "num_text M i = jl_show_int (el_json (ml_etcd M)) i"

definition get_by_id_path :: "module_link \<Rightarrow> module_conf_t \<Rightarrow> string" where
  "get_by_id_path M conf = by_dir conf ''by_id'' @ ''/'' @ num_text M (app_id (ml_app M))"

definition get_by_type_id_path :: "module_link \<Rightarrow> module_conf_t \<Rightarrow> string" where
  "get_by_type_id_path M conf = by_dir conf ''by_type_id'' @ ''/'' @ num_text M (app_type_id (ml_app M)) @ ''/'' @
     num_text M (app_id (ml_app M))"

definition get_by_type_name_path :: "module_link \<Rightarrow> module_conf_t \<Rightarrow> string" where
  "get_by_type_name_path M conf = by_dir conf ''by_type_name'' @ ''/'' @ app_type_name (ml_app M) @ ''/'' @
     num_text M (app_id (ml_app M))"

definition get_by_name_path :: "module_link \<Rightarrow> module_conf_t \<Rightarrow> string" where
  "get_by_name_path M conf = by_dir conf ''by_name'' @ ''/'' @ app_name (ml_app M)"

definition get_by_tag_path :: "module_link \<Rightarrow> module_conf_t \<Rightarrow> string \<Rightarrow> string" where
  "get_by_tag_path M conf tag = by_dir conf ''by_tag'' @ ''/'' @ tag @ ''/'' @ num_text M (app_id (ml_app M))"

definition get_by_id_watcher_path :: "module_conf_t \<Rightarrow> string" where
  "get_by_id_watcher_path conf = by_dir conf ''by_id''"

definition get_by_type_id_watcher_path :: "module_link \<Rightarrow> module_conf_t \<Rightarrow> int \<Rightarrow> string" where
  "get_by_type_id_watcher_path M conf type_id = by_dir conf ''by_type_id'' @ ''/'' @ num_text M type_id"

definition get_by_type_name_watcher_path :: "module_conf_t \<Rightarrow> string \<Rightarrow> string" where
  "get_by_type_name_watcher_path conf type_name = by_dir conf ''by_type_name'' @ ''/'' @ type_name"

definition get_by_name_watcher_path :: "module_conf_t \<Rightarrow> string" where
  "get_by_name_watcher_path conf = by_dir conf ''by_name''"

definition get_by_tag_watcher_path :: "module_conf_t \<Rightarrow> string \<Rightarrow> string" where
  "get_by_tag_watcher_path conf tag = by_dir conf ''by_tag'' @ ''/'' @ tag"

section \<open>Configuration\<close>

text \<open>
  The loader of the framework. dump_to takes a key and whether to assign even if it is absent, and assigns or
  leaves the variable: its answer is a parameter, None where it leaves it. A duration is a pair of
  seconds and nanoseconds.
\<close>

record dump_source =
  dump_str :: "string \<Rightarrow> bool \<Rightarrow> string option"
  dump_strs :: "string \<Rightarrow> bool \<Rightarrow> string list option"
  dump_bool :: "string \<Rightarrow> bool \<Rightarrow> bool option"
  dump_dur :: "string \<Rightarrow> bool \<Rightarrow> (int \<times> int) option"

definition convert_dur :: "int \<times> int \<Rightarrow> int" where
  "convert_dur d = chrono_seconds (fst d) + snd d"

definition dumped :: "'a option \<Rightarrow> 'a \<Rightarrow> 'a" where
  "dumped a old = (case a of None \<Rightarrow> old | Some v \<Rightarrow> v)"

text \<open>A duration that is read as zero leaves the setting.\<close>

definition dur_setting :: "dump_source \<Rightarrow> string \<Rightarrow> (int \<Rightarrow> cluster_setting) \<Rightarrow> cluster_setting list" where
  "dur_setting D key mk = (let d = dumped (dump_dur D key True) (0, 0) in
     if fst d \<noteq> 0 \<or> snd d \<noteq> 0 then [mk (convert_dur d)] else [])"

definition str_setting :: "dump_source \<Rightarrow> string \<Rightarrow> (string \<Rightarrow> cluster_setting) \<Rightarrow> cluster_setting list" where
  "str_setting D key mk = [mk (dumped (dump_str D key False) [])]"

text \<open>strncasecmp with a literal and its length.\<close>

definition starts_ci :: "string \<Rightarrow> string \<Rightarrow> bool" where
  "starts_ci lit v \<longleftrightarrow> map lower_ascii (take (length lit) (c_str v)) = map lower_ascii lit"

definition ssl_version_of :: "string \<Rightarrow> ssl_version_t" where
  "ssl_version_of v =
     (if starts_ci ''TLSv1.3'' v \<or> starts_ci ''TLSv13'' v then TLS_V13
      else if starts_ci ''TLSv1.2'' v \<or> starts_ci ''TLSv12'' v then TLS_V12
      else if starts_ci ''TLSv1.1'' v \<or> starts_ci ''TLSv11'' v then TLS_V11
      else if starts_ci ''TLSv1'' v \<or> starts_ci ''TLSv1.0'' v \<or> starts_ci ''TLSv10'' v then TLS_V10
      else if starts_ci ''SSLv3'' v then SSL3
      else SSL_DISABLED)"

definition reload_settings :: "dump_source \<Rightarrow> cluster_setting list" where
  "reload_settings D =
     (let hs = dumped (dump_strs D ''atapp.etcd.hosts'' False) [] in if hs \<noteq> [] then [Conf_hosts hs] else []) @
     [Conf_authorization (dumped (dump_str D ''atapp.etcd.authorization'' True) [])] @
     dur_setting D ''atapp.etcd.request.timeout'' Conf_http_timeout @
     dur_setting D ''atapp.etcd.cluster.update_interval'' Conf_members_update_interval @
     dur_setting D ''atapp.etcd.cluster.retry_interval'' Conf_members_retry_interval @
     dur_setting D ''atapp.etcd.keepalive.timeout'' Conf_keepalive_timeout @
     dur_setting D ''atapp.etcd.keepalive.ttl'' Conf_keepalive_interval @
     [Conf_ssl_enable_alpn (dumped (dump_bool D ''atapp.etcd.ssl.enable_alpn'' False) True),
      Conf_ssl_verify_peer (dumped (dump_bool D ''atapp.etcd.ssl.verify_peer'' False) False),
      Conf_ssl_min_version (ssl_version_of (dumped (dump_str D ''atapp.etcd.ssl.ssl_min_version'' False) []))] @
     str_setting D ''atapp.etcd.ssl.ssl_client_cert'' Conf_ssl_client_cert @
     str_setting D ''atapp.etcd.ssl.ssl_client_cert_type'' Conf_ssl_client_cert_type @
     str_setting D ''atapp.etcd.ssl.ssl_client_key'' Conf_ssl_client_key @
     str_setting D ''atapp.etcd.ssl.ssl_client_key_passwd'' Conf_ssl_client_key_passwd @
     str_setting D ''atapp.etcd.ssl.ssl_ca_cert'' Conf_ssl_ca_cert @
     str_setting D ''atapp.etcd.ssl.ssl_cipher_list'' Conf_ssl_cipher_list @
     str_setting D ''atapp.etcd.ssl.ssl_cipher_list_tls13'' Conf_ssl_cipher_list_tls13"

definition with_slash :: "string \<Rightarrow> string" where
  "with_slash p = (if p \<noteq> [] \<and> last p \<noteq> CHR ''/'' \<and> last p \<noteq> CHR 0x5C then p @ ''/'' else p)"

definition dur_or :: "dump_source \<Rightarrow> string \<Rightarrow> int \<Rightarrow> int" where
  "dur_or D key old = (let d = dumped (dump_dur D key True) (0, 0) in
     if fst d \<noteq> 0 \<or> snd d \<noteq> 0 then convert_dur d else old)"

definition reload_module_conf :: "dump_source \<Rightarrow> module_conf_t \<Rightarrow> module_conf_t" where
  "reload_module_conf D c = c\<lparr>
     path_prefix := with_slash (dumped (dump_str D ''atapp.etcd.path'' False) (path_prefix c)),
     etcd_init_timeout := dur_or D ''atapp.etcd.init.timeout'' (etcd_init_timeout c),
     watcher_retry_interval := dur_or D ''atapp.etcd.watcher.retry_interval'' (watcher_retry_interval c),
     watcher_request_timeout := dur_or D ''atapp.etcd.watcher.request_timeout'' (watcher_request_timeout c),
     report_alive_by_id := dumped (dump_bool D ''atapp.etcd.report_alive.by_id'' True) (report_alive_by_id c),
     report_alive_by_type := dumped (dump_bool D ''atapp.etcd.report_alive.by_type'' True) (report_alive_by_type c),
     report_alive_by_name := dumped (dump_bool D ''atapp.etcd.report_alive.by_name'' True) (report_alive_by_name c),
     report_alive_by_tag := dumped (dump_strs D ''atapp.etcd.report_alive.by_tag'' True) (report_alive_by_tag c)\<rparr>"

definition module_reload :: "dump_source \<Rightarrow> int mm" where
  "module_reload D = do {
     modify (\<lambda>s. s\<lparr>em_conf := reload_module_conf D (em_conf s)\<rparr>);
     in_ctx (upd_conf (fold set_conf (reload_settings D)));
     ret 0
   }"

section \<open>Events of the loop\<close>

text \<open>
  What libuv and the HTTP client bring: a call of the etcd client. The wrappers are called for the events the
  client fires meanwhile; they do not touch the client, so the calls may as well be made after it.
\<close>

definition wrapper_list :: "etcd_module \<Rightarrow> wrapper \<Rightarrow> nat list" where
  "wrapper_list s w = (case w of ListById \<Rightarrow> em_by_id s | ListByName \<Rightarrow> em_by_name s | OneCallback f \<Rightarrow> [f])"

definition call_wrapper :: "module_link \<Rightarrow> etcd_event \<Rightarrow> unit mm" where
  "call_wrapper M e =
     (case e of
        EvWatchEvent i h r \<Rightarrow> modify (\<lambda>s. (case map_of (em_wrappers s) i of
            None \<Rightarrow> s
          | Some w \<Rightarrow> s\<lparr>em_calls := em_calls s @ wrapper_calls (el_json (ml_etcd M)) (wrapper_list s w) r\<rparr>))
      | _ \<Rightarrow> ret ())"

fun each_module :: "('x \<Rightarrow> unit mm) \<Rightarrow> 'x list \<Rightarrow> unit mm" where
  "each_module f [] = ret ()"
| "each_module f (x # xs) = do { f x; each_module f xs }"

definition dispatch_new :: "module_link \<Rightarrow> 'a em \<Rightarrow> 'a mm" where
  "dispatch_new M m = do {
     n \<leftarrow> gets (\<lambda>s. length (et_trace (em_ctx s)));
     x \<leftarrow> in_ctx m;
     new_events \<leftarrow> gets (\<lambda>s. drop n (et_trace (em_ctx s)));
     each_module (call_wrapper M) new_events;
     ret x
   }"

text \<open>A completion of the request that revokes the lease is the module's, with its callback; the rest is the client's.\<close>

definition http_callback_on_etcd_closed :: "unit mm" where
  "http_callback_on_etcd_closed = do {
     modify (\<lambda>s. s\<lparr>em_cleanup := None\<rparr>);
     app_stop
   }"

definition request_of :: "nat \<Rightarrow> etcd \<Rightarrow> http_request" where
  "request_of r c = (if r < length (et_requests c) then et_requests c ! r else http_request_new [])"

definition module_event :: "module_link \<Rightarrow> etcd_input \<Rightarrow> unit mm" where
  "module_event M e = do {
     c \<leftarrow> gets em_ctx;
     dispatch_new M (etcd_call (ml_etcd M) e);
     (case e of
        In_complete r err code content \<Rightarrow>
          when_do (hr_pending (request_of r c) \<and> hr_on_complete (request_of r c) = Some OnEtcdClosed \<and>
              hr_priv (request_of r c) = Some PModule)
            http_callback_on_etcd_closed
      | _ \<Rightarrow> ret ())
   }"

section \<open>Closing\<close>

definition module_reset :: "module_link \<Rightarrow> unit mm" where
  "module_reset M = do {
     ro \<leftarrow> gets em_cleanup;
     in_ctx (case ro of None \<Rightarrow> ret () | Some r \<Rightarrow> do { set_callback r None None; http_stop r });
     modify (\<lambda>s. s\<lparr>em_cleanup := None\<rparr>);
     in_ctx (cluster_reset (ml_etcd M));
     modify (\<lambda>s. s\<lparr>em_curl := False\<rparr>)
   }"

definition module_dtor :: "module_link \<Rightarrow> unit mm" where
  "module_dtor M = module_reset M"

definition module_stop :: "module_link \<Rightarrow> int mm" where
  "module_stop M = do {
     ro \<leftarrow> gets em_cleanup;
     when_do (ro = None) (do {
       ro' \<leftarrow> in_ctx (cluster_close (ml_etcd M) False);
       modify (\<lambda>s. s\<lparr>em_cleanup := ro'\<rparr>);
       (case ro' of
          None \<Rightarrow> ret ()
        | Some r \<Rightarrow> when_do (el_running (ml_etcd M) r) (in_ctx (set_callback r (Some PModule) (Some OnEtcdClosed))))
     });
     ro \<leftarrow> gets em_cleanup;
     if ro \<noteq> None then ret 1
     else do { module_reset M; ret 0 }
   }"

definition module_timeout :: "module_link \<Rightarrow> int mm" where
  "module_timeout M = do { module_reset M; ret 0 }"

section \<open>Reporting the node\<close>

definition own_node :: "module_link \<Rightarrow> module_conf_t \<Rightarrow> node_info" where
  "own_node M conf = (let a = ml_app M in \<lparr>ni_id = app_id a, ni_name = app_name a, ni_hostname = app_hostname a,
     ni_listens = app_listens a, ni_hash_code = app_hash_code a, ni_type_id = app_type_id a,
     ni_type_name = app_type_name a, ni_version = app_version a, ni_custom_data = custom_data conf,
     ni_protocol_version = app_protocol_version a, ni_protocol_min_version = app_protocol_min_version a,
     ni_action = EN_NAT_UNKNOWN\<rparr>)"

text \<open>The value is made by the first call and handed on; the result is the keepalive, if the cluster takes it.\<close>

definition add_keepalive_actor :: "module_link \<Rightarrow> string \<Rightarrow> string \<Rightarrow> (nat option \<times> string) mm" where
  "add_keepalive_actor M val node_path = do {
     conf \<leftarrow> gets em_conf;
     let v = (if val = [] then pack_node (el_json (ml_etcd M)) (own_node M conf) else val);
     i \<leftarrow> in_ctx (keepalive_create node_path);
     in_ctx (set_checker_string i v);
     in_ctx (keepalive_set_value (ml_etcd M) i v);
     added \<leftarrow> in_ctx (add_keepalive (ml_etcd M) i);
     ret (if added then Some i else None, v)
   }"

text \<open>The keepalives for a list of paths, up to the first that is refused.\<close>

fun add_actors :: "module_link \<Rightarrow> string \<Rightarrow> string list \<Rightarrow> nat list option mm" where
  "add_actors M val [] = ret (Some [])"
| "add_actors M val (p # ps) = do {
     (a, v) \<leftarrow> add_keepalive_actor M val p;
     (case a of
        None \<Rightarrow> ret None
      | Some i \<Rightarrow> do {
          rest \<leftarrow> add_actors M v ps;
          ret (map_option ((#) i) rest)
        })
   }"

definition report_paths :: "module_link \<Rightarrow> module_conf_t \<Rightarrow> string list" where
  "report_paths M conf =
     (if report_alive_by_id conf then [get_by_id_path M conf] else []) @
     (if report_alive_by_type conf then [get_by_type_id_path M conf, get_by_type_name_path M conf] else []) @
     (if report_alive_by_name conf then [get_by_name_path M conf] else []) @
     map (get_by_tag_path M conf) (filter (\<lambda>t. t \<noteq> []) (report_alive_by_tag conf))"

section \<open>Starting\<close>

text \<open>
  A turn of the loop of init: the clock as it begins, and what uv_run brings, with whether the timer of the
  timeout fired in it. The turns come from libuv; the list ends with one in which the timer has fired
  (running out of turns before is recorded).
\<close>

record init_turn =
  turn_clock :: int
  turn_events :: "etcd_input list"
  turn_timeout :: bool

definition checked_failed :: "keepalive list \<Rightarrow> bool" where
  "checked_failed ks = list_ex (\<lambda>k. ka_check_run k \<and> \<not> ka_check_passed k) ks"

definition all_checked :: "keepalive list \<Rightarrow> bool" where
  "all_checked ks \<longleftrightarrow> length ks \<le> length (filter ka_check_run ks)"

definition tried_too_often :: "stats_t \<Rightarrow> keepalive list \<Rightarrow> bool" where
  "tried_too_often st ks = list_ex (\<lambda>k. ka_retry_times k \<ge> 5 \<or> continue_error_requests st > 5) ks"

text \<open>Whether it failed and whether it timed out.\<close>

fun init_loop :: "module_link \<Rightarrow> nat list \<Rightarrow> init_turn list \<Rightarrow> (bool \<times> bool) mm" where
  "init_loop M actors [] = do { modify (\<lambda>s. s\<lparr>em_stuck := True\<rparr>); ret (True, False) }"
| "init_loop M actors (t # ts) = do {
     in_ctx (modify (\<lambda>c. c\<lparr>et_now := turn_clock t\<rparr>));
     _ \<leftarrow> dispatch_new M (cluster_tick (ml_etcd M));
     ks \<leftarrow> gets (\<lambda>s. map (\<lambda>i. ka i (em_ctx s)) actors);
     if checked_failed ks \<or> all_checked ks then ret (checked_failed ks, False)
     else do {
       each_module (module_event M) (turn_events t);
       ks' \<leftarrow> gets (\<lambda>s. map (\<lambda>i. ka i (em_ctx s)) actors);
       st \<leftarrow> gets (\<lambda>s. ec_stats (em_ctx s));
       if tried_too_often st ks' then ret (True, turn_timeout t)
       else if turn_timeout t then ret (False, True)
       else init_loop M actors ts
     }
   }"

text \<open>\<open>turns\<close> are those of the loop, \<open>closing\<close> what comes while the timers are closed.\<close>

definition module_init :: "module_link \<Rightarrow> init_turn list \<Rightarrow> etcd_input list \<Rightarrow> int mm" where
  "module_init M turns closing =
     (if ml_curl_global M \<noteq> 0 then ret (-1)
      else do {
        single \<leftarrow> gets (\<lambda>s. conf_hosts (ec_conf (em_ctx s)) = []);
        if single then ret 0
        else do {
          modify (\<lambda>s. s\<lparr>em_curl := ml_curl_multi M\<rparr>);
          if \<not> ml_curl_multi M then ret (-1)
          else do {
            in_ctx (cluster_init (ml_etcd M));
            conf \<leftarrow> gets em_conf;
            actors \<leftarrow> add_actors M [] (report_paths M conf);
            (case actors of
               None \<Rightarrow> ret (-1)
             | Some is \<Rightarrow> do {
                 (failed, timed_out) \<leftarrow> init_loop M is turns;
                 each_module (module_event M) closing;
                 if failed \<or> timed_out then do {
                   _ \<leftarrow> module_stop M;
                   module_reset M;
                   ret (-1)
                 }
                 else ret 0
               })
          }
        }
      })"

definition module_tick :: "module_link \<Rightarrow> init_turn list \<Rightarrow> etcd_input list \<Rightarrow> int mm" where
  "module_tick M turns closing = do {
     single \<leftarrow> gets (\<lambda>s. conf_hosts (ec_conf (em_ctx s)) = []);
     if single then ret 0
     else do {
       curl \<leftarrow> gets em_curl;
       res \<leftarrow> (if curl then ret 0 else module_init M turns closing);
       if res < 0 then do { app_stop; ret res }
       else dispatch_new M (cluster_tick (ml_etcd M))
     }
   }"

section \<open>Watching\<close>

text \<open>\<open>err_params\<close> is EN_ATBUS_ERR_PARAMS of the bus library; a callback is a number, None for an empty one.\<close>

definition set_wrapper :: "nat \<Rightarrow> wrapper option \<Rightarrow> unit mm" where
  "set_wrapper i w = do {
     modify (\<lambda>s. s\<lparr>em_wrappers := (case w of None \<Rightarrow> AList.delete i (em_wrappers s) | Some x \<Rightarrow> AList.update i x (em_wrappers s))\<rparr>);
     in_ctx (modify (upd_wt i (set_watch_conf (Watch_evt_handle (w \<noteq> None)))))
   }"

text \<open>What the functions that watch a directory do; a watcher the cluster does not take is dropped with no error.\<close>

definition start_watcher :: "string \<Rightarrow> wrapper \<Rightarrow> unit mm" where
  "start_watcher watch_path w = do {
     conf \<leftarrow> gets em_conf;
     i \<leftarrow> in_ctx (watcher_create watch_path ''+1'');
     in_ctx (modify (upd_wt i (set_watch_conf (Watch_request_timeout (watcher_request_timeout conf)))));
     in_ctx (modify (upd_wt i (set_watch_conf (Watch_retry_interval (watcher_retry_interval conf)))));
     _ \<leftarrow> in_ctx (add_watcher i);
     set_wrapper i (Some w)
   }"

definition add_watcher_by_id :: "int \<Rightarrow> nat option \<Rightarrow> int mm" where
  "add_watcher_by_id err_params fn =
     (case fn of
        None \<Rightarrow> ret err_params
      | Some f \<Rightarrow> do {
          conf \<leftarrow> gets em_conf;
          first \<leftarrow> gets (\<lambda>s. em_by_id s = []);
          when_do first (start_watcher (get_by_id_watcher_path conf) ListById);
          modify (\<lambda>s. s\<lparr>em_by_id := em_by_id s @ [f]\<rparr>);
          ret 0
        })"

definition add_watcher_by_name :: "int \<Rightarrow> nat option \<Rightarrow> int mm" where
  "add_watcher_by_name err_params fn =
     (case fn of
        None \<Rightarrow> ret err_params
      | Some f \<Rightarrow> do {
          conf \<leftarrow> gets em_conf;
          first \<leftarrow> gets (\<lambda>s. em_by_name s = []);
          when_do first (start_watcher (get_by_name_watcher_path conf) ListByName);
          modify (\<lambda>s. s\<lparr>em_by_name := em_by_name s @ [f]\<rparr>);
          ret 0
        })"

definition add_watcher_by_type_id :: "module_link \<Rightarrow> int \<Rightarrow> int \<Rightarrow> nat option \<Rightarrow> int mm" where
  "add_watcher_by_type_id M err_params type_id fn =
     (case fn of
        None \<Rightarrow> ret err_params
      | Some f \<Rightarrow> do {
          conf \<leftarrow> gets em_conf;
          start_watcher (get_by_type_id_watcher_path M conf type_id) (OneCallback f);
          ret 0
        })"

definition add_watcher_by_type_name :: "int \<Rightarrow> string \<Rightarrow> nat option \<Rightarrow> int mm" where
  "add_watcher_by_type_name err_params type_name fn =
     (case fn of
        None \<Rightarrow> ret err_params
      | Some f \<Rightarrow> do {
          conf \<leftarrow> gets em_conf;
          start_watcher (get_by_type_name_watcher_path conf type_name) (OneCallback f);
          ret 0
        })"

definition add_watcher_by_tag :: "int \<Rightarrow> string \<Rightarrow> nat option \<Rightarrow> int mm" where
  "add_watcher_by_tag err_params tag fn =
     (case fn of
        None \<Rightarrow> ret err_params
      | Some f \<Rightarrow> do {
          conf \<leftarrow> gets em_conf;
          i \<leftarrow> in_ctx (watcher_create (get_by_tag_watcher_path conf tag) ''+1'');
          _ \<leftarrow> in_ctx (add_watcher i);
          set_wrapper i (Some (OneCallback f));
          ret 0
        })"

text \<open>The comparison with the prefix is by strncmp, on C strings.\<close>

definition has_prefix :: "string \<Rightarrow> string \<Rightarrow> bool" where
  "has_prefix p v \<longleftrightarrow> length p \<le> length v \<and> take (length p) (c_str v) = take (length p) (c_str p)"

definition add_watcher_by_custom_path :: "string \<Rightarrow> nat option \<Rightarrow> nat option mm" where
  "add_watcher_by_custom_path custom_path fn = do {
     conf \<leftarrow> gets em_conf;
     (case fn of
        None \<Rightarrow> ret None
      | Some f \<Rightarrow>
          if \<not> has_prefix (path_prefix conf) custom_path then ret None
          else do {
            i \<leftarrow> in_ctx (watcher_create custom_path ''+1'');
            set_wrapper i (Some (OneCallback f));
            added \<leftarrow> in_ctx (add_watcher i);
            if added then ret (Some i) else do { set_wrapper i None; ret None }
          })
   }"

end
