(* ===== verification/Atproxy.thy ===== *)
theory Atproxy
  imports EtcdModule
begin

text \<open>
  The proxy (service/atproxy/atproxy_manager.cpp): it learns the other proxies from the etcd module and
  keeps connections to them. A list of checks, each with a time, says which proxy to look at next; the
  bus node of the application is a library, whose answers are parameters.
\<close>

section \<open>State\<close>

record proxy_node =
  pn_node :: node_info
  pn_next_action_time :: int
  pn_available :: bool

text \<open>A check is its time and the proxy. The addresses a connection is tried with are recorded.\<close>

record atproxy =
  ap_checks :: "(int \<times> int) list"
  ap_set :: "int \<Rightarrow> proxy_node option"
  ap_connects :: "string list"

definition atproxy_new :: atproxy where
  "atproxy_new = \<lparr>ap_checks = [], ap_set = (\<lambda>pid. None), ap_connects = []\<rparr>"

text \<open>
  What the application and the bus node answer: the time, the own id, whether there is a bus node, its
  retry interval, whether there is a connection to a proxy, whether an address can be reached from this
  host, the result of the n-th attempt to connect, the protocol versions (those of the library when
  there is no node), and whether the application is stopping.
\<close>

record proxy_env =
  pe_now :: int
  pe_self :: int
  pe_bus :: bool
  pe_retry_interval :: int
  pe_endpoint :: "int \<Rightarrow> bool"
  pe_reachable :: "string \<Rightarrow> string \<Rightarrow> bool"
  pe_connect :: "nat \<Rightarrow> string \<Rightarrow> int"
  pe_version :: int
  pe_min_version :: int
  pe_stopping :: bool

section \<open>Addresses\<close>

definition next_listen_address :: "'x list \<Rightarrow> 'x list" where
  "next_listen_address ls =
     (if length ls \<le> 1 then ls
      else if length ls = 2 then [ls ! 1, ls ! 0]
      else tl ls @ [hd ls])"

text \<open>The loop that looks for an address that can be reached; it turns the list at most once around.\<close>

fun find_address :: "('x \<Rightarrow> bool) \<Rightarrow> nat \<Rightarrow> 'x list \<Rightarrow> 'x list" where
  "find_address ok 0 ls = ls"
| "find_address ok (Suc n) ls = find_address ok n (if \<not> ok (hd ls) then next_listen_address ls else ls)"

section \<open>Operations\<close>

definition check_available :: "proxy_env \<Rightarrow> node_info \<Rightarrow> bool" where
  "check_available E n \<longleftrightarrow> ni_protocol_version n \<ge> pe_min_version E \<and> pe_version E \<ge> ni_protocol_min_version n"

definition upd_proxy :: "int \<Rightarrow> (proxy_node \<Rightarrow> proxy_node) \<Rightarrow> atproxy \<Rightarrow> atproxy" where
  "upd_proxy pid f s = s\<lparr>ap_set := (ap_set s)(pid := map_option f (ap_set s pid))\<rparr>"

definition push_check :: "int \<Rightarrow> int \<Rightarrow> atproxy \<Rightarrow> atproxy" where
  "push_check t pid s = upd_proxy pid (\<lambda>p. p\<lparr>pn_next_action_time := t\<rparr>) (s\<lparr>ap_checks := ap_checks s @ [(t, pid)]\<rparr>)"

text \<open>The connection attempt of a check that is due, and the check that is put off for it.\<close>

definition proxy_connect :: "proxy_env \<Rightarrow> int \<Rightarrow> proxy_node \<Rightarrow> atproxy \<Rightarrow> int \<times> atproxy" where
  "proxy_connect E pid p s =
     (let ls = ni_listens (pn_node p);
          ls' = find_address (pe_reachable E (ni_hostname (pn_node p))) (length ls) ls;
          res = pe_connect E (length (ap_connects s)) (c_str (hd ls'));
          t0 = pe_now E + pe_retry_interval E;
          t = (if t0 \<le> pe_now E then pe_now E + 1 else t0);
          s1 = upd_proxy pid (\<lambda>p. p\<lparr>pn_node := (pn_node p)\<lparr>ni_listens := next_listen_address ls'\<rparr>\<rparr>)
                 (s\<lparr>ap_connects := ap_connects s @ [hd ls']\<rparr>)
      in (if res \<ge> 0 then 1 else 0, push_check t pid s1))"

text \<open>A check, taken from the front of the list; the result is the number of connections begun.\<close>

definition check_proxy :: "proxy_env \<Rightarrow> int \<times> int \<Rightarrow> atproxy \<Rightarrow> int \<times> atproxy" where
  "check_proxy E ci s =
     (let timeout_sec = fst ci; pid = snd ci in
      if pid = pe_self E then (0, s)
      else (case ap_set s pid of
              None \<Rightarrow> (0, s)
            | Some p \<Rightarrow>
                if ni_listens (pn_node p) = [] then (0, s)
                else if pn_next_action_time p > timeout_sec then (0, s)
                else if pe_bus E then
                  (let s1 = upd_proxy pid (\<lambda>p. p\<lparr>pn_next_action_time := 0\<rparr>) s in
                   if pe_endpoint E pid then (0, s1)
                   else if \<not> pn_available p then (0, s1)
                   else proxy_connect E pid p s1)
                else (0, push_check (pe_now E + 1) pid s)))"

definition due :: "proxy_env \<Rightarrow> int \<times> int \<Rightarrow> bool" where
  "due E ci \<longleftrightarrow> fst ci < pe_now E"

lemma checks_upd [simp]: "ap_checks (upd_proxy pid f s) = ap_checks s"
  by (simp add: upd_proxy_def)

lemma checks_push [simp]: "ap_checks (push_check t pid s) = ap_checks s @ [(t, pid)]"
  by (simp add: push_check_def)

lemma check_adds_none_due:
  "\<exists>new. ap_checks (snd (check_proxy E ci s)) = ap_checks s @ new \<and> filter (due E) new = []"
  by (auto simp: check_proxy_def proxy_connect_def Let_def due_def split: option.splits)

lemma check_due_count: "length (filter (due E) (ap_checks (snd (check_proxy E ci s)))) = length (filter (due E) (ap_checks s))"
  using check_adds_none_due [of E ci s] by auto

text \<open>The loop of tick. A check that is put off is not due in this tick, so the loop ends.\<close>

function tick_loop :: "proxy_env \<Rightarrow> int \<Rightarrow> atproxy \<Rightarrow> int \<times> atproxy" where
  "tick_loop E n s =
     (case ap_checks s of
        [] \<Rightarrow> (n, s)
      | ci # rest \<Rightarrow>
          if pe_now E \<le> fst ci then (n, s)
          else (case check_proxy E ci (s\<lparr>ap_checks := rest\<rparr>) of (m, s') \<Rightarrow> tick_loop E (n + m) s'))"
  by pat_completeness auto
termination
proof (relation "measure (\<lambda>(E, n, s). length (filter (due E) (ap_checks s)))")
  fix E n and s :: atproxy and ci rest m s'
  assume c: "ap_checks s = ci # rest" "\<not> pe_now E \<le> fst ci" "(m, s') = check_proxy E ci (s\<lparr>ap_checks := rest\<rparr>)"
  have "length (filter (due E) (ap_checks s')) = length (filter (due E) rest)"
    using check_due_count [of E ci "s\<lparr>ap_checks := rest\<rparr>"] c(3) by (metis atproxy.select_convs(1) atproxy.surjective atproxy.update_convs(1) snd_conv)
  then show "((E, n + m, s'), E, n, s) \<in> measure (\<lambda>(E, n, s). length (filter (due E) (ap_checks s)))"
    using c by (simp add: due_def)
qed simp

definition proxy_tick :: "proxy_env \<Rightarrow> atproxy \<Rightarrow> int \<times> atproxy" where
  "proxy_tick E s = tick_loop E 0 s"

definition proxy_set :: "proxy_env \<Rightarrow> node_info \<Rightarrow> atproxy \<Rightarrow> atproxy" where
  "proxy_set E n s =
     (let now = pe_now E; pid = ni_id n in
      case ap_set s pid of
        Some p \<Rightarrow>
          if pn_next_action_time p \<ge> now then s
          else s\<lparr>ap_set := (ap_set s)(pid \<mapsto> p\<lparr>pn_next_action_time := now, pn_node := n\<rparr>), ap_checks := (now, pid) # ap_checks s\<rparr>
      | None \<Rightarrow> s\<lparr>ap_set := (ap_set s)(pid \<mapsto> \<lparr>pn_node = n, pn_next_action_time = now, pn_available = check_available E n\<rparr>),
          ap_checks := (now, pid) # ap_checks s\<rparr>)"

definition proxy_remove :: "int \<Rightarrow> atproxy \<Rightarrow> atproxy" where
  "proxy_remove pid s = s\<lparr>ap_set := (ap_set s)(pid := None)\<rparr>"

definition reset_one :: "proxy_env \<Rightarrow> atproxy \<Rightarrow> proxy_node \<Rightarrow> atproxy" where
  "reset_one E s p =
     (if ni_listens (pn_node p) = [] then s
      else (let now = pe_now E; pid = ni_id (pn_node p) in
        s\<lparr>ap_set := (ap_set s)(pid \<mapsto> p\<lparr>pn_next_action_time := now, pn_available := check_available E (pn_node p)\<rparr>),
          ap_checks := (now, pid) # ap_checks s\<rparr>))"

definition proxy_reset :: "proxy_env \<Rightarrow> proxy_node list \<Rightarrow> atproxy \<Rightarrow> atproxy" where
  "proxy_reset E nodes s = foldl (reset_one E) (s\<lparr>ap_set := (\<lambda>pid. None), ap_checks := []\<rparr>) nodes"

definition on_connected :: "int \<Rightarrow> atproxy \<Rightarrow> atproxy" where
  "on_connected pid s = s"

definition on_disconnected :: "proxy_env \<Rightarrow> int \<Rightarrow> atproxy \<Rightarrow> atproxy" where
  "on_disconnected E pid s =
     (case ap_set s pid of
        None \<Rightarrow> s
      | Some p \<Rightarrow>
          (let t = (if pe_stopping E then pe_now E - 1
                    else if pe_bus E \<and> pe_retry_interval E > 0 then pe_now E + pe_retry_interval E
                    else pe_now E + 1)
           in if pn_next_action_time p < t then push_check t pid s else s))"

definition on_watcher_notify :: "proxy_env \<Rightarrow> node_info \<Rightarrow> atproxy \<Rightarrow> atproxy" where
  "on_watcher_notify E n s =
     (case ni_action n of EN_NAT_DELETE \<Rightarrow> proxy_remove (ni_id n) s | _ \<Rightarrow> proxy_set E n s)"

text \<open>swap, member by member: what \<open>l\<close> and \<open>r\<close> are after it.\<close>

definition node_members :: "node_info \<Rightarrow> node_info \<Rightarrow> node_info" where
  "node_members n m = m\<lparr>ni_id := ni_id n, ni_name := ni_name n, ni_hostname := ni_hostname n, ni_listens := ni_listens n,
     ni_hash_code := ni_hash_code n, ni_type_id := ni_type_id n, ni_type_name := ni_type_name n, ni_action := ni_action n,
     ni_version := ni_version n, ni_custom_data := ni_custom_data n, ni_protocol_version := ni_protocol_version n,
     ni_protocol_min_version := ni_protocol_min_version n\<rparr>"

definition proxy_swap :: "proxy_node \<Rightarrow> proxy_node \<Rightarrow> proxy_node \<times> proxy_node" where
  "proxy_swap l r =
     (l\<lparr>pn_node := node_members (pn_node r) (pn_node l), pn_next_action_time := pn_next_action_time r,
        pn_available := pn_available r\<rparr>,
      r\<lparr>pn_node := node_members (pn_node l) (pn_node r), pn_next_action_time := pn_next_action_time l,
        pn_available := pn_available l\<rparr>)"

lemma proxy_swap_all: "proxy_swap l r = (r, l)"
  by (cases l; cases r) (simp add: proxy_swap_def node_members_def)

text \<open>The handlers the main function registers, on an endpoint with the id \<open>ep\<close>.\<close>

definition app_handle_on_connected :: "int \<Rightarrow> atproxy \<Rightarrow> int \<times> atproxy" where
  "app_handle_on_connected ep s = (0, on_connected ep s)"

definition app_handle_on_disconnected :: "proxy_env \<Rightarrow> int \<Rightarrow> atproxy \<Rightarrow> int \<times> atproxy" where
  "app_handle_on_disconnected E ep s = (0, on_disconnected E ep s)"

text \<open>init, on the state of the etcd module it is bound to, if any; \<open>cb\<close> is on_watcher_notify.\<close>

definition proxy_init :: "module_link \<Rightarrow> int \<Rightarrow> nat \<Rightarrow> bool \<Rightarrow> int mm" where
  "proxy_init M err_params cb bound =
     (if \<not> bound then ret (-1)
      else do {
        r \<leftarrow> add_watcher_by_type_name err_params (app_type_name (ml_app M)) (Some cb);
        ret (if r < 0 then r else 0)
      })"

end
