(* ===== verification/AtproxyProps.thy ===== *)
theory AtproxyProps
  imports Atproxy
begin

text \<open>
  The proxy: the address it picks, the checks it keeps, when it connects; and the start of the etcd
  module, which waits for the checks of its keepalives.
\<close>

section \<open>Addresses\<close>

lemma next_rotate: "next_listen_address ls = rotate1 ls"
proof (cases ls)
  case (Cons a as)
  then show ?thesis by (cases as; cases "tl as") (auto simp: next_listen_address_def)
qed (simp add: next_listen_address_def)

lemma find_first:
  "list_ex ok ls \<Longrightarrow> length (takeWhile (\<lambda>x. \<not> ok x) ls) \<le> n \<Longrightarrow>
    find_address ok n ls = dropWhile (\<lambda>x. \<not> ok x) ls @ takeWhile (\<lambda>x. \<not> ok x) ls"
proof (induction n arbitrary: ls)
  case 0
  then show ?case by (cases ls) (auto split: if_splits)
next
  case (Suc n)
  then obtain a as where ls: "ls = a # as" by (cases ls) auto
  show ?case
  proof (cases "ok a")
    case True
    then show ?thesis using Suc ls by simp
  next
    case False
    then have "list_ex ok as" using Suc.prems ls by simp
    then obtain x where x: "x \<in> set as" "\<not> \<not> ok x" by (auto simp: list_ex_iff)
    have t: "takeWhile (\<lambda>x. \<not> ok x) (as @ [a]) = takeWhile (\<lambda>x. \<not> ok x) as"
      "dropWhile (\<lambda>x. \<not> ok x) (as @ [a]) = dropWhile (\<lambda>x. \<not> ok x) as @ [a]"
      using takeWhile_append1 [of x as "\<lambda>x. \<not> ok x"] dropWhile_append1 [of x as "\<lambda>x. \<not> ok x"] x by simp_all
    have "find_address ok n (as @ [a]) = dropWhile (\<lambda>x. \<not> ok x) (as @ [a]) @ takeWhile (\<lambda>x. \<not> ok x) (as @ [a])"
      by (rule Suc.IH) (use Suc.prems ls False t in simp_all)
    then show ?thesis using ls False by (simp add: next_rotate t)
  qed
qed

lemma find_none: "\<not> list_ex ok ls \<Longrightarrow> find_address ok n ls = rotate n ls"
proof (induction n arbitrary: ls)
  case (Suc n)
  then show ?case by (cases ls) (simp_all add: next_rotate rotate1_rotate_swap [symmetric] rotate_def funpow_swap1)
qed simp

text \<open>Picking an address. The loop turns the addresses of a proxy to the first that can be reached,
  with the order kept, or all the way around when there is none.\<close>

theorem address_choice:
  "find_address ok (length ls) ls =
    (if list_ex ok ls then dropWhile (\<lambda>x. \<not> ok x) ls @ takeWhile (\<lambda>x. \<not> ok x) ls else ls)"
  using find_first [of ok ls "length ls"] find_none [of ok ls "length ls"] by (simp add: length_takeWhile_le)

section \<open>Checks\<close>

datatype proxy_input = Pin_tick | Pin_notify node_info | Pin_reset "proxy_node list" | Pin_connected int | Pin_disconnected int

fun proxy_call :: "proxy_env \<times> proxy_input \<Rightarrow> atproxy \<Rightarrow> atproxy" where
  "proxy_call (E, Pin_tick) s = snd (proxy_tick E s)"
| "proxy_call (E, Pin_notify n) s = on_watcher_notify E n s"
| "proxy_call (E, Pin_reset ps) s = proxy_reset E ps s"
| "proxy_call (E, Pin_connected pid) s = on_connected pid s"
| "proxy_call (E, Pin_disconnected pid) s = on_disconnected E pid s"

text \<open>A proxy other than this one, with an address and a time for its next action, has a check at that time.\<close>

definition checked :: "int \<Rightarrow> atproxy \<Rightarrow> bool" where
  "checked self s \<longleftrightarrow> (\<forall>pid p. ap_set s pid = Some p \<longrightarrow> pid \<noteq> self \<longrightarrow> ni_listens (pn_node p) \<noteq> [] \<longrightarrow>
     pn_next_action_time p \<noteq> 0 \<longrightarrow> (pn_next_action_time p, pid) \<in> set (ap_checks s))"

lemma set_upd [simp]: "ap_set (upd_proxy pid f s) = (ap_set s)(pid := map_option f (ap_set s pid))"
  by (simp add: upd_proxy_def)

lemma set_push [simp]:
  "ap_set (push_check t pid s) = (ap_set s)(pid := map_option (\<lambda>p. p\<lparr>pn_next_action_time := t\<rparr>) (ap_set s pid))"
  by (simp add: push_check_def)

lemma check_proxy_checked:
  assumes "checked (pe_self E) s" and "ap_checks s = ci # rest"
  shows "checked (pe_self E) (snd (check_proxy E ci (s\<lparr>ap_checks := rest\<rparr>)))"
  using assms
  by (cases ci) (fastforce simp: checked_def check_proxy_def proxy_connect_def Let_def split: option.splits if_splits)

lemma tick_checked: "checked (pe_self E) s \<Longrightarrow> checked (pe_self E) (snd (tick_loop E n s))"
proof (induction E n s rule: tick_loop.induct)
  case (1 E n s)
  show ?case
  proof (cases "ap_checks s")
    case (Cons ci rest)
    show ?thesis
    proof (cases "pe_now E \<le> fst ci")
      case False
      obtain m s' where m: "check_proxy E ci (s\<lparr>ap_checks := rest\<rparr>) = (m, s')" by fastforce
      have "checked (pe_self E) s'" using check_proxy_checked [OF 1(2) Cons] m by simp
      from 1(1) [OF Cons False m [symmetric] this] show ?thesis using Cons False m by (subst tick_loop.simps) simp
    qed (use 1 Cons in \<open>simp add: tick_loop.simps\<close>)
  qed (use 1 in \<open>simp add: tick_loop.simps\<close>)
qed

lemma reset_one_checked: "checked self s \<Longrightarrow> checked self (reset_one E s p)"
  by (auto simp: checked_def reset_one_def Let_def)

lemma reset_checked: "checked self s \<Longrightarrow> checked self (foldl (reset_one E) s ps)"
  by (induction ps arbitrary: s) (simp_all add: reset_one_checked)

lemma call_checked:
  assumes "checked self s" and "pe_self E = self"
  shows "checked self (proxy_call (E, i) s)"
proof (cases i)
  case Pin_tick
  then show ?thesis using assms tick_checked [of E s 0] by (simp add: proxy_tick_def)
next
  case (Pin_notify n)
  then show ?thesis using assms
    by (auto simp: on_watcher_notify_def proxy_remove_def proxy_set_def checked_def Let_def split: node_action_t.splits option.splits)
next
  case (Pin_reset ps)
  have "checked self (s\<lparr>ap_set := (\<lambda>pid. None), ap_checks := []\<rparr>)" by (simp add: checked_def)
  then show ?thesis using Pin_reset reset_checked by (simp add: proxy_reset_def)
next
  case (Pin_connected pid)
  then show ?thesis using assms by (simp add: on_connected_def)
next
  case (Pin_disconnected pid)
  then show ?thesis using assms
    by (auto simp: on_disconnected_def checked_def Let_def split: option.splits)
qed

lemma run_checked: "checked self s \<Longrightarrow> (\<forall>ei \<in> set is. pe_self (fst ei) = self) \<Longrightarrow> checked self (fold proxy_call is s)"
proof (induction "is" arbitrary: s)
  case (Cons ei "is")
  then show ?case using call_checked [of self s "fst ei" "snd ei"] by simp
qed simp

text \<open>C38: No proxy is forgotten. Over any sequence of ticks, notifications, resets and disconnections from the
  start on, a proxy other than this one that has an address and a time for its next action has a
  check at that time in the list.\<close>

theorem pending_check_kept:
  assumes "\<forall>ei \<in> set is. pe_self (fst ei) = self"
    and "ap_set (fold proxy_call is atproxy_new) pid = Some p" and "pid \<noteq> self"
    and "ni_listens (pn_node p) \<noteq> []" and "pn_next_action_time p \<noteq> 0"
  shows "(pn_next_action_time p, pid) \<in> set (ap_checks (fold proxy_call is atproxy_new))"
proof -
  have "checked self atproxy_new" by (simp add: checked_def atproxy_new_def)
  from run_checked [OF this assms(1)] assms(2-5) show ?thesis by (simp add: checked_def)
qed

section \<open>Connecting\<close>

lemma check_connects: "\<exists>xs. ap_connects (snd (check_proxy E ci s)) = ap_connects s @ xs"
  by (auto simp: check_proxy_def proxy_connect_def push_check_def upd_proxy_def Let_def split: option.splits)

lemma tick_extends: "\<exists>xs. ap_connects (snd (tick_loop E n s)) = ap_connects s @ xs"
proof (induction E n s rule: tick_loop.induct)
  case (1 E n s)
  show ?case
  proof (cases "ap_checks s")
    case (Cons ci rest)
    show ?thesis
    proof (cases "pe_now E \<le> fst ci")
      case False
      obtain m s' where m: "check_proxy E ci (s\<lparr>ap_checks := rest\<rparr>) = (m, s')" by fastforce
      obtain xs where "ap_connects s' = ap_connects s @ xs" using check_connects [of E ci "s\<lparr>ap_checks := rest\<rparr>"] m by auto
      moreover obtain ys where "ap_connects (snd (tick_loop E (n + m) s')) = ap_connects s' @ ys"
        using 1 [OF Cons False m [symmetric]] by blast
      ultimately show ?thesis using Cons False m by (subst tick_loop.simps) simp
    qed (use Cons in \<open>simp add: tick_loop.simps\<close>)
  qed (simp add: tick_loop.simps)
qed

lemma find_dropWhile: "find ok ls = Some a \<Longrightarrow> (\<exists>ys. dropWhile (\<lambda>x. \<not> ok x) ls = a # ys) \<and> list_ex ok ls"
  by (induction ls) (auto split: if_splits)

text \<open>A due check connects. When the first check of the list is due and its proxy is another one that is
  available, not connected and has an address that can be reached, the tick begins with a connection
  to the first such address.\<close>

theorem tick_connects:
  assumes "ap_checks s = (t, pid) # rest" and "t < pe_now E" and "pid \<noteq> pe_self E" and "ap_set s pid = Some p"
    and "pn_next_action_time p \<le> t" and "pe_bus E" and "\<not> pe_endpoint E pid" and "pn_available p"
    and "find (pe_reachable E (ni_hostname (pn_node p))) (ni_listens (pn_node p)) = Some a"
  shows "\<exists>xs. ap_connects (snd (proxy_tick E s)) = ap_connects s @ a # xs"
proof -
  let ?ok = "pe_reachable E (ni_hostname (pn_node p))" and ?ls = "ni_listens (pn_node p)"
  obtain ys where ys: "dropWhile (\<lambda>x. \<not> ?ok x) ?ls = a # ys" and ex: "list_ex ?ok ?ls"
    using find_dropWhile [OF assms(9)] by blast
  then have hd: "hd (find_address ?ok (length ?ls) ?ls) = a"
    using find_first [OF ex length_takeWhile_le] by simp
  have ne: "?ls \<noteq> []" using ex by auto
  obtain m s' where m: "check_proxy E (t, pid) (s\<lparr>ap_checks := rest\<rparr>) = (m, s')" by fastforce
  have "ap_connects s' = ap_connects s @ [a]"
    using m assms ne hd by (auto simp: check_proxy_def proxy_connect_def push_check_def upd_proxy_def Let_def)
  moreover obtain ys where "ap_connects (snd (tick_loop E (0 + m) s')) = ap_connects s' @ ys" using tick_extends by blast
  ultimately show ?thesis using m assms(1,2) unfolding proxy_tick_def by (subst tick_loop.simps) simp
qed

text \<open>New addresses are ignored while a reconnect waits. When a proxy is lost and reports itself anew with
  other addresses before the time of the retry, the report is dropped, and the retry goes to the
  addresses it had before.\<close>

theorem stale_address:
  assumes "ap_set s (ni_id n) = Some p" and "ni_action n = EN_NAT_PUT" and "\<not> pe_stopping E" and "pe_bus E"
    and "pe_retry_interval E > 0" and "pe_now E' \<le> pe_now E + pe_retry_interval E"
  shows "map_option pn_node (ap_set (on_watcher_notify E' n (on_disconnected E (ni_id n) s)) (ni_id n)) = Some (pn_node p)"
  using assms by (auto simp: on_watcher_notify_def on_disconnected_def proxy_set_def Let_def)

end
