(* ===== verification/ModuleProps.thy ===== *)
theory ModuleProps
  imports EtcdModule EtcdProps
begin

text \<open>
  The etcd module: the start waits for the checks of the keepalives, and a key that holds the value of
  another node is left alone.
\<close>

section \<open>The lock\<close>

lemma upd_ka_twice: "upd_ka i f (upd_ka i g s) = upd_ka i (\<lambda>k. f (g k)) s"
  by (cases "i < length (et_keepalives s)") (simp_all add: upd_ka_def list_update_beyond)

lemma refused_active:
  assumes "i < length (et_keepalives s)" and "ka_rpc (ka i s) = None" and "ka_checker (ka i s) \<noteq> None"
    and "ka_check_run (ka i s)" and "\<not> ka_check_passed (ka i s)"
  shows "run_state (keepalive_active K i) s = ((), upd_ka i (\<lambda>k. k\<lparr>ka_actived := False\<rparr>) s)"
proof -
  obtain f where "ka_checker (ka i s) = Some f" using assms(3) by blast
  then show ?thesis using assms(1,2,4,5)
    by (simp add: keepalive_active_def keepalive_process_def keepalive_request_def upd_ka_twice)
qed

lemma raise_each: "run_state (for_each et_raise bad) s = ((), s\<lparr>et_faults := et_faults s @ bad\<rparr>)"
  by (induction bad arbitrary: s) (simp_all add: et_raise_def)

text \<open>C39: A key is a lock. When the check of a keepalive finds a value of another node under its path, it is
  refused: no request is made then, and none when the cluster renews its keepalives.\<close>

theorem foreign_value_blocks:
  assumes "i < length (et_keepalives s)" and "ka_checker (ka i s) = Some (default_checker v)"
    and "\<not> failed_response K err http_code" and "got_value (el_json K) content = Some (w, bad)" and "w \<noteq> []" and "w \<noteq> v"
  shows "let s' = snd (run_state (callback_on_get_data K i err http_code content) s) in
    ka_rpc (ka i s') = None \<and> ka_check_run (ka i s') \<and> \<not> ka_check_passed (ka i s') \<and> et_requests s' = et_requests s \<and>
    et_requests (snd (run_state (renew_keepalive K i) s')) = et_requests s"
proof -
  let ?s1 = "upd_ka i (\<lambda>k. k\<lparr>ka_rpc := None, ka_retry_times := ka_retry_times k + 1\<rparr>) s"
  let ?s2 = "upd_ka i (\<lambda>k. k\<lparr>ka_check_run := True,
      ka_check_passed := (case ka_checker k of None \<Rightarrow> True | Some f \<Rightarrow> f w)\<rparr>) (?s1\<lparr>et_faults := et_faults ?s1 @ bad\<rparr>)"
  let ?s3 = "upd_ka i (\<lambda>k. k\<lparr>ka_actived := False\<rparr>) ?s2"
  have k2: "ka i ?s2 = (ka i s)\<lparr>ka_rpc := None, ka_retry_times := ka_retry_times (ka i s) + 1, ka_check_run := True,
      ka_check_passed := False\<rparr>"
    using assms(1,2,5,6) by (simp add: ka_def upd_ka_def default_checker_def)
  have l: "i < length (et_keepalives ?s2)" using assms(1) by (simp add: upd_ka_def)
  have "run_state (keepalive_active K i) ?s2 = ((), ?s3)"
    by (rule refused_active) (use l k2 assms(2) in simp_all)
  then have run: "snd (run_state (callback_on_get_data K i err http_code content) s) = ?s3"
    using assms(3,4) by (simp add: callback_on_get_data_def raise_each)
  let ?s4 = "upd_ka i (\<lambda>k. k\<lparr>ka_value_changed := True\<rparr>) ?s3"
  have k3: "ka i ?s3 = (ka i ?s2)\<lparr>ka_actived := False\<rparr>" "ka i ?s4 = (ka i ?s2)\<lparr>ka_actived := False, ka_value_changed := True\<rparr>"
    "i < length (et_keepalives ?s4)" "et_requests ?s3 = et_requests s" "et_requests ?s4 = et_requests s"
    using l by (simp_all add: ka_def upd_ka_def)
  have "run_state (keepalive_active K i) ?s4 = ((), upd_ka i (\<lambda>k. k\<lparr>ka_actived := False\<rparr>) ?s4)"
    by (rule refused_active) (use k2 k3 assms(2) in simp_all)
  then have "snd (run_state (renew_keepalive K i) ?s3) = upd_ka i (\<lambda>k. k\<lparr>ka_actived := False\<rparr>) ?s4"
    by (simp add: renew_keepalive_def reset_value_changed_def)
  then have "et_requests (snd (run_state (renew_keepalive K i) ?s3)) = et_requests s"
    using k3(5) by (simp add: upd_ka_def)
  then show ?thesis unfolding run Let_def using k2 k3 by simp
qed

section \<open>Starting\<close>

lemma all_checked_run: "all_checked ks \<Longrightarrow> k \<in> set ks \<Longrightarrow> ka_check_run k"
proof (rule ccontr)
  assume a: "all_checked ks" and k: "k \<in> set ks" "\<not> ka_check_run k"
  then have "length (filter ka_check_run ks) < length ks" by (simp add: length_filter_less)
  then show False using a by (simp add: all_checked_def)
qed

text \<open>The start waits for the locks. When the loop of init ends without a failure and without a timeout,
  the check of every keepalive has run and passed.\<close>

theorem init_loop_checked:
  assumes "run_state (init_loop M is ts) s = ((False, False), s')" and "i \<in> set is"
  shows "ka_check_run (ka i (em_ctx s')) \<and> ka_check_passed (ka i (em_ctx s'))"
  using assms
proof (induction M "is" ts arbitrary: s rule: init_loop.induct)
  case (1 M "is")
  then show ?case by simp
next
  case (2 M "is" t ts)
  let ?clock = "in_ctx (modify (\<lambda>c. c\<lparr>et_now := turn_clock t\<rparr>))"
  obtain s1 where s1: "run_state ?clock s = ((), s1)" by (cases "run_state ?clock s") simp
  obtain n s2 where s2: "run_state (dispatch_new M (cluster_tick (ml_etcd M))) s1 = (n, s2)" by fastforce
  let ?ks = "map (\<lambda>i. ka i (em_ctx s2)) is"
  show ?case
  proof (cases "checked_failed ?ks \<or> all_checked ?ks")
    case True
    then have f: "\<not> checked_failed ?ks" "all_checked ?ks" "s' = s2"
      using 2(2) s1 s2 by auto
    then show ?thesis using 2(3) all_checked_run [OF f(2)] by (auto simp: checked_failed_def list_ex_iff)
  next
    case False
    obtain s3 where s3: "run_state (each_module (module_event M) (turn_events t)) s2 = ((), s3)"
      by (cases "run_state (each_module (module_event M) (turn_events t)) s2") simp
    have "\<not> tried_too_often (ec_stats (em_ctx s3)) (map (\<lambda>i. ka i (em_ctx s3)) is)" "\<not> turn_timeout t"
      "run_state (init_loop M is ts) s3 = ((False, False), s')"
      using 2(2) False s1 s2 s3 by (auto split: if_splits)
    then show ?thesis using 2(1) [OF False] 2(3) by blast
  qed
qed

end
