(* ===== verification/NodeWitness.thy ===== *)
theory NodeWitness
  imports EtcdWitness AtproxyProps ModuleProps
begin

text \<open>
  The theorems about the etcd module and the proxy at concrete inputs.
\<close>

section \<open>Nodes\<close>

definition node0 :: node_info where
  "node0 = node_reset\<lparr>ni_id := 7, ni_name := ''proxy-7'', ni_hostname := ''h'', ni_listens := [''a'', ''b'', ''c''],
     ni_version := ''1.0'', ni_protocol_version := 2, ni_protocol_min_version := 1\<rparr>"

definition node_lib :: json_lib where
  "node_lib = lib0\<lparr>jl_parse := (\<lambda>t. if t = ''{}'' then Some (node_doc node0) else None)\<rparr>"

lemma node_info_round_trip_witness: "unpack_node node_lib node_reset ''/by_id/7'' (pack_node node_lib node0) True = (True, node0)"
  by (rule node_info_round_trip)
    (simp_all add: node0_def node_reset_def node_plain_def fits_u64_def pack_node_def node_lib_def lib0_def parse_object_def
      c_str_def node_doc_def)

section \<open>The proxy\<close>

definition env0 :: proxy_env where
  "env0 = \<lparr>pe_now = 100, pe_self = 1, pe_bus = True, pe_retry_interval = 3, pe_endpoint = (\<lambda>pid. False),
     pe_reachable = (\<lambda>host a. a = ''b''), pe_connect = (\<lambda>n a. 0), pe_version = 2, pe_min_version = 2, pe_stopping = False\<rparr>"

definition inputs0 :: "(proxy_env \<times> proxy_input) list" where
  "inputs0 = [(env0, Pin_notify (node0\<lparr>ni_action := EN_NAT_PUT\<rparr>))]"

lemma pending_check_kept_witness: "(100, 7) \<in> set (ap_checks (fold proxy_call inputs0 atproxy_new))"
proof -
  have e: "\<forall>ei \<in> set inputs0. pe_self (fst ei) = 1" by (simp add: inputs0_def env0_def)
  have s: "ap_set (fold proxy_call inputs0 atproxy_new) 7 = Some \<lparr>pn_node = node0\<lparr>ni_action := EN_NAT_PUT\<rparr>,
      pn_next_action_time = 100, pn_available = True\<rparr>"
    by (simp add: inputs0_def on_watcher_notify_def proxy_set_def atproxy_new_def node0_def node_reset_def env0_def check_available_def)
  show ?thesis using pending_check_kept [OF e s] by (simp add: node0_def)
qed

definition proxy0 :: atproxy where
  "proxy0 = \<lparr>ap_checks = [(90, 7)],
     ap_set = (\<lambda>pid. if pid = 7 then Some \<lparr>pn_node = node0, pn_next_action_time = 90, pn_available = True\<rparr> else None),
     ap_connects = []\<rparr>"

lemma tick_connects_witness: "hd (ap_connects (snd (proxy_tick env0 proxy0))) = ''b''"
proof -
  have "\<exists>xs. ap_connects (snd (proxy_tick env0 proxy0)) = ap_connects proxy0 @ ''b'' # xs"
    by (rule tick_connects [of proxy0 90 7 "[]" env0 "\<lparr>pn_node = node0, pn_next_action_time = 90, pn_available = True\<rparr>"])
      (simp_all add: proxy0_def env0_def node0_def)
  then show ?thesis by (auto simp: proxy0_def)
qed

lemma stale_address_witness:
  "map_option pn_node (ap_set (on_watcher_notify env0 (node0\<lparr>ni_action := EN_NAT_PUT, ni_listens := [''d'']\<rparr>)
    (on_disconnected env0 7 proxy0)) 7) = Some node0"
  using stale_address [of proxy0 "node0\<lparr>ni_action := EN_NAT_PUT, ni_listens := [''d'']\<rparr>"
      "\<lparr>pn_node = node0, pn_next_action_time = 90, pn_available = True\<rparr>" env0 env0]
  by (simp add: proxy0_def env0_def node0_def)

section \<open>The module\<close>

text \<open>A keepalive whose key holds the value of another node.\<close>

definition locked0 :: etcd where
  "locked0 = etcd0\<lparr>et_keepalives := [(keepalive_new ''/a'')\<lparr>ka_checker := Some (default_checker ''mine''), ka_value := ''mine''\<rparr>]\<rparr>"

definition lock_link :: etcd_link where
  "lock_link = link0\<lparr>el_json := lib0\<lparr>jl_parse := (\<lambda>t. Some (JObj [(''count'', JInt 1),
     (''kvs'', JArr [JObj [(''value'', JStr ''theirs'')]])])), jl_b64_decode := (\<lambda>t. (True, t))\<rparr>\<rparr>"

lemma foreign_value_blocks_witness:
  "\<not> ka_check_passed (ka 0 (snd (run_state (callback_on_get_data lock_link 0 0 200 ''{}'') locked0)))"
proof -
  have g: "got_value (el_json lock_link) ''{}'' = Some (''theirs'', [])"
    by (simp add: got_value_def lock_link_def parse_object_def unpack_int_def find_member_def fits_i64_def unpack_base64_def c_str_def)
  show ?thesis
    using foreign_value_blocks [of 0 locked0 "''mine''" lock_link 0 200 "''{}''" "''theirs''" "[]"] g
    by (simp add: Let_def locked0_def ka_def failed_response_def lock_link_def link0_def)
qed

text \<open>The module of an etcd client that waits for one keepalive, which has been checked.\<close>

definition mlink0 :: module_link where
  "mlink0 = \<lparr>ml_etcd = link0, ml_app = \<lparr>app_id = 7, app_type_id = 1, app_type_name = ''proxy'', app_name = ''proxy-7'',
     app_hostname = ''h'', app_listens = [], app_hash_code = [], app_version = ''1'', app_protocol_version = 2,
     app_protocol_min_version = 1\<rparr>, ml_curl_global = 0, ml_curl_multi = True\<rparr>"

definition module0 :: etcd_module where
  "module0 = (etcd_module_new 0)\<lparr>em_ctx := (etcd_new 0)\<lparr>et_keepalives := [(keepalive_new ''/a'')\<lparr>ka_check_run := True,
     ka_check_passed := True\<rparr>]\<rparr>\<rparr>"

definition turns0 :: "init_turn list" where
  "turns0 = [\<lparr>turn_clock = 1, turn_events = [], turn_timeout = False\<rparr>]"

lemma init_loop_checked_witness:
  "ka_check_passed (ka 0 (em_ctx (snd (run_state (init_loop mlink0 [0] turns0) module0))))"
proof -
  have "fst (run_state (init_loop mlink0 [0] turns0) module0) = (False, False)"
    by (simp add: turns0_def in_ctx_def dispatch_new_def cluster_tick_def module0_def etcd_module_new_def etcd_new_def
        checked_failed_def all_checked_def ka_def)
  then have "run_state (init_loop mlink0 [0] turns0) module0 =
      ((False, False), snd (run_state (init_loop mlink0 [0] turns0) module0))"
    by (simp add: prod_eq_iff)
  from init_loop_checked [OF this, of 0] show ?thesis by simp
qed

end
