(* ===== verification/EtcdTools.thy ===== *)
theory EtcdTools
  imports EtcdModule
begin

text \<open>
  The command line tools on the etcd client: src/tools/etcd-atproxy-ls/main.cpp, which lists what is below a path,
  and src/tools/etcd-watcher/main.cpp, which watches a path and keeps one key alive. The command line parser
  and the event loop are libraries: the options come as a list of what they set, and a turn of the loop (uv_run) as
  the list of the callbacks it runs. What they print is recorded; the log level is kept, not applied.
\<close>

section \<open>etcd-atproxy-ls: state\<close>

datatype log_level_t =
  LOG_LW_FATAL | LOG_LW_ERROR | LOG_LW_WARNING | LOG_LW_INFO | LOG_LW_NOTICE | LOG_LW_DEBUG | LOG_LW_TRACE

datatype ls_line =
    LnKeyValue etcd_key_value | LnNothingFound | LnRequestFailed int int | LnBadResponse string | LnConnectFailed
  | LnCreateFailed | LnStartFailed int | LnStarted | LnLost | LnAborted

datatype ls_output = OutUsage | OutBadUrl string | OutLog log_level_t ls_line

text \<open>The globals and the locals of main: the client, whether it runs, and the exit code the callback is given a pointer to.\<close>

record ls_tool =
  ls_ctx :: etcd
  ls_is_run :: bool
  ls_wait_for_close :: int
  ls_etcd_host :: string
  ls_prefix :: string
  ls_authorization :: string
  ls_log_level_name :: string
  ls_level :: log_level_t
  ls_init_wait_ticks :: int
  ls_ret :: int
  ls_out :: "ls_output list"
  ls_stuck :: bool

type_synonym 'a lm = "(ls_tool, 'a) state"

definition ls_tool_new :: ls_tool where
  "ls_tool_new = \<lparr>ls_ctx = etcd_new 0, ls_is_run = True, ls_wait_for_close = 0, ls_etcd_host = [], ls_prefix = ''by_id'',
     ls_authorization = [], ls_log_level_name = [], ls_level = LOG_LW_INFO, ls_init_wait_ticks = 200, ls_ret = 0, ls_out = [], ls_stuck = False\<rparr>"

definition in_ls :: "'a em \<Rightarrow> 'a lm" where
  "in_ls m = do {
     c \<leftarrow> gets ls_ctx;
     (case run_state m c of (x, c') \<Rightarrow> do { modify (\<lambda>s. s\<lparr>ls_ctx := c'\<rparr>); ret x })
   }"

definition ls_print :: "ls_output \<Rightarrow> unit lm" where
  "ls_print x = modify (\<lambda>s. s\<lparr>ls_out := ls_out s @ [x]\<rparr>)"

definition ls_log :: "log_level_t \<Rightarrow> ls_line \<Rightarrow> unit lm" where
  "ls_log v l = ls_print (OutLog v l)"

fun each_ls :: "('x \<Rightarrow> unit lm) \<Rightarrow> 'x list \<Rightarrow> unit lm" where
  "each_ls f [] = ret ()"
| "each_ls f (x # xs) = do { f x; each_ls f xs }"

section \<open>etcd-atproxy-ls: options\<close>

datatype ls_option =
  Opt_help | Opt_url string | Opt_prefix string | Opt_authorization string | Opt_log_level string

definition prog_option_handler_help :: "unit lm" where
  "prog_option_handler_help = do { ls_print OutUsage; modify (\<lambda>s. s\<lparr>ls_is_run := False\<rparr>) }"

primrec ls_bind_cmd :: "ls_option \<Rightarrow> unit lm" where
  "ls_bind_cmd Opt_help = prog_option_handler_help"
| "ls_bind_cmd (Opt_url v) = modify (\<lambda>s. s\<lparr>ls_etcd_host := v\<rparr>)"
| "ls_bind_cmd (Opt_prefix v) = modify (\<lambda>s. s\<lparr>ls_prefix := v\<rparr>)"
| "ls_bind_cmd (Opt_authorization v) = modify (\<lambda>s. s\<lparr>ls_authorization := v\<rparr>)"
| "ls_bind_cmd (Opt_log_level v) = modify (\<lambda>s. s\<lparr>ls_log_level_name := v\<rparr>)"

definition ls_log_level :: "string \<Rightarrow> log_level_t" where
  "ls_log_level v =
     (if starts_ci ''fatal'' v then LOG_LW_FATAL
      else if starts_ci ''error'' v then LOG_LW_ERROR
      else if starts_ci ''warn'' v then LOG_LW_WARNING
      else if starts_ci ''info'' v then LOG_LW_INFO
      else if starts_ci ''notice'' v then LOG_LW_NOTICE
      else if starts_ci ''debug'' v then LOG_LW_DEBUG
      else if starts_ci ''trace'' v then LOG_LW_TRACE
      else LOG_LW_INFO)"

text \<open>std::string::find from a position on, None for npos.\<close>

definition str_find :: "string \<Rightarrow> string \<Rightarrow> nat \<Rightarrow> nat option" where
  "str_find sub s from = List.find (\<lambda>n. prefix sub (drop n s)) [from ..< Suc (length s)]"

section \<open>etcd-atproxy-ls: callbacks\<close>

definition ls_tick_timer_callback :: "etcd_link \<Rightarrow> int \<Rightarrow> unit lm" where
  "ls_tick_timer_callback K now = do {
     in_ls (modify (\<lambda>c. c\<lparr>et_now := now\<rparr>));
     _ \<leftarrow> in_ls (cluster_tick K);
     modify (\<lambda>s. s\<lparr>ls_init_wait_ticks := ls_init_wait_ticks s - 1\<rparr>);
     ticks \<leftarrow> gets ls_init_wait_ticks;
     when_do (ticks < 0) (modify (\<lambda>s. s\<lparr>ls_is_run := False\<rparr>))
   }"

definition ls_signal_callback :: "unit lm" where
  "ls_signal_callback = do {
     modify (\<lambda>s. s\<lparr>ls_is_run := False\<rparr>);
     ls_log LOG_LW_ERROR LnAborted
   }"

definition ls_close_callback :: "unit lm" where
  "ls_close_callback = modify (\<lambda>s. s\<lparr>ls_wait_for_close := ls_wait_for_close s - 1\<rparr>)"

text \<open>The text of a key-value is printed as a C string.\<close>

definition printed_kv :: "json_lib \<Rightarrow> json \<Rightarrow> etcd_key_value" where
  "printed_kv L j = (let kv = unpack_kv L kv_zero j in kv\<lparr>kv_key := c_str (kv_key kv), kv_value := c_str (kv_value kv)\<rparr>)"

definition libcurl_callback_on_range_completed :: "etcd_link \<Rightarrow> int \<Rightarrow> int \<Rightarrow> string \<Rightarrow> unit lm" where
  "libcurl_callback_on_range_completed K err http_code content = do {
     modify (\<lambda>s. s\<lparr>ls_is_run := False\<rparr>);
     if failed_response K err http_code then do {
       modify (\<lambda>s. s\<lparr>ls_ret := 4\<rparr>);
       ls_log LOG_LW_ERROR (LnRequestFailed err http_code)
     }
     else (case parse_object (el_json K) content of
        None \<Rightarrow> ls_log LOG_LW_ERROR (LnBadResponse (c_str content))
      | Some doc \<Rightarrow> do {
          let kvs = find_member doc ''kvs'';
          in_ls (when_do (case kvs of None \<Rightarrow> False | Some v \<Rightarrow> \<not> is_arr v) (et_raise (JsonAssert ''kvs'')));
          in_ls (for_each et_raise (range_asserts doc));
          let js = (case kvs of Some (JArr js) \<Rightarrow> js | _ \<Rightarrow> []);
          each_ls (\<lambda>j. ls_log LOG_LW_INFO (LnKeyValue (printed_kv (el_json K) j))) js;
          when_do (js = []) (ls_log LOG_LW_INFO LnNothingFound)
        })
   }"

section \<open>etcd-atproxy-ls: the event loop\<close>

text \<open>A callback uv_run runs: the tick timer (with the clock it reads), the signal, the client's requests, a handle closed.\<close>

datatype ls_callback = Ls_tick int | Ls_signal | Ls_complete nat int int string | Ls_data nat string | Ls_closed

definition ls_http_complete :: "etcd_link \<Rightarrow> nat \<Rightarrow> int \<Rightarrow> int \<Rightarrow> string \<Rightarrow> unit lm" where
  "ls_http_complete K r err http_code content = do {
     q \<leftarrow> gets (\<lambda>s. request_of r (ls_ctx s));
     in_ls (http_complete K r err http_code content);
     when_do (hr_pending q \<and> hr_on_complete q = Some OnKvListed \<and> hr_priv q = Some PTool)
       (libcurl_callback_on_range_completed K err http_code content)
   }"

primrec ls_run_callback :: "etcd_link \<Rightarrow> ls_callback \<Rightarrow> unit lm" where
  "ls_run_callback K (Ls_tick now) = ls_tick_timer_callback K now"
| "ls_run_callback K Ls_signal = ls_signal_callback"
| "ls_run_callback K (Ls_complete r err http_code content) = ls_http_complete K r err http_code content"
| "ls_run_callback K (Ls_data r bytes) = in_ls (http_data K r bytes)"
| "ls_run_callback K Ls_closed = ls_close_callback"

definition ls_uv_run :: "etcd_link \<Rightarrow> ls_callback list \<Rightarrow> unit lm" where
  "ls_uv_run K turn = each_ls (ls_run_callback K) turn"

text \<open>The three loops of main take turns and give back those they leave; running out of them is recorded.\<close>

fun ls_connect :: "etcd_link \<Rightarrow> ls_callback list list \<Rightarrow> ls_callback list list lm" where
  "ls_connect K [] = do {
     go \<leftarrow> gets (\<lambda>s. ls_is_run s \<and> ls_init_wait_ticks s > 0);
     when_do go (modify (\<lambda>s. s\<lparr>ls_stuck := True\<rparr>));
     ret []
   }"
| "ls_connect K (t # ts) = do {
     go \<leftarrow> gets (\<lambda>s. ls_is_run s \<and> ls_init_wait_ticks s > 0);
     if \<not> go then ret (t # ts)
     else do {
       ls_uv_run K t;
       available \<leftarrow> gets (\<lambda>s. is_available (ls_ctx s));
       if available then ret ts else ls_connect K ts
     }
   }"

fun ls_await :: "etcd_link \<Rightarrow> ls_callback list list \<Rightarrow> ls_callback list list lm" where
  "ls_await K [] = do {
     go \<leftarrow> gets ls_is_run;
     when_do go (modify (\<lambda>s. s\<lparr>ls_stuck := True\<rparr>));
     ret []
   }"
| "ls_await K (t # ts) = do {
     go \<leftarrow> gets ls_is_run;
     if \<not> go then ret (t # ts)
     else do {
       ls_uv_run K t;
       available \<leftarrow> gets (\<lambda>s. is_available (ls_ctx s));
       if \<not> available then do {
         ls_log LOG_LW_ERROR LnLost;
         modify (\<lambda>s. s\<lparr>ls_ret := 3\<rparr>);
         ret ts
       }
       else ls_await K ts
     }
   }"

fun ls_close_handles :: "etcd_link \<Rightarrow> ls_callback list list \<Rightarrow> unit lm" where
  "ls_close_handles K [] = do {
     go \<leftarrow> gets (\<lambda>s. ls_wait_for_close s > 0);
     when_do go (modify (\<lambda>s. s\<lparr>ls_stuck := True\<rparr>))
   }"
| "ls_close_handles K (t # ts) = do {
     go \<leftarrow> gets (\<lambda>s. ls_wait_for_close s > 0);
     when_do go (do { ls_uv_run K t; ls_close_handles K ts })
   }"

section \<open>etcd-atproxy-ls: main\<close>

text \<open>The do block that makes the request and waits for its answer; \<open>pp\<close> is where the path begins in the URL.\<close>

definition ls_list :: "etcd_link \<Rightarrow> nat option \<Rightarrow> ls_callback list list \<Rightarrow> ls_callback list list lm" where
  "ls_list K pp turns = do {
     available \<leftarrow> gets (\<lambda>s. is_available (ls_ctx s));
     if \<not> available then do {
       ls_log LOG_LW_ERROR LnConnectFailed;
       modify (\<lambda>s. s\<lparr>ls_ret := 1\<rparr>);
       ret turns
     }
     else do {
       host \<leftarrow> gets ls_etcd_host;
       pre \<leftarrow> gets ls_prefix;
       ro \<leftarrow> in_ls (create_request_kv_get K
         (case pp of Some p \<Rightarrow> drop p host @ ''/'' @ pre | None \<Rightarrow> ''/'' @ pre) ''+1'' 0 0);
       (case ro of
          None \<Rightarrow> do {
            ls_log LOG_LW_ERROR LnCreateFailed;
            modify (\<lambda>s. s\<lparr>ls_ret := 2\<rparr>);
            ret turns
          }
        | Some r \<Rightarrow> do {
            in_ls (set_callback r (Some PTool) (Some OnKvListed));
            res \<leftarrow> in_ls (http_start K r);
            modify (\<lambda>s. s\<lparr>ls_ret := res\<rparr>);
            (if res \<noteq> 0 then do {
               in_ls (set_on_complete r None);
               ls_log LOG_LW_ERROR (LnStartFailed res)
             }
             else ls_log LOG_LW_DEBUG LnStarted);
            ls_await K turns
          })
     }
   }"

text \<open>\<open>curl\<close> says whether the library could be set up, \<open>closing\<close> are the turns of the last loop.\<close>

definition ls_main :: "etcd_link \<Rightarrow> bool \<Rightarrow> int \<Rightarrow> ls_option list \<Rightarrow> ls_callback list list \<Rightarrow> ls_callback list list \<Rightarrow> int lm" where
  "ls_main K curl now opts turns closing = do {
     each_ls ls_bind_cmd opts;
     run \<leftarrow> gets ls_is_run;
     host \<leftarrow> gets ls_etcd_host;
     auth \<leftarrow> gets ls_authorization;
     if \<not> run then ret 0
     else do {
     modify (\<lambda>s. s\<lparr>ls_level := ls_log_level (ls_log_level_name s)\<rparr>);
     (case str_find ''://'' host 0 of
        None \<Rightarrow> do { ls_print (OutBadUrl host); ret 1 }
      | Some p \<Rightarrow> do {
          let pp = str_find ''/'' host (p + 3);
          in_ls (modify (\<lambda>_. etcd_new now));
          in_ls (cluster_init K);
          in_ls (modify (\<lambda>c. c\<lparr>ec_curl := curl\<rparr>));
          in_ls (upd_conf (set_conf (Conf_hosts [case pp of Some q \<Rightarrow> take q host | None \<Rightarrow> host])));
          in_ls (upd_conf (set_conf (Conf_authorization auth)));
          rest \<leftarrow> ls_connect K turns;
          _ \<leftarrow> ls_list K pp rest;
          modify (\<lambda>s. s\<lparr>ls_wait_for_close := 2\<rparr>);
          ls_close_handles K closing;
          res \<leftarrow> gets ls_ret;
          in_ls (cluster_dtor K);
          ret res
        })
     }
   }"

section \<open>etcd-watcher\<close>

record watch_tool =
  wt_ctx :: etcd
  wt_is_run :: bool
  wt_wait_for_close :: int
  wt_expected :: string
  wt_usage :: bool
  wt_stuck :: bool

type_synonym 'a wm = "(watch_tool, 'a) state"

definition watch_tool_new :: watch_tool where
  "watch_tool_new = \<lparr>wt_ctx = etcd_new 0, wt_is_run = True, wt_wait_for_close = 0, wt_expected = [], wt_usage = False,
     wt_stuck = False\<rparr>"

definition in_wt :: "'a em \<Rightarrow> 'a wm" where
  "in_wt m = do {
     c \<leftarrow> gets wt_ctx;
     (case run_state m c of (x, c') \<Rightarrow> do { modify (\<lambda>s. s\<lparr>wt_ctx := c'\<rparr>); ret x })
   }"

text \<open>
  The checker of the keepalive: a function object that compares, and stops the loop when the key holds
  another value. The keepalive sees the comparison; the stop is made when the get request that runs
  the checker completes, with the value \<open>checked_value\<close> it is given.
\<close>

definition check_keepalive_data :: "string \<Rightarrow> string \<Rightarrow> bool" where
  "check_keepalive_data data checked \<longleftrightarrow> checked = [] \<or> checked = data"

definition checked_value :: "etcd_link \<Rightarrow> etcd \<Rightarrow> nat \<Rightarrow> int \<Rightarrow> int \<Rightarrow> string \<Rightarrow> string option" where
  "checked_value K c r err http_code content =
     (let q = request_of r c in
      case (hr_on_complete q, hr_priv q) of
        (Some OnGetData, Some (PKeepalive i)) \<Rightarrow>
          if hr_pending q \<and> ka_checker (ka i c) \<noteq> None \<and> \<not> failed_response K err http_code
          then map_option fst (got_value (el_json K) content) else None
      | _ \<Rightarrow> None)"

definition wt_http_complete :: "etcd_link \<Rightarrow> nat \<Rightarrow> int \<Rightarrow> int \<Rightarrow> string \<Rightarrow> unit wm" where
  "wt_http_complete K r err http_code content = do {
     v \<leftarrow> gets (\<lambda>s. checked_value K (wt_ctx s) r err http_code content);
     data \<leftarrow> gets wt_expected;
     in_wt (http_complete K r err http_code content);
     (case v of
        None \<Rightarrow> ret ()
      | Some x \<Rightarrow> when_do (\<not> check_keepalive_data data x) (modify (\<lambda>s. s\<lparr>wt_is_run := False\<rparr>)))
   }"

primrec wt_callback :: "etcd_link \<Rightarrow> ls_callback \<Rightarrow> unit wm" where
  "wt_callback K (Ls_tick now) = do {
     in_wt (modify (\<lambda>c. c\<lparr>et_now := now\<rparr>));
     _ \<leftarrow> in_wt (cluster_tick K);
     ret ()
   }"
| "wt_callback K Ls_signal = modify (\<lambda>s. s\<lparr>wt_is_run := False\<rparr>)"
| "wt_callback K (Ls_complete r err http_code content) = wt_http_complete K r err http_code content"
| "wt_callback K (Ls_data r bytes) = in_wt (http_data K r bytes)"
| "wt_callback K Ls_closed = modify (\<lambda>s. s\<lparr>wt_wait_for_close := wt_wait_for_close s - 1\<rparr>)"

fun wt_uv_run :: "etcd_link \<Rightarrow> ls_callback list \<Rightarrow> unit wm" where
  "wt_uv_run K [] = ret ()"
| "wt_uv_run K (x # xs) = do { wt_callback K x; wt_uv_run K xs }"

fun wt_loop :: "etcd_link \<Rightarrow> (watch_tool \<Rightarrow> bool) \<Rightarrow> ls_callback list list \<Rightarrow> unit wm" where
  "wt_loop K go [] = do { g \<leftarrow> gets go; when_do g (modify (\<lambda>s. s\<lparr>wt_stuck := True\<rparr>)) }"
| "wt_loop K go (t # ts) = do { g \<leftarrow> gets go; when_do g (do { wt_uv_run K t; wt_loop K go ts }) }"

text \<open>\<open>args\<close> are the arguments without the name of the program, so argc is one more than their number.\<close>

definition wt_main :: "etcd_link \<Rightarrow> bool \<Rightarrow> int \<Rightarrow> string list \<Rightarrow> ls_callback list list \<Rightarrow> ls_callback list list \<Rightarrow> int wm" where
  "wt_main K curl now args turns closing =
     (if Suc (length args) < 3 then do { modify (\<lambda>s. s\<lparr>wt_usage := True\<rparr>); ret 0 }
      else do {
        in_wt (modify (\<lambda>_. etcd_new now));
        in_wt (cluster_init K);
        in_wt (modify (\<lambda>c. c\<lparr>ec_curl := curl\<rparr>));
        in_wt (upd_conf (set_conf (Conf_hosts [args ! 0])));
        w \<leftarrow> in_wt (watcher_create (args ! 1) ''+1'');
        _ \<leftarrow> in_wt (add_watcher w);
        when_do (Suc (length args) > 4) (do {
          k \<leftarrow> in_wt (keepalive_create (args ! 2));
          modify (\<lambda>s. s\<lparr>wt_expected := args ! 3\<rparr>);
          in_wt (set_checker k (check_keepalive_data (args ! 3)));
          in_wt (keepalive_set_value K k (args ! 3));
          _ \<leftarrow> in_wt (add_keepalive K k);
          ret ()
        });
        wt_loop K wt_is_run turns;
        modify (\<lambda>s. s\<lparr>wt_wait_for_close := 2\<rparr>);
        wt_loop K (\<lambda>s. wt_wait_for_close s > 0) closing;
        in_wt (cluster_dtor K);
        ret 0
      })"

end
