(* ===== verification/ToolProps.thy ===== *)
theory ToolProps
  imports EtcdTools
begin

text \<open>
  Properties of the tool that lists nodes: it ends, for its timer counts down whatever else happens; and what it
  makes of the answer it waits for.
\<close>

section \<open>The countdown\<close>

text \<open>
  What every callback keeps: the count does not go up, the tool is not started again, and once the count is used
  up the tool does not run.
\<close>

definition ls_counted :: "ls_tool \<Rightarrow> bool" where
  "ls_counted s \<longleftrightarrow> (ls_init_wait_ticks s < 0 \<longrightarrow> \<not> ls_is_run s)"

definition ls_down :: "ls_tool \<Rightarrow> ls_tool \<Rightarrow> bool" where
  "ls_down s s' \<longleftrightarrow> ls_init_wait_ticks s' \<le> ls_init_wait_ticks s \<and> (ls_counted s \<longrightarrow> ls_counted s') \<and>
     (ls_is_run s' \<longrightarrow> ls_is_run s) \<and> ls_stuck s' = ls_stuck s"

lemma ls_down_pre: "rel_pre ls_down"
  by (auto simp: rel_pre_def ls_down_def)

lemmas ls_rules = io_rel_bind [OF ls_down_pre] io_rel_return [OF ls_down_pre] io_rel_gets [OF ls_down_pre]
  io_rel_when [OF ls_down_pre] io_rel_if io_rel_case_option io_rel_case_prod io_rel_let

named_theorems ls_io

lemma in_ls_run: "run_state (in_ls m) s = (fst (run_state m (ls_ctx s)), s\<lparr>ls_ctx := snd (run_state m (ls_ctx s))\<rparr>)"
  by (simp add: in_ls_def split: prod.split)

lemma in_ls_down [ls_io]: "state_io_rel ls_down (in_ls m)"
  by (auto simp: state_io_rel_def in_ls_run ls_down_def ls_counted_def)

lemma ls_stop_down [ls_io]: "state_io_rel ls_down (modify (\<lambda>s. s\<lparr>ls_is_run := False\<rparr>))"
  by (rule io_rel_modify) (simp add: ls_down_def ls_counted_def)

lemma ls_ret_down [ls_io]: "state_io_rel ls_down (modify (\<lambda>s. s\<lparr>ls_ret := r\<rparr>))"
  by (rule io_rel_modify) (simp add: ls_down_def ls_counted_def)

lemma ls_log_down [ls_io]: "state_io_rel ls_down (ls_log v l)"
  unfolding ls_log_def ls_print_def by (rule io_rel_modify) (simp add: ls_down_def ls_counted_def)

lemma ls_closed_down [ls_io]: "state_io_rel ls_down ls_close_callback"
  unfolding ls_close_callback_def by (rule io_rel_modify) (simp add: ls_down_def ls_counted_def)

lemma each_ls_down: "(\<And>x. state_io_rel ls_down (f x)) \<Longrightarrow> state_io_rel ls_down (each_ls f xs)"
  by (induction xs) (auto intro: ls_rules)

lemma ls_completed_down [ls_io]: "state_io_rel ls_down (ls_http_complete K r err code content)"
  unfolding ls_http_complete_def libcurl_callback_on_range_completed_def
  by (intro ls_rules ls_io each_ls_down)

lemma ls_tick_down [ls_io]: "state_io_rel ls_down (ls_tick_timer_callback K now)"
proof -
  have "run_state (ls_tick_timer_callback K now) s =
      ((), let c = snd (run_state (cluster_tick K) ((ls_ctx s)\<lparr>et_now := now\<rparr>)); n = ls_init_wait_ticks s - 1
           in s\<lparr>ls_ctx := c, ls_init_wait_ticks := n, ls_is_run := (if n < 0 then False else ls_is_run s)\<rparr>)" for s
    by (cases s) (auto simp: ls_tick_timer_callback_def in_ls_run Let_def)
  then show ?thesis by (auto simp: state_io_rel_def ls_down_def ls_counted_def Let_def)
qed

lemma ls_callback_down: "state_io_rel ls_down (ls_run_callback K e)"
  by (cases e) (simp_all add: ls_signal_callback_def, (intro ls_rules ls_io)+)

lemma ls_tick_counts:
  "ls_init_wait_ticks (snd (run_state (ls_run_callback K (Ls_tick now)) s)) = ls_init_wait_ticks s - 1"
  by (simp add: ls_tick_timer_callback_def in_ls_run)

lemma ls_uv_run_down: "state_io_rel ls_down (ls_uv_run K t)"
  unfolding ls_uv_run_def by (rule each_ls_down) (rule ls_callback_down)

lemma ls_turn_counts:
  assumes "Ls_tick now \<in> set t"
  shows "ls_init_wait_ticks (snd (run_state (ls_uv_run K t) s)) < ls_init_wait_ticks s"
  using assms
proof (induction t arbitrary: s)
  case (Cons e t)
  let ?s = "snd (run_state (ls_run_callback K e) s)"
  have rest: "ls_init_wait_ticks (snd (run_state (ls_uv_run K t) ?s)) \<le> ls_init_wait_ticks ?s"
    using io_relD [OF ls_uv_run_down] by (auto simp: ls_down_def)
  have run: "snd (run_state (ls_uv_run K (e # t)) s) = snd (run_state (ls_uv_run K t) ?s)"
    by (simp add: ls_uv_run_def split: prod.split)
  show ?case
  proof (cases "e = Ls_tick now")
    case True
    then show ?thesis using rest run ls_tick_counts [of K now s] by simp
  next
    case False
    moreover have "ls_init_wait_ticks ?s \<le> ls_init_wait_ticks s"
      using io_relD [OF ls_callback_down] by (auto simp: ls_down_def)
    ultimately show ?thesis using Cons.IH [of ?s] Cons.prems run by simp
  qed
qed simp

section \<open>The loops end\<close>

definition has_tick :: "ls_callback list \<Rightarrow> bool" where
  "has_tick t \<longleftrightarrow> (\<exists>now. Ls_tick now \<in> set t)"

lemma run_unit: "\<exists>s'. run_state (m :: unit lm) s = ((), s')"
  by (cases "run_state m s") simp

lemma ls_turn:
  assumes "has_tick t" and "ls_counted s" and "run_state (ls_uv_run K t) s = ((), s')"
  shows "ls_counted s' \<and> ls_init_wait_ticks s' \<le> ls_init_wait_ticks s - 1 \<and> ls_stuck s' = ls_stuck s"
proof -
  have s': "s' = snd (run_state (ls_uv_run K t) s)" using assms(3) by simp
  obtain now where "Ls_tick now \<in> set t" using assms(1) by (auto simp: has_tick_def)
  then have "ls_init_wait_ticks s' < ls_init_wait_ticks s" unfolding s' by (rule ls_turn_counts)
  moreover have "ls_down s s'" unfolding s' by (rule io_relD [OF ls_uv_run_down])
  ultimately show ?thesis using assms(2) by (auto simp: ls_down_def)
qed

lemma ls_connect_ends:
  assumes "\<forall>t \<in> set ts. has_tick t" and "ls_counted s" and "ls_init_wait_ticks s \<le> int (length ts)"
    and "run_state (ls_connect K ts) s = (rest, s')"
  shows "ls_stuck s' = ls_stuck s \<and> ls_counted s' \<and> set rest \<subseteq> set ts \<and>
    ls_init_wait_ticks s' - int (length rest) \<le> ls_init_wait_ticks s - int (length ts)"
  using assms
proof (induction ts arbitrary: s)
  case (Cons t ts)
  show ?case
  proof (cases "ls_is_run s \<and> ls_init_wait_ticks s > 0")
    case True
    obtain s1 where s1: "run_state (ls_uv_run K t) s = ((), s1)" using run_unit by blast
    have k: "ls_counted s1" "ls_init_wait_ticks s1 \<le> ls_init_wait_ticks s - 1" "ls_stuck s1 = ls_stuck s"
      using ls_turn [OF _ Cons.prems(2) s1] Cons.prems(1) by simp_all
    show ?thesis
    proof (cases "is_available (ls_ctx s1)")
      case av: True
      have "rest = ts" "s' = s1" using True Cons.prems(4) s1 av by simp_all
      then show ?thesis using k by auto
    next
      case False
      then have "run_state (ls_connect K ts) s1 = (rest, s')" using True Cons.prems(4) s1 by simp
      moreover have "ls_init_wait_ticks s1 \<le> int (length ts)" using k(2) Cons.prems(3) by simp
      ultimately show ?thesis using Cons.IH [of s1] Cons.prems(1) k by auto
    qed
  next
    case False
    then have "rest = t # ts" "s' = s" using Cons.prems(4) by auto
    then show ?thesis using Cons.prems(2) by simp
  qed
qed (auto split: if_splits)

lemma ls_await_ends:
  assumes "\<forall>t \<in> set ts. has_tick t" and "ls_counted s" and "ls_init_wait_ticks s < int (length ts)"
  shows "ls_stuck (snd (run_state (ls_await K ts) s)) = ls_stuck s"
  using assms
proof (induction ts arbitrary: s)
  case (Cons t ts)
  obtain s1 where s1: "run_state (ls_uv_run K t) s = ((), s1)" using run_unit by blast
  have k: "ls_counted s1" "ls_init_wait_ticks s1 \<le> ls_init_wait_ticks s - 1" "ls_stuck s1 = ls_stuck s"
    using ls_turn [OF _ Cons.prems(2) s1] Cons.prems(1) by simp_all
  have "ls_stuck (snd (run_state (ls_await K ts) s1)) = ls_stuck s1" using Cons k by auto
  then show ?case using s1 k(3) by (simp add: ls_log_def ls_print_def)
qed (auto simp: ls_counted_def)

definition closes_in :: "ls_callback list list \<Rightarrow> nat" where
  "closes_in ts = length (filter (\<lambda>e. e = Ls_closed) (concat ts))"

definition ls_same_wait :: "ls_tool \<Rightarrow> ls_tool \<Rightarrow> bool" where
  "ls_same_wait s s' \<longleftrightarrow> ls_wait_for_close s' = ls_wait_for_close s"

lemma ls_wait_pre: "rel_pre ls_same_wait"
  by (auto simp: rel_pre_def ls_same_wait_def)

lemma ls_wait_modify: "(\<And>s. ls_wait_for_close (f s) = ls_wait_for_close s) \<Longrightarrow> state_io_rel ls_same_wait (modify f)"
  by (rule io_rel_modify) (simp add: ls_same_wait_def)

lemmas ls_wait_rules = io_rel_bind [OF ls_wait_pre] io_rel_return [OF ls_wait_pre] io_rel_gets [OF ls_wait_pre]
  io_rel_when [OF ls_wait_pre] io_rel_if io_rel_case_option io_rel_case_prod io_rel_let

lemma ls_wait_parts:
  "state_io_rel ls_same_wait (in_ls m)" "state_io_rel ls_same_wait (ls_log v l)"
  "state_io_rel ls_same_wait (modify (\<lambda>s. s\<lparr>ls_is_run := b\<rparr>))" "state_io_rel ls_same_wait (modify (\<lambda>s. s\<lparr>ls_ret := r\<rparr>))"
  unfolding ls_log_def ls_print_def
  by (auto simp: state_io_rel_def in_ls_run ls_same_wait_def intro!: ls_wait_modify)

lemma each_ls_wait: "(\<And>x. state_io_rel ls_same_wait (f x)) \<Longrightarrow> state_io_rel ls_same_wait (each_ls f xs)"
  by (induction xs) (auto intro: ls_wait_rules)

lemma ls_callback_closes:
  "ls_wait_for_close (snd (run_state (ls_run_callback K e) s)) = ls_wait_for_close s - (if e = Ls_closed then 1 else 0)"
proof (cases "e = Ls_closed")
  case False
  have "state_io_rel ls_same_wait (ls_run_callback K e)"
    using False
    by (cases e; simp only: ls_run_callback.simps ls_tick_timer_callback_def ls_signal_callback_def ls_http_complete_def
        libcurl_callback_on_range_completed_def)
      (intro ls_wait_rules ls_wait_parts each_ls_wait | (rule ls_wait_modify, simp) | simp)+
  then show ?thesis using False io_relD unfolding ls_same_wait_def by fastforce
qed (simp add: ls_close_callback_def)

lemma ls_uv_run_closes:
  "ls_wait_for_close (snd (run_state (ls_uv_run K t) s)) = ls_wait_for_close s - int (length (filter (\<lambda>e. e = Ls_closed) t))"
proof (induction t arbitrary: s)
  case (Cons e t)
  have "snd (run_state (ls_uv_run K (e # t)) s) = snd (run_state (ls_uv_run K t) (snd (run_state (ls_run_callback K e) s)))"
    by (simp add: ls_uv_run_def split: prod.split)
  then show ?case using Cons by (simp add: ls_callback_closes)
qed (simp add: ls_uv_run_def)

lemma ls_close_ends:
  assumes "ls_wait_for_close s \<le> int (closes_in ts)"
  shows "ls_stuck (snd (run_state (ls_close_handles K ts) s)) = ls_stuck s"
  using assms
proof (induction ts arbitrary: s)
  case (Cons t ts)
  obtain s1 where s1: "run_state (ls_uv_run K t) s = ((), s1)" using run_unit by blast
  have "ls_wait_for_close s1 \<le> int (closes_in ts)"
    using ls_uv_run_closes [of K t s] s1 Cons.prems by (simp add: closes_in_def)
  moreover have "ls_stuck s1 = ls_stuck s" using io_relD [OF ls_uv_run_down [of K t], of s] s1 by (simp add: ls_down_def)
  ultimately show ?case using Cons.IH [of s1] s1 by (simp split: prod.split)
qed (simp add: closes_in_def)

lemma ls_list_ends:
  assumes "\<forall>t \<in> set ts. has_tick t" and "ls_counted s" and "ls_init_wait_ticks s < int (length ts)"
  shows "ls_stuck (snd (run_state (ls_list K pp ts) s)) = ls_stuck s"
proof -
  have await: "ls_stuck (snd (run_state (ls_await K ts) s')) = ls_stuck s" if "ls_down s s'" for s'
    using ls_await_ends [of ts s' K] assms that by (auto simp: ls_down_def)
  show ?thesis
    by (auto simp: ls_list_def in_ls_run ls_log_def ls_print_def ls_down_def ls_counted_def
        split: option.split intro!: await)
qed

text \<open>
  The listing tool ends. Whatever comes meanwhile, 201 turns of the event loop in which its timer fires are enough
  for both its loops, and two closed handles for the last one.
\<close>

theorem ls_ends:
  assumes "\<forall>t \<in> set turns. has_tick t" and "200 < length turns" and "2 \<le> closes_in closing"
  shows "\<not> ls_stuck (snd (run_state (ls_main K curl now opts turns closing) ls_tool_new))"
proof -
  have opt: "ls_init_wait_ticks s' = ls_init_wait_ticks s \<and> ls_stuck s' = ls_stuck s"
    if "run_state (each_ls ls_bind_cmd os) s = ((), s')" for os s s'
    using that
  proof (induction os arbitrary: s)
    case (Cons x os)
    obtain s1 where s1: "run_state (ls_bind_cmd x) s = ((), s1)" using run_unit by blast
    have "ls_init_wait_ticks s1 = ls_init_wait_ticks s \<and> ls_stuck s1 = ls_stuck s"
      using s1 by (cases x) (auto simp: prog_option_handler_help_def ls_print_def)
    then show ?case using Cons s1 by simp
  qed simp
  obtain s0 where s0: "run_state (each_ls ls_bind_cmd opts) ls_tool_new = ((), s0)" using run_unit by blast
  have k0: "ls_init_wait_ticks s0 = 200" "\<not> ls_stuck s0" using opt [OF s0] by (simp_all add: ls_tool_new_def)
  have body: "\<not> ls_stuck (snd (run_state (ls_close_handles K closing)
      ((snd (run_state (ls_list K pp (fst (run_state (ls_connect K turns) s))) (snd (run_state (ls_connect K turns) s))))\<lparr>ls_wait_for_close := 2\<rparr>)))"
    if "ls_init_wait_ticks s = 200" "\<not> ls_stuck s" for s pp
  proof -
    obtain rest s1 where s1: "run_state (ls_connect K turns) s = (rest, s1)" by fastforce
    have c: "ls_stuck s1 = ls_stuck s \<and> ls_counted s1 \<and> set rest \<subseteq> set turns \<and>
        ls_init_wait_ticks s1 - int (length rest) \<le> ls_init_wait_ticks s - int (length turns)"
      using ls_connect_ends [OF assms(1) _ _ s1] that assms(2) by (simp add: ls_counted_def)
    obtain r2 s2 where s2: "run_state (ls_list K pp rest) s1 = (r2, s2)" by fastforce
    have "\<not> ls_stuck s2" using ls_list_ends [of rest s1 K pp] c s2 assms that by auto
    moreover obtain s3 where s3: "run_state (ls_close_handles K closing) (s2\<lparr>ls_wait_for_close := 2\<rparr>) = ((), s3)"
      using run_unit by blast
    moreover have "ls_stuck s3 = ls_stuck s2" using ls_close_ends [of "s2\<lparr>ls_wait_for_close := 2\<rparr>" closing K] assms(3) s3 by simp
    ultimately show ?thesis using s1 s2 by simp
  qed
  show ?thesis
    using s0 k0
    by (auto simp: ls_main_def in_ls_run ls_print_def Let_def case_prod_unfold body split: option.split)
qed

section \<open>The answer\<close>

lemma each_ls_log:
  "snd (run_state (each_ls (\<lambda>j. ls_log v (f j)) js) s) = s\<lparr>ls_out := ls_out s @ map (\<lambda>j. OutLog v (f j)) js\<rparr>"
  by (induction js arbitrary: s) (simp_all add: ls_log_def ls_print_def)

text \<open>The key-values of an answer are printed in its order, and nothing else is.\<close>

lemma ls_prints_answer:
  assumes "\<not> failed_response K err code" and "parse_object (el_json K) content = Some doc"
    and "find_member doc ''kvs'' = Some (JArr js)" and "\<And>j. j \<in> set js \<Longrightarrow> is_obj j"
  shows "snd (run_state (libcurl_callback_on_range_completed K err code content) s) = s\<lparr>ls_is_run := False,
    ls_out := ls_out s @ (if js = [] then [OutLog LOG_LW_INFO LnNothingFound]
      else map (\<lambda>j. OutLog LOG_LW_INFO (LnKeyValue (printed_kv (el_json K) j))) js)\<rparr>"
proof -
  have none: "range_asserts doc = []" using assms(3,4) by (auto simp: range_asserts_def filter_empty_conv)
  show ?thesis
    using assms(1-3) each_ls_log [of LOG_LW_INFO "\<lambda>j. LnKeyValue (printed_kv (el_json K) j)" js]
    by (cases s) (auto simp: libcurl_callback_on_range_completed_def none is_arr_def in_ls_run ls_log_def ls_print_def Let_def
        case_prod_unfold)
qed

text \<open>
  The exit code tells a failed request, but not an answer that is no JSON object: it stays what the start of the request
  gave, 0.
\<close>

lemma ls_answer_code:
  "ls_ret (snd (run_state (libcurl_callback_on_range_completed K err code content) s)) =
     (if failed_response K err code then 4 else ls_ret s)"
proof -
  have "ls_ret (snd (run_state (each_ls (\<lambda>j. ls_log LOG_LW_INFO (f j)) js) s')) = ls_ret s'" for f :: "json \<Rightarrow> ls_line" and js s'
    by (simp add: each_ls_log)
  then show ?thesis
    by (auto simp: libcurl_callback_on_range_completed_def in_ls_run ls_log_def ls_print_def Let_def case_prod_unfold
        split: option.split)
qed

end
