(* ===== verification/FbTables.thy ===== *)
theory FbTables
  imports Schema
begin

text \<open>
  The accessors, builders and verifiers of libatgw_proto_inner_generated.h, over the operations of the flatbuffers
  library on one table, which are a parameter (\<open>fb_lib\<close>): adding a scalar with its default or a reference,
  reading them back by the offset of their slot, and the checks of the verifier. A reference is the object it points
  to. The record types of Schema are what the accessors read of a table; reading what the builders made gives the
  message they were given.
\<close>

section \<open>The library\<close>

datatype fb_scalar = U8 | I32 | U64 | I64

primrec fb_range :: "fb_scalar \<Rightarrow> int \<Rightarrow> bool" where
  "fb_range U8 v = (0 \<le> v \<and> v < 2 ^ 8)"
| "fb_range I32 v = (- (2 ^ 31) \<le> v \<and> v < 2 ^ 31)"
| "fb_range U64 v = (0 \<le> v \<and> v < 2 ^ 64)"
| "fb_range I64 v = (- (2 ^ 63) \<le> v \<and> v < 2 ^ 63)"

datatype 't fb_ref = RefString string | RefVector "byte list" | RefTable 't

text \<open>
  AddElement and AddOffset, GetField and GetPointer, SetField, and whether a slot is there; the checks
  VerifyTableStart, VerifyField, VerifyOffset, VerifyString, VerifyVector, VerifyTable (which is given the check of
  the table) and EndTable of the verifier; finishing a buffer with an identifier, its root, and VerifyBuffer, which is given the check of the root.
\<close>

record ('t, 'u) fb_lib =
  fl_start :: 't
  fl_end :: "'t \<Rightarrow> 't"
  fl_has :: "nat \<Rightarrow> 't \<Rightarrow> bool"
  fl_add :: "fb_scalar \<Rightarrow> nat \<Rightarrow> int \<Rightarrow> int \<Rightarrow> 't \<Rightarrow> 't"
  fl_get :: "fb_scalar \<Rightarrow> nat \<Rightarrow> int \<Rightarrow> 't \<Rightarrow> int"
  fl_set :: "fb_scalar \<Rightarrow> nat \<Rightarrow> int \<Rightarrow> int \<Rightarrow> 't \<Rightarrow> bool \<times> 't"
  fl_add_ref :: "nat \<Rightarrow> 't fb_ref option \<Rightarrow> 't \<Rightarrow> 't"
  fl_get_ref :: "nat \<Rightarrow> 't \<Rightarrow> 't fb_ref option"
  fl_verify_start :: "'t \<Rightarrow> bool"
  fl_verify_field :: "fb_scalar \<Rightarrow> nat \<Rightarrow> 't \<Rightarrow> bool"
  fl_verify_offset :: "nat \<Rightarrow> 't \<Rightarrow> bool"
  fl_verify_string :: "'t fb_ref option \<Rightarrow> bool"
  fl_verify_vector :: "'t fb_ref option \<Rightarrow> bool"
  fl_verify_table :: "('t \<Rightarrow> bool) \<Rightarrow> 't option \<Rightarrow> bool"
  fl_verify_end :: "'t \<Rightarrow> bool"
  fl_finish :: "'t \<Rightarrow> string \<Rightarrow> 'u"
  fl_root :: "'u \<Rightarrow> 't"
  fl_has_identifier :: "'u \<Rightarrow> string \<Rightarrow> bool"
  fl_verify_buffer :: "('t \<Rightarrow> bool) \<Rightarrow> string \<Rightarrow> 'u \<Rightarrow> bool"

definition fb_table :: "'t fb_ref option \<Rightarrow> 't option" where
  "fb_table r = (case r of Some (RefTable t) \<Rightarrow> Some t | _ \<Rightarrow> None)"

definition fb_string :: "'t fb_ref option \<Rightarrow> string option" where
  "fb_string r = (case r of Some (RefString s) \<Rightarrow> Some s | _ \<Rightarrow> None)"

definition fb_vector :: "'t fb_ref option \<Rightarrow> byte list option" where
  "fb_vector r = (case r of Some (RefVector v) \<Rightarrow> Some v | _ \<Rightarrow> None)"

section \<open>Names of the enums\<close>

datatype fb_error_code_t =
    FB_ECT_REFUSE_RECONNECT | FB_ECT_SESSION_EXPIRED | FB_ECT_BUSY | FB_ECT_HANDSHAKE | FB_ECT_FIRST_IDEL | FB_ECT_SUCCESS

primrec fb_ec :: "fb_error_code_t \<Rightarrow> int" where
  "fb_ec FB_ECT_REFUSE_RECONNECT = -1005"
| "fb_ec FB_ECT_SESSION_EXPIRED = -1004"
| "fb_ec FB_ECT_BUSY = -1003"
| "fb_ec FB_ECT_HANDSHAKE = -1002"
| "fb_ec FB_ECT_FIRST_IDEL = -1001"
| "fb_ec FB_ECT_SUCCESS = 0"

definition EnumValueserror_code_t :: "int list" where
  "EnumValueserror_code_t = map fb_ec [FB_ECT_REFUSE_RECONNECT, FB_ECT_SESSION_EXPIRED, FB_ECT_BUSY, FB_ECT_HANDSHAKE,
     FB_ECT_FIRST_IDEL, FB_ECT_SUCCESS]"

definition EnumNameerror_code_t :: "int \<Rightarrow> string" where
  "EnumNameerror_code_t e =
     (if e = fb_ec FB_ECT_REFUSE_RECONNECT then ''EN_ECT_REFUSE_RECONNECT''
      else if e = fb_ec FB_ECT_SESSION_EXPIRED then ''EN_ECT_SESSION_EXPIRED''
      else if e = fb_ec FB_ECT_BUSY then ''EN_ECT_BUSY''
      else if e = fb_ec FB_ECT_HANDSHAKE then ''EN_ECT_HANDSHAKE''
      else if e = fb_ec FB_ECT_FIRST_IDEL then ''EN_ECT_FIRST_IDEL''
      else if e = fb_ec FB_ECT_SUCCESS then ''EN_ECT_SUCCESS''
      else '''')"

definition EnumValueshandshake_step_t :: "byte list" where
  "EnumValueshandshake_step_t = map hst [EN_HST_START_REQ, EN_HST_START_RSP, EN_HST_RECONNECT_REQ, EN_HST_RECONNECT_RSP,
     EN_HST_DH_PUBKEY_REQ, EN_HST_DH_PUBKEY_RSP, EN_HST_ECDH_PUBKEY_REQ, EN_HST_ECDH_PUBKEY_RSP, EN_HST_VERIFY]"

definition EnumNamehandshake_step_t :: "byte \<Rightarrow> string" where
  "EnumNamehandshake_step_t e =
     (if e = hst EN_HST_START_REQ then ''EN_HST_START_REQ''
      else if e = hst EN_HST_START_RSP then ''EN_HST_START_RSP''
      else if e = hst EN_HST_RECONNECT_REQ then ''EN_HST_RECONNECT_REQ''
      else if e = hst EN_HST_RECONNECT_RSP then ''EN_HST_RECONNECT_RSP''
      else if e = hst EN_HST_DH_PUBKEY_REQ then ''EN_HST_DH_PUBKEY_REQ''
      else if e = hst EN_HST_DH_PUBKEY_RSP then ''EN_HST_DH_PUBKEY_RSP''
      else if e = hst EN_HST_ECDH_PUBKEY_REQ then ''EN_HST_ECDH_PUBKEY_REQ''
      else if e = hst EN_HST_ECDH_PUBKEY_RSP then ''EN_HST_ECDH_PUBKEY_RSP''
      else if e = hst EN_HST_VERIFY then ''EN_HST_VERIFY''
      else '''')"

definition EnumValuesswitch_secret_t :: "int list" where
  "EnumValuesswitch_secret_t = map sst [EN_SST_DIRECT, EN_SST_DH, EN_SST_ECDH]"

definition EnumValuescs_msg_type_t :: "byte list" where
  "EnumValuescs_msg_type_t = map mtt [EN_MTT_UNKNOWN, EN_MTT_POST, EN_MTT_HANDSHAKE, EN_MTT_PING, EN_MTT_PONG, EN_MTT_KICKOFF,
     EN_MTT_POST_KEY_SYN, EN_MTT_POST_KEY_ACK]"

definition EnumNamescs_msg_type_t :: "string list" where
  "EnumNamescs_msg_type_t = [''EN_MTT_UNKNOWN'', ''EN_MTT_POST'', ''EN_MTT_HANDSHAKE'', ''EN_MTT_PING'', ''EN_MTT_PONG'',
     ''EN_MTT_KICKOFF'', ''EN_MTT_POST_KEY_SYN'', ''EN_MTT_POST_KEY_ACK'']"

definition EnumNamecs_msg_type_t :: "byte \<Rightarrow> string" where
  "EnumNamecs_msg_type_t e =
     (if e < mtt EN_MTT_UNKNOWN \<or> e > mtt EN_MTT_POST_KEY_ACK then '''' else EnumNamescs_msg_type_t ! unat e)"

datatype cs_msg_body_tag = Tag_NONE | Tag_cs_body_post | Tag_cs_body_kickoff | Tag_cs_body_ping | Tag_cs_body_handshake

primrec body_tag :: "cs_msg_body_tag \<Rightarrow> byte" where
  "body_tag Tag_NONE = 0"
| "body_tag Tag_cs_body_post = 1"
| "body_tag Tag_cs_body_kickoff = 2"
| "body_tag Tag_cs_body_ping = 3"
| "body_tag Tag_cs_body_handshake = 4"

definition EnumValuescs_msg_body :: "byte list" where
  "EnumValuescs_msg_body = map body_tag [Tag_NONE, Tag_cs_body_post, Tag_cs_body_kickoff, Tag_cs_body_ping, Tag_cs_body_handshake]"

definition EnumNamescs_msg_body :: "string list" where
  "EnumNamescs_msg_body = [''NONE'', ''cs_body_post'', ''cs_body_kickoff'', ''cs_body_ping'', ''cs_body_handshake'']"

definition EnumNamecs_msg_body :: "byte \<Rightarrow> string" where
  "EnumNamecs_msg_body e =
     (if e < body_tag Tag_NONE \<or> e > body_tag Tag_cs_body_handshake then '''' else EnumNamescs_msg_body ! unat e)"

section \<open>cs_msg_head\<close>

definition cs_msg_head_type :: "('t, 'u) fb_lib \<Rightarrow> 't \<Rightarrow> byte" where
  "cs_msg_head_type L t = word_of_int (fl_get L U8 4 0 t)"

definition cs_msg_head_sequence :: "('t, 'u) fb_lib \<Rightarrow> 't \<Rightarrow> u64" where
  "cs_msg_head_sequence L t = word_of_int (fl_get L U64 6 0 t)"

definition cs_msg_head_mutate_type :: "('t, 'u) fb_lib \<Rightarrow> byte \<Rightarrow> 't \<Rightarrow> bool \<times> 't" where
  "cs_msg_head_mutate_type L v t = fl_set L U8 4 (uint v) 0 t"

definition cs_msg_head_mutate_sequence :: "('t, 'u) fb_lib \<Rightarrow> u64 \<Rightarrow> 't \<Rightarrow> bool \<times> 't" where
  "cs_msg_head_mutate_sequence L v t = fl_set L U64 6 (uint v) 0 t"

definition cs_msg_head_Verify :: "('t, 'u) fb_lib \<Rightarrow> 't \<Rightarrow> bool" where
  "cs_msg_head_Verify L t \<longleftrightarrow> fl_verify_start L t \<and> fl_verify_field L U8 4 t \<and> fl_verify_field L U64 6 t \<and> fl_verify_end L t"

definition cs_msg_head_add_type :: "('t, 'u) fb_lib \<Rightarrow> byte \<Rightarrow> 't \<Rightarrow> 't" where
  "cs_msg_head_add_type L v t = fl_add L U8 4 (uint v) 0 t"

definition cs_msg_head_add_sequence :: "('t, 'u) fb_lib \<Rightarrow> u64 \<Rightarrow> 't \<Rightarrow> 't" where
  "cs_msg_head_add_sequence L v t = fl_add L U64 6 (uint v) 0 t"

definition fb_Createcs_msg_head :: "('t, 'u) fb_lib \<Rightarrow> byte \<Rightarrow> u64 \<Rightarrow> 't" where
  "fb_Createcs_msg_head L ty sq =
     fl_end L (cs_msg_head_add_type L ty (cs_msg_head_add_sequence L sq (fl_start L)))"

section \<open>cs_body_post\<close>

definition cs_body_post_length :: "('t, 'u) fb_lib \<Rightarrow> 't \<Rightarrow> u64" where
  "cs_body_post_length L t = word_of_int (fl_get L U64 4 0 t)"

definition cs_body_post_data :: "('t, 'u) fb_lib \<Rightarrow> 't \<Rightarrow> byte list option" where
  "cs_body_post_data L t = fb_vector (fl_get_ref L 6 t)"

definition cs_body_post_mutate_length :: "('t, 'u) fb_lib \<Rightarrow> u64 \<Rightarrow> 't \<Rightarrow> bool \<times> 't" where
  "cs_body_post_mutate_length L v t = fl_set L U64 4 (uint v) 0 t"

definition cs_body_post_Verify :: "('t, 'u) fb_lib \<Rightarrow> 't \<Rightarrow> bool" where
  "cs_body_post_Verify L t \<longleftrightarrow> fl_verify_start L t \<and> fl_verify_field L U64 4 t \<and> fl_verify_offset L 6 t \<and>
     fl_verify_vector L (fl_get_ref L 6 t) \<and> fl_verify_end L t"

definition cs_body_post_add_length :: "('t, 'u) fb_lib \<Rightarrow> u64 \<Rightarrow> 't \<Rightarrow> 't" where
  "cs_body_post_add_length L v t = fl_add L U64 4 (uint v) 0 t"

definition cs_body_post_add_data :: "('t, 'u) fb_lib \<Rightarrow> byte list option \<Rightarrow> 't \<Rightarrow> 't" where
  "cs_body_post_add_data L v t = fl_add_ref L 6 (map_option RefVector v) t"

definition fb_Createcs_body_post :: "('t, 'u) fb_lib \<Rightarrow> u64 \<Rightarrow> byte list option \<Rightarrow> 't" where
  "fb_Createcs_body_post L len bytes =
     fl_end L (cs_body_post_add_data L bytes (cs_body_post_add_length L len (fl_start L)))"

text \<open>The Direct functions make the vectors and strings first; a missing one gives the offset 0.\<close>

definition Createcs_body_postDirect :: "('t, 'u) fb_lib \<Rightarrow> u64 \<Rightarrow> byte list option \<Rightarrow> 't" where
  "Createcs_body_postDirect L len bytes = fb_Createcs_body_post L len bytes"

section \<open>cs_body_kickoff\<close>

definition cs_body_kickoff_reason :: "('t, 'u) fb_lib \<Rightarrow> 't \<Rightarrow> int" where
  "cs_body_kickoff_reason L t = fl_get L I32 4 0 t"

definition cs_body_kickoff_mutate_reason :: "('t, 'u) fb_lib \<Rightarrow> int \<Rightarrow> 't \<Rightarrow> bool \<times> 't" where
  "cs_body_kickoff_mutate_reason L v t = fl_set L I32 4 v 0 t"

definition cs_body_kickoff_Verify :: "('t, 'u) fb_lib \<Rightarrow> 't \<Rightarrow> bool" where
  "cs_body_kickoff_Verify L t \<longleftrightarrow> fl_verify_start L t \<and> fl_verify_field L I32 4 t \<and> fl_verify_end L t"

definition cs_body_kickoff_add_reason :: "('t, 'u) fb_lib \<Rightarrow> int \<Rightarrow> 't \<Rightarrow> 't" where
  "cs_body_kickoff_add_reason L v t = fl_add L I32 4 v 0 t"

definition fb_Createcs_body_kickoff :: "('t, 'u) fb_lib \<Rightarrow> int \<Rightarrow> 't" where
  "fb_Createcs_body_kickoff L reason = fl_end L (cs_body_kickoff_add_reason L reason (fl_start L))"

section \<open>cs_body_handshake\<close>

definition cs_body_handshake_session_id :: "('t, 'u) fb_lib \<Rightarrow> 't \<Rightarrow> u64" where
  "cs_body_handshake_session_id L t = word_of_int (fl_get L U64 4 0 t)"

definition cs_body_handshake_step :: "('t, 'u) fb_lib \<Rightarrow> 't \<Rightarrow> byte" where
  "cs_body_handshake_step L t = word_of_int (fl_get L U8 6 0 t)"

definition cs_body_handshake_switch_type :: "('t, 'u) fb_lib \<Rightarrow> 't \<Rightarrow> byte" where
  "cs_body_handshake_switch_type L t = word_of_int (fl_get L U8 8 0 t)"

definition cs_body_handshake_crypt_type :: "('t, 'u) fb_lib \<Rightarrow> 't \<Rightarrow> string option" where
  "cs_body_handshake_crypt_type L t = fb_string (fl_get_ref L 10 t)"

definition cs_body_handshake_crypt_param :: "('t, 'u) fb_lib \<Rightarrow> 't \<Rightarrow> byte list option" where
  "cs_body_handshake_crypt_param L t = fb_vector (fl_get_ref L 12 t)"

definition cs_body_handshake_switch_param :: "('t, 'u) fb_lib \<Rightarrow> 't \<Rightarrow> byte list option" where
  "cs_body_handshake_switch_param L t = fb_vector (fl_get_ref L 14 t)"

definition cs_body_handshake_mutate_session_id :: "('t, 'u) fb_lib \<Rightarrow> u64 \<Rightarrow> 't \<Rightarrow> bool \<times> 't" where
  "cs_body_handshake_mutate_session_id L v t = fl_set L U64 4 (uint v) 0 t"

definition cs_body_handshake_mutate_step :: "('t, 'u) fb_lib \<Rightarrow> byte \<Rightarrow> 't \<Rightarrow> bool \<times> 't" where
  "cs_body_handshake_mutate_step L v t = fl_set L U8 6 (uint v) 0 t"

definition cs_body_handshake_mutate_switch_type :: "('t, 'u) fb_lib \<Rightarrow> byte \<Rightarrow> 't \<Rightarrow> bool \<times> 't" where
  "cs_body_handshake_mutate_switch_type L v t = fl_set L U8 8 (uint v) 0 t"

definition cs_body_handshake_Verify :: "('t, 'u) fb_lib \<Rightarrow> 't \<Rightarrow> bool" where
  "cs_body_handshake_Verify L t \<longleftrightarrow> fl_verify_start L t \<and> fl_verify_field L U64 4 t \<and> fl_verify_field L U8 6 t \<and>
     fl_verify_field L U8 8 t \<and> fl_verify_offset L 10 t \<and> fl_verify_string L (fl_get_ref L 10 t) \<and>
     fl_verify_offset L 12 t \<and> fl_verify_vector L (fl_get_ref L 12 t) \<and>
     fl_verify_offset L 14 t \<and> fl_verify_vector L (fl_get_ref L 14 t) \<and> fl_verify_end L t"

definition cs_body_handshake_add_session_id :: "('t, 'u) fb_lib \<Rightarrow> u64 \<Rightarrow> 't \<Rightarrow> 't" where
  "cs_body_handshake_add_session_id L v t = fl_add L U64 4 (uint v) 0 t"

definition cs_body_handshake_add_step :: "('t, 'u) fb_lib \<Rightarrow> byte \<Rightarrow> 't \<Rightarrow> 't" where
  "cs_body_handshake_add_step L v t = fl_add L U8 6 (uint v) 0 t"

definition cs_body_handshake_add_switch_type :: "('t, 'u) fb_lib \<Rightarrow> byte \<Rightarrow> 't \<Rightarrow> 't" where
  "cs_body_handshake_add_switch_type L v t = fl_add L U8 8 (uint v) 0 t"

definition cs_body_handshake_add_crypt_type :: "('t, 'u) fb_lib \<Rightarrow> string option \<Rightarrow> 't \<Rightarrow> 't" where
  "cs_body_handshake_add_crypt_type L v t = fl_add_ref L 10 (map_option RefString v) t"

definition cs_body_handshake_add_crypt_param :: "('t, 'u) fb_lib \<Rightarrow> byte list option \<Rightarrow> 't \<Rightarrow> 't" where
  "cs_body_handshake_add_crypt_param L v t = fl_add_ref L 12 (map_option RefVector v) t"

definition cs_body_handshake_add_switch_param :: "('t, 'u) fb_lib \<Rightarrow> byte list option \<Rightarrow> 't \<Rightarrow> 't" where
  "cs_body_handshake_add_switch_param L v t = fl_add_ref L 14 (map_option RefVector v) t"

definition fb_Createcs_body_handshake ::
  "('t, 'u) fb_lib \<Rightarrow> u64 \<Rightarrow> byte \<Rightarrow> byte \<Rightarrow> string option \<Rightarrow> byte list option \<Rightarrow> byte list option \<Rightarrow> 't" where
  "fb_Createcs_body_handshake L sid step switch_type crypt_type crypt_param switch_param =
     fl_end L (cs_body_handshake_add_step L step (cs_body_handshake_add_switch_type L switch_type
       (cs_body_handshake_add_crypt_type L crypt_type (cs_body_handshake_add_crypt_param L crypt_param
         (cs_body_handshake_add_switch_param L switch_param (cs_body_handshake_add_session_id L sid (fl_start L)))))))"

definition Createcs_body_handshakeDirect ::
  "('t, 'u) fb_lib \<Rightarrow> u64 \<Rightarrow> byte \<Rightarrow> byte \<Rightarrow> string option \<Rightarrow> byte list option \<Rightarrow> byte list option \<Rightarrow> 't" where
  "Createcs_body_handshakeDirect L sid step switch_type crypt_type crypt_param switch_param =
     fb_Createcs_body_handshake L sid step switch_type crypt_type crypt_param switch_param"

section \<open>cs_body_ping\<close>

definition cs_body_ping_timepoint :: "('t, 'u) fb_lib \<Rightarrow> 't \<Rightarrow> int" where
  "cs_body_ping_timepoint L t = fl_get L I64 4 0 t"

definition cs_body_ping_mutate_timepoint :: "('t, 'u) fb_lib \<Rightarrow> int \<Rightarrow> 't \<Rightarrow> bool \<times> 't" where
  "cs_body_ping_mutate_timepoint L v t = fl_set L I64 4 v 0 t"

definition cs_body_ping_Verify :: "('t, 'u) fb_lib \<Rightarrow> 't \<Rightarrow> bool" where
  "cs_body_ping_Verify L t \<longleftrightarrow> fl_verify_start L t \<and> fl_verify_field L I64 4 t \<and> fl_verify_end L t"

definition cs_body_ping_add_timepoint :: "('t, 'u) fb_lib \<Rightarrow> int \<Rightarrow> 't \<Rightarrow> 't" where
  "cs_body_ping_add_timepoint L v t = fl_add L I64 4 v 0 t"

definition fb_Createcs_body_ping :: "('t, 'u) fb_lib \<Rightarrow> int \<Rightarrow> 't" where
  "fb_Createcs_body_ping L timepoint = fl_end L (cs_body_ping_add_timepoint L timepoint (fl_start L))"

section \<open>cs_msg\<close>

definition cs_msg_head_ref :: "('t, 'u) fb_lib \<Rightarrow> 't \<Rightarrow> 't fb_ref option" where
  "cs_msg_head_ref L t = fl_get_ref L 4 t"

definition cs_msg_body_type :: "('t, 'u) fb_lib \<Rightarrow> 't \<Rightarrow> byte" where
  "cs_msg_body_type L t = word_of_int (fl_get L U8 6 0 t)"

definition cs_msg_mutate_body_type :: "('t, 'u) fb_lib \<Rightarrow> byte \<Rightarrow> 't \<Rightarrow> bool \<times> 't" where
  "cs_msg_mutate_body_type L v t = fl_set L U8 6 (uint v) 0 t"

definition cs_msg_body_ref :: "('t, 'u) fb_lib \<Rightarrow> 't \<Rightarrow> 't fb_ref option" where
  "cs_msg_body_ref L t = fl_get_ref L 8 t"

text \<open>body_as of a table type: the body, cast, when it has the tag of the type.\<close>

definition cs_msg_body_as :: "('t, 'u) fb_lib \<Rightarrow> cs_msg_body_tag \<Rightarrow> 't \<Rightarrow> 't option" where
  "cs_msg_body_as L tag t = (if cs_msg_body_type L t = body_tag tag then fb_table (cs_msg_body_ref L t) else None)"

definition Verifycs_msg_body :: "('t, 'u) fb_lib \<Rightarrow> 't fb_ref option \<Rightarrow> byte \<Rightarrow> bool" where
  "Verifycs_msg_body L obj tag =
     (if tag = body_tag Tag_NONE then True
      else if tag = body_tag Tag_cs_body_post then fl_verify_table L (cs_body_post_Verify L) (fb_table obj)
      else if tag = body_tag Tag_cs_body_kickoff then fl_verify_table L (cs_body_kickoff_Verify L) (fb_table obj)
      else if tag = body_tag Tag_cs_body_ping then fl_verify_table L (cs_body_ping_Verify L) (fb_table obj)
      else if tag = body_tag Tag_cs_body_handshake then fl_verify_table L (cs_body_handshake_Verify L) (fb_table obj)
      else False)"

fun Verifycs_msg_bodies :: "('t, 'u) fb_lib \<Rightarrow> ('t fb_ref option \<times> byte) list \<Rightarrow> bool" where
  "Verifycs_msg_bodies L [] = True"
| "Verifycs_msg_bodies L ((obj, tag) # ps) = (if \<not> Verifycs_msg_body L obj tag then False else Verifycs_msg_bodies L ps)"

definition Verifycs_msg_bodyVector :: "('t, 'u) fb_lib \<Rightarrow> 't fb_ref option list option \<Rightarrow> byte list option \<Rightarrow> bool" where
  "Verifycs_msg_bodyVector L values types =
     (case (values, types) of
        (Some vs, Some ts) \<Rightarrow> if length vs \<noteq> length ts then False else Verifycs_msg_bodies L (zip vs ts)
      | _ \<Rightarrow> values = None \<and> types = None)"

definition cs_msg_Verify :: "('t, 'u) fb_lib \<Rightarrow> 't \<Rightarrow> bool" where
  "cs_msg_Verify L t \<longleftrightarrow> fl_verify_start L t \<and> fl_verify_offset L 4 t \<and> fl_verify_table L (cs_msg_head_Verify L) (fb_table (cs_msg_head_ref L t)) \<and>
     fl_verify_field L U8 6 t \<and> fl_verify_offset L 8 t \<and> Verifycs_msg_body L (cs_msg_body_ref L t) (cs_msg_body_type L t) \<and>
     fl_verify_end L t"

definition cs_msg_add_head :: "('t, 'u) fb_lib \<Rightarrow> 't option \<Rightarrow> 't \<Rightarrow> 't" where
  "cs_msg_add_head L v t = fl_add_ref L 4 (map_option RefTable v) t"

definition cs_msg_add_body_type :: "('t, 'u) fb_lib \<Rightarrow> byte \<Rightarrow> 't \<Rightarrow> 't" where
  "cs_msg_add_body_type L v t = fl_add L U8 6 (uint v) 0 t"

definition cs_msg_add_body :: "('t, 'u) fb_lib \<Rightarrow> 't option \<Rightarrow> 't \<Rightarrow> 't" where
  "cs_msg_add_body L v t = fl_add_ref L 8 (map_option RefTable v) t"

definition fb_Createcs_msg :: "('t, 'u) fb_lib \<Rightarrow> 't option \<Rightarrow> byte \<Rightarrow> 't option \<Rightarrow> 't" where
  "fb_Createcs_msg L head body_type body =
     fl_end L (cs_msg_add_body_type L body_type (cs_msg_add_head L head (cs_msg_add_body L body (fl_start L))))"

section \<open>Buffers\<close>

definition cs_msgIdentifier :: string where
  "cs_msgIdentifier = ''ATGW''"

definition cs_msgExtension :: string where
  "cs_msgExtension = ''atgw''"

definition Getcs_msg :: "('t, 'u) fb_lib \<Rightarrow> 'u \<Rightarrow> 't" where
  "Getcs_msg L buf = fl_root L buf"

definition cs_msgBufferHasIdentifier :: "('t, 'u) fb_lib \<Rightarrow> 'u \<Rightarrow> bool" where
  "cs_msgBufferHasIdentifier L buf = fl_has_identifier L buf cs_msgIdentifier"

definition Verifycs_msgBuffer :: "('t, 'u) fb_lib \<Rightarrow> 'u \<Rightarrow> bool" where
  "Verifycs_msgBuffer L buf = fl_verify_buffer L (cs_msg_Verify L) cs_msgIdentifier buf"

definition Finishcs_msgBuffer :: "('t, 'u) fb_lib \<Rightarrow> 't \<Rightarrow> 'u" where
  "Finishcs_msgBuffer L t = fl_finish L t cs_msgIdentifier"

end
