(* ===== verification/FbCodec.thy ===== *)
theory FbCodec
  imports FbTables
begin

text \<open>
  The messages of Schema, built with the generated builders and read with the generated accessors: any message
  comes back as it was, and passes the verifier, whatever library keeps the documented laws of a table.
\<close>

section \<open>What is documented of the library\<close>

text \<open>
  Slots are independent; a slot that was not there reads as what was added to it (a scalar equal to its default is
  left out and reads as the default, a null reference is left out); a missing slot is right for the verifier, as is one
  that was added with the type that is checked; finishing a table keeps its slots, and finishing a buffer its root.
\<close>

definition fb_slots :: "('t, 'u) fb_lib \<Rightarrow> bool" where
  "fb_slots L \<longleftrightarrow>
     (\<forall>i. \<not> fl_has L i (fl_start L)) \<and>
     (\<forall>T i j v d t. i \<noteq> j \<longrightarrow> fl_has L i (fl_add L T j v d t) = fl_has L i t) \<and>
     (\<forall>i j r t. i \<noteq> j \<longrightarrow> fl_has L i (fl_add_ref L j r t) = fl_has L i t)"

definition fb_reads :: "('t, 'u) fb_lib \<Rightarrow> bool" where
  "fb_reads L \<longleftrightarrow>
     (\<forall>T i v d t. \<not> fl_has L i t \<longrightarrow> fb_range T v \<longrightarrow> fl_get L T i d (fl_add L T i v d t) = v) \<and>
     (\<forall>i r t. \<not> fl_has L i t \<longrightarrow> fl_get_ref L i (fl_add_ref L i r t) = r) \<and>
     (\<forall>T T' i j v d e t. i \<noteq> j \<longrightarrow> fl_get L T i e (fl_add L T' j v d t) = fl_get L T i e t) \<and>
     (\<forall>T i j r e t. i \<noteq> j \<longrightarrow> fl_get L T i e (fl_add_ref L j r t) = fl_get L T i e t) \<and>
     (\<forall>T i j v d t. i \<noteq> j \<longrightarrow> fl_get_ref L i (fl_add L T j v d t) = fl_get_ref L i t) \<and>
     (\<forall>i j r t. i \<noteq> j \<longrightarrow> fl_get_ref L i (fl_add_ref L j r t) = fl_get_ref L i t) \<and>
     (\<forall>T i e t. fl_get L T i e (fl_end L t) = fl_get L T i e t) \<and>
     (\<forall>i t. fl_get_ref L i (fl_end L t) = fl_get_ref L i t)"

definition fb_verifies :: "('t, 'u) fb_lib \<Rightarrow> bool" where
  "fb_verifies L \<longleftrightarrow>
     (\<forall>T i t. \<not> fl_has L i t \<longrightarrow> fl_verify_field L T i t \<and> fl_verify_offset L i t) \<and>
     (\<forall>T i v d t. \<not> fl_has L i t \<longrightarrow> fl_verify_field L T i (fl_add L T i v d t)) \<and>
     (\<forall>i r t. \<not> fl_has L i t \<longrightarrow> fl_verify_offset L i (fl_add_ref L i r t)) \<and>
     (\<forall>T T' i j v d t. i \<noteq> j \<longrightarrow> fl_verify_field L T i (fl_add L T' j v d t) = fl_verify_field L T i t) \<and>
     (\<forall>T i j r t. i \<noteq> j \<longrightarrow> fl_verify_field L T i (fl_add_ref L j r t) = fl_verify_field L T i t) \<and>
     (\<forall>T i j v d t. i \<noteq> j \<longrightarrow> fl_verify_offset L i (fl_add L T j v d t) = fl_verify_offset L i t) \<and>
     (\<forall>i j r t. i \<noteq> j \<longrightarrow> fl_verify_offset L i (fl_add_ref L j r t) = fl_verify_offset L i t) \<and>
     (\<forall>T i t. fl_verify_field L T i (fl_end L t) = fl_verify_field L T i t) \<and>
     (\<forall>i t. fl_verify_offset L i (fl_end L t) = fl_verify_offset L i t) \<and>
     (\<forall>t. fl_verify_start L (fl_end L t) \<and> fl_verify_end L (fl_end L t)) \<and>
     (\<forall>s. fl_verify_string L (map_option RefString s)) \<and> (\<forall>v. fl_verify_vector L (map_option RefVector v)) \<and>
     (\<forall>check. fl_verify_table L check None) \<and> (\<forall>check t. check t \<longrightarrow> fl_verify_table L check (Some t))"

definition fb_finishes :: "('t, 'u) fb_lib \<Rightarrow> bool" where
  "fb_finishes L \<longleftrightarrow> (\<forall>t. fl_root L (fl_finish L t cs_msgIdentifier) = t) \<and>
     (\<forall>check t. check t \<longrightarrow> fl_verify_buffer L check cs_msgIdentifier (fl_finish L t cs_msgIdentifier))"

definition fb_lib_ok :: "('t, 'u) fb_lib \<Rightarrow> bool" where
  "fb_lib_ok L \<longleftrightarrow> fb_slots L \<and> fb_reads L \<and> fb_verifies L \<and> fb_finishes L"

section \<open>Messages as tables\<close>

definition build_head :: "('t, 'u) fb_lib \<Rightarrow> cs_msg_head \<Rightarrow> 't" where
  "build_head L h = fb_Createcs_msg_head L (head_type h) (head_sequence h)"

definition read_head :: "('t, 'u) fb_lib \<Rightarrow> 't \<Rightarrow> cs_msg_head" where
  "read_head L t = \<lparr>head_type = cs_msg_head_type L t, head_sequence = cs_msg_head_sequence L t\<rparr>"

definition build_post :: "('t, 'u) fb_lib \<Rightarrow> cs_body_post \<Rightarrow> 't" where
  "build_post L p = fb_Createcs_body_post L (post_length p) (post_data p)"

definition read_post :: "('t, 'u) fb_lib \<Rightarrow> 't \<Rightarrow> cs_body_post" where
  "read_post L t = \<lparr>post_length = cs_body_post_length L t, post_data = cs_body_post_data L t\<rparr>"

definition build_kickoff :: "('t, 'u) fb_lib \<Rightarrow> cs_body_kickoff \<Rightarrow> 't" where
  "build_kickoff L k = fb_Createcs_body_kickoff L (kickoff_reason k)"

definition read_kickoff :: "('t, 'u) fb_lib \<Rightarrow> 't \<Rightarrow> cs_body_kickoff" where
  "read_kickoff L t = \<lparr>kickoff_reason = cs_body_kickoff_reason L t\<rparr>"

definition build_handshake :: "('t, 'u) fb_lib \<Rightarrow> cs_body_handshake \<Rightarrow> 't" where
  "build_handshake L h = fb_Createcs_body_handshake L (hs_session_id h) (hs_step h) (hs_switch_type h) (hs_crypt_type h)
     (hs_crypt_param h) (hs_switch_param h)"

definition read_handshake :: "('t, 'u) fb_lib \<Rightarrow> 't \<Rightarrow> cs_body_handshake" where
  "read_handshake L t = \<lparr>hs_session_id = cs_body_handshake_session_id L t, hs_step = cs_body_handshake_step L t,
     hs_switch_type = cs_body_handshake_switch_type L t, hs_crypt_type = cs_body_handshake_crypt_type L t,
     hs_crypt_param = cs_body_handshake_crypt_param L t, hs_switch_param = cs_body_handshake_switch_param L t\<rparr>"

definition build_ping :: "('t, 'u) fb_lib \<Rightarrow> cs_body_ping \<Rightarrow> 't" where
  "build_ping L p = fb_Createcs_body_ping L (ping_timepoint p)"

definition read_ping :: "('t, 'u) fb_lib \<Rightarrow> 't \<Rightarrow> cs_body_ping" where
  "read_ping L t = \<lparr>ping_timepoint = cs_body_ping_timepoint L t\<rparr>"

primrec build_body :: "('t, 'u) fb_lib \<Rightarrow> cs_msg_body \<Rightarrow> 't option" where
  "build_body L Body_none = None"
| "build_body L (Body_post p) = map_option (build_post L) p"
| "build_body L (Body_kickoff k) = map_option (build_kickoff L) k"
| "build_body L (Body_ping p) = map_option (build_ping L) p"
| "build_body L (Body_handshake h) = map_option (build_handshake L) h"

definition read_body :: "('t, 'u) fb_lib \<Rightarrow> 't \<Rightarrow> cs_msg_body" where
  "read_body L t =
     (let ty = cs_msg_body_type L t in
      if ty = body_tag Tag_cs_body_post then Body_post (map_option (read_post L) (cs_msg_body_as L Tag_cs_body_post t))
      else if ty = body_tag Tag_cs_body_kickoff then Body_kickoff (map_option (read_kickoff L) (cs_msg_body_as L Tag_cs_body_kickoff t))
      else if ty = body_tag Tag_cs_body_ping then Body_ping (map_option (read_ping L) (cs_msg_body_as L Tag_cs_body_ping t))
      else if ty = body_tag Tag_cs_body_handshake
      then Body_handshake (map_option (read_handshake L) (cs_msg_body_as L Tag_cs_body_handshake t))
      else Body_none)"

definition build_msg :: "('t, 'u) fb_lib \<Rightarrow> cs_msg \<Rightarrow> 't" where
  "build_msg L m = fb_Createcs_msg L (map_option (build_head L) (msg_head m)) (msg_body_type (msg_body m)) (build_body L (msg_body m))"

definition read_msg :: "('t, 'u) fb_lib \<Rightarrow> 't \<Rightarrow> cs_msg" where
  "read_msg L t = \<lparr>msg_head = map_option (read_head L) (fb_table (cs_msg_head_ref L t)), msg_body = read_body L t\<rparr>"

text \<open>The integers of a message that are not words already fit their fields.\<close>

definition msg_fits :: "cs_msg \<Rightarrow> bool" where
  "msg_fits m \<longleftrightarrow>
     (case msg_body m of
        Body_kickoff (Some k) \<Rightarrow> fb_range I32 (kickoff_reason k)
      | Body_ping (Some p) \<Rightarrow> fb_range I64 (ping_timepoint p)
      | _ \<Rightarrow> True)"

section \<open>What is built is read\<close>

named_theorems fb_law

lemma fb_slots_law [fb_law]:
  assumes "fb_lib_ok L"
  shows "\<not> fl_has L i (fl_start L)" "i \<noteq> j \<Longrightarrow> fl_has L i (fl_add L T j v d t) = fl_has L i t"
    "i \<noteq> j \<Longrightarrow> fl_has L i (fl_add_ref L j r t) = fl_has L i t"
  using assms by (auto simp: fb_lib_ok_def fb_slots_def)

lemma fb_reads_law [fb_law]:
  assumes "fb_lib_ok L"
  shows "\<not> fl_has L i t \<Longrightarrow> fb_range T v \<Longrightarrow> fl_get L T i d (fl_add L T i v d t) = v"
    "\<not> fl_has L i t \<Longrightarrow> fl_get_ref L i (fl_add_ref L i r t) = r"
    "i \<noteq> j \<Longrightarrow> fl_get L T i e (fl_add L T' j v d t) = fl_get L T i e t"
    "i \<noteq> j \<Longrightarrow> fl_get L T i e (fl_add_ref L j r t) = fl_get L T i e t"
    "i \<noteq> j \<Longrightarrow> fl_get_ref L i (fl_add L T j v d t) = fl_get_ref L i t"
    "i \<noteq> j \<Longrightarrow> fl_get_ref L i (fl_add_ref L j r t) = fl_get_ref L i t"
    "fl_get L T i e (fl_end L t) = fl_get L T i e t" "fl_get_ref L i (fl_end L t) = fl_get_ref L i t"
  using assms by (simp_all add: fb_lib_ok_def fb_reads_def)

lemma fb_verifies_law [fb_law]:
  assumes "fb_lib_ok L"
  shows "\<not> fl_has L i t \<Longrightarrow> fl_verify_field L T i t" "\<not> fl_has L i t \<Longrightarrow> fl_verify_offset L i t"
    "\<not> fl_has L i t \<Longrightarrow> fl_verify_field L T i (fl_add L T i v d t)"
    "\<not> fl_has L i t \<Longrightarrow> fl_verify_offset L i (fl_add_ref L i r t)"
    "i \<noteq> j \<Longrightarrow> fl_verify_field L T i (fl_add L T' j v d t) = fl_verify_field L T i t"
    "i \<noteq> j \<Longrightarrow> fl_verify_field L T i (fl_add_ref L j r t) = fl_verify_field L T i t"
    "i \<noteq> j \<Longrightarrow> fl_verify_offset L i (fl_add L T j v d t) = fl_verify_offset L i t"
    "i \<noteq> j \<Longrightarrow> fl_verify_offset L i (fl_add_ref L j r t) = fl_verify_offset L i t"
    "fl_verify_field L T i (fl_end L t) = fl_verify_field L T i t" "fl_verify_offset L i (fl_end L t) = fl_verify_offset L i t"
    "fl_verify_start L (fl_end L t)" "fl_verify_end L (fl_end L t)"
    "fl_verify_string L (map_option RefString s)" "fl_verify_vector L (map_option RefVector b)"
    "fl_verify_table L check None" "check t \<Longrightarrow> fl_verify_table L check (Some t)"
  using assms by (simp_all add: fb_lib_ok_def fb_verifies_def)

lemma fb_words [simp]: "fb_range U8 (uint (b :: byte))" "fb_range U64 (uint (w :: u64))"
  using uint_lt2p [of b] uint_lt2p [of w] by simp_all

lemma fb_refs [simp]:
  "fb_string (map_option RefString s) = s" "fb_vector (map_option RefVector v) = v" "fb_table (map_option RefTable t) = t"
proof -
  show "fb_string (map_option RefString s) = s" by (cases s) (simp_all add: fb_string_def)
  show "fb_vector (map_option RefVector v) = v" by (cases v) (simp_all add: fb_vector_def)
  show "fb_table (map_option RefTable t) = t" by (cases t) (simp_all add: fb_table_def)
qed

lemmas head_defs = read_head_def build_head_def fb_Createcs_msg_head_def cs_msg_head_type_def cs_msg_head_sequence_def
  cs_msg_head_add_type_def cs_msg_head_add_sequence_def cs_msg_head_Verify_def

lemmas post_defs = read_post_def build_post_def fb_Createcs_body_post_def cs_body_post_length_def cs_body_post_data_def
  cs_body_post_add_length_def cs_body_post_add_data_def cs_body_post_Verify_def

lemmas kickoff_defs = read_kickoff_def build_kickoff_def fb_Createcs_body_kickoff_def cs_body_kickoff_reason_def
  cs_body_kickoff_add_reason_def cs_body_kickoff_Verify_def

lemmas ping_defs = read_ping_def build_ping_def fb_Createcs_body_ping_def cs_body_ping_timepoint_def
  cs_body_ping_add_timepoint_def cs_body_ping_Verify_def

lemmas handshake_defs = read_handshake_def build_handshake_def fb_Createcs_body_handshake_def cs_body_handshake_session_id_def
  cs_body_handshake_step_def cs_body_handshake_switch_type_def cs_body_handshake_crypt_type_def
  cs_body_handshake_crypt_param_def cs_body_handshake_switch_param_def cs_body_handshake_add_session_id_def
  cs_body_handshake_add_step_def cs_body_handshake_add_switch_type_def cs_body_handshake_add_crypt_type_def
  cs_body_handshake_add_crypt_param_def cs_body_handshake_add_switch_param_def cs_body_handshake_Verify_def

lemmas msg_defs = read_msg_def build_msg_def fb_Createcs_msg_def cs_msg_head_ref_def cs_msg_body_type_def cs_msg_body_ref_def
  cs_msg_add_head_def cs_msg_add_body_type_def cs_msg_add_body_def cs_msg_Verify_def

lemma head_back: "fb_lib_ok L \<Longrightarrow> read_head L (build_head L h) = h \<and> cs_msg_head_Verify L (build_head L h)"
  by (simp add: head_defs fb_law del: fb_range.simps)

lemma post_back: "fb_lib_ok L \<Longrightarrow> read_post L (build_post L p) = p \<and> cs_body_post_Verify L (build_post L p)"
  by (simp add: post_defs fb_law del: fb_range.simps)

lemma kickoff_back:
  "fb_lib_ok L \<Longrightarrow> fb_range I32 (kickoff_reason k) \<Longrightarrow> read_kickoff L (build_kickoff L k) = k \<and> cs_body_kickoff_Verify L (build_kickoff L k)"
  by (simp add: kickoff_defs fb_law del: fb_range.simps)

lemma ping_back:
  "fb_lib_ok L \<Longrightarrow> fb_range I64 (ping_timepoint p) \<Longrightarrow> read_ping L (build_ping L p) = p \<and> cs_body_ping_Verify L (build_ping L p)"
  by (simp add: ping_defs fb_law del: fb_range.simps)

lemma handshake_back: "fb_lib_ok L \<Longrightarrow> read_handshake L (build_handshake L h) = h \<and> cs_body_handshake_Verify L (build_handshake L h)"
  by (simp add: handshake_defs fb_law del: fb_range.simps)

lemma msg_parts:
  assumes "fb_lib_ok L"
  shows "fb_table (cs_msg_head_ref L (build_msg L m)) = map_option (build_head L) (msg_head m)"
    and "cs_msg_body_type L (build_msg L m) = msg_body_type (msg_body m)"
    and "fb_table (cs_msg_body_ref L (build_msg L m)) = build_body L (msg_body m)"
    and "fl_verify_start L (build_msg L m) \<and> fl_verify_offset L 4 (build_msg L m) \<and> fl_verify_field L U8 6 (build_msg L m) \<and>
      fl_verify_offset L 8 (build_msg L m) \<and> fl_verify_end L (build_msg L m)"
  using assms by (simp_all add: msg_defs fb_law del: fb_range.simps)

lemma verify_table_map:
  "fb_lib_ok L \<Longrightarrow> (\<And>x. check (f x)) \<Longrightarrow> fl_verify_table L check (map_option f r)"
  by (cases r) (simp_all add: fb_verifies_law)

lemma body_back:
  assumes "fb_lib_ok L" and "msg_fits m"
  shows "read_body L (build_msg L m) = msg_body m \<and> Verifycs_msg_body L (cs_msg_body_ref L (build_msg L m)) (msg_body_type (msg_body m))"
  using assms(2) msg_parts(2,3) [OF assms(1), of m]
  by (cases "msg_body m")
    (auto intro!: verify_table_map [OF assms(1)] simp: read_body_def cs_msg_body_as_def Verifycs_msg_body_def fb_verifies_law [OF assms(1)] msg_fits_def post_back [OF assms(1)]
      kickoff_back [OF assms(1)] ping_back [OF assms(1)] handshake_back [OF assms(1)] option.map_comp comp_def
      simp del: fb_range.simps split: option.splits intro!: map_option_idI)

lemma read_back:
  assumes "fb_lib_ok L" and "msg_fits m"
  shows "Verifycs_msgBuffer L (Finishcs_msgBuffer L (build_msg L m)) \<and>
    read_msg L (Getcs_msg L (Finishcs_msgBuffer L (build_msg L m))) = m"
proof -
  have fin: "fb_finishes L" using assms(1) by (simp add: fb_lib_ok_def)
  have head: "fl_verify_table L (cs_msg_head_Verify L) (fb_table (cs_msg_head_ref L (build_msg L m)))"
    "map_option (read_head L) (fb_table (cs_msg_head_ref L (build_msg L m))) = msg_head m"
    using msg_parts(1) [OF assms(1), of m] head_back [OF assms(1)]
    by (cases "msg_head m"; simp add: fb_verifies_law [OF assms(1)])+
  have "cs_msg_Verify L (build_msg L m)"
    using msg_parts(2,4) [OF assms(1), of m] body_back [OF assms] head(1) by (simp add: cs_msg_Verify_def)
  moreover have "read_msg L (build_msg L m) = m"
    using body_back [OF assms] head(2) by (simp add: read_msg_def)
  ultimately show ?thesis
    using fin by (simp add: fb_finishes_def Verifycs_msgBuffer_def Finishcs_msgBuffer_def Getcs_msg_def)
qed

text \<open>
  C40: What is packed is parsed. For every message of the schema whose integers fit their fields, and every library that
  keeps the documented laws of tables: the buffer made with the generated builders passes the generated
  verifier, and the generated accessors read the same message from it. So no two fields of a table share a slot,
  every accessor has the slot and the type of its builder, and the tag of the union selects the type that was built.
\<close>

theorem messages_read_back:
  assumes "fb_lib_ok L" and "msg_fits m"
  shows "Verifycs_msgBuffer L (Finishcs_msgBuffer L (build_msg L m)) \<and>
    read_msg L (Getcs_msg L (Finishcs_msgBuffer L (build_msg L m))) = m"
  by (rule read_back [OF assms])

text \<open>The codec the protocol is given: the generated functions over a library whose buffers are bytes.\<close>

definition generated_codec :: "('t, byte list) fb_lib \<Rightarrow> fb_codec" where
  "generated_codec L = \<lparr>fb_pack = (\<lambda>m. Finishcs_msgBuffer L (build_msg L m)),
     fb_parse = (\<lambda>bs. if Verifycs_msgBuffer L bs then Some (read_msg L (Getcs_msg L bs)) else None)\<rparr>"

lemma generated_codec_parses:
  "fb_lib_ok L \<Longrightarrow> msg_fits m \<Longrightarrow> fb_parse (generated_codec L) (fb_pack (generated_codec L) m) = Some m"
  using read_back [of L m] by (simp add: generated_codec_def)

section \<open>An instance\<close>

datatype ex_table = ExTable (ex_scalars: "(nat \<times> fb_scalar \<times> int) list") (ex_refs: "(nat \<times> ex_table fb_ref) list")

definition ex_fb_lib :: "(ex_table, ex_table \<times> string) fb_lib" where
  "ex_fb_lib = \<lparr>fl_start = ExTable [] [], fl_end = (\<lambda>t. t),
     fl_has = (\<lambda>i t. map_of (ex_scalars t) i \<noteq> None \<or> map_of (ex_refs t) i \<noteq> None),
     fl_add = (\<lambda>T i v d t. if v = d then t else ExTable ((i, T, v) # ex_scalars t) (ex_refs t)),
     fl_get = (\<lambda>T i d t. case map_of (ex_scalars t) i of None \<Rightarrow> d | Some (_, v) \<Rightarrow> v),
     fl_set = (\<lambda>T i v d t. case map_of (ex_scalars t) i of None \<Rightarrow> (v = d, t)
       | Some _ \<Rightarrow> (True, ExTable ((i, T, v) # ex_scalars t) (ex_refs t))),
     fl_add_ref = (\<lambda>i r t. case r of None \<Rightarrow> t | Some x \<Rightarrow> ExTable (ex_scalars t) ((i, x) # ex_refs t)),
     fl_get_ref = (\<lambda>i t. map_of (ex_refs t) i),
     fl_verify_start = (\<lambda>t. True),
     fl_verify_field = (\<lambda>T i t. case map_of (ex_scalars t) i of None \<Rightarrow> True | Some (T', _) \<Rightarrow> T' = T),
     fl_verify_offset = (\<lambda>i t. True),
     fl_verify_string = (\<lambda>r. case r of Some (RefVector _) \<Rightarrow> False | Some (RefTable _) \<Rightarrow> False | _ \<Rightarrow> True),
     fl_verify_vector = (\<lambda>r. case r of Some (RefString _) \<Rightarrow> False | Some (RefTable _) \<Rightarrow> False | _ \<Rightarrow> True),
     fl_verify_table = (\<lambda>check t. case t of None \<Rightarrow> True | Some x \<Rightarrow> check x),
     fl_verify_end = (\<lambda>t. True), fl_finish = (\<lambda>t i. (t, i)), fl_root = fst, fl_has_identifier = (\<lambda>b i. snd b = i),
     fl_verify_buffer = (\<lambda>check i b. snd b = i \<and> check (fst b))\<rparr>"

lemma ex_fb_lib_ok: "fb_lib_ok ex_fb_lib"
proof -
  have "fb_slots ex_fb_lib" by (simp add: fb_slots_def ex_fb_lib_def split: option.split)
  moreover have "fb_reads ex_fb_lib" by (auto simp: fb_reads_def ex_fb_lib_def split: option.splits)
  moreover have "fb_verifies ex_fb_lib" by (auto simp: fb_verifies_def ex_fb_lib_def split: option.splits)
  moreover have "fb_finishes ex_fb_lib" by (simp add: fb_finishes_def ex_fb_lib_def)
  ultimately show ?thesis by (simp add: fb_lib_ok_def)
qed

definition ex_handshake :: cs_msg where
  "ex_handshake = Createcs_msg (Createcs_msg_head EN_MTT_HANDSHAKE 1)
     (Body_handshake (Some (Createcs_body_handshake 7 EN_HST_START_RSP (sst EN_SST_DH) ''xtea'' [1, 2])))"

theorem messages_read_back_witness:
  "read_msg ex_fb_lib (Getcs_msg ex_fb_lib (Finishcs_msgBuffer ex_fb_lib (build_msg ex_fb_lib ex_handshake))) = ex_handshake"
proof -
  have "msg_fits ex_handshake" by (simp add: msg_fits_def ex_handshake_def Createcs_msg_def)
  then show ?thesis using messages_read_back [OF ex_fb_lib_ok] by blast
qed

end
