(* ===== verification/RandomEngine.thy ===== *)
theory RandomEngine
  imports Prelude
begin

text \<open>
  util::random_engine (service/component/utility/random_engine.h and .cpp): two generators of the
  process, made the first time each is asked for, from the clock of that moment. The generators
  themselves (random/random_generator.h of atframe_utils) are a parameter: how one is made, seeded,
  and asked for a number or for a number of an interval. The lemmas show that the two streams do not
  disturb each other, that the clock counts only the first time, and how few seeds init_generator has.
\<close>

record ('g, 't, 'r, 'a) random_lib =
  rng_make :: "'t \<Rightarrow> 'g"
  rng_init_seed :: "'g \<Rightarrow> 'r \<Rightarrow> 'g"
  rng_random :: "'g \<Rightarrow> 'r \<times> 'g"
  rng_random_between :: "'g \<Rightarrow> 'a \<Rightarrow> 'a \<Rightarrow> 'a \<times> 'g"

text \<open>mt19937_64 and taus88: what their constructor is given is a time_t and a uint32_t, what they return 64 and 32 bits.\<close>

type_synonym ('g, 'a) mt_lib = "('g, u64, u64, 'a) random_lib"
type_synonym ('g, 'a) taus_lib = "('g, u32, u32, 'a) random_lib"

text \<open>The two function-local statics: None before the first call.\<close>

record ('c, 'f) random_engine =
  re_common :: "'c option"
  re_fast :: "'f option"

definition random_engine_new :: "('c, 'f) random_engine" where
  "random_engine_new = \<lparr>re_common = None, re_fast = None\<rparr>"

definition get_common_generator :: "('c, 'a) mt_lib \<Rightarrow> u64 \<Rightarrow> ('c, 'f) random_engine \<Rightarrow> 'c" where
  "get_common_generator C now s = (case re_common s of Some g \<Rightarrow> g | None \<Rightarrow> rng_make C now)"

definition get_fast_generator :: "('f, 'a) taus_lib \<Rightarrow> u64 \<Rightarrow> ('c, 'f) random_engine \<Rightarrow> 'f" where
  "get_fast_generator F now s = (case re_fast s of Some g \<Rightarrow> g | None \<Rightarrow> rng_make F (ucast now))"

definition engine_random :: "('c, 'a) mt_lib \<Rightarrow> u64 \<Rightarrow> ('c, 'f) random_engine \<Rightarrow> u32 \<times> ('c, 'f) random_engine" where
  "engine_random C now s =
     (let (r, g) = rng_random C (get_common_generator C now s) in (ucast r, s\<lparr>re_common := Some g\<rparr>))"

definition engine_random_between ::
  "('c, 'a) mt_lib \<Rightarrow> u64 \<Rightarrow> 'a \<Rightarrow> 'a \<Rightarrow> ('c, 'f) random_engine \<Rightarrow> 'a \<times> ('c, 'f) random_engine" where
  "engine_random_between C now lowest highest s =
     (let (r, g) = rng_random_between C (get_common_generator C now s) lowest highest in (r, s\<lparr>re_common := Some g\<rparr>))"

definition fast_random :: "('f, 'a) taus_lib \<Rightarrow> u64 \<Rightarrow> ('c, 'f) random_engine \<Rightarrow> u32 \<times> ('c, 'f) random_engine" where
  "fast_random F now s =
     (let (r, g) = rng_random F (get_fast_generator F now s) in (r, s\<lparr>re_fast := Some g\<rparr>))"

definition fast_random_between ::
  "('f, 'a) taus_lib \<Rightarrow> u64 \<Rightarrow> 'a \<Rightarrow> 'a \<Rightarrow> ('c, 'f) random_engine \<Rightarrow> 'a \<times> ('c, 'f) random_engine" where
  "fast_random_between F now lowest highest s =
     (let (r, g) = rng_random_between F (get_fast_generator F now s) lowest highest in (r, s\<lparr>re_fast := Some g\<rparr>))"

definition init_generator_with_seed :: "('g, 't, 'r, 'b) random_lib \<Rightarrow> 'g \<Rightarrow> 'r \<Rightarrow> 'g" where
  "init_generator_with_seed K rnd seed = rng_init_seed K rnd seed"

definition init_generator ::
  "('g, 't, 'r :: len word, 'b) random_lib \<Rightarrow> ('c, 'a) mt_lib \<Rightarrow> u64 \<Rightarrow> 'g \<Rightarrow> ('c, 'f) random_engine
   \<Rightarrow> 'g \<times> ('c, 'f) random_engine" where
  "init_generator K C now rnd s =
     (let (r, s') = engine_random C now s in (init_generator_with_seed K rnd (ucast r), s'))"

section \<open>Two streams\<close>

text \<open>A caller's requests, each at its time: the results of a run.\<close>

datatype 'a random_call = CommonRandom | CommonBetween 'a 'a | FastRandom | FastBetween 'a 'a

fun is_common :: "'a random_call \<Rightarrow> bool" where
  "is_common CommonRandom = True"
| "is_common (CommonBetween _ _) = True"
| "is_common FastRandom = False"
| "is_common (FastBetween _ _) = False"

fun random_step ::
  "('c, 'a) mt_lib \<Rightarrow> ('f, 'a) taus_lib \<Rightarrow> u64 \<Rightarrow> 'a random_call \<Rightarrow> ('c, 'f) random_engine
   \<Rightarrow> (u32 + 'a) \<times> ('c, 'f) random_engine" where
  "random_step C F now CommonRandom s = map_prod Inl id (engine_random C now s)"
| "random_step C F now (CommonBetween l h) s = map_prod Inr id (engine_random_between C now l h s)"
| "random_step C F now FastRandom s = map_prod Inl id (fast_random F now s)"
| "random_step C F now (FastBetween l h) s = map_prod Inr id (fast_random_between F now l h s)"

fun random_run ::
  "('c, 'a) mt_lib \<Rightarrow> ('f, 'a) taus_lib \<Rightarrow> (u64 \<times> 'a random_call) list \<Rightarrow> ('c, 'f) random_engine
   \<Rightarrow> ('a random_call \<times> (u32 + 'a)) list" where
  "random_run C F [] s = []"
| "random_run C F ((now, c) # cs) s =
     (let (r, s') = random_step C F now c s in (c, r) # random_run C F cs s')"

lemmas random_defs = engine_random_def engine_random_between_def fast_random_def fast_random_between_def
  get_common_generator_def get_fast_generator_def

lemma common_step_keeps_fast:
  "is_common c \<Longrightarrow> re_fast (snd (random_step C F now c s)) = re_fast s"
  by (cases c) (auto simp: random_defs split: prod.splits)

lemma fast_step_keeps_common:
  "\<not> is_common c \<Longrightarrow> re_common (snd (random_step C F now c s)) = re_common s"
  by (cases c) (auto simp: random_defs split: prod.splits)

lemma common_step_cong:
  assumes "is_common c" and "re_common s = re_common t"
  shows "fst (random_step C F now c s) = fst (random_step C F now c t) \<and>
         re_common (snd (random_step C F now c s)) = re_common (snd (random_step C F now c t))"
  using assms by (cases c) (auto simp: random_defs split: prod.splits)

lemma fast_step_cong:
  assumes "\<not> is_common c" and "re_fast s = re_fast t"
  shows "fst (random_step C F now c s) = fst (random_step C F now c t) \<and>
         re_fast (snd (random_step C F now c s)) = re_fast (snd (random_step C F now c t))"
  using assms by (cases c) (auto simp: random_defs split: prod.splits)

text \<open>
  What the requests of one generator return is what they return when the others are left out: P picks
  the requests, f the generator they use.
\<close>

lemma stream_of:
  assumes keep: "\<And>now c s. \<not> P c \<Longrightarrow> f (snd (random_step C F now c s)) = f s"
    and cong: "\<And>now c s t. P c \<Longrightarrow> f s = f t \<Longrightarrow>
      fst (random_step C F now c s) = fst (random_step C F now c t) \<and>
      f (snd (random_step C F now c s)) = f (snd (random_step C F now c t))"
  shows "f s = f t \<Longrightarrow>
    filter (\<lambda>x. P (fst x)) (random_run C F cs s) = random_run C F (filter (\<lambda>x. P (snd x)) cs) t"
proof (induction cs arbitrary: s t)
  case (Cons p cs)
  obtain now c where p: "p = (now, c)" by (cases p)
  show ?case
  proof (cases "P c")
    case True
    then show ?thesis
      using cong [OF True Cons.prems, of now] by (auto simp: p split: prod.splits intro!: Cons.IH)
  next
    case False
    then show ?thesis
      using keep [OF False, of now s] Cons.prems by (auto simp: p split: prod.splits intro!: Cons.IH)
  qed
qed simp

lemma common_stream:
  "re_common s = re_common t \<Longrightarrow>
   filter (\<lambda>x. is_common (fst x)) (random_run C F cs s) = random_run C F (filter (\<lambda>x. is_common (snd x)) cs) t"
  by (rule stream_of [where P = is_common and f = re_common, OF fast_step_keeps_common common_step_cong])

lemma fast_stream:
  "re_fast s = re_fast t \<Longrightarrow>
   filter (\<lambda>x. \<not> is_common (fst x)) (random_run C F cs s) = random_run C F (filter (\<lambda>x. \<not> is_common (snd x)) cs) t"
  by (rule stream_of [where P = "\<lambda>c. \<not> is_common c" and f = re_fast, OF common_step_keeps_fast fast_step_cong]) simp_all

section \<open>The clock counts once\<close>

definition both_made :: "('c, 'f) random_engine \<Rightarrow> bool" where
  "both_made s \<longleftrightarrow> re_common s \<noteq> None \<and> re_fast s \<noteq> None"

lemma step_ignores_clock:
  "both_made s \<Longrightarrow> random_step C F now c s = random_step C F now' c s \<and> both_made (snd (random_step C F now c s))"
  by (cases c) (auto simp: both_made_def random_defs split: prod.splits)

lemma run_ignores_clock:
  "both_made s \<Longrightarrow> map snd cs = map snd cs' \<Longrightarrow> random_run C F cs s = random_run C F cs' s"
proof (induction cs arbitrary: cs' s)
  case (Cons p cs)
  obtain now c where p: "p = (now, c)" by (cases p)
  obtain now' ds where q: "cs' = (now', c) # ds" "map snd cs = map snd ds"
    using Cons.prems(2) p by (cases cs') auto
  show ?case
    using step_ignores_clock [OF Cons.prems(1), of C F now c now'] Cons.IH [OF _ q(2)]
    by (auto simp: p q(1) split: prod.splits)
qed simp

section \<open>The seeds of init_generator\<close>

text \<open>
  Whatever the width of a generator's seed, init_generator fills 32 bits of it: a generator of 64
  bits is brought into one of at most \<open>2 ^ 32\<close> states.
\<close>

lemma init_generator_seeds:
  "card {fst (init_generator K C now rnd s) | now s. True} \<le> 2 ^ 32"
proof -
  have "{fst (init_generator K C now rnd s) | now s. True} \<subseteq> range (\<lambda>r :: u32. init_generator_with_seed K rnd (ucast r))"
    by (auto simp: init_generator_def split_def Let_def)
  then have "card {fst (init_generator K C now rnd s) | now s. True} \<le> card (range (\<lambda>r :: u32. init_generator_with_seed K rnd (ucast r)))"
    by (intro card_mono) auto
  also have "\<dots> \<le> card (UNIV :: u32 set)"
    by (rule card_image_le) simp
  finally show ?thesis
    by (simp add: card_word)
qed

end
