(* ===== verification/Spec2Isabelle.thy ===== *)
theory Spec2Isabelle
  imports GwWitness GwClose EchoServer DhAgree HelloProps NodeWitness ToolProps FbCodec RandomEngine
begin

text \<open>
  \<^bold>\<open>The program.\<close> The repository is the service layer of a game server framework. Its own core is the
  gateway (src/atframework/service/atgateway): clients connect over TCP or a pipe, speak the
  encrypted inner protocol, version 1, and their messages are forwarded over a bus to the servers
  behind the gateway. The parts, from the bottom up:

  \<^item> proto_base: the base class of a protocol, its flags, callbacks and contract with its engine;
  \<^item> the inner protocol: framing, encryption, the handshake with key exchange, reconnecting; and its
    export to C, with which clients and scripts use it (src/atframework/export/atgw_inner_v1_c);
  \<^item> session: one connection of a client, with its traffic counters and limits;
  \<^item> session_manager: the active sessions, the sessions that wait for a reconnect, timers, listening;
  \<^item> the gateway module: the callbacks that tie protocol objects, sessions and libuv together, the
    messages of the servers and the commands of the operator;
  \<^item> the etcd client (src/atframework/service/component/etcdcli), with which a service registers itself and
    finds the others: messages, requests, keepalives, watchers and the cluster that drives them;
  \<^item> the etcd module (src/atframework/service/component/modules), which puts a service under its keys and
    watches the nodes of others, and the proxy (src/atframework/service/atproxy), which keeps connections to
    the other proxies it learns of from the module;
  \<^item> around these, a server behind the gateway (src/src/echosvr) and a client in front of it
    (src/sample/atgw_cli_inner_hello).

  \<^bold>\<open>How they interact.\<close> libuv hands a session bytes (alloc, read) and finished writes; the session hands
  them to its protocol object; the protocol object calls back into the module (write, message, new
  session, reconnect, close, handshake done), which finds the session as the private data of the
  object and calls the manager; closing goes both ways. In the model the protocol object is reached
  from the gateway through the record \<open>proto_vt\<close> of its virtual functions, which run on the whole
  state, and the engine is reached from the protocol through the callbacks \<open>lk_cb\<close>, which run on the
  whole environment of the protocol object; each side is proved for everything the other may do
  as long as that keeps the relation of the first (\<open>gw_rel\<close>, \<open>core\<close>). GwInner puts the two together: the
  record of virtual functions runs the code of the inner protocol on the object of the session, its callbacks
  are the functions of the module, and an induction on the depth of these calls (GwWhole) discharges
  what each side assumed of the other, so that the contract holds of the whole gateway.

  The etcd client is independent of the gateway. Its cluster object owns the lease and the list of members;
  keepalives and watchers make their requests through it, and the HTTP client completes a request by a
  callback with a private pointer. A keepalive that fails is queued with the cluster, which retries it,
  the watchers and the pending deletions on its tick and when a lease comes in. The etcd module owns one
  client and turns the events of its watchers into nodes for its callbacks; the proxy is one of these,
  and keeps a list of checks that says which connection to look at next.

  \<^bold>\<open>Theories, bottom up\<close> (sources are under src/atframework/service/):

  \<^item> Prelude, FlagWord: machine types, byte codec, the state monad and the rules \<open>io_rel_*\<close> that carry a
    relation between states through a program; flag words, with the locale \<open>flag_word\<close> interpreted
    for every flag type of the sources.
  \<^item> ProtoBase, ProtoSpec: atgateway/protocols/proto_base.h and .cpp, and an abstract machine of what
    its comments say of writes, closing, the first handshake and messages (not of the flag IN_CALLBACK).
  \<^item> Schema, CryptConf, ProtoState, ProtoCrypt, ProtoWrite, ProtoHandshake, ProtoDispatch, ProtoDh,
    ProtoRead: atgateway/protocols/inner_v1/libatgw_proto_inner.cpp and .h, one definition per member
    function, and the tables of libatgw_proto_inner_generated.h as records. FbTables, FbCodec: the accessors,
    builders and verifiers of that header over the operations of the library on one table.
  \<^item> ProtoCore: what every operation of the protocol object keeps. ProtoFraming, ProtoSafety,
    ProtoProps, ProtoFunc, ProtoFlow: its properties; Examples: the instance of the witnesses.
  \<^item> ProtoInfo: the text of get_info. CExport: export/atgw_inner_v1_c/libatgw_inner_v1_c.cpp (beside service/),
    one definition per C function, over a context that is a protocol object or NULL. CExportProps: the
    life of a context from create to destroy, under any order of calls and setters.
  \<^item> ProtoCalm: the protocol object with an engine that finishes every write at once. ProtoAgree, ProtoMeet,
    HandshakeAgree: a client and a server that exchange the messages of a handshake with a direct secret, step by
    step. DhKeys, DhClient, DhServer, DhVerify, DhAgree: the same for a handshake with a key exchange.
  \<^item> HelloClient: the sample client, one definition per function of hello.cpp, over the functions of CExport. HelloCore:
    what its callbacks keep, at every depth. HelloProps: any sequence of calls of libuv.
  \<^item> IdAlloc: component/core/timestamp_id_allocator.h. RandomEngine: component/utility/random_engine.h and
    .cpp, over the generators of the library.
  \<^item> GwData, Session, SessionManager, Gateway: atgateway/session.cpp, session_manager.cpp and
    atgateway.cpp, one definition per member function; C++ pointers to sessions are indices into a
    heap of records.
  \<^item> GwCore: the relation every operation of the gateway keeps. GwSafety: any sequence of events.
    GwProps, GwManage: single operations. GwWitness: concrete states.
  \<^item> ProtoWorld: what the operations of a protocol object do to the world of their engine, with the locale
    \<open>engine\<close>. GwObjects: what the gateway does to its protocol objects, with the locales \<open>objects\<close> and
    \<open>all_objects\<close>. GwInner: the gateway with the inner protocol in it. GwWhole, GwHost, GwContract: the
    interfaces interpreted on it, at every depth. GwHostProps: its properties. GwClose: a close that the inner
    protocol reports at once. EchoServer: the handlers of the
    echo server (src/src/echosvr), with the way of a message to it and back.
  \<^item> EtcdJson: component/etcdcli/etcd_packer.cpp. EtcdData: the state of the client, pointers as indices.
    EtcdRequest: the flags and requests of etcd_cluster.cpp. EtcdKeepalive, EtcdWatcher, EtcdCluster:
    etcd_keepalive.cpp, etcd_watcher.cpp, the rest of etcd_cluster.cpp.
  \<^item> EtcdStream: the watch stream. EtcdTypes: the private data of requests over any sequence of calls.
    EtcdProps: single operations. EtcdWitness: concrete states. EtcdTools, ToolProps: the command line tools
    on the client (src/src/tools), and that the one that lists nodes ends.
  \<^item> NodeInfo, EtcdModule: component/modules/etcd_module.cpp, a state that contains the one of the client.
    Atproxy: atproxy/atproxy_manager.cpp, in functions on its state. ModuleProps, AtproxyProps: their
    properties. NodeWitness: concrete states.

  \<^bold>\<open>What the lemmas show.\<close> For the protocol: the dispatched frames do not depend on how the stream is cut,
  framing round trips, any sequence of calls keeps to the abstract machine (closes and handshakes reported
  once, one write at a time, no messages after a close), while the line of the contract on IN_CALLBACK is not kept
  (\<open>done_outside_callback\<close>); buffers offered to the engine have room,
  encryption pointers stay valid, a reconnect to an encrypted session needs its secret and one to a session without
  encryption needs nothing, the queue drains, both sides of a handshake end with the same key (also with a cipher that pads), a message is read as it was built; the contract also holds of a client of the C export over the whole life of a context, and
  of every context of the sample client. For the
  gateway: an invariant of the sessions over any sequence of events, closing is final, limits,
  reconnecting, broadcasting, timers; with the inner protocol in it, the contract of every object, what a
  connection is sent, and what of a client reaches the servers. For the etcd client: the watch stream is cut into its documents however
  it arrives, callbacks get the private data they cast to, key ranges and key-values, a granted lease starts
  every keepalive, where a watch resumes. For the
  module and the proxy: a key that holds the value of another node is left alone, the start waits for all
  checks, nodes are read as they were reported, no proxy is forgotten, which address is tried. Several theorems state what the code does where it is not what
  it means to do; the manifest lists them as findings.

  \<^bold>\<open>Bounds and fuel.\<close> Loops over data are structural or have a measure. Two pairs of functions call each
  other through the engine: try_write and write_done, and close_with_manager and the traffic limits.
  They take a depth; \<open>queue_drains\<close> shows that more than twice the length of the queue is enough for the first
  pair, and \<open>flooded_close_never_returns\<close> that no depth is enough for the second in the state it
  describes. The timer loops take a bound of the number of timers plus a constant; the loop over
  the watch stream takes the number of bytes, of which every turn takes one; the loop of the
  start of the etcd module runs over the turns of libuv it is given. The calls between the gateway and its protocol
  objects take a depth, and what is proved of them holds at every depth. Running out is
  recorded as a fault, never silently a result. The loops of broadcast_data and of the reset of the manager, over a
  map that the calls in their bodies may shrink, go over the sessions that are there at the start. Where C++ is undefined (a NULL pointer, an iterator
  that is gone, a failed assertion) a fault is recorded and the model goes on.

  \<^bold>\<open>Not modelled.\<close> Libraries are parameters with their documented behaviour as hypotheses: ciphers,
  Diffie-Hellman and random source, flatbuffers and protobuf, the buffer manager of atbus, libuv, the bus
  node, the clock. Out of memory, the lifetime given by shared_ptr, and other threads are not
  modelled. Logging is left out. Of the etcd
  client, JSON, base64 and libcurl are parameters, and the lifetime of its objects is not modelled but for
  the deletors, which it frees by hand. The turns of the event loop in the start of the etcd
  module and the answers of the bus node to the proxy are parameters. Setting up the crypto library and the main
  functions of the services only call others and are not modelled. A context that was destroyed is not used again, and a
  C function that is set from within a callback is seen by the next call only.
\<close>

end
